(* ===== verification/Prelude.thy ===== *)
theory Prelude
  imports Main "HOL-Library.Multiset" "HOL-Library.AList"
begin

text \<open>
  Shared vocabulary of the development: the collections of simplification rules that the
  component theories fill, the representation of Go maps, and the list, map and multiset
  lemmas that several components use.

  Go's \<^verbatim>\<open>map[string]V\<close> appears in two forms. A map that the code only looks up, writes and
  copies is a partial function (\<open>strmap\<close> when the values are strings). A map that the code
  ranges over is an association list (\<open>gomap\<close>), because Go visits the keys in an order that
  the language leaves open: every loop over such a map takes the order as a parameter
  (\<open>order\<close>), and the theorems hold for every order that is a permutation of the keys.
\<close>

named_theorems go_simps \<open>equations of the Go library functions\<close>
named_theorems label_simps \<open>the label and annotation keys and that they differ\<close>
named_theorems sev_simps \<open>the severity names and that they differ\<close>
named_theorems kube_simps \<open>accessors of Kubernetes objects\<close>

section \<open>Go maps\<close>

type_synonym strmap = "string \<rightharpoonup> string"
type_synonym 'v gomap = "(string \<times> 'v) list"
type_synonym order = "string list \<Rightarrow> string list"

text \<open>\<open>m[k]\<close> of a \<^verbatim>\<open>map[string]string\<close>: the empty string when the key is absent.\<close>

definition mget :: "strmap \<Rightarrow> string \<Rightarrow> string" where
  "mget m k = (case m k of None \<Rightarrow> [] | Some v \<Rightarrow> v)"

text \<open>\<open>for k, v := range m\<close>: the entries in the order the runtime chose.\<close>

definition range_map :: "order \<Rightarrow> 'v gomap \<Rightarrow> (string \<times> 'v) list" where
  "range_map ord m = List.map_filter (\<lambda>k. map_option (Pair k) (map_of m k)) (ord (map fst m))"

text \<open>What the language promises of the order: every key once.\<close>

definition perm_order :: "order \<Rightarrow> bool" where
  "perm_order ord \<longleftrightarrow> (\<forall>ks. mset (ord ks) = mset ks)"

lemma mget_Some [simp]: "m k = Some v \<Longrightarrow> mget m k = v"
  by (simp add: mget_def)

lemma mget_None [simp]: "m k = None \<Longrightarrow> mget m k = []"
  by (simp add: mget_def)

lemma perm_order_set [simp]: "perm_order ord \<Longrightarrow> set (ord ks) = set ks"
  by (metis perm_order_def set_mset_mset)

lemma perm_order_distinct [simp]: "perm_order ord \<Longrightarrow> distinct (ord ks) = distinct ks"
  by (metis perm_order_def mset_eq_imp_distinct_iff)

lemma perm_order_length [simp]: "perm_order ord \<Longrightarrow> length (ord ks) = length ks"
  by (metis perm_order_def size_mset)

lemma perm_order_id [simp]: "perm_order (\<lambda>ks. ks)"
  by (simp add: perm_order_def)

lemma perm_order_rev [simp]: "perm_order rev"
  by (simp add: perm_order_def)

lemma map_filter_alist:
  assumes "distinct (map fst m)"
  shows "List.map_filter (\<lambda>k. map_option (Pair k) (map_of m k)) (map fst m) = m"
proof -
  have "List.map_filter (\<lambda>k. map_option (Pair k) (map_of m k)) (map fst xs) = xs"
    if "set xs \<subseteq> set m" for xs
    using that assms
  proof (induction xs)
    case Nil
    then show ?case by (simp add: List.map_filter_def)
  next
    case (Cons x xs)
    then have eq: "map_of m (fst x) = Some (snd x)" and sub: "set xs \<subseteq> set m" by auto
    have "List.map_filter (\<lambda>k. map_option (Pair k) (map_of m k)) (map fst xs) = xs"
      using Cons.IH sub assms by blast
    then show ?case by (simp only: list.map map_filter_simps eq) simp
  qed
  then show ?thesis by blast
qed

lemma map_filter_mem: "y \<in> set (List.map_filter f xs) \<longleftrightarrow> Some y \<in> f ` set xs"
  by (induction xs) (auto simp: List.map_filter_simps split: option.splits)

lemma mset_map_filter: "mset (List.map_filter f xs) =
    image_mset (\<lambda>x. the (f x)) (filter_mset (\<lambda>x. f x \<noteq> None) (mset xs))"
  by (simp add: List.map_filter_def comp_def mset_filter)

lemma mset_map_filter_cong: "mset xs = mset ys \<Longrightarrow>
    mset (List.map_filter f xs) = mset (List.map_filter f ys)"
  by (simp add: mset_map_filter)

lemma range_map_mset:
  assumes "perm_order ord" and "distinct (map fst m)"
  shows "mset (range_map ord m) = mset m"
proof -
  have "mset (range_map ord m) =
      mset (List.map_filter (\<lambda>k. map_option (Pair k) (map_of m k)) (map fst m))"
    unfolding range_map_def using assms(1)
    by (intro mset_map_filter_cong) (simp add: perm_order_def)
  then show ?thesis using map_filter_alist [OF assms(2)] by simp
qed

lemma range_map_set:
  assumes "perm_order ord" and "distinct (map fst m)"
  shows "set (range_map ord m) = set m"
  using range_map_mset [OF assms] by (metis set_mset_mset)

lemma range_map_subset: "set (range_map ord m) \<subseteq> set m"
  by (auto simp: range_map_def List.map_filter_def dest: map_of_SomeD)

lemma range_map_keys:
  assumes "perm_order ord" and "distinct (map fst m)"
  shows "set (map fst (range_map ord m)) = fst ` set m"
  using range_map_set [OF assms] by simp

lemma range_map_distinct:
  assumes "perm_order ord" and "distinct (map fst m)"
  shows "distinct (map fst (range_map ord m))"
proof -
  have "mset (map fst (range_map ord m)) = mset (map fst m)"
    using range_map_mset [OF assms] by simp
  then show ?thesis using assms(2) by (metis mset_eq_imp_distinct_iff)
qed

lemma perm_order_Nil [simp]: "perm_order ord \<Longrightarrow> ord [] = []"
  unfolding perm_order_def by (metis mset_zero_iff)

lemma perm_order_single [simp]: "perm_order ord \<Longrightarrow> ord [x] = [x]"
proof -
  assume "perm_order ord"
  then have "mset (ord [x]) = {#x#}" by (simp add: perm_order_def)
  then show ?thesis by simp
qed

lemma range_map_single [simp]: "perm_order ord \<Longrightarrow> range_map ord [(k, v)] = [(k, v)]"
  by (simp add: range_map_def List.map_filter_def)

lemma range_map_Nil [simp]: "perm_order ord \<Longrightarrow> range_map ord [] = []"
  by (simp add: range_map_def List.map_filter_def)

lemma range_map_id: "distinct (map fst m) \<Longrightarrow> range_map (\<lambda>ks. ks) m = m"
  by (simp add: range_map_def map_filter_alist)

section \<open>Association lists as Go maps\<close>

lemma distinct_update_keys: "distinct (map fst m) \<Longrightarrow> distinct (map fst (AList.update k v m))"
  by (rule distinct_update)

lemma update_keys_set: "fst ` set (AList.update k v m) = insert k (fst ` set m)"
  using dom_update [of k v m] by (simp add: dom_map_of_conv_image_fst)

lemma map_of_update: "map_of (AList.update k v m) = (map_of m)(k \<mapsto> v)"
  by (rule update_conv')

lemma update_fresh: "k \<notin> fst ` set m \<Longrightarrow> AList.update k v m = m @ [(k, v)]"
  by (induction m) auto

section \<open>Lists\<close>

text \<open>A loop that stops at the first error, over a list.\<close>

fun for_each :: "('a \<Rightarrow> 's \<Rightarrow> 'e option \<times> 's) \<Rightarrow> 'a list \<Rightarrow> 's \<Rightarrow> 'e option \<times> 's" where
  "for_each f [] s = (None, s)"
| "for_each f (x # xs) s =
     (case f x s of (Some e, s') \<Rightarrow> (Some e, s') | (None, s') \<Rightarrow> for_each f xs s')"

lemma for_each_append: "for_each f (xs @ ys) s =
    (case for_each f xs s of (Some e, s') \<Rightarrow> (Some e, s') | (None, s') \<Rightarrow> for_each f ys s')"
  by (induction xs arbitrary: s) (auto split: prod.splits option.splits)

text \<open>An invariant of the body is an invariant of the loop.\<close>

lemma for_each_inv:
  assumes "\<And>x s. x \<in> set xs \<Longrightarrow> I s \<Longrightarrow> I (snd (f x s))" and "I s"
  shows "I (snd (for_each f xs s))"
  using assms
proof (induction xs arbitrary: s)
  case Nil
  then show ?case by simp
next
  case (Cons x xs)
  obtain r s' where f: "f x s = (r, s')" by fastforce
  have "I s'" using Cons.prems(1) [of x s] Cons.prems(2) f by simp
  with Cons.IH [of s'] Cons.prems(1) f show ?case
    by (cases r) auto
qed

text \<open>Mapping a fallible function over a list, first error wins.\<close>

fun map_err :: "('a \<Rightarrow> 'e + 'b) \<Rightarrow> 'a list \<Rightarrow> 'e + 'b list" where
  "map_err f [] = Inr []"
| "map_err f (x # xs) =
     (case f x of Inl e \<Rightarrow> Inl e
      | Inr y \<Rightarrow> (case map_err f xs of Inl e \<Rightarrow> Inl e | Inr ys \<Rightarrow> Inr (y # ys)))"

lemma map_err_Inr_iff: "map_err f xs = Inr ys \<longleftrightarrow> list_all2 (\<lambda>x y. f x = Inr y) xs ys"
proof (induction xs arbitrary: ys)
  case Nil
  then show ?case by auto
next
  case (Cons x xs)
  then show ?case
    by (cases "map_err f xs") (auto simp: list_all2_Cons1 split: sum.splits)
qed

lemma map_err_Inr_length: "map_err f xs = Inr ys \<Longrightarrow> length ys = length xs"
  by (simp add: map_err_Inr_iff list_all2_lengthD)

lemma length_filter_partition:
  "length xs = length (filter P xs) + length (filter (\<lambda>x. \<not> P x) xs)"
  by (rule sum_length_filter_compl [symmetric])

lemma sum_list_mset_cong: "mset xs = mset ys \<Longrightarrow> sum_list xs = (sum_list ys :: int)"
  by (metis sum_mset_sum_list)

end
