(* ===== verification/Job_Pool.thy ===== *)
theory Job_Pool
  imports Prelude
begin

text \<open>
  What the operator promises about its scan jobs, with no cluster in sight: a pool of jobs under a limit, and workers that first find
  room in the pool and later add their job. Between the two steps anything may happen to the pool, so the worker holds
  a ticket, and the number of jobs together with the tickets is what stays bounded.
\<close>

type_synonym ('k, 'w) pool = "'k set \<times> 'w set"

inductive pool_step :: "int \<Rightarrow> 'w set \<Rightarrow> ('k, 'w) pool \<Rightarrow> ('k, 'w) pool \<Rightarrow> bool" for limit workers where
  take: "w \<in> workers \<Longrightarrow> w \<notin> tickets \<Longrightarrow> int (card jobs) < limit \<Longrightarrow>
    pool_step limit workers (jobs, tickets) (jobs, insert w tickets)"
| add: "w \<in> tickets \<Longrightarrow> jobs' \<subseteq> insert k jobs \<Longrightarrow>
    pool_step limit workers (jobs, tickets) (jobs', tickets - {w})"
| remove: "jobs' \<subseteq> jobs \<Longrightarrow> pool_step limit workers (jobs, tickets) (jobs', tickets)"

definition pool_inv :: "'w set \<Rightarrow> int \<Rightarrow> ('k, 'w) pool \<Rightarrow> bool" where
  "pool_inv workers bound p \<longleftrightarrow> finite (fst p) \<and> snd p \<subseteq> workers \<and> int (card (fst p)) + int (card (snd p)) \<le> bound"

lemma pool_step_inv:
  assumes "pool_step limit workers p q" and "pool_inv workers bound p" and "finite workers"
    and "limit + int (card workers) - 1 \<le> bound"
  shows "pool_inv workers bound q"
  using assms(1,2)
proof cases
  case (take w tickets jobs)
  then have "insert w tickets \<subseteq> workers" using assms(2) by (simp add: pool_inv_def)
  moreover from this have "card (insert w tickets) \<le> card workers" by (intro card_mono assms(3))
  ultimately show ?thesis using take assms(2,4) by (auto simp: pool_inv_def)
next
  case (add w tickets jobs' k jobs)
  then have fin: "finite jobs" "finite tickets"
    using assms(2,3) by (auto simp: pool_inv_def intro: finite_subset)
  have "card jobs' \<le> card (insert k jobs)" using add(4) fin by (intro card_mono) auto
  then have "card jobs' \<le> Suc (card jobs)" using card_insert_le_m1 [of "Suc (card jobs)" jobs k] by simp
  moreover have "Suc (card (tickets - {w})) = card tickets" using add(3) fin by (intro card_Suc_Diff1)
  ultimately show ?thesis using add fin assms(2) by (auto simp: pool_inv_def intro: finite_subset)
next
  case (remove jobs' jobs tickets)
  then have "card jobs' \<le> card jobs" using assms(2) by (auto simp: pool_inv_def intro: card_mono)
  then show ?thesis using remove assms(2) by (auto simp: pool_inv_def intro: finite_subset)
qed

text \<open>From a pool without tickets, the jobs never exceed the limit by as many as there are workers.\<close>

lemma pool_bounded:
  assumes "(pool_step limit workers)\<^sup>*\<^sup>* (jobs0, {}) (jobs, tickets)" and "finite workers" and "finite jobs0"
  shows "int (card jobs) \<le> max (int (card jobs0)) (limit + int (card workers) - 1)"
proof -
  let ?b = "max (int (card jobs0)) (limit + int (card workers) - 1)"
  have "pool_inv workers ?b (jobs, tickets)"
    using assms(1)
  proof (induction rule: rtranclp_induct)
    case base
    then show ?case using assms(3) by (simp add: pool_inv_def)
  next
    case (step p q)
    then show ?case using pool_step_inv [OF _ _ assms(2)] by fastforce
  qed
  then show ?thesis by (simp add: pool_inv_def)
qed

end
