(* ===== verification/Go_Error.thy ===== *)
theory Go_Error
  imports Prelude
begin

text \<open>
  Go's \<^verbatim>\<open>error\<close> values as the code builds and inspects them. The Kubernetes API answers
  with a status error, of which the code distinguishes three reasons; the package-level
  sentinel errors are constructors; \<^verbatim>\<open>fmt.Errorf\<close> without \<^verbatim>\<open>%w\<close> makes a plain message and
  with \<^verbatim>\<open>%w\<close> wraps its cause. \<^verbatim>\<open>errors.Is\<close>, and with it the API's \<^verbatim>\<open>IsNotFound\<close> and
  \<^verbatim>\<open>IsAlreadyExists\<close>, look through every wrapping. A nil error is \<open>None\<close> where a function
  returns only an error, and the right-hand side of the sum where it also returns a value.
\<close>

datatype error =
    NotFound
  | AlreadyExists
  | ApiConflict
  | ApiError string
  | ErrReplicaSetNotFound
  | ErrNoRunningPods
  | ErrUnSupportedKind
  | podControlledByJobNotFoundErr
  | ErrTimeout
  | ErrNotFound
  | ErrUnauthorized
  | Errorf string
  | Wrap string error

fun errors_Is :: "error \<Rightarrow> error \<Rightarrow> bool" where
  "errors_Is (Wrap m e) t = (Wrap m e = t \<or> errors_Is e t)"
| "errors_Is e t = (e = t)"

abbreviation IsNotFound :: "error \<Rightarrow> bool" where
  "IsNotFound e \<equiv> errors_Is e NotFound"

abbreviation IsAlreadyExists :: "error \<Rightarrow> bool" where
  "IsAlreadyExists e \<equiv> errors_Is e AlreadyExists"

text \<open>\<open>IsPodControlledByJobNotFound\<close> of \<^verbatim>\<open>pkg/kube/logs.go\<close>.\<close>

definition IsPodControlledByJobNotFound :: "error \<Rightarrow> bool" where
  "IsPodControlledByJobNotFound e = errors_Is e podControlledByJobNotFoundErr"

text \<open>
  Sequencing of calls that return only an error: \<^verbatim>\<open>if err := f(); err != nil { return err }\<close>.
\<close>

definition and_then :: "error option \<times> 's \<Rightarrow> ('s \<Rightarrow> error option \<times> 's) \<Rightarrow> error option \<times> 's" where
  "and_then r f = (case r of (Some e, s) \<Rightarrow> (Some e, s) | (None, s) \<Rightarrow> f s)"

text \<open>Wrapping the error of a call, and dropping the value of a successful one.\<close>

definition wrap_err :: "string \<Rightarrow> error option \<times> 's \<Rightarrow> error option \<times> 's" where
  "wrap_err m r = (case r of (Some e, s) \<Rightarrow> (Some (Wrap m e), s) | (None, s) \<Rightarrow> (None, s))"

definition only_err :: "(error + 'a) \<times> 's \<Rightarrow> error option \<times> 's" where
  "only_err r = (case r of (Inl e, s) \<Rightarrow> (Some e, s) | (Inr _, s) \<Rightarrow> (None, s))"

text \<open>\<^verbatim>\<open>if err != nil && !p(err) { return err }; return nil\<close>: an error of the accepted class is dropped.\<close>

definition ignore_err :: "(error \<Rightarrow> bool) \<Rightarrow> error option \<times> 's \<Rightarrow> error option \<times> 's" where
  "ignore_err p r = (case r of (Some e, s) \<Rightarrow> if p e then (None, s) else (Some e, s)
     | (None, s) \<Rightarrow> (None, s))"

lemma and_then_None [simp]: "and_then (None, s) f = f s"
  by (simp add: and_then_def)

lemma and_then_Some [simp]: "and_then (Some e, s) f = (Some e, s)"
  by (simp add: and_then_def)

lemma wrap_err_simps [simp]: "wrap_err m (Some e, s) = (Some (Wrap m e), s)"
  "wrap_err m (None, s) = (None, s)"
  by (simp_all add: wrap_err_def)

lemma only_err_simps [simp]: "only_err (Inl e, s) = (Some e, s)" "only_err (Inr x, s) = (None, s)"
  by (simp_all add: only_err_def)

lemma ignore_err_None [simp]: "ignore_err p (None, s) = (None, s)"
  by (simp add: ignore_err_def)

lemma and_then_None_iff: "and_then r f = (None, s') \<longleftrightarrow> (\<exists>s1. r = (None, s1) \<and> f s1 = (None, s'))"
  by (auto simp: and_then_def split: prod.splits option.splits)

lemma wrap_err_None_iff [simp]: "wrap_err m r = (None, s) \<longleftrightarrow> r = (None, s)"
  by (auto simp: wrap_err_def split: prod.splits option.splits)

lemma only_err_None_iff: "only_err r = (None, s) \<longleftrightarrow> (\<exists>x. r = (Inr x, s))"
  by (auto simp: only_err_def split: prod.splits sum.splits)

lemma snd_wrap_err [simp]: "snd (wrap_err m r) = snd r"
  by (auto simp: wrap_err_def split: prod.splits option.splits)

lemma snd_ignore_err [simp]: "snd (ignore_err p r) = snd r"
  by (auto simp: ignore_err_def split: prod.splits option.splits)

lemma snd_only_err [simp]: "snd (only_err r) = snd r"
  by (auto simp: only_err_def split: prod.splits sum.splits)

lemma errors_Is_Wrap_sentinel [simp]:
  "\<forall>m' e'. t \<noteq> Wrap m' e' \<Longrightarrow> errors_Is (Wrap m e) t = errors_Is e t"
  by auto

text \<open>No error is both "not found" and "already exists": a chain ends in one cause.\<close>

lemma IsNotFound_not_AlreadyExists: "IsNotFound e \<Longrightarrow> \<not> IsAlreadyExists e"
  by (induction e) auto

lemma IsNotFound_not_pod: "IsNotFound e \<Longrightarrow> \<not> IsPodControlledByJobNotFound e"
  by (induction e) (auto simp: IsPodControlledByJobNotFound_def)

end
