(* ===== verification/Api_Types.thy ===== *)
theory Api_Types
  imports Go_Lib
begin

text \<open>
  The data of the custom resources (\<^verbatim>\<open>pkg/apis/aquasecurity/v1alpha1\<close>): severities,
  vulnerability reports, configuration audit reports, CIS benchmark reports, kube-hunter
  reports and compliance reports. Each Go struct is a record with the struct's fields; the
  \<^verbatim>\<open>TypeMeta\<close> and \<^verbatim>\<open>ObjectMeta\<close> that a Kubernetes object adds around such data are in
  theory \<open>Kube_Api\<close>. A Go \<^verbatim>\<open>int\<close> counter is an \<open>int\<close>: the counters count elements of
  lists held in memory, so 64 bits are never exhausted. A \<^verbatim>\<open>*float64\<close> is only copied and is
  kept as its 64 bits.
\<close>

section \<open>Severity\<close>

type_synonym Severity = string

definition SeverityCritical :: Severity where [sev_simps]: "SeverityCritical = ''CRITICAL''"
definition SeverityHigh :: Severity where [sev_simps]: "SeverityHigh = ''HIGH''"
definition SeverityMedium :: Severity where [sev_simps]: "SeverityMedium = ''MEDIUM''"
definition SeverityLow :: Severity where [sev_simps]: "SeverityLow = ''LOW''"
definition SeverityNone :: Severity where [sev_simps]: "SeverityNone = ''NONE''"
definition SeverityUnknown :: Severity where [sev_simps]: "SeverityUnknown = ''UNKNOWN''"

definition StringToSeverity :: "string \<Rightarrow> error + Severity" where
  "StringToSeverity name =
     (let s = ToUpper name in
      if s \<in> set [''CRITICAL'', ''HIGH'', ''MEDIUM'', ''LOW'', ''NONE'', ''UNKNOWN''] then Inr s
      else if s = ''DANGER'' then Inr SeverityCritical
      else if s = ''WARNING'' then Inr SeverityLow
      else Inl (Errorf (''unrecognized name literal: '' @ name)))"

definition severities :: "Severity list" where
  "severities = [SeverityCritical, SeverityHigh, SeverityMedium, SeverityLow, SeverityNone,
     SeverityUnknown]"

record Scanner =
  sc_Name :: string
  sc_Vendor :: string
  sc_Version :: string

section \<open>Vulnerability reports\<close>

record VulnerabilitySummary =
  vs_CriticalCount :: int
  vs_HighCount :: int
  vs_MediumCount :: int
  vs_LowCount :: int
  vs_UnknownCount :: int
  vs_NoneCount :: int

record Registry =
  rg_Server :: string

record Artifact =
  af_Repository :: string
  af_Digest :: string
  af_Tag :: string
  af_MimeType :: string

record Vulnerability =
  vu_VulnerabilityID :: string
  vu_Resource :: string
  vu_InstalledVersion :: string
  vu_FixedVersion :: string
  vu_Severity :: Severity
  vu_Title :: string
  vu_Description :: string
  vu_PrimaryLink :: string
  vu_Links :: "string list"
  vu_Score :: "64 word option"

record VulnerabilityReportData =
  vr_UpdateTimestamp :: Time
  vr_Scanner :: Scanner
  vr_Registry :: Registry
  vr_Artifact :: Artifact
  vr_Summary :: VulnerabilitySummary
  vr_Vulnerabilities :: "Vulnerability list"

section \<open>Configuration audit reports\<close>

record ConfigAuditSummary =
  cas_CriticalCount :: int
  cas_HighCount :: int
  cas_MediumCount :: int
  cas_LowCount :: int

record CheckScope =
  scope_Type :: string
  scope_Value :: string

record Check =
  ck_ID :: string
  ck_Title :: string
  ck_Description :: string
  ck_Severity :: Severity
  ck_Category :: string
  ck_Messages :: "string list"
  ck_Remediation :: string
  ck_Success :: bool
  ck_Scope :: "CheckScope option"

record ConfigAuditReportData =
  car_UpdateTimestamp :: Time
  car_Scanner :: Scanner
  car_Summary :: ConfigAuditSummary
  car_Checks :: "Check list"
  car_PodChecks :: "Check list"
  car_ContainerChecks :: "Check list gomap"

definition zero_ConfigAuditSummary :: ConfigAuditSummary where
  "zero_ConfigAuditSummary = \<lparr>cas_CriticalCount = 0, cas_HighCount = 0, cas_MediumCount = 0,
     cas_LowCount = 0\<rparr>"

definition summary_step :: "ConfigAuditSummary \<Rightarrow> Check \<Rightarrow> ConfigAuditSummary" where
  "summary_step summary check =
     (if ck_Success check then summary
      else if ck_Severity check = SeverityCritical
        then summary\<lparr>cas_CriticalCount := cas_CriticalCount summary + 1\<rparr>
      else if ck_Severity check = SeverityHigh
        then summary\<lparr>cas_HighCount := cas_HighCount summary + 1\<rparr>
      else if ck_Severity check = SeverityMedium
        then summary\<lparr>cas_MediumCount := cas_MediumCount summary + 1\<rparr>
      else if ck_Severity check = SeverityLow
        then summary\<lparr>cas_LowCount := cas_LowCount summary + 1\<rparr>
      else summary)"

definition ConfigAuditSummaryFromChecks :: "Check list \<Rightarrow> ConfigAuditSummary" where
  "ConfigAuditSummaryFromChecks checks = foldl summary_step zero_ConfigAuditSummary checks"

section \<open>CIS Kubernetes Benchmark reports\<close>

record CISKubeBenchResult =
  kbr_TestNumber :: string
  kbr_TestDesc :: string
  kbr_Remediation :: string
  kbr_Status :: string
  kbr_Scored :: bool

record CISKubeBenchTests =
  kbt_Section :: string
  kbt_Pass :: int
  kbt_Fail :: int
  kbt_Warn :: int
  kbt_Info :: int
  kbt_Desc :: string
  kbt_Results :: "CISKubeBenchResult list"

record CISKubeBenchSection =
  kbs_ID :: string
  kbs_Version :: string
  kbs_Text :: string
  kbs_NodeType :: string
  kbs_TotalPass :: int
  kbs_TotalFail :: int
  kbs_TotalWarn :: int
  kbs_TotalInfo :: int
  kbs_Tests :: "CISKubeBenchTests list"

record CISKubeBenchSummary =
  kb_PassCount :: int
  kb_InfoCount :: int
  kb_WarnCount :: int
  kb_FailCount :: int

record CISKubeBenchReportData =
  kb_UpdateTimestamp :: Time
  kb_Scanner :: Scanner
  kb_Summary :: CISKubeBenchSummary
  kb_Sections :: "CISKubeBenchSection list"

section \<open>Compliance reports\<close>

type_synonym ControlStatus = string

definition FailStatus :: ControlStatus where [sev_simps]: "FailStatus = ''FAIL''"
definition PassStatus :: ControlStatus where [sev_simps]: "PassStatus = ''PASS''"
definition WarnStatus :: ControlStatus where [sev_simps]: "WarnStatus = ''WARN''"

record ClusterComplianceSummary =
  ccs_PassCount :: int
  ccs_FailCount :: int

record SpecCheck =
  spc_ID :: string

record Mapping =
  mp_Scanner :: string
  mp_Checks :: "SpecCheck list"

record Control =
  ct_ID :: string
  ct_Name :: string
  ct_Description :: string
  ct_Kinds :: "string list"
  ct_Mapping :: Mapping
  ct_Severity :: Severity
  ct_DefaultStatus :: ControlStatus

record ReportSpec =
  rs_Name :: string
  rs_Description :: string
  rs_Cron :: string
  rs_Version :: string
  rs_Controls :: "Control list"

record ControlCheck =
  cc_ID :: string
  cc_Name :: string
  cc_Description :: string
  cc_PassTotal :: int
  cc_FailTotal :: int
  cc_Severity :: Severity

record ReportStatus =
  st_UpdateTimestamp :: Time
  st_Summary :: ClusterComplianceSummary
  st_ControlChecks :: "ControlCheck list"

record ResultDetails =
  rd_Name :: string
  rd_Namespace :: string
  rd_Msg :: string
  rd_Status :: ControlStatus

record ScannerCheckResult =
  scr_ObjectType :: string
  scr_ID :: string
  scr_Remediation :: string
  scr_Details :: "ResultDetails list"

record ControlCheckDetails =
  ccd_ID :: string
  ccd_Name :: string
  ccd_Description :: string
  ccd_Severity :: Severity
  ccd_ScannerCheckResult :: "ScannerCheckResult list"

record Compliance =
  cm_Name :: string
  cm_Description :: string
  cm_Version :: string

record ClusterComplianceDetailReportData =
  cdr_UpdateTimestamp :: Time
  cdr_Type :: Compliance
  cdr_Summary :: ClusterComplianceSummary
  cdr_ControlChecks :: "ControlCheckDetails list"

section \<open>kube-hunter reports\<close>

definition KubeHunterSeverityHigh :: Severity where "KubeHunterSeverityHigh = ''high''"
definition KubeHunterSeverityMedium :: Severity where "KubeHunterSeverityMedium = ''medium''"
definition KubeHunterSeverityLow :: Severity where "KubeHunterSeverityLow = ''low''"

record KubeHunterSummary =
  khs_HighCount :: int
  khs_MediumCount :: int
  khs_LowCount :: int
  khs_UnknownCount :: int

record KubeHunterVulnerability =
  khv_Location :: string
  khv_ID :: string
  khv_Category :: string
  khv_Severity :: Severity
  khv_Vulnerability :: string
  khv_Description :: string
  khv_Evidence :: string
  khv_Hunter :: string
  khv_AvdReference :: string

record KubeHunterReportData =
  khr_UpdateTimestamp :: Time
  khr_Scanner :: Scanner
  khr_Summary :: KubeHunterSummary
  khr_Vulnerabilities :: "KubeHunterVulnerability list"

section \<open>Properties\<close>

text \<open>The counting contract of a report summary: one counter per severity.\<close>

definition failed_with :: "Severity \<Rightarrow> Check list \<Rightarrow> Check list" where
  "failed_with sev checks = filter (\<lambda>c. \<not> ck_Success c \<and> ck_Severity c = sev) checks"

lemma severity_distinct: "distinct severities"
  by (simp add: severities_def sev_simps)

lemma status_distinct: "distinct [FailStatus, PassStatus, WarnStatus]"
  by (simp add: sev_simps)

lemma foldl_summary_step:
  "foldl summary_step s checks =
     \<lparr>cas_CriticalCount = cas_CriticalCount s + int (length (failed_with SeverityCritical checks)),
      cas_HighCount = cas_HighCount s + int (length (failed_with SeverityHigh checks)),
      cas_MediumCount = cas_MediumCount s + int (length (failed_with SeverityMedium checks)),
      cas_LowCount = cas_LowCount s + int (length (failed_with SeverityLow checks))\<rparr>"
proof (induction checks arbitrary: s)
  case Nil
  then show ?case by (simp add: failed_with_def)
next
  case (Cons c checks)
  then show ?case
    by (simp add: summary_step_def failed_with_def sev_simps)
qed

text \<open>The result of \<open>StringToSeverity\<close> is one of the declared severities.\<close>

lemma StringToSeverity_range: "StringToSeverity name = Inr s \<Longrightarrow> s \<in> set severities"
  by (auto simp: StringToSeverity_def severities_def sev_simps Let_def split: if_splits)

lemma StringToSeverity_canonical: "s \<in> set severities \<Longrightarrow> StringToSeverity s = Inr s"
  by (auto simp: StringToSeverity_def severities_def sev_simps ToUpper_def upper_char_def
      is_lower_def)

end
