(* ===== verification/Kube_Api.thy ===== *)
theory Kube_Api
  imports Api_Types
begin

text \<open>
  Kubernetes objects as the program handles them, and the API client it calls. Both the
  object types (\<^verbatim>\<open>k8s.io/api\<close>) and the client (\<^verbatim>\<open>sigs.k8s.io/controller-runtime\<close>) are
  outside the repository: the types are reduced to the fields the code reads or writes, with
  the rest of a pod specification or of an audited resource kept as one opaque field, and the
  client is a parameter, a record of functions over an unspecified cluster state \<open>'s\<close>. Nothing
  is known of those functions unless a theorem names one of the laws at the end of the theory.

  A Go object is a \<^verbatim>\<open>TypeMeta\<close> kind (blank until \<^verbatim>\<open>ensureGVK\<close> sets it), an \<^verbatim>\<open>ObjectMeta\<close> and
  a body; the constructor of the body is the object's Go type.
\<close>

section \<open>Objects\<close>

record OwnerReference =
  or_Kind :: string
  or_Name :: string
  or_UID :: string
  or_Controller :: bool
  or_BlockOwnerDeletion :: "bool option"

record ObjectMeta =
  om_Name :: string
  om_Namespace :: string
  om_UID :: string
  om_Labels :: strmap
  om_Annotations :: strmap
  om_OwnerReferences :: "OwnerReference list"
  om_CreationTimestamp :: Time
  om_DeletionTimestamp :: "Time option"

definition empty_meta :: ObjectMeta where
  "empty_meta = \<lparr>om_Name = [], om_Namespace = [], om_UID = [], om_Labels = Map.empty,
     om_Annotations = Map.empty, om_OwnerReferences = [], om_CreationTimestamp = 0,
     om_DeletionTimestamp = None\<rparr>"

text \<open>
  Containers and pods with the fields that the scanners' jobs set. Quantities of resources are
  their texts; \<open>co_Rest\<close> and \<open>ps_Rest\<close> stand for the fields of a scanned workload that only its
  hash depends on.
\<close>

datatype EnvValue = EnvText string
  | EnvConfigMapKey string string "bool option"
  | EnvSecretKey string string "bool option"

record EnvVar =
  ev_Name :: string
  ev_Value :: EnvValue

record VolumeMount =
  vm_Name :: string
  vm_MountPath :: string
  vm_SubPath :: string
  vm_ReadOnly :: bool

datatype VolumeSource = HostPath string | EmptyDir string
  | ConfigMapVolume string "(string \<times> string) list"
  | SecretVolume string "(string \<times> string) list"

record Volume =
  vo_Name :: string
  vo_Source :: VolumeSource

record SecurityContext =
  sx_Privileged :: "bool option"
  sx_AllowPrivilegeEscalation :: "bool option"
  sx_AddCapabilities :: "string list"
  sx_DropCapabilities :: "string list"
  sx_ReadOnlyRootFilesystem :: "bool option"
  sx_RunAsUser :: "int option"

record PodSecurityContext =
  psx_RunAsUser :: "int option"
  psx_RunAsGroup :: "int option"
  psx_SeccompProfile :: "string option"

record ResourceRequirements =
  rr_Requests :: strmap
  rr_Limits :: strmap

record Container =
  co_Name :: string
  co_Image :: string
  co_ImagePullPolicy :: string
  co_TerminationMessagePolicy :: string
  co_Env :: "EnvVar list"
  co_Command :: "string list"
  co_Args :: "string list"
  co_Resources :: ResourceRequirements
  co_VolumeMounts :: "VolumeMount list"
  co_SecurityContext :: "SecurityContext option"
  co_Rest :: string

definition empty_Resources :: ResourceRequirements where
  "empty_Resources = \<lparr>rr_Requests = Map.empty, rr_Limits = Map.empty\<rparr>"

definition empty_Container :: Container where
  "empty_Container = \<lparr>co_Name = [], co_Image = [], co_ImagePullPolicy = [],
     co_TerminationMessagePolicy = [], co_Env = [], co_Command = [], co_Args = [],
     co_Resources = empty_Resources, co_VolumeMounts = [], co_SecurityContext = None, co_Rest = []\<rparr>"

text \<open>The affinity is the list of required node selector expressions: key, operator and values.\<close>

record PodSpec =
  ps_InitContainers :: "Container list"
  ps_Containers :: "Container list"
  ps_ServiceAccountName :: string
  ps_AutomountServiceAccountToken :: "bool option"
  ps_ImagePullSecrets :: "string list"
  ps_Tolerations :: "string list"
  ps_NodeName :: string
  ps_Affinity :: "(string \<times> string \<times> string list) list"
  ps_RestartPolicy :: string
  ps_HostPID :: bool
  ps_Volumes :: "Volume list"
  ps_SecurityContext :: "PodSecurityContext option"
  ps_Rest :: string

definition empty_PodSpec :: PodSpec where
  "empty_PodSpec = \<lparr>ps_InitContainers = [], ps_Containers = [], ps_ServiceAccountName = [],
     ps_AutomountServiceAccountToken = None, ps_ImagePullSecrets = [], ps_Tolerations = [],
     ps_NodeName = [], ps_Affinity = [], ps_RestartPolicy = [], ps_HostPID = False, ps_Volumes = [],
     ps_SecurityContext = None, ps_Rest = []\<rparr>"

record ContainerStateTerminated =
  ts_ExitCode :: int
  ts_Reason :: string
  ts_Message :: string

record ContainerStatus =
  cst_Name :: string
  cst_Terminated :: "ContainerStateTerminated option"

record PodStatus =
  pst_InitContainerStatuses :: "ContainerStatus list"
  pst_ContainerStatuses :: "ContainerStatus list"

record PodTemplate =
  pt_Meta :: ObjectMeta
  pt_Spec :: PodSpec

record JobSpec =
  js_BackoffLimit :: int
  js_Completions :: int
  js_ActiveDeadlineSeconds :: "int option"
  js_Selector :: "string gomap"
  js_Template :: PodTemplate

definition empty_JobSpec :: JobSpec where
  "empty_JobSpec = \<lparr>js_BackoffLimit = 0, js_Completions = 0, js_ActiveDeadlineSeconds = None,
     js_Selector = [], js_Template = \<lparr>pt_Meta = empty_meta, pt_Spec = empty_PodSpec\<rparr>\<rparr>"

text \<open>\<open>batchv1.JobConditionType\<close>, a string type with two values the code knows.\<close>

datatype JobConditionType = JobComplete | JobFailed | JobOther string

text \<open>Resource types of which the code only reads the metadata and the hash.\<close>

datatype ResourceType = RService | RRole | RRoleBinding | RNetworkPolicy | RIngress
  | RResourceQuota | RLimitRange | RClusterRole | RClusterRoleBinding
  | RCustomResourceDefinition | RPodSecurityPolicy

datatype Body =
    Pod PodSpec PodStatus
  | Deployment "string gomap" PodSpec
  | ReplicaSet "string gomap" PodSpec
  | ReplicationController "string gomap" PodSpec
  | StatefulSet "string gomap" PodSpec
  | DaemonSet "string gomap" PodSpec
  | CronJob PodSpec
  | Job JobSpec "JobConditionType list"
  | ConfigMap "string gomap"
  | Secret string "string gomap"
  | ServiceAccount "string list" "bool option"
  | Node
  | Resource ResourceType string
  | VulnerabilityReport VulnerabilityReportData
  | ConfigAuditReport ConfigAuditReportData
  | ClusterConfigAuditReport ConfigAuditReportData
  | CISKubeBenchReport CISKubeBenchReportData
  | ClusterComplianceReport ReportSpec ReportStatus
  | ClusterComplianceDetailReport ClusterComplianceDetailReportData
  | KubeHunterReport KubeHunterReportData
  | Namespace

record Object =
  o_Kind :: string
  o_Meta :: ObjectMeta
  o_Body :: Body

text \<open>The Go type of an object, the type argument of a client call.\<close>

datatype GoType = TPod | TDeployment | TReplicaSet | TReplicationController | TStatefulSet
  | TDaemonSet | TCronJob | TJob | TConfigMap | TSecret | TServiceAccount | TNode
  | TResource ResourceType | TVulnerabilityReport | TConfigAuditReport
  | TClusterConfigAuditReport | TCISKubeBenchReport | TClusterComplianceReport
  | TClusterComplianceDetailReport | TKubeHunterReport | TNamespace

fun body_type :: "Body \<Rightarrow> GoType" where
  "body_type (Pod _ _) = TPod"
| "body_type (Deployment _ _) = TDeployment"
| "body_type (ReplicaSet _ _) = TReplicaSet"
| "body_type (ReplicationController _ _) = TReplicationController"
| "body_type (StatefulSet _ _) = TStatefulSet"
| "body_type (DaemonSet _ _) = TDaemonSet"
| "body_type (CronJob _) = TCronJob"
| "body_type (Job _ _) = TJob"
| "body_type (ConfigMap _) = TConfigMap"
| "body_type (Secret _ _) = TSecret"
| "body_type (ServiceAccount _ _) = TServiceAccount"
| "body_type Node = TNode"
| "body_type (Resource t _) = TResource t"
| "body_type (VulnerabilityReport _) = TVulnerabilityReport"
| "body_type (ConfigAuditReport _) = TConfigAuditReport"
| "body_type (ClusterConfigAuditReport _) = TClusterConfigAuditReport"
| "body_type (CISKubeBenchReport _) = TCISKubeBenchReport"
| "body_type (ClusterComplianceReport _ _) = TClusterComplianceReport"
| "body_type (ClusterComplianceDetailReport _) = TClusterComplianceDetailReport"
| "body_type (KubeHunterReport _) = TKubeHunterReport"
| "body_type Namespace = TNamespace"

abbreviation go_type :: "Object \<Rightarrow> GoType" where
  "go_type x \<equiv> body_type (o_Body x)"

text \<open>
  Field selectors of a typed object. Go's static types exclude a body of another type; the
  selectors give the zero value there.
\<close>

fun job_spec :: "Body \<Rightarrow> JobSpec" where
  "job_spec (Job sp _) = sp"
| "job_spec _ = empty_JobSpec"

fun job_conditions :: "Body \<Rightarrow> JobConditionType list" where
  "job_conditions (Job _ cs) = cs"
| "job_conditions _ = []"

fun config_data :: "Body \<Rightarrow> string gomap" where
  "config_data (ConfigMap d) = d"
| "config_data (Secret _ d) = d"
| "config_data _ = []"

fun secret_type :: "Body \<Rightarrow> string" where
  "secret_type (Secret t _) = t"
| "secret_type _ = []"

fun sa_imagePullSecrets :: "Body \<Rightarrow> string list" where
  "sa_imagePullSecrets (ServiceAccount ss _) = ss"
| "sa_imagePullSecrets _ = []"

fun pod_spec :: "Body \<Rightarrow> PodSpec" where
  "pod_spec (Pod sp _) = sp"
| "pod_spec _ = empty_PodSpec"

fun match_labels :: "Body \<Rightarrow> string gomap" where
  "match_labels (Deployment m _) = m"
| "match_labels (ReplicaSet m _) = m"
| "match_labels (ReplicationController m _) = m"
| "match_labels (StatefulSet m _) = m"
| "match_labels (DaemonSet m _) = m"
| "match_labels (Job sp _) = js_Selector sp"
| "match_labels _ = []"

section \<open>Object keys, owners and labels\<close>

record ObjectKey =
  key_Namespace :: string
  key_Name :: string

definition key_of :: "Object \<Rightarrow> ObjectKey" where
  "key_of x = \<lparr>key_Namespace = om_Namespace (o_Meta x), key_Name = om_Name (o_Meta x)\<rparr>"

text \<open>\<open>metav1.GetControllerOf\<close>: the first owner reference marked as controller.\<close>

definition GetControllerOf :: "Object \<Rightarrow> OwnerReference option" where
  "GetControllerOf x = List.find or_Controller (om_OwnerReferences (o_Meta x))"

text \<open>A parsed label selector: the conjunction of equality and inequality requirements.\<close>

datatype Requirement = ReqEq string string | ReqNeq string string

fun req_holds :: "Requirement \<Rightarrow> strmap \<Rightarrow> bool" where
  "req_holds (ReqEq k v) m = (m k = Some v)"
| "req_holds (ReqNeq k v) m = (m k \<noteq> Some v)"

record ListOptions =
  lo_Namespace :: "string option"
  lo_Reqs :: "Requirement list"
  lo_Limit :: "int option"

text \<open>
  \<open>client.MatchingLabels(m)\<close> for the finite map \<open>m\<close>: its keys are given with the map, since a
  partial function does not list them.
\<close>

definition MatchingLabels :: "string list \<Rightarrow> strmap \<Rightarrow> Requirement list" where
  "MatchingLabels keys m = List.map_filter (\<lambda>k. map_option (ReqEq k) (m k)) keys"

text \<open>\<open>labels.SelectorFromSet(m)\<close>: every entry of the set as an equality.\<close>

definition SelectorFromSet :: "string gomap \<Rightarrow> Requirement list" where
  "SelectorFromSet m = map (\<lambda>(k, v). ReqEq k v) m"

definition selected :: "ListOptions \<Rightarrow> Object \<Rightarrow> bool" where
  "selected opts x \<longleftrightarrow>
     (case lo_Namespace opts of None \<Rightarrow> True | Some ns \<Rightarrow> om_Namespace (o_Meta x) = ns) \<and>
     list_all (\<lambda>r. req_holds r (om_Labels (o_Meta x))) (lo_Reqs opts)"

section \<open>The client\<close>

record 's client =
  cl_Get :: "'s \<Rightarrow> GoType \<Rightarrow> ObjectKey \<Rightarrow> error + Object"
  cl_List :: "'s \<Rightarrow> GoType option \<Rightarrow> ListOptions \<Rightarrow> error + Object list"
  cl_Create :: "'s \<Rightarrow> Object \<Rightarrow> (error + Object) \<times> 's"
  cl_Update :: "'s \<Rightarrow> Object \<Rightarrow> error option \<times> 's"
  cl_StatusUpdate :: "'s \<Rightarrow> Object \<Rightarrow> error option \<times> 's"
  cl_Delete :: "'s \<Rightarrow> Object \<Rightarrow> error option \<times> 's"
  cl_GVKForObject :: "Object \<Rightarrow> error + string"

text \<open>
  Laws of the API that theorems may assume, each documented behaviour of the Kubernetes API
  and of the client library. A successful write is visible to the reads that follow it in the
  same reconciliation and touches no other object; a read returns an object of the requested
  type and key; a list returns exactly the objects that the options select.
\<close>

definition law_get_typed :: "'s client \<Rightarrow> bool" where
  "law_get_typed c \<longleftrightarrow> (\<forall>s t k x. cl_Get c s t k = Inr x \<longrightarrow> go_type x = t \<and> key_of x = k)"

definition get_state :: "'s client \<Rightarrow> 's \<Rightarrow> GoType \<Rightarrow> ObjectKey \<Rightarrow> Object option" where
  "get_state c s t k = (case cl_Get c s t k of Inl _ \<Rightarrow> None | Inr x \<Rightarrow> Some x)"

text \<open>What the server keeps of a written object: it assigns the UID and the creation time.\<close>

definition same_content :: "Object \<Rightarrow> Object \<Rightarrow> bool" where
  "same_content x y \<longleftrightarrow> o_Body x = o_Body y \<and> om_Name (o_Meta x) = om_Name (o_Meta y) \<and>
     om_Namespace (o_Meta x) = om_Namespace (o_Meta y) \<and>
     om_Labels (o_Meta x) = om_Labels (o_Meta y) \<and>
     om_Annotations (o_Meta x) = om_Annotations (o_Meta y) \<and>
     om_OwnerReferences (o_Meta x) = om_OwnerReferences (o_Meta y) \<and>
     om_DeletionTimestamp (o_Meta x) = om_DeletionTimestamp (o_Meta y)"

definition only_changes :: "'s client \<Rightarrow> 's \<Rightarrow> 's \<Rightarrow> GoType \<Rightarrow> ObjectKey \<Rightarrow> bool" where
  "only_changes c s s' t k \<longleftrightarrow>
     (\<forall>t' k'. (t', k') \<noteq> (t, k) \<longrightarrow> cl_Get c s' t' k' = cl_Get c s t' k')"

definition law_create :: "'s client \<Rightarrow> bool" where
  "law_create c \<longleftrightarrow> (\<forall>s x y s'. cl_Create c s x = (Inr y, s') \<longrightarrow>
     same_content y x \<and> cl_Get c s' (go_type x) (key_of x) = Inr y \<and>
     (\<exists>e. cl_Get c s (go_type x) (key_of x) = Inl e) \<and>
     only_changes c s s' (go_type x) (key_of x))"

definition law_update :: "'s client \<Rightarrow> bool" where
  "law_update c \<longleftrightarrow> (\<forall>s x s'. cl_Update c s x = (None, s') \<longrightarrow>
     (\<exists>y. same_content y x \<and> cl_Get c s' (go_type x) (key_of x) = Inr y) \<and>
     only_changes c s s' (go_type x) (key_of x))"

text \<open>A delete that finds no object means that a read finds none either.\<close>

definition law_delete :: "'s client \<Rightarrow> bool" where
  "law_delete c \<longleftrightarrow> (\<forall>s x s'. cl_Delete c s x = (None, s') \<longrightarrow>
     cl_Get c s' (go_type x) (key_of x) = Inl NotFound \<and>
     only_changes c s s' (go_type x) (key_of x)) \<and>
   (\<forall>s x e s'. cl_Delete c s x = (Some e, s') \<longrightarrow> IsNotFound e \<longrightarrow>
     cl_Get c s (go_type x) (key_of x) = Inl NotFound)"

text \<open>A write that fails leaves the cluster as it was.\<close>

definition law_failed_write :: "'s client \<Rightarrow> bool" where
  "law_failed_write c \<longleftrightarrow>
     (\<forall>s x e s'. cl_Create c s x = (Inl e, s') \<longrightarrow> s' = s) \<and>
     (\<forall>s x e s'. cl_Update c s x = (Some e, s') \<longrightarrow> s' = s) \<and>
     (\<forall>s x e s'. cl_StatusUpdate c s x = (Some e, s') \<longrightarrow> s' = s) \<and>
     (\<forall>s x e s'. cl_Delete c s x = (Some e, s') \<longrightarrow> s' = s)"

text \<open>A list without a limit returns the selected objects of the type, each once.\<close>

definition law_list :: "'s client \<Rightarrow> bool" where
  "law_list c \<longleftrightarrow> (\<forall>s t opts xs. cl_List c s (Some t) opts = Inr xs \<longrightarrow> lo_Limit opts = None \<longrightarrow>
     distinct (map key_of xs) \<and>
     set xs = {x. \<exists>k. cl_Get c s t k = Inr x \<and> selected opts x})"

text \<open>With a limit it returns at most that many of them, and all of them if they fit.\<close>

definition law_list_limit :: "'s client \<Rightarrow> bool" where
  "law_list_limit c \<longleftrightarrow> (\<forall>s t opts xs n. cl_List c s (Some t) opts = Inr xs \<longrightarrow>
     lo_Limit opts = Some n \<longrightarrow> 0 < n \<longrightarrow>
     distinct (map key_of xs) \<and> int (length xs) \<le> n \<and>
     set xs \<subseteq> {x. \<exists>k. cl_Get c s t k = Inr x \<and> selected opts x} \<and>
     (int (length xs) < n \<longrightarrow> set xs = {x. \<exists>k. cl_Get c s t k = Inr x \<and> selected opts x}))"

definition api_laws :: "'s client \<Rightarrow> bool" where
  "api_laws c \<longleftrightarrow> law_get_typed c \<and> law_create c \<and> law_update c \<and> law_delete c \<and>
     law_failed_write c \<and> law_list c \<and> law_list_limit c"

section \<open>Lemmas\<close>

lemma GetControllerOf_controller: "GetControllerOf x = Some r \<Longrightarrow> or_Controller r"
  by (auto simp: GetControllerOf_def find_Some_iff)

lemma MatchingLabels_holds:
  assumes "dom m \<subseteq> set keys"
  shows "list_all (\<lambda>r. req_holds r l) (MatchingLabels keys m) \<longleftrightarrow> m \<subseteq>\<^sub>m l"
proof -
  have "list_all (\<lambda>r. req_holds r l) (MatchingLabels keys m) \<longleftrightarrow>
      (\<forall>k \<in> set keys. \<forall>v. m k = Some v \<longrightarrow> l k = Some v)"
    by (auto simp: MatchingLabels_def list_all_iff List.map_filter_def)
  also have "\<dots> \<longleftrightarrow> m \<subseteq>\<^sub>m l"
    using assms by (auto simp: map_le_def dom_def)
  finally show ?thesis .
qed

lemma same_content_refl [simp]: "same_content x x"
  by (simp add: same_content_def)

lemma same_content_key [simp]: "same_content x y \<Longrightarrow> key_of x = key_of y"
  by (simp add: same_content_def key_of_def)

lemma same_content_type [simp]: "same_content x y \<Longrightarrow> go_type x = go_type y"
  by (simp add: same_content_def)

lemma api_lawsD:
  assumes "api_laws c"
  shows "law_get_typed c" "law_create c" "law_update c" "law_delete c" "law_failed_write c"
    "law_list c" "law_list_limit c"
  using assms by (auto simp: api_laws_def)

lemma get_typed: "api_laws c \<Longrightarrow> cl_Get c s t k = Inr x \<Longrightarrow> go_type x = t \<and> key_of x = k"
  by (simp add: api_laws_def law_get_typed_def)

lemma create_ok:
  assumes "api_laws c" and "cl_Create c s x = (Inr y, s')"
  shows "same_content y x" "cl_Get c s' (go_type x) (key_of x) = Inr y"
    "only_changes c s s' (go_type x) (key_of x)"
    "\<exists>e. cl_Get c s (go_type x) (key_of x) = Inl e"
  using assms by (auto simp: api_laws_def law_create_def)

lemma update_ok:
  assumes "api_laws c" and "cl_Update c s x = (None, s')"
  shows "\<exists>y. same_content y x \<and> cl_Get c s' (go_type x) (key_of x) = Inr y"
    "only_changes c s s' (go_type x) (key_of x)"
  using assms by (auto simp: api_laws_def law_update_def)

lemma delete_ok:
  assumes "api_laws c" and "cl_Delete c s x = (None, s')"
  shows "cl_Get c s' (go_type x) (key_of x) = Inl NotFound"
    "only_changes c s s' (go_type x) (key_of x)"
  using assms unfolding api_laws_def law_delete_def by blast+

lemma delete_notfound:
  assumes "api_laws c" and "cl_Delete c s x = (Some e, s')" and "IsNotFound e"
  shows "cl_Get c s (go_type x) (key_of x) = Inl NotFound" "s' = s"
  using assms by (auto simp: api_laws_def law_delete_def law_failed_write_def)

lemma failed_write:
  assumes "api_laws c"
  shows "cl_Create c s x = (Inl e, s') \<Longrightarrow> s' = s" "cl_Update c s x = (Some e, s') \<Longrightarrow> s' = s"
    "cl_StatusUpdate c s x = (Some e, s') \<Longrightarrow> s' = s" "cl_Delete c s x = (Some e, s') \<Longrightarrow> s' = s"
  using api_lawsD(5) [OF assms] unfolding law_failed_write_def by blast+

lemma list_all_objects:
  assumes "api_laws c" and "cl_List c s (Some t) opts = Inr xs" and "lo_Limit opts = None"
  shows "set xs = {x. \<exists>k. cl_Get c s t k = Inr x \<and> selected opts x}" "distinct (map key_of xs)"
  using assms by (auto simp: api_laws_def law_list_def)

end
