(* ===== verification/Starboard_Const.thy ===== *)
theory Starboard_Const
  imports Kube_Api
begin

text \<open>
  The names, label keys and annotation keys of \<^verbatim>\<open>pkg/starboard/constants.go\<close>. The collection
  \<open>label_simps\<close> unfolds them, which decides that two keys differ.
\<close>

definition NamespaceName :: string where [label_simps]: "NamespaceName = ''starboard''"
definition ServiceAccountName :: string where [label_simps]: "ServiceAccountName = ''starboard''"
definition ConfigMapName :: string where [label_simps]: "ConfigMapName = ''starboard''"
definition SecretName :: string where [label_simps]: "SecretName = ''starboard''"
definition PoliciesConfigMapName :: string where
  [label_simps]: "PoliciesConfigMapName = ''starboard-policies-config''"

definition LabelResourceKind :: string where
  [label_simps]: "LabelResourceKind = ''starboard.resource.kind''"
definition LabelResourceName :: string where
  [label_simps]: "LabelResourceName = ''starboard.resource.name''"
definition LabelResourceNameHash :: string where
  [label_simps]: "LabelResourceNameHash = ''starboard.resource.name-hash''"
definition LabelResourceNamespace :: string where
  [label_simps]: "LabelResourceNamespace = ''starboard.resource.namespace''"
definition LabelContainerName :: string where
  [label_simps]: "LabelContainerName = ''starboard.container.name''"
definition LabelResourceSpecHash :: string where
  [label_simps]: "LabelResourceSpecHash = ''resource-spec-hash''"
definition LabelPluginConfigHash :: string where
  [label_simps]: "LabelPluginConfigHash = ''plugin-config-hash''"
definition LabelConfigAuditReportScanner :: string where
  [label_simps]: "LabelConfigAuditReportScanner = ''configAuditReport.scanner''"
definition LabelVulnerabilityReportScanner :: string where
  [label_simps]: "LabelVulnerabilityReportScanner = ''vulnerabilityReport.scanner''"
definition LabelKubeBenchReportScanner :: string where
  [label_simps]: "LabelKubeBenchReportScanner = ''kubeBenchReport.scanner''"
definition LabelK8SAppManagedBy :: string where
  [label_simps]: "LabelK8SAppManagedBy = ''app.kubernetes.io/managed-by''"
definition AppStarboard :: string where [label_simps]: "AppStarboard = ''starboard''"
definition AnnotationContainerImages :: string where
  [label_simps]: "AnnotationContainerImages = ''starboard.container-images''"
definition TTLReportAnnotation :: string where
  [label_simps]: "TTLReportAnnotation = ''starboard.aquasecurity.github.io/report-ttl''"

definition starboard_labels :: "string list" where
  "starboard_labels = [LabelResourceKind, LabelResourceName, LabelResourceNameHash,
     LabelResourceNamespace, LabelContainerName, LabelResourceSpecHash, LabelPluginConfigHash,
     LabelConfigAuditReportScanner, LabelVulnerabilityReportScanner, LabelKubeBenchReportScanner,
     LabelK8SAppManagedBy]"

lemma starboard_labels_distinct: "distinct starboard_labels"
  by (simp add: starboard_labels_def label_simps)

text \<open>Each pair of keys that a proof compares, as rewrite rules over the folded constants.\<close>

lemma label_neq [simp]:
  "LabelResourceKind \<noteq> LabelResourceName" "LabelResourceName \<noteq> LabelResourceKind"
  "LabelResourceKind \<noteq> LabelResourceNameHash" "LabelResourceNameHash \<noteq> LabelResourceKind"
  "LabelResourceKind \<noteq> LabelResourceNamespace" "LabelResourceNamespace \<noteq> LabelResourceKind"
  "LabelResourceName \<noteq> LabelResourceNameHash" "LabelResourceNameHash \<noteq> LabelResourceName"
  "LabelResourceName \<noteq> LabelResourceNamespace" "LabelResourceNamespace \<noteq> LabelResourceName"
  "LabelResourceNameHash \<noteq> LabelResourceNamespace"
  "LabelResourceNamespace \<noteq> LabelResourceNameHash"
  by (simp_all add: label_simps)

lemma label_neq_hash [simp]:
  "LabelContainerName \<noteq> LabelResourceKind" "LabelContainerName \<noteq> LabelResourceName"
  "LabelContainerName \<noteq> LabelResourceNameHash" "LabelContainerName \<noteq> LabelResourceNamespace"
  "LabelContainerName \<noteq> LabelResourceSpecHash" "LabelResourceSpecHash \<noteq> LabelContainerName"
  "LabelResourceSpecHash \<noteq> LabelResourceKind" "LabelResourceSpecHash \<noteq> LabelResourceName"
  "LabelResourceSpecHash \<noteq> LabelResourceNameHash"
  "LabelResourceSpecHash \<noteq> LabelResourceNamespace"
  "LabelPluginConfigHash \<noteq> LabelResourceKind" "LabelPluginConfigHash \<noteq> LabelResourceName"
  "LabelPluginConfigHash \<noteq> LabelResourceNameHash"
  "LabelPluginConfigHash \<noteq> LabelResourceNamespace"
  "LabelPluginConfigHash \<noteq> LabelResourceSpecHash"
  "LabelResourceSpecHash \<noteq> LabelPluginConfigHash"
  by (simp_all add: label_simps)

lemma label_neq_app [simp]:
  "LabelK8SAppManagedBy \<noteq> LabelResourceKind" "LabelK8SAppManagedBy \<noteq> LabelResourceName"
  "LabelK8SAppManagedBy \<noteq> LabelResourceNameHash" "LabelK8SAppManagedBy \<noteq> LabelResourceNamespace"
  "LabelK8SAppManagedBy \<noteq> LabelResourceSpecHash" "LabelResourceSpecHash \<noteq> LabelK8SAppManagedBy"
  "LabelK8SAppManagedBy \<noteq> LabelVulnerabilityReportScanner"
  "LabelK8SAppManagedBy \<noteq> LabelConfigAuditReportScanner"
  "LabelK8SAppManagedBy \<noteq> LabelKubeBenchReportScanner"
  "LabelK8SAppManagedBy \<noteq> LabelPluginConfigHash"
  "LabelVulnerabilityReportScanner \<noteq> LabelResourceKind"
  "LabelVulnerabilityReportScanner \<noteq> LabelResourceName"
  "LabelVulnerabilityReportScanner \<noteq> LabelResourceNameHash"
  "LabelVulnerabilityReportScanner \<noteq> LabelResourceNamespace"
  "LabelVulnerabilityReportScanner \<noteq> LabelResourceSpecHash"
  "LabelVulnerabilityReportScanner \<noteq> LabelK8SAppManagedBy"
  "LabelResourceSpecHash \<noteq> LabelVulnerabilityReportScanner"
  by (simp_all add: label_simps)

end
