(* ===== verification/Go_Json.thy ===== *)
theory Go_Json
  imports Go_Lib "HOL-Library.List_Lexorder" "HOL-Library.Char_ord"
begin

text \<open>
  What the code uses of \<^verbatim>\<open>encoding/json\<close>: marshalling and unmarshalling a
  \<^verbatim>\<open>map[string]string\<close>. The encoder writes the keys in sorted order and escapes the quote, the
  backslash, control characters and the three characters that are special in HTML. The decoder
  accepts white space between tokens, every escape sequence, \<open>null\<close> for a value (the empty
  string) and \<open>null\<close> for the whole map; any other value is an error, as it is for a map of
  strings. A \<^verbatim>\<open>\u\<close> escape becomes the UTF-8 bytes of its code unit; surrogate pairs are not
  joined, since the encoder writes characters beyond ASCII as their bytes.
\<close>

section \<open>Encoder\<close>

definition hex_digit :: "nat \<Rightarrow> char" where
  "hex_digit n = (if n < 10 then char_of (48 + n) else char_of (87 + n))"

definition esc_char :: "char \<Rightarrow> string" where
  "esc_char c =
     (let n = (of_char c :: nat) in
      if n = 34 \<or> n = 92 then [CHR 0x5C, c]
      else if n = 10 then [CHR 0x5C, CHR ''n'']
      else if n = 13 then [CHR 0x5C, CHR ''r'']
      else if n = 9 then [CHR 0x5C, CHR ''t'']
      else if n < 32 \<or> n = 38 \<or> n = 60 \<or> n = 62
        then [CHR 0x5C, CHR ''u'', CHR ''0'', CHR ''0'', hex_digit (n div 16), hex_digit (n mod 16)]
      else [c])"

definition encode_string :: "string \<Rightarrow> string" where
  "encode_string s = CHR 0x22 # concat (map esc_char s) @ [CHR 0x22]"

definition encode_member :: "string \<times> string \<Rightarrow> string" where
  "encode_member kv = encode_string (fst kv) @ CHR '':'' # encode_string (snd kv)"

definition json_Marshal :: "string gomap \<Rightarrow> string" where
  "json_Marshal m = CHR 0x7B # Join (CHR '','') (map encode_member (sort_key fst m)) @ [CHR 0x7D]"

section \<open>Decoder\<close>

definition is_json_ws :: "char \<Rightarrow> bool" where
  "is_json_ws c \<longleftrightarrow> (of_char c :: nat) \<in> {9, 10, 13, 32}"

definition skip_ws :: "string \<Rightarrow> string" where
  "skip_ws s = dropWhile is_json_ws s"

definition hex_val :: "char \<Rightarrow> nat option" where
  "hex_val c =
     (let n = (of_char c :: nat) in
      if 48 \<le> n \<and> n \<le> 57 then Some (n - 48)
      else if 97 \<le> n \<and> n \<le> 102 then Some (n - 87)
      else if 65 \<le> n \<and> n \<le> 70 then Some (n - 55)
      else None)"

definition utf8 :: "nat \<Rightarrow> string" where
  "utf8 n =
     (if n < 128 then [char_of n]
      else if n < 2048 then [char_of (192 + n div 64), char_of (128 + n mod 64)]
      else [char_of (224 + n div 4096), char_of (128 + (n div 64) mod 64), char_of (128 + n mod 64)])"

definition hex4 :: "char \<Rightarrow> char \<Rightarrow> char \<Rightarrow> char \<Rightarrow> nat option" where
  "hex4 a b c d =
     (case (hex_val a, hex_val b, hex_val c, hex_val d) of
        (Some w, Some x, Some y, Some z) \<Rightarrow> Some (((w * 16 + x) * 16 + y) * 16 + z)
      | _ \<Rightarrow> None)"

text \<open>One escape sequence, after its backslash.\<close>

fun unescape :: "string \<Rightarrow> (string \<times> string) option" where
  "unescape [] = None"
| "unescape (e # cs) =
     (if e = CHR 0x22 \<or> e = CHR 0x5C \<or> e = CHR ''/'' then Some ([e], cs)
      else if e = CHR ''b'' then Some ([CHR 0x08], cs)
      else if e = CHR ''f'' then Some ([CHR 0x0C], cs)
      else if e = CHR ''n'' then Some ([CHR 0x0A], cs)
      else if e = CHR ''r'' then Some ([CHR 0x0D], cs)
      else if e = CHR ''t'' then Some ([CHR 0x09], cs)
      else if e = CHR ''u'' then
        (case cs of
           p # q # r # t # rest \<Rightarrow>
             (case hex4 p q r t of None \<Rightarrow> None | Some n \<Rightarrow> Some (utf8 n, rest))
         | _ \<Rightarrow> None)
      else None)"

lemma unescape_length [termination_simp]: "unescape cs = Some (u, r) \<Longrightarrow> length r < length cs"
  by (cases cs) (auto split: if_splits list.splits option.splits)

text \<open>The characters of a string, after its opening quote, and what follows the closing one.\<close>

fun parse_string :: "string \<Rightarrow> (string \<times> string) option" where
  "parse_string [] = None"
| "parse_string (c # cs) =
     (if c = CHR 0x22 then Some ([], cs)
      else if c = CHR 0x5C then
        (case unescape cs of
           None \<Rightarrow> None
         | Some (u, r) \<Rightarrow> map_option (\<lambda>(w, r'). (u @ w, r')) (parse_string r))
      else if (of_char c :: nat) < 32 then None
      else map_option (\<lambda>(w, r'). (c # w, r')) (parse_string cs))"

lemma parse_string_length: "parse_string s = Some (w, r) \<Longrightarrow> length r < length s"
proof (induction s arbitrary: w rule: parse_string.induct)
  case (2 c cs)
  then show ?case
    by (fastforce split: if_splits option.splits prod.splits dest: unescape_length)
qed simp

lemma skip_ws_length: "length (skip_ws s) \<le> length s"
  by (simp add: skip_ws_def length_dropWhile_le)

definition parse_quoted :: "string \<Rightarrow> (string \<times> string) option" where
  "parse_quoted s = (case skip_ws s of c # cs \<Rightarrow> if c = CHR 0x22 then parse_string cs else None
     | [] \<Rightarrow> None)"

definition parse_value :: "string \<Rightarrow> (string \<times> string) option" where
  "parse_value s = (if HasPrefix (skip_ws s) ''null'' then Some ([], drop 4 (skip_ws s))
     else parse_quoted s)"

definition expect :: "char \<Rightarrow> string \<Rightarrow> string option" where
  "expect c s = (case skip_ws s of d # ds \<Rightarrow> if d = c then Some ds else None | [] \<Rightarrow> None)"

definition parse_member :: "string \<Rightarrow> ((string \<times> string) \<times> string) option" where
  "parse_member s =
     (case parse_quoted s of None \<Rightarrow> None
      | Some (k, r) \<Rightarrow>
          (case expect (CHR '':'') r of None \<Rightarrow> None
           | Some r' \<Rightarrow> map_option (\<lambda>(v, r''). ((k, v), r'')) (parse_value r')))"

lemma expect_length: "expect c s = Some r \<Longrightarrow> length r < length s"
  using skip_ws_length [of s] by (auto simp: expect_def split: list.splits if_splits)

lemma parse_quoted_length: "parse_quoted s = Some (w, r) \<Longrightarrow> length r < length s"
  using skip_ws_length [of s]
  by (auto simp: parse_quoted_def split: list.splits if_splits dest!: parse_string_length)

lemma parse_value_length: "parse_value s = Some (w, r) \<Longrightarrow> length r \<le> length s"
  using skip_ws_length [of s]
  by (auto simp: parse_value_def split: if_splits dest!: parse_quoted_length)

lemma parse_member_length [termination_simp]:
  "parse_member s = Some (kv, r) \<Longrightarrow> length r < length s"
  by (fastforce simp: parse_member_def split: option.splits prod.splits
      dest!: parse_quoted_length expect_length parse_value_length)

lemma expect_length_ts [termination_simp]:
  "parse_member s = Some (kv, r) \<Longrightarrow> expect c r = Some r' \<Longrightarrow> length r' < length s"
  by (meson expect_length parse_member_length less_trans)

text \<open>The members of an object, after the opening brace or a comma, up to the closing brace.\<close>

fun parse_members :: "string \<Rightarrow> ((string \<times> string) list \<times> string) option" where
  "parse_members s =
     (case parse_member s of
        None \<Rightarrow> None
      | Some (kv, r) \<Rightarrow>
          (case expect (CHR '','') r of
             Some r' \<Rightarrow> map_option (\<lambda>(kvs, r''). (kv # kvs, r'')) (parse_members r')
           | None \<Rightarrow> map_option (\<lambda>r'. ([kv], r')) (expect (CHR 0x7D) r)))"

declare parse_members.simps [simp del]

definition parse_object :: "string \<Rightarrow> ((string \<times> string) list \<times> string) option" where
  "parse_object s =
     (if HasPrefix (skip_ws s) ''null'' then Some ([], drop 4 (skip_ws s))
      else case expect (CHR 0x7B) s of
        None \<Rightarrow> None
      | Some r \<Rightarrow> (case expect (CHR 0x7D) r of Some r' \<Rightarrow> Some ([], r') | None \<Rightarrow> parse_members r))"

text \<open>\<open>json.Unmarshal(data, &m)\<close>: the members are stored into the map in the order they appear.\<close>

definition json_Unmarshal :: "string \<Rightarrow> string gomap \<Rightarrow> error + string gomap" where
  "json_Unmarshal s m =
     (case parse_object s of
        None \<Rightarrow> Inl (Errorf ''invalid JSON'')
      | Some (kvs, r) \<Rightarrow>
          if skip_ws r = [] then Inr (foldl (\<lambda>acc (k, v). AList.update k v acc) m kvs)
          else Inl (Errorf ''invalid JSON''))"

section \<open>Round trip\<close>

lemma hex_val_digit [simp]: "n < 16 \<Longrightarrow> hex_val (hex_digit n) = Some n"
  by (auto simp: hex_val_def hex_digit_def Let_def)

lemma parse_esc_char: "parse_string (esc_char c @ s) = map_option (\<lambda>(w, r). (c # w, r)) (parse_string s)"
proof -
  have inj: "c = d" if "(of_char c :: nat) = of_char d" for d
    using that by (simp only: of_char_eq_iff)
  have n: "of_char c < (256 :: nat)" by simp
  have u: "utf8 (of_char c) = [c]" if "(of_char c :: nat) < 128"
    using that by (simp add: utf8_def)
  have h: "hex4 (CHR ''0'') (CHR ''0'') (hex_digit (of_char c div 16)) (hex_digit (of_char c mod 16))
      = Some (of_char c)"
  proof -
    have "(of_char c :: nat) div 16 < 16"
      using n by (intro less_mult_imp_div_less) linarith
    then have "hex_val (hex_digit (of_char c div 16)) = Some (of_char c div 16)" by simp
    moreover have "hex_val (hex_digit (of_char c mod 16)) = Some (of_char c mod 16)" by simp
    moreover have "hex_val (CHR ''0'') = Some 0" by (simp add: hex_val_def)
    ultimately show ?thesis by (simp add: hex4_def)
  qed
  consider (q) "(of_char c :: nat) = 34 \<or> (of_char c :: nat) = 92"
    | (w) "(of_char c :: nat) \<in> {9, 10, 13}"
    | (x) "(of_char c :: nat) \<notin> {9, 10, 13, 34, 92}"
      "(of_char c :: nat) < 32 \<or> (of_char c :: nat) = 38 \<or> (of_char c :: nat) = 60 \<or> (of_char c :: nat) = 62"
    | (p) "(of_char c :: nat) \<notin> {34, 92}" "\<not> (of_char c :: nat) < 32"
      "(of_char c :: nat) \<notin> {38, 60, 62}"
    by fastforce
  then show ?thesis
  proof cases
    case q
    then have "c = CHR 0x22 \<or> c = CHR 0x5C"
      using inj [of "CHR 0x22"] inj [of "CHR 0x5C"] by auto
    then show ?thesis by (auto simp: esc_char_def)
  next
    case w
    then have "c = CHR 0x09 \<or> c = CHR 0x0A \<or> c = CHR 0x0D"
      using inj [of "CHR 0x09"] inj [of "CHR 0x0A"] inj [of "CHR 0x0D"] by auto
    then show ?thesis by (auto simp: esc_char_def)
  next
    case x
    then have "esc_char c = [CHR 0x5C, CHR ''u'', CHR ''0'', CHR ''0'',
        hex_digit (of_char c div 16), hex_digit (of_char c mod 16)]"
      by (auto simp: esc_char_def Let_def)
    moreover have "utf8 (of_char c) = [c]" using x u by auto
    ultimately show ?thesis using h by simp
  next
    case p
    then have "esc_char c = [c]" "c \<noteq> CHR 0x22" "c \<noteq> CHR 0x5C"
      by (auto simp: esc_char_def Let_def)
    with p show ?thesis by simp
  qed
qed

lemma parse_encoded: "parse_string (concat (map esc_char s) @ CHR 0x22 # r) = Some (s, r)"
  by (induction s) (simp_all add: parse_esc_char)

lemma parse_quoted_encoded [simp]: "parse_quoted (encode_string s @ r) = Some (s, r)"
  by (simp add: parse_quoted_def encode_string_def skip_ws_def is_json_ws_def parse_encoded)

lemma parse_value_encoded [simp]: "parse_value (encode_string s @ r) = Some (s, r)"
proof -
  have "\<not> HasPrefix (skip_ws (encode_string s @ r)) ''null''"
    by (simp add: HasPrefix_def encode_string_def skip_ws_def is_json_ws_def)
  then show ?thesis by (simp add: parse_value_def)
qed

lemma expect_here: "\<not> is_json_ws c \<Longrightarrow> expect d (c # s) = (if c = d then Some s else None)"
  by (simp add: expect_def skip_ws_def)

lemma parse_member_encoded: "parse_member (encode_member kv @ r) = Some (kv, r)"
  by (simp add: parse_member_def encode_member_def expect_here is_json_ws_def)

lemma parse_members_encoded:
  "kvs \<noteq> [] \<Longrightarrow> parse_members (Join (CHR '','') (map encode_member kvs) @ CHR 0x7D # r) = Some (kvs, r)"
proof (induction kvs)
  case (Cons kv kvs)
  show ?case
  proof (cases kvs)
    case Nil
    then show ?thesis
      by (simp add: parse_members.simps [of "encode_member kv @ _"] parse_member_encoded
          expect_here is_json_ws_def)
  next
    case (Cons kv' kvs')
    then have IH: "parse_members (Join (CHR '','') (map encode_member kvs) @ CHR 0x7D # r) = Some (kvs, r)"
      using \<open>kvs \<noteq> [] \<Longrightarrow> _\<close> by simp
    have "Join (CHR '','') (map encode_member (kv # kvs)) @ CHR 0x7D # r =
        encode_member kv @ CHR '','' # Join (CHR '','') (map encode_member kvs) @ CHR 0x7D # r"
      using Cons by simp
    then show ?thesis using IH
      by (simp add: parse_members.simps [of "encode_member kv @ _"] parse_member_encoded
          expect_here is_json_ws_def)
  qed
qed simp

lemma first_char_encoded: "\<exists>cs. encode_member kv = CHR 0x22 # cs"
  by (simp add: encode_member_def encode_string_def)

lemma Join_first: "\<exists>cs. Join (CHR '','') (map encode_member (kv # kvs)) = CHR 0x22 # cs"
  using first_char_encoded [of kv] by (cases kvs) auto

lemma parse_object_encoded: "parse_object (json_Marshal m @ r) = Some (sort_key fst m, r)"
proof -
  let ?ms = "sort_key fst m"
  have np: "\<not> HasPrefix (skip_ws (json_Marshal m @ r)) ''null''"
    by (simp add: HasPrefix_def json_Marshal_def skip_ws_def is_json_ws_def)
  have open_brace: "expect (CHR 0x7B) (json_Marshal m @ r) =
      Some (Join (CHR '','') (map encode_member ?ms) @ CHR 0x7D # r)"
    by (simp add: json_Marshal_def expect_here is_json_ws_def)
  show ?thesis
  proof (cases ?ms)
    case Nil
    then show ?thesis using np open_brace
      by (simp add: parse_object_def expect_here is_json_ws_def)
  next
    case (Cons kv kvs)
    obtain cs where "Join (CHR '','') (map encode_member ?ms) = CHR 0x22 # cs"
      using Join_first Cons by metis
    then have "expect (CHR 0x7D) (Join (CHR '','') (map encode_member ?ms) @ CHR 0x7D # r) = None"
      by (simp add: expect_here is_json_ws_def)
    moreover have "parse_members (Join (CHR '','') (map encode_member ?ms) @ CHR 0x7D # r) = Some (?ms, r)"
      by (rule parse_members_encoded) (simp add: Cons)
    ultimately show ?thesis using np open_brace by (simp add: parse_object_def)
  qed
qed

lemma foldl_update_fresh:
  "distinct (map fst acc @ map fst kvs) \<Longrightarrow>
   foldl (\<lambda>acc (k, v). AList.update k v acc) acc kvs = acc @ kvs"
proof (induction kvs arbitrary: acc)
  case (Cons kv kvs)
  obtain k v where kv: "kv = (k, v)" by fastforce
  have "k \<notin> fst ` set acc" using Cons.prems kv by auto
  then have "AList.update k v acc = acc @ [(k, v)]" by (rule update_fresh)
  then show ?case using Cons kv by simp
qed simp

text \<open>Unmarshalling what was marshalled gives back the map, its keys now in sorted order.\<close>

lemma json_roundtrip:
  assumes "distinct (map fst m)"
  shows "json_Unmarshal (json_Marshal m) [] = Inr (sort_key fst m)"
proof -
  have "mset (map fst (sort_key fst m)) = mset (map fst m)" by simp
  then have "distinct (map fst (sort_key fst m))"
    using assms by (metis mset_eq_imp_distinct_iff)
  then show ?thesis
    using parse_object_encoded [of m "[]"] foldl_update_fresh [of "[]" "sort_key fst m"]
    by (simp add: json_Unmarshal_def skip_ws_def)
qed

lemma map_of_sort_key:
  fixes m :: "string gomap"
  assumes "distinct (map fst m)"
  shows "map_of (sort_key fst m) = map_of m"
proof -
  have "mset (map fst (sort_key fst m)) = mset (map fst m)" by simp
  then have "distinct (map fst (sort_key fst m))"
    using assms by (metis mset_eq_imp_distinct_iff)
  then show ?thesis using assms
    by (intro map_of_inject_set [THEN iffD2]) simp_all
qed

end
