(* ===== verification/Kube_Object.thy ===== *)
theory Kube_Object
  imports Starboard_Const Go_Json
begin

text \<open>
  Package \<^verbatim>\<open>pkg/kube\<close>, files \<^verbatim>\<open>object.go\<close> and \<^verbatim>\<open>resources.go\<close>: object references, their
  encoding as labels and annotations, pod specifications, container images, hashes, and the
  resolution of an object's owner. Log messages are not modelled.

  Three functions of libraries outside the repository are parameters, gathered in the record
  \<open>env\<close>: the deep printer that \<^verbatim>\<open>DeepHashObject\<close> feeds to the hash (go-spew), the encoding that
  avoids bad words (\<^verbatim>\<open>rand.SafeEncodeString\<close>) and the validation of label values.
\<close>

section \<open>Kinds and references\<close>

type_synonym Kind = string

record ObjectRef =
  ref_Kind :: Kind
  ref_Name :: string
  ref_Namespace :: string

definition KindNode :: Kind where [kube_simps]: "KindNode = ''Node''"
definition KindPod :: Kind where [kube_simps]: "KindPod = ''Pod''"
definition KindReplicaSet :: Kind where [kube_simps]: "KindReplicaSet = ''ReplicaSet''"
definition KindReplicationController :: Kind where
  [kube_simps]: "KindReplicationController = ''ReplicationController''"
definition KindDeployment :: Kind where [kube_simps]: "KindDeployment = ''Deployment''"
definition KindStatefulSet :: Kind where [kube_simps]: "KindStatefulSet = ''StatefulSet''"
definition KindDaemonSet :: Kind where [kube_simps]: "KindDaemonSet = ''DaemonSet''"
definition KindCronJob :: Kind where [kube_simps]: "KindCronJob = ''CronJob''"
definition KindJob :: Kind where [kube_simps]: "KindJob = ''Job''"
definition KindService :: Kind where [kube_simps]: "KindService = ''Service''"
definition KindConfigMap :: Kind where [kube_simps]: "KindConfigMap = ''ConfigMap''"
definition KindRole :: Kind where [kube_simps]: "KindRole = ''Role''"
definition KindRoleBinding :: Kind where [kube_simps]: "KindRoleBinding = ''RoleBinding''"
definition KindNetworkPolicy :: Kind where [kube_simps]: "KindNetworkPolicy = ''NetworkPolicy''"
definition KindIngress :: Kind where [kube_simps]: "KindIngress = ''Ingress''"
definition KindResourceQuota :: Kind where [kube_simps]: "KindResourceQuota = ''ResourceQuota''"
definition KindLimitRange :: Kind where [kube_simps]: "KindLimitRange = ''LimitRange''"
definition KindClusterRole :: Kind where [kube_simps]: "KindClusterRole = ''ClusterRole''"
definition KindClusterRoleBindings :: Kind where
  [kube_simps]: "KindClusterRoleBindings = ''ClusterRoleBinding''"
definition KindCustomResourceDefinition :: Kind where
  [kube_simps]: "KindCustomResourceDefinition = ''CustomResourceDefinition''"
definition KindPodSecurityPolicy :: Kind where
  [kube_simps]: "KindPodSecurityPolicy = ''PodSecurityPolicy''"

definition deploymentAnnotation :: string where
  "deploymentAnnotation = ''deployment.kubernetes.io/revision''"

definition IsBuiltInWorkload :: "OwnerReference option \<Rightarrow> bool" where
  "IsBuiltInWorkload controller =
     (case controller of None \<Rightarrow> False
      | Some r \<Rightarrow> or_Kind r = KindReplicaSet \<or> or_Kind r = KindReplicationController \<or>
          or_Kind r = KindStatefulSet \<or> or_Kind r = KindDaemonSet \<or> or_Kind r = KindJob)"

definition IsWorkload :: "string \<Rightarrow> bool" where
  "IsWorkload kind = (kind \<in> set [''Pod'', ''Deployment'', ''ReplicaSet'', ''ReplicationController'',
     ''StatefulSet'', ''DaemonSet'', ''Job'', ''CronJob''])"

definition IsClusterScopedKind :: "string \<Rightarrow> bool" where
  "IsClusterScopedKind kind = (kind \<in> set [KindClusterRole, KindClusterRoleBindings,
     KindCustomResourceDefinition, KindPodSecurityPolicy])"

section \<open>Hashes\<close>

text \<open>The values that the code hashes.\<close>

datatype hashable =
    HPodSpec PodSpec
  | HObject Object
  | HObjectRef ObjectRef
  | HString string
  | HModules strmap

record env =
  env_spew :: "hashable \<Rightarrow> string"
  env_SafeEncodeString :: "string \<Rightarrow> string"
  env_IsValidLabelValue :: "string \<Rightarrow> string list"

definition DeepHashObject :: "env \<Rightarrow> hashable \<Rightarrow> 32 word" where
  "DeepHashObject E x = fnv32a (env_spew E x)"

definition ComputeHash :: "env \<Rightarrow> hashable \<Rightarrow> string" where
  "ComputeHash E x = env_SafeEncodeString E (show_nat (unat (DeepHashObject E x)))"

section \<open>References as labels and annotations\<close>

abbreviation valid_label :: "env \<Rightarrow> string \<Rightarrow> bool" where
  "valid_label E s \<equiv> length (env_IsValidLabelValue E s) = 0"

definition ObjectRefToLabels :: "env \<Rightarrow> ObjectRef \<Rightarrow> strmap" where
  "ObjectRefToLabels E obj =
     (let labels = [LabelResourceKind \<mapsto> ref_Kind obj, LabelResourceNamespace \<mapsto> ref_Namespace obj]
      in if valid_label E (ref_Name obj) then labels(LabelResourceName \<mapsto> ref_Name obj)
         else labels(LabelResourceNameHash \<mapsto> ComputeHash E (HString (ref_Name obj))))"

text \<open>The keys an encoded reference can have, for \<open>MatchingLabels\<close>.\<close>

definition ref_label_keys :: "string list" where
  "ref_label_keys = [LabelResourceKind, LabelResourceNamespace, LabelResourceName,
     LabelResourceNameHash]"

definition ObjectToObjectMeta :: "env \<Rightarrow> Object \<Rightarrow> ObjectMeta \<Rightarrow> ObjectMeta" where
  "ObjectToObjectMeta E obj meta =
     (let name = om_Name (o_Meta obj);
          meta1 = meta\<lparr>om_Labels := (om_Labels meta)(LabelResourceKind \<mapsto> o_Kind obj,
                         LabelResourceNamespace \<mapsto> om_Namespace (o_Meta obj))\<rparr>
      in if valid_label E name
         then meta1\<lparr>om_Labels := (om_Labels meta1)(LabelResourceName \<mapsto> name)\<rparr>
         else meta1\<lparr>om_Labels := (om_Labels meta1)(LabelResourceNameHash \<mapsto> ComputeHash E (HString name)),
                    om_Annotations := (om_Annotations meta1)(LabelResourceName \<mapsto> name)\<rparr>)"

definition ObjectRefFromObjectMeta :: "ObjectMeta \<Rightarrow> error + ObjectRef" where
  "ObjectRefFromObjectMeta meta =
     (case om_Labels meta LabelResourceKind of
        None \<Rightarrow> Inl (Errorf (''required label does not exist: '' @ LabelResourceKind))
      | Some kind \<Rightarrow>
          (let mk = (\<lambda>objname. \<lparr>ref_Kind = kind, ref_Name = objname,
                       ref_Namespace = mget (om_Labels meta) LabelResourceNamespace\<rparr>)
           in case om_Labels meta LabelResourceName of
                Some n \<Rightarrow> Inr (mk n)
              | None \<Rightarrow>
                  (case om_Annotations meta LabelResourceName of
                     Some n \<Rightarrow> Inr (mk n)
                   | None \<Rightarrow> Inl (Errorf (''required label does not exist: '' @ LabelResourceName)))))"

definition ObjectRefFromKindAndObjectKey :: "Kind \<Rightarrow> ObjectKey \<Rightarrow> ObjectRef" where
  "ObjectRefFromKindAndObjectKey kind name =
     \<lparr>ref_Kind = kind, ref_Name = key_Name name, ref_Namespace = key_Namespace name\<rparr>"

text \<open>The reference of an object by its own kind, name and namespace.\<close>

definition ref_of :: "Object \<Rightarrow> ObjectRef" where
  "ref_of obj = \<lparr>ref_Kind = o_Kind obj, ref_Name = om_Name (o_Meta obj),
     ref_Namespace = om_Namespace (o_Meta obj)\<rparr>"

section \<open>Pod specifications and container images\<close>

definition GetPodSpec :: "Object \<Rightarrow> error + PodSpec" where
  "GetPodSpec obj =
     (case o_Body obj of
        Pod sp _ \<Rightarrow> Inr sp
      | Deployment _ sp \<Rightarrow> Inr sp
      | ReplicaSet _ sp \<Rightarrow> Inr sp
      | ReplicationController _ sp \<Rightarrow> Inr sp
      | StatefulSet _ sp \<Rightarrow> Inr sp
      | DaemonSet _ sp \<Rightarrow> Inr sp
      | CronJob sp \<Rightarrow> Inr sp
      | Job sp _ \<Rightarrow> Inr (pt_Spec (js_Template sp))
      | _ \<Rightarrow> Inl (Errorf ''unsupported workload''))"

definition ComputeSpecHash :: "env \<Rightarrow> Object \<Rightarrow> error + string" where
  "ComputeSpecHash E obj =
     (let podSpecHash = (case GetPodSpec obj of Inl e \<Rightarrow> Inl e
                         | Inr spec \<Rightarrow> Inr (ComputeHash E (HPodSpec spec)))
      in case o_Body obj of
           Pod _ _ \<Rightarrow> podSpecHash
         | Deployment _ _ \<Rightarrow> podSpecHash
         | ReplicaSet _ _ \<Rightarrow> podSpecHash
         | ReplicationController _ _ \<Rightarrow> podSpecHash
         | StatefulSet _ _ \<Rightarrow> podSpecHash
         | DaemonSet _ _ \<Rightarrow> podSpecHash
         | CronJob _ \<Rightarrow> podSpecHash
         | Job _ _ \<Rightarrow> podSpecHash
         | ConfigMap _ \<Rightarrow> Inr (ComputeHash E (HObject obj))
         | Resource _ _ \<Rightarrow> Inr (ComputeHash E (HObject obj))
         | _ \<Rightarrow> Inl (Errorf ''computing spec hash of unsupported object''))"

type_synonym ContainerImages = "string gomap"

definition GetContainerImagesFromPodSpec :: "PodSpec \<Rightarrow> ContainerImages" where
  "GetContainerImagesFromPodSpec spec =
     foldl (\<lambda>images co. AList.update (co_Name co) (co_Image co) images) [] (ps_Containers spec)"

definition AsJSON :: "ContainerImages \<Rightarrow> error + string" where
  "AsJSON ci = Inr (json_Marshal ci)"

definition FromJSON :: "string \<Rightarrow> ContainerImages \<Rightarrow> error + ContainerImages" where
  "FromJSON val ci = json_Unmarshal val ci"

definition GetContainerImagesFromJob :: "Object \<Rightarrow> error + ContainerImages" where
  "GetContainerImagesFromJob job =
     (case om_Annotations (o_Meta job) AnnotationContainerImages of
        None \<Rightarrow> Inl (Errorf (''required annotation not set: '' @ AnnotationContainerImages))
      | Some containerImagesAsJSON \<Rightarrow>
          (case FromJSON containerImagesAsJSON [] of
             Inl e \<Rightarrow> Inl (Wrap (''parsing annotation: '' @ AnnotationContainerImages) e)
           | Inr containerImages \<Rightarrow> Inr containerImages))"

section \<open>Resolving objects\<close>

text \<open>\<open>ensureGVK\<close>: the kind the scheme knows for the object's Go type becomes its TypeMeta kind.\<close>

definition ensureGVK :: "'s client \<Rightarrow> Object \<Rightarrow> error + Object" where
  "ensureGVK c obj =
     (case cl_GVKForObject c obj of Inl e \<Rightarrow> Inl e | Inr k \<Rightarrow> Inr (obj\<lparr>o_Kind := k\<rparr>))"

text \<open>The Go type that \<open>ObjectFromObjectRef\<close> reads for a kind.\<close>

definition type_of_kind :: "Kind \<Rightarrow> GoType option" where
  "type_of_kind kind =
     (if kind = KindPod then Some TPod
      else if kind = KindReplicaSet then Some TReplicaSet
      else if kind = KindReplicationController then Some TReplicationController
      else if kind = KindDeployment then Some TDeployment
      else if kind = KindStatefulSet then Some TStatefulSet
      else if kind = KindDaemonSet then Some TDaemonSet
      else if kind = KindCronJob then Some TCronJob
      else if kind = KindJob then Some TJob
      else if kind = KindService then Some (TResource RService)
      else if kind = KindConfigMap then Some TConfigMap
      else if kind = KindRole then Some (TResource RRole)
      else if kind = KindRoleBinding then Some (TResource RRoleBinding)
      else if kind = KindNetworkPolicy then Some (TResource RNetworkPolicy)
      else if kind = KindIngress then Some (TResource RIngress)
      else if kind = KindResourceQuota then Some (TResource RResourceQuota)
      else if kind = KindLimitRange then Some (TResource RLimitRange)
      else if kind = KindClusterRole then Some (TResource RClusterRole)
      else if kind = KindClusterRoleBindings then Some (TResource RClusterRoleBinding)
      else if kind = KindCustomResourceDefinition then Some (TResource RCustomResourceDefinition)
      else if kind = KindPodSecurityPolicy then Some (TResource RPodSecurityPolicy)
      else None)"

definition ObjectFromObjectRef :: "'s client \<Rightarrow> 's \<Rightarrow> ObjectRef \<Rightarrow> error + Object" where
  "ObjectFromObjectRef c s ref =
     (case type_of_kind (ref_Kind ref) of
        None \<Rightarrow> Inl (Errorf (''unknown kind: '' @ ref_Kind ref))
      | Some t \<Rightarrow>
          (case cl_Get c s t \<lparr>key_Namespace = ref_Namespace ref, key_Name = ref_Name ref\<rparr> of
             Inl e \<Rightarrow> Inl e
           | Inr obj \<Rightarrow> ensureGVK c obj))"

definition rev_annotation :: "Object \<Rightarrow> string" where
  "rev_annotation x = mget (om_Annotations (o_Meta x)) deploymentAnnotation"

definition ReplicaSetByDeployment ::
    "'s client \<Rightarrow> 's \<Rightarrow> Object \<Rightarrow> error + Object" where
  "ReplicaSetByDeployment c s deployment =
     (case cl_List c s (Some TReplicaSet)
             \<lparr>lo_Namespace = Some (om_Namespace (o_Meta deployment)),
              lo_Reqs = SelectorFromSet (match_labels (o_Body deployment)),
              lo_Limit = None\<rparr> of
        Inl e \<Rightarrow> Inl (Wrap ''listing replicasets for deployment'' e)
      | Inr rsList \<Rightarrow>
          if rsList = [] then Inl ErrReplicaSetNotFound
          else (case List.find (\<lambda>rs. rev_annotation deployment = rev_annotation rs) rsList of
                  None \<Rightarrow> Inl ErrReplicaSetNotFound
                | Some rs \<Rightarrow> ensureGVK c rs))"

definition ReplicaSetByDeploymentRef ::
    "'s client \<Rightarrow> 's \<Rightarrow> ObjectRef \<Rightarrow> error + Object" where
  "ReplicaSetByDeploymentRef c s ref =
     (case cl_Get c s TDeployment \<lparr>key_Namespace = ref_Namespace ref, key_Name = ref_Name ref\<rparr> of
        Inl e \<Rightarrow> Inl (Wrap ''getting deployment'' e)
      | Inr deployment \<Rightarrow> ReplicaSetByDeployment c s deployment)"

text \<open>
  The controller of an object, read from the object's namespace, when it is of the wanted kind:
  the common body of \<open>ReplicaSetByPod\<close>, \<open>CronJobByJob\<close> and \<open>JobByPod\<close>. (If the scheme did not
  know the type, the last two would panic on a type assertion where the first returns the
  error; the scheme of \<^verbatim>\<open>NewScheme\<close> registers all three types.)
\<close>

definition controlled_by ::
    "'s client \<Rightarrow> 's \<Rightarrow> Kind \<Rightarrow> GoType \<Rightarrow> Object \<Rightarrow> error + Object" where
  "controlled_by c s kind t obj =
     (case GetControllerOf obj of
        None \<Rightarrow> Inl (Errorf ''did not find a controller'')
      | Some r \<Rightarrow>
          if or_Kind r \<noteq> kind then Inl (Errorf ''controlled by another kind'')
          else (case cl_Get c s t \<lparr>key_Namespace = om_Namespace (o_Meta obj), key_Name = or_Name r\<rparr> of
                  Inl e \<Rightarrow> Inl e
                | Inr x \<Rightarrow> ensureGVK c x))"

definition ReplicaSetByPod :: "'s client \<Rightarrow> 's \<Rightarrow> Object \<Rightarrow> error + Object" where
  "ReplicaSetByPod c s pod = controlled_by c s ''ReplicaSet'' TReplicaSet pod"

definition CronJobByJob :: "'s client \<Rightarrow> 's \<Rightarrow> Object \<Rightarrow> error + Object" where
  "CronJobByJob c s job = controlled_by c s ''CronJob'' TCronJob job"

definition JobByPod :: "'s client \<Rightarrow> 's \<Rightarrow> Object \<Rightarrow> error + Object" where
  "JobByPod c s pod = controlled_by c s ''Job'' TJob pod"

definition ReplicaSetByPodRef :: "'s client \<Rightarrow> 's \<Rightarrow> ObjectRef \<Rightarrow> error + Object" where
  "ReplicaSetByPodRef c s ref =
     (case cl_Get c s TPod \<lparr>key_Namespace = ref_Namespace ref, key_Name = ref_Name ref\<rparr> of
        Inl e \<Rightarrow> Inl e
      | Inr pod \<Rightarrow> ReplicaSetByPod c s pod)"

text \<open>
  \<open>ReportOwner\<close>: the recursion on a pod of a job calls itself once, on the job, so it is
  written as the two type cases it can reach.
\<close>

definition ReportOwner_Job :: "'s client \<Rightarrow> 's \<Rightarrow> Object \<Rightarrow> error + Object" where
  "ReportOwner_Job c s obj =
     (case GetControllerOf obj of
        None \<Rightarrow> Inr obj
      | Some r \<Rightarrow> if or_Kind r = KindCronJob then CronJobByJob c s obj else Inr obj)"

definition ReportOwner ::
    "'s client \<Rightarrow> 's \<Rightarrow> Object \<Rightarrow> error + Object" where
  "ReportOwner c s obj =
     (case o_Body obj of
        Deployment _ _ \<Rightarrow> ReplicaSetByDeployment c s obj
      | Job _ _ \<Rightarrow> ReportOwner_Job c s obj
      | Pod _ _ \<Rightarrow>
          (case GetControllerOf obj of
             None \<Rightarrow> Inr obj
           | Some r \<Rightarrow>
               if or_Kind r = KindReplicaSet then ReplicaSetByPod c s obj
               else if or_Kind r = KindJob
                 then (case JobByPod c s obj of Inl e \<Rightarrow> Inl e | Inr job \<Rightarrow> ReportOwner_Job c s job)
               else Inr obj)
      | _ \<Rightarrow> Inr obj)"

definition RelatedReplicaSetName ::
    "'s client \<Rightarrow> 's \<Rightarrow> ObjectRef \<Rightarrow> error + string" where
  "RelatedReplicaSetName c s ref =
     (if ref_Kind ref = KindDeployment then
        (case ReplicaSetByDeploymentRef c s ref of
           Inl e \<Rightarrow> Inl e | Inr rs \<Rightarrow> Inr (om_Name (o_Meta rs)))
      else if ref_Kind ref = KindPod then
        (case ReplicaSetByPodRef c s ref of
           Inl e \<Rightarrow> Inl e | Inr rs \<Rightarrow> Inr (om_Name (o_Meta rs)))
      else Inl (Errorf ''can only get related ReplicaSet for Deployment or Pod''))"

definition GetPodsByLabelSelector ::
    "'s client \<Rightarrow> 's \<Rightarrow> string \<Rightarrow> string gomap \<Rightarrow> error + Object list" where
  "GetPodsByLabelSelector c s namespace labelSelector =
     (case cl_List c s (Some TPod)
             \<lparr>lo_Namespace = Some namespace, lo_Reqs = SelectorFromSet labelSelector,
              lo_Limit = None\<rparr> of
        Inl e \<Rightarrow> Inl (Wrap ''listing pods in namespace'' e)
      | Inr pods \<Rightarrow> Inr pods)"

definition getActivePodsByLabelSelector ::
    "'s client \<Rightarrow> 's \<Rightarrow> string \<Rightarrow> string gomap \<Rightarrow> error + Object list" where
  "getActivePodsByLabelSelector c s namespace labelSelector =
     (case GetPodsByLabelSelector c s namespace labelSelector of
        Inl e \<Rightarrow> Inl e
      | Inr pods \<Rightarrow> if length pods = 0 then Inl ErrNoRunningPods else Inr pods)"

definition node_of_first :: "error + Object list \<Rightarrow> error + string" where
  "node_of_first r = (case r of Inl e \<Rightarrow> Inl e
     | Inr pods \<Rightarrow> Inr (ps_NodeName (pod_spec (o_Body (hd pods)))))"

definition GetNodeName ::
    "'s client \<Rightarrow> 's \<Rightarrow> Object \<Rightarrow> error + string" where
  "GetNodeName c s obj =
     (let active = (\<lambda>x. node_of_first (getActivePodsByLabelSelector c s
                          (om_Namespace (o_Meta obj)) (match_labels (o_Body x))))
      in case o_Body obj of
           Pod sp _ \<Rightarrow> Inr (ps_NodeName sp)
         | Deployment _ _ \<Rightarrow>
             (case ReplicaSetByDeployment c s obj of
                Inl e \<Rightarrow> Inl e | Inr replicaSet \<Rightarrow> active replicaSet)
         | ReplicaSet _ _ \<Rightarrow> active obj
         | ReplicationController _ _ \<Rightarrow> active obj
         | StatefulSet _ _ \<Rightarrow> active obj
         | DaemonSet _ _ \<Rightarrow> active obj
         | CronJob _ \<Rightarrow> Inl ErrUnSupportedKind
         | Job _ _ \<Rightarrow> active obj
         | _ \<Rightarrow> Inl ErrUnSupportedKind)"

definition IsActiveReplicaSet ::
    "'s client \<Rightarrow> 's \<Rightarrow> Object \<Rightarrow> OwnerReference option \<Rightarrow> error + bool" where
  "IsActiveReplicaSet c s workloadObj controller =
     (case controller of
        Some r \<Rightarrow>
          if or_Kind r = KindDeployment then
            (case cl_Get c s TDeployment \<lparr>key_Namespace = om_Namespace (o_Meta workloadObj),
                    key_Name = or_Name r\<rparr> of
               Inl e \<Rightarrow> Inl e
             | Inr deploymentObject \<Rightarrow>
                 Inr (rev_annotation workloadObj = rev_annotation deploymentObject))
          else Inr True
      | None \<Rightarrow> Inr True)"

section \<open>Lemmas\<close>

lemmas ref_label_defs = ObjectRefToLabels_def ObjectToObjectMeta_def ObjectRefFromObjectMeta_def

lemma dom_ObjectRefToLabels: "dom (ObjectRefToLabels E r) \<subseteq> set ref_label_keys"
  by (auto simp: ObjectRefToLabels_def ref_label_keys_def Let_def split: if_splits)

text \<open>Encoding an object into metadata keeps every label that is not one of the four.\<close>

lemma ObjectToObjectMeta_other:
  "k \<notin> set ref_label_keys \<Longrightarrow> om_Labels (ObjectToObjectMeta E obj meta) k = om_Labels meta k"
  by (auto simp: ObjectToObjectMeta_def ref_label_keys_def Let_def)

lemma ObjectToObjectMeta_frame [simp]:
  "om_Name (ObjectToObjectMeta E obj meta) = om_Name meta"
  "om_Namespace (ObjectToObjectMeta E obj meta) = om_Namespace meta"
  "om_OwnerReferences (ObjectToObjectMeta E obj meta) = om_OwnerReferences meta"
  "om_UID (ObjectToObjectMeta E obj meta) = om_UID meta"
  "om_DeletionTimestamp (ObjectToObjectMeta E obj meta) = om_DeletionTimestamp meta"
  by (simp_all add: ObjectToObjectMeta_def Let_def)

lemma ObjectToObjectMeta_annotation:
  "k \<noteq> LabelResourceName \<Longrightarrow> om_Annotations (ObjectToObjectMeta E obj meta) k = om_Annotations meta k"
  by (simp add: ObjectToObjectMeta_def Let_def)

text \<open>The labels written for an object contain the labels searched for its reference.\<close>

lemma ObjectToObjectMeta_matches:
  "ObjectRefToLabels E (ref_of obj) \<subseteq>\<^sub>m om_Labels (ObjectToObjectMeta E obj meta)"
  by (auto simp: map_le_def ref_label_defs ref_of_def Let_def)

lemma ObjectRef_roundtrip:
  assumes "om_Labels meta LabelResourceName = None \<or> valid_label E (om_Name (o_Meta obj))"
  shows "ObjectRefFromObjectMeta (ObjectToObjectMeta E obj meta) = Inr (ref_of obj)"
  using assms by (auto simp: ref_label_defs ref_of_def Let_def mget_def)

lemma GetContainerImages_distinct: "distinct (map fst (GetContainerImagesFromPodSpec spec))"
proof -
  have "distinct (map fst (foldl (\<lambda>im co. AList.update (co_Name co) (co_Image co) im) acc cs))"
    if "distinct (map fst acc)" for acc :: ContainerImages and cs :: "Container list"
    using that by (induction cs arbitrary: acc) (auto simp: distinct_update)
  then show ?thesis by (simp add: GetContainerImagesFromPodSpec_def)
qed

lemma GetContainerImages_keys:
  "fst ` set (GetContainerImagesFromPodSpec spec) = co_Name ` set (ps_Containers spec)"
proof -
  have "fst ` set (foldl (\<lambda>im co. AList.update (co_Name co) (co_Image co) im) acc cs)
      = fst ` set acc \<union> co_Name ` set cs" for acc :: ContainerImages and cs :: "Container list"
    by (induction cs arbitrary: acc) (auto simp: update_keys_set)
  then show ?thesis by (simp add: GetContainerImagesFromPodSpec_def)
qed

lemma ensureGVK_Inr: "ensureGVK c obj = Inr x \<Longrightarrow> o_Meta x = o_Meta obj \<and> o_Body x = o_Body obj"
  by (auto simp: ensureGVK_def split: sum.splits)

lemma type_of_kind_simps [simp]:
  "type_of_kind KindPod = Some TPod" "type_of_kind KindReplicaSet = Some TReplicaSet"
  "type_of_kind KindJob = Some TJob" "type_of_kind KindCronJob = Some TCronJob"
  by (simp_all add: type_of_kind_def kube_simps)

end
