(* ===== verification/Mem_Client.thy ===== *)
theory Mem_Client
  imports Kube_Object
begin

text \<open>
  An in-memory client: the cluster is a list of objects, the newest first, and an object is
  identified by its Go type, namespace and name. It satisfies every law of \<open>api_laws\<close>, so the
  laws are consistent, and it is the client at which the witnesses of the other theories
  evaluate the model. It stands for no code of the repository.
\<close>

definition same_id :: "Object \<Rightarrow> Object \<Rightarrow> bool" where
  "same_id x y \<longleftrightarrow> go_type x = go_type y \<and> key_of x = key_of y"

definition mem_Get :: "Object list \<Rightarrow> GoType \<Rightarrow> ObjectKey \<Rightarrow> error + Object" where
  "mem_Get s t k = (case List.find (\<lambda>x. go_type x = t \<and> key_of x = k) s of
     None \<Rightarrow> Inl NotFound | Some x \<Rightarrow> Inr x)"

fun firsts :: "Object list \<Rightarrow> Object list" where
  "firsts [] = []"
| "firsts (x # xs) = x # filter (\<lambda>y. \<not> same_id x y) (firsts xs)"

definition mem_List :: "Object list \<Rightarrow> GoType option \<Rightarrow> ListOptions \<Rightarrow> error + Object list" where
  "mem_List s t opts =
     (case t of
        None \<Rightarrow> Inl (Errorf ''expected pointer, but got nil'')
      | Some t' \<Rightarrow>
          (let xs = filter (\<lambda>x. go_type x = t' \<and> selected opts x) (firsts s)
           in Inr (case lo_Limit opts of None \<Rightarrow> xs | Some n \<Rightarrow> if 0 < n then take (nat n) xs else xs)))"

definition mem_remove :: "Object list \<Rightarrow> Object \<Rightarrow> Object list" where
  "mem_remove s x = filter (\<lambda>y. \<not> same_id x y) s"

definition mem_Create :: "Object list \<Rightarrow> Object \<Rightarrow> (error + Object) \<times> Object list" where
  "mem_Create s x = (if \<exists>y \<in> set s. same_id x y then (Inl AlreadyExists, s) else (Inr x, x # s))"

definition mem_Update :: "Object list \<Rightarrow> Object \<Rightarrow> error option \<times> Object list" where
  "mem_Update s x = (if \<exists>y \<in> set s. same_id x y then (None, x # mem_remove s x)
     else (Some NotFound, s))"

definition mem_Delete :: "Object list \<Rightarrow> Object \<Rightarrow> error option \<times> Object list" where
  "mem_Delete s x = (if \<exists>y \<in> set s. same_id x y then (None, mem_remove s x)
     else (Some NotFound, s))"

text \<open>The kind names under which the scheme of \<^verbatim>\<open>NewScheme\<close> registers the types.\<close>

fun resource_kind :: "ResourceType \<Rightarrow> Kind" where
  "resource_kind RService = KindService"
| "resource_kind RRole = KindRole"
| "resource_kind RRoleBinding = KindRoleBinding"
| "resource_kind RNetworkPolicy = KindNetworkPolicy"
| "resource_kind RIngress = KindIngress"
| "resource_kind RResourceQuota = KindResourceQuota"
| "resource_kind RLimitRange = KindLimitRange"
| "resource_kind RClusterRole = KindClusterRole"
| "resource_kind RClusterRoleBinding = KindClusterRoleBindings"
| "resource_kind RCustomResourceDefinition = KindCustomResourceDefinition"
| "resource_kind RPodSecurityPolicy = KindPodSecurityPolicy"

fun kind_of_type :: "GoType \<Rightarrow> Kind" where
  "kind_of_type TPod = KindPod"
| "kind_of_type TDeployment = KindDeployment"
| "kind_of_type TReplicaSet = KindReplicaSet"
| "kind_of_type TReplicationController = KindReplicationController"
| "kind_of_type TStatefulSet = KindStatefulSet"
| "kind_of_type TDaemonSet = KindDaemonSet"
| "kind_of_type TCronJob = KindCronJob"
| "kind_of_type TJob = KindJob"
| "kind_of_type TConfigMap = KindConfigMap"
| "kind_of_type TSecret = ''Secret''"
| "kind_of_type TServiceAccount = ''ServiceAccount''"
| "kind_of_type TNode = KindNode"
| "kind_of_type (TResource r) = resource_kind r"
| "kind_of_type TVulnerabilityReport = ''VulnerabilityReport''"
| "kind_of_type TConfigAuditReport = ''ConfigAuditReport''"
| "kind_of_type TClusterConfigAuditReport = ''ClusterConfigAuditReport''"
| "kind_of_type TCISKubeBenchReport = ''CISKubeBenchReport''"
| "kind_of_type TClusterComplianceReport = ''ClusterComplianceReport''"
| "kind_of_type TClusterComplianceDetailReport = ''ClusterComplianceDetailReport''"
| "kind_of_type TKubeHunterReport = ''KubeHunterReport''"
| "kind_of_type TNamespace = ''Namespace''"

definition mem_client :: "Object list client" where
  "mem_client = \<lparr>cl_Get = mem_Get, cl_List = mem_List, cl_Create = mem_Create,
     cl_Update = mem_Update, cl_StatusUpdate = mem_Update, cl_Delete = mem_Delete,
     cl_GVKForObject = (\<lambda>x. Inr (kind_of_type (go_type x)))\<rparr>"

text \<open>The scheme registers the kind that \<open>ObjectFromObjectRef\<close> reads for the type.\<close>

definition law_scheme :: "'s client \<Rightarrow> bool" where
  "law_scheme c \<longleftrightarrow> (\<forall>x. cl_GVKForObject c x = Inr (kind_of_type (go_type x)))"

text \<open>Sample values for the witnesses of the other theories.\<close>

definition sample_env :: env where
  "sample_env = \<lparr>env_spew = (\<lambda>x. case x of HString n \<Rightarrow> n | HObjectRef r \<Rightarrow> ref_Name r
        | HPodSpec p \<Rightarrow> concat (map co_Image (ps_Containers p)) | _ \<Rightarrow> []),
     env_SafeEncodeString = (\<lambda>x. x),
     env_IsValidLabelValue = (\<lambda>x. if length x \<le> 63 then [] else [''must be no more than 63 characters''])\<rparr>"

definition sample_container :: Container where
  "sample_container = empty_Container\<lparr>co_Name := ''nginx'', co_Image := ''nginx:1.16''\<rparr>"

definition sample_podspec :: PodSpec where
  "sample_podspec = empty_PodSpec\<lparr>ps_Containers := [sample_container]\<rparr>"

definition sample_pod :: Object where
  "sample_pod = \<lparr>o_Kind = KindPod, o_Meta = empty_meta\<lparr>om_Name := ''web'', om_Namespace := ''prod''\<rparr>,
     o_Body = Pod sample_podspec \<lparr>pst_InitContainerStatuses = [], pst_ContainerStatuses = []\<rparr>\<rparr>"

section \<open>The laws hold\<close>

lemma same_id_refl [simp]: "same_id x x"
  by (simp add: same_id_def)

lemma same_id_sym: "same_id x y \<Longrightarrow> same_id y x"
  by (simp add: same_id_def)

lemma mem_client_sel [simp]:
  "cl_Get mem_client = mem_Get" "cl_List mem_client = mem_List" "cl_Create mem_client = mem_Create"
  "cl_Update mem_client = mem_Update" "cl_StatusUpdate mem_client = mem_Update"
  "cl_Delete mem_client = mem_Delete"
  "cl_GVKForObject mem_client = (\<lambda>x. Inr (kind_of_type (go_type x)))"
  by (simp_all add: mem_client_def)

lemma mem_Get_Inr: "mem_Get s t k = Inr x \<Longrightarrow> x \<in> set s \<and> go_type x = t \<and> key_of x = k"
  by (auto simp: mem_Get_def find_Some_iff split: option.splits)

lemma mem_Get_Cons: "mem_Get (x # s) t k = (if go_type x = t \<and> key_of x = k then Inr x else mem_Get s t k)"
  by (simp add: mem_Get_def)

lemma find_filter_keep: "(\<And>y. y \<in> set s \<Longrightarrow> P y \<Longrightarrow> Q y) \<Longrightarrow> List.find P (filter Q s) = List.find P s"
  by (induction s) auto

lemma mem_Get_remove_other:
  "\<not> (go_type x = t \<and> key_of x = k) \<Longrightarrow> mem_Get (mem_remove s x) t k = mem_Get s t k"
  unfolding mem_Get_def mem_remove_def
  by (subst find_filter_keep) (auto simp: same_id_def)

lemma mem_Get_remove_self: "mem_Get (mem_remove s x) (go_type x) (key_of x) = Inl NotFound"
proof -
  have "List.find (\<lambda>y. go_type y = go_type x \<and> key_of y = key_of x) (mem_remove s x) = None"
    by (auto simp: find_None_iff mem_remove_def same_id_def)
  then show ?thesis by (simp add: mem_Get_def)
qed

lemma mem_Get_absent: "\<forall>y \<in> set s. \<not> same_id x y \<Longrightarrow> mem_Get s (go_type x) (key_of x) = Inl NotFound"
  by (auto simp: mem_Get_def same_id_def find_Some_iff split: option.splits) (metis nth_mem)

lemma firsts_set: "x \<in> set (firsts s) \<longleftrightarrow> mem_Get s (go_type x) (key_of x) = Inr x"
proof (induction s)
  case Nil
  then show ?case by (simp add: mem_Get_def)
next
  case (Cons y s)
  then show ?case by (auto simp: mem_Get_Cons same_id_def)
qed

lemma firsts_distinct: "distinct (map (\<lambda>x. (go_type x, key_of x)) (firsts s))"
  by (induction s) (auto simp: same_id_def distinct_map inj_on_def)

lemma distinct_keys_of_type: "distinct (map key_of (filter (\<lambda>x. go_type x = t \<and> P x) (firsts s)))"
  using firsts_distinct [of s] by (auto simp: distinct_map inj_on_def)

lemma mem_list_set:
  "set (filter (\<lambda>x. go_type x = t \<and> selected opts x) (firsts s)) =
     {x. \<exists>k. mem_Get s t k = Inr x \<and> selected opts x}"
  by (auto simp: firsts_set dest: mem_Get_Inr)

lemma mem_Create_law: "law_create mem_client"
proof -
  have "\<exists>e. mem_Get s (go_type x) (key_of x) = Inl e" if "\<forall>y \<in> set s. \<not> same_id x y" for s x
  proof (cases "mem_Get s (go_type x) (key_of x)")
    case (Inr y)
    then have "y \<in> set s" "same_id x y" by (auto simp: same_id_def dest: mem_Get_Inr)
    with that show ?thesis by blast
  qed blast
  then show ?thesis
    by (auto simp: law_create_def mem_Create_def mem_Get_Cons only_changes_def split: if_splits)
qed

lemma mem_list_limit:
  assumes "mem_List s (Some t) opts = Inr ys" and "lo_Limit opts = Some n" and "0 < n"
  shows "distinct (map key_of ys)" "int (length ys) \<le> n"
    "y \<in> set ys \<Longrightarrow> \<exists>k. mem_Get s t k = Inr y" "y \<in> set ys \<Longrightarrow> selected opts y"
    "int (length ys) < n \<Longrightarrow> mem_Get s t k = Inr y \<Longrightarrow> selected opts y \<Longrightarrow> y \<in> set ys"
proof -
  define xs where "xs = filter (\<lambda>x. go_type x = t \<and> selected opts x) (firsts s)"
  have ys: "ys = take (nat n) xs"
    using assms by (simp add: mem_List_def xs_def Let_def)
  have set_xs: "set xs = {x. \<exists>k. mem_Get s t k = Inr x \<and> selected opts x}"
    unfolding xs_def by (rule mem_list_set)
  have "distinct (map key_of xs)" unfolding xs_def by (rule distinct_keys_of_type)
  then show "distinct (map key_of ys)" by (metis distinct_take take_map ys)
  show "int (length ys) \<le> n" using assms(3) by (simp add: ys)
  have sub: "set ys \<subseteq> set xs" by (simp add: ys set_take_subset)
  show "y \<in> set ys \<Longrightarrow> \<exists>k. mem_Get s t k = Inr y" "y \<in> set ys \<Longrightarrow> selected opts y"
    using sub set_xs by blast+
  show "y \<in> set ys" if "int (length ys) < n" "mem_Get s t k = Inr y" "selected opts y"
  proof -
    have "y \<in> set xs" using that(2,3) set_xs by blast
    moreover have "ys = xs" using that(1) by (simp add: ys min_def split: if_splits)
    ultimately show ?thesis by simp
  qed
qed

lemma mem_laws: "api_laws mem_client"
proof -
  have "law_get_typed mem_client"
    by (auto simp: law_get_typed_def dest: mem_Get_Inr)
  moreover have "law_update mem_client"
    by (auto simp: law_update_def mem_Update_def mem_Get_Cons only_changes_def
        mem_Get_remove_other split: if_splits intro!: exI)
  moreover have "law_delete mem_client"
    by (auto simp: law_delete_def mem_Delete_def mem_Get_remove_self mem_Get_remove_other
        mem_Get_absent only_changes_def split: if_splits)
  moreover have "law_failed_write mem_client"
    by (auto simp: law_failed_write_def mem_Create_def mem_Update_def mem_Delete_def split: if_splits)
  moreover have "law_list mem_client"
    unfolding law_list_def mem_client_sel mem_List_def Let_def
    by (simp add: distinct_keys_of_type mem_list_set del: set_filter)
  moreover have "law_list_limit mem_client"
    by (auto simp: law_list_limit_def dest: mem_list_limit)
  ultimately show ?thesis using mem_Create_law by (simp add: api_laws_def)
qed

lemma mem_scheme: "law_scheme mem_client"
  by (simp add: law_scheme_def)

lemma type_of_kind_of_resource: "type_of_kind (resource_kind r) = Some (TResource r)"
  by (cases r) (simp_all add: type_of_kind_def kube_simps)

lemma kind_of_type_of_kind: "type_of_kind k = Some t \<Longrightarrow> kind_of_type t = k"
  by (auto simp: type_of_kind_def split: if_splits)

end
