(* ===== verification/Starboard_Config.thy ===== *)
theory Starboard_Config
  imports Mem_Client
begin

text \<open>
  Package \<^verbatim>\<open>pkg/starboard\<close>: the configuration settings (\<^verbatim>\<open>config.go\<close>) and the execution
  context of a plugin (\<^verbatim>\<open>plugin.go\<close>). \<^verbatim>\<open>ConfigData\<close> is a map from keys to values; the
  accessors are translated one by one, and the two managers of the stored configuration are
  sequences of API calls over the client parameter. Decoding the tolerations (a JSON list of a
  Kubernetes type), parsing an image reference (go-containerregistry) and the policies that the
  binary embeds are parameters.
\<close>

type_synonym ConfigData = strmap

definition keyVulnerabilityReportsScanner :: string where
  [label_simps]: "keyVulnerabilityReportsScanner = ''vulnerabilityReports.scanner''"
definition KeyVulnerabilityScansInSameNamespace :: string where
  [label_simps]: "KeyVulnerabilityScansInSameNamespace = ''vulnerabilityReports.scanJobsInSameNamespace''"
definition keyConfigAuditReportsScanner :: string where
  [label_simps]: "keyConfigAuditReportsScanner = ''configAuditReports.scanner''"
definition keyKubeBenchImageRef :: string where
  [label_simps]: "keyKubeBenchImageRef = ''kube-bench.imageRef''"
definition keyKubeHunterImageRef :: string where
  [label_simps]: "keyKubeHunterImageRef = ''kube-hunter.imageRef''"
definition keyKubeHunterQuick :: string where
  [label_simps]: "keyKubeHunterQuick = ''kube-hunter.quick''"
definition keyScanJobTolerations :: string where
  [label_simps]: "keyScanJobTolerations = ''scanJob.tolerations''"
definition keyScanJobAnnotations :: string where
  [label_simps]: "keyScanJobAnnotations = ''scanJob.annotations''"
definition keyScanJobPodTemplateLabels :: string where
  [label_simps]: "keyScanJobPodTemplateLabels = ''scanJob.podTemplateLabels''"
definition keyComplianceFailEntriesLimit :: string where
  [label_simps]: "keyComplianceFailEntriesLimit = ''compliance.failEntriesLimit''"

section \<open>Accessors of ConfigData\<close>

definition GetDefaultConfig :: "string gomap" where
  "GetDefaultConfig = [
     (keyVulnerabilityReportsScanner, ''Trivy''),
     (keyConfigAuditReportsScanner, ''Polaris''),
     (''kube-bench.imageRef'', ''docker.io/aquasec/kube-bench:v0.6.6''),
     (''kube-hunter.imageRef'', ''docker.io/aquasec/kube-hunter:0.6.5''),
     (''kube-hunter.quick'', ''false''),
     (''compliance.failEntriesLimit'', ''10'')]"

definition GetRequiredData :: "ConfigData \<Rightarrow> string \<Rightarrow> error + string" where
  "GetRequiredData c k = (case c k of None \<Rightarrow> Inl (Errorf (''property '' @ k @ '' not set'')) | Some v \<Rightarrow> Inr v)"

definition GetVulnerabilityReportsScanner :: "ConfigData \<Rightarrow> error + string" where
  "GetVulnerabilityReportsScanner c =
     (case c keyVulnerabilityReportsScanner of
        None \<Rightarrow> Inl (Errorf (''property '' @ keyVulnerabilityReportsScanner @ '' not set''))
      | Some v \<Rightarrow> Inr v)"

definition VulnerabilityScanJobsInSameNamespace :: "ConfigData \<Rightarrow> bool" where
  "VulnerabilityScanJobsInSameNamespace c =
     (case c KeyVulnerabilityScansInSameNamespace of None \<Rightarrow> False | Some v \<Rightarrow> v = ''true'')"

definition GetConfigAuditReportsScanner :: "ConfigData \<Rightarrow> error + string" where
  "GetConfigAuditReportsScanner c =
     (case c keyConfigAuditReportsScanner of
        None \<Rightarrow> Inl (Errorf (''property '' @ keyConfigAuditReportsScanner @ '' not set''))
      | Some v \<Rightarrow> Inr v)"

definition GetScanJobTolerations ::
    "(string \<Rightarrow> error + string list) \<Rightarrow> ConfigData \<Rightarrow> error + string list" where
  "GetScanJobTolerations unmarshal c =
     (if mget c keyScanJobTolerations = [] then Inr [] else unmarshal (mget c keyScanJobTolerations))"

text \<open>The common body of the two comma-separated lists of \<^verbatim>\<open>key=value\<close> pairs.\<close>

fun add_pairs :: "string \<Rightarrow> string list \<Rightarrow> strmap \<Rightarrow> error + strmap" where
  "add_pairs err [] m = Inr m"
| "add_pairs err (a # as) m =
     (case Split (CHR ''='') a of
        [k, v] \<Rightarrow> add_pairs err as (m(k \<mapsto> v))
      | _ \<Rightarrow> Inl (Errorf err))"

definition parse_pairs :: "string \<Rightarrow> string option \<Rightarrow> error + strmap" where
  "parse_pairs err setting =
     (case setting of
        None \<Rightarrow> Inr Map.empty
      | Some str \<Rightarrow> if TrimSpace str = [] then Inr Map.empty
                    else add_pairs (err @ str) (Split (CHR '','') str) Map.empty)"

definition GetScanJobAnnotations :: "ConfigData \<Rightarrow> error + strmap" where
  "GetScanJobAnnotations c =
     parse_pairs ''failed parsing incorrectly formatted custom scan job annotations: ''
       (c keyScanJobAnnotations)"

definition GetScanJobPodTemplateLabels :: "ConfigData \<Rightarrow> error + strmap" where
  "GetScanJobPodTemplateLabels c =
     parse_pairs ''failed parsing incorrectly formatted custom scan pod template labels: ''
       (c keyScanJobPodTemplateLabels)"

definition GetKubeBenchImageRef :: "ConfigData \<Rightarrow> error + string" where
  "GetKubeBenchImageRef c = GetRequiredData c keyKubeBenchImageRef"

definition GetKubeHunterImageRef :: "ConfigData \<Rightarrow> error + string" where
  "GetKubeHunterImageRef c = GetRequiredData c keyKubeHunterImageRef"

definition GetKubeHunterQuick :: "ConfigData \<Rightarrow> error + bool" where
  "GetKubeHunterQuick c =
     (case c keyKubeHunterQuick of
        None \<Rightarrow> Inr False
      | Some val \<Rightarrow>
          if val \<noteq> ''false'' \<and> val \<noteq> ''true''
          then Inl (Errorf ''property kube-hunter.quick must be either false or true'')
          else Inr (val = ''true''))"

definition ComplianceFailEntriesLimit :: "ConfigData \<Rightarrow> int" where
  "ComplianceFailEntriesLimit c =
     (case c keyComplianceFailEntriesLimit of
        None \<Rightarrow> 10
      | Some val \<Rightarrow> (case Atoi val of Inl _ \<Rightarrow> 10 | Inr n \<Rightarrow> n))"

text \<open>A parsed image reference is a tag or a digest.\<close>

datatype ImageRef = ImageTag string | ImageDigest string

definition GetVersionFromImageRef ::
    "(string \<Rightarrow> error + ImageRef) \<Rightarrow> string \<Rightarrow> error + string" where
  "GetVersionFromImageRef ParseReference imageRef =
     (case ParseReference imageRef of
        Inl e \<Rightarrow> Inl (Wrap ''parsing reference'' e)
      | Inr (ImageTag t) \<Rightarrow> Inr t
      | Inr (ImageDigest d) \<Rightarrow> Inr d)"

section \<open>The stored configuration\<close>

definition managed_meta :: "string \<Rightarrow> string \<Rightarrow> ObjectMeta" where
  "managed_meta ns name = empty_meta\<lparr>om_Name := name, om_Namespace := ns,
     om_Labels := [LabelK8SAppManagedBy \<mapsto> ''starboard'']\<rparr>"

definition default_config_map :: "string \<Rightarrow> Object" where
  "default_config_map ns = \<lparr>o_Kind = [], o_Meta = managed_meta ns ConfigMapName,
     o_Body = ConfigMap GetDefaultConfig\<rparr>"

definition default_secret :: "string \<Rightarrow> Object" where
  "default_secret ns = \<lparr>o_Kind = [], o_Meta = managed_meta ns SecretName, o_Body = Secret [] []\<rparr>"

definition ensure_object ::
    "'s client \<Rightarrow> string \<Rightarrow> string \<Rightarrow> (error + Object) \<Rightarrow> 's \<Rightarrow> error option \<times> 's" where
  "ensure_object c ns name dflt s =
     (case cl_Get c s TConfigMap \<lparr>key_Namespace = ns, key_Name = name\<rparr> of
        Inr _ \<Rightarrow> (None, s)
      | Inl err \<Rightarrow>
          if \<not> IsNotFound err then (Some (Wrap (''failed getting configmap: '' @ name) err), s)
          else (case dflt of
                  Inl e \<Rightarrow> (Some (Wrap ''failed getting embedded policies'' e), s)
                | Inr obj \<Rightarrow>
                    wrap_err (''failed creating configmap: '' @ name) (only_err (cl_Create c s obj))))"

definition EnsureDefault ::
    "'s client \<Rightarrow> string \<Rightarrow> (error + Object) \<Rightarrow> 's \<Rightarrow> error option \<times> 's" where
  "EnsureDefault c ns PoliciesConfigMap s =
     and_then (ensure_object c ns ConfigMapName (Inr (default_config_map ns)) s) (\<lambda>s1.
     and_then (ensure_object c ns PoliciesConfigMapName
                 (case PoliciesConfigMap of Inl e \<Rightarrow> Inl e
                  | Inr p \<Rightarrow> Inr (p\<lparr>o_Meta := (o_Meta p)\<lparr>om_Namespace := ns\<rparr>\<rparr>)) s1) (\<lambda>s2.
     ignore_err IsAlreadyExists (only_err (cl_Create c s2 (default_secret ns)))))"

definition ReadConfig :: "'s client \<Rightarrow> string \<Rightarrow> 's \<Rightarrow> error + ConfigData" where
  "ReadConfig c ns s =
     (case cl_Get c s TConfigMap \<lparr>key_Namespace = ns, key_Name = ConfigMapName\<rparr> of
        Inl e \<Rightarrow> Inl e
      | Inr cm \<Rightarrow>
          (case cl_Get c s TSecret \<lparr>key_Namespace = ns, key_Name = SecretName\<rparr> of
             Inl e \<Rightarrow> Inl e
           | Inr secret \<Rightarrow>
               Inr (map_of (config_data (o_Body cm)) ++ map_of (config_data (o_Body secret)))))"

definition GetPluginConfigMapName :: "string \<Rightarrow> string" where
  "GetPluginConfigMapName pluginName = ''starboard-'' @ ToLower pluginName @ ''-config''"

text \<open>An object named only by its type, namespace and name, the argument of a typed delete.\<close>

definition named_obj :: "Body \<Rightarrow> string \<Rightarrow> string \<Rightarrow> Object" where
  "named_obj b ns name = \<lparr>o_Kind = [], o_Meta = empty_meta\<lparr>om_Name := name, om_Namespace := ns\<rparr>,
     o_Body = b\<rparr>"

definition DeleteConfig :: "'s client \<Rightarrow> string \<Rightarrow> 's \<Rightarrow> error option \<times> 's" where
  "DeleteConfig c ns s =
     and_then (ignore_err IsNotFound (cl_Delete c s (named_obj (ConfigMap []) ns ConfigMapName))) (\<lambda>s1.
     and_then (ignore_err IsNotFound
       (cl_Delete c s1 (named_obj (ConfigMap []) ns (GetPluginConfigMapName ''Polaris'')))) (\<lambda>s2.
     ignore_err IsNotFound (cl_Delete c s2 (named_obj (Secret [] []) ns SecretName))))"

section \<open>Plugin contexts\<close>

record PluginConfig =
  pc_Data :: "string gomap"
  pc_SecretData :: "string gomap"

definition PluginConfig_GetRequiredData :: "PluginConfig \<Rightarrow> string \<Rightarrow> error + string" where
  "PluginConfig_GetRequiredData c k =
     (case map_of (pc_Data c) k of None \<Rightarrow> Inl (Errorf (''property '' @ k @ '' not set'')) | Some v \<Rightarrow> Inr v)"

record PluginContext =
  px_name :: string
  px_namespace :: string
  px_serviceAccountName :: string
  px_starboardConfig :: ConfigData

definition EnsureConfig ::
    "'s client \<Rightarrow> PluginContext \<Rightarrow> string gomap \<Rightarrow> 's \<Rightarrow> error option \<times> 's" where
  "EnsureConfig c p data s =
     ignore_err IsAlreadyExists (only_err (cl_Create c s
       \<lparr>o_Kind = [], o_Meta = managed_meta (px_namespace p) (GetPluginConfigMapName (px_name p)),
        o_Body = ConfigMap data\<rparr>))"

definition GetConfig :: "'s client \<Rightarrow> PluginContext \<Rightarrow> 's \<Rightarrow> error + PluginConfig" where
  "GetConfig c p s =
     (let key = \<lparr>key_Namespace = px_namespace p,
                 key_Name = ''starboard-'' @ ToLower (px_name p) @ ''-config''\<rparr>
      in case cl_Get c s TConfigMap key of
           Inl e \<Rightarrow> Inl e
         | Inr cm \<Rightarrow>
             (case cl_Get c s TSecret key of
                Inr secret \<Rightarrow> Inr \<lparr>pc_Data = config_data (o_Body cm),
                                 pc_SecretData = config_data (o_Body secret)\<rparr>
              | Inl e \<Rightarrow> if \<not> IsNotFound e then Inl e
                        else Inr \<lparr>pc_Data = config_data (o_Body cm),
                                  pc_SecretData = []\<rparr>))"

section \<open>Lemmas\<close>

lemma default_config_key [simp]:
  "key_of (default_config_map ns) = \<lparr>key_Namespace = ns, key_Name = ConfigMapName\<rparr>"
  "go_type (default_config_map ns) = TConfigMap"
  "key_of (default_secret ns) = \<lparr>key_Namespace = ns, key_Name = SecretName\<rparr>"
  "go_type (default_secret ns) = TSecret"
  by (simp_all add: default_config_map_def default_secret_def managed_meta_def key_of_def)

text \<open>A create keeps every object that was there: it only adds one that was absent.\<close>

lemma create_keeps:
  assumes "api_laws c" and "cl_Get c s t k = Inr x"
  shows "cl_Get c (snd (cl_Create c s y)) t k = Inr x"
proof (cases "cl_Create c s y")
  case (Pair r s')
  show ?thesis
  proof (cases r)
    case (Inl e)
    then show ?thesis using assms Pair by (metis failed_write(1) snd_conv)
  next
    case (Inr z)
    note ok = create_ok [OF assms(1) Pair [unfolded Inr]]
    have "(t, k) \<noteq> (go_type y, key_of y)" using ok(4) assms(2) by auto
    then show ?thesis using ok(3) assms(2) Pair by (simp add: only_changes_def)
  qed
qed

lemma ensure_object_keeps:
  assumes "api_laws c" and "cl_Get c s t k = Inr x"
  shows "cl_Get c (snd (ensure_object c ns name d s)) t k = Inr x"
  using assms create_keeps [OF assms] by (auto simp: ensure_object_def split: sum.splits)

lemma and_then_keeps:
  assumes "P (snd r)" and "\<And>s. P s \<Longrightarrow> P (snd (f s))"
  shows "P (snd (and_then r f))"
  using assms by (cases r; cases "fst r") auto

lemma EnsureDefault_keeps_lemma:
  assumes "api_laws c" and "cl_Get c s t k = Inr x"
  shows "cl_Get c (snd (EnsureDefault c ns pol s)) t k = Inr x"
  unfolding EnsureDefault_def
  by (intro and_then_keeps [where P = "\<lambda>s. cl_Get c s t k = Inr x"])
     (use assms in \<open>simp_all add: ensure_object_keeps create_keeps\<close>)

lemma ensure_object_present:
  assumes "api_laws c" and "ensure_object c ns name (Inr obj) s = (None, s')"
    and "go_type obj = TConfigMap" and "key_of obj = \<lparr>key_Namespace = ns, key_Name = name\<rparr>"
  shows "\<exists>x. cl_Get c s' TConfigMap \<lparr>key_Namespace = ns, key_Name = name\<rparr> = Inr x"
proof (cases "cl_Get c s TConfigMap \<lparr>key_Namespace = ns, key_Name = name\<rparr>")
  case (Inl e)
  with assms(2) obtain y where "cl_Create c s obj = (Inr y, s')"
    by (auto simp: ensure_object_def only_err_None_iff split: if_splits)
  with create_ok(2) [OF assms(1)] assms(3,4) show ?thesis by metis
next
  case (Inr x)
  with assms(2) show ?thesis by (simp add: ensure_object_def)
qed

lemma add_pairs_ok:
  assumes "\<forall>(k, v) \<in> set kvs. CHR ''='' \<notin> set k \<and> CHR ''='' \<notin> set v"
  shows "add_pairs err (map (\<lambda>(k, v). k @ CHR ''='' # v) kvs) m = Inr (m ++ map_of (rev kvs))"
  using assms
proof (induction kvs arbitrary: m)
  case (Cons kv kvs)
  obtain k v where kv: "kv = (k, v)" by fastforce
  have "Split (CHR ''='') (k @ CHR ''='' # v) = [k, v]"
    using Cons.prems kv by (auto simp: Split_append Split_single)
  then show ?case using Cons kv by (simp add: map_add_upd)
qed simp

end
