(* ===== verification/Report_Store.thy ===== *)
theory Report_Store
  imports Starboard_Config
begin

text \<open>
  The contract that the four report writers of the program share: a writer stores one report
  under its key, replacing labels and contents of an existing one, and touches nothing else. The
  writers are in \<^verbatim>\<open>pkg/vulnerabilityreport/io.go\<close>, \<^verbatim>\<open>pkg/configauditreport/io.go\<close> (two of them)
  and \<^verbatim>\<open>pkg/kubebench/io.go\<close>; each has the same body, given here once as \<open>upsert\<close> over the Go type
  and the key that the writer reads. The locale \<open>report_store\<close> states the contract and derives what
  the controllers rely on: a written report is found by its owner's labels, a batch of reports
  with different keys is stored completely, objects of other types are untouched.
\<close>

definition upsert ::
    "GoType \<Rightarrow> 's client \<Rightarrow> ObjectKey \<Rightarrow> Object \<Rightarrow> 's \<Rightarrow> error option \<times> 's" where
  "upsert t c key report s =
     (case cl_Get c s t key of
        Inr existing \<Rightarrow>
          cl_Update c s (existing\<lparr>o_Meta := (o_Meta existing)\<lparr>om_Labels := om_Labels (o_Meta report)\<rparr>,
                                 o_Body := o_Body report\<rparr>)
      | Inl err \<Rightarrow>
          if IsNotFound err then only_err (cl_Create c s report) else (Some err, s))"

text \<open>What a stored object shows of the report that was written.\<close>

definition stores :: "Object \<Rightarrow> Object \<Rightarrow> bool" where
  "stores x report \<longleftrightarrow> o_Body x = o_Body report \<and> om_Labels (o_Meta x) = om_Labels (o_Meta report)"

locale report_store =
  fixes rtype :: GoType
    and fits :: "Object \<Rightarrow> bool"
    and store :: "'s client \<Rightarrow> Object \<Rightarrow> 's \<Rightarrow> error option \<times> 's"
  assumes write_stored: "api_laws c \<Longrightarrow> go_type x = rtype \<Longrightarrow> fits x \<Longrightarrow> store c x s = (None, s') \<Longrightarrow>
      \<exists>y. cl_Get c s' rtype (key_of x) = Inr y \<and> stores y x"
    and write_frame: "api_laws c \<Longrightarrow> go_type x = rtype \<Longrightarrow> fits x \<Longrightarrow> store c x s = (r, s') \<Longrightarrow>
      only_changes c s s' rtype (key_of x)"
    and write_failed: "api_laws c \<Longrightarrow> store c x s = (Some e, s') \<Longrightarrow> s' = s"
begin

text \<open>A written report is among the results of a search by labels it carries.\<close>

lemma written_found:
  assumes "api_laws c" and "go_type x = rtype" and "fits x" and "store c x s = (None, s')"
    and "cl_List c s' (Some rtype) opts = Inr ys" and "lo_Limit opts = None"
    and "list_all (\<lambda>r. req_holds r (om_Labels (o_Meta x))) (lo_Reqs opts)"
    and "lo_Namespace opts = None \<or> lo_Namespace opts = Some (om_Namespace (o_Meta x))"
  shows "\<exists>y \<in> set ys. stores y x \<and> key_of y = key_of x"
proof -
  obtain y where y: "cl_Get c s' rtype (key_of x) = Inr y" "stores y x"
    using write_stored [OF assms(1-4)] by blast
  have k: "key_of y = key_of x" using get_typed [OF assms(1) y(1)] by simp
  then have ns: "om_Namespace (o_Meta y) = om_Namespace (o_Meta x)" by (simp add: key_of_def)
  have "selected opts y"
    using assms(7,8) y(2) ns by (auto simp: selected_def stores_def)
  then have "y \<in> set ys" using list_all_objects(1) [OF assms(1,5,6)] y(1) by blast
  with y k show ?thesis by blast
qed

lemma write_other_type:
  assumes "api_laws c" and "go_type x = rtype" and "fits x" and "store c x s = (r, s')" and "t \<noteq> rtype"
  shows "cl_Get c s' t k = cl_Get c s t k"
  using write_frame [OF assms(1-4)] assms(5) by (simp add: only_changes_def)

text \<open>A report that is stored stays stored while reports with other keys are written.\<close>

lemma write_all_frame:
  assumes "api_laws c" and "\<forall>x \<in> set xs. go_type x = rtype \<and> fits x"
    and "for_each (store c) xs s = (r, s')"
    and "t \<noteq> rtype \<or> k \<notin> key_of ` set xs"
  shows "cl_Get c s' t k = cl_Get c s t k"
  using assms(2-4)
proof (induction xs arbitrary: s)
  case (Cons x xs)
  obtain r1 s1 where w: "store c x s = (r1, s1)" by fastforce
  have one: "cl_Get c s1 t k = cl_Get c s t k"
    using write_frame [OF assms(1) _ _ w] Cons.prems by (auto simp: only_changes_def)
  show ?case
  proof (cases r1)
    case None
    then show ?thesis using Cons.IH [of s1] Cons.prems w one by auto
  next
    case (Some e)
    then show ?thesis using Cons.prems w one by simp
  qed
qed simp

text \<open>A batch of reports under different keys is stored completely.\<close>

lemma write_all_stored:
  assumes "api_laws c" and "\<forall>x \<in> set xs. go_type x = rtype \<and> fits x" and "distinct (map key_of xs)"
    and "for_each (store c) xs s = (None, s')" and "x \<in> set xs"
  shows "\<exists>y. cl_Get c s' rtype (key_of x) = Inr y \<and> stores y x"
  using assms(2-5)
proof (induction xs arbitrary: s)
  case (Cons z xs)
  obtain s1 where w: "store c z s = (None, s1)" and rest: "for_each (store c) xs s1 = (None, s')"
    using Cons.prems(3) by (auto split: prod.splits option.splits)
  show ?case
  proof (cases "x \<in> set xs")
    case True
    then show ?thesis using Cons.IH [OF _ _ rest] Cons.prems(1,2) by auto
  next
    case False
    then have x: "x = z" using Cons.prems(4) by simp
    obtain y where "cl_Get c s1 rtype (key_of z) = Inr y" "stores y z"
      using write_stored [OF assms(1) _ _ w] Cons.prems(1) by auto
    moreover have "key_of z \<notin> key_of ` set xs" using Cons.prems(2) by auto
    ultimately show ?thesis
      using write_all_frame [OF assms(1) _ rest] Cons.prems(1) x by (metis list.set_intros(2))
  qed
qed simp

end

section \<open>The shared body satisfies the contract\<close>

lemma stores_content: "same_content y x \<Longrightarrow> stores y x"
  by (simp add: stores_def same_content_def)

text \<open>The object that an update sends has the existing object's key and the report's contents.\<close>

lemma upsert_object:
  assumes "go_type x = t" and "cl_Get c s t k = Inr existing" and "api_laws c"
  defines "z \<equiv> existing\<lparr>o_Meta := (o_Meta existing)\<lparr>om_Labels := om_Labels (o_Meta x)\<rparr>, o_Body := o_Body x\<rparr>"
  shows "go_type z = t" "key_of z = k" "stores z x"
  using assms(1) get_typed [OF assms(3,2)] by (simp_all add: z_def key_of_def stores_def)

lemma upsert_stored:
  assumes "api_laws c" and "go_type x = t" and "key_of x = k" and "upsert t c k x s = (None, s')"
  shows "\<exists>y. cl_Get c s' t k = Inr y \<and> stores y x"
proof (cases "cl_Get c s t k")
  case (Inl err)
  with assms(4) obtain y where "cl_Create c s x = (Inr y, s')"
    by (auto simp: upsert_def only_err_None_iff split: if_splits)
  from create_ok(1,2) [OF assms(1) this] show ?thesis
    using assms(2,3) by (auto intro: stores_content)
next
  case (Inr existing)
  note z = upsert_object [OF assms(2) Inr assms(1)]
  from Inr assms(4) have "cl_Update c s (existing\<lparr>o_Meta := (o_Meta existing)\<lparr>om_Labels := om_Labels (o_Meta x)\<rparr>,
      o_Body := o_Body x\<rparr>) = (None, s')"
    by (simp add: upsert_def)
  from update_ok(1) [OF assms(1) this] obtain y
    where "same_content y (existing\<lparr>o_Meta := (o_Meta existing)\<lparr>om_Labels := om_Labels (o_Meta x)\<rparr>,
      o_Body := o_Body x\<rparr>)" "cl_Get c s' t k = Inr y"
    using z(1,2) by metis
  then show ?thesis using z(3) stores_content by (metis stores_def)
qed

lemma upsert_frame:
  assumes "api_laws c" and "go_type x = t" and "key_of x = k" and "upsert t c k x s = (r, s')"
  shows "only_changes c s s' t k"
proof -
  have unchanged: "only_changes c s s' t k" if "s' = s" using that by (simp add: only_changes_def)
  show ?thesis
  proof (cases "cl_Get c s t k")
    case (Inl err)
    obtain rc sc where "cl_Create c s x = (rc, sc)" by fastforce
    then show ?thesis using Inl assms unchanged
        create_ok(3) [OF assms(1), of s x _ s'] failed_write(1) [OF assms(1), of s x _ s']
      by (cases rc) (auto simp: upsert_def split: if_splits)
  next
    case (Inr existing)
    note z = upsert_object [OF assms(2) Inr assms(1)]
    have u: "cl_Update c s (existing\<lparr>o_Meta := (o_Meta existing)\<lparr>om_Labels := om_Labels (o_Meta x)\<rparr>,
        o_Body := o_Body x\<rparr>) = (r, s')"
      using Inr assms(4) by (simp add: upsert_def)
    show ?thesis
    proof (cases r)
      case None
      then show ?thesis using update_ok(2) [OF assms(1) u [unfolded None]] z(1,2) by metis
    next
      case (Some e)
      then show ?thesis using failed_write(2) [OF assms(1) u [unfolded Some]] unchanged by blast
    qed
  qed
qed

lemma upsert_failed:
  assumes "api_laws c" and "upsert t c k x s = (Some e, s')"
  shows "s' = s"
proof (cases "cl_Get c s t k")
  case (Inl err)
  obtain rc sc where "cl_Create c s x = (rc, sc)" by fastforce
  then show ?thesis using Inl assms(2) failed_write(1) [OF assms(1), of s x]
    by (cases rc) (auto simp: upsert_def split: if_splits)
next
  case (Inr existing)
  then show ?thesis using assms(2) failed_write(2) [OF assms(1)] by (simp add: upsert_def)
qed

lemmas upsert_laws = upsert_stored upsert_frame upsert_failed

section \<open>Writing keeps what the existing report had besides labels and contents\<close>

text \<open>An update keeps the annotations and owners of the existing report.\<close>

lemma upsert_keeps_annotations:
  assumes "api_laws c" and "go_type x = t" and "cl_Get c s t k = Inr existing"
    and "upsert t c k x s = (None, s')"
  shows "\<exists>y. cl_Get c s' t k = Inr y \<and> om_Annotations (o_Meta y) = om_Annotations (o_Meta existing) \<and>
    om_OwnerReferences (o_Meta y) = om_OwnerReferences (o_Meta existing)"
proof -
  note z = upsert_object [OF assms(2,3,1)]
  have "cl_Update c s (existing\<lparr>o_Meta := (o_Meta existing)\<lparr>om_Labels := om_Labels (o_Meta x)\<rparr>,
      o_Body := o_Body x\<rparr>) = (None, s')"
    using assms(3,4) by (simp add: upsert_def)
  from update_ok(1) [OF assms(1) this] obtain y
    where y: "same_content y (existing\<lparr>o_Meta := (o_Meta existing)\<lparr>om_Labels := om_Labels (o_Meta x)\<rparr>,
      o_Body := o_Body x\<rparr>)" "cl_Get c s' t k = Inr y"
    using z(1,2) by metis
  then show ?thesis by (intro exI [of _ y]) (simp add: same_content_def)
qed

end
