(* ===== verification/Go_Base64.thy ===== *)
theory Go_Base64
  imports Go_Lib
begin

text \<open>
  Go's \<^verbatim>\<open>base64.StdEncoding\<close>: three bytes become four characters of the standard alphabet, with
  padding; the decoder skips line breaks, accepts padding only at the end and does not check the
  unused bits of the last character. The theory ends with the round trip.
\<close>

definition b64_char :: "nat \<Rightarrow> char" where
  "b64_char n =
     (if n < 26 then char_of (65 + n)
      else if n < 52 then char_of (71 + n)
      else if n < 62 then char_of (n - 4)
      else if n = 62 then CHR ''+'' else CHR ''/'')"

definition b64_val :: "char \<Rightarrow> nat option" where
  "b64_val c =
     (let n = (of_char c :: nat) in
      if 65 \<le> n \<and> n \<le> 90 then Some (n - 65)
      else if 97 \<le> n \<and> n \<le> 122 then Some (n - 71)
      else if 48 \<le> n \<and> n \<le> 57 then Some (n + 4)
      else if c = CHR ''+'' then Some 62
      else if c = CHR ''/'' then Some 63
      else None)"

fun EncodeToString :: "string \<Rightarrow> string" where
  "EncodeToString [] = []"
| "EncodeToString [a] =
     (let x = (of_char a :: nat) in
      [b64_char (x div 4), b64_char (x mod 4 * 16), CHR ''='', CHR ''=''])"
| "EncodeToString [a, b] =
     (let x = (of_char a :: nat); y = (of_char b :: nat) in
      [b64_char (x div 4), b64_char (x mod 4 * 16 + y div 16), b64_char (y mod 16 * 4), CHR ''=''])"
| "EncodeToString (a # b # c # s) =
     (let x = (of_char a :: nat); y = (of_char b :: nat); z = (of_char c :: nat) in
      [b64_char (x div 4), b64_char (x mod 4 * 16 + y div 16),
       b64_char (y mod 16 * 4 + z div 64), b64_char (z mod 64)] @ EncodeToString s)"

fun decode_quads :: "string \<Rightarrow> string option" where
  "decode_quads [] = Some []"
| "decode_quads (a # b # c # d # s) =
     (case (b64_val a, b64_val b) of
        (Some w, Some x) \<Rightarrow>
          if c = CHR ''='' then
            (if d = CHR ''='' \<and> s = [] then Some [char_of (w * 4 + x div 16)] else None)
          else (case b64_val c of
                  None \<Rightarrow> None
                | Some y \<Rightarrow>
                    if d = CHR ''='' then
                      (if s = [] then Some [char_of (w * 4 + x div 16), char_of (x mod 16 * 16 + y div 4)] else None)
                    else (case b64_val d of
                            None \<Rightarrow> None
                          | Some z \<Rightarrow>
                              map_option (\<lambda>r. char_of (w * 4 + x div 16) # char_of (x mod 16 * 16 + y div 4) #
                                char_of (y mod 4 * 64 + z) # r) (decode_quads s)))
      | _ \<Rightarrow> None)"
| "decode_quads _ = None"

definition DecodeString :: "string \<Rightarrow> error + string" where
  "DecodeString s =
     (case decode_quads (filter (\<lambda>c. c \<noteq> CHR 0x0A \<and> c \<noteq> CHR 0x0D) s) of
        None \<Rightarrow> Inl (Errorf ''illegal base64 data'')
      | Some bs \<Rightarrow> Inr bs)"

section \<open>Round trip\<close>

lemma b64_val_char [simp]: "n < 64 \<Longrightarrow> b64_val (b64_char n) = Some n"
  by (auto simp: b64_val_def b64_char_def Let_def)

lemma b64_char_plain: "n < 64 \<Longrightarrow> b64_char n \<noteq> CHR ''='' \<and> b64_char n \<noteq> CHR 0x0A \<and> b64_char n \<noteq> CHR 0x0D"
proof -
  assume "n < 64"
  then have "b64_val (b64_char n) = Some n" by simp
  moreover have "b64_val (CHR ''='') = None" "b64_val (CHR 0x0A) = None" "b64_val (CHR 0x0D) = None"
    by (simp_all add: b64_val_def)
  ultimately show ?thesis by (metis option.distinct(1))
qed

lemma byte_bound: "(of_char c :: nat) < 256"
  by simp

lemma byte_parts [simp]:
  "(of_char c :: nat) div 4 < 64" "(of_char c :: nat) mod 4 * 16 + (of_char d :: nat) div 16 < 64"
  "(of_char c :: nat) mod 4 * 16 < 64" "(of_char d :: nat) mod 16 * 4 < 64"
  "(of_char c :: nat) mod 16 * 4 + (of_char d :: nat) div 64 < 64" "(of_char c :: nat) mod 64 < 64"
proof -
  have c: "(of_char c :: nat) < 256" and d: "(of_char d :: nat) < 256" by (rule byte_bound)+
  show "(of_char c :: nat) div 4 < 64" using c by linarith
  have m: "(of_char c :: nat) mod 4 < 4" "(of_char c :: nat) mod 16 < 16" "(of_char d :: nat) mod 16 < 16"
    "(of_char d :: nat) div 16 < 16" "(of_char d :: nat) div 64 < 4" using d by (simp, simp, simp, linarith, linarith)
  show "(of_char c :: nat) mod 4 * 16 + (of_char d :: nat) div 16 < 64"
    "(of_char c :: nat) mod 4 * 16 < 64" "(of_char d :: nat) mod 16 * 4 < 64"
    "(of_char c :: nat) mod 16 * 4 + (of_char d :: nat) div 64 < 64" using m by linarith+
  show "(of_char c :: nat) mod 64 < 64" by simp
qed

lemma recombine: "x div 4 * 4 + x mod 4 = (x :: nat)" "x div 16 * 16 + x mod 16 = (x :: nat)"
  "x div 64 * 64 + x mod 64 = (x :: nat)"
  by simp_all

lemma decode_first [simp]: "char_of ((of_char a :: nat) div 4 * 4 + ((of_char a :: nat) mod 4 * 16 + y div 16) div 16) = a"
  if "y < 256"
proof -
  have "((of_char a :: nat) mod 4 * 16 + y div 16) div 16 = of_char a mod 4"
    using that by simp
  then show ?thesis by simp
qed

lemma decode_encode_quads: "decode_quads (EncodeToString s) = Some s"
proof (induction s rule: EncodeToString.induct)
  case (2 a)
  then show ?case by (simp add: Let_def)
next
  case (3 a b)
  have "(of_char b :: nat) div 16 < 16" using byte_bound [of b] by linarith
  then show ?case by (simp add: Let_def b64_char_plain byte_bound recombine)
next
  case (4 a b c s)
  have "(of_char b :: nat) div 16 < 16" "(of_char c :: nat) div 64 < 4"
    using byte_bound [of b] byte_bound [of c] by linarith+
  then show ?case using 4 by (simp add: Let_def b64_char_plain byte_bound recombine)
qed simp

lemma EncodeToString_no_breaks:
  "filter (\<lambda>c. c \<noteq> CHR 0x0A \<and> c \<noteq> CHR 0x0D) (EncodeToString s) = EncodeToString s"
  by (induction s rule: EncodeToString.induct) (simp_all add: Let_def b64_char_plain)

lemma base64_roundtrip: "DecodeString (EncodeToString s) = Inr s"
  by (simp add: DecodeString_def EncodeToString_no_breaks decode_encode_quads)

end
