(* ===== verification/Json_Value.thy ===== *)
theory Json_Value
  imports Go_Json
begin

text \<open>
  JSON documents as values: the tokens of \<^verbatim>\<open>encoding/json\<close> (theory \<open>Go_Json\<close>) put together into
  arrays and objects of any depth. Decoding into a Go struct reads such a value. The parser takes
  fuel that bounds the nesting; a text never nests deeper than it is long, so the fuel of
  \<open>json_parse\<close>, one more than the length of the text, is never exhausted.
\<close>

datatype json =
    JNull
  | JBool bool
  | JNumber string
  | JString string
  | JArray "json list"
  | JObject "(string \<times> json) list"

section \<open>Printing\<close>

fun encode_json :: "json \<Rightarrow> string" where
  "encode_json JNull = ''null''"
| "encode_json (JBool b) = (if b then ''true'' else ''false'')"
| "encode_json (JNumber t) = t"
| "encode_json (JString s) = encode_string s"
| "encode_json (JArray vs) = CHR ''['' # Join (CHR '','') (map encode_json vs) @ '']''"
| "encode_json (JObject kvs) =
     CHR 0x7B # Join (CHR '','') (map (\<lambda>(k, v). encode_string k @ CHR '':'' # encode_json v) kvs) @ [CHR 0x7D]"

section \<open>Parsing\<close>

text \<open>The grammar of a number token.\<close>

definition strip_digits1 :: "string \<Rightarrow> string option" where
  "strip_digits1 s = (if s \<noteq> [] \<and> is_digit (hd s) then Some (dropWhile is_digit s) else None)"

definition strip_int :: "string \<Rightarrow> string option" where
  "strip_int s =
     (let t = (if s \<noteq> [] \<and> hd s = CHR ''-'' then tl s else s)
      in if t \<noteq> [] \<and> hd t = CHR ''0'' then Some (tl t) else strip_digits1 t)"

definition strip_frac :: "string \<Rightarrow> string option" where
  "strip_frac s = (if s \<noteq> [] \<and> hd s = CHR ''.'' then strip_digits1 (tl s) else Some s)"

definition strip_exp :: "string \<Rightarrow> string option" where
  "strip_exp s =
     (if s \<noteq> [] \<and> (hd s = CHR ''e'' \<or> hd s = CHR ''E'') then
        strip_digits1 (if tl s \<noteq> [] \<and> (hd (tl s) = CHR ''+'' \<or> hd (tl s) = CHR ''-'') then tl (tl s) else tl s)
      else Some s)"

definition parse_number :: "string \<Rightarrow> (string \<times> string) option" where
  "parse_number s =
     (case Option.bind (Option.bind (strip_int s) strip_frac) strip_exp of
        None \<Rightarrow> None
      | Some r \<Rightarrow> Some (take (length s - length r) s, r))"

fun parse_json :: "nat \<Rightarrow> string \<Rightarrow> (json \<times> string) option"
and parse_elems :: "nat \<Rightarrow> string \<Rightarrow> (json list \<times> string) option"
and parse_fields :: "nat \<Rightarrow> string \<Rightarrow> ((string \<times> json) list \<times> string) option" where
  "parse_json 0 s = None"
| "parse_json (Suc n) s =
     (case skip_ws s of
        [] \<Rightarrow> None
      | c # cs \<Rightarrow>
          if c = CHR 0x22 then map_option (\<lambda>(w, r). (JString w, r)) (parse_string cs)
          else if c = CHR 0x7B then
            (case expect (CHR 0x7D) cs of
               Some r \<Rightarrow> Some (JObject [], r)
             | None \<Rightarrow> map_option (\<lambda>(kvs, r). (JObject kvs, r)) (parse_fields n cs))
          else if c = CHR ''['' then
            (case expect (CHR '']'') cs of
               Some r \<Rightarrow> Some (JArray [], r)
             | None \<Rightarrow> map_option (\<lambda>(vs, r). (JArray vs, r)) (parse_elems n cs))
          else if HasPrefix (c # cs) ''null'' then Some (JNull, drop 4 (c # cs))
          else if HasPrefix (c # cs) ''true'' then Some (JBool True, drop 4 (c # cs))
          else if HasPrefix (c # cs) ''false'' then Some (JBool False, drop 5 (c # cs))
          else map_option (\<lambda>(t, r). (JNumber t, r)) (parse_number (c # cs)))"
| "parse_elems 0 s = None"
| "parse_elems (Suc n) s =
     (case parse_json n s of
        None \<Rightarrow> None
      | Some (v, r) \<Rightarrow>
          (case expect (CHR '','') r of
             Some r' \<Rightarrow> map_option (\<lambda>(vs, r''). (v # vs, r'')) (parse_elems n r')
           | None \<Rightarrow> map_option (\<lambda>r'. ([v], r')) (expect (CHR '']'') r)))"
| "parse_fields 0 s = None"
| "parse_fields (Suc n) s =
     (case parse_quoted s of
        None \<Rightarrow> None
      | Some (k, r0) \<Rightarrow>
          (case Option.bind (expect (CHR '':'') r0) (parse_json n) of
             None \<Rightarrow> None
           | Some (v, r) \<Rightarrow>
               (case expect (CHR '','') r of
                  Some r' \<Rightarrow> map_option (\<lambda>(kvs, r''). ((k, v) # kvs, r'')) (parse_fields n r')
                | None \<Rightarrow> map_option (\<lambda>r'. ([(k, v)], r')) (expect (CHR 0x7D) r))))"

definition json_parse :: "string \<Rightarrow> json option" where
  "json_parse s =
     (case parse_json (2 * length s + 1) s of
        Some (v, r) \<Rightarrow> if skip_ws r = [] then Some v else None
      | None \<Rightarrow> None)"

section \<open>Round trip\<close>

text \<open>
  The documents that the program writes have number tokens as the grammar has them. After a number the text must not go
  on as a number: it ends, or a separator follows.
\<close>

fun printable_doc :: "json \<Rightarrow> bool" where
  "printable_doc JNull = True"
| "printable_doc (JBool b) = True"
| "printable_doc (JNumber t) = (parse_number t = Some (t, []))"
| "printable_doc (JString s) = True"
| "printable_doc (JArray vs) = list_all printable_doc vs"
| "printable_doc (JObject kvs) = list_all (\<lambda>kv. printable_doc (snd kv)) kvs"

definition stops :: "string \<Rightarrow> bool" where
  "stops r \<longleftrightarrow> r = [] \<or> \<not> is_digit (hd r) \<and> hd r \<notin> set ''.eE''"

lemma stops_simps [simp]: "stops []" "stops (CHR '','' # r)" "stops (CHR '']'' # r)" "stops (CHR 0x7D # r)"
  by (simp_all add: stops_def is_digit_def)

lemma strip_append:
  assumes "stops r"
  shows "strip_int s = Some u \<Longrightarrow> strip_int (s @ r) = Some (u @ r)"
    and "strip_frac s = Some u \<Longrightarrow> strip_frac (s @ r) = Some (u @ r)"
    and "strip_exp s = Some u \<Longrightarrow> strip_exp (s @ r) = Some (u @ r)"
proof -
  have digits: "strip_digits1 (t @ r) = Some (u' @ r)" if "strip_digits1 t = Some u'" for t u'
    using that assms
    by (cases "dropWhile is_digit t = []"; cases r)
       (auto simp: strip_digits1_def stops_def dropWhile_append split: if_splits)
  show "strip_int s = Some u \<Longrightarrow> strip_int (s @ r) = Some (u @ r)"
    using digits [of s u] digits [of "tl s" u]
    by (cases s; cases "tl s") (auto simp: strip_int_def strip_digits1_def Let_def split: if_splits)
  show "strip_frac s = Some u \<Longrightarrow> strip_frac (s @ r) = Some (u @ r)"
    using digits [of "tl s" u] assms by (cases s; cases r) (auto simp: strip_frac_def stops_def split: if_splits)
  show "strip_exp s = Some u \<Longrightarrow> strip_exp (s @ r) = Some (u @ r)"
    using digits [of "tl s" u] digits [of "tl (tl s)" u] assms
    by (cases s; cases "tl s"; cases r) (auto simp: strip_exp_def strip_digits1_def stops_def split: if_splits)
qed

lemma parse_number_append:
  assumes "parse_number t = Some (t, [])" and "stops r"
  shows "parse_number (t @ r) = Some (t, r)"
proof -
  obtain a b c where abc: "strip_int t = Some a" "strip_frac a = Some b" "strip_exp b = Some c"
    and c: "take (length t - length c) t = t" "c = []"
    using assms(1) by (auto simp: parse_number_def split: option.splits bind_splits)
  then show ?thesis
    using strip_append [OF assms(2)] by (simp add: parse_number_def)
qed

lemma number_head:
  assumes "parse_number t = Some (t, [])"
  shows "\<exists>c cs. t = c # cs \<and> (is_digit c \<or> c = CHR ''-'')"
  using assms
  by (cases t) (auto simp: parse_number_def strip_int_def strip_digits1_def is_digit_def Let_def split: option.splits if_splits bind_splits)

lemma encode_head:
  assumes "printable_doc v"
  shows "\<exists>c cs. encode_json v = c # cs \<and> c \<noteq> CHR '']'' \<and> \<not> is_json_ws c"
  using assms number_head
  by (cases v) (auto simp: encode_string_def is_json_ws_def is_digit_def, fastforce+)

fun need :: "json \<Rightarrow> nat" where
  "need (JObject kvs) = Suc (length kvs + sum_list (map (\<lambda>kv. need (snd kv)) kvs))"
| "need (JArray vs) = Suc (length vs + sum_list (map need vs))"
| "need _ = 1"

lemma parse_json_string: "parse_json (Suc n) (encode_string s @ r) = Some (JString s, r)"
  by (simp add: encode_string_def skip_ws_def is_json_ws_def parse_encoded)

lemma parse_json_number:
  assumes "parse_number t = Some (t, [])" and "stops r"
  shows "parse_json (Suc n) (t @ r) = Some (JNumber t, r)"
proof -
  obtain c cs where t: "t = c # cs" "is_digit c \<or> c = CHR ''-''" using number_head [OF assms(1)] by blast
  then have "c \<notin> set [CHR 0x22, CHR 0x7B, CHR ''['', CHR ''n'', CHR ''t'', CHR ''f'']" "\<not> is_json_ws c"
    by (auto simp: is_digit_def is_json_ws_def)
  then show ?thesis using parse_number_append [OF assms] t(1) by (auto simp: skip_ws_def HasPrefix_def)
qed

abbreviation enc_field :: "string \<times> json \<Rightarrow> string" where
  "enc_field \<equiv> \<lambda>(k, v). encode_string k @ CHR '':'' # encode_json v"

lemma parse_fields_encoded:
  assumes "\<And>kv n r. kv \<in> set kvs \<Longrightarrow> need (snd kv) \<le> n \<Longrightarrow> stops r \<Longrightarrow>
      parse_json n (encode_json (snd kv) @ r) = Some (snd kv, r)"
    and "kvs \<noteq> []" and "length kvs + sum_list (map (\<lambda>kv. need (snd kv)) kvs) \<le> n"
  shows "parse_fields n (Join (CHR '','') (map enc_field kvs) @ CHR 0x7D # r) = Some (kvs, r)"
  using assms
proof (induction kvs arbitrary: n)
  case (Cons kv kvs)
  obtain k v where kv: "kv = (k, v)" by fastforce
  obtain m where m: "n = Suc m" using Cons.prems(3) by (cases n) auto
  have v: "parse_json m (encode_json v @ t) = Some (v, t)" if "stops t" for t
    using Cons.prems(1) [of kv m t] Cons.prems(3) m kv that by simp
  show ?case
  proof (cases "kvs = []")
    case True
    then show ?thesis using v kv m by (simp add: expect_here is_json_ws_def)
  next
    case False
    have IH: "parse_fields m (Join (CHR '','') (map enc_field kvs) @ CHR 0x7D # r) = Some (kvs, r)"
      using Cons.IH [OF _ False, of m] Cons.prems m by simp
    have "Join (CHR '','') (map enc_field (kv # kvs)) = enc_field kv @ CHR '','' # Join (CHR '','') (map enc_field kvs)"
      using False by (cases kvs) auto
    then show ?thesis using IH v kv m by (simp add: expect_here is_json_ws_def)
  qed
qed simp

lemma parse_elems_encoded:
  assumes "\<And>v n r. v \<in> set vs \<Longrightarrow> need v \<le> n \<Longrightarrow> stops r \<Longrightarrow> parse_json n (encode_json v @ r) = Some (v, r)"
    and "vs \<noteq> []" and "length vs + sum_list (map need vs) \<le> n"
  shows "parse_elems n (Join (CHR '','') (map encode_json vs) @ CHR '']'' # r) = Some (vs, r)"
  using assms
proof (induction vs arbitrary: n)
  case (Cons v vs)
  obtain m where m: "n = Suc m" using Cons.prems(3) by (cases n) auto
  have v: "parse_json m (encode_json v @ t) = Some (v, t)" if "stops t" for t
    using Cons.prems(1) [of v m t] Cons.prems(3) m that by simp
  show ?case
  proof (cases "vs = []")
    case True
    then show ?thesis using v m by (simp add: expect_here is_json_ws_def)
  next
    case False
    have IH: "parse_elems m (Join (CHR '','') (map encode_json vs) @ CHR '']'' # r) = Some (vs, r)"
      using Cons.IH [OF _ False, of m] Cons.prems m by simp
    have "Join (CHR '','') (map encode_json (v # vs)) = encode_json v @ CHR '','' # Join (CHR '','') (map encode_json vs)"
      using False by (cases vs) auto
    then show ?thesis using IH v m by (simp add: expect_here is_json_ws_def)
  qed
qed simp

lemma Join_field_head: "kvs \<noteq> [] \<Longrightarrow> \<exists>cs. Join (CHR '','') (map enc_field kvs) = CHR 0x22 # cs"
  by (cases kvs; cases "tl kvs") (auto simp: encode_string_def)

lemma Join_elem_head:
  "vs \<noteq> [] \<Longrightarrow> list_all printable_doc vs \<Longrightarrow>
    \<exists>c cs. Join (CHR '','') (map encode_json vs) = c # cs \<and> c \<noteq> CHR '']'' \<and> \<not> is_json_ws c"
  using encode_head [of "hd vs"] by (cases vs; cases "tl vs") auto

lemma parse_json_encoded:
  "printable_doc v \<Longrightarrow> need v \<le> n \<Longrightarrow> stops r \<Longrightarrow> parse_json n (encode_json v @ r) = Some (v, r)"
proof (induction v arbitrary: n r)
  case (JString s)
  then show ?case by (cases n) (simp_all add: parse_json_string del: parse_json.simps)
next
  case (JNumber t)
  then show ?case by (cases n) (simp_all add: parse_json_number del: parse_json.simps)
next
  case (JArray vs)
  then obtain m where m: "n = Suc m" by (cases n) auto
  show ?case
  proof (cases "vs = []")
    case True
    then show ?thesis using m by (simp add: skip_ws_def is_json_ws_def expect_here)
  next
    case False
    have mem: "parse_json n' (encode_json v @ t) = Some (v, t)" if "v \<in> set vs" "need v \<le> n'" "stops t" for v n' t
      using that JArray.IH [of v n' t] JArray.prems(1) by (auto simp: list_all_iff)
    have elems: "parse_elems m (Join (CHR '','') (map encode_json vs) @ CHR '']'' # r) = Some (vs, r)"
      using JArray.prems(2) m False by (intro parse_elems_encoded mem) auto
    obtain c cs where "Join (CHR '','') (map encode_json vs) = c # cs" "c \<noteq> CHR '']''" "\<not> is_json_ws c"
      using Join_elem_head [OF False] JArray.prems(1) by auto
    then have "expect (CHR '']'') (Join (CHR '','') (map encode_json vs) @ CHR '']'' # r) = None"
      by (simp add: expect_here)
    then show ?thesis using elems m by (simp add: skip_ws_def is_json_ws_def)
  qed
next
  case (JObject kvs)
  then obtain m where m: "n = Suc m" by (cases n) auto
  show ?case
  proof (cases "kvs = []")
    case True
    then show ?thesis using m by (simp add: skip_ws_def is_json_ws_def expect_here)
  next
    case False
    have mem: "parse_json n' (encode_json (snd kv) @ t) = Some (snd kv, t)"
      if "kv \<in> set kvs" "need (snd kv) \<le> n'" "stops t" for kv n' t
      using that JObject.IH [of kv "snd kv" n' t] JObject.prems(1)
      by (auto simp: list_all_iff snds.simps)
    have fields: "parse_fields m (Join (CHR '','') (map enc_field kvs) @ CHR 0x7D # r) = Some (kvs, r)"
      using JObject.prems(2) m False by (intro parse_fields_encoded mem) auto
    obtain cs where "Join (CHR '','') (map enc_field kvs) = CHR 0x22 # cs"
      using Join_field_head [OF False] by blast
    then have "expect (CHR 0x7D) (Join (CHR '','') (map enc_field kvs) @ CHR 0x7D # r) = None"
      by (simp add: expect_here is_json_ws_def)
    then show ?thesis using fields m by (simp add: skip_ws_def is_json_ws_def)
  qed
next
  case JNull
  then show ?case by (cases n) (simp_all add: skip_ws_def is_json_ws_def HasPrefix_def)
next
  case (JBool b)
  then show ?case by (cases n; cases b) (simp_all add: skip_ws_def is_json_ws_def HasPrefix_def)
qed

lemma length_encode_string: "2 \<le> length (encode_string s)"
  by (simp add: encode_string_def)

lemma length_Join_fields: "length kvs + sum_list (map (\<lambda>kv. length (encode_json (snd kv))) kvs)
    \<le> length (Join (CHR '','') (map enc_field kvs))"
proof (induction kvs)
  case (Cons kv kvs)
  then show ?case by (cases kvs) (auto simp: encode_string_def split: prod.splits)
qed simp

lemma length_Join_elems: "sum_list (map (\<lambda>v. length (encode_json v)) vs) \<le> length (Join (CHR '','') (map encode_json vs))"
proof (induction vs)
  case (Cons v vs)
  then show ?case by (cases vs) auto
qed simp

lemma sum_twice: "sum_list (map (\<lambda>x. 2 * f x) xs) = 2 * sum_list (map f xs)"
  and sum_Suc: "sum_list (map (\<lambda>x. Suc (f x)) xs) = length xs + sum_list (map f xs)" for f :: "'a \<Rightarrow> nat"
  by (induction xs) simp_all

text \<open>The fuel that \<open>json_parse\<close> and \<open>Decode\<close> give the parser suffices.\<close>

lemma need_length: "printable_doc v \<Longrightarrow> need v + 1 \<le> 2 * length (encode_json v)"
proof (induction v)
  case (JNumber t)
  then show ?case using number_head [of t] by auto
next
  case (JString s)
  then show ?case using length_encode_string [of s] by simp
next
  case (JArray vs)
  have "sum_list (map (\<lambda>v. need v + 1) vs) \<le> sum_list (map (\<lambda>v. 2 * length (encode_json v)) vs)"
    using JArray by (intro sum_list_mono) (auto simp: list_all_iff)
  then show ?case using length_Join_elems [of vs] by (simp add: sum_twice sum_Suc)
next
  case (JObject kvs)
  have "sum_list (map (\<lambda>kv. need (snd kv) + 1) kvs) \<le> sum_list (map (\<lambda>kv. 2 * length (encode_json (snd kv))) kvs)"
    using JObject by (intro sum_list_mono) (auto simp: list_all_iff snds.simps)
  then show ?case using length_Join_fields [of kvs] by (simp add: sum_twice sum_Suc)
qed simp_all

lemma json_parse_encoded: "printable_doc v \<Longrightarrow> json_parse (encode_json v) = Some v"
  using parse_json_encoded [of v "2 * length (encode_json v) + 1" "[]"] need_length [of v]
  by (simp add: json_parse_def skip_ws_def)

end
