(* ===== verification/Json_Decode.thy ===== *)
theory Json_Decode
  imports Json_Value
begin

text \<open>
  Decoding a JSON document into Go structs, as \<^verbatim>\<open>encoding/json\<close> does it for the scanners' output. A
  struct type is given by its fields: the member name of the tag, in lower case because members match
  without regard to case, with the function that stores a member's value. Members without a field are
  skipped, and \<open>null\<close> leaves a string, number, Boolean or struct as it was and empties a slice, a map and a
  pointer. A value of another type leaves the field as it was; the decoder goes on and reports the first such error at the
  end. So every decoding function returns what has been stored together with the first error.
\<close>

definition type_error :: error where "type_error = Errorf ''json: cannot unmarshal''"

type_synonym 'a setter = "json \<Rightarrow> 'a \<Rightarrow> 'a \<times> error option"

definition first_err :: "error option \<Rightarrow> error option \<Rightarrow> error option" where
  "first_err e1 e2 = (case e1 of None \<Rightarrow> e2 | Some e \<Rightarrow> Some e)"

definition string_field :: "(string \<Rightarrow> 'a \<Rightarrow> 'a) \<Rightarrow> 'a setter" where
  "string_field upd v a =
     (case v of JString t \<Rightarrow> (upd t a, None) | JNull \<Rightarrow> (a, None) | _ \<Rightarrow> (a, Some type_error))"

definition bool_field :: "(bool \<Rightarrow> 'a \<Rightarrow> 'a) \<Rightarrow> 'a setter" where
  "bool_field upd v a =
     (case v of JBool t \<Rightarrow> (upd t a, None) | JNull \<Rightarrow> (a, None) | _ \<Rightarrow> (a, Some type_error))"

text \<open>A number as the given reading of its text: an \<^verbatim>\<open>int\<close> takes no fraction and no exponent and must fit 64 bits.\<close>

definition number_field :: "(string \<Rightarrow> error + 'n) \<Rightarrow> ('n \<Rightarrow> 'a \<Rightarrow> 'a) \<Rightarrow> 'a setter" where
  "number_field read upd v a =
     (case v of
        JNumber t \<Rightarrow> (case read t of Inl _ \<Rightarrow> (a, Some type_error) | Inr n \<Rightarrow> (upd n a, None))
      | JNull \<Rightarrow> (a, None)
      | _ \<Rightarrow> (a, Some type_error))"

definition int_field :: "(int \<Rightarrow> 'a \<Rightarrow> 'a) \<Rightarrow> 'a setter" where
  "int_field = number_field Atoi"

text \<open>Elements are decoded over those that an earlier member of the same name has left.\<close>

fun decode_elems :: "'b setter \<Rightarrow> 'b \<Rightarrow> json list \<Rightarrow> 'b list \<Rightarrow> 'b list \<times> error option" where
  "decode_elems dec zero [] olds = ([], None)"
| "decode_elems dec zero (v # vs) olds =
     (let (x, e1) = dec v (case olds of [] \<Rightarrow> zero | x # _ \<Rightarrow> x);
          (xs, e2) = decode_elems dec zero vs (tl olds)
      in (x # xs, first_err e1 e2))"

definition decode_list :: "'b setter \<Rightarrow> 'b \<Rightarrow> 'b list setter" where
  "decode_list dec zero v olds =
     (case v of
        JArray vs \<Rightarrow> decode_elems dec zero vs olds
      | JNull \<Rightarrow> ([], None)
      | _ \<Rightarrow> (olds, Some type_error))"

text \<open>A \<^verbatim>\<open>map[string]T\<close>: the values start from the zero value.\<close>

fun decode_entries :: "'b setter \<Rightarrow> 'b \<Rightarrow> (string \<times> json) list \<Rightarrow> 'b gomap \<Rightarrow> 'b gomap \<times> error option" where
  "decode_entries dec zero [] m = (m, None)"
| "decode_entries dec zero ((k, v) # kvs) m =
     (let (x, e1) = dec v zero; (m', e2) = decode_entries dec zero kvs (AList.update k x m)
      in (m', first_err e1 e2))"

definition decode_map :: "'b setter \<Rightarrow> 'b \<Rightarrow> 'b gomap setter" where
  "decode_map dec zero v m =
     (case v of
        JObject kvs \<Rightarrow> decode_entries dec zero kvs m
      | JNull \<Rightarrow> ([], None)
      | _ \<Rightarrow> (m, Some type_error))"

definition decode_pointer :: "'b setter \<Rightarrow> 'b \<Rightarrow> 'b option setter" where
  "decode_pointer dec zero v p =
     (if v = JNull then (None, None)
      else let (x, e) = dec v (case p of None \<Rightarrow> zero | Some x \<Rightarrow> x) in (Some x, e))"

text \<open>A field of a struct type, slice, map or pointer.\<close>

definition struct_field :: "('a \<Rightarrow> 'b) \<Rightarrow> ('b \<Rightarrow> 'a \<Rightarrow> 'a) \<Rightarrow> 'b setter \<Rightarrow> 'a setter" where
  "struct_field sel upd dec v a = (let (x, e) = dec v (sel a) in (upd x a, e))"

definition list_field ::
    "('a \<Rightarrow> 'b list) \<Rightarrow> ('b list \<Rightarrow> 'a \<Rightarrow> 'a) \<Rightarrow> 'b setter \<Rightarrow> 'b \<Rightarrow> 'a setter" where
  "list_field sel upd dec zero = struct_field sel upd (decode_list dec zero)"

definition map_field ::
    "('a \<Rightarrow> 'b gomap) \<Rightarrow> ('b gomap \<Rightarrow> 'a \<Rightarrow> 'a) \<Rightarrow> 'b setter \<Rightarrow> 'b \<Rightarrow> 'a setter" where
  "map_field sel upd dec zero = struct_field sel upd (decode_map dec zero)"

fun decode_members :: "(string \<times> 'a setter) list \<Rightarrow> (string \<times> json) list \<Rightarrow> 'a \<Rightarrow> 'a \<times> error option" where
  "decode_members fs [] a = (a, None)"
| "decode_members fs ((k, v) # kvs) a =
     (case map_of fs (ToLower k) of
        None \<Rightarrow> decode_members fs kvs a
      | Some st \<Rightarrow>
          (let (a1, e1) = st v a; (a2, e2) = decode_members fs kvs a1 in (a2, first_err e1 e2)))"

definition decode_struct :: "(string \<times> 'a setter) list \<Rightarrow> 'a setter" where
  "decode_struct fs v a =
     (case v of JObject kvs \<Rightarrow> decode_members fs kvs a | JNull \<Rightarrow> (a, None) | _ \<Rightarrow> (a, Some type_error))"

text \<open>A string element or a string value of a map, and a value of the type \<^verbatim>\<open>interface{}\<close>.\<close>

definition decode_string :: "string setter" where
  "decode_string = string_field (\<lambda>t _. t)"

definition decode_any :: "json setter" where
  "decode_any v _ = (v, None)"

text \<open>
  \<open>json.NewDecoder(stream).Decode(&x)\<close> reads the first value of the stream and leaves the rest. Malformed
  text stores nothing. \<open>Decode_first\<close> is for the callers that give up on an error.
\<close>

definition Decode :: "'a setter \<Rightarrow> 'a \<Rightarrow> string \<Rightarrow> 'a \<times> error option" where
  "Decode dec x logs =
     (case parse_json (2 * length logs + 1) logs of
        None \<Rightarrow> (x, Some (Errorf ''invalid JSON''))
      | Some (v, _) \<Rightarrow> dec v x)"

definition Decode_first :: "'a setter \<Rightarrow> 'a \<Rightarrow> string \<Rightarrow> error + 'a" where
  "Decode_first dec x logs = (case Decode dec x logs of (y, None) \<Rightarrow> Inr y | (_, Some e) \<Rightarrow> Inl e)"

section \<open>Lemmas\<close>

lemma first_err_None [simp]: "first_err e1 e2 = None \<longleftrightarrow> e1 = None \<and> e2 = None"
  by (simp add: first_err_def split: option.splits)

lemma decode_elems_length: "length (fst (decode_elems dec zero vs olds)) = length vs"
  by (induction vs arbitrary: olds) (auto simp: split_beta Let_def)

lemma decode_entries_distinct:
  "distinct (map fst m) \<Longrightarrow> distinct (map fst (fst (decode_entries dec zero kvs m)))"
  by (induction kvs arbitrary: m) (auto simp: split_beta Let_def distinct_update)

end
