(* ===== verification/Go_Url.thy ===== *)
theory Go_Url
  imports Go_Json
begin

text \<open>
  The host part of Go's \<^verbatim>\<open>net/url.Parse\<close> for an absolute \<^verbatim>\<open>http\<close> or \<^verbatim>\<open>https\<close> URL, with the
  errors the parser reports: control characters, a malformed user, port or bracketed host, bad
  percent escapes, characters a host may not contain.
\<close>

datatype encoding = encodePath | encodeHost | encodeZone | encodeUserPassword | encodeFragment

definition is_alnum :: "char \<Rightarrow> bool" where
  "is_alnum c \<longleftrightarrow> is_digit c \<or> is_upper c \<or> is_lower c"

text \<open>\<open>shouldEscape\<close> in the host mode: everything but letters, digits and the listed marks.\<close>

definition host_char :: "char \<Rightarrow> bool" where
  "host_char c \<longleftrightarrow> is_alnum c \<or>
     c \<in> set ''-_.~!$&()*+,;=:[]<>'' \<or> c = CHR 0x27 \<or> c = CHR 0x22"

fun unescape_url :: "encoding \<Rightarrow> string \<Rightarrow> error + string" where
  "unescape_url mode [] = Inr []"
| "unescape_url mode (c # cs) =
     (if c = CHR ''%'' then
        (case cs of
           a # b # rest \<Rightarrow>
             (case (hex_val a, hex_val b) of
                (Some x, Some y) \<Rightarrow>
                  if mode = encodeHost \<and> x < 8 \<and> \<not> (a = CHR ''2'' \<and> b = CHR ''5'')
                    then Inl (Errorf ''invalid URL escape'')
                  else if mode = encodeZone \<and> \<not> (a = CHR ''2'' \<and> b = CHR ''5'') \<and>
                      char_of (16 * x + y) \<noteq> CHR '' '' \<and> \<not> host_char (char_of (16 * x + y))
                    then Inl (Errorf ''invalid URL escape'')
                  else (case unescape_url mode rest of Inl e \<Rightarrow> Inl e
                        | Inr t \<Rightarrow> Inr (char_of (16 * x + y) # t))
              | _ \<Rightarrow> Inl (Errorf ''invalid URL escape''))
         | _ \<Rightarrow> Inl (Errorf ''invalid URL escape''))
      else if (mode = encodeHost \<or> mode = encodeZone) \<and> (of_char c :: nat) < 128 \<and> \<not> host_char c
        then Inl (Errorf ''invalid character in host name'')
      else (case unescape_url mode cs of Inl e \<Rightarrow> Inl e | Inr t \<Rightarrow> Inr (c # t)))"

definition validOptionalPort :: "string \<Rightarrow> bool" where
  "validOptionalPort port \<longleftrightarrow> port = [] \<or> (hd port = CHR '':'' \<and> list_all is_digit (tl port))"

text \<open>The text before and after the last occurrence of a character.\<close>

definition split_last :: "char \<Rightarrow> string \<Rightarrow> (string \<times> string) option" where
  "split_last c s =
     (if c \<in> set s
      then Some (take (length s - Suc (length (takeWhile (\<lambda>d. d \<noteq> c) (rev s)))) s,
                 rev (takeWhile (\<lambda>d. d \<noteq> c) (rev s)))
      else None)"

definition validUserinfo :: "string \<Rightarrow> bool" where
  "validUserinfo s \<longleftrightarrow> list_all (\<lambda>c. is_alnum c \<or> c \<in> set ''-._:~!$&()*+,;=%@'' \<or> c = CHR 0x27) s"

text \<open>The first position of the escape that introduces an IPv6 zone, splitting the text there.\<close>

fun split_zone :: "string \<Rightarrow> (string \<times> string) option" where
  "split_zone [] = None"
| "split_zone (c # cs) =
     (if HasPrefix (c # cs) ''%25'' then Some ([], c # cs)
      else map_option (\<lambda>(a, b). (c # a, b)) (split_zone cs))"

definition parseHost :: "string \<Rightarrow> error + string" where
  "parseHost host =
     (if HasPrefix host ''['' then
        (case split_last (CHR '']'') host of
           None \<Rightarrow> Inl (Errorf ''missing ']' in host'')
         | Some (pre, colonPort) \<Rightarrow>
             if \<not> validOptionalPort colonPort then Inl (Errorf ''invalid port after host'')
             else (case split_zone pre of
                     None \<Rightarrow> unescape_url encodeHost host
                   | Some (addr, zone) \<Rightarrow>
                       (case map_err (\<lambda>(m, t). unescape_url m t)
                               [(encodeHost, addr), (encodeZone, zone), (encodeHost, CHR '']'' # colonPort)] of
                          Inl e \<Rightarrow> Inl e
                        | Inr ps \<Rightarrow> Inr (concat ps))))
      else (case split_last (CHR '':'') host of
              Some (_, port) \<Rightarrow>
                if \<not> validOptionalPort (CHR '':'' # port) then Inl (Errorf ''invalid port after host'')
                else unescape_url encodeHost host
            | None \<Rightarrow> unescape_url encodeHost host))"

definition parseAuthority :: "string \<Rightarrow> error + string" where
  "parseAuthority authority =
     (case split_last (CHR ''@'') authority of
        None \<Rightarrow> parseHost authority
      | Some (userinfo, host) \<Rightarrow>
          (case parseHost host of
             Inl e \<Rightarrow> Inl e
           | Inr h \<Rightarrow>
               if \<not> validUserinfo userinfo then Inl (Errorf ''net/url: invalid userinfo'')
               else (case unescape_url encodeUserPassword userinfo of Inl e \<Rightarrow> Inl e | Inr _ \<Rightarrow> Inr h)))"

text \<open>\<open>url.Parse(s)\<close>, its \<open>Host\<close>, for a text that starts with \<^verbatim>\<open>http://\<close> or \<^verbatim>\<open>https://\<close>.\<close>

definition url_Parse_Host :: "string \<Rightarrow> error + string" where
  "url_Parse_Host rawURL =
     (let u = takeWhile (\<lambda>c. c \<noteq> CHR ''#'') rawURL;
          frag = drop (Suc (length u)) rawURL;
          rest = takeWhile (\<lambda>c. c \<noteq> CHR ''?'') (drop 3 (dropWhile (\<lambda>c. c \<noteq> CHR '':'') u));
          authority = takeWhile (\<lambda>c. c \<noteq> CHR ''/'') rest;
          path = dropWhile (\<lambda>c. c \<noteq> CHR ''/'') rest
      in if \<exists>c \<in> set u. (of_char c :: nat) < 32 \<or> (of_char c :: nat) = 127
           then Inl (Errorf ''net/url: invalid control character in URL'')
         else (case parseAuthority authority of
                 Inl e \<Rightarrow> Inl e
               | Inr h \<Rightarrow>
                   (case unescape_url encodePath path of
                      Inl e \<Rightarrow> Inl e
                    | Inr _ \<Rightarrow> (case unescape_url encodeFragment frag of Inl e \<Rightarrow> Inl e | Inr _ \<Rightarrow> Inr h))))"

section \<open>Plain host names\<close>

text \<open>Names of letters, digits, dots and hyphens, as registries have them.\<close>

definition plain_ch :: "char \<Rightarrow> bool" where
  "plain_ch c \<longleftrightarrow> is_alnum c \<or> c = CHR ''.'' \<or> c = CHR ''-''"

definition plain_host :: "string \<Rightarrow> bool" where
  "plain_host h \<longleftrightarrow> h \<noteq> [] \<and> list_all plain_ch h"

lemma plain_char:
  assumes "plain_ch c"
  shows "c \<noteq> CHR ''#''" "c \<noteq> CHR ''?''" "c \<noteq> CHR ''/''" "c \<noteq> CHR ''@''" "c \<noteq> CHR '':''"
    "c \<noteq> CHR ''[''" "c \<noteq> CHR ''%''" "32 \<le> (of_char c :: nat)" "(of_char c :: nat) \<noteq> 127" "host_char c"
  using assms
  by (auto simp: plain_ch_def host_char_def is_alnum_def is_digit_def is_upper_def is_lower_def)

lemma unescape_plain: "list_all plain_ch h \<Longrightarrow> unescape_url encodeHost h = Inr h"
proof (induction h)
  case (Cons c h)
  then show ?case using plain_char(7,10) [of c] by simp
qed simp

lemma plain_notin:
  assumes "list_all plain_ch h" and "\<not> plain_ch d"
  shows "d \<notin> set h" "takeWhile (\<lambda>c. c \<noteq> d) h = h" "dropWhile (\<lambda>c. c \<noteq> d) h = []"
  using assms by (auto simp: list_all_iff takeWhile_eq_all_conv dropWhile_eq_Nil_conv)

lemma parse_plain_host:
  assumes "plain_host h"
  shows "url_Parse_Host (''https://'' @ h) = Inr h"
proof -
  have h: "list_all plain_ch h" using assms by (simp add: plain_host_def)
  have np: "\<not> plain_ch (CHR ''#'')" "\<not> plain_ch (CHR ''?'')" "\<not> plain_ch (CHR ''/'')"
    "\<not> plain_ch (CHR ''@'')" "\<not> plain_ch (CHR '':'')" "\<not> plain_ch (CHR ''['')"
    by (simp_all add: plain_ch_def is_alnum_def is_digit_def is_upper_def is_lower_def)
  note no = plain_notin [OF h np(1)] plain_notin [OF h np(2)] plain_notin [OF h np(3)]
    plain_notin(1) [OF h np(4)] plain_notin(1) [OF h np(5)] plain_notin(1) [OF h np(6)]
  have nb: "\<not> HasPrefix h ''[''" using plain_notin(1) [OF h np(6)] by (cases h) (auto simp: HasPrefix_def)
  have ctl: "\<not> (\<exists>c \<in> set h. (of_char c :: nat) < 32 \<or> (of_char c :: nat) = 127)"
    using h plain_char(8,9) unfolding list_all_iff by (metis not_less)
  have u: "takeWhile (\<lambda>c. c \<noteq> CHR ''#'') (''https://'' @ h) = ''https://'' @ h"
    using no(2) by simp
  have rest: "drop 3 (dropWhile (\<lambda>c. c \<noteq> CHR '':'') (''https://'' @ h)) = h" by simp
  have frag: "drop (Suc (length (''https://'' @ h))) (''https://'' @ h) = []" by simp
  have auth: "parseAuthority h = Inr h"
    using no(10,11) nb unescape_plain [OF h] by (simp add: parseAuthority_def split_last_def parseHost_def)
  have c2: "\<not> (\<exists>c \<in> set (''https://'' @ h). (of_char c :: nat) < 32 \<or> (of_char c :: nat) = 127)"
    using ctl by auto
  show ?thesis
    unfolding url_Parse_Host_def Let_def u rest frag no(5) no(8) no(9) auth using c2 by auto
qed

end
