(* ===== verification/Docker_Config.thy ===== *)
theory Docker_Config
  imports Go_Base64 Json_Decode Go_Url
begin

text \<open>
  Package \<^verbatim>\<open>pkg/docker\<close>: basic authentication tokens, the registry credentials of a Docker
  configuration file and the registry server of an image or of a credential key. Parsing an image
  reference (go-containerregistry) is a parameter that gives the registry's name.
\<close>

section \<open>Basic authentication\<close>

type_synonym BasicAuth = string

definition BasicAuth_Encode :: "string \<Rightarrow> string \<Rightarrow> BasicAuth" where
  "BasicAuth_Encode username password = EncodeToString (username @ CHR '':'' # password)"

definition NewBasicAuth :: "string \<Rightarrow> string \<Rightarrow> BasicAuth" where
  "NewBasicAuth username password = BasicAuth_Encode username password"

text \<open>\<open>strings.SplitN(s, sep, 2)\<close>.\<close>

definition SplitN2 :: "char \<Rightarrow> string \<Rightarrow> string list" where
  "SplitN2 sep s =
     (if sep \<in> set s then [takeWhile (\<lambda>c. c \<noteq> sep) s, tl (dropWhile (\<lambda>c. c \<noteq> sep) s)] else [s])"

definition BasicAuth_Decode :: "BasicAuth \<Rightarrow> error + (string \<times> string)" where
  "BasicAuth_Decode v =
     (case DecodeString v of
        Inl e \<Rightarrow> Inl e
      | Inr bytes \<Rightarrow>
          (case SplitN2 (CHR '':'') bytes of
             [u, p] \<Rightarrow> Inr (u, p)
           | _ \<Rightarrow> Inl (Errorf ''expected username and password concatenated with a colon (:)'')))"

definition redacted :: "BasicAuth \<Rightarrow> string" where
  "redacted v = ''[REDACTED]''"

section \<open>Credentials\<close>

record Auth =
  au_Auth :: BasicAuth
  au_Username :: string
  au_Password :: string

definition empty_Auth :: Auth where
  "empty_Auth = \<lparr>au_Auth = [], au_Username = [], au_Password = []\<rparr>"

text \<open>
  Decoding the document into the structs: unknown members are skipped, member names match without
  regard to case, \<open>null\<close> leaves a struct or a string as it is and empties a map, and a value of
  another type is an error.
\<close>

definition decode_string_field :: "json \<Rightarrow> string \<Rightarrow> error + string" where
  "decode_string_field v old = (case v of JString t \<Rightarrow> Inr t | JNull \<Rightarrow> Inr old | _ \<Rightarrow> Inl type_error)"

fun decode_Auth_fields :: "(string \<times> json) list \<Rightarrow> Auth \<Rightarrow> error + Auth" where
  "decode_Auth_fields [] a = Inr a"
| "decode_Auth_fields ((k, v) # kvs) a =
     (let key = ToLower k in
      if key = ''auth'' then
        (case decode_string_field v (au_Auth a) of Inl e \<Rightarrow> Inl e
         | Inr t \<Rightarrow> decode_Auth_fields kvs (a\<lparr>au_Auth := t\<rparr>))
      else if key = ''username'' then
        (case decode_string_field v (au_Username a) of Inl e \<Rightarrow> Inl e
         | Inr t \<Rightarrow> decode_Auth_fields kvs (a\<lparr>au_Username := t\<rparr>))
      else if key = ''password'' then
        (case decode_string_field v (au_Password a) of Inl e \<Rightarrow> Inl e
         | Inr t \<Rightarrow> decode_Auth_fields kvs (a\<lparr>au_Password := t\<rparr>))
      else decode_Auth_fields kvs a)"

definition decode_Auth :: "json \<Rightarrow> error + Auth" where
  "decode_Auth v = (case v of JObject kvs \<Rightarrow> decode_Auth_fields kvs empty_Auth
     | JNull \<Rightarrow> Inr empty_Auth | _ \<Rightarrow> Inl type_error)"

fun decode_Auths :: "(string \<times> json) list \<Rightarrow> Auth gomap \<Rightarrow> error + Auth gomap" where
  "decode_Auths [] m = Inr m"
| "decode_Auths ((k, v) # kvs) m =
     (case decode_Auth v of Inl e \<Rightarrow> Inl e | Inr a \<Rightarrow> decode_Auths kvs (AList.update k a m))"

fun decode_Config :: "(string \<times> json) list \<Rightarrow> Auth gomap \<Rightarrow> error + Auth gomap" where
  "decode_Config [] m = Inr m"
| "decode_Config ((k, v) # kvs) m =
     (if ToLower k = ''auths'' then
        (case v of
           JObject ms \<Rightarrow> (case decode_Auths ms m of Inl e \<Rightarrow> Inl e | Inr m' \<Rightarrow> decode_Config kvs m')
         | JNull \<Rightarrow> decode_Config kvs []
         | _ \<Rightarrow> Inl type_error)
      else decode_Config kvs m)"

definition Unmarshal_Config :: "string \<Rightarrow> error + Auth gomap" where
  "Unmarshal_Config contents =
     (case json_parse contents of
        None \<Rightarrow> Inl (Errorf ''invalid JSON'')
      | Some (JObject kvs) \<Rightarrow> decode_Config kvs []
      | Some JNull \<Rightarrow> Inr []
      | Some _ \<Rightarrow> Inl type_error)"

text \<open>\<open>decodeAuths\<close>, over the map's entries in the order the runtime visits them.\<close>

fun decodeAuths_loop :: "(string \<times> Auth) list \<Rightarrow> Auth gomap \<Rightarrow> error + Auth gomap" where
  "decodeAuths_loop [] decoded = Inr decoded"
| "decodeAuths_loop ((server, entry) # es) decoded =
     (if entry = empty_Auth then decodeAuths_loop es decoded
      else if TrimSpace (au_Auth entry) = []
        then decodeAuths_loop es (AList.update server
               \<lparr>au_Auth = [], au_Username = au_Username entry, au_Password = au_Password entry\<rparr> decoded)
      else (case BasicAuth_Decode (au_Auth entry) of
              Inl e \<Rightarrow> Inl e
            | Inr (username, password) \<Rightarrow>
                decodeAuths_loop es (AList.update server
                  \<lparr>au_Auth = au_Auth entry, au_Username = username, au_Password = password\<rparr> decoded)))"

definition decodeAuths :: "order \<Rightarrow> Auth gomap \<Rightarrow> error + Auth gomap" where
  "decodeAuths ord auths = decodeAuths_loop (range_map ord auths) []"

definition Config_Read :: "order \<Rightarrow> string \<Rightarrow> error + Auth gomap" where
  "Config_Read ord contents =
     (case Unmarshal_Config contents of Inl e \<Rightarrow> Inl e | Inr auths \<Rightarrow> decodeAuths ord auths)"

text \<open>\<open>json.Marshal\<close> of the configuration: sorted servers, empty fields omitted.\<close>

definition encode_Auth :: "Auth \<Rightarrow> json" where
  "encode_Auth a = JObject (filter (\<lambda>(k, v). v \<noteq> JString [])
     [(''auth'', JString (au_Auth a)), (''username'', JString (au_Username a)),
      (''password'', JString (au_Password a))])"

definition Config_Write :: "Auth gomap \<Rightarrow> error + string" where
  "Config_Write auths = Inr (encode_json (JObject [(''auths'',
     JObject (map (\<lambda>(server, a). (server, encode_Auth a)) (sort_key fst auths)))]))"

definition GetServerFromImageRef :: "(string \<Rightarrow> error + string) \<Rightarrow> string \<Rightarrow> error + string" where
  "GetServerFromImageRef ParseReference_RegistryStr imageRef = ParseReference_RegistryStr imageRef"

definition GetServerFromDockerAuthKey :: "string \<Rightarrow> error + string" where
  "GetServerFromDockerAuthKey key =
     (let absoluteURL = (if \<not> (HasPrefix key ''http://'' \<or> HasPrefix key ''https://'')
                         then ''https://'' @ key else key)
      in url_Parse_Host absoluteURL)"

section \<open>Lemmas\<close>

lemma SplitN2_first: "sep \<notin> set u \<Longrightarrow> SplitN2 sep (u @ sep # p) = [u, p]"
proof -
  assume "sep \<notin> set u"
  then have "\<forall>x \<in> set u. x \<noteq> sep" by blast
  then show ?thesis by (simp add: SplitN2_def takeWhile_append dropWhile_append)
qed

lemma BasicAuth_roundtrip: "CHR '':'' \<notin> set u \<Longrightarrow> BasicAuth_Decode (NewBasicAuth u p) = Inr (u, p)"
  by (simp add: BasicAuth_Decode_def NewBasicAuth_def BasicAuth_Encode_def base64_roundtrip SplitN2_first)

lemma EncodeToString_not_blank: "s \<noteq> [] \<Longrightarrow> TrimSpace (EncodeToString s) \<noteq> []"
proof -
  assume "s \<noteq> []"
  then obtain n rest where e: "EncodeToString s = b64_char n # rest" "n < 64"
    by (cases s rule: EncodeToString.cases) (auto simp: Let_def)
  have "b64_val c = None" if "is_space c" for c
    using that by (auto simp: is_space_def b64_val_def Let_def)
  then have "\<not> is_space (b64_char n)" using b64_val_char [OF e(2)] by auto
  then show ?thesis by (simp add: e TrimSpace_def)
qed

lemma printable_doc_Auth: "printable_doc (encode_Auth a)"
  by (simp add: encode_Auth_def)

lemma decode_encode_Auth: "decode_Auth (encode_Auth a) = Inr a"
  by (simp add: decode_Auth_def encode_Auth_def decode_string_field_def empty_Auth_def ToLower_def
      lower_char_def is_upper_def)

lemma decode_Auths_encoded:
  "distinct (map fst m @ map fst as) \<Longrightarrow>
   decode_Auths (map (\<lambda>(k, a). (k, encode_Auth a)) as) m = Inr (m @ as)"
proof (induction as arbitrary: m)
  case (Cons ka as)
  obtain k a where ka: "ka = (k, a)" by fastforce
  have "k \<notin> fst ` set m" using Cons.prems ka by auto
  then have "AList.update k a m = m @ [(k, a)]" by (rule update_fresh)
  then show ?case using Cons ka by (simp add: decode_encode_Auth)
qed simp

lemma distinct_sort_keys: "distinct (map fst (sort_key fst m)) = distinct (map fst (m :: (string \<times> 'a) list))"
  using mset_eq_imp_distinct_iff [of "map fst (sort_key fst m)" "map fst m"] by simp

lemma Unmarshal_Write:
  assumes "distinct (map fst auths)" and "Config_Write auths = Inr txt"
  shows "Unmarshal_Config txt = Inr (sort_key fst auths)"
proof -
  let ?doc = "JObject [(''auths'', JObject (map (\<lambda>(server, a). (server, encode_Auth a)) (sort_key fst auths)))]"
  have "printable_doc ?doc" by (auto simp: list_all_iff printable_doc_Auth)
  from json_parse_encoded [OF this] have "json_parse txt = Some ?doc"
    using assms(2) by (simp add: Config_Write_def)
  moreover have "ToLower ''auths'' = ''auths''" by (simp add: ToLower_def lower_char_def is_upper_def)
  ultimately show ?thesis
    using decode_Auths_encoded [of "[]" "sort_key fst auths"] assms(1)
    by (simp add: Unmarshal_Config_def distinct_sort_keys)
qed

end
