(* ===== verification/Kube_Secrets.thy ===== *)
theory Kube_Secrets
  imports Docker_Config Starboard_Config
begin

text \<open>
  Package \<^verbatim>\<open>pkg/kube\<close>, files \<^verbatim>\<open>secrets.go\<close> and \<^verbatim>\<open>logs.go\<close>, and the deadline helper of
  \<^verbatim>\<open>runnable_job.go\<close>: how a workload's registry credentials are found through its image pull
  secrets and service account, and how the pod, the logs and the container states of a job are
  read. The registry of an image reference is a parameter (\<open>reg\<close>), as is the log stream of a
  container.
\<close>

section \<open>Image pull secrets\<close>

definition SecretTypeDockerConfigJson :: string where
  "SecretTypeDockerConfigJson = ''kubernetes.io/dockerconfigjson''"

definition DockerConfigJsonKey :: string where
  "DockerConfigJsonKey = ''.dockerconfigjson''"

definition NewImagePullSecret :: "ObjectMeta \<Rightarrow> string \<Rightarrow> string \<Rightarrow> string \<Rightarrow> error + Object" where
  "NewImagePullSecret meta server username password =
     (case Config_Write [(server, \<lparr>au_Auth = NewBasicAuth username password,
                            au_Username = username, au_Password = password\<rparr>)] of
        Inl e \<Rightarrow> Inl e
      | Inr dockerConfig \<Rightarrow>
          Inr \<lparr>o_Kind = [], o_Meta = meta,
               o_Body = Secret SecretTypeDockerConfigJson [(DockerConfigJsonKey, dockerConfig)]\<rparr>)"

text \<open>The inner loop over the credentials of one secret.\<close>

fun add_servers :: "(string \<times> Auth) list \<Rightarrow> Auth gomap \<Rightarrow> error + Auth gomap" where
  "add_servers [] auths = Inr auths"
| "add_servers ((authKey, auth) # es) auths =
     (case GetServerFromDockerAuthKey authKey of
        Inl e \<Rightarrow> Inl e
      | Inr server \<Rightarrow> add_servers es (AList.update server auth auths))"

fun map_servers :: "order \<Rightarrow> Object list \<Rightarrow> Auth gomap \<Rightarrow> error + Auth gomap" where
  "map_servers ord [] auths = Inr auths"
| "map_servers ord (secret # secrets) auths =
     (if secret_type (o_Body secret) \<noteq> SecretTypeDockerConfigJson then map_servers ord secrets auths
      else (case map_of (config_data (o_Body secret)) DockerConfigJsonKey of
              None \<Rightarrow> map_servers ord secrets auths
            | Some data \<Rightarrow>
                (case Config_Read ord data of
                   Inl e \<Rightarrow> Inl (Wrap (''reading field of secret '' @ om_Name (o_Meta secret)) e)
                 | Inr Auths \<Rightarrow>
                     (case add_servers (range_map ord Auths) auths of
                        Inl e \<Rightarrow> Inl e
                      | Inr auths' \<Rightarrow> map_servers ord secrets auths'))))"

definition MapDockerRegistryServersToAuths :: "order \<Rightarrow> Object list \<Rightarrow> error + Auth gomap" where
  "MapDockerRegistryServersToAuths ord imagePullSecrets = map_servers ord imagePullSecrets []"

fun map_containers ::
    "(string \<Rightarrow> error + string) \<Rightarrow> Auth gomap \<Rightarrow> (string \<times> string) list \<Rightarrow> Auth gomap \<Rightarrow> error + Auth gomap" where
  "map_containers reg auths [] mapping = Inr mapping"
| "map_containers reg auths ((containerName, imageRef) # images) mapping =
     (case GetServerFromImageRef reg imageRef of
        Inl e \<Rightarrow> Inl e
      | Inr server \<Rightarrow>
          map_containers reg auths images
            (case map_of auths server of None \<Rightarrow> mapping | Some auth \<Rightarrow> AList.update containerName auth mapping))"

definition MapContainerNamesToDockerAuths ::
    "(string \<Rightarrow> error + string) \<Rightarrow> order \<Rightarrow> ContainerImages \<Rightarrow> Object list \<Rightarrow> error + Auth gomap" where
  "MapContainerNamesToDockerAuths reg ord images secrets =
     (case MapDockerRegistryServersToAuths ord secrets of
        Inl e \<Rightarrow> Inl e
      | Inr auths \<Rightarrow> map_containers reg auths (range_map ord images) [])"

definition AggregateImagePullSecretsData ::
    "order \<Rightarrow> ContainerImages \<Rightarrow> Auth gomap \<Rightarrow> string gomap" where
  "AggregateImagePullSecretsData ord images credentials =
     foldl (\<lambda>secretData (containerName, _).
         case map_of credentials containerName of
           None \<Rightarrow> secretData
         | Some dockerAuth \<Rightarrow>
             AList.update (containerName @ ''.password'') (au_Password dockerAuth)
               (AList.update (containerName @ ''.username'') (au_Username dockerAuth) secretData))
       [] (range_map ord images)"

section \<open>Reading secrets\<close>

definition serviceAccountDefault :: string where "serviceAccountDefault = ''default''"

definition ListByLocalObjectReferences ::
    "'s client \<Rightarrow> 's \<Rightarrow> string list \<Rightarrow> string \<Rightarrow> error + Object list" where
  "ListByLocalObjectReferences c s refs ns =
     map_err (\<lambda>name. case cl_Get c s TSecret \<lparr>key_Namespace = ns, key_Name = name\<rparr> of
        Inl e \<Rightarrow> Inl (Wrap (''getting secret by name: '' @ ns @ ''/'' @ name) e)
      | Inr secret \<Rightarrow> Inr secret) refs"

definition ListByServiceAccount ::
    "'s client \<Rightarrow> 's \<Rightarrow> string \<Rightarrow> string \<Rightarrow> error + Object list" where
  "ListByServiceAccount c s name ns =
     (case cl_Get c s TServiceAccount \<lparr>key_Namespace = ns, key_Name = name\<rparr> of
        Inl e \<Rightarrow> Inl (Wrap (''getting service account by name: '' @ ns @ ''/'' @ name) e)
      | Inr sa \<Rightarrow> ListByLocalObjectReferences c s (sa_imagePullSecrets (o_Body sa)) ns)"

definition ListImagePullSecretsByPodSpec ::
    "'s client \<Rightarrow> 's \<Rightarrow> PodSpec \<Rightarrow> string \<Rightarrow> error + Object list" where
  "ListImagePullSecretsByPodSpec c s spec ns =
     (case ListByLocalObjectReferences c s (ps_ImagePullSecrets spec) ns of
        Inl e \<Rightarrow> Inl e
      | Inr secrets \<Rightarrow>
          (let serviceAccountName = (if ps_ServiceAccountName spec = [] then serviceAccountDefault
                                     else ps_ServiceAccountName spec)
           in case ListByServiceAccount c s serviceAccountName ns of
                Inl e \<Rightarrow> Inl e
              | Inr serviceAccountSecrets \<Rightarrow> Inr (secrets @ serviceAccountSecrets)))"

definition CredentialsByWorkload ::
    "'s client \<Rightarrow> (string \<Rightarrow> error + string) \<Rightarrow> order \<Rightarrow> 's \<Rightarrow> Object \<Rightarrow> error + Auth gomap" where
  "CredentialsByWorkload c reg ord s workload =
     (case GetPodSpec workload of
        Inl e \<Rightarrow> Inl (Wrap ''getting Pod template'' e)
      | Inr spec \<Rightarrow>
          (case ListImagePullSecretsByPodSpec c s spec (om_Namespace (o_Meta workload)) of
             Inl e \<Rightarrow> Inl e
           | Inr imagePullSecrets \<Rightarrow>
               MapContainerNamesToDockerAuths reg ord (GetContainerImagesFromPodSpec spec) imagePullSecrets))"

section \<open>Pods and logs of a job\<close>

definition getPodByJob :: "'s client \<Rightarrow> 's \<Rightarrow> Object \<Rightarrow> error + Object option" where
  "getPodByJob c s job =
     (case cl_Get c s TJob (key_of job) of
        Inl e \<Rightarrow> Inl e
      | Inr refreshedJob \<Rightarrow>
          (case cl_List c s (Some TPod)
                  \<lparr>lo_Namespace = Some (om_Namespace (o_Meta job)),
                   lo_Reqs = [ReqEq ''controller-uid''
                     (mget (map_of (match_labels (o_Body refreshedJob))) ''controller-uid'')],
                   lo_Limit = None\<rparr> of
             Inl e \<Rightarrow> Inl e
           | Inr pods \<Rightarrow> Inr (case pods of [] \<Rightarrow> None | p # _ \<Rightarrow> Some p)))"

type_synonym 's logs = "'s \<Rightarrow> ObjectKey \<Rightarrow> string \<Rightarrow> error + string"

definition GetLogsByJobAndContainerName ::
    "'s client \<Rightarrow> 's logs \<Rightarrow> 's \<Rightarrow> Object \<Rightarrow> string \<Rightarrow> error + string" where
  "GetLogsByJobAndContainerName c logs s job containerName =
     (case getPodByJob c s job of
        Inl e \<Rightarrow> Inl (Wrap ''getting pod controlled by job'' e)
      | Inr None \<Rightarrow> Inl (Wrap ''getting pod controlled by job'' podControlledByJobNotFoundErr)
      | Inr (Some pod) \<Rightarrow> logs s (key_of pod) containerName)"

fun pod_status :: "Body \<Rightarrow> PodStatus" where
  "pod_status (Pod _ st) = st"
| "pod_status _ = \<lparr>pst_InitContainerStatuses = [], pst_ContainerStatuses = []\<rparr>"

definition add_terminated ::
    "ContainerStateTerminated gomap \<Rightarrow> ContainerStatus \<Rightarrow> ContainerStateTerminated gomap" where
  "add_terminated states status =
     (case cst_Terminated status of None \<Rightarrow> states
      | Some t \<Rightarrow> AList.update (cst_Name status) t states)"

definition GetTerminatedContainersStatusesByPod :: "Object option \<Rightarrow> ContainerStateTerminated gomap" where
  "GetTerminatedContainersStatusesByPod pod =
     (case pod of
        None \<Rightarrow> []
      | Some p \<Rightarrow>
          foldl add_terminated
            (foldl add_terminated [] (pst_InitContainerStatuses (pod_status (o_Body p))))
            (pst_ContainerStatuses (pod_status (o_Body p))))"

definition GetTerminatedContainersStatusesByJob ::
    "'s client \<Rightarrow> 's \<Rightarrow> Object \<Rightarrow> error + ContainerStateTerminated gomap" where
  "GetTerminatedContainersStatusesByJob c s job =
     (case getPodByJob c s job of Inl e \<Rightarrow> Inl e
      | Inr pod \<Rightarrow> Inr (GetTerminatedContainersStatusesByPod pod))"

text \<open>
  \<open>GetActiveDeadlineSeconds\<close>: the whole seconds of a positive duration. (The code truncates a
  floating-point number of seconds, which is exact for durations of some weeks and below.)
\<close>

definition GetActiveDeadlineSeconds :: "Duration \<Rightarrow> int option" where
  "GetActiveDeadlineSeconds d = (if d > 0 then Some (d div Second) else None)"

section \<open>Lemmas\<close>

lemma server_of_plain_host:
  assumes "plain_host server"
  shows "GetServerFromDockerAuthKey server = Inr server"
proof -
  have "CHR '':'' \<notin> set server"
    using assms plain_notin(1) [of server "CHR '':''"] plain_char(5) [of "CHR '':''"]
    by (auto simp: plain_host_def)
  then have "\<not> HasPrefix server ''http://''" "\<not> HasPrefix server ''https://''"
    by (auto simp: HasPrefix_iff)
  then show ?thesis using parse_plain_host [OF assms] by (simp add: GetServerFromDockerAuthKey_def)
qed

lemma Config_Read_single:
  assumes "perm_order ord" and "CHR '':'' \<notin> set u" and "Config_Write [(server,
      \<lparr>au_Auth = NewBasicAuth u p, au_Username = u, au_Password = p\<rparr>)] = Inr txt"
  shows "Config_Read ord txt = Inr [(server, \<lparr>au_Auth = NewBasicAuth u p, au_Username = u, au_Password = p\<rparr>)]"
proof -
  let ?a = "\<lparr>au_Auth = NewBasicAuth u p, au_Username = u, au_Password = p\<rparr>"
  have um: "Unmarshal_Config txt = Inr [(server, ?a)]"
    using Unmarshal_Write [OF _ assms(3)] by simp
  have ne: "TrimSpace (NewBasicAuth u p) \<noteq> []"
    by (simp add: NewBasicAuth_def BasicAuth_Encode_def EncodeToString_not_blank)
  have "NewBasicAuth u p \<noteq> []" using ne by (auto simp: TrimSpace_def)
  then show ?thesis using um ne BasicAuth_roundtrip [OF assms(2), of p] assms(1)
    by (simp add: Config_Read_def decodeAuths_def empty_Auth_def)
qed

lemma map_containers_lookup:
  assumes "map_containers reg auths images mapping = Inr m" and "distinct (map fst images)"
  shows "map_of m name = (case map_of images name of
      None \<Rightarrow> map_of mapping name
    | Some img \<Rightarrow> (case reg img of Inl _ \<Rightarrow> map_of mapping name
        | Inr server \<Rightarrow> (case map_of auths server of None \<Rightarrow> map_of mapping name | Some a \<Rightarrow> Some a)))"
  using assms
proof (induction images arbitrary: mapping)
  case (Cons ci images)
  obtain cn img where ci: "ci = (cn, img)" by fastforce
  with Cons.prems obtain server where server: "reg img = Inr server"
    by (auto simp: GetServerFromImageRef_def split: sum.splits)
  let ?mp = "case map_of auths server of None \<Rightarrow> mapping | Some auth \<Rightarrow> AList.update cn auth mapping"
  have rec: "map_containers reg auths images ?mp = Inr m" and d: "distinct (map fst images)"
    using Cons.prems ci server by (auto simp: GetServerFromImageRef_def)
  note IH = Cons.IH [OF rec d]
  have cn: "map_of images cn = None" using Cons.prems(2) ci by (auto simp: map_of_eq_None_iff)
  show ?case
  proof (cases "name = cn")
    case True
    then show ?thesis using IH cn ci server
      by (auto simp: map_of_update split: option.splits)
  next
    case False
    then have "map_of ?mp name = map_of mapping name"
      by (auto simp: map_of_update split: option.splits)
    then show ?thesis using IH ci False by (simp del: option.case_distrib split: option.splits sum.splits)
  qed
qed simp

lemma image_pull_secret_read:
  assumes "perm_order ord" and "plain_host server" and "CHR '':'' \<notin> set username"
    and "NewImagePullSecret meta server username password = Inr secret"
  shows "MapDockerRegistryServersToAuths ord [secret] =
    Inr [(server, \<lparr>au_Auth = NewBasicAuth username password, au_Username = username,
                   au_Password = password\<rparr>)]"
proof -
  let ?a = "\<lparr>au_Auth = NewBasicAuth username password, au_Username = username, au_Password = password\<rparr>"
  obtain doc where doc: "Config_Write [(server, ?a)] = Inr doc"
    and secret: "o_Body secret = Secret SecretTypeDockerConfigJson [(DockerConfigJsonKey, doc)]"
    using assms(4) by (auto simp: NewImagePullSecret_def split: sum.splits)
  show ?thesis
    using assms(1) Config_Read_single [OF assms(1,3) doc] server_of_plain_host [OF assms(2)]
    by (simp add: MapDockerRegistryServersToAuths_def secret)
qed

section \<open>Properties\<close>

text \<open>
  C17. An image pull secret built for a registry gives back its credentials: reading the secrets
  of which it is the only one yields exactly the registry's host with the user name and password
  it was built from, whatever order the runtime visits maps in, provided that the registry is given as
  a plain host (no scheme, port or path) and that the user name has no colon. JSON, base64 and the URL of the registry are all part of this round trip.
\<close>

theorem image_pull_secret_roundtrip:
  assumes "perm_order ord" and "plain_host server" and "CHR '':'' \<notin> set username"
    and "NewImagePullSecret meta server username password = Inr secret"
  shows "MapDockerRegistryServersToAuths ord [secret] =
    Inr [(server, \<lparr>au_Auth = NewBasicAuth username password, au_Username = username,
                   au_Password = password\<rparr>)]"
  using assms by (rule image_pull_secret_read)

theorem image_pull_secret_roundtrip_witness:
  "\<exists>secret. NewImagePullSecret empty_meta ''registry.example.com'' ''bob'' ''s3:cret'' = Inr secret \<and>
     MapDockerRegistryServersToAuths rev [secret] = Inr [(''registry.example.com'',
       \<lparr>au_Auth = NewBasicAuth ''bob'' ''s3:cret'', au_Username = ''bob'', au_Password = ''s3:cret''\<rparr>)]"
proof -
  obtain secret where s: "NewImagePullSecret empty_meta ''registry.example.com'' ''bob'' ''s3:cret'' = Inr secret"
    by (simp add: NewImagePullSecret_def Config_Write_def)
  have "plain_host ''registry.example.com''"
    by (simp add: plain_host_def plain_ch_def is_alnum_def is_digit_def is_upper_def is_lower_def)
  from image_pull_secret_roundtrip [OF perm_order_rev this _ s] s show ?thesis by simp
qed

text \<open>
  A container of a workload gets credentials exactly when its image's registry server has
  them, and then it gets those: the mapping from container names to credentials looks the server
  of the container's image up among the secrets' servers, independently of the order in which the
  runtime visits the containers.
\<close>

lemma container_credentials:
  assumes "perm_order ord" and "distinct (map fst images)"
    and "MapDockerRegistryServersToAuths ord secrets = Inr auths"
    and "MapContainerNamesToDockerAuths reg ord images secrets = Inr m"
  shows "map_of m name =
    (case map_of images name of
       None \<Rightarrow> None
     | Some imageRef \<Rightarrow> (case reg imageRef of Inl _ \<Rightarrow> None | Inr server \<Rightarrow> map_of auths server))"
proof -
  have run: "map_containers reg auths (range_map ord images) [] = Inr m"
    using assms(3,4) by (simp add: MapContainerNamesToDockerAuths_def)
  have "map_of (range_map ord images) = map_of images"
    using range_map_set [OF assms(1,2)] range_map_distinct [OF assms(1,2)] assms(2)
    by (metis map_of_inject_set)
  then show ?thesis
    using map_containers_lookup [OF run range_map_distinct [OF assms(1,2)], of name]
    by (auto split: option.splits sum.splits)
qed

end
