(* ===== verification/Go_Duration.thy ===== *)
theory Go_Duration
  imports Go_Lib
begin

text \<open>
  Go's textual form of a \<^verbatim>\<open>time.Duration\<close>: \<^verbatim>\<open>Duration.String\<close>, which writes the time-to-live of a
  report into an annotation, and \<^verbatim>\<open>time.ParseDuration\<close>, which reads it back. The parser multiplies
  a fraction by its unit in floating point; that product is a parameter (\<open>fmul\<close>: fraction, unit,
  scale), which is not called when a term has no fraction. The last part shows that a duration of
  whole seconds survives the round trip.
\<close>

section \<open>Formatting\<close>

text \<open>\<open>fmtFrac\<close>: the decimals of \<open>v / 10 ^ prec\<close> without trailing zeros, and the integer part.\<close>

fun frac_digits :: "nat \<Rightarrow> nat \<Rightarrow> bool \<Rightarrow> string \<Rightarrow> string \<times> bool \<times> nat" where
  "frac_digits 0 v pr acc = (acc, pr, v)"
| "frac_digits (Suc k) v pr acc =
     (let digit = v mod 10; pr' = (pr \<or> digit \<noteq> 0)
      in frac_digits k (v div 10) pr' (if pr' then digit_char digit # acc else acc))"

definition fmtFrac :: "nat \<Rightarrow> nat \<Rightarrow> string \<times> nat" where
  "fmtFrac v prec = (let (ds, pr, v') = frac_digits prec v False [] in (if pr then CHR ''.'' # ds else [], v'))"

definition micro :: string where "micro = [CHR 0xC2, CHR 0xB5]"

definition Duration_String :: "Duration \<Rightarrow> string" where
  "Duration_String d =
     (let u = nat \<bar>d\<bar>;
          sign = (if d < 0 then ''-'' else [])
      in if u = 0 then ''0s''
         else if u < 1000000000 then
           (let (prec, unit) = (if u < 1000 then (0, ''ns'') else if u < 1000000 then (3, micro @ ''s'')
                                else (6, ''ms''));
                (frac, i) = fmtFrac u prec
            in sign @ show_nat i @ frac @ unit)
         else
           (let (frac, secs) = fmtFrac u 9;
                mins = secs div 60; hours = mins div 60
            in sign @ (if mins > 0
                       then (if hours > 0 then show_nat hours @ ''h'' else []) @ show_nat (mins mod 60) @ ''m''
                       else [])
                    @ show_nat (secs mod 60) @ frac @ ''s''))"

section \<open>Parsing\<close>

definition unitMap :: "string \<Rightarrow> nat option" where
  "unitMap u =
     (if u = ''ns'' then Some 1
      else if u = ''us'' \<or> u = micro @ ''s'' \<or> u = [CHR 0xCE, CHR 0xBC] @ ''s'' then Some 1000
      else if u = ''ms'' then Some 1000000
      else if u = ''s'' then Some 1000000000
      else if u = ''m'' then Some 60000000000
      else if u = ''h'' then Some 3600000000000
      else None)"

text \<open>\<open>leadingFraction\<close> on the digits after the point: digits that would overflow are dropped.\<close>

fun leadingFraction :: "string \<Rightarrow> nat \<Rightarrow> nat \<Rightarrow> nat \<times> nat" where
  "leadingFraction [] x scale = (x, scale)"
| "leadingFraction (c # cs) x scale =
     (if x > (2 ^ 63 - 1) div 10 \<or> x * 10 + digit_val c > 2 ^ 63 then (x, scale)
      else leadingFraction cs (x * 10 + digit_val c) (scale * 10))"

definition num_char :: "char \<Rightarrow> bool" where
  "num_char c \<longleftrightarrow> c = CHR ''.'' \<or> is_digit c"

text \<open>The sum of the terms, in 64 unsigned bits.\<close>

function parse_terms :: "(nat \<Rightarrow> nat \<Rightarrow> nat \<Rightarrow> nat) \<Rightarrow> string \<Rightarrow> nat \<Rightarrow> error + nat" where
  "parse_terms fmul s d =
     (if s = [] then Inr d
      else if \<not> num_char (hd s) then Inl (Errorf ''time: invalid duration'')
      else
        (let ds = takeWhile is_digit s; s1 = dropWhile is_digit s;
             dot = (s1 \<noteq> [] \<and> hd s1 = CHR ''.'');
             fr = (if dot then takeWhile is_digit (tl s1) else []);
             s2 = (if dot then dropWhile is_digit (tl s1) else s1);
             u = takeWhile (\<lambda>c. \<not> num_char c) s2; s3 = dropWhile (\<lambda>c. \<not> num_char c) s2;
             (f, scale) = leadingFraction fr 0 1
         in if read_digits ds > 2 ^ 63 then Inl (Errorf ''time: invalid duration'')
            else if ds = [] \<and> fr = [] then Inl (Errorf ''time: invalid duration'')
            else if u = [] then Inl (Errorf ''time: missing unit in duration'')
            else (case unitMap u of
                    None \<Rightarrow> Inl (Errorf ''time: unknown unit in duration'')
                  | Some unit \<Rightarrow>
                      if read_digits ds > 2 ^ 63 div unit then Inl (Errorf ''time: invalid duration'')
                      else
                        (let v = read_digits ds * unit + (if f > 0 then fmul f unit scale else 0);
                             d' = (d + v) mod 2 ^ 64
                         in if v > 2 ^ 63 \<or> d' > 2 ^ 63 then Inl (Errorf ''time: invalid duration'')
                            else parse_terms fmul s3 d'))))"
  by pat_completeness auto
termination
proof (relation "measure (\<lambda>(_, s, _). length s)", goal_cases)
  case (2 fmul s d ds s1 dot fr s2 u s3 y f scale unit v d')
  have "length s2 \<le> length s"
    using 2 length_dropWhile_le [of is_digit s] length_dropWhile_le [of is_digit "tl s1"]
    by (auto simp: le_diff_conv)
  moreover have "length s3 < length s2"
  proof -
    have "length s2 = length u + length s3" using 2 by (metis length_append takeWhile_dropWhile_id)
    then show ?thesis using 2 by simp
  qed
  ultimately show ?case by simp
qed simp

declare parse_terms.simps [simp del]

definition ParseDuration :: "(nat \<Rightarrow> nat \<Rightarrow> nat \<Rightarrow> nat) \<Rightarrow> string \<Rightarrow> error + Duration" where
  "ParseDuration fmul s =
     (let neg = (s \<noteq> [] \<and> hd s = CHR ''-'');
          s1 = (if s \<noteq> [] \<and> (hd s = CHR ''-'' \<or> hd s = CHR ''+'') then tl s else s)
      in if s1 = ''0'' then Inr 0
         else if s1 = [] then Inl (Errorf ''time: invalid duration'')
         else (case parse_terms fmul s1 0 of
                 Inl e \<Rightarrow> Inl e
               | Inr d \<Rightarrow>
                   if neg then Inr (- int d)
                   else if int d > int64_max then Inl (Errorf ''time: invalid duration'')
                   else Inr (int d)))"

section \<open>Whole seconds survive the round trip\<close>

lemma frac_digits_zero: "frac_digits k (v * 10 ^ k) False acc = (acc, False, v)"
proof (induction k)
  case (Suc k)
  have "v * 10 ^ Suc k mod 10 = 0" "v * 10 ^ Suc k div 10 = v * 10 ^ k" by simp_all
  then show ?case using Suc by (simp only: frac_digits.simps Let_def) simp
qed simp

lemma fmtFrac_whole: "fmtFrac (n * 1000000000) 9 = ([], n)"
  using frac_digits_zero [of 9 n "[]"] by (simp add: fmtFrac_def)

definition term_chars :: "string list" where "term_chars = [''h'', ''m'', ''s'']"

lemma unit_char [simp]: "\<not> num_char (CHR ''h'')" "\<not> num_char (CHR ''m'')" "\<not> num_char (CHR ''s'')"
  "\<not> is_digit (CHR ''h'')" "\<not> is_digit (CHR ''m'')" "\<not> is_digit (CHR ''s'')"
  by (simp_all add: num_char_def is_digit_def)

text \<open>One term without a fraction: a number, a one-letter unit, and a rest that starts with a digit.\<close>

lemma parse_term_whole:
  assumes u: "c \<in> {CHR ''h'', CHR ''m'', CHR ''s''}" and unit: "unitMap [c] = Some unit"
    and rest: "rest = [] \<or> is_digit (hd rest)"
    and le: "n \<le> 2 ^ 63 div unit" "d + n * unit \<le> 2 ^ 63" "n \<le> 2 ^ 63"
  shows "parse_terms fmul (show_nat n @ c # rest) d = parse_terms fmul rest (d + n * unit)"
proof -
  have c: "\<not> is_digit c" "\<not> num_char c" "c \<noteq> CHR ''.''" using u by auto
  have dig: "\<forall>x \<in> set (show_nat n). is_digit x" using show_nat_digits by blast
  have hd: "num_char (hd (show_nat n))"
    using dig hd_in_set [of "show_nat n"] by (auto simp: num_char_def)
  have tw: "takeWhile is_digit (show_nat n @ c # rest) = show_nat n"
    "dropWhile is_digit (show_nat n @ c # rest) = c # rest"
    using dig c by (simp_all add: takeWhile_append dropWhile_append)
  have us: "takeWhile (\<lambda>x. \<not> num_char x) rest = []" "dropWhile (\<lambda>x. \<not> num_char x) rest = rest"
    using rest by (cases rest; simp add: num_char_def)+
  have "(d + n * unit) mod 2 ^ 64 = d + n * unit" using le by (intro mod_less) simp
  then show ?thesis using le c
    by (simp add: parse_terms.simps [of fmul "show_nat n @ c # rest" d] hd tw us unit Let_def)
qed

lemma show_nat_head [simp]: "is_digit (hd (show_nat n))"
  using show_nat_digits [of "hd (show_nat n)" n] hd_in_set [of "show_nat n"] by simp

lemma unitMap_chars: "unitMap ''h'' = Some 3600000000000" "unitMap ''m'' = Some 60000000000"
  "unitMap ''s'' = Some 1000000000"
  by (simp_all add: unitMap_def micro_def)

lemmas parse_h = parse_term_whole [OF _ unitMap_chars(1)]
lemmas parse_m = parse_term_whole [OF _ unitMap_chars(2)]
lemmas parse_s = parse_term_whole [OF _ unitMap_chars(3), where rest = "[]"]

definition hms :: "nat \<Rightarrow> string" where
  "hms n = (if n div 60 > 0
     then (if n div 60 div 60 > 0 then show_nat (n div 60 div 60) @ ''h'' else []) @
          show_nat (n div 60 mod 60) @ ''m''
     else []) @ show_nat (n mod 60) @ ''s''"

lemma Duration_String_whole:
  assumes "0 < n"
  shows "Duration_String (int n * Second) = hms n"
proof -
  have "nat \<bar>int n * Second\<bar> = n * 1000000000" by (simp add: Second_def nat_mult_distrib)
  moreover have "\<not> int n * Second < 0" by (simp add: Second_def)
  moreover have "\<not> n * 1000000000 < (1000000000 :: nat)" "n * 1000000000 \<noteq> (0 :: nat)" using assms by auto
  ultimately show ?thesis
    by (simp add: Duration_String_def hms_def fmtFrac_whole Let_def del: div_mult2_eq)
qed

lemma parse_hms:
  assumes "n * 1000000000 \<le> 2 ^ 63"
  shows "parse_terms fmul (hms n) 0 = Inr (n * 1000000000)"
proof -
  define h m s where "h = n div 60 div 60" and "m = n div 60 mod 60" and "s = n mod 60"
  have n: "n = (h * 60 + m) * 60 + s" by (simp add: h_def m_def s_def)
  have b: "m < 60" "s < 60" by (simp_all add: m_def s_def)
  have hb: "h \<le> 2562047" using assms n by simp
  have tot: "h * 3600000000000 + m * 60000000000 + s * 1000000000 = n * 1000000000" by (simp add: n)
  have s: "parse_terms fmul (show_nat s @ ''s'') d = Inr (d + s * 1000000000)"
    if "d + s * 1000000000 \<le> 2 ^ 63" for d
    using parse_s [of s d fmul] b that
    by (simp add: parse_terms.simps [of fmul "[]"])
  have ms: "parse_terms fmul (show_nat m @ CHR ''m'' # (show_nat s @ ''s'')) d =
      Inr (d + m * 60000000000 + s * 1000000000)"
    if "d + m * 60000000000 + s * 1000000000 \<le> 2 ^ 63" for d
    using parse_m [of "show_nat s @ ''s''" m d fmul] s [of "d + m * 60000000000"] b that by simp
  have hs: "parse_terms fmul (show_nat h @ CHR ''h'' # (show_nat m @ CHR ''m'' # (show_nat s @ ''s''))) 0 =
      Inr (h * 3600000000000 + m * 60000000000 + s * 1000000000)"
    using parse_h [of "show_nat m @ CHR ''m'' # (show_nat s @ ''s'')" h 0 fmul]
      ms [of "h * 3600000000000"] hb assms tot
    by simp
  have small: "n = s" if "\<not> n div 60 > 0" using that by (simp add: s_def)
  show ?thesis
  proof (cases "n div 60 > 0")
    case False
    then show ?thesis using s [of 0] small assms by (simp add: hms_def flip: s_def)
  next
    case True
    show ?thesis
    proof (cases "h > 0")
      case hp: True
      then show ?thesis using True hs tot by (simp add: hms_def del: div_mult2_eq flip: s_def m_def h_def)
    next
      case False
      then have "hms n = show_nat m @ CHR ''m'' # (show_nat s @ ''s'')"
        using True by (simp add: hms_def h_def m_def s_def)
      then show ?thesis using False ms [of 0] tot assms by simp
    qed
  qed
qed

lemma digit_char_0: "digit_char 0 = CHR ''0''"
  by code_simp

lemma hms_head: "hms n \<noteq> [] \<and> is_digit (hd (hms n)) \<and> hms n \<noteq> ''0''"
proof -
  have "last (hms n) = CHR ''s''" by (simp add: hms_def)
  then have "hms n \<noteq> ''0''" by auto
  moreover have "is_digit (hd (hms n))"
    by (simp add: hms_def)
  ultimately show ?thesis by (simp add: hms_def)
qed

lemma ParseDuration_String:
  assumes "int n * Second \<le> int64_max"
  shows "ParseDuration fmul (Duration_String (int n * Second)) = Inr (int n * Second)"
proof (cases "n = 0")
  case True
  have "parse_terms fmul ''0s'' 0 = Inr 0"
    using parse_hms [of 0 fmul] by (simp add: hms_def show_nat.simps [of 0] digit_char_0)
  then show ?thesis using True
    by (simp add: Duration_String_def ParseDuration_def int64_max_def)
next
  case False
  have le: "n * 1000000000 \<le> 2 ^ 63"
    using assms by (simp add: Second_def int64_max_def)
  note h = hms_head [of n]
  then have "hd (hms n) \<noteq> CHR ''-''" "hd (hms n) \<noteq> CHR ''+''" by (auto simp: is_digit_def)
  moreover have "Duration_String (int n * Second) = hms n" using False Duration_String_whole by simp
  moreover have "int (n * 1000000000) = int n * Second" by (simp add: Second_def)
  ultimately show ?thesis using h parse_hms [OF le, of fmul] assms
    by (simp add: ParseDuration_def Let_def del: of_nat_mult)
qed

end
