(* ===== verification/Vulnerability_Report.thy ===== *)
theory Vulnerability_Report
  imports Report_Store Kube_Secrets Go_Duration
begin

text \<open>
  Package \<^verbatim>\<open>pkg/vulnerabilityreport\<close>, files \<^verbatim>\<open>io.go\<close>, \<^verbatim>\<open>builder.go\<close>, \<^verbatim>\<open>plugin.go\<close> and
  \<^verbatim>\<open>sort.go\<close>: storing and finding vulnerability reports, building scan jobs and reports, and the
  orders in which reports are shown. A scanner plugin is a record of the functions of the
  \<^verbatim>\<open>Plugin\<close> interface. Two functions of the controller library that compute owner references are
  parameters; each yields the owner references of the object it is applied to and changes nothing
  else of it.
\<close>

section \<open>Storing and finding reports\<close>

definition createOrUpdate :: "'s client \<Rightarrow> Object \<Rightarrow> 's \<Rightarrow> error option \<times> 's" where
  "createOrUpdate c report s = upsert TVulnerabilityReport c (key_of report) report s"

definition Write :: "'s client \<Rightarrow> Object list \<Rightarrow> 's \<Rightarrow> error option \<times> 's" where
  "Write c reports s = for_each (createOrUpdate c) reports s"

definition owner_options :: "env \<Rightarrow> ObjectRef \<Rightarrow> ListOptions" where
  "owner_options E owner =
     \<lparr>lo_Namespace = Some (ref_Namespace owner),
      lo_Reqs = MatchingLabels ref_label_keys (ObjectRefToLabels E owner), lo_Limit = None\<rparr>"

definition FindByOwner :: "env \<Rightarrow> 's client \<Rightarrow> 's \<Rightarrow> ObjectRef \<Rightarrow> error + Object list" where
  "FindByOwner E c s owner = cl_List c s (Some TVulnerabilityReport) (owner_options E owner)"

definition FindByOwnerInHierarchy ::
    "env \<Rightarrow> 's client \<Rightarrow> 's \<Rightarrow> ObjectRef \<Rightarrow> error + Object list" where
  "FindByOwnerInHierarchy E c s owner =
     (case FindByOwner E c s owner of
        Inl e \<Rightarrow> Inl e
      | Inr reports \<Rightarrow>
          if length reports = 0 \<and> (ref_Kind owner = KindDeployment \<or> ref_Kind owner = KindPod) then
            (case RelatedReplicaSetName c s owner of
               Inl e \<Rightarrow> Inl (Wrap ''getting replicaset related to'' e)
             | Inr rsName \<Rightarrow>
                 FindByOwner E c s \<lparr>ref_Kind = KindReplicaSet, ref_Name = rsName,
                                    ref_Namespace = ref_Namespace owner\<rparr>)
          else Inr reports)"

section \<open>Plugins\<close>

record 's Plugin =
  pl_Init :: "PluginContext \<Rightarrow> 's \<Rightarrow> error option \<times> 's"
  pl_GetScanJobSpec :: "PluginContext \<Rightarrow> 's \<Rightarrow> Object \<Rightarrow> Auth gomap \<Rightarrow> error + (PodSpec \<times> Object list)"
  pl_ParseVulnerabilityReportData :: "PluginContext \<Rightarrow> 's \<Rightarrow> string \<Rightarrow> string \<Rightarrow> error + VulnerabilityReportData"

text \<open>Go's types: the second result of \<open>GetScanJobSpec\<close> is a slice of secrets.\<close>

definition plugin_typed :: "'s Plugin \<Rightarrow> bool" where
  "plugin_typed pl \<longleftrightarrow> (\<forall>ctx s obj cr spec secrets.
     pl_GetScanJobSpec pl ctx s obj cr = Inr (spec, secrets) \<longrightarrow> (\<forall>x \<in> set secrets. go_type x = TSecret))"

section \<open>Scan jobs\<close>

record 's ScanJobBuilder =
  sjb_plugin :: "'s Plugin"
  sjb_pluginContext :: PluginContext
  sjb_timeout :: Duration
  sjb_object :: Object
  sjb_credentials :: "Auth gomap"
  sjb_tolerations :: "string list"
  sjb_annotations :: strmap
  sjb_podTemplateLabels :: strmap

definition GetScanJobName :: "env \<Rightarrow> Object \<Rightarrow> string" where
  "GetScanJobName E obj = ''scan-vulnerabilityreport-'' @ ComputeHash E (HObjectRef
     \<lparr>ref_Kind = o_Kind obj, ref_Name = om_Name (o_Meta obj), ref_Namespace = om_Namespace (o_Meta obj)\<rparr>)"

definition RegistryCredentialsSecretName :: "env \<Rightarrow> Object \<Rightarrow> string" where
  "RegistryCredentialsSecretName E obj = GetScanJobName E obj @ ''-regcred''"

definition set_namespace :: "string \<Rightarrow> Object \<Rightarrow> Object" where
  "set_namespace ns x = x\<lparr>o_Meta := (o_Meta x)\<lparr>om_Namespace := ns\<rparr>\<rparr>"

definition updateScanJobForWorkloadNamespace ::
    "'s ScanJobBuilder \<Rightarrow> ObjectMeta \<times> PodSpec \<Rightarrow> PodSpec \<Rightarrow> Object list \<Rightarrow> (ObjectMeta \<times> PodSpec) \<times> Object list" where
  "updateScanJobForWorkloadNamespace b job podspec secrets =
     (let (jobMeta, templateSpec) = job; ns = om_Namespace (o_Meta (sjb_object b))
      in if \<not> VulnerabilityScanJobsInSameNamespace (px_starboardConfig (sjb_pluginContext b))
         then (job, secrets)
         else ((jobMeta\<lparr>om_Namespace := ns\<rparr>,
                templateSpec\<lparr>ps_ServiceAccountName := ps_ServiceAccountName podspec,
                             ps_ImagePullSecrets := ps_ImagePullSecrets podspec\<rparr>),
               map (set_namespace ns) secrets))"

definition scan_job_labels :: "env \<Rightarrow> PluginContext \<Rightarrow> PodSpec \<Rightarrow> strmap" where
  "scan_job_labels E ctx spec =
     [LabelResourceSpecHash \<mapsto> ComputeHash E (HPodSpec spec),
      LabelK8SAppManagedBy \<mapsto> AppStarboard,
      LabelVulnerabilityReportScanner \<mapsto> px_name ctx]"

definition ScanJobBuilder_Get ::
    "env \<Rightarrow> 's ScanJobBuilder \<Rightarrow> 's \<Rightarrow> error + (Object \<times> Object list)" where
  "ScanJobBuilder_Get E b s =
     (case GetPodSpec (sjb_object b) of
        Inl e \<Rightarrow> Inl e
      | Inr spec \<Rightarrow>
          (case pl_GetScanJobSpec (sjb_plugin b) (sjb_pluginContext b) s (sjb_object b) (sjb_credentials b) of
             Inl e \<Rightarrow> Inl e
           | Inr (templateSpec0, secrets0) \<Rightarrow>
               (let templateSpec = templateSpec0\<lparr>ps_Tolerations := ps_Tolerations templateSpec0 @ sjb_tolerations b\<rparr>
                in case AsJSON (GetContainerImagesFromPodSpec spec) of
                     Inl e \<Rightarrow> Inl e
                   | Inr containerImagesAsJSON \<Rightarrow>
                       (let labelsSet = scan_job_labels E (sjb_pluginContext b) spec;
                            podTemplateLabelsSet = labelsSet ++ sjb_podTemplateLabels b;
                            jobMeta0 = empty_meta\<lparr>om_Name := GetScanJobName E (sjb_object b),
                              om_Namespace := px_namespace (sjb_pluginContext b), om_Labels := labelsSet,
                              om_Annotations := [AnnotationContainerImages \<mapsto> containerImagesAsJSON]\<rparr>;
                            secrets1 = map (set_namespace (px_namespace (sjb_pluginContext b))) secrets0;
                            ((jobMeta, tSpec), secrets) =
                              updateScanJobForWorkloadNamespace b (jobMeta0, templateSpec) spec secrets1;
                            templateMeta = empty_meta\<lparr>om_Labels := podTemplateLabelsSet,
                              om_Annotations := sjb_annotations b\<rparr>
                        in Inr (\<lparr>o_Kind = [], o_Meta = ObjectToObjectMeta E (sjb_object b) jobMeta,
                                 o_Body = Job \<lparr>js_BackoffLimit = 0, js_Completions = 1,
                                   js_ActiveDeadlineSeconds = GetActiveDeadlineSeconds (sjb_timeout b),
                                   js_Selector = [],
                                   js_Template = \<lparr>pt_Meta = ObjectToObjectMeta E (sjb_object b) templateMeta,
                                                  pt_Spec = tSpec\<rparr>\<rparr> []\<rparr>, secrets)))))"

section \<open>Reports\<close>

type_synonym owner_setter = "Object \<Rightarrow> ObjectMeta \<Rightarrow> error + OwnerReference list"

record ReportBuilder =
  rb_controller :: Object
  rb_container :: string
  rb_hash :: string
  rb_data :: VulnerabilityReportData
  rb_reportTTL :: "Duration option"

definition reportName :: "env \<Rightarrow> ReportBuilder \<Rightarrow> string" where
  "reportName E b =
     (let kind = o_Kind (rb_controller b);
          name = om_Name (o_Meta (rb_controller b));
          reportName = ToLower kind @ ''-'' @ name @ ''-'' @ rb_container b
      in if valid_label E reportName then reportName
         else ToLower kind @ ''-'' @ ComputeHash E (HString (name @ ''-'' @ rb_container b)))"

definition unblock_owner :: "OwnerReference list \<Rightarrow> OwnerReference list" where
  "unblock_owner refs = (case refs of [] \<Rightarrow> []
     | r # rs \<Rightarrow> r\<lparr>or_BlockOwnerDeletion := Some False\<rparr> # rs)"

definition ReportBuilder_Get ::
    "env \<Rightarrow> owner_setter \<Rightarrow> ReportBuilder \<Rightarrow> error + Object" where
  "ReportBuilder_Get E SetControllerReference b =
     (let labels0 = [LabelContainerName \<mapsto> rb_container b];
          labels = (if rb_hash b \<noteq> [] then labels0(LabelResourceSpecHash \<mapsto> rb_hash b) else labels0);
          meta0 = empty_meta\<lparr>om_Name := reportName E b,
             om_Namespace := om_Namespace (o_Meta (rb_controller b)), om_Labels := labels\<rparr>;
          meta1 = (case rb_reportTTL b of None \<Rightarrow> meta0
             | Some ttl \<Rightarrow> meta0\<lparr>om_Annotations := [TTLReportAnnotation \<mapsto> Duration_String ttl]\<rparr>);
          meta2 = ObjectToObjectMeta E (rb_controller b) meta1
      in case SetControllerReference (rb_controller b) meta2 of
           Inl e \<Rightarrow> Inl (Wrap ''setting controller reference'' e)
         | Inr refs \<Rightarrow>
             Inr \<lparr>o_Kind = [], o_Meta = meta2\<lparr>om_OwnerReferences := unblock_owner refs\<rparr>,
                  o_Body = VulnerabilityReport (rb_data b)\<rparr>)"

section \<open>Orders\<close>

definition severityOrder :: "Severity \<Rightarrow> int option" where
  "severityOrder = [SeverityCritical \<mapsto> 0, SeverityHigh \<mapsto> 1, SeverityMedium \<mapsto> 2,
     SeverityLow \<mapsto> 3, SeverityUnknown \<mapsto> 4]"

text \<open>\<open>BySeverity.Less\<close> on two vulnerabilities; a severity without an entry reads as zero.\<close>

definition severity_rank :: "Severity \<Rightarrow> int" where
  "severity_rank sev = (case severityOrder sev of None \<Rightarrow> 0 | Some n \<Rightarrow> n)"

definition BySeverity_Less :: "Vulnerability \<Rightarrow> Vulnerability \<Rightarrow> bool" where
  "BySeverity_Less v w = (severity_rank (vu_Severity v) < severity_rank (vu_Severity w))"

type_synonym LessFunc = "VulnerabilityReportData \<Rightarrow> VulnerabilityReportData \<Rightarrow> bool"

text \<open>\<open>multiSorter.Less\<close>; the code indexes the last comparison, so the list must not be empty.\<close>

fun multiSorter_Less :: "LessFunc list \<Rightarrow> LessFunc" where
  "multiSorter_Less [] p q = False"
| "multiSorter_Less [lt] p q = lt p q"
| "multiSorter_Less (lt # rest) p q =
     (if lt p q then True else if lt q p then False else multiSorter_Less rest p q)"

definition SummaryCount :: "LessFunc list" where
  "SummaryCount = map (\<lambda>f p q. f (vr_Summary p) < f (vr_Summary q))
     [vs_CriticalCount, vs_HighCount, vs_MediumCount, vs_LowCount, vs_UnknownCount]"

text \<open>
  \<open>SortDesc\<close>: \<open>sort.Stable\<close> of the reversed order. A stable sort is unique, so the result does not
  depend on the algorithm; insertion keeps equal reports in their order.
\<close>

fun insert_stable :: "('a \<Rightarrow> 'a \<Rightarrow> bool) \<Rightarrow> 'a \<Rightarrow> 'a list \<Rightarrow> 'a list" where
  "insert_stable lt x [] = [x]"
| "insert_stable lt x (y # ys) = (if lt y x then y # insert_stable lt x ys else x # y # ys)"

definition sort_Stable :: "('a \<Rightarrow> 'a \<Rightarrow> bool) \<Rightarrow> 'a list \<Rightarrow> 'a list" where
  "sort_Stable lt xs = foldr (insert_stable lt) xs []"

definition SortDesc :: "LessFunc list \<Rightarrow> VulnerabilityReportData list \<Rightarrow> VulnerabilityReportData list" where
  "SortDesc lt reports = sort_Stable (\<lambda>p q. multiSorter_Less lt q p) reports"

section \<open>The writer keeps the contract of a report store\<close>

interpretation vuln_store: report_store TVulnerabilityReport "\<lambda>_. True" createOrUpdate
  by unfold_locales (auto simp: createOrUpdate_def intro: upsert_laws)

section \<open>Lemmas\<close>

lemma owner_options_select:
  "selected (owner_options E owner) x \<longleftrightarrow>
     om_Namespace (o_Meta x) = ref_Namespace owner \<and> ObjectRefToLabels E owner \<subseteq>\<^sub>m om_Labels (o_Meta x)"
  by (simp add: selected_def owner_options_def MatchingLabels_holds [OF dom_ObjectRefToLabels])

text \<open>What a built report carries: its container, its hash and its owner's reference.\<close>

lemma ReportBuilder_Get_meta:
  assumes "ReportBuilder_Get E scr b = Inr x"
  shows "go_type x = TVulnerabilityReport" "o_Body x = VulnerabilityReport (rb_data b)"
    "om_Name (o_Meta x) = reportName E b"
    "om_Namespace (o_Meta x) = om_Namespace (o_Meta (rb_controller b))"
    "om_Labels (o_Meta x) LabelContainerName = Some (rb_container b)"
    "mget (om_Labels (o_Meta x)) LabelResourceSpecHash = rb_hash b"
    "ObjectRefToLabels E (ref_of (rb_controller b)) \<subseteq>\<^sub>m om_Labels (o_Meta x)"
proof -
  have other: "k \<notin> set ref_label_keys" if "k \<in> {LabelContainerName, LabelResourceSpecHash}" for k
    using that by (auto simp: ref_label_keys_def)
  show "go_type x = TVulnerabilityReport" "o_Body x = VulnerabilityReport (rb_data b)"
    "om_Name (o_Meta x) = reportName E b"
    "om_Namespace (o_Meta x) = om_Namespace (o_Meta (rb_controller b))"
    using assms by (auto simp: ReportBuilder_Get_def Let_def split: sum.splits option.splits)
  show "om_Labels (o_Meta x) LabelContainerName = Some (rb_container b)"
    using assms other [of LabelContainerName]
    by (auto simp: ReportBuilder_Get_def Let_def ObjectToObjectMeta_other split: sum.splits option.splits)
  show "mget (om_Labels (o_Meta x)) LabelResourceSpecHash = rb_hash b"
    using assms other [of LabelResourceSpecHash]
    by (auto simp: ReportBuilder_Get_def Let_def ObjectToObjectMeta_other mget_def
        split: sum.splits option.splits if_splits)
  show "ObjectRefToLabels E (ref_of (rb_controller b)) \<subseteq>\<^sub>m om_Labels (o_Meta x)"
    using assms ObjectToObjectMeta_matches
    by (auto simp: ReportBuilder_Get_def Let_def split: sum.splits option.splits)
qed

lemma ReportBuilder_Get_ttl:
  assumes "ReportBuilder_Get E scr b = Inr x" and "rb_reportTTL b = Some ttl"
  shows "om_Annotations (o_Meta x) TTLReportAnnotation = Some (Duration_String ttl)"
  using assms
  by (auto simp: ReportBuilder_Get_def Let_def ObjectToObjectMeta_annotation label_simps split: sum.splits)

lemma scan_job_shape:
  assumes "ScanJobBuilder_Get E b s = Inr (job, secrets)"
  obtains spec ns sp where "GetPodSpec (sjb_object b) = Inr spec"
    "job = \<lparr>o_Kind = [], o_Meta = ObjectToObjectMeta E (sjb_object b)
        (empty_meta\<lparr>om_Name := GetScanJobName E (sjb_object b), om_Namespace := ns,
           om_Labels := scan_job_labels E (sjb_pluginContext b) spec,
           om_Annotations := [AnnotationContainerImages \<mapsto> json_Marshal (GetContainerImagesFromPodSpec spec)]\<rparr>),
        o_Body = Job sp []\<rparr>"
    "ns = (if VulnerabilityScanJobsInSameNamespace (px_starboardConfig (sjb_pluginContext b))
           then om_Namespace (o_Meta (sjb_object b)) else px_namespace (sjb_pluginContext b))"
  using assms
  by (auto simp: ScanJobBuilder_Get_def AsJSON_def updateScanJobForWorkloadNamespace_def Let_def empty_meta_def
      split: sum.splits prod.splits if_splits)

text \<open>The job carries the labels it was built with; the reference adds only its own four keys.\<close>

lemma scan_job_label:
  assumes "ScanJobBuilder_Get E b s = Inr (job, secrets)" and "GetPodSpec (sjb_object b) = Inr spec"
  shows "om_Labels (o_Meta job) LabelResourceSpecHash = Some (ComputeHash E (HPodSpec spec))"
    "om_Labels (o_Meta job) LabelK8SAppManagedBy = Some AppStarboard"
    "om_Labels (o_Meta job) LabelVulnerabilityReportScanner = Some (px_name (sjb_pluginContext b))"
    "go_type job = TJob" "om_Name (o_Meta job) = GetScanJobName E (sjb_object b)"
proof -
  have "LabelResourceSpecHash \<notin> set ref_label_keys" "LabelK8SAppManagedBy \<notin> set ref_label_keys"
    "LabelVulnerabilityReportScanner \<notin> set ref_label_keys"
    by (auto simp: ref_label_keys_def)
  then show "om_Labels (o_Meta job) LabelResourceSpecHash = Some (ComputeHash E (HPodSpec spec))"
    "om_Labels (o_Meta job) LabelK8SAppManagedBy = Some AppStarboard"
    "om_Labels (o_Meta job) LabelVulnerabilityReportScanner = Some (px_name (sjb_pluginContext b))"
    "go_type job = TJob" "om_Name (o_Meta job) = GetScanJobName E (sjb_object b)"
    using assms by (auto elim!: scan_job_shape simp: ObjectToObjectMeta_other scan_job_labels_def)
qed

lemma insert_stable_mset: "mset (insert_stable lt x ys) = add_mset x (mset ys)"
  by (induction ys) auto

lemma sort_Stable_mset: "mset (sort_Stable lt xs) = mset xs"
  by (induction xs) (simp_all add: sort_Stable_def insert_stable_mset)


text \<open>The order of the summary counts, as one comparison of the five counts.\<close>

definition counts :: "VulnerabilityReportData \<Rightarrow> int list" where
  "counts p = map (\<lambda>f. f (vr_Summary p))
     [vs_CriticalCount, vs_HighCount, vs_MediumCount, vs_LowCount, vs_UnknownCount]"

lemma multiSorter_Less_counts: "multiSorter_Less SummaryCount p q \<longleftrightarrow> counts p < counts q"
  by (auto simp: SummaryCount_def counts_def)

lemma neg_counts_less: "map uminus (counts p) < map uminus (counts q) \<longleftrightarrow> counts q < counts p"
  by (simp add: counts_def) linarith

lemma insert_stable_insort:
  assumes "\<And>x y. lt y x \<longleftrightarrow> f y < (f x :: 'b :: linorder)"
  shows "insert_stable lt x ys = insort_key f x ys"
  by (induction ys) (auto simp: assms not_less)

text \<open>The stable sort is the library's sort by the negated counts.\<close>

lemma SortDesc_sort_key: "SortDesc SummaryCount reports = sort_key (\<lambda>p. map uminus (counts p)) reports"
proof -
  have "insert_stable (\<lambda>p q. multiSorter_Less SummaryCount q p) = insort_key (\<lambda>p. map uminus (counts p))"
    by (intro ext insert_stable_insort) (simp add: multiSorter_Less_counts neg_counts_less)
  then show ?thesis by (simp add: SortDesc_def sort_Stable_def sort_key_def)
qed

lemma neg_counts_eq: "map uminus (counts p) = map uminus k \<longleftrightarrow> counts p = k"
  by (simp add: inj_map_eq_map)

text \<open>The metadata of a built job gives back the reference, the images and the hash.\<close>

lemma scan_job_metadata:
  assumes "ScanJobBuilder_Get E b s = Inr (job, secrets)" and "GetPodSpec (sjb_object b) = Inr spec"
  shows "ObjectRefFromObjectMeta (o_Meta job) = Inr (ref_of (sjb_object b)) \<and>
    (\<exists>images. GetContainerImagesFromJob job = Inr images \<and> distinct (map fst images) \<and>
       map_of images = map_of (GetContainerImagesFromPodSpec spec)) \<and>
    om_Labels (o_Meta job) LabelResourceSpecHash = Some (ComputeHash E (HPodSpec spec))"
proof -
  let ?im = "GetContainerImagesFromPodSpec spec"
  obtain ns sp where job: "job = \<lparr>o_Kind = [], o_Meta = ObjectToObjectMeta E (sjb_object b)
        (empty_meta\<lparr>om_Name := GetScanJobName E (sjb_object b), om_Namespace := ns,
           om_Labels := scan_job_labels E (sjb_pluginContext b) spec,
           om_Annotations := [AnnotationContainerImages \<mapsto> json_Marshal ?im]\<rparr>),
        o_Body = Job sp []\<rparr>"
    using assms by (auto elim: scan_job_shape)
  have "scan_job_labels E (sjb_pluginContext b) spec LabelResourceName = None"
    by (simp add: scan_job_labels_def label_simps)
  then have ref: "ObjectRefFromObjectMeta (o_Meta job) = Inr (ref_of (sjb_object b))"
    using ObjectRef_roundtrip by (simp add: job)
  have "om_Annotations (o_Meta job) AnnotationContainerImages = Some (json_Marshal ?im)"
    by (simp add: job ObjectToObjectMeta_annotation label_simps)
  then have im: "GetContainerImagesFromJob job = Inr (sort_key fst ?im)"
    using json_roundtrip [OF GetContainerImages_distinct, of spec]
    by (simp add: GetContainerImagesFromJob_def FromJSON_def)
  have "distinct (map fst (sort_key fst ?im))" "map_of (sort_key fst ?im) = map_of ?im"
    using GetContainerImages_distinct by (auto simp: distinct_sort_keys map_of_sort_key)
  with ref im scan_job_label(1) [OF assms] show ?thesis by blast
qed

section \<open>Properties\<close>

text \<open>
  C14. A finished scan job tells the operator everything it needs to store the results: from the
  metadata of the job that was built for a workload, the handlers recover exactly the workload's
  reference (for names too long for a label as well), the containers with their images, and the
  hash of the scanned pod specification.
\<close>

theorem scan_job_metadata_roundtrip:
  assumes "ScanJobBuilder_Get E b s = Inr (job, secrets)" and "GetPodSpec (sjb_object b) = Inr spec"
  shows "ObjectRefFromObjectMeta (o_Meta job) = Inr (ref_of (sjb_object b)) \<and>
    (\<exists>images. GetContainerImagesFromJob job = Inr images \<and> distinct (map fst images) \<and>
       map_of images = map_of (GetContainerImagesFromPodSpec spec)) \<and>
    om_Labels (o_Meta job) LabelResourceSpecHash = Some (ComputeHash E (HPodSpec spec))"
  using assms by (rule scan_job_metadata)

definition sample_context :: PluginContext where
  "sample_context = \<lparr>px_name = ''Trivy'', px_namespace = ''starboard'',
     px_serviceAccountName = ''starboard-operator'', px_starboardConfig = Map.empty\<rparr>"

definition sample_data :: VulnerabilityReportData where
  "sample_data = \<lparr>vr_UpdateTimestamp = 0,
     vr_Scanner = \<lparr>sc_Name = ''Trivy'', sc_Vendor = [], sc_Version = []\<rparr>, vr_Registry = \<lparr>rg_Server = []\<rparr>,
     vr_Artifact = \<lparr>af_Repository = [], af_Digest = [], af_Tag = [], af_MimeType = []\<rparr>,
     vr_Summary = \<lparr>vs_CriticalCount = 1, vs_HighCount = 0, vs_MediumCount = 0, vs_LowCount = 0,
       vs_UnknownCount = 0, vs_NoneCount = 0\<rparr>, vr_Vulnerabilities = []\<rparr>"

definition sample_plugin :: "'s Plugin" where
  "sample_plugin = \<lparr>pl_Init = (\<lambda>_ s. (None, s)),
     pl_GetScanJobSpec = (\<lambda>_ _ _ _. Inr (empty_PodSpec, [])),
     pl_ParseVulnerabilityReportData = (\<lambda>_ _ _ _. Inr sample_data)\<rparr>"

definition sample_builder :: "'s ScanJobBuilder" where
  "sample_builder = \<lparr>sjb_plugin = sample_plugin, sjb_pluginContext = sample_context,
     sjb_timeout = 300 * Second, sjb_object = sample_pod, sjb_credentials = [], sjb_tolerations = [],
     sjb_annotations = Map.empty, sjb_podTemplateLabels = Map.empty\<rparr>"

theorem scan_job_metadata_roundtrip_witness:
  "\<exists>job secrets. ScanJobBuilder_Get sample_env sample_builder () = Inr (job, secrets) \<and>
     ObjectRefFromObjectMeta (o_Meta job) = Inr \<lparr>ref_Kind = ''Pod'', ref_Name = ''web'', ref_Namespace = ''prod''\<rparr>"
proof -
  have spec: "GetPodSpec (sjb_object sample_builder) = Inr sample_podspec"
    by (simp add: sample_builder_def sample_pod_def GetPodSpec_def)
  then obtain job secrets where j: "ScanJobBuilder_Get sample_env sample_builder () = Inr (job, secrets)"
    by (cases "ScanJobBuilder_Get sample_env sample_builder ()")
       (auto simp: ScanJobBuilder_Get_def AsJSON_def sample_builder_def sample_plugin_def Let_def
         split: prod.splits)
  with scan_job_metadata_roundtrip [OF j spec] show ?thesis
    by (auto simp: sample_builder_def sample_pod_def ref_of_def kube_simps)
qed

text \<open>A stored report of an owner is among those that a search for the owner finds.\<close>

lemma stored_report_found:
  assumes "api_laws c" and "ReportBuilder_Get E scr b = Inr x" and "cl_Get c s TVulnerabilityReport (key_of x) = Inr y" and "stores y x"
    and "FindByOwner E c s (ref_of (rb_controller b)) = Inr found"
  shows "y \<in> set found" "key_of y = key_of x"
proof -
  note m = ReportBuilder_Get_meta [OF assms(2)]
  show key: "key_of y = key_of x" using get_typed [OF assms(1,3)] by simp
  then have "om_Namespace (o_Meta y) = om_Namespace (o_Meta (rb_controller b))" using m(4) by (simp add: key_of_def)
  then have "selected (owner_options E (ref_of (rb_controller b))) y"
    using assms(4) m(7) by (simp add: owner_options_select stores_def ref_of_def)
  then show "y \<in> set found"
    using list_all_objects(1) [OF assms(1) assms(5) [unfolded FindByOwner_def]] assms(3) by (auto simp: owner_options_def)
qed

text \<open>
  C13. Reports are found by their owner: after the reports built for the containers of one
  controller have been written, a search for that controller's reference returns for each of them
  an object with its labels and its contents, provided the reports have different names.
\<close>

theorem written_reports_found_by_owner:
  assumes "api_laws c" and "Write c reports s = (None, s')"
    and "\<forall>x \<in> set reports. \<exists>b. ReportBuilder_Get E scr b = Inr x \<and> rb_controller b = owner"
    and "distinct (map key_of reports)"
    and "FindByOwner E c s' (ref_of owner) = Inr found" and "x \<in> set reports"
  shows "\<exists>y \<in> set found. stores y x \<and> key_of y = key_of x"
proof -
  obtain b where b: "ReportBuilder_Get E scr b = Inr x" "rb_controller b = owner" using assms(3,6) by blast
  have typed: "\<forall>x \<in> set reports. go_type x = TVulnerabilityReport \<and> True" using assms(3) ReportBuilder_Get_meta(1) by blast
  obtain y where y: "cl_Get c s' TVulnerabilityReport (key_of x) = Inr y" "stores y x"
    using vuln_store.write_all_stored [OF assms(1) typed assms(4) assms(2) [unfolded Write_def] assms(6)] by blast
  with stored_report_found [OF assms(1) b(1) y] assms(5) b(2) show ?thesis by blast
qed

definition sample_report_builder :: ReportBuilder where
  "sample_report_builder = \<lparr>rb_controller = sample_pod, rb_container = ''nginx'', rb_hash = ''abc'',
     rb_data = sample_data, rb_reportTTL = None\<rparr>"

theorem written_reports_found_by_owner_witness:
  "\<exists>x s' found. ReportBuilder_Get sample_env (\<lambda>_ _. Inr []) sample_report_builder = Inr x \<and>
     Write mem_client [x] [] = (None, s') \<and>
     FindByOwner sample_env mem_client s' (ref_of sample_pod) = Inr found \<and>
     (\<exists>y \<in> set found. o_Body y = VulnerabilityReport sample_data)"
proof -
  obtain x where x: "ReportBuilder_Get sample_env (\<lambda>_ _. Inr []) sample_report_builder = Inr x"
    by (simp add: ReportBuilder_Get_def sample_report_builder_def Let_def)
  have w: "Write mem_client [x] [] = (None, [x])"
    by (simp add: Write_def createOrUpdate_def upsert_def mem_Get_def mem_Create_def)
  obtain found where f: "FindByOwner sample_env mem_client [x] (ref_of sample_pod) = Inr found"
    by (simp add: FindByOwner_def mem_List_def Let_def)
  have "\<exists>y \<in> set found. stores y x \<and> key_of y = key_of x"
    by (rule written_reports_found_by_owner [OF mem_laws w _ _ f, where x = x and scr = "\<lambda>_ _. Inr []"])
       (use x in \<open>auto simp: sample_report_builder_def intro!: exI [of _ sample_report_builder]\<close>)
  moreover have "o_Body x = VulnerabilityReport sample_data"
    using ReportBuilder_Get_meta(2) [OF x] by (simp add: sample_report_builder_def)
  ultimately show ?thesis using x w f by (auto simp: stores_def)
qed

text \<open>
  Reports are listed from the most to the least severe: sorting by the summary counts yields
  a permutation of the reports in descending order of critical, then high, medium, low and unknown
  counts, and reports with equal counts keep their order.
\<close>

lemma SortDesc_descending_stable:
  "mset (SortDesc SummaryCount reports) = mset reports \<and>
   sorted_wrt (\<lambda>p q. counts q \<le> counts p) (SortDesc SummaryCount reports) \<and>
   filter (\<lambda>p. counts p = k) (SortDesc SummaryCount reports) = filter (\<lambda>p. counts p = k) reports"
proof -
  have "sorted (map (\<lambda>p. map uminus (counts p)) (SortDesc SummaryCount reports))"
    by (simp add: SortDesc_sort_key)
  then have "sorted_wrt (\<lambda>p q. counts q \<le> counts p) (SortDesc SummaryCount reports)"
    by (simp add: sorted_wrt_map neg_counts_less flip: not_less)
  moreover have "filter (\<lambda>p. counts p = k) (SortDesc SummaryCount reports) = filter (\<lambda>p. counts p = k) reports"
    using sort_key_stable [of "\<lambda>p. map uminus (counts p)" "map uminus k" reports]
    by (simp add: SortDesc_sort_key neg_counts_eq)
  ultimately show ?thesis by (simp add: SortDesc_sort_key)
qed

text \<open>
  The order of vulnerabilities by severity has no place for the severity \<open>NONE\<close>: it reads as
  the rank of \<open>CRITICAL\<close>, so a vulnerability of severity \<open>NONE\<close> sorts before every high one.
\<close>

lemma severity_none_ranks_as_critical:
  "severity_rank SeverityNone = severity_rank SeverityCritical \<and>
   BySeverity_Less (v\<lparr>vu_Severity := SeverityNone\<rparr>) (w\<lparr>vu_Severity := SeverityHigh\<rparr>)"
  by (simp add: severity_rank_def severityOrder_def BySeverity_Less_def sev_simps)

text \<open>
  C27. Report names identify an owner and a container only up to where a hyphen falls: a controller
  named \<open>n-x\<close> with a container \<open>y\<close> and one named \<open>n\<close> with a container \<open>x-y\<close>, of the same kind, get
  the same report name, whether or not the name is short enough to be used as it is. In one
  namespace the second report then overwrites the first.
\<close>

theorem report_names_collide:
  assumes "o_Kind (rb_controller b1) = o_Kind (rb_controller b2)"
    and "om_Name (o_Meta (rb_controller b1)) = n @ ''-'' @ x" and "rb_container b1 = y"
    and "om_Name (o_Meta (rb_controller b2)) = n" and "rb_container b2 = x @ ''-'' @ y"
  shows "reportName E b1 = reportName E b2"
  using assms by (simp add: reportName_def Let_def)

theorem report_names_collide_witness:
  "reportName sample_env (sample_report_builder\<lparr>rb_controller := sample_pod\<lparr>o_Meta := empty_meta\<lparr>om_Name := ''web-api''\<rparr>\<rparr>,
       rb_container := ''log''\<rparr>) =
   reportName sample_env (sample_report_builder\<lparr>rb_container := ''api-log''\<rparr>)"
  by (rule report_names_collide [where n = "''web''" and x = "''api''" and y = "''log''"])
     (simp_all add: sample_report_builder_def sample_pod_def)

end
