(* ===== verification/Go_Match.thy ===== *)
theory Go_Match
  imports Go_Lib
begin

text \<open>
  Go's \<^verbatim>\<open>path/filepath.Match\<close>, with which the operator excludes namespaces by shell patterns:
  a star matches any sequence of characters other than the separator, a question mark one such
  character, brackets a class, a backslash quotes the next character. The matcher works chunk
  by chunk, a chunk being a pattern without stars, as the library does. Characters are bytes.
\<close>

definition Separator :: char where "Separator = CHR ''/''"
definition backslash :: char where "backslash = CHR 0x5C"

definition ErrBadPattern :: error where "ErrBadPattern = Errorf ''syntax error in pattern''"

text \<open>\<open>getEsc\<close>: a possibly escaped character of a class; the class must go on after it.\<close>

definition getEsc :: "string \<Rightarrow> error + (char \<times> string)" where
  "getEsc chunk =
     (case chunk of
        [] \<Rightarrow> Inl ErrBadPattern
      | c # rest \<Rightarrow>
          if c = CHR ''-'' \<or> c = CHR '']'' then Inl ErrBadPattern
          else (case (if c = backslash then rest else chunk) of
                  [] \<Rightarrow> Inl ErrBadPattern
                | r # nchunk \<Rightarrow> if nchunk = [] then Inl ErrBadPattern else Inr (r, nchunk)))"

lemma getEsc_length [termination_simp]: "getEsc chunk = Inr (r, chunk') \<Longrightarrow> length chunk' < length chunk"
  by (auto simp: getEsc_def split: list.splits if_splits)

text \<open>The ranges of a class up to the closing bracket: whether one of them holds the character.\<close>

function match_ranges :: "char \<Rightarrow> bool \<Rightarrow> bool \<Rightarrow> string \<Rightarrow> error + (bool \<times> string)" where
  "match_ranges r match first chunk =
     (if \<not> first \<and> chunk \<noteq> [] \<and> hd chunk = CHR '']'' then Inr (match, tl chunk)
      else (case getEsc chunk of
              Inl e \<Rightarrow> Inl e
            | Inr (lo, chunk1) \<Rightarrow>
                (case (if hd chunk1 = CHR ''-'' then getEsc (tl chunk1) else Inr (lo, chunk1)) of
                   Inl e \<Rightarrow> Inl e
                 | Inr (hi, chunk2) \<Rightarrow>
                     match_ranges r (match \<or> (of_char lo \<le> (of_char r :: nat) \<and> (of_char r :: nat) \<le> of_char hi))
                       False chunk2)))"
  by pat_completeness auto
termination
proof (relation "measure (\<lambda>(_, _, _, chunk). length chunk)", goal_cases)
  case (2 r match first chunk a lo chunk1 b hi chunk2)
  then have "length chunk1 < length chunk"
    using getEsc_length [of chunk lo chunk1] by simp
  moreover have "length chunk2 \<le> length chunk1"
  proof (cases "hd chunk1 = CHR ''-''")
    case True
    with 2 have "getEsc (tl chunk1) = Inr (hi, chunk2)" by simp
    from getEsc_length [OF this] show ?thesis by simp
  next
    case False
    with 2 show ?thesis by auto
  qed
  ultimately show ?case by simp
qed simp

declare match_ranges.simps [simp del]

lemma match_ranges_length: "match_ranges r m f chunk = Inr (b, rest) \<Longrightarrow> length rest < length chunk"
proof (induction r m f chunk rule: match_ranges.induct)
  case (1 r m f chunk)
  show ?case
  proof (cases "\<not> f \<and> chunk \<noteq> [] \<and> hd chunk = CHR '']''")
    case True
    then show ?thesis using 1(2) by (cases chunk) (auto simp: match_ranges.simps [of r m False])
  next
    case False
    with 1(2) obtain lo chunk1 where lo: "getEsc chunk = Inr (lo, chunk1)"
      by (auto simp: match_ranges.simps [of r m f chunk] split: sum.splits)
    with False 1(2) obtain hi chunk2 where
      hi: "(if hd chunk1 = CHR ''-'' then getEsc (tl chunk1) else Inr (lo, chunk1)) = Inr (hi, chunk2)"
      and rec: "match_ranges r (m \<or> (of_char lo \<le> (of_char r :: nat) \<and> (of_char r :: nat) \<le> of_char hi))
         False chunk2 = Inr (b, rest)"
      by (auto simp: match_ranges.simps [of r m f chunk] split: sum.splits)
    have "length rest < length chunk2"
      using 1(1) [OF False lo refl hi refl rec] .
    moreover have "length chunk2 \<le> length chunk1"
      using hi getEsc_length [of "tl chunk1" hi chunk2] by (auto split: if_splits)
    ultimately show ?thesis using getEsc_length [OF lo] by simp
  qed
qed

text \<open>
  \<open>matchChunk\<close>: the rest of the name when the chunk matches a prefix of it. After a mismatch
  the loop goes on reading the chunk, to report a malformed one (\<open>None\<close> is the failed state).
\<close>

function matchChunk :: "string \<Rightarrow> string option \<Rightarrow> error + string option" where
  "matchChunk [] s = Inr s"
| "matchChunk (c # chunk) s =
     (let s' = (if s = Some [] then None else s) in
      if c = CHR ''['' then
        (let negated = (chunk \<noteq> [] \<and> hd chunk = CHR ''^'');
             chunk1 = (if negated then tl chunk else chunk)
         in case match_ranges (case s' of Some (r # _) \<Rightarrow> r | _ \<Rightarrow> CHR 0x00) False True chunk1 of
              Inl e \<Rightarrow> Inl e
            | Inr (match, chunk2) \<Rightarrow>
                matchChunk chunk2 (if match = negated then None else map_option tl s'))
      else if c = CHR ''?'' then
        matchChunk chunk (case s' of None \<Rightarrow> None
                          | Some n \<Rightarrow> if hd n = Separator then None else Some (tl n))
      else if c = backslash then
        (case chunk of
           [] \<Rightarrow> Inl ErrBadPattern
         | d # chunk1 \<Rightarrow>
             matchChunk chunk1 (case s' of None \<Rightarrow> None
                                | Some n \<Rightarrow> if d \<noteq> hd n then None else Some (tl n)))
      else matchChunk chunk (case s' of None \<Rightarrow> None
                             | Some n \<Rightarrow> if c \<noteq> hd n then None else Some (tl n)))"
  by pat_completeness auto
termination
proof (relation "measure (\<lambda>(chunk, _). length chunk)", goal_cases)
  case (2 c chunk s s' negated chunk1 y match chunk2)
  then have "length chunk2 < length chunk1"
    by (auto dest: match_ranges_length)
  moreover have "length chunk1 \<le> length chunk" using 2 by auto
  ultimately show ?case by simp
qed auto

text \<open>\<open>scanChunk\<close>: leading stars, then everything up to the next star outside a class.\<close>

fun scan :: "bool \<Rightarrow> string \<Rightarrow> string \<times> string" where
  "scan inrange [] = ([], [])"
| "scan inrange (c # p) =
     (if c = backslash then
        (case p of [] \<Rightarrow> ([c], [])
         | d # p' \<Rightarrow> (let (chunk, rest) = scan inrange p' in (c # d # chunk, rest)))
      else if c = CHR ''*'' \<and> \<not> inrange then ([], c # p)
      else (let inrange' = (if c = CHR ''['' then True else if c = CHR '']'' then False else inrange);
                (chunk, rest) = scan inrange' p in (c # chunk, rest)))"

definition scanChunk :: "string \<Rightarrow> bool \<times> string \<times> string" where
  "scanChunk pattern =
     (let p = dropWhile (\<lambda>c. c = CHR ''*'') pattern;
          (chunk, rest) = scan False p
      in (pattern \<noteq> p, chunk, rest))"

lemma scan_append: "scan b p = (chunk, rest) \<Longrightarrow> p = chunk @ rest"
  by (induction b p arbitrary: chunk rest rule: scan.induct)
     (auto simp: Let_def split: if_splits prod.splits list.splits)

lemma scan_Nil: "scan False p = ([], rest) \<Longrightarrow> p = [] \<or> hd p = CHR ''*''"
  by (cases p) (auto simp: Let_def split: if_splits prod.splits list.splits)

lemma dropWhile_neq_length: "p \<noteq> dropWhile P p \<Longrightarrow> length (dropWhile P p) < length p"
  by (cases p) (auto simp: le_imp_less_Suc length_dropWhile_le split: if_splits)

lemma scanChunk_length:
  assumes "scanChunk p = (star, chunk, rest)" and "p \<noteq> []"
  shows "length rest < length p"
proof -
  let ?d = "dropWhile (\<lambda>c. c = CHR ''*'') p"
  from assms obtain sc: "scan False ?d = (chunk, rest)"
    by (auto simp: scanChunk_def Let_def split: prod.splits)
  from scan_append [OF sc] have le: "length rest \<le> length ?d" by simp
  show ?thesis
  proof (cases "p = ?d")
    case False
    from dropWhile_neq_length [OF this] le show ?thesis by simp
  next
    case True
    have "hd ?d \<noteq> CHR ''*''" using hd_dropWhile [of "\<lambda>c. c = CHR ''*''" p] True assms(2) by argo
    moreover have "?d \<noteq> []" using True assms(2) by argo
    ultimately have "chunk \<noteq> []" using sc scan_Nil [of ?d] by blast
    moreover have "p = chunk @ rest" using scan_append [OF sc] True by metis
    ultimately show ?thesis by simp
  qed
qed

text \<open>The search of \<open>Match\<close> for a later position of a chunk after a star.\<close>

fun skip_match :: "string \<Rightarrow> bool \<Rightarrow> string \<Rightarrow> error + string option" where
  "skip_match chunk islast [] = Inr None"
| "skip_match chunk islast (c # name) =
     (if c = Separator then Inr None
      else (case matchChunk chunk (Some name) of
              Inl e \<Rightarrow> Inl e
            | Inr (Some t) \<Rightarrow> if islast \<and> t \<noteq> [] then skip_match chunk islast name else Inr (Some t)
            | Inr None \<Rightarrow> skip_match chunk islast name))"

text \<open>The syntax of the remaining pattern is still checked when the name does not match.\<close>

function check_rest :: "string \<Rightarrow> error + bool" where
  "check_rest pattern =
     (if pattern = [] then Inr False
      else (let (_, chunk, rest) = scanChunk pattern
            in case matchChunk chunk (Some []) of Inl e \<Rightarrow> Inl e | Inr _ \<Rightarrow> check_rest rest))"
  by pat_completeness auto
termination
  by (relation "measure length") (auto dest: scanChunk_length [OF sym])

function Match :: "string \<Rightarrow> string \<Rightarrow> error + bool" where
  "Match pattern name =
     (if pattern = [] then Inr (name = [])
      else (let (star, chunk, rest) = scanChunk pattern
            in if star \<and> chunk = [] then Inr (Separator \<notin> set name)
               else (case matchChunk chunk (Some name) of
                       Inl e \<Rightarrow> Inl e
                     | Inr r \<Rightarrow>
                         (case r of
                            Some t \<Rightarrow>
                              if t = [] \<or> rest \<noteq> [] then Match rest t
                              else if star
                                then (case skip_match chunk True name of
                                        Inl e \<Rightarrow> Inl e
                                      | Inr (Some t') \<Rightarrow> Match rest t'
                                      | Inr None \<Rightarrow> check_rest rest)
                                else check_rest rest
                          | None \<Rightarrow>
                              if star
                                then (case skip_match chunk (rest = []) name of
                                        Inl e \<Rightarrow> Inl e
                                      | Inr (Some t') \<Rightarrow> Match rest t'
                                      | Inr None \<Rightarrow> check_rest rest)
                                else check_rest rest))))"
  by pat_completeness auto
termination
  by (relation "measure (\<lambda>(p, _). length p)") (auto dest: scanChunk_length [OF sym])

declare matchChunk.simps [simp del] check_rest.simps [simp del] Match.simps [simp del]

section \<open>Patterns without wildcards, and prefixes\<close>

definition special :: "char \<Rightarrow> bool" where
  "special c \<longleftrightarrow> c \<in> {CHR ''*'', CHR ''?'', CHR ''['', backslash}"

definition literal :: "string \<Rightarrow> bool" where
  "literal p \<longleftrightarrow> list_all (\<lambda>c. \<not> special c) p"

lemma scan_literal: "literal p \<Longrightarrow> \<not> b \<Longrightarrow> scan b (p @ q) = (case scan b q of (ch, r) \<Rightarrow> (p @ ch, r))"
  by (induction p arbitrary: b) (auto simp: literal_def special_def Let_def split: prod.splits)

lemma matchChunk_literal:
  "literal p \<Longrightarrow> matchChunk p (Some name) =
     Inr (if take (length p) name = p then Some (drop (length p) name) else None)"
proof -
  have none: "literal p \<Longrightarrow> matchChunk p None = Inr None" for p
    by (induction p) (auto simp: matchChunk.simps literal_def special_def Let_def)
  show "literal p \<Longrightarrow> ?thesis"
  proof (induction p arbitrary: name)
    case (Cons c p)
    then have "literal p" by (simp add: literal_def)
    with Cons none show ?case
      by (cases name) (auto simp: matchChunk.simps literal_def special_def Let_def)
  qed (simp add: matchChunk.simps)
qed

lemma dropWhile_star_literal: "literal p \<Longrightarrow> dropWhile (\<lambda>c. c = CHR ''*'') p = p"
  by (cases p) (auto simp: literal_def special_def)

text \<open>A pattern without special characters matches exactly itself.\<close>

lemma Match_literal: "literal p \<Longrightarrow> Match p name = Inr (p = name)"
  using scan_literal [of p False "[]"]
  by (auto simp: Match.simps [of p name] scanChunk_def Let_def dropWhile_star_literal
      matchChunk_literal Match.simps [of "[]"] check_rest.simps [of "[]"])

text \<open>A literal followed by one star matches the names with that prefix.\<close>

lemma Match_prefix:
  assumes "literal p" and "p \<noteq> []"
  shows "Match (p @ ''*'') name =
     Inr (HasPrefix name p \<and> Separator \<notin> set (drop (length p) name))"
proof -
  have dw: "dropWhile (\<lambda>c. c = CHR ''*'') (p @ ''*'') = p @ ''*''"
    using assms by (cases p) (auto simp: literal_def special_def)
  have sc: "scanChunk (p @ ''*'') = (False, p, ''*'')"
    using scan_literal [OF assms(1), of False "''*''"] dw
    by (auto simp: scanChunk_def Let_def backslash_def)
  have star: "scanChunk ''*'' = (True, [], [])" by (simp add: scanChunk_def)
  show ?thesis
    by (simp add: Match.simps [of "p @ ''*''"] sc matchChunk_literal [OF assms(1)]
        Match.simps [of "''*''"] star check_rest.simps [of "''*''"] check_rest.simps [of "[]"]
        matchChunk.simps HasPrefix_def)
qed

end
