(* ===== verification/Operator_Config.thy ===== *)
theory Operator_Config
  imports Go_Match Starboard_Config
begin

text \<open>
  The operator's configuration (\<^verbatim>\<open>pkg/operator/etc/config.go\<close>), the predicates that decide which
  events reach a controller (\<^verbatim>\<open>pkg/operator/predicate/predicate.go\<close>) and the small helpers of
  \<^verbatim>\<open>pkg/ext\<close>. The environment parser (caarlos0/env) is a parameter: the configuration it fills
  in and its error.
\<close>

section \<open>Helpers of package ext\<close>

fun SliceContainsString_loop :: "string list \<Rightarrow> string \<Rightarrow> bool \<Rightarrow> bool" where
  "SliceContainsString_loop [] v ex = ex"
| "SliceContainsString_loop (x # xs) v ex = SliceContainsString_loop xs v (if x = v then True else ex)"

definition SliceContainsString :: "string list \<Rightarrow> string \<Rightarrow> bool" where
  "SliceContainsString xs v = SliceContainsString_loop xs v False"

definition MinInt :: "int \<Rightarrow> int \<Rightarrow> int" where
  "MinInt a b = (if a < b then a else b)"

text \<open>
  \<open>simpleIDGenerator\<close>: a 64-bit counter that an atomic addition advances; the identifier shows
  the new value with at least twelve digits.
\<close>

record simpleIDGenerator =
  leastSigBits :: "64 word"

definition GenerateID :: "simpleIDGenerator \<Rightarrow> string \<times> simpleIDGenerator" where
  "GenerateID g =
     (let n = leastSigBits g + 1
      in (''00000000-0000-0000-0000-'' @ show_pad 12 (unat n), g\<lparr>leastSigBits := n\<rparr>))"

fun GenerateIDs :: "nat \<Rightarrow> simpleIDGenerator \<Rightarrow> string list" where
  "GenerateIDs 0 g = []"
| "GenerateIDs (Suc k) g = (let (x, g') = GenerateID g in x # GenerateIDs k g')"

section \<open>Configuration\<close>

record Config =
  cfg_Namespace :: string
  cfg_TargetNamespaces :: string
  cfg_ExcludeNamespaces :: string
  cfg_ServiceAccount :: string
  cfg_LogDevMode :: bool
  cfg_ScanJobTimeout :: Duration
  cfg_ConcurrentScanJobsLimit :: int
  cfg_ScanJobRetryAfter :: Duration
  cfg_BatchDeleteLimit :: int
  cfg_BatchDeleteDelay :: Duration
  cfg_MetricsBindAddress :: string
  cfg_HealthProbeBindAddress :: string
  cfg_CISKubernetesBenchmarkEnabled :: bool
  cfg_VulnerabilityScannerEnabled :: bool
  cfg_VulnerabilityScannerScanOnlyCurrentRevisions :: bool
  cfg_VulnerabilityScannerReportTTL :: "Duration option"
  cfg_ClusterComplianceEnabled :: bool
  cfg_ConfigAuditScannerEnabled :: bool
  cfg_ConfigAuditScannerBuiltIn :: bool
  cfg_LeaderElectionEnabled :: bool
  cfg_LeaderElectionID :: string

text \<open>The defaults that the struct tags declare.\<close>

definition default_Config :: Config where
  "default_Config = \<lparr>cfg_Namespace = [], cfg_TargetNamespaces = [], cfg_ExcludeNamespaces = [],
     cfg_ServiceAccount = ''starboard-operator'', cfg_LogDevMode = False,
     cfg_ScanJobTimeout = 300 * Second, cfg_ConcurrentScanJobsLimit = 10,
     cfg_ScanJobRetryAfter = 30 * Second, cfg_BatchDeleteLimit = 10,
     cfg_BatchDeleteDelay = 10 * Second, cfg_MetricsBindAddress = '':8080'',
     cfg_HealthProbeBindAddress = '':9090'', cfg_CISKubernetesBenchmarkEnabled = True,
     cfg_VulnerabilityScannerEnabled = True,
     cfg_VulnerabilityScannerScanOnlyCurrentRevisions = False,
     cfg_VulnerabilityScannerReportTTL = None, cfg_ClusterComplianceEnabled = True,
     cfg_ConfigAuditScannerEnabled = False, cfg_ConfigAuditScannerBuiltIn = True,
     cfg_LeaderElectionEnabled = False, cfg_LeaderElectionID = ''starboard-lock''\<rparr>"

text \<open>\<open>GetOperatorConfig\<close> returns the configuration together with the parser's error.\<close>

definition GetOperatorConfig :: "Config \<times> error option \<Rightarrow> Config option \<times> error option" where
  "GetOperatorConfig parsed =
     (let (config, err) = parsed
      in if cfg_ConfigAuditScannerEnabled config \<and> cfg_ConfigAuditScannerBuiltIn config
         then (None, Some (Errorf ''plugin-based and built-in configuration audit scanners cannot be enabled at the same time''))
         else (Some config, err))"

definition GetOperatorNamespace :: "Config \<Rightarrow> error + string" where
  "GetOperatorNamespace c =
     (if cfg_Namespace c \<noteq> [] then Inr (cfg_Namespace c)
      else Inl (Errorf ''OPERATOR_NAMESPACE must be set''))"

definition GetTargetNamespaces :: "Config \<Rightarrow> string list" where
  "GetTargetNamespaces c =
     (if cfg_TargetNamespaces c \<noteq> [] then Split (CHR '','') (cfg_TargetNamespaces c) else [])"

datatype InstallMode = OwnNamespace | SingleNamespace | MultiNamespace | AllNamespaces

definition ResolveInstallMode :: "Config \<Rightarrow> error + (InstallMode \<times> string \<times> string list)" where
  "ResolveInstallMode c =
     (case GetOperatorNamespace c of
        Inl e \<Rightarrow> Inl e
      | Inr operatorNamespace \<Rightarrow>
          (let targetNamespaces = GetTargetNamespaces c
           in if length targetNamespaces = 1 \<and> operatorNamespace = targetNamespaces ! 0
                then Inr (OwnNamespace, operatorNamespace, targetNamespaces)
              else if length targetNamespaces = 1 \<and> operatorNamespace \<noteq> targetNamespaces ! 0
                then Inr (SingleNamespace, operatorNamespace, targetNamespaces)
              else if length targetNamespaces > 1
                then Inr (MultiNamespace, operatorNamespace, targetNamespaces)
              else Inr (AllNamespaces, operatorNamespace, targetNamespaces)))"

section \<open>Event predicates\<close>

text \<open>
  The events of the controller library; \<open>NewPredicateFuncs\<close> applies a filter to the object of
  the event, the new one for an update.
\<close>

datatype event = CreateEvent Object | UpdateEvent Object Object | DeleteEvent Object | GenericEvent Object

type_synonym Predicate = "event \<Rightarrow> bool"

fun event_object :: "event \<Rightarrow> Object" where
  "event_object (CreateEvent x) = x"
| "event_object (UpdateEvent _ x) = x"
| "event_object (DeleteEvent x) = x"
| "event_object (GenericEvent x) = x"

definition NewPredicateFuncs :: "(Object \<Rightarrow> bool) \<Rightarrow> Predicate" where
  "NewPredicateFuncs f e = f (event_object e)"

fun excluded_loop :: "string list \<Rightarrow> string \<Rightarrow> bool" where
  "excluded_loop [] ns = True"
| "excluded_loop (p # ps) ns =
     (case Match (TrimSpace p) ns of
        Inl _ \<Rightarrow> True
      | Inr matches \<Rightarrow> if matches then False else excluded_loop ps ns)"

definition install_mode_filter :: "Config \<Rightarrow> InstallMode \<times> string \<times> string list \<Rightarrow> Object \<Rightarrow> bool" where
  "install_mode_filter config resolved obj =
     (let (mode, operatorNamespace, targetNamespaces) = resolved;
          ns = om_Namespace (o_Meta obj)
      in if mode = SingleNamespace then targetNamespaces ! 0 = ns \<and> operatorNamespace \<noteq> ns
         else if mode = MultiNamespace then SliceContainsString targetNamespaces ns
         else if mode = AllNamespaces \<and> TrimSpace (cfg_ExcludeNamespaces config) \<noteq> []
           then excluded_loop (Split (CHR '','') (cfg_ExcludeNamespaces config)) ns
         else True)"

definition InstallModePredicate :: "Config \<Rightarrow> error + Predicate" where
  "InstallModePredicate config =
     (case ResolveInstallMode config of
        Inl e \<Rightarrow> Inl e
      | Inr resolved \<Rightarrow> Inr (NewPredicateFuncs (install_mode_filter config resolved)))"

definition HasName :: "string \<Rightarrow> Predicate" where
  "HasName name = NewPredicateFuncs (\<lambda>obj. name = om_Name (o_Meta obj))"

definition InNamespace :: "string \<Rightarrow> Predicate" where
  "InNamespace namespace = NewPredicateFuncs (\<lambda>obj. namespace = om_Namespace (o_Meta obj))"

definition ManagedByStarboardOperator :: Predicate where
  "ManagedByStarboardOperator = NewPredicateFuncs (\<lambda>obj.
     case om_Labels (o_Meta obj) LabelK8SAppManagedBy of
       Some managedBy \<Rightarrow> managedBy = AppStarboard | None \<Rightarrow> False)"

definition IsBeingTerminated :: Predicate where
  "IsBeingTerminated = NewPredicateFuncs (\<lambda>obj. om_DeletionTimestamp (o_Meta obj) \<noteq> None)"

definition JobHasAnyCondition :: Predicate where
  "JobHasAnyCondition = NewPredicateFuncs (\<lambda>obj.
     case o_Body obj of Job _ conds \<Rightarrow> length conds > 0 | _ \<Rightarrow> False)"

definition has_label :: "string \<Rightarrow> Object \<Rightarrow> bool" where
  "has_label k obj = (case om_Labels (o_Meta obj) k of Some _ \<Rightarrow> True | None \<Rightarrow> False)"

definition IsVulnerabilityReportScan :: Predicate where
  "IsVulnerabilityReportScan = NewPredicateFuncs (has_label LabelVulnerabilityReportScanner)"

definition IsConfigAuditReportScan :: Predicate where
  "IsConfigAuditReportScan = NewPredicateFuncs (has_label LabelConfigAuditReportScanner)"

definition IsKubeBenchReportScan :: Predicate where
  "IsKubeBenchReportScan = NewPredicateFuncs (has_label LabelKubeBenchReportScanner)"

definition LabelOSStable :: string where "LabelOSStable = ''kubernetes.io/os''"

definition IsLinuxNode :: Predicate where
  "IsLinuxNode = NewPredicateFuncs (\<lambda>obj.
     case om_Labels (o_Meta obj) LabelOSStable of Some v \<Rightarrow> v = ''linux'' | None \<Rightarrow> False)"

definition LeaderElectionRecordAnnotationKey :: string where
  "LeaderElectionRecordAnnotationKey = ''control-plane.alpha.kubernetes.io/leader''"

definition IsLeaderElectionResource :: Predicate where
  "IsLeaderElectionResource = NewPredicateFuncs (\<lambda>obj.
     case om_Annotations (o_Meta obj) LeaderElectionRecordAnnotationKey of Some _ \<Rightarrow> True | None \<Rightarrow> False)"

definition Not_pred :: "Predicate \<Rightarrow> Predicate" where
  "Not_pred p = (\<lambda>e. \<not> p e)"

text \<open>A list of predicates on one watch passes an event that all of them pass.\<close>

definition all_predicates :: "Predicate list \<Rightarrow> Predicate" where
  "all_predicates ps e = list_all (\<lambda>p. p e) ps"

section \<open>Lemmas\<close>

lemma SliceContainsString_loop_iff: "SliceContainsString_loop xs v ex \<longleftrightarrow> ex \<or> v \<in> set xs"
  by (induction xs arbitrary: ex) auto

lemma SliceContainsString_iff: "SliceContainsString xs v \<longleftrightarrow> v \<in> set xs"
  by (simp add: SliceContainsString_def SliceContainsString_loop_iff)

lemma GenerateIDs_nth:
  "j < k \<Longrightarrow> GenerateIDs k g ! j =
     ''00000000-0000-0000-0000-'' @ show_pad 12 (unat (leastSigBits g + of_nat (Suc j)))"
proof (induction k arbitrary: g j)
  case (Suc k)
  then show ?case
    by (cases j) (simp_all add: GenerateID_def Let_def algebra_simps)
qed simp

lemma length_GenerateIDs [simp]: "length (GenerateIDs k g) = k"
  by (induction k arbitrary: g) (auto simp: GenerateID_def Let_def)

lemma of_nat_word_inj: "i < 2 ^ 64 \<Longrightarrow> j < 2 ^ 64 \<Longrightarrow> (of_nat i :: 64 word) = of_nat j \<Longrightarrow> i = j"
  by (drule arg_cong [where f = unat]) (simp add: unat_of_nat)

lemma excluded_loop_literal:
  assumes "\<forall>p \<in> set ps. literal (TrimSpace p)"
  shows "excluded_loop ps ns \<longleftrightarrow> ns \<notin> TrimSpace ` set ps"
  using assms by (induction ps) (auto simp: Match_literal)

lemma ResolveInstallMode_cases:
  assumes "ResolveInstallMode c = Inr (mode, opns, targets)"
  shows "opns = cfg_Namespace c" "targets = GetTargetNamespaces c" "opns \<noteq> []"
    "mode = OwnNamespace \<longleftrightarrow> targets = [opns]"
    "mode = SingleNamespace \<longleftrightarrow> (\<exists>t. targets = [t] \<and> t \<noteq> opns)"
    "mode = MultiNamespace \<longleftrightarrow> length targets > 1"
    "mode = AllNamespaces \<longleftrightarrow> targets = []"
  using assms
  by (cases "GetTargetNamespaces c"; cases "tl (GetTargetNamespaces c)";
      auto simp: ResolveInstallMode_def GetOperatorNamespace_def Let_def split: if_splits)+

section \<open>Properties\<close>

text \<open>
  The operator selects exactly the objects of its install mode. In the modes with target
  namespaces an object is selected if and only if its namespace is a target (in the own-namespace
  mode the watch itself is restricted to that namespace and the filter passes everything); in
  the all-namespaces mode, with an exclusion list of literal names, an object is selected if
  and only if its namespace is not listed, whatever blanks surround the listed names.
\<close>

lemma install_mode_selects:
  assumes "ResolveInstallMode config = Inr (mode, opns, targets)"
    and "InstallModePredicate config = Inr p"
    and "\<forall>q \<in> set (Split (CHR '','') (cfg_ExcludeNamespaces config)). literal (TrimSpace q)"
  shows "p e \<longleftrightarrow>
    (let ns = om_Namespace (o_Meta (event_object e)) in
     case mode of
       OwnNamespace \<Rightarrow> True
     | SingleNamespace \<Rightarrow> ns \<in> set targets
     | MultiNamespace \<Rightarrow> ns \<in> set targets
     | AllNamespaces \<Rightarrow> TrimSpace (cfg_ExcludeNamespaces config) = [] \<or>
         ns \<notin> TrimSpace ` set (Split (CHR '','') (cfg_ExcludeNamespaces config)))"
proof -
  note rc = ResolveInstallMode_cases [OF assms(1)]
  have p: "p = NewPredicateFuncs (install_mode_filter config (mode, opns, targets))"
    using assms(1,2) by (simp add: InstallModePredicate_def)
  show ?thesis
    using rc(5) excluded_loop_literal [OF assms(3)]
    by (cases mode) (auto simp: p NewPredicateFuncs_def install_mode_filter_def Let_def
        SliceContainsString_iff)
qed

definition sample_config :: Config where
  "sample_config = default_Config\<lparr>cfg_Namespace := ''starboard'',
     cfg_ExcludeNamespaces := ''kube-system, dev''\<rparr>"

text \<open>
  The identifiers of the simple generator do not repeat within a run: the first \<open>k\<close> of them
  are distinct for every \<open>k\<close> up to \<open>2 ^ 64\<close>, from any starting value of the counter, wrap-around
  included. (The identifiers keep growing past twelve digits; they do not roll over at
  999999999999.)
\<close>

lemma simple_ids_distinct:
  assumes "k \<le> 2 ^ 64"
  shows "distinct (GenerateIDs k g)"
proof (rule distinct_conv_nth [THEN iffD2], intro allI impI)
  fix i j
  assume ij: "i < length (GenerateIDs k g)" "j < length (GenerateIDs k g)" "i \<noteq> j"
  show "GenerateIDs k g ! i \<noteq> GenerateIDs k g ! j"
  proof
    assume "GenerateIDs k g ! i = GenerateIDs k g ! j"
    then have "show_pad 12 (unat (leastSigBits g + of_nat (Suc i))) =
        show_pad 12 (unat (leastSigBits g + of_nat (Suc j)))"
      using ij by (simp add: GenerateIDs_nth del: of_nat_Suc)
    then have "leastSigBits g + of_nat (Suc i) = leastSigBits g + of_nat (Suc j)"
      by (metis show_pad_inj word_unat_eq_iff)
    then have "(of_nat i :: 64 word) = of_nat j" by simp
    then show False using of_nat_word_inj [of i j] ij assms by simp
  qed
qed

end
