(* ===== verification/Report_Ttl.thy ===== *)
theory Report_Ttl
  imports Go_Duration Operator_Config
begin

text \<open>
  Three small parts of the operator: the date helpers (\<^verbatim>\<open>pkg/utils/dateutil.go\<close>), the controller
  that removes vulnerability reports whose time-to-live has passed
  (\<^verbatim>\<open>pkg/operator/controller/ttl_report.go\<close>) and the check of the number of concurrent scan jobs
  (\<^verbatim>\<open>pkg/operator/controller/limit_checker.go\<close>). The clock is the current time as an argument; a
  parsed cron expression (gorhill/cronexpr) is a parameter that maps a time to the next activation.
\<close>

section \<open>Reconciliation results\<close>

record Result =
  RequeueAfter :: Duration

definition no_requeue :: Result where "no_requeue = \<lparr>RequeueAfter = 0\<rparr>"

text \<open>\<open>return ctrl.Result{}, err\<close>.\<close>

definition finish :: "error option \<times> 's \<Rightarrow> (error + Result) \<times> 's" where
  "finish r = (case r of (Some e, s) \<Rightarrow> (Inl e, s) | (None, s) \<Rightarrow> (Inr no_requeue, s))"

section \<open>Dates\<close>

definition timeToExpiration :: "Time \<Rightarrow> Time \<Rightarrow> Duration" where
  "timeToExpiration expiresAt now = Time_Sub expiresAt now"

definition DurationExceeded :: "Duration \<Rightarrow> bool" where
  "DurationExceeded duration = (duration \<le> 0)"

definition NextCronDuration ::
    "(string \<Rightarrow> error + (Time \<Rightarrow> Time)) \<Rightarrow> string \<Rightarrow> Time \<Rightarrow> Time \<Rightarrow> error + Duration" where
  "NextCronDuration cron_Parse cronString creationTime now =
     (case cron_Parse cronString of
        Inl e \<Rightarrow> Inl e
      | Inr nxt \<Rightarrow> Inr (timeToExpiration (nxt creationTime) now))"

definition IsTTLExpired :: "Duration \<Rightarrow> Time \<Rightarrow> Time \<Rightarrow> bool \<times> Duration" where
  "IsTTLExpired ttl creationTime now =
     (let durationToTTLExpiration = timeToExpiration (Time_Add creationTime ttl) now
      in (DurationExceeded durationToTTLExpiration, durationToTTLExpiration))"

section \<open>Removing expired reports\<close>

fun report_UpdateTimestamp :: "Body \<Rightarrow> Time" where
  "report_UpdateTimestamp (VulnerabilityReport d) = vr_UpdateTimestamp d"
| "report_UpdateTimestamp _ = 0"

definition reconcileReport ::
    "'s client \<Rightarrow> (nat \<Rightarrow> nat \<Rightarrow> nat \<Rightarrow> nat) \<Rightarrow> Time \<Rightarrow> ObjectKey \<Rightarrow> 's \<Rightarrow> (error + Result) \<times> 's" where
  "reconcileReport c fmul now req s =
     (case cl_Get c s TVulnerabilityReport req of
        Inl err \<Rightarrow>
          if IsNotFound err then (Inr no_requeue, s)
          else (Inl (Wrap ''getting report from cache'' err), s)
      | Inr report \<Rightarrow>
          (case om_Annotations (o_Meta report) TTLReportAnnotation of
             None \<Rightarrow> (Inr no_requeue, s)
           | Some ttlReportAnnotationStr \<Rightarrow>
               (case ParseDuration fmul ttlReportAnnotationStr of
                  Inl err \<Rightarrow> (Inl (Wrap ''failed parsing'' err), s)
                | Inr reportTTLTime \<Rightarrow>
                    (let (ttlExpired, durationToTTLExpiration) =
                           IsTTLExpired reportTTLTime (report_UpdateTimestamp (o_Body report)) now
                     in if ttlExpired then finish (ignore_err IsNotFound (cl_Delete c s report))
                        else (Inr \<lparr>RequeueAfter = durationToTTLExpiration\<rparr>, s)))))"

section \<open>Limiting concurrent scan jobs\<close>

definition scan_jobs_options :: "Config \<Rightarrow> ConfigData \<Rightarrow> ListOptions" where
  "scan_jobs_options config starboardConfig =
     \<lparr>lo_Namespace = (if VulnerabilityScanJobsInSameNamespace starboardConfig then None
                      else Some (cfg_Namespace config)),
      lo_Reqs = [ReqEq LabelK8SAppManagedBy AppStarboard], lo_Limit = None\<rparr>"

definition countScanJobs :: "'s client \<Rightarrow> Config \<Rightarrow> ConfigData \<Rightarrow> 's \<Rightarrow> error + int" where
  "countScanJobs c config starboardConfig s =
     (case cl_List c s (Some TJob) (scan_jobs_options config starboardConfig) of
        Inl e \<Rightarrow> Inl e
      | Inr scanJobs \<Rightarrow> Inr (int (length scanJobs)))"

definition LimitChecker_Check :: "'s client \<Rightarrow> Config \<Rightarrow> ConfigData \<Rightarrow> 's \<Rightarrow> error + (bool \<times> int)" where
  "LimitChecker_Check c config starboardConfig s =
     (case countScanJobs c config starboardConfig s of
        Inl e \<Rightarrow> Inl e
      | Inr scanJobsCount \<Rightarrow> Inr (scanJobsCount \<ge> cfg_ConcurrentScanJobsLimit config, scanJobsCount))"

text \<open>The jobs that count against the limit, by their keys.\<close>

definition scan_job_keys :: "'s client \<Rightarrow> Config \<Rightarrow> ConfigData \<Rightarrow> 's \<Rightarrow> ObjectKey set" where
  "scan_job_keys c config sc s =
     {k. \<exists>x. cl_Get c s TJob k = Inr x \<and> selected (scan_jobs_options config sc) x}"

section \<open>Lemmas\<close>

lemma finish_simps [simp]: "finish (None, s) = (Inr no_requeue, s)" "finish (Some e, s) = (Inl e, s)"
  by (simp_all add: finish_def)

lemma snd_finish [simp]: "snd (finish r) = snd r"
  by (auto simp: finish_def split: prod.splits option.splits)

lemma IsTTLExpired_iff: "fst (IsTTLExpired ttl t now) \<longleftrightarrow> t + ttl \<le> now"
  by (simp add: IsTTLExpired_def timeToExpiration_def DurationExceeded_def Time_Add_def)

lemma IsTTLExpired_snd: "snd (IsTTLExpired ttl t now) = Time_Sub (t + ttl) now"
  by (simp add: IsTTLExpired_def timeToExpiration_def Time_Add_def Let_def)

lemma list_length_card:
  assumes "api_laws c" and "cl_List c s (Some t) opts = Inr xs" and "lo_Limit opts = None"
  shows "length xs = card {k. \<exists>x. cl_Get c s t k = Inr x \<and> selected opts x}"
proof -
  note l = list_all_objects [OF assms]
  have "key_of ` set xs = {k. \<exists>x. cl_Get c s t k = Inr x \<and> selected opts x}"
    using l(1) get_typed [OF assms(1)] by force
  then show ?thesis using l(2) by (metis distinct_card length_map set_map)
qed

text \<open>An unexpired report that is looked at again after the delay has expired.\<close>

lemma requeue_reaches_expiry:
  assumes "\<not> fst (IsTTLExpired ttl t now)" and "\<bar>t + ttl - now\<bar> \<le> int64_max"
  shows "fst (IsTTLExpired ttl t (now + snd (IsTTLExpired ttl t now)))"
  using assms
  by (simp add: IsTTLExpired_iff IsTTLExpired_snd Time_Sub_exact)

lemma limit_check:
  assumes "api_laws c" and "LimitChecker_Check c config sc s = Inr (exceeded, n)"
  shows "n = int (card (scan_job_keys c config sc s)) \<and>
    (exceeded \<longleftrightarrow> cfg_ConcurrentScanJobsLimit config \<le> int (card (scan_job_keys c config sc s)))"
proof -
  obtain xs where xs: "cl_List c s (Some TJob) (scan_jobs_options config sc) = Inr xs"
    and n: "n = int (length xs)" "exceeded = (cfg_ConcurrentScanJobsLimit config \<le> int (length xs))"
    using assms(2) by (auto simp: LimitChecker_Check_def countScanJobs_def split: sum.splits)
  have "length xs = card (scan_job_keys c config sc s)"
    using list_length_card [OF assms(1) xs] by (simp add: scan_job_keys_def scan_jobs_options_def)
  with n show ?thesis by simp
qed

section \<open>Properties\<close>

text \<open>
  C16. A vulnerability report written with a time-to-live of \<open>n\<close> whole seconds (the annotation
  holds the duration's string) is removed at the first reconciliation at or after its update
  time plus \<open>n\<close> seconds: the call then succeeds, the report is gone and no other object has
  changed. Before that moment nothing changes and the controller asks to be called again after a
  positive delay, at whose end (within the range of the duration type) the report has expired.
\<close>

theorem ttl_report_removed_when_due:
  assumes "api_laws c" and "int n * Second \<le> int64_max"
    and "cl_Get c s TVulnerabilityReport req = Inr report"
    and "om_Annotations (o_Meta report) TTLReportAnnotation = Some (Duration_String (int n * Second))"
    and "cl_Delete c s report = (None, s')"
  shows "let due = report_UpdateTimestamp (o_Body report) + int n * Second in
    if due \<le> now then
      reconcileReport c fmul now req s = (Inr no_requeue, s') \<and>
      cl_Get c s' TVulnerabilityReport req = Inl NotFound \<and>
      only_changes c s s' TVulnerabilityReport req
    else \<exists>d. reconcileReport c fmul now req s = (Inr \<lparr>RequeueAfter = d\<rparr>, s) \<and> 0 < d \<and>
      (due - now \<le> int64_max \<longrightarrow> due \<le> now + d)"
proof -
  let ?t = "report_UpdateTimestamp (o_Body report)"
  have parse: "ParseDuration fmul (Duration_String (int n * Second)) = Inr (int n * Second)"
    using assms(2) by (rule ParseDuration_String)
  have typed: "go_type report = TVulnerabilityReport" "key_of report = req"
    using get_typed [OF assms(1,3)] by simp_all
  have step: "reconcileReport c fmul now req s =
      (if ?t + int n * Second \<le> now then (Inr no_requeue, s')
       else (Inr \<lparr>RequeueAfter = snd (IsTTLExpired (int n * Second) ?t now)\<rparr>, s))"
    using IsTTLExpired_iff [of "int n * Second" ?t now] assms(5)
    by (auto simp: reconcileReport_def assms(3,4) parse split: prod.splits)
  have pos: "0 < snd (IsTTLExpired (int n * Second) ?t now)" if "\<not> ?t + int n * Second \<le> now"
    using that by (simp add: IsTTLExpired_snd flip: not_le)
  show ?thesis
    using step pos delete_ok [OF assms(1,5)] typed
      requeue_reaches_expiry [of "int n * Second" ?t now]
    by (simp add: Let_def IsTTLExpired_iff)
qed

definition sample_report :: "Time \<Rightarrow> strmap \<Rightarrow> Object" where
  "sample_report t anns = \<lparr>o_Kind = ''VulnerabilityReport'',
     o_Meta = empty_meta\<lparr>om_Name := ''pod-web-nginx'', om_Namespace := ''prod'', om_Annotations := anns\<rparr>,
     o_Body = VulnerabilityReport \<lparr>vr_UpdateTimestamp = t,
       vr_Scanner = \<lparr>sc_Name = ''Trivy'', sc_Vendor = [], sc_Version = []\<rparr>,
       vr_Registry = \<lparr>rg_Server = []\<rparr>,
       vr_Artifact = \<lparr>af_Repository = [], af_Digest = [], af_Tag = [], af_MimeType = []\<rparr>,
       vr_Summary = \<lparr>vs_CriticalCount = 0, vs_HighCount = 0, vs_MediumCount = 0, vs_LowCount = 0,
         vs_UnknownCount = 0, vs_NoneCount = 0\<rparr>, vr_Vulnerabilities = []\<rparr>\<rparr>"

definition sample_key :: ObjectKey where
  "sample_key = \<lparr>key_Namespace = ''prod'', key_Name = ''pod-web-nginx''\<rparr>"

theorem ttl_report_removed_when_due_witness:
  "fst (reconcileReport mem_client (\<lambda>_ _ _. 0) (3600 * Second) sample_key
     [sample_report 0 [TTLReportAnnotation \<mapsto> Duration_String (int 3600 * Second)]]) = Inr no_requeue"
proof -
  let ?r = "sample_report 0 [TTLReportAnnotation \<mapsto> Duration_String (int 3600 * Second)]"
  have k: "go_type ?r = TVulnerabilityReport" "key_of ?r = sample_key"
    by (simp_all add: sample_report_def sample_key_def key_of_def)
  have g: "cl_Get mem_client [?r] TVulnerabilityReport sample_key = Inr ?r"
    using k by (simp add: mem_Get_def)
  have d: "cl_Delete mem_client [?r] ?r = (None, [])"
    by (simp add: mem_Delete_def mem_remove_def)
  have "om_Annotations (o_Meta ?r) TTLReportAnnotation = Some (Duration_String (int 3600 * Second))"
    by (simp add: sample_report_def)
  from ttl_report_removed_when_due [OF mem_laws _ g this d, of "3600 * Second" "\<lambda>_ _ _. 0"]
  show ?thesis by (simp add: int64_max_def Second_def sample_report_def)
qed

text \<open>
  The limit check counts exactly the jobs that carry the starboard label in the operator's
  namespace (in every namespace when scan jobs run beside their workloads), and reports the limit
  as reached if and only if there are at least as many of them as the configured limit.
\<close>

lemma limit_check_counts:
  assumes "api_laws c" and "LimitChecker_Check c config sc s = Inr (exceeded, n)"
  shows "n = int (card (scan_job_keys c config sc s)) \<and>
    (exceeded \<longleftrightarrow> cfg_ConcurrentScanJobsLimit config \<le> int (card (scan_job_keys c config sc s)))"
  using assms by (rule limit_check)

definition sample_scan_job :: Object where
  "sample_scan_job = \<lparr>o_Kind = KindJob,
     o_Meta = empty_meta\<lparr>om_Name := ''scan-vulnerabilityreport-1'',
       om_Labels := [LabelK8SAppManagedBy \<mapsto> AppStarboard]\<rparr>,
     o_Body = Job empty_JobSpec []\<rparr>"

end
