(* ===== verification/Scan_Jobs.thy ===== *)
theory Scan_Jobs
  imports Vulnerability_Report Report_Ttl
begin

text \<open>
  The life of a scan job, as the three controllers that run scans share it (vulnerabilities,
  plugin-based configuration audit, CIS benchmark): it is created with its secrets, finished jobs are
  handed to a handler by their first condition, and a processed job is deleted. The locale
  \<open>scan_scheduler\<close> states what a reconciler that submits jobs promises, \<open>job_processor\<close> what a
  reconciler of finished jobs promises; both are about the number of scan jobs in the cluster.
\<close>

section \<open>Creating a job\<close>

text \<open>Creating the secrets; \<open>Inl None\<close> is the early return when a secret already exists.\<close>

fun create_secrets ::
    "string \<Rightarrow> 's client \<Rightarrow> Object list \<Rightarrow> 's \<Rightarrow> (error option + Object list) \<times> 's" where
  "create_secrets msg c [] s = (Inr [], s)"
| "create_secrets msg c (secret # secrets) s =
     (case cl_Create c s secret of
        (Inl err, s1) \<Rightarrow>
          (Inl (if IsAlreadyExists err then None
                else Some (Wrap msg err)), s1)
      | (Inr x, s1) \<Rightarrow>
          (case create_secrets msg c secrets s1 of
             (Inl e, s2) \<Rightarrow> (Inl e, s2)
           | (Inr xs, s2) \<Rightarrow> (Inr (x # xs), s2)))"

text \<open>Making the created job the owner of a secret.\<close>

definition own_secret ::
    "string \<Rightarrow> 's client \<Rightarrow> owner_setter \<Rightarrow> Object \<Rightarrow> Object \<Rightarrow> 's \<Rightarrow> error option \<times> 's" where
  "own_secret msg c SetOwnerReference scanJob secret s =
     (case SetOwnerReference scanJob (o_Meta secret) of
        Inl e \<Rightarrow> (Some (Wrap ''setting owner reference'' e), s)
      | Inr refs \<Rightarrow>
          wrap_err msg (cl_Update c s (secret\<lparr>o_Meta := (o_Meta secret)\<lparr>om_OwnerReferences := refs\<rparr>\<rparr>)))"

text \<open>The secrets, then the job, then the owner of the secrets; the three messages are those of the failing step.\<close>

definition create_scan_job ::
    "string \<times> string \<times> string \<Rightarrow> 's client \<Rightarrow> owner_setter \<Rightarrow> Object \<Rightarrow> Object list \<Rightarrow> 's \<Rightarrow> error option \<times> 's" where
  "create_scan_job msgs c SetOwnerReference scanJob secrets s =
     (let (secretMsg, jobMsg, ownerMsg) = msgs in
      case create_secrets secretMsg c secrets s of
        (Inl res, s1) \<Rightarrow> (res, s1)
      | (Inr created, s1) \<Rightarrow>
          (case cl_Create c s1 scanJob of
             (Inl err, s2) \<Rightarrow> (if IsAlreadyExists err then None else Some (Wrap jobMsg err), s2)
           | (Inr job, s2) \<Rightarrow> for_each (own_secret ownerMsg c SetOwnerReference job) created s2))"

section \<open>Handling a finished job\<close>

definition deleteJob :: "'s client \<Rightarrow> Object \<Rightarrow> 's \<Rightarrow> error option \<times> 's" where
  "deleteJob c job s =
     (case cl_Delete c s job of
        (Some err, s1) \<Rightarrow> if IsNotFound err then (None, s1) else (Some (Wrap ''deleting job'' err), s1)
      | (None, s1) \<Rightarrow> (None, s1))"

text \<open>The common body of the three reconcilers of jobs: the first condition decides.\<close>

definition dispatch_job ::
    "string \<Rightarrow> 's client \<Rightarrow> (Object \<Rightarrow> 's \<Rightarrow> error option \<times> 's) \<Rightarrow> (Object \<Rightarrow> 's \<Rightarrow> error option \<times> 's) \<Rightarrow>
      ObjectKey \<Rightarrow> 's \<Rightarrow> (error + Result) \<times> 's" where
  "dispatch_job msg c complete failed req s =
     (case cl_Get c s TJob req of
        Inl err \<Rightarrow>
          if IsNotFound err then (Inr no_requeue, s)
          else (Inl (Wrap ''getting job from cache'' err), s)
      | Inr job \<Rightarrow>
          (case job_conditions (o_Body job) of
             [] \<Rightarrow> (Inr no_requeue, s)
           | jobCondition # _ \<Rightarrow>
               finish (case jobCondition of
                         JobComplete \<Rightarrow> complete job s
                       | JobFailed \<Rightarrow> failed job s
                       | JobOther t \<Rightarrow> (Some (Errorf (msg @ t)), s))))"

section \<open>Scheduling a job\<close>

text \<open>
  A reconciler that schedules scans first reads: it either answers at once or decides to scan an object
  (\<open>Inr\<close>). Then it submits the scan job of that object. Between the two, controllers of other kinds run.
\<close>

type_synonym decision = "(error + Result) + Object"

definition decide_then :: "decision \<Rightarrow> (Object \<Rightarrow> 's \<Rightarrow> error option \<times> 's) \<Rightarrow> 's \<Rightarrow> (error + Result) \<times> 's" where
  "decide_then d submit s = (case d of Inl res \<Rightarrow> (res, s) | Inr obj \<Rightarrow> finish (submit obj s))"

section \<open>The contracts\<close>

locale scan_scheduler =
  fixes ok :: "'r \<Rightarrow> bool"
    and the_client :: "'r \<Rightarrow> 's client"
    and config :: "'r \<Rightarrow> Config"
    and data :: "'r \<Rightarrow> ConfigData"
    and decide :: "'r \<Rightarrow> 'q \<Rightarrow> 's \<Rightarrow> decision"
    and submit :: "'r \<Rightarrow> Object \<Rightarrow> 's \<Rightarrow> error option \<times> 's"
  assumes laws: "ok r \<Longrightarrow> api_laws (the_client r)"
    and below_limit: "ok r \<Longrightarrow> decide r q s = Inr obj \<Longrightarrow>
      \<exists>n. LimitChecker_Check (the_client r) (config r) (data r) s = Inr (False, n)"
    and one_job: "ok r \<Longrightarrow> submit r obj s = (err, s') \<Longrightarrow>
      \<exists>k0. \<forall>t k. t \<noteq> TSecret \<longrightarrow> (t, k) \<noteq> (TJob, k0) \<longrightarrow>
        cl_Get (the_client r) s' t k = cl_Get (the_client r) s t k"
begin

text \<open>When a scan is decided, the scan jobs are fewer than the limit.\<close>

lemma decided_below:
  assumes "ok r" and "decide r q s = Inr obj"
  shows "int (card (scan_job_keys (the_client r) (config r) (data r) s)) < cfg_ConcurrentScanJobsLimit (config r)"
  using below_limit [OF assms] limit_check [OF laws [OF assms(1)]] by fastforce

text \<open>Submitting adds at most one scan job.\<close>

lemma submit_adds_key:
  assumes "ok r" and "submit r obj s = (err, s')"
  shows "\<exists>k. scan_job_keys (the_client r) (config r) (data r) s' \<subseteq> insert k (scan_job_keys (the_client r) (config r) (data r) s)"
proof -
  obtain k0 where "\<And>t k. t \<noteq> TSecret \<Longrightarrow> (t, k) \<noteq> (TJob, k0) \<Longrightarrow> cl_Get (the_client r) s' t k = cl_Get (the_client r) s t k"
    using one_job [OF assms] by blast
  then show ?thesis by (intro exI [of _ k0]) (auto simp: scan_job_keys_def)
qed

lemma submit_adds_one:
  assumes "ok r" and "submit r obj s = (err, s')"
    and fin: "finite (scan_job_keys (the_client r) (config r) (data r) s)"
  shows "finite (scan_job_keys (the_client r) (config r) (data r) s')"
    "card (scan_job_keys (the_client r) (config r) (data r) s') \<le>
      Suc (card (scan_job_keys (the_client r) (config r) (data r) s))"
proof -
  let ?K = "scan_job_keys (the_client r) (config r) (data r)"
  obtain k where sub: "?K s' \<subseteq> insert k (?K s)" using submit_adds_key [OF assms(1,2)] by blast
  then show "finite (?K s')" using fin by (auto intro: finite_subset)
  have "card (?K s') \<le> card (insert k (?K s))" using sub fin by (intro card_mono) auto
  also have "\<dots> \<le> Suc (card (?K s))" by (simp add: card_insert_if fin)
  finally show "card (?K s') \<le> Suc (card (?K s))" .
qed

text \<open>
  A reconciliation that nothing interrupts leaves at most as many scan jobs as there were before or as
  the limit allows, whichever is more.
\<close>

lemma within_limit:
  assumes "ok r" and "decide_then (decide r q s) (submit r) s = (res, s')"
    and fin: "finite (scan_job_keys (the_client r) (config r) (data r) s)"
  shows "int (card (scan_job_keys (the_client r) (config r) (data r) s')) \<le>
      max (cfg_ConcurrentScanJobsLimit (config r))
          (int (card (scan_job_keys (the_client r) (config r) (data r) s)))"
proof (cases "decide r q s")
  case (Inl a)
  then show ?thesis using assms(2) by (simp add: decide_then_def)
next
  case (Inr obj)
  then have s': "s' = snd (submit r obj s)" using assms(2) by (simp add: decide_then_def) (metis snd_conv snd_finish)
  obtain err where "submit r obj s = (err, s')" using s' by (cases "submit r obj s") auto
  from submit_adds_one(2) [OF assms(1) this fin] decided_below [OF assms(1) Inr] show ?thesis by linarith
qed

lemma reports_kept:
  assumes "ok r" and "submit r obj s = (err, s')" and "t \<noteq> TSecret" and "t \<noteq> TJob"
  shows "cl_Get (the_client r) s' t k = cl_Get (the_client r) s t k"
  using one_job [OF assms(1,2)] assms(3,4) by auto

end

locale job_processor =
  fixes ok :: "'r \<Rightarrow> bool"
    and the_client :: "'r \<Rightarrow> 's client"
    and process :: "'r \<Rightarrow> ObjectKey \<Rightarrow> 's \<Rightarrow> (error + Result) \<times> 's"
  assumes other_jobs: "ok r \<Longrightarrow> process r req s = (res, s') \<Longrightarrow> k \<noteq> req \<Longrightarrow>
      cl_Get (the_client r) s' TJob k = cl_Get (the_client r) s TJob k"
    and own_job: "ok r \<Longrightarrow> process r req s = (res, s') \<Longrightarrow>
      cl_Get (the_client r) s' TJob req = cl_Get (the_client r) s TJob req \<or>
      cl_Get (the_client r) s' TJob req = Inl NotFound"
begin

text \<open>Processing finished jobs adds no scan job.\<close>

lemma no_new_jobs:
  assumes "ok r" and "process r req s = (res, s')"
  shows "scan_job_keys (the_client r) cfg sc s' \<subseteq> scan_job_keys (the_client r) cfg sc s"
proof
  fix k
  assume "k \<in> scan_job_keys (the_client r) cfg sc s'"
  then show "k \<in> scan_job_keys (the_client r) cfg sc s"
    using other_jobs [OF assms, of k] own_job [OF assms] by (cases "k = req") (auto simp: scan_job_keys_def)
qed

end

section \<open>Lemmas\<close>

lemma deleteJob_ok:
  assumes "api_laws c" and "go_type job = TJob" and "deleteJob c job s = (None, s')"
  shows "cl_Get c s' TJob (key_of job) = Inl NotFound" "only_changes c s s' TJob (key_of job)"
proof -
  obtain e s1 where d: "cl_Delete c s job = (e, s1)" by fastforce
  show "cl_Get c s' TJob (key_of job) = Inl NotFound" "only_changes c s s' TJob (key_of job)"
    using d assms delete_ok [OF assms(1), of s job s'] delete_notfound [OF assms(1), of s job _ s']
    by (auto simp: deleteJob_def only_changes_def split: option.splits if_splits)
qed

lemma deleteJob_frame:
  assumes "api_laws c" and "go_type job = TJob" and "(t, k) \<noteq> (TJob, key_of job)"
  shows "cl_Get c (snd (deleteJob c job s)) t k = cl_Get c s t k"
proof -
  obtain e s1 where d: "cl_Delete c s job = (e, s1)" by fastforce
  then show ?thesis
    using assms delete_ok(2) [OF assms(1), of s job s1] failed_write(4) [OF assms(1), of s job _ s1]
    by (cases e) (auto simp: deleteJob_def only_changes_def)
qed

text \<open>Only secrets are created and updated besides the job itself.\<close>

lemma create_secrets_frame:
  assumes "api_laws c" and "\<forall>x \<in> set xs. go_type x = TSecret" and "t \<noteq> TSecret"
  shows "cl_Get c (snd (create_secrets msg c xs s)) t k = cl_Get c s t k"
  using assms(2)
proof (induction xs arbitrary: s)
  case (Cons x xs)
  obtain rc s1 where cr: "cl_Create c s x = (rc, s1)" by fastforce
  have one: "cl_Get c s1 t k = cl_Get c s t k"
    using cr Cons.prems assms(3) create_ok(3) [OF assms(1), of s x _ s1]
      failed_write(1) [OF assms(1), of s x _ s1]
    by (cases rc) (auto simp: only_changes_def)
  obtain r2 s2 where rest: "create_secrets msg c xs s1 = (r2, s2)" by fastforce
  have "cl_Get c s2 t k = cl_Get c s1 t k" using Cons.IH [of s1] Cons.prems rest by simp
  then show ?case using cr rest one by (auto split: sum.splits)
qed simp

lemma create_secrets_typed:
  assumes "api_laws c" and "\<forall>x \<in> set xs. go_type x = TSecret" and "create_secrets msg c xs s = (Inr ys, s')"
  shows "\<forall>y \<in> set ys. go_type y = TSecret"
  using assms(2,3)
proof (induction xs arbitrary: s ys)
  case (Cons x xs)
  obtain y s1 where cr: "cl_Create c s x = (Inr y, s1)"
    using Cons.prems(2) by (auto split: prod.splits sum.splits)
  obtain zs where rest: "create_secrets msg c xs s1 = (Inr zs, s')" "ys = y # zs"
    using Cons.prems(2) cr by (auto split: prod.splits sum.splits)
  have "go_type y = TSecret" using create_ok(1) [OF assms(1) cr] Cons.prems(1) by simp
  then show ?case using Cons.IH [OF _ rest(1)] rest(2) Cons.prems(1) by simp
qed simp

lemma own_secret_frame:
  assumes "api_laws c" and "go_type secret = TSecret" and "t \<noteq> TSecret"
  shows "cl_Get c (snd (own_secret msg c sor job secret s)) t k = cl_Get c s t k"
proof (cases "sor job (o_Meta secret)")
  case (Inl e)
  then show ?thesis by (simp add: own_secret_def)
next
  case (Inr refs)
  let ?x = "secret\<lparr>o_Meta := (o_Meta secret)\<lparr>om_OwnerReferences := refs\<rparr>\<rparr>"
  obtain e s1 where u: "cl_Update c s ?x = (e, s1)" by fastforce
  then show ?thesis using Inr assms update_ok(2) [OF assms(1), of s ?x s1]
      failed_write(2) [OF assms(1), of s ?x _ s1]
    by (cases e) (auto simp: own_secret_def only_changes_def)
qed

lemma create_scan_job_frame:
  assumes "api_laws c" and typed: "\<forall>x \<in> set secrets. go_type x = TSecret" and jobt: "go_type job = TJob"
    and "t \<noteq> TSecret" and "(t, k) \<noteq> (TJob, key_of job)"
  shows "cl_Get c (snd (create_scan_job msgs c sor job secrets s)) t k = cl_Get c s t k"
proof -
  obtain m1 m2 m3 where m: "msgs = (m1, m2, m3)" by (cases msgs)
  obtain rs s1 where cs: "create_secrets m1 c secrets s = (rs, s1)" by fastforce
  have f1: "cl_Get c s1 t k = cl_Get c s t k"
    using create_secrets_frame [OF assms(1) typed assms(4), of m1 s k] cs by simp
  show ?thesis
  proof (cases rs)
    case (Inl e)
    then show ?thesis using cs f1 m by (simp add: create_scan_job_def)
  next
    case (Inr created)
    have ct: "\<forall>y \<in> set created. go_type y = TSecret"
      using create_secrets_typed [OF assms(1) typed] cs Inr by blast
    obtain rj s2 where cj: "cl_Create c s1 job = (rj, s2)" by fastforce
    have f2: "cl_Get c s2 t k = cl_Get c s1 t k"
      using cj assms(5) jobt create_ok(3) [OF assms(1), of s1 job _ s2] failed_write(1) [OF assms(1), of s1 job _ s2]
      by (cases rj) (auto simp: only_changes_def)
    have f3: "cl_Get c (snd (for_each (own_secret m3 c sor y) created s2)) t k = cl_Get c s2 t k" for y
      using for_each_inv [of created "\<lambda>s. cl_Get c s t k = cl_Get c s2 t k" "own_secret m3 c sor y" s2]
        own_secret_frame [OF assms(1) _ assms(4)] ct by simp
    show ?thesis using cs Inr cj f1 f2 f3 m by (cases rj) (simp_all add: create_scan_job_def)
  qed
qed

text \<open>If the key of the job reads differently afterwards, then the job has been created there.\<close>

lemma create_scan_job_creates:
  assumes "api_laws c" and typed: "\<forall>x \<in> set secrets. go_type x = TSecret" and jobt: "go_type job = TJob"
    and change: "cl_Get c (snd (create_scan_job msgs c sor job secrets s)) TJob (key_of job) \<noteq> cl_Get c s TJob (key_of job)"
  shows "(\<exists>e. cl_Get c s TJob (key_of job) = Inl e) \<and>
    (\<exists>y. cl_Get c (snd (create_scan_job msgs c sor job secrets s)) TJob (key_of job) = Inr y \<and> same_content y job)"
proof -
  obtain m1 m2 m3 where m: "msgs = (m1, m2, m3)" by (cases msgs)
  obtain rs s1 where cs: "create_secrets m1 c secrets s = (rs, s1)" by fastforce
  have f1: "cl_Get c s1 TJob k = cl_Get c s TJob k" for k
    using create_secrets_frame [OF assms(1) typed, of TJob m1 s k] cs by simp
  obtain created where created: "rs = Inr created"
    using change f1 cs m by (cases rs) (auto simp: create_scan_job_def)
  have ct: "\<forall>y \<in> set created. go_type y = TSecret"
    using create_secrets_typed [OF assms(1) typed] cs created by blast
  obtain rj s2 where cj: "cl_Create c s1 job = (rj, s2)" by fastforce
  obtain y where y: "rj = Inr y"
    using change f1 cs m created cj failed_write(1) [OF assms(1), of s1 job _ s2]
    by (cases rj) (auto simp: create_scan_job_def)
  have "cl_Get c (snd (for_each (own_secret m3 c sor y) created s2)) TJob k = cl_Get c s2 TJob k" for k
    using for_each_inv [of created "\<lambda>s. cl_Get c s TJob k = cl_Get c s2 TJob k" "own_secret m3 c sor y" s2]
      own_secret_frame [OF assms(1), of _ TJob] ct by simp
  then show ?thesis
    using cs created cj y m f1 jobt create_ok [OF assms(1), of s1 job y s2] by (simp add: create_scan_job_def)
qed

lemma deleteJob_kept_or_gone:
  assumes "api_laws c" and "go_type job = TJob"
  shows "cl_Get c (snd (deleteJob c job s)) TJob (key_of job) \<in> {cl_Get c s TJob (key_of job), Inl NotFound}"
proof -
  obtain e s1 where d: "cl_Delete c s job = (e, s1)" by fastforce
  then show ?thesis
    using assms delete_ok(1) [OF assms(1), of s job s1] failed_write(4) [OF assms(1), of s job _ s1]
    by (cases e) (auto simp: deleteJob_def)
qed

text \<open>The dispatch keeps the contract when both handlers touch no job but the one they are given.\<close>

definition handles_own_job :: "'s client \<Rightarrow> (Object \<Rightarrow> 's \<Rightarrow> error option \<times> 's) \<Rightarrow> bool" where
  "handles_own_job c handler \<longleftrightarrow> (\<forall>job s r s' k. go_type job = TJob \<longrightarrow> handler job s = (r, s') \<longrightarrow>
     cl_Get c s' TJob k = cl_Get c s TJob k \<or> (k = key_of job \<and> cl_Get c s' TJob k = Inl NotFound))"

lemma dispatch_job_processor:
  assumes "\<And>r. ok r \<Longrightarrow> api_laws (cl r)"
    and "\<And>r. ok r \<Longrightarrow> handles_own_job (cl r) (complete r)" "\<And>r. ok r \<Longrightarrow> handles_own_job (cl r) (failed r)"
  shows "job_processor ok cl (\<lambda>r. dispatch_job msg (cl r) (complete r) (failed r))"
proof -
  have "cl_Get (cl r) s' TJob k = cl_Get (cl r) s TJob k \<or> (k = req \<and> cl_Get (cl r) s' TJob k = Inl NotFound)"
    if r: "ok r" and run: "dispatch_job msg (cl r) (complete r) (failed r) req s = (res, s')" for r req s res s' k
  proof (cases "cl_Get (cl r) s TJob req")
    case (Inl e)
    then show ?thesis using run by (auto simp: dispatch_job_def split: if_splits)
  next
    case (Inr job)
    note typed = get_typed [OF assms(1) [OF r] Inr]
    have "s' = s \<or> s' = snd (complete r job s) \<or> s' = snd (failed r job s)"
      using run Inr by (auto simp: dispatch_job_def split: list.splits JobConditionType.splits)
        (metis snd_conv snd_finish)+
    then show ?thesis
      using assms(2,3) [OF r] typed unfolding handles_own_job_def by (metis prod.collapse)
  qed
  note step = this
  show ?thesis
    by unfold_locales (use step in blast)+
qed

lemma handles_own_jobI:
  assumes "\<And>job s k. go_type job = TJob \<Longrightarrow> k \<noteq> key_of job \<Longrightarrow> cl_Get c (snd (h job s)) TJob k = cl_Get c s TJob k"
    and "\<And>job s. go_type job = TJob \<Longrightarrow> cl_Get c (snd (h job s)) TJob (key_of job) \<in>
      {cl_Get c s TJob (key_of job), Inl NotFound}"
  shows "handles_own_job c h"
  unfolding handles_own_job_def by (metis assms insert_iff singletonD snd_conv)

end
