(* ===== verification/Vulnerability_Controller.thy ===== *)
theory Vulnerability_Controller
  imports Scan_Jobs
begin

text \<open>
  The workload controller of \<^verbatim>\<open>pkg/vulnerabilityreport/controller.go\<close>: it submits a scan job for a
  workload without up-to-date reports, and turns the logs of a finished job into reports. Each
  reconciliation function takes the cluster state and returns its result with the new state. The
  operator as a whole is a transition system over the cluster state whose steps are the two
  reconciliations and the changes the rest of the cluster makes.
\<close>

record 's WorkloadController =
  wc_Config :: Config
  wc_Client :: "'s client"
  wc_env :: env
  wc_logs :: "'s logs"
  wc_registry :: "string \<Rightarrow> error + string"
  wc_order :: order
  wc_Plugin :: "'s Plugin"
  wc_PluginContext :: PluginContext
  wc_ConfigData :: ConfigData
  wc_tolerations :: "string \<Rightarrow> error + string list"
  wc_SetControllerReference :: owner_setter
  wc_SetOwnerReference :: owner_setter

section \<open>Watched events\<close>

text \<open>The predicates of \<open>SetupWithManager\<close> on workloads and on scan jobs.\<close>

definition workload_kinds :: "Kind list" where
  "workload_kinds = [KindPod, KindReplicaSet, KindReplicationController, KindStatefulSet,
     KindDaemonSet, KindCronJob, KindJob]"

definition workload_predicates :: "Config \<Rightarrow> error + Predicate" where
  "workload_predicates config =
     (case InstallModePredicate config of
        Inl e \<Rightarrow> Inl e
      | Inr installModePredicate \<Rightarrow>
          Inr (all_predicates [Not_pred ManagedByStarboardOperator, Not_pred IsBeingTerminated,
                 installModePredicate]))"

definition job_predicates :: "'s WorkloadController \<Rightarrow> Predicate" where
  "job_predicates r =
     all_predicates ((if \<not> VulnerabilityScanJobsInSameNamespace (wc_ConfigData r)
                      then [InNamespace (cfg_Namespace (wc_Config r))] else []) @
       [ManagedByStarboardOperator, IsVulnerabilityReportScan, JobHasAnyCondition])"

section \<open>Reports and jobs of a workload\<close>

definition report_container :: "string \<Rightarrow> Object \<Rightarrow> string option" where
  "report_container hash report =
     (case om_Labels (o_Meta report) LabelContainerName of
        None \<Rightarrow> None
      | Some containerName \<Rightarrow>
          if hash = mget (om_Labels (o_Meta report)) LabelResourceSpecHash then Some containerName else None)"

definition hasReports ::
    "'s WorkloadController \<Rightarrow> 's \<Rightarrow> ObjectRef \<Rightarrow> string \<Rightarrow> ContainerImages \<Rightarrow> error + bool" where
  "hasReports r s owner hash images =
     (case FindByOwner (wc_env r) (wc_Client r) s owner of
        Inl e \<Rightarrow> Inl e
      | Inr reports \<Rightarrow>
          Inr (set (List.map_filter (report_container hash) reports) = set (map fst images)))"

definition scan_job_key :: "'s WorkloadController \<Rightarrow> ObjectRef \<Rightarrow> ObjectKey" where
  "scan_job_key r owner = \<lparr>key_Namespace = cfg_Namespace (wc_Config r),
     key_Name = ''scan-vulnerabilityreport-'' @ ComputeHash (wc_env r) (HObjectRef owner)\<rparr>"

definition hasActiveScanJob ::
    "'s WorkloadController \<Rightarrow> 's \<Rightarrow> ObjectRef \<Rightarrow> string \<Rightarrow> error + Object option" where
  "hasActiveScanJob r s owner hash =
     (case cl_Get (wc_Client r) s TJob (scan_job_key r owner) of
        Inl err \<Rightarrow> if IsNotFound err then Inr None else Inl (Wrap ''getting job from cache'' err)
      | Inr job \<Rightarrow>
          if mget (om_Labels (o_Meta job)) LabelResourceSpecHash = hash then Inr (Some job) else Inr None)"

section \<open>Submitting a scan job\<close>

definition scan_job_builder ::
    "'s WorkloadController \<Rightarrow> 's \<Rightarrow> Object \<Rightarrow> error + 's ScanJobBuilder" where
  "scan_job_builder r s owner =
     (case CredentialsByWorkload (wc_Client r) (wc_registry r) (wc_order r) s owner of
        Inl e \<Rightarrow> Inl e
      | Inr credentials \<Rightarrow>
          (case GetScanJobTolerations (wc_tolerations r) (wc_ConfigData r) of
             Inl e \<Rightarrow> Inl (Wrap ''getting scan job tolerations'' e)
           | Inr tolerations \<Rightarrow>
               (case GetScanJobAnnotations (wc_ConfigData r) of
                  Inl e \<Rightarrow> Inl (Wrap ''getting scan job annotations'' e)
                | Inr annotations \<Rightarrow>
                    (case GetScanJobPodTemplateLabels (wc_ConfigData r) of
                       Inl e \<Rightarrow> Inl (Wrap ''getting scan job template labels'' e)
                     | Inr podTemplateLabels \<Rightarrow>
                         Inr \<lparr>sjb_plugin = wc_Plugin r, sjb_pluginContext = wc_PluginContext r,
                              sjb_timeout = cfg_ScanJobTimeout (wc_Config r), sjb_object = owner,
                              sjb_credentials = credentials, sjb_tolerations = tolerations,
                              sjb_annotations = annotations,
                              sjb_podTemplateLabels = podTemplateLabels\<rparr>))))"

definition submitScanJob ::
    "'s WorkloadController \<Rightarrow> Object \<Rightarrow> 's \<Rightarrow> error option \<times> 's" where
  "submitScanJob r owner s =
     (case scan_job_builder r s owner of
        Inl e \<Rightarrow> (Some e, s)
      | Inr b \<Rightarrow>
          (case ScanJobBuilder_Get (wc_env r) b s of
             Inl err \<Rightarrow>
               if errors_Is err ErrReplicaSetNotFound \<or> errors_Is err ErrNoRunningPods \<or>
                  errors_Is err ErrUnSupportedKind
               then (None, s) else (Some (Wrap ''constructing scan job'' err), s)
           | Inr (scanJob, secrets) \<Rightarrow>
               create_scan_job (''creating secret used by scan job failed'', ''creating scan job failed'',
                   ''setting owner reference of secret used by scan job failed'')
                 (wc_Client r) (wc_SetOwnerReference r) scanJob secrets s))"

section \<open>Reconciling a workload\<close>

text \<open>The workloads that the controller leaves to another one.\<close>

definition skip_workload ::
    "'s WorkloadController \<Rightarrow> 's \<Rightarrow> Kind \<Rightarrow> Object \<Rightarrow> error + bool" where
  "skip_workload r s workloadKind workloadObj =
     (let controller = GetControllerOf workloadObj in
      if workloadKind = KindPod \<and> IsBuiltInWorkload controller then Inr True
      else
        (case (if cfg_VulnerabilityScannerScanOnlyCurrentRevisions (wc_Config r) \<and> workloadKind = KindReplicaSet
               then IsActiveReplicaSet (wc_Client r) s workloadObj controller else Inr True) of
           Inl e \<Rightarrow> Inl (Wrap ''failed checking current revision'' e)
         | Inr activeReplicaSet \<Rightarrow>
             if \<not> activeReplicaSet then Inr True
             else Inr (workloadKind = KindJob \<and>
                    (case controller of None \<Rightarrow> False | Some cr \<Rightarrow> or_Kind cr = KindCronJob))))"

text \<open>The reads: what the handler decides before it submits a job.\<close>

definition workload_decision ::
    "'s WorkloadController \<Rightarrow> Kind \<Rightarrow> ObjectKey \<Rightarrow> 's \<Rightarrow> decision" where
  "workload_decision r workloadKind req s =
     (let workloadRef = ObjectRefFromKindAndObjectKey workloadKind req in
      case ObjectFromObjectRef (wc_Client r) s workloadRef of
        Inl err \<Rightarrow>
          if IsNotFound err then Inl (Inr no_requeue)
          else Inl (Inl (Wrap (''getting '' @ workloadKind @ '' from cache'') err))
      | Inr workloadObj \<Rightarrow>
          (case skip_workload r s workloadKind workloadObj of
             Inl e \<Rightarrow> Inl (Inl e)
           | Inr skip \<Rightarrow>
               if skip then Inl (Inr no_requeue)
               else
                 (case GetPodSpec workloadObj of
                    Inl e \<Rightarrow> Inl (Inl e)
                  | Inr podSpec \<Rightarrow>
                      (let containerImages = GetContainerImagesFromPodSpec podSpec;
                           hash = ComputeHash (wc_env r) (HPodSpec podSpec)
                       in case hasReports r s workloadRef hash containerImages of
                            Inl e \<Rightarrow> Inl (Inl (Wrap ''getting vulnerability reports'' e))
                          | Inr True \<Rightarrow> Inl (Inr no_requeue)
                          | Inr False \<Rightarrow>
                              (case hasActiveScanJob r s workloadRef hash of
                                 Inl e \<Rightarrow> Inl (Inl (Wrap ''checking scan job'' e))
                               | Inr (Some job) \<Rightarrow> Inl (Inr no_requeue)
                               | Inr None \<Rightarrow>
                                   (case LimitChecker_Check (wc_Client r) (wc_Config r) (wc_ConfigData r) s of
                                      Inl e \<Rightarrow> Inl (Inl e)
                                    | Inr (limitExceeded, scanJobsCount) \<Rightarrow>
                                        if limitExceeded
                                        then Inl (Inr \<lparr>RequeueAfter = cfg_ScanJobRetryAfter (wc_Config r)\<rparr>)
                                        else Inr workloadObj))))))"

definition reconcileWorkload ::
    "'s WorkloadController \<Rightarrow> Kind \<Rightarrow> ObjectKey \<Rightarrow> 's \<Rightarrow> (error + Result) \<times> 's" where
  "reconcileWorkload r workloadKind req s =
     decide_then (workload_decision r workloadKind req s) (submitScanJob r) s"

section \<open>Processing finished jobs\<close>

text \<open>How the loop over the containers can end before all reports are built.\<close>

datatype early = ReturnNil | ReturnDeleteJob | ReturnErr error

fun build_reports ::
    "'s WorkloadController \<Rightarrow> 's \<Rightarrow> Object \<Rightarrow> Object \<Rightarrow> string \<Rightarrow> (string \<times> string) list \<Rightarrow> early + Object list" where
  "build_reports r s job owner podSpecHash [] = Inr []"
| "build_reports r s job owner podSpecHash ((containerName, containerImage) # images) =
     (case GetLogsByJobAndContainerName (wc_Client r) (wc_logs r) s job containerName of
        Inl err \<Rightarrow>
          if IsNotFound err then Inl ReturnNil
          else if IsPodControlledByJobNotFound err then Inl ReturnDeleteJob
          else Inl (ReturnErr (Wrap ''getting logs for pod'' err))
      | Inr logsStream \<Rightarrow>
          (case pl_ParseVulnerabilityReportData (wc_Plugin r) (wc_PluginContext r) s containerImage logsStream of
             Inl e \<Rightarrow> Inl (ReturnErr e)
           | Inr reportData \<Rightarrow>
               (case ReportBuilder_Get (wc_env r) (wc_SetControllerReference r)
                       \<lparr>rb_controller = owner, rb_container = containerName, rb_hash = podSpecHash,
                        rb_data = reportData,
                        rb_reportTTL = cfg_VulnerabilityScannerReportTTL (wc_Config r)\<rparr> of
                  Inl e \<Rightarrow> Inl (ReturnErr e)
                | Inr report \<Rightarrow>
                    (case build_reports r s job owner podSpecHash images of
                       Inl e \<Rightarrow> Inl e | Inr reports \<Rightarrow> Inr (report # reports)))))"

definition processCompleteScanJob ::
    "'s WorkloadController \<Rightarrow> Object \<Rightarrow> 's \<Rightarrow> error option \<times> 's" where
  "processCompleteScanJob r job s =
     (case ObjectRefFromObjectMeta (o_Meta job) of
        Inl e \<Rightarrow> (Some (Wrap ''getting owner ref from scan job metadata'' e), s)
      | Inr ownerRef \<Rightarrow>
          (case ObjectFromObjectRef (wc_Client r) s ownerRef of
             Inl err \<Rightarrow>
               if IsNotFound err then deleteJob (wc_Client r) job s
               else (Some (Wrap ''getting object from object ref'' err), s)
           | Inr owner \<Rightarrow>
               (case GetContainerImagesFromJob job of
                  Inl e \<Rightarrow> (Some (Wrap ''getting container images'' e), s)
                | Inr containerImages \<Rightarrow>
                    (case om_Labels (o_Meta job) LabelResourceSpecHash of
                       None \<Rightarrow> (Some (Errorf (''expected label not set: '' @ LabelResourceSpecHash)), s)
                     | Some podSpecHash \<Rightarrow>
                         (case hasReports r s ownerRef podSpecHash containerImages of
                            Inl e \<Rightarrow> (Some e, s)
                          | Inr True \<Rightarrow> deleteJob (wc_Client r) job s
                          | Inr False \<Rightarrow>
                              (case build_reports r s job owner podSpecHash
                                      (range_map (wc_order r) containerImages) of
                                 Inl ReturnNil \<Rightarrow> (None, s)
                               | Inl ReturnDeleteJob \<Rightarrow> deleteJob (wc_Client r) job s
                               | Inl (ReturnErr e) \<Rightarrow> (Some e, s)
                               | Inr vulnerabilityReports \<Rightarrow>
                                   and_then (Write (wc_Client r) vulnerabilityReports s)
                                     (deleteJob (wc_Client r) job)))))))"

definition processFailedScanJob ::
    "'s WorkloadController \<Rightarrow> Object \<Rightarrow> 's \<Rightarrow> error option \<times> 's" where
  "processFailedScanJob r scanJob s =
     (case GetTerminatedContainersStatusesByJob (wc_Client r) s scanJob of
        Inl err \<Rightarrow>
          if IsNotFound err then (None, s)
          else if IsPodControlledByJobNotFound err then deleteJob (wc_Client r) scanJob s
          else (Some err, s)
      | Inr statuses \<Rightarrow> deleteJob (wc_Client r) scanJob s)"

definition reconcileJobs ::
    "'s WorkloadController \<Rightarrow> ObjectKey \<Rightarrow> 's \<Rightarrow> (error + Result) \<times> 's" where
  "reconcileJobs r = dispatch_job ''unrecognized scan job condition: '' (wc_Client r)
     (processCompleteScanJob r) (processFailedScanJob r)"

section \<open>Lemmas\<close>

lemma ScanJobBuilder_secrets_typed:
  assumes "plugin_typed (sjb_plugin b)" and "ScanJobBuilder_Get E b s = Inr (job, secrets)"
  shows "\<forall>x \<in> set secrets. go_type x = TSecret"
  using assms
  by (auto simp: ScanJobBuilder_Get_def plugin_typed_def updateScanJobForWorkloadNamespace_def Let_def
      set_namespace_def split: sum.splits prod.splits if_splits)

lemma scan_job_builder_fields:
  assumes "scan_job_builder r s owner = Inr b"
  shows "sjb_plugin b = wc_Plugin r" "sjb_object b = owner" "sjb_pluginContext b = wc_PluginContext r"
  using assms by (auto simp: scan_job_builder_def split: sum.splits)

text \<open>Submitting a job adds at most one job to the cluster and changes no object of another type but secrets.\<close>

lemma submitScanJob_frame:
  assumes "api_laws (wc_Client r)" and "plugin_typed (wc_Plugin r)"
  shows "\<exists>k0. \<forall>t k. t \<noteq> TSecret \<longrightarrow> (t, k) \<noteq> (TJob, k0) \<longrightarrow>
    cl_Get (wc_Client r) (snd (submitScanJob r owner s)) t k = cl_Get (wc_Client r) s t k"
proof (cases "scan_job_builder r s owner")
  case (Inl e)
  then show ?thesis by (simp add: submitScanJob_def)
next
  case b: (Inr b)
  show ?thesis
  proof (cases "ScanJobBuilder_Get (wc_env r) b s")
    case (Inl e)
    then show ?thesis using b by (simp add: submitScanJob_def)
  next
    case (Inr js)
    obtain job secrets where js: "js = (job, secrets)" by fastforce
    note get = Inr [unfolded js]
    have typed: "\<forall>x \<in> set secrets. go_type x = TSecret"
      using ScanJobBuilder_secrets_typed [OF _ get] assms(2) scan_job_builder_fields(1) [OF b] by simp
    have jobt: "go_type job = TJob" using get by (auto elim: scan_job_shape)
    show ?thesis
      using create_scan_job_frame [OF assms(1) typed jobt] b get
      by (intro exI [of _ "key_of job"]) (simp add: submitScanJob_def)
  qed
qed

text \<open>The branches of a workload reconciliation: it either leaves the cluster alone, or submits a job below the limit.\<close>

lemma workload_decision_below:
  "workload_decision r kind req s = Inr obj \<Longrightarrow>
    \<exists>n. LimitChecker_Check (wc_Client r) (wc_Config r) (wc_ConfigData r) s = Inr (False, n)"
  by (auto simp: workload_decision_def Let_def split: sum.splits if_splits bool.splits option.splits)

lemma Write_frame:
  assumes "api_laws c" and "\<forall>x \<in> set xs. go_type x = TVulnerabilityReport" and "t \<noteq> TVulnerabilityReport"
  shows "cl_Get c (snd (Write c xs s)) t k = cl_Get c s t k"
  using vuln_store.write_all_frame [OF assms(1), of xs s _ "snd (Write c xs s)" t k] assms(2,3)
  by (cases "Write c xs s") (simp add: Write_def)

lemma build_reports_built:
  assumes "build_reports r s job owner hash images = Inr reports"
  shows "list_all2 (\<lambda>(name, image) x. \<exists>stream data.
      GetLogsByJobAndContainerName (wc_Client r) (wc_logs r) s job name = Inr stream \<and>
      pl_ParseVulnerabilityReportData (wc_Plugin r) (wc_PluginContext r) s image stream = Inr data \<and>
      ReportBuilder_Get (wc_env r) (wc_SetControllerReference r)
        \<lparr>rb_controller = owner, rb_container = name, rb_hash = hash, rb_data = data,
         rb_reportTTL = cfg_VulnerabilityScannerReportTTL (wc_Config r)\<rparr> = Inr x) images reports"
  using assms
proof (induction images arbitrary: reports)
  case (Cons ci images)
  obtain name image where "ci = (name, image)" by fastforce
  then show ?case using Cons
    by (auto split: sum.splits if_splits)
qed simp

lemma build_reports_typed:
  assumes "build_reports r s job owner hash images = Inr reports"
  shows "\<forall>x \<in> set reports. go_type x = TVulnerabilityReport"
  using build_reports_built [OF assms] ReportBuilder_Get_meta(1)
  by (fastforce simp: list_all2_conv_all_nth in_set_conv_nth)

lemma ObjectFromObjectRef_ref:
  assumes "api_laws c" and "law_scheme c" and "ObjectFromObjectRef c s ref = Inr x"
  shows "ref_of x = ref"
proof -
  obtain t y where t: "type_of_kind (ref_Kind ref) = Some t"
    and y: "cl_Get c s t \<lparr>key_Namespace = ref_Namespace ref, key_Name = ref_Name ref\<rparr> = Inr y"
    and x: "ensureGVK c y = Inr x"
    using assms(3) by (auto simp: ObjectFromObjectRef_def split: option.splits sum.splits)
  have "go_type y = t" "key_of y = \<lparr>key_Namespace = ref_Namespace ref, key_Name = ref_Name ref\<rparr>"
    using get_typed [OF assms(1) y] by simp_all
  moreover have "x = y\<lparr>o_Kind := kind_of_type (go_type y)\<rparr>"
    using x assms(2) by (simp add: ensureGVK_def law_scheme_def)
  ultimately show ?thesis
    using kind_of_type_of_kind [OF t] by (simp add: ref_of_def key_of_def)
qed

text \<open>Processing a job removes at most that job and adds none.\<close>

lemma processCompleteScanJob_frame:
  assumes "api_laws (wc_Client r)" and "go_type job = TJob" and "k \<noteq> key_of job"
  shows "cl_Get (wc_Client r) (snd (processCompleteScanJob r job s)) TJob k = cl_Get (wc_Client r) s TJob k"
proof -
  have and_then: "cl_Get (wc_Client r) (snd (and_then (Write (wc_Client r) reports s) (deleteJob (wc_Client r) job))) TJob k
      = cl_Get (wc_Client r) s TJob k" if "build_reports r s job owner h im = Inr reports" for owner h im reports
    using Write_frame [OF assms(1) build_reports_typed [OF that], of TJob s k] deleteJob_frame [OF assms(1,2)] assms(3)
    by (cases "Write (wc_Client r) reports s"; cases "fst (Write (wc_Client r) reports s)") auto
  show ?thesis
    using deleteJob_frame [OF assms(1,2)] assms(3) and_then
    by (auto simp: processCompleteScanJob_def split: sum.splits option.splits early.splits bool.splits)
qed

lemma processFailedScanJob_frame:
  assumes "api_laws (wc_Client r)" and "go_type job = TJob" and "k \<noteq> key_of job"
  shows "cl_Get (wc_Client r) (snd (processFailedScanJob r job s)) TJob k = cl_Get (wc_Client r) s TJob k"
  using deleteJob_frame [OF assms(1,2)] assms(3)
  by (auto simp: processFailedScanJob_def split: sum.splits)


lemma images_of_job_distinct:
  assumes "GetContainerImagesFromJob job = Inr images"
  shows "distinct (map fst images)"
proof -
  have "distinct (map fst (foldl (\<lambda>acc (k, v). AList.update k v acc) acc kvs))"
    if "distinct (map fst acc)" for acc kvs :: "string gomap"
    using that by (induction kvs arbitrary: acc) (auto simp: distinct_update)
  then show ?thesis using assms
    by (auto simp: GetContainerImagesFromJob_def FromJSON_def json_Unmarshal_def split: option.splits sum.splits if_splits)
qed

text \<open>The report built for a container is counted for that container.\<close>

lemma report_container_built:
  assumes "ReportBuilder_Get E scr b = Inr x" and "stores y x"
  shows "report_container (rb_hash b) y = Some (rb_container b)"
  using ReportBuilder_Get_meta(5,6) [OF assms(1)] assms(2) by (simp add: report_container_def stores_def)

lemma build_reports_container:
  assumes "build_reports r s job owner hash images = Inr reports"
  shows "map (report_container hash) reports = map (\<lambda>ci. Some (fst ci)) images"
    "x \<in> set reports \<Longrightarrow> \<exists>b. ReportBuilder_Get (wc_env r) (wc_SetControllerReference r) b = Inr x \<and> rb_controller b = owner"
proof -
  note l = build_reports_built [OF assms]
  show "map (report_container hash) reports = map (\<lambda>ci. Some (fst ci)) images"
    using l by (induction rule: list_all2_induct) (auto dest!: report_container_built [where y = "_"] simp: stores_def)
  show "\<exists>b. ReportBuilder_Get (wc_env r) (wc_SetControllerReference r) b = Inr x \<and> rb_controller b = owner"
    if "x \<in> set reports"
    using l that by (induction rule: list_all2_induct) (auto; force)+
qed

text \<open>After all reports of a job have been written, the workload counts as scanned.\<close>

lemma hasReports_after_write:
  assumes laws: "api_laws (wc_Client r)"
    and built: "build_reports r s job owner hash (range_map (wc_order r) images) = Inr reports"
    and order: "perm_order (wc_order r)" "distinct (map fst images)"
    and keys: "distinct (map key_of reports)"
    and written: "Write (wc_Client r) reports s = (None, s1)"
    and stray: "\<And>y k n. cl_Get (wc_Client r) s TVulnerabilityReport k = Inr y \<Longrightarrow>
      selected (owner_options (wc_env r) (ref_of owner)) y \<Longrightarrow> report_container hash y = Some n \<Longrightarrow>
      n \<in> fst ` set images"
    and same: "\<And>k. cl_Get (wc_Client r) s' TVulnerabilityReport k = cl_Get (wc_Client r) s1 TVulnerabilityReport k"
    and found: "FindByOwner (wc_env r) (wc_Client r) s' (ref_of owner) = Inr found"
  shows "hasReports r s' (ref_of owner) hash images = Inr True"
proof -
  let ?c = "wc_Client r"
  note bc = build_reports_container [OF built]
  have typed: "\<forall>x \<in> set reports. go_type x = TVulnerabilityReport \<and> True"
    using build_reports_typed [OF built] by simp
  have imgs: "set (map fst (range_map (wc_order r) images)) = fst ` set images"
    by (rule range_map_keys [OF order])
  have cont: "report_container hash ` set reports = Some ` fst ` set images"
    using arg_cong [OF bc(1), of set] imgs by (simp add: image_image) (metis image_image)
  have found_set: "set found = {x. \<exists>k. cl_Get ?c s' TVulnerabilityReport k = Inr x \<and>
      selected (owner_options (wc_env r) (ref_of owner)) x}"
    using list_all_objects(1) [OF laws found [unfolded FindByOwner_def]] by (simp add: owner_options_def)
  have stored: "\<exists>y. cl_Get ?c s' TVulnerabilityReport (key_of x) = Inr y \<and> stores y x" if "x \<in> set reports" for x
    using vuln_store.write_all_stored [OF laws typed keys written [unfolded Write_def] that] same by simp
  have cont_stores: "report_container hash y = report_container hash x" if "stores y x" for x y
    using that by (simp add: report_container_def stores_def cong: option.case_cong)
  have "Some n \<in> report_container hash ` set found \<longleftrightarrow> n \<in> fst ` set images" for n
  proof
    assume "n \<in> fst ` set images"
    then obtain x where x: "x \<in> set reports" "report_container hash x = Some n"
      using cont by (metis image_eqI imageE)
    obtain y where y: "cl_Get ?c s' TVulnerabilityReport (key_of x) = Inr y" "stores y x"
      using stored [OF x(1)] by blast
    obtain b where b: "ReportBuilder_Get (wc_env r) (wc_SetControllerReference r) b = Inr x" "rb_controller b = owner"
      using bc(2) [OF x(1)] by blast
    have "key_of y = key_of x" using get_typed [OF laws y(1)] by simp
    then have "selected (owner_options (wc_env r) (ref_of owner)) y"
      using ReportBuilder_Get_meta(4,7) [OF b(1)] b(2) y(2)
      by (simp add: owner_options_select stores_def key_of_def ref_of_def)
    then show "Some n \<in> report_container hash ` set found"
      using y x(2) cont_stores [OF y(2)] found_set by force
  next
    assume "Some n \<in> report_container hash ` set found"
    then obtain y k where y: "cl_Get ?c s' TVulnerabilityReport k = Inr y" "report_container hash y = Some n"
        "selected (owner_options (wc_env r) (ref_of owner)) y"
      using found_set by auto
    show "n \<in> fst ` set images"
    proof (cases "k \<in> key_of ` set reports")
      case True
      then obtain x where x: "x \<in> set reports" "k = key_of x" by blast
      then have "stores y x" using stored [OF x(1)] y(1) by auto
      then have "report_container hash x = Some n" using cont_stores y(2) by simp
      then show ?thesis using cont x(1) by (metis image_eqI image_iff option.inject)
    next
      case False
      then have "cl_Get ?c s TVulnerabilityReport k = Inr y"
        using vuln_store.write_all_frame [OF laws typed written [unfolded Write_def]] y(1) same by simp
      then show ?thesis using stray y(2,3) by blast
    qed
  qed
  then have "set (List.map_filter (report_container hash) found) = fst ` set images"
    by (intro set_eqI) (simp only: map_filter_mem)
  then show ?thesis by (simp add: hasReports_def found)
qed


text \<open>Processing a job leaves the job as it is or removes it.\<close>

lemma processCompleteScanJob_own: "api_laws (wc_Client r) \<Longrightarrow> handles_own_job (wc_Client r) (processCompleteScanJob r)"
proof (rule handles_own_jobI)
  fix job s k
  assume laws: "api_laws (wc_Client r)" and job: "go_type job = TJob"
  show "k \<noteq> key_of job \<Longrightarrow> cl_Get (wc_Client r) (snd (processCompleteScanJob r job s)) TJob k = cl_Get (wc_Client r) s TJob k"
    by (rule processCompleteScanJob_frame [OF laws job])
  note del = deleteJob_kept_or_gone [OF laws job]
  have "cl_Get (wc_Client r) (snd (and_then (Write (wc_Client r) reports s) (deleteJob (wc_Client r) job)))
      TJob (key_of job) \<in> {cl_Get (wc_Client r) s TJob (key_of job), Inl NotFound}"
    if "build_reports r s job owner h im = Inr reports" for owner h im reports
  proof (cases "Write (wc_Client r) reports s")
    case (Pair w s1)
    have "cl_Get (wc_Client r) s1 TJob (key_of job) = cl_Get (wc_Client r) s TJob (key_of job)"
      using Write_frame [OF laws build_reports_typed [OF that], of TJob s "key_of job"] Pair by simp
    then show ?thesis using Pair del [of s1] by (cases w) auto
  qed
  then show "cl_Get (wc_Client r) (snd (processCompleteScanJob r job s)) TJob (key_of job) \<in>
      {cl_Get (wc_Client r) s TJob (key_of job), Inl NotFound}"
    using del [of s]
    by (auto simp: processCompleteScanJob_def split: sum.splits option.splits early.splits bool.splits)
qed

lemma processFailedScanJob_own: "api_laws (wc_Client r) \<Longrightarrow> handles_own_job (wc_Client r) (processFailedScanJob r)"
proof (rule handles_own_jobI)
  fix job s k
  assume laws: "api_laws (wc_Client r)" and job: "go_type job = TJob"
  show "k \<noteq> key_of job \<Longrightarrow> cl_Get (wc_Client r) (snd (processFailedScanJob r job s)) TJob k = cl_Get (wc_Client r) s TJob k"
    by (rule processFailedScanJob_frame [OF laws job])
  show "cl_Get (wc_Client r) (snd (processFailedScanJob r job s)) TJob (key_of job) \<in>
      {cl_Get (wc_Client r) s TJob (key_of job), Inl NotFound}"
    using deleteJob_kept_or_gone [OF laws job, of s] by (auto simp: processFailedScanJob_def split: sum.splits)
qed

section \<open>What the reads mean\<close>

text \<open>
  A stored report of a container: it carries the labels of the workload, the name of the container
  and the hash of the pod specification it was made for.
\<close>

definition report_of :: "env \<Rightarrow> ObjectRef \<Rightarrow> string \<Rightarrow> string \<Rightarrow> Object \<Rightarrow> bool" where
  "report_of E ref hash name y \<longleftrightarrow>
     om_Namespace (o_Meta y) = ref_Namespace ref \<and> ObjectRefToLabels E ref \<subseteq>\<^sub>m om_Labels (o_Meta y) \<and>
     om_Labels (o_Meta y) LabelContainerName = Some name \<and>
     mget (om_Labels (o_Meta y)) LabelResourceSpecHash = hash"

definition has_report :: "'s client \<Rightarrow> env \<Rightarrow> 's \<Rightarrow> ObjectRef \<Rightarrow> string \<Rightarrow> string \<Rightarrow> bool" where
  "has_report c E s ref hash name \<longleftrightarrow>
     (\<exists>k y. cl_Get c s TVulnerabilityReport k = Inr y \<and> report_of E ref hash name y)"

text \<open>The reports count as up to date when the stored ones are those of exactly the given containers.\<close>

lemma report_container_Some:
  "Some n = report_container hash y \<longleftrightarrow> om_Labels (o_Meta y) LabelContainerName = Some n \<and>
     mget (om_Labels (o_Meta y)) LabelResourceSpecHash = hash"
  by (auto simp: report_container_def split: option.splits)

lemma hasReports_iff:
  assumes "api_laws (wc_Client r)" and "hasReports r s ref hash images = Inr b"
  shows "b \<longleftrightarrow> {name. has_report (wc_Client r) (wc_env r) s ref hash name} = fst ` set images"
proof -
  obtain found where found: "FindByOwner (wc_env r) (wc_Client r) s ref = Inr found"
    and b: "b \<longleftrightarrow> set (List.map_filter (report_container hash) found) = fst ` set images"
    using assms(2) by (auto simp: hasReports_def split: sum.splits)
  have "set found = {x. \<exists>k. cl_Get (wc_Client r) s TVulnerabilityReport k = Inr x \<and>
      selected (owner_options (wc_env r) ref) x}"
    using list_all_objects(1) [OF assms(1) found [unfolded FindByOwner_def]] by (simp add: owner_options_def)
  then have "Some n \<in> report_container hash ` set found \<longleftrightarrow> has_report (wc_Client r) (wc_env r) s ref hash n" for n
    by (fastforce simp: has_report_def report_of_def owner_options_select report_container_Some image_iff)
  then have "set (List.map_filter (report_container hash) found) =
      {name. has_report (wc_Client r) (wc_env r) s ref hash name}"
    by (intro set_eqI) (simp only: map_filter_mem mem_Collect_eq)
  with b show ?thesis by simp
qed

text \<open>
  The pods of a job: those in its namespace with the label by which the job's selector finds them.
\<close>

definition pod_of_job :: "'s client \<Rightarrow> 's \<Rightarrow> Object \<Rightarrow> Object \<Rightarrow> bool" where
  "pod_of_job c s job pod \<longleftrightarrow>
     (\<exists>k job0. cl_Get c s TPod k = Inr pod \<and> cl_Get c s TJob (key_of job) = Inr job0 \<and>
        om_Namespace (o_Meta pod) = om_Namespace (o_Meta job) \<and>
        om_Labels (o_Meta pod) ''controller-uid'' =
          Some (mget (map_of (match_labels (o_Body job0))) ''controller-uid''))"

lemma getPodByJob_iff:
  assumes "api_laws c"
  shows "getPodByJob c s job = Inr None \<Longrightarrow> \<not> pod_of_job c s job pod"
    "getPodByJob c s job = Inr (Some pod) \<Longrightarrow> pod_of_job c s job pod"
  using list_all_objects(1) [OF assms]
  by (fastforce simp: getPodByJob_def pod_of_job_def selected_def split: sum.splits list.splits)+

text \<open>
  The error for a missing pod is a private value of package \<^verbatim>\<open>kube\<close>, so only
  \<open>GetLogsByJobAndContainerName\<close> itself returns it.
\<close>

definition foreign_errors :: "'s client \<Rightarrow> 's logs \<Rightarrow> 's \<Rightarrow> bool" where
  "foreign_errors c logs s \<longleftrightarrow>
     (\<forall>t k e. cl_Get c s t k = Inl e \<longrightarrow> \<not> IsPodControlledByJobNotFound e) \<and>
     (\<forall>t opts e. cl_List c s t opts = Inl e \<longrightarrow> \<not> IsPodControlledByJobNotFound e) \<and>
     (\<forall>k n e. logs s k n = Inl e \<longrightarrow> \<not> IsPodControlledByJobNotFound e)"

lemma pod_not_found:
  assumes "foreign_errors c logs s" and "GetLogsByJobAndContainerName c logs s job name = Inl e"
    and "IsPodControlledByJobNotFound e"
  shows "getPodByJob c s job = Inr None"
  using assms
  by (auto simp: GetLogsByJobAndContainerName_def foreign_errors_def getPodByJob_def IsPodControlledByJobNotFound_def
      split: sum.splits option.splits list.splits)

lemma build_reports_pod_gone:
  assumes "foreign_errors (wc_Client r) (wc_logs r) s"
    and "build_reports r s job owner hash images = Inl ReturnDeleteJob"
  shows "getPodByJob (wc_Client r) s job = Inr None"
  using assms(2)
proof (induction images)
  case (Cons ci images)
  obtain name image where "ci = (name, image)" by fastforce
  then show ?case using Cons pod_not_found [OF assms(1)]
    by (auto split: sum.splits if_splits)
qed simp

text \<open>The logs of a container, read from a pod of the job and parsed by the scanner.\<close>

definition scanned :: "'s WorkloadController \<Rightarrow> 's \<Rightarrow> Object \<Rightarrow> string \<Rightarrow> string \<Rightarrow> VulnerabilityReportData \<Rightarrow> bool" where
  "scanned r s job name im data \<longleftrightarrow> (\<exists>pod stream. pod_of_job (wc_Client r) s job pod \<and>
     wc_logs r s (key_of pod) name = Inr stream \<and>
     pl_ParseVulnerabilityReportData (wc_Plugin r) (wc_PluginContext r) s im stream = Inr data)"

lemma logs_scanned:
  assumes "api_laws (wc_Client r)"
    and "GetLogsByJobAndContainerName (wc_Client r) (wc_logs r) s job name = Inr stream"
    and "pl_ParseVulnerabilityReportData (wc_Plugin r) (wc_PluginContext r) s im stream = Inr data"
  shows "scanned r s job name im data"
  using assms(2,3) getPodByJob_iff(2) [OF assms(1)]
  by (auto simp: GetLogsByJobAndContainerName_def scanned_def split: sum.splits option.splits)

text \<open>Once the reports built from the logs are written, every container has its own stored.\<close>

lemma build_reports_stored:
  assumes laws: "api_laws (wc_Client r)"
    and built: "build_reports r s job owner hash images = Inr reports"
    and keys: "distinct (map fst images)"
      "\<And>b b'. rb_controller b = owner \<Longrightarrow> rb_controller b' = owner \<Longrightarrow>
        rb_container b \<in> fst ` set images \<Longrightarrow> rb_container b' \<in> fst ` set images \<Longrightarrow>
        reportName (wc_env r) b = reportName (wc_env r) b' \<Longrightarrow> rb_container b = rb_container b'"
    and written: "Write (wc_Client r) reports s = (None, s1)"
    and ci: "(name, im) \<in> set images"
  shows "\<exists>data k y. scanned r s job name im data \<and> cl_Get (wc_Client r) s1 TVulnerabilityReport k = Inr y \<and>
    report_of (wc_env r) (ref_of owner) hash name y \<and> o_Body y = VulnerabilityReport data"
proof -
  note l = build_reports_built [OF built]
  have len: "length reports = length images" using list_all2_lengthD [OF l] by simp
  have nth: "\<exists>stream b. GetLogsByJobAndContainerName (wc_Client r) (wc_logs r) s job (fst (images ! i)) = Inr stream \<and>
      pl_ParseVulnerabilityReportData (wc_Plugin r) (wc_PluginContext r) s (snd (images ! i)) stream = Inr (rb_data b) \<and>
      ReportBuilder_Get (wc_env r) (wc_SetControllerReference r) b = Inr (reports ! i) \<and>
      rb_controller b = owner \<and> rb_container b = fst (images ! i) \<and> rb_hash b = hash" if i: "i < length images" for i
  proof -
    obtain stream data where d: "GetLogsByJobAndContainerName (wc_Client r) (wc_logs r) s job (fst (images ! i)) = Inr stream"
        "pl_ParseVulnerabilityReportData (wc_Plugin r) (wc_PluginContext r) s (snd (images ! i)) stream = Inr data"
        "ReportBuilder_Get (wc_env r) (wc_SetControllerReference r)
          \<lparr>rb_controller = owner, rb_container = fst (images ! i), rb_hash = hash, rb_data = data,
           rb_reportTTL = cfg_VulnerabilityScannerReportTTL (wc_Config r)\<rparr> = Inr (reports ! i)"
      using list_all2_nthD [OF l i] by (auto simp: case_prod_beta)
    show ?thesis
      by (rule exI [of _ stream], rule exI [of _ "\<lparr>rb_controller = owner, rb_container = fst (images ! i), rb_hash = hash,
          rb_data = data, rb_reportTTL = cfg_VulnerabilityScannerReportTTL (wc_Config r)\<rparr>"]) (simp add: d)
  qed
  have "distinct (map key_of reports)"
    unfolding distinct_conv_nth
  proof (intro allI impI)
    fix i j
    assume ij: "i < length (map key_of reports)" "j < length (map key_of reports)" "i \<noteq> j"
    then have le: "i < length images" "j < length images" using len by simp_all
    obtain b where b: "ReportBuilder_Get (wc_env r) (wc_SetControllerReference r) b = Inr (reports ! i)"
        "rb_controller b = owner" "rb_container b = fst (images ! i)" using nth [OF le(1)] by blast
    obtain b' where b': "ReportBuilder_Get (wc_env r) (wc_SetControllerReference r) b' = Inr (reports ! j)"
        "rb_controller b' = owner" "rb_container b' = fst (images ! j)" using nth [OF le(2)] by blast
    have "fst (images ! i) \<noteq> fst (images ! j)"
      using keys(1) le ij(3) by (simp add: distinct_conv_nth)
    then have "reportName (wc_env r) b \<noteq> reportName (wc_env r) b'"
      using keys(2) [OF b(2) b'(2)] b(3) b'(3) le by auto
    then show "map key_of reports ! i \<noteq> map key_of reports ! j"
      using ReportBuilder_Get_meta(3) [OF b(1)] ReportBuilder_Get_meta(3) [OF b'(1)] ij by (simp add: key_of_def)
  qed
  moreover have "\<forall>x \<in> set reports. go_type x = TVulnerabilityReport \<and> True"
    using build_reports_typed [OF built] by simp
  ultimately have stored: "\<exists>y. cl_Get (wc_Client r) s1 TVulnerabilityReport (key_of x) = Inr y \<and> stores y x"
    if "x \<in> set reports" for x
    using vuln_store.write_all_stored [OF laws _ _ written [unfolded Write_def] that] by blast
  obtain i where i: "i < length images" "images ! i = (name, im)" using ci by (auto simp: in_set_conv_nth)
  obtain stream b where b: "GetLogsByJobAndContainerName (wc_Client r) (wc_logs r) s job name = Inr stream"
      "pl_ParseVulnerabilityReportData (wc_Plugin r) (wc_PluginContext r) s im stream = Inr (rb_data b)"
      "ReportBuilder_Get (wc_env r) (wc_SetControllerReference r) b = Inr (reports ! i)"
      "rb_controller b = owner" "rb_container b = name" "rb_hash b = hash"
    using nth [OF i(1)] i(2) by auto
  obtain y where y: "cl_Get (wc_Client r) s1 TVulnerabilityReport (key_of (reports ! i)) = Inr y" "stores y (reports ! i)"
    using stored [of "reports ! i"] i(1) len by auto
  have "om_Namespace (o_Meta y) = om_Namespace (o_Meta (reports ! i))"
    using get_typed [OF laws y(1)] by (simp add: key_of_def)
  then have "report_of (wc_env r) (ref_of owner) hash name y" "o_Body y = VulnerabilityReport (rb_data b)"
    using ReportBuilder_Get_meta [OF b(3)] b(4-6) y(2) by (auto simp: report_of_def stores_def ref_of_def)
  with logs_scanned [OF laws b(1,2)] y(1) show ?thesis by blast
qed

text \<open>The branches on which the handler of a complete job removes it.\<close>

lemma complete_job_removed_cases:
  assumes "api_laws (wc_Client r)" and "go_type job = TJob"
    and "cl_Get (wc_Client r) s TJob (key_of job) = Inr job0"
    and "processCompleteScanJob r job s = (res, s')"
    and "cl_Get (wc_Client r) s' TJob (key_of job) = Inl e"
  obtains (owner_gone) ref err where "ObjectRefFromObjectMeta (o_Meta job) = Inr ref"
      "ObjectFromObjectRef (wc_Client r) s ref = Inl err" "IsNotFound err"
  | (current) ref owner images hash where "ObjectRefFromObjectMeta (o_Meta job) = Inr ref"
      "ObjectFromObjectRef (wc_Client r) s ref = Inr owner" "GetContainerImagesFromJob job = Inr images"
      "om_Labels (o_Meta job) LabelResourceSpecHash = Some hash" "hasReports r s ref hash images = Inr True"
  | (no_pod) ref owner images hash where "ObjectRefFromObjectMeta (o_Meta job) = Inr ref"
      "ObjectFromObjectRef (wc_Client r) s ref = Inr owner" "GetContainerImagesFromJob job = Inr images"
      "om_Labels (o_Meta job) LabelResourceSpecHash = Some hash"
      "build_reports r s job owner hash (range_map (wc_order r) images) = Inl ReturnDeleteJob"
  | (written) ref owner images hash reports s1 where "ObjectRefFromObjectMeta (o_Meta job) = Inr ref"
      "ObjectFromObjectRef (wc_Client r) s ref = Inr owner" "GetContainerImagesFromJob job = Inr images"
      "om_Labels (o_Meta job) LabelResourceSpecHash = Some hash"
      "build_reports r s job owner hash (range_map (wc_order r) images) = Inr reports"
      "Write (wc_Client r) reports s = (None, s1)" "deleteJob (wc_Client r) job s1 = (res, s')"
proof -
  have wr: "\<exists>s1. Write (wc_Client r) reports s = (None, s1) \<and> deleteJob (wc_Client r) job s1 = (res, s')"
    if "build_reports r s job owner h im = Inr reports"
      "and_then (Write (wc_Client r) reports s) (deleteJob (wc_Client r) job) = (res, s')" for owner h im reports
  proof (cases "Write (wc_Client r) reports s")
    case (Pair w s1)
    have "cl_Get (wc_Client r) s1 TJob (key_of job) = Inr job0"
      using Write_frame [OF assms(1) build_reports_typed [OF that(1)], of TJob s "key_of job"] Pair assms(3) by simp
    then show ?thesis using that Pair assms(5) by (cases w) auto
  qed
  have "s' \<noteq> s" using assms(3,5) by auto
  then have "\<exists>ref. ObjectRefFromObjectMeta (o_Meta job) = Inr ref \<and>
    ((\<exists>err. ObjectFromObjectRef (wc_Client r) s ref = Inl err \<and> IsNotFound err) \<or>
     (\<exists>owner images hash. ObjectFromObjectRef (wc_Client r) s ref = Inr owner \<and> GetContainerImagesFromJob job = Inr images \<and>
        om_Labels (o_Meta job) LabelResourceSpecHash = Some hash \<and>
        (hasReports r s ref hash images = Inr True \<or>
         build_reports r s job owner hash (range_map (wc_order r) images) = Inl ReturnDeleteJob \<or>
         (\<exists>reports s1. build_reports r s job owner hash (range_map (wc_order r) images) = Inr reports \<and>
            Write (wc_Client r) reports s = (None, s1) \<and> deleteJob (wc_Client r) job s1 = (res, s')))))"
    using assms(4) wr
    by (auto simp: processCompleteScanJob_def split: sum.splits option.splits early.splits bool.splits if_splits)
  then show thesis
    by (elim exE conjE disjE) (rule owner_gone current no_pod written; assumption)+
qed

text \<open>What the handler has read when it decides to submit a job.\<close>

lemma workload_decision_reads:
  assumes "workload_decision r kind req s = Inr obj"
  obtains podSpec n where "ObjectFromObjectRef (wc_Client r) s (ObjectRefFromKindAndObjectKey kind req) = Inr obj"
    "GetPodSpec obj = Inr podSpec" "skip_workload r s kind obj = Inr False"
    "hasReports r s (ObjectRefFromKindAndObjectKey kind req) (ComputeHash (wc_env r) (HPodSpec podSpec))
       (GetContainerImagesFromPodSpec podSpec) = Inr False"
    "hasActiveScanJob r s (ObjectRefFromKindAndObjectKey kind req) (ComputeHash (wc_env r) (HPodSpec podSpec)) = Inr None"
    "LimitChecker_Check (wc_Client r) (wc_Config r) (wc_ConfigData r) s = Inr (False, n)"
  using assms
  by (auto simp: workload_decision_def Let_def split: sum.splits if_splits bool.splits option.splits)

lemma not_skipped:
  assumes "skip_workload r s kind obj = Inr False"
  shows "\<forall>cr. GetControllerOf obj = Some cr \<longrightarrow>
    (kind = KindPod \<longrightarrow> or_Kind cr \<notin> {KindReplicaSet, KindReplicationController, KindStatefulSet, KindDaemonSet, KindJob}) \<and>
    (kind = KindJob \<longrightarrow> or_Kind cr \<noteq> KindCronJob) \<and>
    (kind = KindReplicaSet \<longrightarrow> cfg_VulnerabilityScannerScanOnlyCurrentRevisions (wc_Config r) \<longrightarrow> or_Kind cr = KindDeployment \<longrightarrow>
       (\<exists>d. cl_Get (wc_Client r) s TDeployment \<lparr>key_Namespace = om_Namespace (o_Meta obj), key_Name = or_Name cr\<rparr> = Inr d \<and>
          rev_annotation obj = rev_annotation d))"
  using assms
  by (auto simp: skip_workload_def IsBuiltInWorkload_def IsActiveReplicaSet_def Let_def
      split: sum.splits if_splits)

lemma no_active_job:
  assumes "hasActiveScanJob r s ref hash = Inr None"
  shows "\<forall>job. cl_Get (wc_Client r) s TJob \<lparr>key_Namespace = cfg_Namespace (wc_Config r),
      key_Name = ''scan-vulnerabilityreport-'' @ ComputeHash (wc_env r) (HObjectRef ref)\<rparr> = Inr job \<longrightarrow>
    mget (om_Labels (o_Meta job)) LabelResourceSpecHash \<noteq> hash"
  using assms by (auto simp: hasActiveScanJob_def scan_job_key_def split: sum.splits if_splits)

lemma below_limit_count:
  assumes "api_laws c" and "LimitChecker_Check c config sc s = Inr (False, n)"
  shows "int (card {k. \<exists>job. cl_Get c s TJob k = Inr job \<and> om_Labels (o_Meta job) LabelK8SAppManagedBy = Some ''starboard'' \<and>
      (VulnerabilityScanJobsInSameNamespace sc \<or> om_Namespace (o_Meta job) = cfg_Namespace config)})
    < cfg_ConcurrentScanJobsLimit config"
proof -
  have "{k. \<exists>job. cl_Get c s TJob k = Inr job \<and> om_Labels (o_Meta job) LabelK8SAppManagedBy = Some ''starboard'' \<and>
      (VulnerabilityScanJobsInSameNamespace sc \<or> om_Namespace (o_Meta job) = cfg_Namespace config)} =
    scan_job_keys c config sc s"
    by (auto simp: scan_job_keys_def scan_jobs_options_def selected_def AppStarboard_def)
  then show ?thesis using limit_check [OF assms] by simp
qed

text \<open>The only change besides secrets that submitting makes is the workload's own scan job.\<close>

lemma submitScanJob_changes:
  assumes laws: "api_laws (wc_Client r)" and typed: "plugin_typed (wc_Plugin r)" and spec: "GetPodSpec owner = Inr podSpec"
    and t: "t \<noteq> TSecret" and change: "cl_Get (wc_Client r) (snd (submitScanJob r owner s)) t k \<noteq> cl_Get (wc_Client r) s t k"
  shows "t = TJob \<and> key_Name k = ''scan-vulnerabilityreport-'' @ ComputeHash (wc_env r) (HObjectRef (ref_of owner)) \<and>
    (\<exists>e. cl_Get (wc_Client r) s TJob k = Inl e) \<and>
    (\<exists>job. cl_Get (wc_Client r) (snd (submitScanJob r owner s)) TJob k = Inr job \<and>
       om_Labels (o_Meta job) LabelK8SAppManagedBy = Some ''starboard'' \<and>
       om_Labels (o_Meta job) LabelResourceSpecHash = Some (ComputeHash (wc_env r) (HPodSpec podSpec)))"
proof -
  obtain b job secrets where b: "scan_job_builder r s owner = Inr b"
    and get: "ScanJobBuilder_Get (wc_env r) b s = Inr (job, secrets)"
    using change by (auto simp: submitScanJob_def split: sum.splits if_splits prod.splits)
  note own = scan_job_builder_fields [OF b]
  have sec: "\<forall>x \<in> set secrets. go_type x = TSecret"
    using ScanJobBuilder_secrets_typed [OF _ get] typed own(1) by simp
  have jobt: "go_type job = TJob" using get by (auto elim: scan_job_shape)
  have run: "submitScanJob r owner s = create_scan_job (''creating secret used by scan job failed'', ''creating scan job failed'',
      ''setting owner reference of secret used by scan job failed'') (wc_Client r) (wc_SetOwnerReference r) job secrets s"
    using b get by (simp add: submitScanJob_def)
  have tk: "t = TJob" "k = key_of job"
    using create_scan_job_frame [OF laws sec jobt t, of k] change unfolding run by blast+
  have lab: "om_Labels (o_Meta job) LabelK8SAppManagedBy = Some ''starboard''"
    "om_Labels (o_Meta job) LabelResourceSpecHash = Some (ComputeHash (wc_env r) (HPodSpec podSpec))"
    using scan_job_label(1,2) [OF get] spec own(2) by (simp_all add: AppStarboard_def)
  have name: "key_Name (key_of job) = ''scan-vulnerabilityreport-'' @ ComputeHash (wc_env r) (HObjectRef (ref_of owner))"
    using scan_job_label(5) [OF get] spec own(2) by (simp add: key_of_def GetScanJobName_def ref_of_def)
  have "(\<exists>e. cl_Get (wc_Client r) s TJob k = Inl e) \<and>
      (\<exists>y. cl_Get (wc_Client r) (snd (submitScanJob r owner s)) TJob k = Inr y \<and> same_content y job)"
    using change unfolding run tk by (rule create_scan_job_creates [OF laws sec jobt])
  then obtain y where y: "cl_Get (wc_Client r) (snd (submitScanJob r owner s)) TJob k = Inr y" "same_content y job"
      "\<exists>e. cl_Get (wc_Client r) s TJob k = Inl e" by blast
  have "om_Labels (o_Meta y) = om_Labels (o_Meta job)" using y(2) unfolding same_content_def by blast
  with y(1,3) tk name lab show ?thesis by simp
qed

section \<open>The controller keeps the contracts on scan jobs\<close>

definition workload_ok :: "'s WorkloadController \<Rightarrow> bool" where
  "workload_ok r \<longleftrightarrow> api_laws (wc_Client r) \<and> plugin_typed (wc_Plugin r)"

interpretation workload_scheduler: scan_scheduler workload_ok wc_Client wc_Config wc_ConfigData
    "\<lambda>r (kind, req). workload_decision r kind req" submitScanJob
proof unfold_locales
  fix r :: "'s WorkloadController" and q s obj err s'
  assume r: "workload_ok r"
  then have laws: "api_laws (wc_Client r)" "plugin_typed (wc_Plugin r)" by (simp_all add: workload_ok_def)
  show "\<exists>n. LimitChecker_Check (wc_Client r) (wc_Config r) (wc_ConfigData r) s = Inr (False, n)"
    if "(case q of (kind, req) \<Rightarrow> workload_decision r kind req) s = Inr obj"
    using that workload_decision_below by (cases q) auto
  show "\<exists>k0. \<forall>t k. t \<noteq> TSecret \<longrightarrow> (t, k) \<noteq> (TJob, k0) \<longrightarrow> cl_Get (wc_Client r) s' t k = cl_Get (wc_Client r) s t k"
    if "submitScanJob r obj s = (err, s')"
    using submitScanJob_frame [OF laws, of obj s] that by simp
qed (simp add: workload_ok_def)

interpretation workload_jobs: job_processor workload_ok wc_Client reconcileJobs
  unfolding reconcileJobs_def
  by (rule dispatch_job_processor)
     (simp_all add: workload_ok_def processCompleteScanJob_own processFailedScanJob_own)

section \<open>Properties\<close>

text \<open>
  C1. A complete scan job leaves its workload scanned: when the handler succeeds and the logs of
  every container could be read and parsed, then the job is gone, every container of the workload
  has a stored report with the data parsed from its logs, and the next look at the workload finds
  its reports up to date, so it is not scanned again. (The reports must have different names and no
  older report of the same owner and hash may exist for a container the workload does not have.)
\<close>

theorem complete_scan_job_stores_reports:
  assumes "api_laws (wc_Client r)" and "law_scheme (wc_Client r)" and "perm_order (wc_order r)"
    and "go_type job = TJob"
    and "ObjectRefFromObjectMeta (o_Meta job) = Inr ownerRef"
    and "ObjectFromObjectRef (wc_Client r) s ownerRef = Inr owner"
    and "GetContainerImagesFromJob job = Inr images"
    and "om_Labels (o_Meta job) LabelResourceSpecHash = Some hash"
    and "hasReports r s ownerRef hash images = Inr False"
    and "build_reports r s job owner hash (range_map (wc_order r) images) = Inr reports"
    and "distinct (map key_of reports)"
    and "\<And>y k n. cl_Get (wc_Client r) s TVulnerabilityReport k = Inr y \<Longrightarrow>
      selected (owner_options (wc_env r) ownerRef) y \<Longrightarrow> report_container hash y = Some n \<Longrightarrow>
      n \<in> fst ` set images"
    and "processCompleteScanJob r job s = (None, s')"
    and "FindByOwner (wc_env r) (wc_Client r) s' ownerRef = Inr found"
  shows "cl_Get (wc_Client r) s' TJob (key_of job) = Inl NotFound \<and>
    hasReports r s' ownerRef hash images = Inr True \<and>
    (\<forall>x \<in> set reports. \<exists>y. cl_Get (wc_Client r) s' TVulnerabilityReport (key_of x) = Inr y \<and> stores y x)"
proof -
  let ?c = "wc_Client r"
  have ref: "ownerRef = ref_of owner" using ObjectFromObjectRef_ref [OF assms(1,2,6)] by simp
  have "and_then (Write ?c reports s) (deleteJob ?c job) = (None, s')"
    using assms(5-10,13) by (simp add: processCompleteScanJob_def)
  then obtain s1 where w: "Write ?c reports s = (None, s1)" and d: "deleteJob ?c job s1 = (None, s')"
    by (auto simp: and_then_None_iff)
  note del = deleteJob_ok [OF assms(1,4) d]
  have same: "cl_Get ?c s' TVulnerabilityReport k = cl_Get ?c s1 TVulnerabilityReport k" for k
    using del(2) by (simp add: only_changes_def)
  have typed: "\<forall>x \<in> set reports. go_type x = TVulnerabilityReport \<and> True"
    using build_reports_typed [OF assms(10)] by simp
  have "hasReports r s' (ref_of owner) hash images = Inr True"
    using hasReports_after_write [OF assms(1,10,3) images_of_job_distinct [OF assms(7)] assms(11) w _ same]
      assms(12,14) ref by blast
  moreover have "\<exists>y. cl_Get ?c s' TVulnerabilityReport (key_of x) = Inr y \<and> stores y x" if "x \<in> set reports" for x
    using vuln_store.write_all_stored [OF assms(1) typed assms(11) w [unfolded Write_def] that] same by simp
  ultimately show ?thesis using del(1) ref by blast
qed

definition sample_controller :: "Object list WorkloadController" where
  "sample_controller = \<lparr>wc_Config = sample_config, wc_Client = mem_client, wc_env = sample_env,
     wc_logs = (\<lambda>_ _ _. Inr ''log''), wc_registry = (\<lambda>_. Inr ''index.docker.io''), wc_order = rev,
     wc_Plugin = sample_plugin, wc_PluginContext = sample_context, wc_ConfigData = Map.empty,
     wc_tolerations = (\<lambda>_. Inr []), wc_SetControllerReference = (\<lambda>_ _. Inr []),
     wc_SetOwnerReference = (\<lambda>_ _. Inr [])\<rparr>"

definition sample_job_pod :: Object where
  "sample_job_pod = \<lparr>o_Kind = KindPod, o_Meta = empty_meta\<lparr>om_Name := ''scan-pod'', om_Namespace := ''starboard'',
     om_Labels := [''controller-uid'' \<mapsto> []]\<rparr>,
     o_Body = Pod empty_PodSpec \<lparr>pst_InitContainerStatuses = [], pst_ContainerStatuses = []\<rparr>\<rparr>"

definition sample_job :: Object where
  "sample_job = (case ScanJobBuilder_Get sample_env sample_builder () of Inr (job, _) \<Rightarrow> job
     | Inl _ \<Rightarrow> sample_pod)"

definition sample_state :: "Object list" where
  "sample_state = [sample_job, sample_pod, sample_job_pod]"

lemma sample_job_built: "ScanJobBuilder_Get sample_env sample_builder s = Inr (sample_job, [])"
  by (simp add: sample_job_def ScanJobBuilder_Get_def AsJSON_def sample_builder_def sample_plugin_def
      sample_pod_def GetPodSpec_def updateScanJobForWorkloadNamespace_def Let_def sample_context_def
      VulnerabilityScanJobsInSameNamespace_def)

lemma sample_spec: "GetPodSpec (sjb_object sample_builder) = Inr sample_podspec"
  by (simp add: sample_builder_def sample_pod_def GetPodSpec_def)

lemma sample_job_meta:
  "go_type sample_job = TJob" "om_Namespace (o_Meta sample_job) = ''starboard''"
  "match_labels (o_Body sample_job) = []"
  by (simp_all add: sample_job_def ScanJobBuilder_Get_def AsJSON_def sample_builder_def sample_plugin_def
      sample_pod_def GetPodSpec_def updateScanJobForWorkloadNamespace_def Let_def sample_context_def
      VulnerabilityScanJobsInSameNamespace_def)

lemma sample_reads:
  "mem_Get sample_state TJob (key_of sample_job) = Inr sample_job"
  "mem_Get sample_state TPod \<lparr>key_Namespace = ''prod'', key_Name = ''web''\<rparr> = Inr sample_pod"
  "mem_Get sample_state TVulnerabilityReport k = Inl NotFound"
  using sample_job_meta by (simp_all add: sample_state_def mem_Get_def sample_pod_def sample_job_pod_def key_of_def)

lemma sample_job_recovers:
  "ObjectRefFromObjectMeta (o_Meta sample_job) = Inr (ref_of sample_pod)"
  "GetContainerImagesFromJob sample_job = Inr [(''nginx'', ''nginx:1.16'')]"
  "om_Labels (o_Meta sample_job) LabelResourceSpecHash = Some (ComputeHash sample_env (HPodSpec sample_podspec))"
proof -
  have obj: "sjb_object sample_builder = sample_pod" by (simp add: sample_builder_def)
  from scan_job_metadata [OF sample_job_built sample_spec] obtain images where
    ref: "ObjectRefFromObjectMeta (o_Meta sample_job) = Inr (ref_of sample_pod)" and
    im: "GetContainerImagesFromJob sample_job = Inr images" "distinct (map fst images)"
      "map_of images = map_of (GetContainerImagesFromPodSpec sample_podspec)" and
    hash: "om_Labels (o_Meta sample_job) LabelResourceSpecHash = Some (ComputeHash sample_env (HPodSpec sample_podspec))"
    by (auto simp: obj)
  have "GetContainerImagesFromPodSpec sample_podspec = [(''nginx'', ''nginx:1.16'')]"
    by (simp add: GetContainerImagesFromPodSpec_def sample_podspec_def sample_container_def)
  then have "set images = set [(''nginx'', ''nginx:1.16'')]"
    using map_of_inject_set [OF im(2), of "[(''nginx'', ''nginx:1.16'')]"] im(3) by simp
  then have "images = [(''nginx'', ''nginx:1.16'')]" using im(2) by (cases images; cases "tl images") auto
  then show "ObjectRefFromObjectMeta (o_Meta sample_job) = Inr (ref_of sample_pod)"
    "GetContainerImagesFromJob sample_job = Inr [(''nginx'', ''nginx:1.16'')]"
    "om_Labels (o_Meta sample_job) LabelResourceSpecHash = Some (ComputeHash sample_env (HPodSpec sample_podspec))"
    using ref im(1) hash by simp_all
qed

lemma sample_controller_sel [simp]:
  "wc_Client sample_controller = mem_client" "wc_env sample_controller = sample_env"
  "wc_order sample_controller = rev" "wc_Config sample_controller = sample_config"
  "wc_ConfigData sample_controller = Map.empty" "wc_logs sample_controller = (\<lambda>_ _ _. Inr ''log'')"
  by (simp_all add: sample_controller_def)

lemma sample_find: "FindByOwner sample_env mem_client st owner = Inr (filter (\<lambda>x. go_type x = TVulnerabilityReport \<and>
    selected (owner_options sample_env owner) x) (firsts st))"
  by (simp add: FindByOwner_def mem_List_def owner_options_def Let_def)

text \<open>The reads of the handler on the sample, and its run.\<close>

lemma sample_handler_reads:
  "ObjectFromObjectRef mem_client sample_state (ref_of sample_pod) = Inr sample_pod"
  "hasReports sample_controller sample_state ref h [(''nginx'', ''nginx:1.16'')] = Inr False"
  "getPodByJob mem_client sample_state sample_job = Inr (Some sample_job_pod)"
proof -
  show "ObjectFromObjectRef mem_client sample_state (ref_of sample_pod) = Inr sample_pod"
    using sample_reads(2) by (simp add: ObjectFromObjectRef_def ref_of_def sample_pod_def ensureGVK_def)
  have "filter (\<lambda>x. go_type x = TVulnerabilityReport \<and> P x) (firsts sample_state) = []" for P
    using sample_reads(3) by (auto simp: filter_empty_conv firsts_set)
  then show "hasReports sample_controller sample_state ref h [(''nginx'', ''nginx:1.16'')] = Inr False"
    by (simp add: hasReports_def sample_find List.map_filter_def)
  show "getPodByJob mem_client sample_state sample_job = Inr (Some sample_job_pod)"
    using sample_job_meta sample_reads(1)
    by (simp add: getPodByJob_def mem_List_def sample_state_def selected_def same_id_def
        sample_pod_def sample_job_pod_def key_of_def mget_def Let_def)
qed

lemma sample_handler_run:
  obtains x s' where "build_reports sample_controller sample_state sample_job sample_pod
        (ComputeHash sample_env (HPodSpec sample_podspec)) [(''nginx'', ''nginx:1.16'')] = Inr [x]"
    "processCompleteScanJob sample_controller sample_job sample_state = (None, s')"
    "mem_Get s' TJob (key_of sample_job) = Inl NotFound"
proof -
  let ?h = "ComputeHash sample_env (HPodSpec sample_podspec)"
  obtain x where x: "ReportBuilder_Get sample_env (\<lambda>_ _. Inr [])
      \<lparr>rb_controller = sample_pod, rb_container = ''nginx'', rb_hash = ?h, rb_data = sample_data,
       rb_reportTTL = None\<rparr> = Inr x"
    by (simp add: ReportBuilder_Get_def Let_def)
  have build: "build_reports sample_controller sample_state sample_job sample_pod ?h [(''nginx'', ''nginx:1.16'')] = Inr [x]"
    using x by (simp add: GetLogsByJobAndContainerName_def sample_handler_reads)
      (simp add: sample_controller_def sample_plugin_def sample_config_def default_Config_def)
  have xt: "go_type x = TVulnerabilityReport" using ReportBuilder_Get_meta(1) [OF x] .
  have absent: "\<forall>y \<in> set sample_state. \<not> same_id x y"
    using sample_job_meta(1) xt by (auto simp: sample_state_def same_id_def sample_pod_def sample_job_pod_def)
  have w: "Write mem_client [x] sample_state = (None, x # sample_state)"
    using sample_reads(3) absent xt by (simp add: Write_def createOrUpdate_def upsert_def mem_Create_def)
  obtain s' where p: "processCompleteScanJob sample_controller sample_job sample_state = (None, s')"
      "deleteJob mem_client sample_job (x # sample_state) = (None, s')"
    using sample_job_recovers sample_handler_reads build w
    by (simp add: processCompleteScanJob_def deleteJob_def mem_Delete_def sample_state_def)
  have "mem_Get s' TJob (key_of sample_job) = Inl NotFound"
    using deleteJob_ok(1) [OF mem_laws sample_job_meta(1) p(2)] by simp
  with build p(1) show thesis by (rule that)
qed

theorem complete_scan_job_stores_reports_witness:
  "\<exists>images hash s'. GetContainerImagesFromJob sample_job = Inr images \<and>
     processCompleteScanJob sample_controller sample_job sample_state = (None, s') \<and>
     cl_Get mem_client s' TJob (key_of sample_job) = Inl NotFound \<and>
     hasReports sample_controller s' (ref_of sample_pod) hash images = Inr True"
proof -
  let ?r = sample_controller and ?s = sample_state and ?h = "ComputeHash sample_env (HPodSpec sample_podspec)"
  obtain x s' where run: "build_reports ?r ?s sample_job sample_pod ?h [(''nginx'', ''nginx:1.16'')] = Inr [x]"
      "processCompleteScanJob ?r sample_job ?s = (None, s')" by (rule sample_handler_run)
  have "cl_Get (wc_Client ?r) s' TJob (key_of sample_job) = Inl NotFound \<and>
      hasReports ?r s' (ref_of sample_pod) ?h [(''nginx'', ''nginx:1.16'')] = Inr True \<and>
      (\<forall>x' \<in> set [x]. \<exists>y. cl_Get (wc_Client ?r) s' TVulnerabilityReport (key_of x') = Inr y \<and> stores y x')"
    by (rule complete_scan_job_stores_reports [where owner = sample_pod and s = ?s])
       (use run sample_job_recovers sample_handler_reads sample_job_meta(1) sample_reads(3) sample_find mem_laws mem_scheme
         in auto)
  with run sample_job_recovers(2) show ?thesis by auto
qed


text \<open>
  C2. Scan results are not lost: when processing a complete job removes the job from the cluster,
  then the workload itself is gone, or the stored reports of the job's pod specification were
  already those of exactly the job's containers, or no pod of the job exists any more (so there are
  no logs), or for every container of the job the logs of a pod of the job were parsed and a report
  of the workload, the container and the specification with exactly that data is stored. In
  particular an error of the parser or of a write keeps the job for another attempt. (The
  containers must not share a report name, and the errors of the API client and of the log stream
  are not the private one by which the package \<^verbatim>\<open>kube\<close> reports a missing pod.)
\<close>

theorem scan_job_removed_only_when_done:
  assumes "api_laws (wc_Client r)" and "law_scheme (wc_Client r)" and "perm_order (wc_order r)"
    and "foreign_errors (wc_Client r) (wc_logs r) s" and "go_type job = TJob"
    and "cl_Get (wc_Client r) s TJob (key_of job) = Inr job0"
    and "\<And>images b b'. GetContainerImagesFromJob job = Inr images \<Longrightarrow>
      rb_container b \<in> fst ` set images \<Longrightarrow> rb_container b' \<in> fst ` set images \<Longrightarrow>
      ObjectRefFromObjectMeta (o_Meta job) = Inr (ref_of (rb_controller b)) \<Longrightarrow> rb_controller b' = rb_controller b \<Longrightarrow>
      reportName (wc_env r) b = reportName (wc_env r) b' \<Longrightarrow> rb_container b = rb_container b'"
    and "processCompleteScanJob r job s = (res, s')"
    and "cl_Get (wc_Client r) s' TJob (key_of job) = Inl e"
  shows "\<exists>ref. ObjectRefFromObjectMeta (o_Meta job) = Inr ref \<and>
    ((\<exists>err. ObjectFromObjectRef (wc_Client r) s ref = Inl err \<and> IsNotFound err) \<or>
     (\<exists>images hash. GetContainerImagesFromJob job = Inr images \<and>
        om_Labels (o_Meta job) LabelResourceSpecHash = Some hash \<and>
        ({name. has_report (wc_Client r) (wc_env r) s ref hash name} = fst ` set images \<or>
         (\<forall>pod. \<not> pod_of_job (wc_Client r) s job pod) \<or>
         (\<forall>(name, im) \<in> set images. \<exists>data k y. scanned r s job name im data \<and>
            cl_Get (wc_Client r) s' TVulnerabilityReport k = Inr y \<and>
            report_of (wc_env r) ref hash name y \<and> o_Body y = VulnerabilityReport data))))"
  using assms(1,5,6,8,9)
proof (cases rule: complete_job_removed_cases)
  case (current ref owner images hash)
  then show ?thesis using hasReports_iff [OF assms(1) current(5)] by blast
next
  case (no_pod ref owner images hash)
  have "\<forall>pod. \<not> pod_of_job (wc_Client r) s job pod"
    using getPodByJob_iff(1) [OF assms(1)] build_reports_pod_gone [OF assms(4) no_pod(5)] by blast
  with no_pod(1,3,4) show ?thesis by blast
next
  case (written ref owner images hash reports s1)
  note refo = ObjectFromObjectRef_ref [OF assms(1,2) written(2)]
  note dist = images_of_job_distinct [OF written(3)]
  have same: "cl_Get (wc_Client r) s' TVulnerabilityReport k = cl_Get (wc_Client r) s1 TVulnerabilityReport k" for k
    using deleteJob_frame [OF assms(1,5), of TVulnerabilityReport k s1] written(7) by simp
  have images: "set (range_map (wc_order r) images) = set images" "distinct (map fst (range_map (wc_order r) images))"
    by (rule range_map_set [OF assms(3) dist], rule range_map_distinct [OF assms(3) dist])
  have names: "rb_container b = rb_container b'"
    if "rb_controller b = owner" "rb_controller b' = owner" "rb_container b \<in> fst ` set (range_map (wc_order r) images)"
      "rb_container b' \<in> fst ` set (range_map (wc_order r) images)" "reportName (wc_env r) b = reportName (wc_env r) b'" for b b'
    using assms(7) [OF written(3), of b b'] that images(1) written(1) refo by simp
  have "\<exists>data k y. scanned r s job name im data \<and> cl_Get (wc_Client r) s' TVulnerabilityReport k = Inr y \<and>
      report_of (wc_env r) ref hash name y \<and> o_Body y = VulnerabilityReport data" if "(name, im) \<in> set images" for name im
    unfolding same
    by (rule build_reports_stored [OF assms(1) written(5) images(2) names written(6), unfolded refo images(1), OF _ _ _ _ _ that])
  with written(1,3,4) show ?thesis by blast
qed blast

theorem scan_job_removed_only_when_done_witness:
  "\<exists>s' k y. processCompleteScanJob sample_controller sample_job sample_state = (None, s') \<and>
     mem_Get s' TVulnerabilityReport k = Inr y \<and>
     report_of sample_env (ref_of sample_pod) (ComputeHash sample_env (HPodSpec sample_podspec)) ''nginx'' y"
proof -
  let ?r = sample_controller and ?s = sample_state and ?h = "ComputeHash sample_env (HPodSpec sample_podspec)"
  obtain s' where run: "processCompleteScanJob ?r sample_job ?s = (None, s')"
      "mem_Get s' TJob (key_of sample_job) = Inl NotFound" by (rule sample_handler_run)
  have foreign: "foreign_errors mem_client (\<lambda>_ _ _. Inr ''log'') ?s"
    by (auto simp: foreign_errors_def IsPodControlledByJobNotFound_def mem_Get_def mem_List_def Let_def
        split: option.splits if_splits)
  have pod: "pod_of_job mem_client ?s sample_job sample_job_pod"
    using getPodByJob_iff(2) [OF mem_laws sample_handler_reads(3)] .
  have "{name. has_report mem_client sample_env ?s (ref_of sample_pod) ?h name} \<noteq> {''nginx''}"
    using sample_reads(3) by (auto simp: has_report_def)
  moreover have "\<exists>ref. ObjectRefFromObjectMeta (o_Meta sample_job) = Inr ref \<and>
    ((\<exists>err. ObjectFromObjectRef (wc_Client ?r) ?s ref = Inl err \<and> IsNotFound err) \<or>
     (\<exists>images hash. GetContainerImagesFromJob sample_job = Inr images \<and>
        om_Labels (o_Meta sample_job) LabelResourceSpecHash = Some hash \<and>
        ({name. has_report (wc_Client ?r) (wc_env ?r) ?s ref hash name} = fst ` set images \<or>
         (\<forall>pod. \<not> pod_of_job (wc_Client ?r) ?s sample_job pod) \<or>
         (\<forall>(name, im) \<in> set images. \<exists>data k y. scanned ?r ?s sample_job name im data \<and>
            cl_Get (wc_Client ?r) s' TVulnerabilityReport k = Inr y \<and>
            report_of (wc_env ?r) ref hash name y \<and> o_Body y = VulnerabilityReport data))))"
    by (rule scan_job_removed_only_when_done [where res = None and e = NotFound and job0 = sample_job])
       (use run foreign mem_laws mem_scheme sample_job_meta(1) sample_reads(1) sample_job_recovers(2) in auto)
  ultimately show ?thesis
    using run(1) pod sample_job_recovers sample_handler_reads(1) by auto
qed

text \<open>
  C3. A workload is scanned only when it needs to be. When a reconciliation changes the cluster,
  then the workload exists; it is not a pod of a built-in controller, not a job of a cron job and,
  if only current revisions are scanned, not a replica set whose revision differs from that of its
  deployment; the containers with a stored report for the current pod specification are not exactly
  the containers of the pod specification; the scan job of the workload does not exist or was made
  for another specification; and the number of jobs managed by Starboard (in the operator's
  namespace, or in all namespaces if jobs run beside the workloads) is below the limit. What changes
  is at most one object beside secrets: the scan job of this workload, which did not exist before
  and which carries the hash of the specification and the label by which it is counted.
\<close>

theorem scan_submitted_only_if_needed:
  assumes "api_laws (wc_Client r)" and "law_scheme (wc_Client r)" and "plugin_typed (wc_Plugin r)"
    and "reconcileWorkload r kind req s = (res, s')" and "s' \<noteq> s"
  shows "\<exists>obj podSpec. let c = wc_Client r; E = wc_env r; ref = ObjectRefFromKindAndObjectKey kind req;
      hash = ComputeHash E (HPodSpec podSpec);
      jobName = ''scan-vulnerabilityreport-'' @ ComputeHash E (HObjectRef ref) in
    ObjectFromObjectRef c s ref = Inr obj \<and> GetPodSpec obj = Inr podSpec \<and>
    (\<forall>cr. GetControllerOf obj = Some cr \<longrightarrow>
       (kind = KindPod \<longrightarrow> or_Kind cr \<notin> {KindReplicaSet, KindReplicationController, KindStatefulSet, KindDaemonSet, KindJob}) \<and>
       (kind = KindJob \<longrightarrow> or_Kind cr \<noteq> KindCronJob) \<and>
       (kind = KindReplicaSet \<longrightarrow> cfg_VulnerabilityScannerScanOnlyCurrentRevisions (wc_Config r) \<longrightarrow> or_Kind cr = KindDeployment \<longrightarrow>
          (\<exists>d. cl_Get c s TDeployment \<lparr>key_Namespace = om_Namespace (o_Meta obj), key_Name = or_Name cr\<rparr> = Inr d \<and>
             rev_annotation obj = rev_annotation d))) \<and>
    {name. has_report c E s ref hash name} \<noteq> co_Name ` set (ps_Containers podSpec) \<and>
    (\<forall>job. cl_Get c s TJob \<lparr>key_Namespace = cfg_Namespace (wc_Config r), key_Name = jobName\<rparr> = Inr job \<longrightarrow>
       mget (om_Labels (o_Meta job)) LabelResourceSpecHash \<noteq> hash) \<and>
    int (card {k. \<exists>job. cl_Get c s TJob k = Inr job \<and> om_Labels (o_Meta job) LabelK8SAppManagedBy = Some ''starboard'' \<and>
       (VulnerabilityScanJobsInSameNamespace (wc_ConfigData r) \<or> om_Namespace (o_Meta job) = cfg_Namespace (wc_Config r))})
      < cfg_ConcurrentScanJobsLimit (wc_Config r) \<and>
    (\<forall>t k. t \<noteq> TSecret \<longrightarrow> cl_Get c s' t k \<noteq> cl_Get c s t k \<longrightarrow>
       t = TJob \<and> key_Name k = jobName \<and> (\<exists>e. cl_Get c s TJob k = Inl e) \<and>
       (\<exists>job. cl_Get c s' TJob k = Inr job \<and> om_Labels (o_Meta job) LabelK8SAppManagedBy = Some ''starboard'' \<and>
          om_Labels (o_Meta job) LabelResourceSpecHash = Some hash))"
proof -
  let ?ref = "ObjectRefFromKindAndObjectKey kind req"
  obtain obj where dec: "workload_decision r kind req s = Inr obj" and sub: "s' = snd (submitScanJob r obj s)"
    using assms(4,5) by (auto simp: reconcileWorkload_def decide_then_def split: sum.splits) (metis snd_conv snd_finish)
  obtain podSpec n where d: "ObjectFromObjectRef (wc_Client r) s ?ref = Inr obj" "GetPodSpec obj = Inr podSpec"
      "skip_workload r s kind obj = Inr False"
      "hasReports r s ?ref (ComputeHash (wc_env r) (HPodSpec podSpec)) (GetContainerImagesFromPodSpec podSpec) = Inr False"
      "hasActiveScanJob r s ?ref (ComputeHash (wc_env r) (HPodSpec podSpec)) = Inr None"
      "LimitChecker_Check (wc_Client r) (wc_Config r) (wc_ConfigData r) s = Inr (False, n)"
    by (rule workload_decision_reads [OF dec])
  note ref = ObjectFromObjectRef_ref [OF assms(1,2) d(1)]
  show ?thesis
    unfolding Let_def
    using d(1,2) not_skipped [OF d(3)] hasReports_iff [OF assms(1) d(4)] no_active_job [OF d(5)]
      below_limit_count [OF assms(1) d(6)] submitScanJob_changes [OF assms(1,3) d(2), of _ s] ref
    by (intro exI [of _ obj] exI [of _ podSpec] conjI)
       (simp_all add: GetContainerImages_keys sub)
qed

definition sample_account :: Object where
  "sample_account = \<lparr>o_Kind = [], o_Meta = empty_meta\<lparr>om_Name := ''default'', om_Namespace := ''prod''\<rparr>,
     o_Body = ServiceAccount [] None\<rparr>"

lemma sample_fields: "go_type sample_pod = TPod" "go_type sample_account = TServiceAccount" "go_type sample_job_pod = TPod"
    "om_Namespace (o_Meta sample_pod) = ''prod''" "sa_imagePullSecrets (o_Body sample_account) = []"
    "ps_ImagePullSecrets sample_podspec = []" "ps_ServiceAccountName sample_podspec = []" "GetPodSpec sample_pod = Inr sample_podspec"
    "GetControllerOf sample_pod = None" "GetContainerImagesFromPodSpec sample_podspec = [(''nginx'', ''nginx:1.16'')]"
  by (simp_all add: sample_pod_def sample_account_def sample_podspec_def empty_PodSpec_def sample_job_pod_def GetPodSpec_def
      GetControllerOf_def empty_meta_def GetContainerImagesFromPodSpec_def sample_container_def)

lemma sample_credentials:
  assumes "mem_Get s TServiceAccount \<lparr>key_Namespace = ''prod'', key_Name = ''default''\<rparr> = Inr sample_account"
  shows "CredentialsByWorkload mem_client (\<lambda>_. Inr ''index.docker.io'') rev s sample_pod = Inr []"
  by (simp add: CredentialsByWorkload_def ListImagePullSecretsByPodSpec_def ListByLocalObjectReferences_def sample_fields
      serviceAccountDefault_def ListByServiceAccount_def assms MapContainerNamesToDockerAuths_def
      MapDockerRegistryServersToAuths_def GetServerFromImageRef_def)

lemma sample_own:
  assumes "mem_Get s TPod \<lparr>key_Namespace = ''prod'', key_Name = ''web''\<rparr> = Inr sample_pod"
  shows "ObjectFromObjectRef mem_client s (ref_of sample_pod) = Inr sample_pod"
  using assms by (simp add: ObjectFromObjectRef_def ref_of_def sample_pod_def ensureGVK_def)

theorem scan_submitted_only_if_needed_witness:
  "\<exists>res s'. reconcileWorkload sample_controller KindPod \<lparr>key_Namespace = ''prod'', key_Name = ''web''\<rparr>
      [sample_pod, sample_account] = (res, s') \<and> s' \<noteq> [sample_pod, sample_account] \<and>
    (\<forall>t k. t \<noteq> TSecret \<longrightarrow> mem_Get s' t k \<noteq> mem_Get [sample_pod, sample_account] t k \<longrightarrow>
       t = TJob \<and> key_Name k = ''scan-vulnerabilityreport-'' @ ComputeHash sample_env (HObjectRef (ref_of sample_pod)))"
proof -
  let ?s = "[sample_pod, sample_account]" and ?r = sample_controller
  let ?req = "\<lparr>key_Namespace = ''prod'', key_Name = ''web''\<rparr>"
  have c: "wc_Client ?r = mem_client" "wc_env ?r = sample_env" "wc_order ?r = rev"
    "wc_Config ?r = sample_config" "wc_ConfigData ?r = Map.empty"
    by (simp_all add: sample_controller_def)
  have reads: "mem_Get ?s TPod ?req = Inr sample_pod"
    "mem_Get ?s TServiceAccount \<lparr>key_Namespace = ''prod'', key_Name = ''default''\<rparr> = Inr sample_account"
    "mem_Get ?s TJob k = Inl NotFound" for k
    by (simp_all add: mem_Get_def sample_pod_def sample_account_def key_of_def)
  have ref: "ObjectRefFromKindAndObjectKey KindPod ?req = ref_of sample_pod"
    by (simp add: ObjectRefFromKindAndObjectKey_def ref_of_def sample_pod_def)
  note own = sample_own [OF reads(1)] and cred = sample_credentials [OF reads(2)]
  have skip: "skip_workload ?r ?s KindPod sample_pod = Inr False"
    by (simp add: skip_workload_def sample_fields IsBuiltInWorkload_def kube_simps)
  have list: "mem_List ?s (Some t) opts = Inr []" if "t \<noteq> TPod" "t \<noteq> TServiceAccount" "lo_Limit opts = None" for t opts
    using that by (simp add: mem_List_def Let_def sample_pod_def sample_account_def same_id_def)
  have has: "hasReports ?r ?s (ref_of sample_pod) h [(''nginx'', ''nginx:1.16'')] = Inr False" for h
    by (simp add: hasReports_def FindByOwner_def c list owner_options_def List.map_filter_def)
  have act: "hasActiveScanJob ?r ?s ref h = Inr None" for ref h
    by (simp add: hasActiveScanJob_def c reads)
  have lim: "LimitChecker_Check mem_client sample_config Map.empty ?s = Inr (False, 0)"
    by (simp add: LimitChecker_Check_def countScanJobs_def list scan_jobs_options_def sample_config_def default_Config_def)
  have b: "scan_job_builder ?r ?s sample_pod = Inr sample_builder"
    using cred
    by (simp add: scan_job_builder_def sample_controller_def GetScanJobTolerations_def GetScanJobAnnotations_def
        GetScanJobPodTemplateLabels_def parse_pairs_def sample_builder_def sample_config_def default_Config_def)
  have sub: "submitScanJob ?r sample_pod ?s = (None, sample_job # ?s)"
    using sample_job_meta(1)
    by (simp add: submitScanJob_def create_scan_job_def b c sample_job_built mem_Create_def same_id_def sample_fields)
  have run: "reconcileWorkload ?r KindPod ?req ?s = (Inr no_requeue, sample_job # ?s)"
    by (simp add: reconcileWorkload_def decide_then_def workload_decision_def ref c own skip sample_fields has act lim sub)
  have typed: "plugin_typed (wc_Plugin ?r)" by (simp add: sample_controller_def plugin_typed_def sample_plugin_def)
  have "(\<forall>t k. t \<noteq> TSecret \<longrightarrow> mem_Get (sample_job # ?s) t k \<noteq> mem_Get ?s t k \<longrightarrow>
      t = TJob \<and> key_Name k = ''scan-vulnerabilityreport-'' @ ComputeHash sample_env (HObjectRef (ref_of sample_pod)))"
    using scan_submitted_only_if_needed [of ?r KindPod ?req ?s _ "sample_job # ?s", OF _ _ typed run]
    by (simp add: c mem_laws mem_scheme ref Let_def) blast
  with run show ?thesis by auto
qed

end
