(* ===== verification/Config_Audit.thy ===== *)
theory Config_Audit
  imports Vulnerability_Controller
begin

text \<open>
  Package \<^verbatim>\<open>pkg/configauditreport\<close>, files \<^verbatim>\<open>io.go\<close>, \<^verbatim>\<open>builder.go\<close> and \<^verbatim>\<open>plugin.go\<close>: storing and
  finding configuration audit reports of namespaced and of cluster-scoped resources, building the
  reports and the scan jobs of plugin-based auditing.
\<close>

section \<open>Storing and finding reports\<close>

definition WriteReport :: "'s client \<Rightarrow> Object \<Rightarrow> 's \<Rightarrow> error option \<times> 's" where
  "WriteReport c report s = upsert TConfigAuditReport c (key_of report) report s"

definition WriteClusterReport :: "'s client \<Rightarrow> Object \<Rightarrow> 's \<Rightarrow> error option \<times> 's" where
  "WriteClusterReport c report s =
     upsert TClusterConfigAuditReport c \<lparr>key_Namespace = [], key_Name = om_Name (o_Meta report)\<rparr> report s"

definition first_item :: "error + Object list \<Rightarrow> error + Object option" where
  "first_item r = (case r of Inl e \<Rightarrow> Inl e | Inr [] \<Rightarrow> Inr None | Inr (x # _) \<Rightarrow> Inr (Some x))"

definition FindReportByOwner :: "env \<Rightarrow> 's client \<Rightarrow> 's \<Rightarrow> ObjectRef \<Rightarrow> error + Object option" where
  "FindReportByOwner E c s owner = first_item (cl_List c s (Some TConfigAuditReport) (owner_options E owner))"

definition FindReportByOwnerInHierarchy ::
    "env \<Rightarrow> 's client \<Rightarrow> 's \<Rightarrow> ObjectRef \<Rightarrow> error + Object option" where
  "FindReportByOwnerInHierarchy E c s owner =
     (case FindReportByOwner E c s owner of
        Inl e \<Rightarrow> Inl e
      | Inr report \<Rightarrow>
          if report = None \<and> (ref_Kind owner = KindDeployment \<or> ref_Kind owner = KindPod) then
            (case RelatedReplicaSetName c s owner of
               Inl e \<Rightarrow> Inl (Wrap ''getting replicaset related to'' e)
             | Inr rsName \<Rightarrow>
                 (case FindReportByOwner E c s \<lparr>ref_Kind = KindReplicaSet, ref_Name = rsName,
                         ref_Namespace = ref_Namespace owner\<rparr> of
                    Inl _ \<Rightarrow> Inr None
                  | Inr report' \<Rightarrow> Inr report'))
          else Inr report)"

definition cluster_owner_options :: "env \<Rightarrow> ObjectRef \<Rightarrow> ListOptions" where
  "cluster_owner_options E owner = (owner_options E owner)\<lparr>lo_Namespace := None\<rparr>"

definition FindClusterReportByOwner :: "env \<Rightarrow> 's client \<Rightarrow> 's \<Rightarrow> ObjectRef \<Rightarrow> error + Object option" where
  "FindClusterReportByOwner E c s owner =
     first_item (cl_List c s (Some TClusterConfigAuditReport) (cluster_owner_options E owner))"

section \<open>Reports\<close>

record AuditReportBuilder =
  ab_controller :: Object
  ab_resourceSpecHash :: string
  ab_pluginConfigHash :: string
  ab_data :: ConfigAuditReportData

text \<open>The name depends only on the controller.\<close>

definition resource_report_name :: "env \<Rightarrow> Object \<Rightarrow> string" where
  "resource_report_name E controller =
     (let kind = o_Kind controller;
          name = om_Name (o_Meta controller);
          reportName = ToLower kind @ ''-'' @ name
      in if valid_label E reportName then reportName
         else ToLower kind @ ''-'' @ ComputeHash E (HString name))"

definition audit_reportName :: "env \<Rightarrow> AuditReportBuilder \<Rightarrow> string" where
  "audit_reportName E b = resource_report_name E (ab_controller b)"

definition hash_labels :: "AuditReportBuilder \<Rightarrow> strmap" where
  "hash_labels b =
     (let l0 = Map.empty;
          l1 = (if ab_resourceSpecHash b \<noteq> [] then l0(LabelResourceSpecHash \<mapsto> ab_resourceSpecHash b) else l0)
      in if ab_pluginConfigHash b \<noteq> [] then l1(LabelPluginConfigHash \<mapsto> ab_pluginConfigHash b) else l1)"

definition GetClusterReport :: "env \<Rightarrow> owner_setter \<Rightarrow> AuditReportBuilder \<Rightarrow> error + Object" where
  "GetClusterReport E SetControllerReference b =
     (let meta = ObjectToObjectMeta E (ab_controller b)
                   (empty_meta\<lparr>om_Name := audit_reportName E b, om_Labels := hash_labels b\<rparr>)
      in case SetControllerReference (ab_controller b) meta of
           Inl e \<Rightarrow> Inl (Wrap ''setting controller reference'' e)
         | Inr refs \<Rightarrow>
             Inr \<lparr>o_Kind = [], o_Meta = meta\<lparr>om_OwnerReferences := unblock_owner refs\<rparr>,
                  o_Body = ClusterConfigAuditReport (ab_data b)\<rparr>)"

definition GetReport :: "env \<Rightarrow> owner_setter \<Rightarrow> AuditReportBuilder \<Rightarrow> error + Object" where
  "GetReport E SetControllerReference b =
     (let meta = ObjectToObjectMeta E (ab_controller b)
                   (empty_meta\<lparr>om_Name := audit_reportName E b,
                     om_Namespace := om_Namespace (o_Meta (ab_controller b)), om_Labels := hash_labels b\<rparr>)
      in case SetControllerReference (ab_controller b) meta of
           Inl e \<Rightarrow> Inl (Wrap ''setting controller reference'' e)
         | Inr refs \<Rightarrow>
             Inr \<lparr>o_Kind = [], o_Meta = meta\<lparr>om_OwnerReferences := unblock_owner refs\<rparr>,
                  o_Body = ConfigAuditReport (ab_data b)\<rparr>)"

definition AuditReportBuilder_Write ::
    "env \<Rightarrow> owner_setter \<Rightarrow> 's client \<Rightarrow> AuditReportBuilder \<Rightarrow> 's \<Rightarrow> error option \<times> 's" where
  "AuditReportBuilder_Write E scr c b s =
     (if IsClusterScopedKind (o_Kind (ab_controller b)) then
        (case GetClusterReport E scr b of Inl e \<Rightarrow> (Some e, s) | Inr report \<Rightarrow> WriteClusterReport c report s)
      else
        (case GetReport E scr b of Inl e \<Rightarrow> (Some e, s) | Inr report \<Rightarrow> WriteReport c report s))"

section \<open>Plugins and scan jobs\<close>

record 's AuditPlugin =
  ap_Init :: "PluginContext \<Rightarrow> 's \<Rightarrow> error option \<times> 's"
  ap_GetScanJobSpec :: "PluginContext \<Rightarrow> 's \<Rightarrow> Object \<Rightarrow> error + (PodSpec \<times> Object list)"
  ap_ParseConfigAuditReportData :: "PluginContext \<Rightarrow> 's \<Rightarrow> string \<Rightarrow> error + ConfigAuditReportData"
  ap_GetContainerName :: string
  ap_ConfigHash :: "PluginContext \<Rightarrow> 's \<Rightarrow> Kind \<Rightarrow> error + string"
  ap_SupportedKinds :: "Kind list"
  ap_IsApplicable :: "PluginContext \<Rightarrow> 's \<Rightarrow> Object \<Rightarrow> error + (bool \<times> string)"

definition audit_plugin_typed :: "'s AuditPlugin \<Rightarrow> bool" where
  "audit_plugin_typed pl \<longleftrightarrow> (\<forall>ctx s obj spec secrets.
     ap_GetScanJobSpec pl ctx s obj = Inr (spec, secrets) \<longrightarrow> (\<forall>x \<in> set secrets. go_type x = TSecret))"

record 's AuditScanJobBuilder =
  asb_plugin :: "'s AuditPlugin"
  asb_pluginContext :: PluginContext
  asb_timeout :: Duration
  asb_object :: Object
  asb_tolerations :: "string list"
  asb_annotations :: strmap
  asb_podTemplateLabels :: strmap

definition audit_GetScanJobName :: "env \<Rightarrow> Object \<Rightarrow> string" where
  "audit_GetScanJobName E obj = ''scan-configauditreport-'' @ ComputeHash E (HObjectRef
     \<lparr>ref_Kind = o_Kind obj, ref_Name = om_Name (o_Meta obj), ref_Namespace = om_Namespace (o_Meta obj)\<rparr>)"

text \<open>
  The job's and the template's metadata share one annotations map in the code, so what encoding the
  object's reference adds to the one is in the other as well; both encodings add the same entry.
\<close>

definition AuditScanJobBuilder_Get ::
    "env \<Rightarrow> 's AuditScanJobBuilder \<Rightarrow> 's \<Rightarrow> error + (Object \<times> Object list)" where
  "AuditScanJobBuilder_Get E b s =
     (case ap_GetScanJobSpec (asb_plugin b) (asb_pluginContext b) s (asb_object b) of
        Inl e \<Rightarrow> Inl e
      | Inr (jobSpec0, secrets) \<Rightarrow>
          (case ComputeSpecHash E (asb_object b) of
             Inl e \<Rightarrow> Inl e
           | Inr resourceSpecHash \<Rightarrow>
               (let jobSpec = jobSpec0\<lparr>ps_Tolerations := ps_Tolerations jobSpec0 @ asb_tolerations b\<rparr>
                in case ap_ConfigHash (asb_plugin b) (asb_pluginContext b) s (o_Kind (asb_object b)) of
                     Inl e \<Rightarrow> Inl e
                   | Inr pluginConfigHash \<Rightarrow>
                       (let labelsSet = [LabelResourceSpecHash \<mapsto> resourceSpecHash,
                              LabelPluginConfigHash \<mapsto> pluginConfigHash,
                              LabelConfigAuditReportScanner \<mapsto> px_name (asb_pluginContext b),
                              LabelK8SAppManagedBy \<mapsto> AppStarboard];
                            jobMeta = ObjectToObjectMeta E (asb_object b)
                              (empty_meta\<lparr>om_Name := audit_GetScanJobName E (asb_object b),
                                 om_Namespace := px_namespace (asb_pluginContext b), om_Labels := labelsSet,
                                 om_Annotations := asb_annotations b\<rparr>);
                            templateMeta = ObjectToObjectMeta E (asb_object b)
                              (empty_meta\<lparr>om_Labels := labelsSet ++ asb_podTemplateLabels b,
                                 om_Annotations := asb_annotations b\<rparr>)
                        in Inr (\<lparr>o_Kind = [], o_Meta = jobMeta,
                                 o_Body = Job \<lparr>js_BackoffLimit = 0, js_Completions = 1,
                                   js_ActiveDeadlineSeconds = GetActiveDeadlineSeconds (asb_timeout b),
                                   js_Selector = [],
                                   js_Template = \<lparr>pt_Meta = templateMeta, pt_Spec = jobSpec\<rparr>\<rparr> []\<rparr>,
                                map (\<lambda>secret. secret\<lparr>o_Meta := ObjectToObjectMeta E (asb_object b)
                                   ((o_Meta secret)\<lparr>om_Labels := om_Labels (o_Meta secret) ++ om_Labels jobMeta\<rparr>)\<rparr>)
                                  secrets)))))"

section \<open>The writers keep the contract of a report store\<close>

interpretation audit_store: report_store TConfigAuditReport "\<lambda>_. True" WriteReport
  by unfold_locales (auto simp: WriteReport_def intro: upsert_laws)

definition cluster_scoped :: "Object \<Rightarrow> bool" where
  "cluster_scoped x \<longleftrightarrow> om_Namespace (o_Meta x) = []"

lemma cluster_key: "cluster_scoped x \<Longrightarrow> \<lparr>key_Namespace = [], key_Name = om_Name (o_Meta x)\<rparr> = key_of x"
  by (simp add: cluster_scoped_def key_of_def)

interpretation cluster_audit_store: report_store TClusterConfigAuditReport cluster_scoped WriteClusterReport
  by unfold_locales (auto simp: WriteClusterReport_def cluster_key intro: upsert_laws)

section \<open>Lemmas\<close>

lemma hash_labels_mget:
  "mget (hash_labels b) LabelResourceSpecHash = ab_resourceSpecHash b"
  "mget (hash_labels b) LabelPluginConfigHash = ab_pluginConfigHash b"
  by (auto simp: hash_labels_def mget_def Let_def)

lemma hash_keys_free: "LabelResourceSpecHash \<notin> set ref_label_keys" "LabelPluginConfigHash \<notin> set ref_label_keys"
  by (auto simp: ref_label_keys_def)

text \<open>What a built report carries, for both scopes.\<close>

definition carries :: "env \<Rightarrow> AuditReportBuilder \<Rightarrow> Object \<Rightarrow> bool" where
  "carries E b x \<longleftrightarrow> om_Name (o_Meta x) = audit_reportName E b \<and>
     mget (om_Labels (o_Meta x)) LabelResourceSpecHash = ab_resourceSpecHash b \<and>
     mget (om_Labels (o_Meta x)) LabelPluginConfigHash = ab_pluginConfigHash b \<and>
     ObjectRefToLabels E (ref_of (ab_controller b)) \<subseteq>\<^sub>m om_Labels (o_Meta x)"

lemma mget_other: "k \<notin> set ref_label_keys \<Longrightarrow>
    mget (om_Labels (ObjectToObjectMeta E obj meta)) k = mget (om_Labels meta) k"
  by (simp add: mget_def ObjectToObjectMeta_other)

lemma GetReport_carries:
  assumes "GetReport E scr b = Inr x"
  shows "carries E b x" "o_Body x = ConfigAuditReport (ab_data b)"
    "om_Namespace (o_Meta x) = om_Namespace (o_Meta (ab_controller b))"
  using assms ObjectToObjectMeta_matches
  by (auto simp: GetReport_def carries_def Let_def mget_other hash_keys_free hash_labels_mget split: sum.splits)

lemma GetClusterReport_carries:
  assumes "GetClusterReport E scr b = Inr x"
  shows "carries E b x" "o_Body x = ClusterConfigAuditReport (ab_data b)" "cluster_scoped x"
  using assms ObjectToObjectMeta_matches
  by (auto simp: GetClusterReport_def carries_def Let_def mget_other hash_keys_free hash_labels_mget
      cluster_scoped_def empty_meta_def split: sum.splits)

lemma cluster_options_select:
  "selected (cluster_owner_options E owner) x \<longleftrightarrow> ObjectRefToLabels E owner \<subseteq>\<^sub>m om_Labels (o_Meta x)"
  by (simp add: selected_def cluster_owner_options_def owner_options_def MatchingLabels_holds [OF dom_ObjectRefToLabels])

text \<open>The first result of a search that one object alone can satisfy.\<close>

lemma first_item_unique:
  assumes "api_laws c" and "cl_List c s (Some t) opts = Inr xs" and "lo_Limit opts = None"
    and "cl_Get c s t k = Inr y" and "selected opts y"
    and "\<And>k' x. cl_Get c s t k' = Inr x \<Longrightarrow> selected opts x \<Longrightarrow> k' = k"
  shows "first_item (cl_List c s (Some t) opts) = Inr (Some y)"
proof -
  have set_xs: "set xs = {x. \<exists>k. cl_Get c s t k = Inr x \<and> selected opts x}"
    by (rule list_all_objects(1) [OF assms(1-3)])
  then have "y \<in> set xs" using assms(4,5) by blast
  then obtain z zs where xs: "xs = z # zs" by (cases xs) auto
  then have "z \<in> set xs" by simp
  then obtain k' where "cl_Get c s t k' = Inr z" "selected opts z" using set_xs by blast
  with assms(4,6) have "z = y" by auto
  then show ?thesis using assms(2) xs by (simp add: first_item_def)
qed

end
