(* ===== verification/Policy.thy ===== *)
theory Policy
  imports Mem_Client Json_Value
begin

text \<open>
  Package \<^verbatim>\<open>pkg/policy\<close>: the Rego policies of the built-in configuration auditor, which of them
  apply to a kind, and how their results become check results. Parsing, compiling and evaluating
  Rego (open-policy-agent) are parameters, gathered in the record \<open>rego\<close>; a query yields a list of
  results, each binding variables to values, and a value is a JSON value. A failed type assertion
  panics in Go; here it is an error of its own.
\<close>

section \<open>Metadata and messages\<close>

type_synonym "values" = "(string \<times> json) list"

record Metadata =
  md_ID :: string
  md_Title :: string
  md_Severity :: Severity
  md_Type :: string
  md_Description :: string

definition requiredStringValue :: "values \<Rightarrow> string \<Rightarrow> error + string" where
  "requiredStringValue vs key =
     (case map_of vs key of
        None \<Rightarrow> Inl (Errorf (''required key not found: '' @ key))
      | Some JNull \<Rightarrow> Inl (Errorf (''required value is nil for key: '' @ key))
      | Some (JString s) \<Rightarrow>
          if s = [] then Inl (Errorf (''required value is blank for key: '' @ key)) else Inr s
      | Some _ \<Rightarrow> Inl (Errorf (''expected string for key: '' @ key)))"

definition NewMetadata :: "values option \<Rightarrow> error + Metadata" where
  "NewMetadata values_opt =
     (case values_opt of
        None \<Rightarrow> Inl (Errorf ''values must not be nil'')
      | Some vs \<Rightarrow>
          (case requiredStringValue vs ''severity'' of
             Inl e \<Rightarrow> Inl e
           | Inr severityString \<Rightarrow>
               (case StringToSeverity severityString of
                  Inl e \<Rightarrow> Inl (Wrap ''failed parsing severity'' e)
                | Inr severity \<Rightarrow>
                    (case map_err (requiredStringValue vs) [''id'', ''title'', ''type'', ''description''] of
                       Inl e \<Rightarrow> Inl e
                     | Inr fs \<Rightarrow>
                         Inr \<lparr>md_ID = fs ! 0, md_Title = fs ! 1, md_Severity = severity,
                              md_Type = fs ! 2, md_Description = fs ! 3\<rparr>))))"

record PolicyResult =
  rs_Metadata :: Metadata
  rs_Success :: bool
  rs_Messages :: "string list"

definition varMessage :: string where "varMessage = ''msg''"
definition varMetadata :: string where "varMetadata = ''md''"
definition varResult :: string where "varResult = ''res''"

definition NewMessage :: "values option \<Rightarrow> error + string" where
  "NewMessage values_opt =
     (case values_opt of
        None \<Rightarrow> Inl (Errorf ''values must not be nil'')
      | Some vs \<Rightarrow> requiredStringValue vs varMessage)"

definition valuesToResults :: "Metadata \<Rightarrow> values list \<Rightarrow> error + PolicyResult list" where
  "valuesToResults md vss =
     (case map_err (\<lambda>vs. NewMessage (Some vs)) vss of
        Inl e \<Rightarrow> Inl e
      | Inr messages \<Rightarrow> Inr [\<lparr>rs_Metadata = md, rs_Success = False, rs_Messages = messages\<rparr>])"

section \<open>Policies by kind\<close>

definition keyPrefixPolicy :: string where "keyPrefixPolicy = ''policy.''"
definition keyPrefixLibrary :: string where "keyPrefixLibrary = ''library.''"
definition keySuffixKinds :: string where "keySuffixKinds = ''.kinds''"
definition keySuffixRego :: string where "keySuffixRego = ''.rego''"
definition kindAny :: string where "kindAny = ''*''"
definition kindWorkload :: string where "kindWorkload = ''Workload''"

type_synonym Policies = "string gomap"

definition libraries_from :: "string \<Rightarrow> order \<Rightarrow> Policies \<Rightarrow> string gomap" where
  "libraries_from prefix ord p =
     foldl (\<lambda>libs (key, val).
         if \<not> HasPrefix key prefix then libs
         else if \<not> HasSuffix key keySuffixRego then libs
         else AList.update key val libs) [] (range_map ord p)"

definition Libraries :: "order \<Rightarrow> Policies \<Rightarrow> string gomap" where
  "Libraries = libraries_from keyPrefixLibrary"

text \<open>The inner loop of \<open>PoliciesByKind\<close>, over the kinds of one entry.\<close>

fun add_kinds :: "Policies \<Rightarrow> string \<Rightarrow> string \<Rightarrow> string list \<Rightarrow> string gomap \<Rightarrow> error + string gomap" where
  "add_kinds p kind key [] policies = Inr policies"
| "add_kinds p kind key (k # ks) policies =
     (if k = kindWorkload \<and> \<not> IsWorkload kind then add_kinds p kind key ks policies
      else if k \<noteq> kindAny \<and> k \<noteq> kindWorkload \<and> k \<noteq> kind then add_kinds p kind key ks policies
      else
        (let policyKey = TrimSuffix key keySuffixKinds @ keySuffixRego
         in case map_of p policyKey of
              None \<Rightarrow> Inl (Errorf (''expected policy not found: '' @ policyKey))
            | Some code \<Rightarrow> add_kinds p kind key ks (AList.update policyKey code policies)))"

fun policies_loop :: "string \<Rightarrow> Policies \<Rightarrow> string \<Rightarrow> (string \<times> string) list \<Rightarrow> string gomap \<Rightarrow> error + string gomap" where
  "policies_loop prefix p kind [] policies = Inr policies"
| "policies_loop prefix p kind ((key, val) # es) policies =
     (if HasSuffix key keySuffixRego \<and> HasPrefix key prefix \<and>
         map_of p (TrimSuffix key keySuffixRego @ keySuffixKinds) = None
      then Inl (Errorf (''kinds not defined for policy: '' @ key))
      else if \<not> HasSuffix key keySuffixKinds then policies_loop prefix p kind es policies
      else (case add_kinds p kind key (Split (CHR '','') val) policies of
              Inl e \<Rightarrow> Inl e
            | Inr policies' \<Rightarrow> policies_loop prefix p kind es policies'))"

definition PoliciesByKind :: "order \<Rightarrow> Policies \<Rightarrow> string \<Rightarrow> error + string gomap" where
  "PoliciesByKind ord p kind = policies_loop keyPrefixPolicy p kind (range_map ord p) []"

text \<open>The selected policies with the libraries added to them; an error stays an error.\<close>

definition with_libraries :: "order \<Rightarrow> string gomap \<Rightarrow> error + string gomap \<Rightarrow> error + string gomap" where
  "with_libraries ord libs r =
     (case r of
        Inl e \<Rightarrow> Inl e
      | Inr modules \<Rightarrow> Inr (foldl (\<lambda>ms (key, val). AList.update key val ms) modules (range_map ord libs)))"

definition ModulesByKind :: "order \<Rightarrow> Policies \<Rightarrow> string \<Rightarrow> error + string gomap" where
  "ModulesByKind ord p kind = with_libraries ord (Libraries ord p) (PoliciesByKind ord p kind)"

definition Hash :: "env \<Rightarrow> order \<Rightarrow> Policies \<Rightarrow> string \<Rightarrow> error + string" where
  "Hash E ord p kind =
     (case ModulesByKind ord p kind of
        Inl e \<Rightarrow> Inl e | Inr modules \<Rightarrow> Inr (ComputeHash E (HModules (map_of modules))))"

definition Applicable :: "order \<Rightarrow> Policies \<Rightarrow> Object \<Rightarrow> error + (bool \<times> string)" where
  "Applicable ord p resource =
     (let resourceKind = o_Kind resource in
      if resourceKind = [] then Inl (Errorf ''resource kind must not be blank'')
      else (case PoliciesByKind ord p resourceKind of
              Inl e \<Rightarrow> Inl e
            | Inr policies \<Rightarrow>
                if length policies = 0 then Inr (False, ''no policies found for kind '' @ resourceKind)
                else Inr (True, [])))"

section \<open>Evaluation\<close>

type_synonym bindings = "(string \<times> json) list"

record rego =
  rego_ParseModule :: "string \<Rightarrow> string \<Rightarrow> error + string"
  rego_Compile :: "(string \<times> string) list \<Rightarrow> error option"
  rego_Query :: "(string \<times> string) list \<Rightarrow> string \<Rightarrow> Object option \<Rightarrow> error + bindings list"

definition panic :: error where "panic = Errorf ''panic: interface conversion''"

definition hasBinding :: "bindings list \<Rightarrow> string \<Rightarrow> error + (values option \<times> bool)" where
  "hasBinding rs key =
     (case rs of
        [] \<Rightarrow> Inr (None, False)
      | r # _ \<Rightarrow> (case map_of r key of Some (JObject kvs) \<Rightarrow> Inr (Some kvs, True) | _ \<Rightarrow> Inl panic))"

definition object_value :: "string \<Rightarrow> bindings \<Rightarrow> values option" where
  "object_value key r = (case map_of r key of Some (JObject kvs) \<Rightarrow> Some kvs | _ \<Rightarrow> None)"

definition hasBindings :: "bindings list \<Rightarrow> string \<Rightarrow> values list \<times> bool" where
  "hasBindings rs key =
     (if rs = [] then ([], False)
      else (let vss = List.map_filter (object_value key) rs in (vss, length rs = length vss)))"

text \<open>
  One policy of \<open>Eval\<close>. The parsed modules are the names with their sources, the package path of
  the policy is what parsing it returns.
\<close>

definition eval_rule ::
    "rego \<Rightarrow> (string \<times> string) list \<Rightarrow> string \<Rightarrow> Object \<Rightarrow> Metadata \<Rightarrow> error + PolicyResult list option" where
  "eval_rule R modules query resource md =
     (case rego_Query R modules query (Some resource) of
        Inl e \<Rightarrow> Inl (Wrap ''failed evaluating Rego rule'' e)
      | Inr rs \<Rightarrow>
          (let (vss, ok) = hasBindings rs varResult
           in if ok then (case valuesToResults md vss of
                            Inl e \<Rightarrow> Inl (Wrap ''failed parsing rule result'' e)
                          | Inr results \<Rightarrow> Inr (Some results))
              else Inr None))"

definition eval_policy ::
    "rego \<Rightarrow> order \<Rightarrow> Policies \<Rightarrow> Object \<Rightarrow> string \<times> string \<Rightarrow> error + PolicyResult list" where
  "eval_policy R ord p resource policy =
     (let (policyName, policyCode) = policy; libraries = range_map ord (Libraries ord p)
      in case map_err (\<lambda>(n, code). rego_ParseModule R n code) libraries of
           Inl e \<Rightarrow> Inl (Wrap ''failed parsing Rego library'' e)
         | Inr _ \<Rightarrow>
             (case rego_ParseModule R policyName policyCode of
                Inl e \<Rightarrow> Inl (Wrap ''failed parsing Rego policy'' e)
              | Inr path \<Rightarrow>
                  (let modules = AList.update policyName policyCode libraries
                   in case rego_Compile R modules of
                        Some e \<Rightarrow> Inl (Wrap ''failed compiling Rego policy'' e)
                      | None \<Rightarrow>
                          (case rego_Query R modules (''md = '' @ path @ ''.__rego_metadata__'') None of
                             Inl e \<Rightarrow> Inl (Wrap ''failed evaluating Rego metadata rule'' e)
                           | Inr metadata \<Rightarrow>
                               (case hasBinding metadata varMetadata of
                                  Inl e \<Rightarrow> Inl e
                                | Inr (metadataResult, found) \<Rightarrow>
                                    if \<not> found then Inl (Errorf (''failed parsing policy metadata: '' @ policyName))
                                    else (case NewMetadata metadataResult of
                                            Inl e \<Rightarrow> Inl (Wrap ''failed parsing policy metadata'' e)
                                          | Inr md \<Rightarrow>
                                              (case eval_rule R modules (path @ ''.deny[res]'') resource md of
                                                 Inl e \<Rightarrow> Inl e
                                               | Inr (Some results) \<Rightarrow> Inr results
                                               | Inr None \<Rightarrow>
                                                   (case eval_rule R modules (path @ ''.warn[res]'') resource md of
                                                      Inl e \<Rightarrow> Inl e
                                                    | Inr (Some results) \<Rightarrow> Inr results
                                                    | Inr None \<Rightarrow>
                                                        Inr [\<lparr>rs_Metadata = md, rs_Success = True,
                                                              rs_Messages = []\<rparr>]))))))))"

definition Eval :: "rego \<Rightarrow> order \<Rightarrow> Policies \<Rightarrow> Object \<Rightarrow> error + PolicyResult list" where
  "Eval R ord p resource =
     (let resourceKind = o_Kind resource in
      if resourceKind = [] then Inl (Errorf ''resource kind must not be blank'')
      else (case PoliciesByKind ord p resourceKind of
              Inl e \<Rightarrow> Inl (Wrap ''failed listing policies by kind'' e)
            | Inr policies \<Rightarrow>
                (case map_err (eval_policy R ord p resource) (range_map ord policies) of
                   Inl e \<Rightarrow> Inl e | Inr rss \<Rightarrow> Inr (concat rss))))"

section \<open>Specification of the selection\<close>

text \<open>Which kinds a list of kinds covers, and which policies apply to a kind.\<close>

definition covers :: "string \<Rightarrow> string \<Rightarrow> bool" where
  "covers kind k \<longleftrightarrow> k = kindAny \<or> (k = kindWorkload \<and> IsWorkload kind) \<or> (k = kind \<and> k \<noteq> kindWorkload)"

definition kinds_cover :: "string \<Rightarrow> string \<Rightarrow> bool" where
  "kinds_cover kind val \<longleftrightarrow> (\<exists>k \<in> set (Split (CHR '','') val). covers kind k)"

definition applies :: "Policies \<Rightarrow> string \<Rightarrow> string \<Rightarrow> bool" where
  "applies p kind policyKey \<longleftrightarrow> (\<exists>base val. policyKey = base @ keySuffixRego \<and>
     map_of p (base @ keySuffixKinds) = Some val \<and> kinds_cover kind val)"

text \<open>Policy data is malformed when a policy has no kinds or a covered entry has no policy.\<close>

definition bad_entry :: "string \<Rightarrow> Policies \<Rightarrow> string \<Rightarrow> string \<times> string \<Rightarrow> bool" where
  "bad_entry prefix p kind e \<longleftrightarrow> (case e of (key, val) \<Rightarrow>
     (HasSuffix key keySuffixRego \<and> HasPrefix key prefix \<and>
      map_of p (TrimSuffix key keySuffixRego @ keySuffixKinds) = None) \<or>
     (HasSuffix key keySuffixKinds \<and> kinds_cover kind val \<and>
      map_of p (TrimSuffix key keySuffixKinds @ keySuffixRego) = None))"

section \<open>Lemmas\<close>

lemma covers_kind_test:
  "\<not> (k = kindWorkload \<and> \<not> IsWorkload kind) \<and> \<not> (k \<noteq> kindAny \<and> k \<noteq> kindWorkload \<and> k \<noteq> kind) \<longleftrightarrow> covers kind k"
  by (auto simp: covers_def kindAny_def kindWorkload_def IsWorkload_def)

lemma add_kinds_result:
  "add_kinds p kind key ks policies =
     (if \<exists>k \<in> set ks. covers kind k
      then (case map_of p (TrimSuffix key keySuffixKinds @ keySuffixRego) of
              None \<Rightarrow> Inl (Errorf (''expected policy not found: '' @ TrimSuffix key keySuffixKinds @ keySuffixRego))
            | Some code \<Rightarrow> Inr (AList.update (TrimSuffix key keySuffixKinds @ keySuffixRego) code policies))
      else Inr policies)"
proof (induction ks arbitrary: policies)
  case (Cons k ks)
  have idem: "AList.update a b (AList.update a b m) = AList.update a b m" for a b and m :: "string gomap"
    by (induction m) auto
  show ?case
  proof (cases "covers kind k")
    case True
    then show ?thesis
      using covers_kind_test [of k kind] Cons idem by (auto split: option.splits)
  next
    case False
    then have "add_kinds p kind key (k # ks) policies = add_kinds p kind key ks policies"
      using covers_kind_test [of k kind] by auto
    then show ?thesis using False Cons by simp
  qed
qed simp

definition rego_entry :: "string \<times> string \<Rightarrow> string" where
  "rego_entry e = TrimSuffix (fst e) keySuffixKinds @ keySuffixRego"

lemma policies_loop_bad: "(\<exists>e. policies_loop prefix p kind es policies = Inl e) \<longleftrightarrow> (\<exists>x \<in> set es. bad_entry prefix p kind x)"
proof (induction es arbitrary: policies)
  case (Cons e es)
  obtain key val where e: "e = (key, val)" by fastforce
  consider (missing) "HasSuffix key keySuffixRego \<and> HasPrefix key prefix \<and>
      map_of p (TrimSuffix key keySuffixRego @ keySuffixKinds) = None"
    | (other) "\<not> (HasSuffix key keySuffixRego \<and> HasPrefix key prefix \<and>
      map_of p (TrimSuffix key keySuffixRego @ keySuffixKinds) = None)" "\<not> HasSuffix key keySuffixKinds"
    | (kinds) "\<not> (HasSuffix key keySuffixRego \<and> HasPrefix key prefix \<and>
      map_of p (TrimSuffix key keySuffixRego @ keySuffixKinds) = None)" "HasSuffix key keySuffixKinds"
    by blast
  then show ?case
  proof cases
    case missing
    then show ?thesis by (simp add: e bad_entry_def)
  next
    case other
    then have "policies_loop prefix p kind (e # es) policies = policies_loop prefix p kind es policies" by (auto simp: e)
    moreover have "\<not> bad_entry prefix p kind e" using other by (auto simp: e bad_entry_def)
    ultimately show ?thesis using Cons.IH by simp
  next
    case kinds
    then have bad: "bad_entry prefix p kind e \<longleftrightarrow> kinds_cover kind val \<and> map_of p (TrimSuffix key keySuffixKinds @ keySuffixRego) = None"
      unfolding e bad_entry_def prod.case by argo
    have "policies_loop prefix p kind (e # es) policies = (case add_kinds p kind key (Split (CHR '','') val) policies of
        Inl e \<Rightarrow> Inl e | Inr policies' \<Rightarrow> policies_loop prefix p kind es policies')"
      using kinds by (auto simp: e)
    then show ?thesis using Cons.IH bad
      by (cases "kinds_cover kind val"; cases "map_of p (TrimSuffix key keySuffixKinds @ keySuffixRego)")
         (simp_all add: add_kinds_result flip: kinds_cover_def)
  qed
qed simp

definition selects :: "string \<Rightarrow> string \<Rightarrow> string \<times> string \<Rightarrow> bool" where
  "selects kind k e \<longleftrightarrow> HasSuffix (fst e) keySuffixKinds \<and> kinds_cover kind (snd e) \<and> k = rego_entry e"

lemma policies_loop_step:
  assumes "policies_loop prefix p kind (e # es) policies = Inr ps"
  shows "\<exists>policies'. policies_loop prefix p kind es policies' = Inr ps \<and>
    (\<forall>k. map_of policies' k = (if selects kind k e then map_of p k else map_of policies k))"
proof -
  obtain key val where e: "e = (key, val)" by fastforce
  show ?thesis
  proof (cases "HasSuffix key keySuffixKinds")
    case False
    then show ?thesis using assms by (intro exI [of _ policies]) (simp add: e selects_def split: if_splits)
  next
    case True
    then obtain policies' where a: "add_kinds p kind key (Split (CHR '','') val) policies = Inr policies'"
      and r: "policies_loop prefix p kind es policies' = Inr ps"
      using assms by (auto simp: e split: if_splits sum.splits)
    have "map_of policies' k = (if selects kind k e then map_of p k else map_of policies k)" for k
      using a True
      by (auto simp: e selects_def rego_entry_def kinds_cover_def add_kinds_result map_of_update
          split: if_splits option.splits)
    then show ?thesis using r by blast
  qed
qed

lemma policies_loop_lookup:
  assumes "policies_loop prefix p kind es policies = Inr ps"
  shows "map_of ps k = (if \<exists>e \<in> set es. selects kind k e then map_of p k else map_of policies k)"
  using assms
proof (induction es arbitrary: policies)
  case (Cons e es)
  from policies_loop_step [OF Cons.prems] obtain policies' where "policies_loop prefix p kind es policies' = Inr ps"
    "\<forall>k. map_of policies' k = (if selects kind k e then map_of p k else map_of policies k)"
    by blast
  then show ?case using Cons.IH by auto
qed simp

lemma kinds_entry_iff:
  assumes "distinct (map fst p)"
  shows "(\<exists>e \<in> set p. selects kind k e) \<longleftrightarrow> applies p kind k"
proof
  assume "\<exists>e \<in> set p. selects kind k e"
  then obtain key val base where e: "(key, val) \<in> set p" "key = base @ keySuffixKinds" "kinds_cover kind val"
      "k = TrimSuffix key keySuffixKinds @ keySuffixRego"
    by (auto simp: HasSuffix_iff rego_entry_def selects_def)
  then have "map_of p (base @ keySuffixKinds) = Some val" using assms by simp
  with e show "applies p kind k" by (auto simp: applies_def)
next
  assume "applies p kind k"
  then obtain base val where "k = base @ keySuffixRego" "(base @ keySuffixKinds, val) \<in> set p" "kinds_cover kind val"
    by (auto simp: applies_def dest: map_of_SomeD)
  then show "\<exists>e \<in> set p. selects kind k e"
    by (intro bexI [of _ "(base @ keySuffixKinds, val)"]) (simp_all add: rego_entry_def selects_def)
qed

lemma PoliciesByKind_lookup:
  assumes "perm_order ord" and "distinct (map fst p)" and "PoliciesByKind ord p kind = Inr ps"
  shows "map_of ps k = (if applies p kind k then map_of p k else None)"
  using policies_loop_lookup [OF assms(3) [unfolded PoliciesByKind_def], of k] kinds_entry_iff [OF assms(2), of kind k]
  by (simp add: range_map_set [OF assms(1,2)])

lemma PoliciesByKind_error:
  assumes "perm_order ord" and "distinct (map fst p)"
  shows "(\<exists>e. PoliciesByKind ord p kind = Inl e) \<longleftrightarrow> (\<exists>x \<in> set p. bad_entry keyPrefixPolicy p kind x)"
  using policies_loop_bad [of keyPrefixPolicy p kind "range_map ord p"] by (simp add: PoliciesByKind_def range_map_set [OF assms])

lemma foldl_update_lookup:
  assumes "distinct (map fst es)"
  shows "map_of (foldl (\<lambda>m (k, v). if P k then AList.update k v m else m) acc es) x =
    (if P x \<and> x \<in> fst ` set es then map_of es x else map_of acc x)"
  using assms
proof (induction es arbitrary: acc)
  case (Cons e es)
  obtain k v where e: "e = (k, v)" by fastforce
  then have "k \<notin> fst ` set es" using Cons.prems by auto
  then show ?case using Cons e by (auto simp: map_of_update)
qed simp

lemma map_of_range_map:
  assumes "perm_order ord" and "distinct (map fst m)"
  shows "map_of (range_map ord m) = map_of m"
  using range_map_set [OF assms] range_map_distinct [OF assms] assms(2) by (metis map_of_inject_set)

definition is_library :: "string \<Rightarrow> string \<Rightarrow> bool" where
  "is_library prefix key \<longleftrightarrow> HasPrefix key prefix \<and> HasSuffix key keySuffixRego"

lemma libraries_from_fold:
  "libraries_from prefix ord p = foldl (\<lambda>m (k, v). if is_library prefix k then AList.update k v m else m) [] (range_map ord p)"
  unfolding libraries_from_def by (rule arg_cong [where f = "\<lambda>f. foldl f [] (range_map ord p)"])
    (auto simp: fun_eq_iff is_library_def)

lemma libraries_from_lookup:
  assumes "perm_order ord" and "distinct (map fst p)"
  shows "map_of (libraries_from prefix ord p) k = (if is_library prefix k then map_of p k else None)"
proof -
  have "map_of p k = None" if "k \<notin> fst ` set p" using that by (simp add: map_of_eq_None_iff)
  then show ?thesis
    using foldl_update_lookup [OF range_map_distinct [OF assms], of "is_library prefix" "[]" k]
    by (auto simp: libraries_from_fold map_of_range_map [OF assms] range_map_set [OF assms])
qed

lemma libraries_from_distinct: "distinct (map fst (libraries_from prefix ord p))"
proof -
  have "distinct (map fst (foldl (\<lambda>m (k, v). if is_library prefix k then AList.update k v m else m) m0 es))"
    if "distinct (map fst m0)" for m0 es :: "string gomap"
    using that by (induction es arbitrary: m0) (auto simp: distinct_update)
  then show ?thesis by (simp add: libraries_from_fold)
qed

text \<open>
  The contract of a set of policies, which the built-in auditor and the Conftest plugin share: the policies of a kind are those
  that apply to it, they cannot be selected exactly when an entry is malformed, and the libraries are the
  entries with a certain name. What follows holds for every order of maps.
\<close>

locale policy_source =
  fixes by_kind :: "order \<Rightarrow> Policies \<Rightarrow> string \<Rightarrow> error + string gomap"
    and libs :: "order \<Rightarrow> Policies \<Rightarrow> string gomap"
    and is_lib :: "string \<Rightarrow> bool"
    and bad :: "Policies \<Rightarrow> string \<Rightarrow> string \<times> string \<Rightarrow> bool"
  assumes by_kind_lookup: "perm_order ord \<Longrightarrow> distinct (map fst p) \<Longrightarrow> by_kind ord p kind = Inr ps \<Longrightarrow>
      map_of ps k = (if applies p kind k then map_of p k else None)"
    and by_kind_error: "perm_order ord \<Longrightarrow> distinct (map fst p) \<Longrightarrow>
      (\<exists>e. by_kind ord p kind = Inl e) \<longleftrightarrow> (\<exists>x \<in> set p. bad p kind x)"
    and by_kind_distinct: "by_kind ord p kind = Inr ps \<Longrightarrow> distinct (map fst ps)"
    and libs_lookup: "perm_order ord \<Longrightarrow> distinct (map fst p) \<Longrightarrow>
      map_of (libs ord p) k = (if is_lib k then map_of p k else None)"
    and libs_distinct: "distinct (map fst (libs ord p))"
begin

lemma modules_lookup:
  assumes "perm_order ord" and "distinct (map fst p)" and "with_libraries ord (libs ord p) (by_kind ord p kind) = Inr ms"
  shows "map_of ms k = (if is_lib k \<or> applies p kind k then map_of p k else None)"
proof -
  obtain ps where ps: "by_kind ord p kind = Inr ps"
    and ms: "ms = foldl (\<lambda>m (k, v). AList.update k v m) ps (range_map ord (libs ord p))"
    using assms(3) by (auto simp: with_libraries_def split: sum.splits)
  have "map_of ms k = (if k \<in> fst ` set (libs ord p) then map_of (libs ord p) k else map_of ps k)"
    using foldl_update_lookup [OF range_map_distinct [OF assms(1) libs_distinct], where P = "\<lambda>_. True" and acc = ps and x = k]
    by (simp add: ms map_of_range_map [OF assms(1) libs_distinct] range_map_set [OF assms(1) libs_distinct])
  moreover have "k \<in> fst ` set (libs ord p) \<longleftrightarrow> map_of (libs ord p) k \<noteq> None"
    by (metis map_of_eq_None_iff)
  ultimately show ?thesis
    using by_kind_lookup [OF assms(1,2) ps, of k] by (auto simp: libs_lookup [OF assms(1,2)] split: if_splits)
qed

lemma modules_distinct:
  assumes "with_libraries ord (libs ord p) (by_kind ord p kind) = Inr ms"
  shows "distinct (map fst ms)"
proof -
  have "distinct (map fst (foldl (\<lambda>m (k, v). AList.update k v m) m0 es))" if "distinct (map fst m0)" for m0 es :: "string gomap"
    using that by (induction es arbitrary: m0) (auto simp: distinct_update)
  then show ?thesis using assms by_kind_distinct by (auto simp: with_libraries_def split: sum.splits)
qed

lemma modules_order:
  assumes "perm_order ord" and "perm_order ord'" and "distinct (map fst p)"
  shows "rel_sum (\<lambda>_ _. True) (\<lambda>ms ms'. map_of ms = map_of ms')
    (with_libraries ord (libs ord p) (by_kind ord p kind)) (with_libraries ord' (libs ord' p) (by_kind ord' p kind))"
proof -
  have "(\<exists>e. by_kind ord p kind = Inl e) \<longleftrightarrow> (\<exists>e. by_kind ord' p kind = Inl e)"
    using by_kind_error assms by simp
  then have iff: "(\<exists>e. with_libraries ord (libs ord p) (by_kind ord p kind) = Inl e) \<longleftrightarrow>
      (\<exists>e. with_libraries ord' (libs ord' p) (by_kind ord' p kind) = Inl e)"
    by (auto simp: with_libraries_def split: sum.splits)
  show ?thesis
  proof (cases "with_libraries ord (libs ord p) (by_kind ord p kind)")
    case (Inl e)
    then show ?thesis using iff by (auto simp: rel_sum.simps)
  next
    case (Inr ms)
    then obtain ms' where ms': "with_libraries ord' (libs ord' p) (by_kind ord' p kind) = Inr ms'"
      using iff by (cases "with_libraries ord' (libs ord' p) (by_kind ord' p kind)") auto
    show ?thesis
      using modules_lookup [OF assms(1,3) Inr] modules_lookup [OF assms(2,3) ms'] Inr ms'
      by (auto simp: rel_sum.simps fun_eq_iff)
  qed
qed

end

lemma policies_loop_distinct:
  "policies_loop prefix p kind es m = Inr ps \<Longrightarrow> distinct (map fst m) \<Longrightarrow> distinct (map fst ps)"
  by (induction es arbitrary: m) (auto simp: add_kinds_result distinct_update split: if_splits option.splits)

lemma policies_distinct: "PoliciesByKind ord p kind = Inr ps \<Longrightarrow> distinct (map fst ps)"
  using policies_loop_distinct [of keyPrefixPolicy p kind "range_map ord p" "[]" ps] by (simp add: PoliciesByKind_def)

interpretation builtin_policies: policy_source PoliciesByKind Libraries "is_library keyPrefixLibrary" "bad_entry keyPrefixPolicy"
  by unfold_locales
    (simp_all add: PoliciesByKind_lookup PoliciesByKind_error policies_distinct Libraries_def libraries_from_lookup
      libraries_from_distinct)

lemma valuesToResults_failed:
  "valuesToResults md vss = Inr rs \<Longrightarrow> \<exists>ms. rs = [\<lparr>rs_Metadata = md, rs_Success = False, rs_Messages = ms\<rparr>]"
  by (auto simp: valuesToResults_def split: sum.splits)

lemma eval_policy_one: "eval_policy R ord p resource policy = Inr rs \<Longrightarrow> \<exists>x. rs = [x]"
  by (auto simp: eval_policy_def eval_rule_def Let_def split: sum.splits option.splits if_splits prod.splits
      dest!: valuesToResults_failed)

section \<open>Properties\<close>

text \<open>
  The policies selected for a kind are exactly those whose list of kinds covers it: a policy
  \<^verbatim>\<open>x.rego\<close> is selected, with its own source, if and only if \<^verbatim>\<open>x.kinds\<close> names the kind, names
  \<^verbatim>\<open>Workload\<close> and the kind is a workload, or contains the star. The selection fails if and only if
  the data is malformed. Both hold for every order in which the runtime visits the data.
\<close>

lemma policies_by_kind_exact:
  assumes "perm_order ord" and "distinct (map fst p)"
  shows "case PoliciesByKind ord p kind of
      Inl _ \<Rightarrow> \<exists>x \<in> set p. bad_entry keyPrefixPolicy p kind x
    | Inr ps \<Rightarrow> (\<forall>x \<in> set p. \<not> bad_entry keyPrefixPolicy p kind x) \<and>
        map_of ps = (\<lambda>k. if applies p kind k then map_of p k else None)"
proof (cases "PoliciesByKind ord p kind")
  case (Inl e)
  then show ?thesis using PoliciesByKind_error [OF assms, of kind] by auto
next
  case (Inr ps)
  then have "\<not> (\<exists>x \<in> set p. bad_entry keyPrefixPolicy p kind x)"
    using PoliciesByKind_error [OF assms, of kind] by auto
  then show ?thesis using Inr PoliciesByKind_lookup [OF assms Inr] by auto
qed

definition sample_policies :: Policies where
  "sample_policies = [(''policy.p1.rego'', ''package p1''), (''policy.p1.kinds'', ''Workload,Service''),
     (''library.l.rego'', ''package l'')]"

text \<open>
  C15. The hash that decides whether a report is out of date does not depend on the order in which
  the runtime visits maps: for two orders, either both computations fail or both give the same hash.
\<close>

theorem policies_hash_deterministic:
  assumes "perm_order ord" and "perm_order ord'" and "distinct (map fst p)"
  shows "case (Hash E ord p kind, Hash E ord' p kind) of
      (Inr h, Inr h') \<Rightarrow> h = h'
    | (Inl _, Inl _) \<Rightarrow> True
    | _ \<Rightarrow> False"
  using builtin_policies.modules_order [OF assms, of kind]
  by (auto simp: Hash_def ModulesByKind_def rel_sum.simps)

theorem policies_hash_deterministic_witness:
  "case (Hash sample_env rev sample_policies ''Pod'', Hash sample_env (\<lambda>ks. ks) sample_policies ''Pod'') of
      (Inr h, Inr h') \<Rightarrow> h = h' | (Inl _, Inl _) \<Rightarrow> True | _ \<Rightarrow> False"
  by (rule policies_hash_deterministic) (simp_all add: sample_policies_def)

text \<open>
  An evaluation reports every applicable policy exactly once: when it succeeds, the number of
  results is the number of policies selected for the resource's kind.
\<close>

lemma eval_one_result_per_policy:
  assumes "perm_order ord" and "Eval R ord p resource = Inr results"
  shows "\<exists>policies. PoliciesByKind ord p (o_Kind resource) = Inr policies \<and>
    length results = length policies"
proof -
  obtain policies rss where ps: "PoliciesByKind ord p (o_Kind resource) = Inr policies"
    and rss: "map_err (eval_policy R ord p resource) (range_map ord policies) = Inr rss"
    and res: "results = concat rss"
    using assms(2) by (auto simp: Eval_def Let_def split: sum.splits if_splits)
  have "list_all2 (\<lambda>x rs. eval_policy R ord p resource x = Inr rs) (range_map ord policies) rss"
    using rss by (simp add: map_err_Inr_iff)
  then have "length (concat rss) = length (range_map ord policies)"
    by (induction rule: list_all2_induct) (auto dest: eval_policy_one)
  moreover have "length (range_map ord policies) = length policies"
    using range_map_mset [OF assms(1) policies_distinct [OF ps]] by (metis size_mset)
  ultimately show ?thesis using ps res by simp
qed

definition sample_rego :: rego where
  "sample_rego = \<lparr>rego_ParseModule = (\<lambda>_ _. Inr ''data.p''), rego_Compile = (\<lambda>_. None),
     rego_Query = (\<lambda>_ q _. if q = ''md = data.p.__rego_metadata__''
       then Inr [[(varMetadata, JObject [(''severity'', JString ''HIGH''), (''id'', JString ''KSV001''),
              (''title'', JString ''t''), (''type'', JString ''c''), (''description'', JString ''d'')])]]
       else if q = ''data.p.deny[res]'' then Inr [[(varResult, JString ''running as root'')]]
       else Inr [])\<rparr>"

definition sample_resource :: Object where
  "sample_resource = \<lparr>o_Kind = ''Pod'', o_Meta = empty_meta, o_Body = Pod empty_PodSpec
     \<lparr>pst_InitContainerStatuses = [], pst_ContainerStatuses = []\<rparr>\<rparr>"

lemma sample_policies_pod: "PoliciesByKind (\<lambda>ks. ks) sample_policies ''Pod'' = Inr [(''policy.p1.rego'', ''package p1'')]"
  by code_simp

lemma sample_md: "NewMetadata (Some [(''severity'', JString ''HIGH''), (''id'', JString ''KSV001''),
      (''title'', JString ''t''), (''type'', JString ''c''), (''description'', JString ''d'')]) =
    Inr \<lparr>md_ID = ''KSV001'', md_Title = ''t'', md_Severity = ''HIGH'', md_Type = ''c'', md_Description = ''d''\<rparr>"
  by code_simp

lemma sample_eval:
  assumes "o_Kind x = ''Pod''"
  shows "Eval sample_rego (\<lambda>ks. ks) sample_policies x =
    Inr [\<lparr>rs_Metadata = \<lparr>md_ID = ''KSV001'', md_Title = ''t'', md_Severity = ''HIGH'', md_Type = ''c'',
           md_Description = ''d''\<rparr>, rs_Success = True, rs_Messages = []\<rparr>]"
proof -
  have lib: "range_map (\<lambda>ks. ks) (Libraries (\<lambda>ks. ks) sample_policies) = [(''library.l.rego'', ''package l'')]"
    by code_simp
  show ?thesis
    by (simp add: Eval_def assms sample_policies_pod eval_policy_def lib Let_def sample_rego_def
        hasBinding_def sample_md eval_rule_def hasBindings_def object_value_def List.map_filter_def)
qed

text \<open>
  C28. A deny rule whose results are not objects is not reported: when a policy's \<^verbatim>\<open>deny\<close> rule
  yields some result whose value is no object (a plain string message, say) and its \<^verbatim>\<open>warn\<close> rule
  yields nothing, the policy counts as passed.
\<close>

theorem denied_without_object_counts_as_passed:
  assumes "map_err (\<lambda>(n, code). rego_ParseModule R n code) (range_map ord (Libraries ord p)) = Inr paths"
    and "rego_ParseModule R name code = Inr path"
    and "rego_Compile R modules = None" and "modules = AList.update name code (range_map ord (Libraries ord p))"
    and "rego_Query R modules (''md = '' @ path @ ''.__rego_metadata__'') None = Inr mds"
    and "hasBinding mds varMetadata = Inr (vs, True)" and "NewMetadata vs = Inr md"
    and "rego_Query R modules (path @ ''.deny[res]'') (Some resource) = Inr denies"
    and "d \<in> set denies" and "object_value varResult d = None"
    and "rego_Query R modules (path @ ''.warn[res]'') (Some resource) = Inr []"
  shows "eval_policy R ord p resource (name, code) =
    Inr [\<lparr>rs_Metadata = md, rs_Success = True, rs_Messages = []\<rparr>]"
proof -
  have "length (List.map_filter (object_value varResult) denies) < length denies"
    using assms(9,10) by (simp add: List.map_filter_def length_filter_less)
  then have no: "snd (hasBindings denies varResult) = False"
    by (auto simp: hasBindings_def Let_def)
  then show ?thesis using assms
    by (auto simp: eval_policy_def eval_rule_def hasBindings_def Let_def split: prod.splits)
qed

theorem denied_without_object_counts_as_passed_witness:
  "eval_policy sample_rego (\<lambda>ks. ks) sample_policies sample_resource (''policy.p1.rego'', ''package p1'') =
     Inr [\<lparr>rs_Metadata = \<lparr>md_ID = ''KSV001'', md_Title = ''t'', md_Severity = ''HIGH'', md_Type = ''c'',
           md_Description = ''d''\<rparr>, rs_Success = True, rs_Messages = []\<rparr>]"
proof -
  have lib: "range_map (\<lambda>ks. ks) (Libraries (\<lambda>ks. ks) sample_policies) = [(''library.l.rego'', ''package l'')]"
    by code_simp
  show ?thesis
    by (rule denied_without_object_counts_as_passed [where paths = "[''data.p'']" and path = "''data.p''"
          and d = "[(varResult, JString ''running as root'')]"])
       (auto simp: lib sample_rego_def hasBinding_def sample_md object_value_def)
qed

end
