(* ===== verification/Batch_Delete.thy ===== *)
theory Batch_Delete
  imports Report_Ttl
begin

text \<open>
  Removing stale configuration audit reports in batches. Four reconcilers do it, two in
  \<^verbatim>\<open>pkg/configauditreport/controller.go\<close> (built-in policies) and two in
  \<^verbatim>\<open>pkg/operator/controller/plugins_config.go\<close> (plugins), each for namespaced or for cluster-scoped
  reports, with the same loop: list at most one report more than the batch limit, delete up to the
  limit, and ask to be called again when there were more. The loop is given here once as
  \<open>batch_delete\<close>. The locale \<open>stale_report_cleaner\<close> states what such a reconciler promises; inside
  it the repeated calls that the requests for requeueing cause are shown to end with no stale
  report left.
\<close>

section \<open>The loop\<close>

text \<open>The parsed selector \<open>LabelPluginConfigHash!=hash,LabelResourceKind=kind\<close>, and the limit.\<close>

definition stale_options :: "Config \<Rightarrow> string \<Rightarrow> Kind \<Rightarrow> ListOptions" where
  "stale_options config configHash kind =
     \<lparr>lo_Namespace = None,
      lo_Reqs = [ReqNeq LabelPluginConfigHash configHash, ReqEq LabelResourceKind kind],
      lo_Limit = Some (cfg_BatchDeleteLimit config + 1)\<rparr>"

definition delete_report :: "string \<Rightarrow> 's client \<Rightarrow> Object \<Rightarrow> 's \<Rightarrow> error option \<times> 's" where
  "delete_report msg c report s = wrap_err msg (ignore_err IsNotFound (cl_Delete c s report))"

definition batch_delete ::
    "GoType \<Rightarrow> string \<Rightarrow> 's client \<Rightarrow> Config \<Rightarrow> string \<Rightarrow> Kind \<Rightarrow> 's \<Rightarrow> (error + Result) \<times> 's" where
  "batch_delete t msg c config configHash kind s =
     (case cl_List c s (Some t) (stale_options config configHash kind) of
        Inl e \<Rightarrow> (Inl (Wrap ''listing reports'' e), s)
      | Inr items \<Rightarrow>
          (case for_each (delete_report msg c)
                  (take (nat (MinInt (cfg_BatchDeleteLimit config) (int (length items)))) items) s of
             (Some e, s1) \<Rightarrow> (Inl e, s1)
           | (None, s1) \<Rightarrow>
               if int (length items) - cfg_BatchDeleteLimit config > 0
               then (Inr \<lparr>RequeueAfter = cfg_BatchDeleteDelay config\<rparr>, s1)
               else (Inr no_requeue, s1)))"

text \<open>The reports that the current configuration makes stale: those with another hash.\<close>

definition stale :: "string \<Rightarrow> Kind \<Rightarrow> Object \<Rightarrow> bool" where
  "stale configHash kind x \<longleftrightarrow> om_Labels (o_Meta x) LabelPluginConfigHash \<noteq> Some configHash \<and>
     om_Labels (o_Meta x) LabelResourceKind = Some kind"

definition stale_keys :: "'s client \<Rightarrow> GoType \<Rightarrow> string \<Rightarrow> Kind \<Rightarrow> 's \<Rightarrow> ObjectKey set" where
  "stale_keys c t configHash kind s = {k. \<exists>x. cl_Get c s t k = Inr x \<and> stale configHash kind x}"

definition removed_keys :: "'s client \<Rightarrow> GoType \<Rightarrow> 's \<Rightarrow> 's \<Rightarrow> ObjectKey set" where
  "removed_keys c t s s' = {k. cl_Get c s' t k \<noteq> cl_Get c s t k}"

text \<open>An API server that answers: lists succeed, and a delete fails only for a missing object.\<close>

definition available :: "'s client \<Rightarrow> bool" where
  "available c \<longleftrightarrow> (\<forall>s t opts. \<exists>xs. cl_List c s (Some t) opts = Inr xs) \<and>
     (\<forall>s x e s'. cl_Delete c s x = (Some e, s') \<longrightarrow> IsNotFound e)"

text \<open>The controller runtime calls a reconciler again when it asks for it, here at most \<open>n\<close> times more.\<close>

fun requeue_loop :: "('s \<Rightarrow> (error + Result) \<times> 's) \<Rightarrow> nat \<Rightarrow> 's \<Rightarrow> (error + Result) \<times> 's" where
  "requeue_loop f 0 s = f s"
| "requeue_loop f (Suc n) s =
     (case f s of
        (Inl e, s1) \<Rightarrow> (Inl e, s1)
      | (Inr res, s1) \<Rightarrow> if RequeueAfter res > 0 then requeue_loop f n s1 else (Inr res, s1))"

section \<open>The contract\<close>

locale stale_report_cleaner =
  fixes rtype :: GoType
    and ok :: "'r \<Rightarrow> bool"
    and the_client :: "'r \<Rightarrow> 's client"
    and config :: "'r \<Rightarrow> Config"
    and hash :: "'r \<Rightarrow> Kind \<Rightarrow> 's \<Rightarrow> error + string"
    and clean :: "'r \<Rightarrow> Kind \<Rightarrow> ObjectKey \<Rightarrow> 's \<Rightarrow> (error + Result) \<times> 's"
  assumes other_types: "ok r \<Longrightarrow> clean r kind req s = (res, s') \<Longrightarrow> t \<noteq> rtype \<Longrightarrow>
      cl_Get (the_client r) s' t k = cl_Get (the_client r) s t k"
    and removes_stale: "ok r \<Longrightarrow> clean r kind req s = (res, s') \<Longrightarrow> k \<in> removed_keys (the_client r) rtype s s' \<Longrightarrow>
      cl_Get (the_client r) s' rtype k = Inl NotFound \<and>
      (\<exists>h. hash r kind s = Inr h \<and> k \<in> stale_keys (the_client r) rtype h kind s)"
    and bounded: "ok r \<Longrightarrow> clean r kind req s = (res, s') \<Longrightarrow>
      finite (removed_keys (the_client r) rtype s s') \<and>
      int (card (removed_keys (the_client r) rtype s s')) \<le> cfg_BatchDeleteLimit (config r)"
    and outcome: "ok r \<Longrightarrow> cl_Get (the_client r) s TConfigMap req = Inr cm \<Longrightarrow> hash r kind s = Inr h \<Longrightarrow>
      clean r kind req s = (Inr out, s') \<Longrightarrow>
      (if stale_keys (the_client r) rtype h kind s' = {} then out = no_requeue
       else out = \<lparr>RequeueAfter = cfg_BatchDeleteDelay (config r)\<rparr> \<and>
         int (card (removed_keys (the_client r) rtype s s')) = cfg_BatchDeleteLimit (config r))"
    and answers: "ok r \<Longrightarrow> available (the_client r) \<Longrightarrow> cl_Get (the_client r) s TConfigMap req = Inr cm \<Longrightarrow>
      hash r kind s = Inr h \<Longrightarrow> \<exists>out s'. clean r kind req s = (Inr out, s')"
    and hash_frame: "ok r \<Longrightarrow> (\<And>t k. t \<noteq> rtype \<Longrightarrow> cl_Get (the_client r) s' t k = cl_Get (the_client r) s t k) \<Longrightarrow>
      hash r kind s' = hash r kind s"
    and not_config: "rtype \<noteq> TConfigMap"
begin

lemma stale_after:
  assumes "ok r" and "clean r kind req s = (res, s')"
  shows "stale_keys (the_client r) rtype h kind s' =
    stale_keys (the_client r) rtype h kind s - removed_keys (the_client r) rtype s s'"
proof -
  let ?c = "the_client r"
  have "cl_Get ?c s' rtype k = (if k \<in> removed_keys ?c rtype s s' then Inl NotFound else cl_Get ?c s rtype k)" for k
    using removes_stale [OF assms, of k] by (auto simp: removed_keys_def)
  then show ?thesis by (auto simp: stale_keys_def)
qed

lemma removed_subset:
  assumes "ok r" and "clean r kind req s = (res, s')" and "hash r kind s = Inr h"
  shows "removed_keys (the_client r) rtype s s' \<subseteq> stale_keys (the_client r) rtype h kind s"
  using removes_stale [OF assms(1,2)] assms(3) by auto

text \<open>A report with the current hash survives any number of rounds.\<close>

lemma current_kept:
  assumes "ok r" and "clean r kind req s = (res, s')" and "hash r kind s = Inr h"
    and "k \<notin> stale_keys (the_client r) rtype h kind s"
  shows "cl_Get (the_client r) s' rtype k = cl_Get (the_client r) s rtype k"
  using removed_subset [OF assms(1-3)] assms(4) by (auto simp: removed_keys_def)

text \<open>Enough rounds leave no stale report; each round that is not the last removes a full batch.\<close>

lemma drains:
  assumes "ok r" and "available (the_client r)" and "0 < cfg_BatchDeleteDelay (config r)"
    and "cl_Get (the_client r) s TConfigMap req = Inr cm" and "hash r kind s = Inr h"
    and "finite (stale_keys (the_client r) rtype h kind s)"
    and "int (card (stale_keys (the_client r) rtype h kind s)) \<le> (int n + 1) * cfg_BatchDeleteLimit (config r)"
  shows "\<exists>s'. requeue_loop (clean r kind req) n s = (Inr no_requeue, s') \<and>
    stale_keys (the_client r) rtype h kind s' = {} \<and>
    (\<forall>t k. (t, k) \<notin> {rtype} \<times> stale_keys (the_client r) rtype h kind s \<longrightarrow>
       cl_Get (the_client r) s' t k = cl_Get (the_client r) s t k)"
  using assms(4-7)
proof (induction n arbitrary: s)
  case 0
  let ?c = "the_client r"
  obtain res s' where cl: "clean r kind req s = (Inr res, s')" using answers [OF assms(1,2) 0(1,2)] by blast
  let ?S = "stale_keys ?c rtype h kind s" let ?R = "removed_keys ?c rtype s s'"
  note sub = removed_subset [OF assms(1) cl 0(2)] and after = stale_after [OF assms(1) cl, of h]
  have none: "stale_keys ?c rtype h kind s' = {}"
  proof (rule ccontr)
    assume "stale_keys ?c rtype h kind s' \<noteq> {}"
    then have "int (card ?R) = cfg_BatchDeleteLimit (config r)" "?S - ?R \<noteq> {}"
      using outcome [OF assms(1) 0(1,2) cl] after by auto
    moreover have "card ?R < card ?S" using calculation(2) sub 0(3) by (intro psubset_card_mono) auto
    ultimately show False using 0(4) by simp
  qed
  then have "res = no_requeue" using outcome [OF assms(1) 0(1,2) cl] by simp
  moreover have "cl_Get ?c s' t k = cl_Get ?c s t k" if "(t, k) \<notin> {rtype} \<times> ?S" for t k
    using that other_types [OF assms(1) cl, of t k] current_kept [OF assms(1) cl 0(2), of k] by (cases "t = rtype") auto
  ultimately show ?case using cl none by (intro exI [of _ s']) auto
next
  case (Suc n)
  let ?c = "the_client r"
  obtain res s1 where cl: "clean r kind req s = (Inr res, s1)"
    using answers [OF assms(1,2) Suc.prems(1,2)] by blast
  let ?S = "stale_keys ?c rtype h kind s" let ?R = "removed_keys ?c rtype s s1"
  note sub = removed_subset [OF assms(1) cl Suc.prems(2)] and after = stale_after [OF assms(1) cl, of h]
  note out = outcome [OF assms(1) Suc.prems(1,2) cl]
  have frame: "cl_Get ?c s1 t k = cl_Get ?c s t k" if "(t, k) \<notin> {rtype} \<times> ?S" for t k
    using that other_types [OF assms(1) cl, of t k] current_kept [OF assms(1) cl Suc.prems(2), of k]
    by (cases "t = rtype") auto
  show ?case
  proof (cases "stale_keys ?c rtype h kind s1 = {}")
    case True
    then show ?thesis using cl out frame by (intro exI [of _ s1]) (auto simp: no_requeue_def)
  next
    case False
    with out have res: "RequeueAfter res = cfg_BatchDeleteDelay (config r)"
      and full: "int (card ?R) = cfg_BatchDeleteLimit (config r)" by auto
    have "card (?S - ?R) = card ?S - card ?R" "card ?R \<le> card ?S"
      using sub Suc.prems(3) by (auto intro: card_Diff_subset card_mono finite_subset)
    then have "int (card (stale_keys ?c rtype h kind s1)) = int (card ?S) - cfg_BatchDeleteLimit (config r)"
      using after full by simp
    then have le: "int (card (stale_keys ?c rtype h kind s1)) \<le> (int n + 1) * cfg_BatchDeleteLimit (config r)"
      using Suc.prems(4) by (simp add: algebra_simps)
    have h1: "hash r kind s1 = Inr h" using hash_frame [OF assms(1) other_types [OF assms(1) cl]] Suc.prems(2) by simp
    have cm1: "cl_Get ?c s1 TConfigMap req = Inr cm"
      using other_types [OF assms(1) cl] not_config Suc.prems(1) by auto
    have fin1: "finite (stale_keys ?c rtype h kind s1)" using after Suc.prems(3) by simp
    obtain s' where "requeue_loop (clean r kind req) n s1 = (Inr no_requeue, s')"
      "stale_keys ?c rtype h kind s' = {}"
      "\<And>t k. (t, k) \<notin> {rtype} \<times> stale_keys ?c rtype h kind s1 \<Longrightarrow> cl_Get ?c s' t k = cl_Get ?c s1 t k"
      using Suc.IH [OF cm1 h1 fin1 le] by blast
    then show ?thesis using cl res assms(3) frame after by (intro exI [of _ s']) auto
  qed
qed

end

section \<open>The loop keeps the contract\<close>

lemma delete_report_ok:
  assumes "api_laws c" and "delete_report msg c x s = (r, s')"
  shows "only_changes c s s' (go_type x) (key_of x)"
    "r = None \<Longrightarrow> cl_Get c s' (go_type x) (key_of x) = Inl NotFound"
    "cl_Get c s' (go_type x) (key_of x) = cl_Get c s (go_type x) (key_of x) \<or>
     cl_Get c s' (go_type x) (key_of x) = Inl NotFound"
proof -
  obtain e s1 where d: "cl_Delete c s x = (e, s1)" by fastforce
  have s1: "s1 = s'" using assms(2) d snd_ignore_err [of IsNotFound "cl_Delete c s x"] snd_wrap_err
    by (metis delete_report_def snd_conv)
  show "only_changes c s s' (go_type x) (key_of x)"
    using d s1 delete_ok(2) [OF assms(1), of s x s'] failed_write(4) [OF assms(1), of s x _ s']
    by (cases e) (auto simp: only_changes_def)
  show "r = None \<Longrightarrow> cl_Get c s' (go_type x) (key_of x) = Inl NotFound"
    using d s1 assms delete_ok(1) [OF assms(1), of s x s'] delete_notfound [OF assms(1), of s x _ s']
    by (cases e) (auto simp: delete_report_def ignore_err_def split: if_splits)
  show "cl_Get c s' (go_type x) (key_of x) = cl_Get c s (go_type x) (key_of x) \<or>
     cl_Get c s' (go_type x) (key_of x) = Inl NotFound"
    using d s1 delete_ok(1) [OF assms(1), of s x s'] failed_write(4) [OF assms(1), of s x _ s']
    by (cases e) auto
qed

text \<open>Deleting a list of objects of one type: only they can go, and after success all of them have.\<close>

lemma delete_all:
  assumes "api_laws c" and "\<forall>x \<in> set xs. go_type x = t" and "for_each (delete_report msg c) xs s = (r, s')"
  shows "(t', k) \<notin> {t} \<times> key_of ` set xs \<Longrightarrow> cl_Get c s' t' k = cl_Get c s t' k"
    "cl_Get c s' t k = cl_Get c s t k \<or> cl_Get c s' t k = Inl NotFound"
    "r = None \<Longrightarrow> k \<in> key_of ` set xs \<Longrightarrow> cl_Get c s' t k = Inl NotFound"
proof -
  have "(\<forall>t' k. (t', k) \<notin> {t} \<times> key_of ` set xs \<longrightarrow> cl_Get c s' t' k = cl_Get c s t' k) \<and>
    (\<forall>k. cl_Get c s' t k = cl_Get c s t k \<or> cl_Get c s' t k = Inl NotFound) \<and>
    (r = None \<longrightarrow> (\<forall>k \<in> key_of ` set xs. cl_Get c s' t k = Inl NotFound))"
    using assms(2,3)
  proof (induction xs arbitrary: s)
    case (Cons x xs)
    obtain r1 s1 where d: "delete_report msg c x s = (r1, s1)" by fastforce
    note one = delete_report_ok [OF assms(1) d]
    have t: "go_type x = t" using Cons.prems by simp
    show ?case
    proof (cases r1)
      case None
      then have rest: "for_each (delete_report msg c) xs s1 = (r, s')" using Cons.prems(2) d by simp
      note ih = Cons.IH [OF _ rest]
      have gone: "cl_Get c s1 t (key_of x) = Inl NotFound" using one(2) None t by simp
      have other: "(t', k) \<noteq> (t, key_of x) \<Longrightarrow> cl_Get c s1 t' k = cl_Get c s t' k" for t' k
        using one(1) t by (simp add: only_changes_def)
      have "cl_Get c s' t k = cl_Get c s t k \<or> cl_Get c s' t k = Inl NotFound" for k
        using ih Cons.prems(1) gone other by (cases "k = key_of x") (auto, metis+)
      moreover have "cl_Get c s' t (key_of x) = Inl NotFound"
      proof -
        have "cl_Get c s' t (key_of x) = cl_Get c s1 t (key_of x) \<or> cl_Get c s' t (key_of x) = Inl NotFound"
          using ih Cons.prems(1) by simp
        then show ?thesis using gone by auto
      qed
      ultimately show ?thesis using ih Cons.prems(1) other by auto
    next
      case (Some e)
      then have "r = Some e" "s' = s1" using Cons.prems(2) d by simp_all
      then show ?thesis using one(1,3) t by (auto simp: only_changes_def) metis+
    qed
  qed simp
  then show "(t', k) \<notin> {t} \<times> key_of ` set xs \<Longrightarrow> cl_Get c s' t' k = cl_Get c s t' k"
    "cl_Get c s' t k = cl_Get c s t k \<or> cl_Get c s' t k = Inl NotFound"
    "r = None \<Longrightarrow> k \<in> key_of ` set xs \<Longrightarrow> cl_Get c s' t k = Inl NotFound" by blast+
qed

lemma stale_selected: "selected (stale_options config h kind) x = stale h kind x"
  by (simp add: selected_def stale_options_def stale_def)

lemma stale_listed:
  assumes "api_laws c" and "0 \<le> cfg_BatchDeleteLimit config"
    and "cl_List c s (Some t) (stale_options config h kind) = Inr items"
  shows "distinct (map key_of items)" "\<forall>x \<in> set items. go_type x = t"
    "key_of ` set items \<subseteq> stale_keys c t h kind s"
    "int (length items) \<le> cfg_BatchDeleteLimit config + 1"
    "int (length items) \<le> cfg_BatchDeleteLimit config \<Longrightarrow> key_of ` set items = stale_keys c t h kind s"
proof -
  have l: "distinct (map key_of items) \<and> int (length items) \<le> cfg_BatchDeleteLimit config + 1 \<and>
     set items \<subseteq> {x. \<exists>k. cl_Get c s t k = Inr x \<and> stale h kind x} \<and>
     (int (length items) < cfg_BatchDeleteLimit config + 1 \<longrightarrow>
        set items = {x. \<exists>k. cl_Get c s t k = Inr x \<and> stale h kind x})"
    using api_lawsD(7) [OF assms(1), unfolded law_list_limit_def, rule_format, OF assms(3)] assms(2)
    by (auto simp: stale_options_def stale_selected [unfolded stale_options_def])
  note typed = get_typed [OF assms(1)]
  show "distinct (map key_of items)" "int (length items) \<le> cfg_BatchDeleteLimit config + 1" using l by auto
  show "\<forall>x \<in> set items. go_type x = t" using l typed by blast
  show "key_of ` set items \<subseteq> stale_keys c t h kind s" using l typed by (fastforce simp: stale_keys_def)
  show "key_of ` set items = stale_keys c t h kind s" if "int (length items) \<le> cfg_BatchDeleteLimit config"
  proof -
    have "set items = {x. \<exists>k. cl_Get c s t k = Inr x \<and> stale h kind x}" using l that by simp
    then show ?thesis using typed by (fastforce simp: stale_keys_def)
  qed
qed

lemma batch_take: "0 \<le> limit \<Longrightarrow> nat (MinInt limit (int (length xs))) = min (nat limit) (length xs)"
  by (auto simp: MinInt_def)

text \<open>One run of the loop.\<close>

lemma batch_delete_laws:
  assumes laws: "api_laws c" and limit: "0 \<le> cfg_BatchDeleteLimit config"
    and run: "batch_delete t msg c config h kind s = (res, s')"
  shows "t' \<noteq> t \<Longrightarrow> cl_Get c s' t' k = cl_Get c s t' k"
    "k \<in> removed_keys c t s s' \<Longrightarrow> cl_Get c s' t k = Inl NotFound \<and> k \<in> stale_keys c t h kind s"
    "finite (removed_keys c t s s') \<and> int (card (removed_keys c t s s')) \<le> cfg_BatchDeleteLimit config"
    "res = Inr out \<Longrightarrow> (if stale_keys c t h kind s' = {} then out = no_requeue
       else out = \<lparr>RequeueAfter = cfg_BatchDeleteDelay config\<rparr> \<and>
         int (card (removed_keys c t s s')) = cfg_BatchDeleteLimit config)"
proof -
  let ?L = "nat (cfg_BatchDeleteLimit config)"
  have "(t' \<noteq> t \<longrightarrow> cl_Get c s' t' k = cl_Get c s t' k) \<and>
    (k \<in> removed_keys c t s s' \<longrightarrow> cl_Get c s' t k = Inl NotFound \<and> k \<in> stale_keys c t h kind s) \<and>
    finite (removed_keys c t s s') \<and> int (card (removed_keys c t s s')) \<le> cfg_BatchDeleteLimit config \<and>
    (res = Inr out \<longrightarrow> (if stale_keys c t h kind s' = {} then out = no_requeue
       else out = \<lparr>RequeueAfter = cfg_BatchDeleteDelay config\<rparr> \<and>
         int (card (removed_keys c t s s')) = cfg_BatchDeleteLimit config))"
  proof (cases "cl_List c s (Some t) (stale_options config h kind)")
    case (Inl e)
    then show ?thesis using run limit by (auto simp: batch_delete_def removed_keys_def)
  next
    case (Inr items)
    note l = stale_listed [OF laws limit Inr]
    let ?xs = "take (min ?L (length items)) items"
    obtain r1 s1 where fe: "for_each (delete_report msg c) ?xs s = (r1, s1)" by fastforce
    have s1: "s1 = s'" using run Inr fe batch_take [OF limit, of items]
      by (auto simp: batch_delete_def split: option.splits if_splits)
    have typed: "\<forall>x \<in> set ?xs. go_type x = t" using l(2) by (meson in_set_takeD)
    note da = delete_all [OF laws typed fe]
    have sub: "removed_keys c t s s' \<subseteq> key_of ` set ?xs" using da(1) s1 by (fastforce simp: removed_keys_def)
    have xs_stale: "key_of ` set ?xs \<subseteq> stale_keys c t h kind s" using l(3) by (auto dest!: in_set_takeD)
    have card_xs: "card (key_of ` set ?xs) = min ?L (length items)"
      using distinct_card [OF distinct_take [OF l(1), of "min ?L (length items)"]] by (simp add: take_map)
    have fin: "finite (removed_keys c t s s')" "card (removed_keys c t s s') \<le> min ?L (length items)"
      using sub card_xs by (auto intro: finite_subset simp: card_mono dest: card_mono [rotated])
    have ok: "if stale_keys c t h kind s' = {} then out = no_requeue
       else out = \<lparr>RequeueAfter = cfg_BatchDeleteDelay config\<rparr> \<and>
         int (card (removed_keys c t s s')) = cfg_BatchDeleteLimit config" if "res = Inr out"
    proof -
      have r1: "r1 = None" and out: "out = (if int (length items) - cfg_BatchDeleteLimit config > 0
          then \<lparr>RequeueAfter = cfg_BatchDeleteDelay config\<rparr> else no_requeue)"
        using that run Inr fe batch_take [OF limit, of items]
        by (auto simp: batch_delete_def split: option.splits if_splits)
      have gone: "cl_Get c s' t k = (if k \<in> key_of ` set ?xs then Inl NotFound else cl_Get c s t k)" for k
        using da(1,3) r1 s1 by auto
      then have after: "stale_keys c t h kind s' = stale_keys c t h kind s - key_of ` set ?xs"
        by (auto simp: stale_keys_def)
      have removed: "removed_keys c t s s' = key_of ` set ?xs"
        using gone xs_stale by (auto simp: removed_keys_def stale_keys_def)
      show ?thesis
      proof (cases "int (length items) \<le> cfg_BatchDeleteLimit config")
        case True
        then have "?xs = items" using limit by auto
        then show ?thesis using l(5) [OF True] after out True by simp
      next
        case False
        then have len: "int (length items) = cfg_BatchDeleteLimit config + 1" using l(4) by simp
        have "card (key_of ` set items) = length items" using l(1) distinct_card by (metis length_map set_map)
        then have "card (key_of ` set ?xs) < card (key_of ` set items)" using card_xs len limit by simp
        then have "\<not> key_of ` set items \<subseteq> key_of ` set ?xs" using card_mono [of "key_of ` set ?xs" "key_of ` set items"] by (metis List.finite_set finite_imageI not_le)
        then have "stale_keys c t h kind s' \<noteq> {}" using after l(3) by blast
        moreover have "int (min ?L (length items)) = cfg_BatchDeleteLimit config" using len limit by simp
        ultimately show ?thesis using out False removed card_xs by simp
      qed
    qed
    have "t' \<noteq> t \<longrightarrow> cl_Get c s' t' k = cl_Get c s t' k" using da(1) s1 by simp
    moreover have "k \<in> removed_keys c t s s' \<longrightarrow> cl_Get c s' t k = Inl NotFound \<and> k \<in> stale_keys c t h kind s"
      using da(2) [of k] s1 sub xs_stale by (auto simp: removed_keys_def)
    moreover have "int (card (removed_keys c t s s')) \<le> cfg_BatchDeleteLimit config"
      using fin(2) limit by linarith
    ultimately show ?thesis using fin(1) ok by blast
  qed
  then show "t' \<noteq> t \<Longrightarrow> cl_Get c s' t' k = cl_Get c s t' k"
    "k \<in> removed_keys c t s s' \<Longrightarrow> cl_Get c s' t k = Inl NotFound \<and> k \<in> stale_keys c t h kind s"
    "finite (removed_keys c t s s') \<and> int (card (removed_keys c t s s')) \<le> cfg_BatchDeleteLimit config"
    "res = Inr out \<Longrightarrow> (if stale_keys c t h kind s' = {} then out = no_requeue
       else out = \<lparr>RequeueAfter = cfg_BatchDeleteDelay config\<rparr> \<and>
         int (card (removed_keys c t s s')) = cfg_BatchDeleteLimit config)"
    by blast+
qed

lemma batch_delete_answers:
  assumes "available c"
  shows "\<exists>res s'. batch_delete t msg c config h kind s = (Inr res, s')"
proof -
  obtain items where items: "cl_List c s (Some t) (stale_options config h kind) = Inr items"
    using assms unfolding available_def by blast
  have nf: "cl_Delete c s x = (Some e, s') \<Longrightarrow> IsNotFound e" for s x e s'
    using assms unfolding available_def by blast
  have one: "fst (delete_report msg c x s) = None" for x s
    using nf [of s x] by (cases "cl_Delete c s x"; cases "fst (cl_Delete c s x)")
      (auto simp: delete_report_def ignore_err_def)
  have "fst (for_each (delete_report msg c) xs s) = None" for xs s
  proof (induction xs arbitrary: s)
    case (Cons x xs)
    show ?case using one [of x s] Cons.IH by (cases "delete_report msg c x s") simp
  qed simp
  then obtain s1 where "for_each (delete_report msg c)
      (take (nat (MinInt (cfg_BatchDeleteLimit config) (int (length items)))) items) s = (None, s1)"
    by (metis prod.collapse)
  then show ?thesis using items by (simp add: batch_delete_def)
qed

section \<open>The reconcilers around the loop\<close>

text \<open>
  The four cleaners have the same frame around the loop: the config map is read, the hash computed.
\<close>

definition cleaner_body ::
    "GoType \<Rightarrow> string \<Rightarrow> 's client \<Rightarrow> Config \<Rightarrow> (Kind \<Rightarrow> 's \<Rightarrow> error + string) \<Rightarrow> Kind \<Rightarrow> ObjectKey \<Rightarrow> 's \<Rightarrow>
       (error + Result) \<times> 's" where
  "cleaner_body t msg c config hash kind req s =
     (case cl_Get c s TConfigMap req of
        Inl err \<Rightarrow>
          if IsNotFound err then (Inr no_requeue, s)
          else (Inl (Wrap ''getting ConfigMap from cache'' err), s)
      | Inr cm \<Rightarrow>
          (case hash kind s of
             Inl e \<Rightarrow> (Inl e, s) | Inr configHash \<Rightarrow> batch_delete t msg c config configHash kind s))"

lemma cleaner_body_laws:
  assumes "api_laws c" and "0 \<le> cfg_BatchDeleteLimit config"
    and run: "cleaner_body t msg c config hash kind req s = (res, s')"
  shows "t' \<noteq> t \<Longrightarrow> cl_Get c s' t' k = cl_Get c s t' k"
    "k \<in> removed_keys c t s s' \<Longrightarrow> cl_Get c s' t k = Inl NotFound \<and>
       (\<exists>h. hash kind s = Inr h \<and> k \<in> stale_keys c t h kind s)"
    "finite (removed_keys c t s s') \<and> int (card (removed_keys c t s s')) \<le> cfg_BatchDeleteLimit config"
    "cl_Get c s TConfigMap req = Inr cm \<Longrightarrow> hash kind s = Inr h \<Longrightarrow> res = Inr out \<Longrightarrow>
      (if stale_keys c t h kind s' = {} then out = no_requeue
       else out = \<lparr>RequeueAfter = cfg_BatchDeleteDelay config\<rparr> \<and>
         int (card (removed_keys c t s s')) = cfg_BatchDeleteLimit config)"
proof -
  consider (same) "s' = s" "\<not> (\<exists>cm h. cl_Get c s TConfigMap req = Inr cm \<and> hash kind s = Inr h)"
    | (batch) h where "hash kind s = Inr h" "batch_delete t msg c config h kind s = (res, s')"
    using run by (auto simp: cleaner_body_def split: sum.splits if_splits)
  then have "(t' \<noteq> t \<longrightarrow> cl_Get c s' t' k = cl_Get c s t' k) \<and>
    (k \<in> removed_keys c t s s' \<longrightarrow> cl_Get c s' t k = Inl NotFound \<and>
       (\<exists>h. hash kind s = Inr h \<and> k \<in> stale_keys c t h kind s)) \<and>
    finite (removed_keys c t s s') \<and> int (card (removed_keys c t s s')) \<le> cfg_BatchDeleteLimit config \<and>
    (cl_Get c s TConfigMap req = Inr cm \<longrightarrow> hash kind s = Inr h \<longrightarrow> res = Inr out \<longrightarrow>
      (if stale_keys c t h kind s' = {} then out = no_requeue
       else out = \<lparr>RequeueAfter = cfg_BatchDeleteDelay config\<rparr> \<and>
         int (card (removed_keys c t s s')) = cfg_BatchDeleteLimit config))"
  proof cases
    case same
    then show ?thesis using assms(2) by (auto simp: removed_keys_def)
  next
    case (batch h')
    note laws = batch_delete_laws [OF assms(1,2) batch(2)]
    show ?thesis using laws(1) [of t' k] laws(2) [of k] laws(3) laws(4) [of out] batch(1) by auto
  qed
  then show "t' \<noteq> t \<Longrightarrow> cl_Get c s' t' k = cl_Get c s t' k"
    "k \<in> removed_keys c t s s' \<Longrightarrow> cl_Get c s' t k = Inl NotFound \<and>
       (\<exists>h. hash kind s = Inr h \<and> k \<in> stale_keys c t h kind s)"
    "finite (removed_keys c t s s') \<and> int (card (removed_keys c t s s')) \<le> cfg_BatchDeleteLimit config"
    "cl_Get c s TConfigMap req = Inr cm \<Longrightarrow> hash kind s = Inr h \<Longrightarrow> res = Inr out \<Longrightarrow>
      (if stale_keys c t h kind s' = {} then out = no_requeue
       else out = \<lparr>RequeueAfter = cfg_BatchDeleteDelay config\<rparr> \<and>
         int (card (removed_keys c t s s')) = cfg_BatchDeleteLimit config)"
    by blast+
qed

lemma cleaner_body_answers:
  assumes "available c" and "cl_Get c s TConfigMap req = Inr cm" and "hash kind s = Inr h"
  shows "\<exists>res s'. cleaner_body t msg c config hash kind req s = (Inr res, s')"
  using batch_delete_answers [OF assms(1)] assms(2,3) by (simp add: cleaner_body_def)

text \<open>Any reconciler of this form keeps the contract.\<close>

lemma cleaner_body_contract:
  assumes "\<And>r. ok r \<Longrightarrow> api_laws (cl r) \<and> 0 \<le> cfg_BatchDeleteLimit (cfg r)" and "t \<noteq> TConfigMap"
    and "\<And>r s s' kind. ok r \<Longrightarrow> (\<And>t' k. t' \<noteq> t \<Longrightarrow> cl_Get (cl r) s' t' k = cl_Get (cl r) s t' k) \<Longrightarrow>
      hash r kind s' = hash r kind s"
  shows "stale_report_cleaner t ok cl cfg hash (\<lambda>r. cleaner_body t msg (cl r) (cfg r) (hash r))"
proof unfold_locales
  fix r kind req s res s' t' k
  assume r: "ok r" and run: "cleaner_body t msg (cl r) (cfg r) (hash r) kind req s = (res, s')"
  note laws = cleaner_body_laws [OF conjunct1 [OF assms(1) [OF r]] conjunct2 [OF assms(1) [OF r]] run]
  show "t' \<noteq> t \<Longrightarrow> cl_Get (cl r) s' t' k = cl_Get (cl r) s t' k" by (rule laws(1))
  show "k \<in> removed_keys (cl r) t s s' \<Longrightarrow> cl_Get (cl r) s' t k = Inl NotFound \<and>
      (\<exists>h. hash r kind s = Inr h \<and> k \<in> stale_keys (cl r) t h kind s)" by (rule laws(2))
  show "finite (removed_keys (cl r) t s s') \<and> int (card (removed_keys (cl r) t s s')) \<le> cfg_BatchDeleteLimit (cfg r)"
    by (rule laws(3))
next
  fix r s req cm kind h out s'
  assume r: "ok r" and cm: "cl_Get (cl r) s TConfigMap req = Inr cm" and h: "hash r kind s = Inr h"
  show "if stale_keys (cl r) t h kind s' = {} then out = no_requeue
      else out = \<lparr>RequeueAfter = cfg_BatchDeleteDelay (cfg r)\<rparr> \<and>
        int (card (removed_keys (cl r) t s s')) = cfg_BatchDeleteLimit (cfg r)"
    if "cleaner_body t msg (cl r) (cfg r) (hash r) kind req s = (Inr out, s')"
    by (rule cleaner_body_laws(4) [OF conjunct1 [OF assms(1) [OF r]] conjunct2 [OF assms(1) [OF r]] that cm]) (simp_all add: h)
  show "\<exists>out s'. cleaner_body t msg (cl r) (cfg r) (hash r) kind req s = (Inr out, s')" if "available (cl r)"
    by (rule cleaner_body_answers [OF that cm, of "hash r"]) (rule h)
qed (use assms(2,3) in blast)+

lemma mem_available: "available mem_client"
  by (auto simp: available_def mem_Delete_def mem_List_def Let_def split: if_splits)

end
