(* ===== verification/Config_Audit_Controller.thy ===== *)
theory Config_Audit_Controller
  imports Config_Audit Policy Batch_Delete
begin

text \<open>
  The built-in configuration audit, \<^verbatim>\<open>pkg/configauditreport/controller.go\<close>: resources are evaluated
  against the policies of a config map as soon as they change, without scan jobs, and reports of an
  older version of the policies are removed in batches.
\<close>

record 's ResourceController =
  rc_Config :: Config
  rc_Client :: "'s client"
  rc_env :: env
  rc_order :: order
  rc_rego :: rego
  rc_SetControllerReference :: owner_setter
  rc_Version :: string

section \<open>Watched events\<close>

definition audit_kinds :: "Kind list" where
  "audit_kinds = [KindPod, KindReplicaSet, KindReplicationController, KindStatefulSet, KindDaemonSet,
     KindCronJob, KindJob, KindService, KindConfigMap, KindRole, KindRoleBinding, KindNetworkPolicy,
     KindIngress, KindResourceQuota, KindLimitRange]"

definition audit_cluster_kinds :: "Kind list" where
  "audit_cluster_kinds = [KindClusterRole, KindClusterRoleBindings, KindCustomResourceDefinition,
     KindPodSecurityPolicy]"

definition resource_predicates :: "Config \<Rightarrow> error + Predicate" where
  "resource_predicates config =
     (case InstallModePredicate config of
        Inl e \<Rightarrow> Inl e
      | Inr installModePredicate \<Rightarrow>
          Inr (all_predicates [Not_pred ManagedByStarboardOperator, Not_pred IsLeaderElectionResource,
                 Not_pred IsBeingTerminated, installModePredicate]))"

definition cluster_resource_predicates :: Predicate where
  "cluster_resource_predicates =
     all_predicates [Not_pred ManagedByStarboardOperator, Not_pred IsBeingTerminated]"

definition policies_predicates :: "Config \<Rightarrow> Predicate" where
  "policies_predicates config =
     all_predicates [Not_pred IsBeingTerminated, HasName PoliciesConfigMapName,
       InNamespace (cfg_Namespace config)]"

section \<open>Reconciling a resource\<close>

text \<open>Pods of a built-in workload and jobs of a cron job are audited through their controller.\<close>

definition skip_resource :: "Kind \<Rightarrow> Object \<Rightarrow> bool" where
  "skip_resource resourceKind resource \<longleftrightarrow>
     (resourceKind = KindPod \<and> IsBuiltInWorkload (GetControllerOf resource)) \<or>
     (resourceKind = KindJob \<and>
        (case GetControllerOf resource of None \<Rightarrow> False | Some cr \<Rightarrow> or_Kind cr = KindCronJob))"

definition policies :: "'s ResourceController \<Rightarrow> 's \<Rightarrow> error + Policies" where
  "policies r s =
     (case cl_Get (rc_Client r) s TConfigMap
             \<lparr>key_Namespace = cfg_Namespace (rc_Config r), key_Name = PoliciesConfigMapName\<rparr> of
        Inl e \<Rightarrow> Inl (Wrap ''failed getting policies from configmap'' e)
      | Inr cm \<Rightarrow> Inr (config_data (o_Body cm)))"

text \<open>Whether a found report has both hashes; shared by the two scopes and by the plugin-based controller.\<close>

definition report_current :: "string \<Rightarrow> string \<Rightarrow> error + Object option \<Rightarrow> error + bool" where
  "report_current podSpecHash pluginConfigHash found =
     (case found of
        Inl e \<Rightarrow> Inl e
      | Inr None \<Rightarrow> Inr False
      | Inr (Some report) \<Rightarrow>
          Inr (mget (om_Labels (o_Meta report)) LabelResourceSpecHash = podSpecHash \<and>
               mget (om_Labels (o_Meta report)) LabelPluginConfigHash = pluginConfigHash))"

definition hasClusterReport ::
    "env \<Rightarrow> 's client \<Rightarrow> 's \<Rightarrow> ObjectRef \<Rightarrow> string \<Rightarrow> string \<Rightarrow> error + bool" where
  "hasClusterReport E c s owner podSpecHash pluginConfigHash =
     report_current podSpecHash pluginConfigHash (FindClusterReportByOwner E c s owner)"

definition hasReport :: "env \<Rightarrow> 's client \<Rightarrow> 's \<Rightarrow> ObjectRef \<Rightarrow> string \<Rightarrow> string \<Rightarrow> error + bool" where
  "hasReport E c s owner podSpecHash pluginConfigHash =
     (if IsClusterScopedKind (ref_Kind owner)
      then hasClusterReport E c s owner podSpecHash pluginConfigHash
      else report_current podSpecHash pluginConfigHash (FindReportByOwner E c s owner))"

definition check_of_result :: "PolicyResult \<Rightarrow> Check" where
  "check_of_result result =
     \<lparr>ck_ID = md_ID (rs_Metadata result), ck_Title = md_Title (rs_Metadata result),
      ck_Description = md_Description (rs_Metadata result), ck_Severity = md_Severity (rs_Metadata result),
      ck_Category = md_Type (rs_Metadata result), ck_Messages = rs_Messages result, ck_Remediation = [],
      ck_Success = rs_Success result, ck_Scope = None\<rparr>"

text \<open>The zero \<open>UpdateTimestamp\<close> is the zero value of the field, which the code does not set.\<close>

definition evaluate :: "'s ResourceController \<Rightarrow> Policies \<Rightarrow> Object \<Rightarrow> error + ConfigAuditReportData" where
  "evaluate r p resource =
     (case Eval (rc_rego r) (rc_order r) p resource of
        Inl e \<Rightarrow> Inl e
      | Inr results \<Rightarrow>
          (let checks = map check_of_result results
           in Inr \<lparr>car_UpdateTimestamp = 0,
                   car_Scanner = \<lparr>sc_Name = ''Starboard'', sc_Vendor = ''Aqua Security'', sc_Version = rc_Version r\<rparr>,
                   car_Summary = ConfigAuditSummaryFromChecks checks, car_Checks = checks,
                   car_PodChecks = checks, car_ContainerChecks = []\<rparr>))"

definition reconcileResource ::
    "'s ResourceController \<Rightarrow> Kind \<Rightarrow> ObjectKey \<Rightarrow> 's \<Rightarrow> (error + Result) \<times> 's" where
  "reconcileResource r resourceKind req s =
     (let resourceRef = ObjectRefFromKindAndObjectKey resourceKind req in
      case ObjectFromObjectRef (rc_Client r) s resourceRef of
        Inl err \<Rightarrow>
          if IsNotFound err then (Inr no_requeue, s)
          else (Inl (Wrap (''getting '' @ resourceKind @ '' from cache'') err), s)
      | Inr resource \<Rightarrow>
          if skip_resource resourceKind resource then (Inr no_requeue, s)
          else
            (case policies r s of
               Inl e \<Rightarrow> (Inl (Wrap ''getting policies'' e), s)
             | Inr p \<Rightarrow>
                 (case Applicable (rc_order r) p resource of
                    Inl e \<Rightarrow> (Inl (Wrap ''checking whether plugin is applicable'' e), s)
                  | Inr (False, reason) \<Rightarrow>
                      (Inr \<lparr>RequeueAfter = cfg_ScanJobRetryAfter (rc_Config r)\<rparr>, s)
                  | Inr (True, reason) \<Rightarrow>
                      (case ComputeSpecHash (rc_env r) resource of
                         Inl e \<Rightarrow> (Inl (Wrap ''computing spec hash'' e), s)
                       | Inr resourceHash \<Rightarrow>
                           (case Hash (rc_env r) (rc_order r) p resourceKind of
                              Inl e \<Rightarrow> (Inl (Wrap ''computing policies hash'' e), s)
                            | Inr policiesHash \<Rightarrow>
                                (case hasReport (rc_env r) (rc_Client r) s resourceRef resourceHash policiesHash of
                                   Inl e \<Rightarrow> (Inl (Wrap ''checking whether configuration audit report exists'' e), s)
                                 | Inr True \<Rightarrow> (Inr no_requeue, s)
                                 | Inr False \<Rightarrow>
                                     (case evaluate r p resource of
                                        Inl e \<Rightarrow> (Inl (Wrap ''evaluating resource'' e), s)
                                      | Inr reportData \<Rightarrow>
                                          finish (AuditReportBuilder_Write (rc_env r) (rc_SetControllerReference r)
                                            (rc_Client r)
                                            \<lparr>ab_controller = resource, ab_resourceSpecHash = resourceHash,
                                             ab_pluginConfigHash = policiesHash, ab_data = reportData\<rparr> s))))))))"

section \<open>Removing reports of older policies\<close>

definition policies_hash :: "'s ResourceController \<Rightarrow> Kind \<Rightarrow> 's \<Rightarrow> error + string" where
  "policies_hash r kind s =
     (case policies r s of
        Inl e \<Rightarrow> Inl (Wrap ''getting policies'' e)
      | Inr p \<Rightarrow>
          (case Hash (rc_env r) (rc_order r) p kind of
             Inl e \<Rightarrow> Inl (Wrap ''getting config hash'' e) | Inr h \<Rightarrow> Inr h))"

definition reconcileConfig ::
    "'s ResourceController \<Rightarrow> Kind \<Rightarrow> ObjectKey \<Rightarrow> 's \<Rightarrow> (error + Result) \<times> 's" where
  "reconcileConfig r kind req s =
     (case cl_Get (rc_Client r) s TConfigMap req of
        Inl err \<Rightarrow>
          if IsNotFound err then (Inr no_requeue, s)
          else (Inl (Wrap ''getting ConfigMap from cache'' err), s)
      | Inr cm \<Rightarrow>
          (case policies_hash r kind s of
             Inl e \<Rightarrow> (Inl e, s)
           | Inr configHash \<Rightarrow>
               batch_delete TConfigAuditReport ''deleting ConfigAuditReport'' (rc_Client r) (rc_Config r)
                 configHash kind s))"

definition reconcileClusterConfig ::
    "'s ResourceController \<Rightarrow> Kind \<Rightarrow> ObjectKey \<Rightarrow> 's \<Rightarrow> (error + Result) \<times> 's" where
  "reconcileClusterConfig r kind req s =
     (case cl_Get (rc_Client r) s TConfigMap req of
        Inl err \<Rightarrow>
          if IsNotFound err then (Inr no_requeue, s)
          else (Inl (Wrap ''getting ConfigMap from cache'' err), s)
      | Inr cm \<Rightarrow>
          (case policies_hash r kind s of
             Inl e \<Rightarrow> (Inl e, s)
           | Inr configHash \<Rightarrow>
               batch_delete TClusterConfigAuditReport ''deleting ClusterConfigAuditReport'' (rc_Client r)
                 (rc_Config r) configHash kind s))"

section \<open>The cleaners keep their contract\<close>

definition cleaner_ok :: "'s ResourceController \<Rightarrow> bool" where
  "cleaner_ok r \<longleftrightarrow> api_laws (rc_Client r) \<and> 0 \<le> cfg_BatchDeleteLimit (rc_Config r)"

lemma reconcileConfig_body: "reconcileConfig = (\<lambda>r. cleaner_body TConfigAuditReport ''deleting ConfigAuditReport''
    (rc_Client r) (rc_Config r) (policies_hash r))"
  by (intro ext) (simp add: reconcileConfig_def cleaner_body_def)

lemma reconcileClusterConfig_body:
  "reconcileClusterConfig = (\<lambda>r. cleaner_body TClusterConfigAuditReport ''deleting ClusterConfigAuditReport''
    (rc_Client r) (rc_Config r) (policies_hash r))"
  by (intro ext) (simp add: reconcileClusterConfig_def cleaner_body_def)

lemma policies_hash_frame:
  assumes "\<And>k. cl_Get (rc_Client r) s' TConfigMap k = cl_Get (rc_Client r) s TConfigMap k"
  shows "policies_hash r kind s' = policies_hash r kind s"
  by (simp add: policies_hash_def policies_def assms)

interpretation policy_cleaner: stale_report_cleaner TConfigAuditReport cleaner_ok rc_Client rc_Config
    policies_hash reconcileConfig
  unfolding reconcileConfig_body
  by (rule cleaner_body_contract) (auto simp: cleaner_ok_def intro: policies_hash_frame)

interpretation cluster_policy_cleaner: stale_report_cleaner TClusterConfigAuditReport cleaner_ok rc_Client
    rc_Config policies_hash reconcileClusterConfig
  unfolding reconcileClusterConfig_body
  by (rule cleaner_body_contract) (auto simp: cleaner_ok_def intro: policies_hash_frame)

section \<open>Lemmas on the reconciliation of a resource\<close>

definition report_type :: "Kind \<Rightarrow> GoType" where
  "report_type kind = (if IsClusterScopedKind kind then TClusterConfigAuditReport else TConfigAuditReport)"

definition report_options :: "env \<Rightarrow> ObjectRef \<Rightarrow> ListOptions" where
  "report_options E owner =
     (if IsClusterScopedKind (ref_Kind owner) then cluster_owner_options E owner else owner_options E owner)"

text \<open>The key under which the report of a resource is stored.\<close>

definition report_key :: "env \<Rightarrow> Object \<Rightarrow> ObjectKey" where
  "report_key E resource =
     \<lparr>key_Namespace = (if IsClusterScopedKind (o_Kind resource) then [] else om_Namespace (o_Meta resource)),
      key_Name = resource_report_name E resource\<rparr>"

lemma hasReport_options:
  "hasReport E c s owner h ph =
     report_current h ph (first_item (cl_List c s (Some (report_type (ref_Kind owner))) (report_options E owner)))"
  by (simp add: hasReport_def hasClusterReport_def FindReportByOwner_def FindClusterReportByOwner_def
      report_type_def report_options_def)

lemma report_options_select:
  "selected (report_options E (ref_of x)) y \<longleftrightarrow>
     (IsClusterScopedKind (o_Kind x) \<or> om_Namespace (o_Meta y) = om_Namespace (o_Meta x)) \<and>
     ObjectRefToLabels E (ref_of x) \<subseteq>\<^sub>m om_Labels (o_Meta y)"
  by (auto simp: report_options_def cluster_options_select owner_options_select ref_of_def)

text \<open>Writing a built report: it is stored under the resource's key and only that key changes.\<close>

lemma AuditReportBuilder_Write_ok:
  assumes "api_laws c" and "AuditReportBuilder_Write E scr c b s = (None, s')"
  shows "\<exists>y. cl_Get c s' (report_type (o_Kind (ab_controller b))) (report_key E (ab_controller b)) = Inr y \<and>
      mget (om_Labels (o_Meta y)) LabelResourceSpecHash = ab_resourceSpecHash b \<and>
      mget (om_Labels (o_Meta y)) LabelPluginConfigHash = ab_pluginConfigHash b \<and>
      selected (report_options E (ref_of (ab_controller b))) y \<and>
      o_Body y = (if IsClusterScopedKind (o_Kind (ab_controller b)) then ClusterConfigAuditReport (ab_data b)
        else ConfigAuditReport (ab_data b))"
    "only_changes c s s' (report_type (o_Kind (ab_controller b))) (report_key E (ab_controller b))"
proof -
  let ?o = "ab_controller b" let ?k = "report_key E ?o" let ?t = "report_type (o_Kind ?o)"
  have "\<exists>x. carries E b x \<and> key_of x = ?k \<and> go_type x = ?t \<and>
      o_Body x = (if IsClusterScopedKind (o_Kind ?o) then ClusterConfigAuditReport (ab_data b)
        else ConfigAuditReport (ab_data b)) \<and>
      (\<exists>y. cl_Get c s' ?t ?k = Inr y \<and> stores y x) \<and> only_changes c s s' ?t ?k"
  proof (cases "IsClusterScopedKind (o_Kind ?o)")
    case True
    then obtain x where x: "GetClusterReport E scr b = Inr x" and w: "WriteClusterReport c x s = (None, s')"
      using assms(2) by (auto simp: AuditReportBuilder_Write_def split: sum.splits)
    note g = GetClusterReport_carries [OF x]
    have k: "key_of x = ?k" using g(1,3) True
      by (simp add: key_of_def carries_def cluster_scoped_def report_key_def audit_reportName_def)
    have t: "go_type x = TClusterConfigAuditReport" using g(2) by simp
    show ?thesis using g k t True cluster_audit_store.write_stored [OF assms(1) t g(3) w]
        cluster_audit_store.write_frame [OF assms(1) t g(3) w] by (auto simp: report_type_def)
  next
    case False
    then obtain x where x: "GetReport E scr b = Inr x" and w: "WriteReport c x s = (None, s')"
      using assms(2) by (auto simp: AuditReportBuilder_Write_def split: sum.splits)
    note g = GetReport_carries [OF x]
    have k: "key_of x = ?k" using g(1,3) False
      by (simp add: key_of_def carries_def report_key_def audit_reportName_def)
    have t: "go_type x = TConfigAuditReport" using g(2) by simp
    show ?thesis using g k t False audit_store.write_stored [OF assms(1) t TrueI w]
        audit_store.write_frame [OF assms(1) t TrueI w] by (auto simp: report_type_def)
  qed
  then obtain x y where x: "carries E b x" "key_of x = ?k"
      "o_Body x = (if IsClusterScopedKind (o_Kind ?o) then ClusterConfigAuditReport (ab_data b)
        else ConfigAuditReport (ab_data b))"
    and y: "cl_Get c s' ?t ?k = Inr y" "stores y x" and fr: "only_changes c s s' ?t ?k" by blast
  have "key_of y = ?k" using get_typed [OF assms(1) y(1)] by simp
  then have "selected (report_options E (ref_of ?o)) y"
    using x(1) y(2) by (auto simp: report_options_select report_key_def key_of_def carries_def stores_def)
  then show "\<exists>y. cl_Get c s' ?t ?k = Inr y \<and>
      mget (om_Labels (o_Meta y)) LabelResourceSpecHash = ab_resourceSpecHash b \<and>
      mget (om_Labels (o_Meta y)) LabelPluginConfigHash = ab_pluginConfigHash b \<and>
      selected (report_options E (ref_of ?o)) y \<and>
      o_Body y = (if IsClusterScopedKind (o_Kind ?o) then ClusterConfigAuditReport (ab_data b)
        else ConfigAuditReport (ab_data b))"
    using y x(1,3) by (auto simp: carries_def stores_def)
  show "only_changes c s s' ?t ?k" by (rule fr)
qed

text \<open>After the write the search for the owner finds that report, if no stray report of the owner exists.\<close>

lemma hasReport_after_write:
  assumes laws: "api_laws c" and w: "AuditReportBuilder_Write E scr c b s = (None, s')"
    and avail: "cl_List c s' (Some (report_type (o_Kind (ab_controller b))))
      (report_options E (ref_of (ab_controller b))) = Inr xs"
    and stray: "\<And>k x. cl_Get c s (report_type (o_Kind (ab_controller b))) k = Inr x \<Longrightarrow>
      selected (report_options E (ref_of (ab_controller b))) x \<Longrightarrow> k = report_key E (ab_controller b)"
  shows "hasReport E c s' (ref_of (ab_controller b)) (ab_resourceSpecHash b) (ab_pluginConfigHash b) = Inr True"
proof -
  let ?o = "ab_controller b" let ?t = "report_type (o_Kind ?o)" let ?opts = "report_options E (ref_of ?o)"
  obtain y where y: "cl_Get c s' ?t (report_key E ?o) = Inr y" "selected ?opts y"
      "mget (om_Labels (o_Meta y)) LabelResourceSpecHash = ab_resourceSpecHash b"
      "mget (om_Labels (o_Meta y)) LabelPluginConfigHash = ab_pluginConfigHash b"
    using AuditReportBuilder_Write_ok(1) [OF laws w] by blast
  have "k' = report_key E ?o" if "cl_Get c s' ?t k' = Inr x" "selected ?opts x" for k' x
  proof (rule ccontr)
    assume k': "k' \<noteq> report_key E ?o"
    then have "cl_Get c s ?t k' = Inr x"
      using AuditReportBuilder_Write_ok(2) [OF laws w] that(1) by (simp add: only_changes_def)
    with k' show False using stray that(2) by blast
  qed
  then have "first_item (cl_List c s' (Some ?t) ?opts) = Inr (Some y)"
    by (intro first_item_unique [OF laws avail _ y(1,2)])
       (auto simp: report_options_def cluster_owner_options_def owner_options_def)
  then show ?thesis
    using y(3,4) by (simp add: hasReport_options report_current_def ref_of_def)
qed

text \<open>A successful reconciliation either changes nothing or writes a report.\<close>

lemma reconcileResource_cases:
  assumes "reconcileResource r kind req s = (Inr res, s')"
  obtains (unchanged) "s' = s"
  | (written) resource p reason h ph data where
      "ObjectFromObjectRef (rc_Client r) s (ObjectRefFromKindAndObjectKey kind req) = Inr resource"
      "\<not> skip_resource kind resource" "policies r s = Inr p"
      "Applicable (rc_order r) p resource = Inr (True, reason)"
      "ComputeSpecHash (rc_env r) resource = Inr h" "Hash (rc_env r) (rc_order r) p kind = Inr ph"
      "evaluate r p resource = Inr data" "res = no_requeue"
      "AuditReportBuilder_Write (rc_env r) (rc_SetControllerReference r) (rc_Client r)
         \<lparr>ab_controller = resource, ab_resourceSpecHash = h, ab_pluginConfigHash = ph, ab_data = data\<rparr> s = (None, s')"
  using assms
  by (auto simp: reconcileResource_def Let_def finish_def split: sum.splits if_splits bool.splits prod.splits option.splits)

lemma type_of_kind_no_report:
  "type_of_kind kind = Some t \<Longrightarrow> t \<noteq> TConfigAuditReport \<and> t \<noteq> TClusterConfigAuditReport"
  by (auto simp: type_of_kind_def split: if_splits)

lemma resource_reads_frame:
  assumes "\<And>t k. t \<noteq> TConfigAuditReport \<Longrightarrow> t \<noteq> TClusterConfigAuditReport \<Longrightarrow>
      cl_Get (rc_Client r) s' t k = cl_Get (rc_Client r) s t k"
  shows "ObjectFromObjectRef (rc_Client r) s' ref = ObjectFromObjectRef (rc_Client r) s ref"
    "policies r s' = policies r s"
  using assms type_of_kind_no_report
  by (auto simp: ObjectFromObjectRef_def policies_def split: option.splits)

section \<open>Properties\<close>

text \<open>
  C4. Auditing settles: reconciling a resource a second time does nothing more. When a
  reconciliation succeeds, whichever branch it took (resource gone, left to its controller, no
  applicable policies, report up to date, report written), the next reconciliation of the same
  resource returns the same result and leaves the cluster as it is, provided that the search for
  reports answers and the resource has no report stored under another name.
\<close>

theorem audit_reconciliation_idempotent:
  assumes "api_laws (rc_Client r)" and "law_scheme (rc_Client r)"
    and "reconcileResource r kind req s = (Inr res, s')"
    and "cl_List (rc_Client r) s' (Some (report_type kind))
      (report_options (rc_env r) (ObjectRefFromKindAndObjectKey kind req)) = Inr xs"
    and "\<And>resource k x. ObjectFromObjectRef (rc_Client r) s (ObjectRefFromKindAndObjectKey kind req) = Inr resource \<Longrightarrow>
      cl_Get (rc_Client r) s (report_type kind) k = Inr x \<Longrightarrow>
      selected (report_options (rc_env r) (ObjectRefFromKindAndObjectKey kind req)) x \<Longrightarrow>
      k = report_key (rc_env r) resource"
  shows "reconcileResource r kind req s' = (Inr res, s')"
  using assms(3)
proof (cases rule: reconcileResource_cases)
  case unchanged
  then show ?thesis using assms(3) by simp
next
  case (written resource p reason h ph data)
  let ?ref = "ObjectRefFromKindAndObjectKey kind req"
  let ?b = "\<lparr>ab_controller = resource, ab_resourceSpecHash = h, ab_pluginConfigHash = ph, ab_data = data\<rparr>"
  have ref: "ref_of resource = ?ref" by (rule ObjectFromObjectRef_ref [OF assms(1,2) written(1)])
  then have kind: "o_Kind resource = kind" by (simp add: ref_of_def ObjectRefFromKindAndObjectKey_def)
  have "hasReport (rc_env r) (rc_Client r) s' ?ref h ph = Inr True"
    using hasReport_after_write [OF assms(1) written(9)] assms(4,5) written(1) by (simp add: ref kind)
  moreover have "ObjectFromObjectRef (rc_Client r) s' ?ref = Inr resource" "policies r s' = Inr p"
    using resource_reads_frame [of r s' s] AuditReportBuilder_Write_ok(2) [OF assms(1) written(9)] written(1,3)
    by (auto simp: only_changes_def report_type_def split: if_splits)
  ultimately show ?thesis using written by (simp add: reconcileResource_def)
qed

definition sample_policies_map :: Object where
  "sample_policies_map = \<lparr>o_Kind = [],
     o_Meta = empty_meta\<lparr>om_Name := PoliciesConfigMapName, om_Namespace := ''starboard''\<rparr>,
     o_Body = ConfigMap sample_policies\<rparr>"

definition sample_resource_controller :: "Object list ResourceController" where
  "sample_resource_controller = \<lparr>rc_Config = sample_config, rc_Client = mem_client, rc_env = sample_env,
     rc_order = (\<lambda>ks. ks), rc_rego = sample_rego, rc_SetControllerReference = (\<lambda>_ _. Inr []),
     rc_Version = ''0.15.4''\<rparr>"

lemma sample_rc_sel [simp]:
  "rc_Client sample_resource_controller = mem_client" "rc_env sample_resource_controller = sample_env"
  "rc_order sample_resource_controller = (\<lambda>ks. ks)" "rc_Config sample_resource_controller = sample_config"
  by (simp_all add: sample_resource_controller_def)

lemma sample_policies_read:
  "policies sample_resource_controller (sample_policies_map # s) = Inr sample_policies"
  by (simp add: policies_def mem_Get_def key_of_def sample_policies_map_def sample_config_def)

lemma sample_audit:
  defines "req \<equiv> \<lparr>key_Namespace = ''prod'', key_Name = ''web''\<rparr>"
  defines "ref \<equiv> ObjectRefFromKindAndObjectKey KindPod req"
  shows "ObjectFromObjectRef mem_client [sample_policies_map, sample_pod] ref = Inr sample_pod"
    "\<not> skip_resource KindPod sample_pod"
    "Applicable (\<lambda>ks. ks) sample_policies sample_pod = Inr (True, [])"
    "\<exists>h. ComputeSpecHash sample_env sample_pod = Inr h"
    "\<exists>ph. Hash sample_env (\<lambda>ks. ks) sample_policies KindPod = Inr ph"
    "hasReport sample_env mem_client [sample_policies_map, sample_pod] ref h ph = Inr False"
    "o_Kind sample_pod = ''Pod''"
proof -
  have types: "go_type sample_pod = TPod" "go_type sample_policies_map = TConfigMap"
    by (simp_all add: sample_pod_def sample_policies_map_def)
  have key: "key_of sample_pod = req" by (simp add: key_of_def sample_pod_def req_def)
  show kind: "o_Kind sample_pod = ''Pod''" by (simp add: sample_pod_def kube_simps)
  have pod: "sample_pod\<lparr>o_Kind := KindPod\<rparr> = sample_pod" by (simp add: sample_pod_def)
  have req: "key_Namespace req = ''prod''" "key_Name req = ''web''" by (simp_all add: req_def)
  show "ObjectFromObjectRef mem_client [sample_policies_map, sample_pod] ref = Inr sample_pod"
    using key pod types
    by (simp add: ObjectFromObjectRef_def ObjectRefFromKindAndObjectKey_def ensureGVK_def ref_def mem_Get_def)
  show "\<not> skip_resource KindPod sample_pod"
    by (simp add: skip_resource_def kube_simps GetControllerOf_def sample_pod_def empty_meta_def IsBuiltInWorkload_def)
  show "Applicable (\<lambda>ks. ks) sample_policies sample_pod = Inr (True, [])"
    by (simp add: Applicable_def kind sample_policies_pod)
  show "\<exists>h. ComputeSpecHash sample_env sample_pod = Inr h"
    by (simp add: ComputeSpecHash_def GetPodSpec_def sample_pod_def Let_def)
  show "\<exists>ph. Hash sample_env (\<lambda>ks. ks) sample_policies KindPod = Inr ph"
    by (simp add: Hash_def ModulesByKind_def with_libraries_def sample_policies_pod kube_simps)
  show "hasReport sample_env mem_client [sample_policies_map, sample_pod] ref h ph = Inr False"
    by (simp add: ref_def hasReport_options report_type_def kube_simps ObjectRefFromKindAndObjectKey_def mem_List_def
        IsClusterScopedKind_def first_item_def report_current_def Let_def types same_id_def split: option.splits)
qed

theorem audit_reconciliation_idempotent_witness:
  "\<exists>s' report. reconcileResource sample_resource_controller KindPod \<lparr>key_Namespace = ''prod'', key_Name = ''web''\<rparr>
       [sample_policies_map, sample_pod] = (Inr no_requeue, report # s') \<and>
     go_type report = TConfigAuditReport \<and>
     reconcileResource sample_resource_controller KindPod \<lparr>key_Namespace = ''prod'', key_Name = ''web''\<rparr>
       (report # s') = (Inr no_requeue, report # s')"
proof -
  let ?r = sample_resource_controller let ?req = "\<lparr>key_Namespace = ''prod'', key_Name = ''web''\<rparr>"
  let ?s = "[sample_policies_map, sample_pod]" let ?ref = "ObjectRefFromKindAndObjectKey KindPod ?req"
  have types: "go_type sample_pod = TPod" "go_type sample_policies_map = TConfigMap"
    by (simp_all add: sample_pod_def sample_policies_map_def)
  note own = sample_audit(1) and skip = sample_audit(2) and app = sample_audit(3) and has = sample_audit(6) and kind = sample_audit(7)
  obtain h ph where h: "ComputeSpecHash sample_env sample_pod = Inr h"
    and ph: "Hash sample_env (\<lambda>ks. ks) sample_policies KindPod = Inr ph"
    using sample_audit(4,5) by blast
  obtain data where ev: "evaluate ?r sample_policies sample_pod = Inr data"
    using sample_eval [OF kind] by (simp add: evaluate_def sample_resource_controller_def Let_def)
  let ?b = "\<lparr>ab_controller = sample_pod, ab_resourceSpecHash = h, ab_pluginConfigHash = ph, ab_data = data\<rparr>"
  obtain x where x: "GetReport sample_env (\<lambda>_ _. Inr []) ?b = Inr x"
    by (simp add: GetReport_def Let_def)
  have t: "go_type x = TConfigAuditReport" using GetReport_carries(2) [OF x] by simp
  have "WriteReport mem_client x ?s = (None, x # ?s)"
    by (simp add: WriteReport_def upsert_def mem_Get_def mem_Create_def same_id_def types t)
  then have w: "AuditReportBuilder_Write sample_env (\<lambda>_ _. Inr []) mem_client ?b ?s = (None, x # ?s)"
    using x by (simp add: AuditReportBuilder_Write_def kind IsClusterScopedKind_def kube_simps)
  have run: "reconcileResource ?r KindPod ?req ?s = (Inr no_requeue, x # ?s)"
    using w by (simp add: reconcileResource_def own skip sample_policies_read app h ph has ev)
       (simp add: sample_resource_controller_def)
  obtain xs where xs: "cl_List mem_client (x # ?s) (Some (report_type KindPod))
      (report_options sample_env ?ref) = Inr xs"
    by (simp add: mem_List_def Let_def)
  have "reconcileResource ?r KindPod ?req (x # ?s) = (Inr no_requeue, x # ?s)"
    by (rule audit_reconciliation_idempotent [OF _ _ run])
       (use mem_laws mem_scheme xs types in \<open>auto simp: mem_Get_def report_type_def split: if_splits\<close>)
  then show ?thesis using run t by blast
qed

text \<open>
  C12. When the policies change, all reports made with older policies go away: as long as the API
  answers, the repeated calls that the requests for requeueing cause end, after at most one call per
  full batch, without a further request, with no report of another policies hash left for the
  kind and with every other object (reports of the current policies, other kinds, other types)
  as it was.
\<close>

theorem stale_reports_drained:
  assumes "api_laws (rc_Client r)" and "available (rc_Client r)"
    and "0 < cfg_BatchDeleteDelay (rc_Config r)" and "0 \<le> cfg_BatchDeleteLimit (rc_Config r)"
    and "cl_Get (rc_Client r) s TConfigMap req = Inr cm" and "policies_hash r kind s = Inr h"
    and "finite (stale_keys (rc_Client r) TConfigAuditReport h kind s)"
    and "int (card (stale_keys (rc_Client r) TConfigAuditReport h kind s)) \<le>
      (int n + 1) * cfg_BatchDeleteLimit (rc_Config r)"
  shows "\<exists>s'. requeue_loop (reconcileConfig r kind req) n s = (Inr no_requeue, s') \<and>
    stale_keys (rc_Client r) TConfigAuditReport h kind s' = {} \<and>
    (\<forall>t k. (t, k) \<notin> {TConfigAuditReport} \<times> stale_keys (rc_Client r) TConfigAuditReport h kind s \<longrightarrow>
       cl_Get (rc_Client r) s' t k = cl_Get (rc_Client r) s t k)"
  using assms by (intro policy_cleaner.drains) (auto simp: cleaner_ok_def)

definition sample_stale :: "string \<Rightarrow> Object" where
  "sample_stale name = \<lparr>o_Kind = [],
     o_Meta = empty_meta\<lparr>om_Name := name, om_Namespace := ''prod'',
       om_Labels := [LabelPluginConfigHash \<mapsto> ''old'', LabelResourceKind \<mapsto> KindPod]\<rparr>,
     o_Body = ConfigAuditReport \<lparr>car_UpdateTimestamp = 0,
       car_Scanner = \<lparr>sc_Name = [], sc_Vendor = [], sc_Version = []\<rparr>,
       car_Summary = zero_ConfigAuditSummary, car_Checks = [], car_PodChecks = [], car_ContainerChecks = []\<rparr>\<rparr>"

theorem stale_reports_drained_witness:
  "\<exists>h s'. policies_hash sample_resource_controller KindPod [sample_policies_map, sample_stale ''a'', sample_stale ''b''] = Inr h \<and>
     requeue_loop (reconcileConfig sample_resource_controller KindPod (key_of sample_policies_map)) 0
       [sample_policies_map, sample_stale ''a'', sample_stale ''b''] = (Inr no_requeue, s') \<and>
     stale_keys mem_client TConfigAuditReport h KindPod s' = {}"
proof -
  let ?s = "[sample_policies_map, sample_stale ''a'', sample_stale ''b'']" let ?r = sample_resource_controller
  have cm: "cl_Get mem_client ?s TConfigMap (key_of sample_policies_map) = Inr sample_policies_map"
    by (simp add: mem_Get_def sample_policies_map_def)
  obtain h where h: "policies_hash ?r KindPod ?s = Inr h"
    by (simp add: policies_hash_def sample_policies_read Hash_def ModulesByKind_def with_libraries_def sample_policies_pod kube_simps)
  have sub: "stale_keys mem_client TConfigAuditReport h KindPod ?s \<subseteq> key_of ` set ?s"
    by (auto simp: stale_keys_def mem_Get_def split: if_splits)
  then have fin: "finite (stale_keys mem_client TConfigAuditReport h KindPod ?s)" by (rule finite_subset) simp
  have "card (stale_keys mem_client TConfigAuditReport h KindPod ?s) \<le> card (key_of ` set ?s)"
    by (rule card_mono [OF _ sub]) simp
  also have "\<dots> \<le> 3" using card_image_le [of "set ?s" key_of] card_length [of ?s] by simp
  finally have "card (stale_keys mem_client TConfigAuditReport h KindPod ?s) \<le> 3" .
  then show ?thesis
    using stale_reports_drained [of ?r, OF _ _ _ _ _ h, of "key_of sample_policies_map" sample_policies_map 0]
      mem_laws mem_available cm fin h
    by (auto simp: sample_config_def default_Config_def Second_def)
qed

text \<open>
  One run of the cleanup of cluster-scoped reports removes at most as many reports as the
  batch limit, each of them stale under the current policies, and touches nothing else, also when
  it ends with an error. When it succeeds it asks to be called again exactly when stale reports
  remain, and then it has removed a full batch.
\<close>

lemma cluster_cleanup_batch:
  assumes "api_laws (rc_Client r)" and "0 \<le> cfg_BatchDeleteLimit (rc_Config r)"
    and "cl_Get (rc_Client r) s TConfigMap req = Inr cm" and "policies_hash r kind s = Inr h"
    and "reconcileClusterConfig r kind req s = (res, s')"
  defines "removed \<equiv> removed_keys (rc_Client r) TClusterConfigAuditReport s s'"
  shows "removed \<subseteq> stale_keys (rc_Client r) TClusterConfigAuditReport h kind s \<and>
    int (card removed) \<le> cfg_BatchDeleteLimit (rc_Config r) \<and>
    (\<forall>t k. t \<noteq> TClusterConfigAuditReport \<longrightarrow> cl_Get (rc_Client r) s' t k = cl_Get (rc_Client r) s t k) \<and>
    (\<forall>out. res = Inr out \<longrightarrow>
      (if stale_keys (rc_Client r) TClusterConfigAuditReport h kind s' = {} then out = no_requeue
       else out = \<lparr>RequeueAfter = cfg_BatchDeleteDelay (rc_Config r)\<rparr> \<and>
         int (card removed) = cfg_BatchDeleteLimit (rc_Config r)))"
proof -
  have ok: "cleaner_ok r" using assms(1,2) by (simp add: cleaner_ok_def)
  show ?thesis
    unfolding removed_def
    using cluster_policy_cleaner.removed_subset [OF ok assms(5,4)] cluster_policy_cleaner.bounded [OF ok assms(5)]
      cluster_policy_cleaner.other_types [OF ok assms(5)] cluster_policy_cleaner.outcome [OF ok assms(3,4)] assms(5)
    by blast
qed

end
