(* ===== verification/Config_Audit_Plugin.thy ===== *)
theory Config_Audit_Plugin
  imports Config_Audit_Controller
begin

text \<open>
  Plugin-based configuration audit: \<^verbatim>\<open>pkg/operator/controller/configauditreport.go\<close>, where a scan
  job runs the plugin's tool for a resource and its logs become the report, and
  \<^verbatim>\<open>pkg/operator/controller/plugins_config.go\<close>, which removes the reports made with an older
  configuration of the plugin. What the code shares with the built-in audit
  (\<^verbatim>\<open>hasReport\<close>, \<^verbatim>\<open>hasClusterReport\<close>, the skipped resources, the batch loop) is word for word the
  same there and is used from the theories of that controller.
\<close>

record 's ConfigAuditReportReconciler =
  car_Config :: Config
  car_ConfigData :: ConfigData
  car_Client :: "'s client"
  car_env :: env
  car_logs :: "'s logs"
  car_Plugin :: "'s AuditPlugin"
  car_PluginContext :: PluginContext
  car_tolerations :: "string \<Rightarrow> error + string list"
  car_SetControllerReference :: owner_setter
  car_SetOwnerReference :: owner_setter

section \<open>Watched events\<close>

definition plugin_kinds :: "Kind list" where
  "plugin_kinds = [KindPod, KindReplicaSet, KindReplicationController, KindStatefulSet, KindDaemonSet,
     KindCronJob, KindJob, KindService, KindConfigMap, KindRole, KindRoleBinding]"

definition plugin_cluster_kinds :: "Kind list" where
  "plugin_cluster_kinds = [KindClusterRole, KindClusterRoleBindings, KindCustomResourceDefinition]"

fun supports_loop :: "Kind list \<Rightarrow> Kind \<Rightarrow> bool" where
  "supports_loop [] kind = False"
| "supports_loop (k # ks) kind = (if k = kind then True else supports_loop ks kind)"

definition supportsKind :: "'s ConfigAuditReportReconciler \<Rightarrow> Kind \<Rightarrow> bool" where
  "supportsKind r kind = supports_loop (ap_SupportedKinds (car_Plugin r)) kind"

text \<open>The kinds for which \<open>SetupWithManager\<close> registers a controller.\<close>

definition watched_kinds :: "'s ConfigAuditReportReconciler \<Rightarrow> Kind list" where
  "watched_kinds r = filter (supportsKind r) plugin_kinds @ filter (supportsKind r) plugin_cluster_kinds"

definition audit_job_predicates :: "Config \<Rightarrow> Predicate" where
  "audit_job_predicates config = all_predicates [InNamespace (cfg_Namespace config),
     ManagedByStarboardOperator, IsConfigAuditReportScan, JobHasAnyCondition]"

section \<open>Reconciling a resource\<close>

definition audit_hasActiveScanJob ::
    "'s ConfigAuditReportReconciler \<Rightarrow> 's \<Rightarrow> Object \<Rightarrow> string \<Rightarrow> error + Object option" where
  "audit_hasActiveScanJob r s obj hash =
     (case cl_Get (car_Client r) s TJob
             \<lparr>key_Namespace = cfg_Namespace (car_Config r), key_Name = audit_GetScanJobName (car_env r) obj\<rparr> of
        Inl err \<Rightarrow> if IsNotFound err then Inr None else Inl (Wrap ''getting pod from cache'' err)
      | Inr job \<Rightarrow>
          if mget (om_Labels (o_Meta job)) LabelResourceSpecHash = hash then Inr (Some job) else Inr None)"

definition audit_job_builder ::
    "'s ConfigAuditReportReconciler \<Rightarrow> Object \<Rightarrow> error + 's AuditScanJobBuilder" where
  "audit_job_builder r resource =
     (case GetScanJobTolerations (car_tolerations r) (car_ConfigData r) of
        Inl e \<Rightarrow> Inl (Wrap ''getting scan job tolerations'' e)
      | Inr tolerations \<Rightarrow>
          (case GetScanJobAnnotations (car_ConfigData r) of
             Inl e \<Rightarrow> Inl (Wrap ''getting scan job annotations'' e)
           | Inr annotations \<Rightarrow>
               (case GetScanJobPodTemplateLabels (car_ConfigData r) of
                  Inl e \<Rightarrow> Inl (Wrap ''getting scan job template labels'' e)
                | Inr podTemplateLabels \<Rightarrow>
                    Inr \<lparr>asb_plugin = car_Plugin r, asb_pluginContext = car_PluginContext r,
                         asb_timeout = cfg_ScanJobTimeout (car_Config r), asb_object = resource,
                         asb_tolerations = tolerations, asb_annotations = annotations,
                         asb_podTemplateLabels = podTemplateLabels\<rparr>)))"

definition audit_submitScanJob ::
    "'s ConfigAuditReportReconciler \<Rightarrow> Object \<Rightarrow> 's \<Rightarrow> error option \<times> 's" where
  "audit_submitScanJob r resource s =
     (case audit_job_builder r resource of
        Inl e \<Rightarrow> (Some e, s)
      | Inr b \<Rightarrow>
          (case AuditScanJobBuilder_Get (car_env r) b s of
             Inl e \<Rightarrow> (Some (Wrap ''constructing scan job'' e), s)
           | Inr (job, secrets) \<Rightarrow>
               create_scan_job (''creating secret'', ''creating job'', ''updating secret'') (car_Client r)
                 (car_SetOwnerReference r) job secrets s))"

text \<open>The reads: what the handler decides before it submits a job.\<close>

definition audit_decision ::
    "'s ConfigAuditReportReconciler \<Rightarrow> Kind \<Rightarrow> ObjectKey \<Rightarrow> 's \<Rightarrow> decision" where
  "audit_decision r resourceKind req s =
     (let resourceRef = ObjectRefFromKindAndObjectKey resourceKind req in
      case ObjectFromObjectRef (car_Client r) s resourceRef of
        Inl err \<Rightarrow>
          if IsNotFound err then Inl (Inr no_requeue)
          else Inl (Inl (Wrap (''getting '' @ resourceKind @ '' from cache'') err))
      | Inr resource \<Rightarrow>
          if skip_resource resourceKind resource then Inl (Inr no_requeue)
          else
            (case ap_IsApplicable (car_Plugin r) (car_PluginContext r) s resource of
               Inl e \<Rightarrow> Inl (Inl (Wrap ''checking whether plugin is applicable'' e))
             | Inr (False, reason) \<Rightarrow> Inl (Inr \<lparr>RequeueAfter = cfg_ScanJobRetryAfter (car_Config r)\<rparr>)
             | Inr (True, reason) \<Rightarrow>
                 (case ComputeSpecHash (car_env r) resource of
                    Inl e \<Rightarrow> Inl (Inl (Wrap ''computing spec hash'' e))
                  | Inr resourceSpecHash \<Rightarrow>
                      (case ap_ConfigHash (car_Plugin r) (car_PluginContext r) s (o_Kind resource) of
                         Inl e \<Rightarrow> Inl (Inl (Wrap ''computing plugin config hash'' e))
                       | Inr pluginConfigHash \<Rightarrow>
                           (case hasReport (car_env r) (car_Client r) s resourceRef resourceSpecHash pluginConfigHash of
                              Inl e \<Rightarrow> Inl (Inl e)
                            | Inr True \<Rightarrow> Inl (Inr no_requeue)
                            | Inr False \<Rightarrow>
                                (case audit_hasActiveScanJob r s resource resourceSpecHash of
                                   Inl e \<Rightarrow> Inl (Inl e)
                                 | Inr (Some job) \<Rightarrow> Inl (Inr no_requeue)
                                 | Inr None \<Rightarrow>
                                     (case LimitChecker_Check (car_Client r) (car_Config r) (car_ConfigData r) s of
                                        Inl e \<Rightarrow> Inl (Inl e)
                                      | Inr (limitExceeded, scanJobsCount) \<Rightarrow>
                                          if limitExceeded
                                          then Inl (Inr \<lparr>RequeueAfter = cfg_ScanJobRetryAfter (car_Config r)\<rparr>)
                                          else Inr resource)))))))"

definition audit_reconcileResource ::
    "'s ConfigAuditReportReconciler \<Rightarrow> Kind \<Rightarrow> ObjectKey \<Rightarrow> 's \<Rightarrow> (error + Result) \<times> 's" where
  "audit_reconcileResource r resourceKind req s =
     decide_then (audit_decision r resourceKind req s) (audit_submitScanJob r) s"

section \<open>Processing finished jobs\<close>

definition audit_processCompleteScanJob ::
    "'s ConfigAuditReportReconciler \<Rightarrow> Object \<Rightarrow> 's \<Rightarrow> error option \<times> 's" where
  "audit_processCompleteScanJob r job s =
     (case ObjectRefFromObjectMeta (o_Meta job) of
        Inl e \<Rightarrow> (Some (Wrap ''getting owner ref from scan job metadata'' e), s)
      | Inr ownerRef \<Rightarrow>
          (case ObjectFromObjectRef (car_Client r) s ownerRef of
             Inl err \<Rightarrow>
               if IsNotFound err then deleteJob (car_Client r) job s
               else (Some (Wrap ''getting object from object ref'' err), s)
           | Inr owner \<Rightarrow>
               (case om_Labels (o_Meta job) LabelResourceSpecHash of
                  None \<Rightarrow> (Some (Errorf (''expected label not set: '' @ LabelResourceSpecHash)), s)
                | Some resourceSpecHash \<Rightarrow>
                    (case om_Labels (o_Meta job) LabelPluginConfigHash of
                       None \<Rightarrow> (Some (Errorf (''expected label not set: '' @ LabelPluginConfigHash)), s)
                     | Some pluginConfigHash \<Rightarrow>
                         (case hasReport (car_env r) (car_Client r) s ownerRef resourceSpecHash pluginConfigHash of
                            Inl e \<Rightarrow> (Some e, s)
                          | Inr True \<Rightarrow> deleteJob (car_Client r) job s
                          | Inr False \<Rightarrow>
                              (case GetLogsByJobAndContainerName (car_Client r) (car_logs r) s job
                                      (ap_GetContainerName (car_Plugin r)) of
                                 Inl err \<Rightarrow>
                                   if IsNotFound err then (None, s)
                                   else if IsPodControlledByJobNotFound err then deleteJob (car_Client r) job s
                                   else (Some (Wrap ''getting logs'' err), s)
                               | Inr logsStream \<Rightarrow>
                                   (case ap_ParseConfigAuditReportData (car_Plugin r) (car_PluginContext r) s logsStream of
                                      Inl e \<Rightarrow> (Some e, s)
                                    | Inr reportData \<Rightarrow>
                                        and_then
                                          (AuditReportBuilder_Write (car_env r) (car_SetControllerReference r)
                                            (car_Client r)
                                            \<lparr>ab_controller = owner, ab_resourceSpecHash = resourceSpecHash,
                                             ab_pluginConfigHash = pluginConfigHash, ab_data = reportData\<rparr> s)
                                          (deleteJob (car_Client r) job))))))))"

text \<open>Unlike every other path, the last one does not accept that the job is already gone.\<close>

definition audit_processFailedScanJob ::
    "'s ConfigAuditReportReconciler \<Rightarrow> Object \<Rightarrow> 's \<Rightarrow> error option \<times> 's" where
  "audit_processFailedScanJob r scanJob s =
     (case GetTerminatedContainersStatusesByJob (car_Client r) s scanJob of
        Inl err \<Rightarrow>
          if IsNotFound err then (None, s)
          else if IsPodControlledByJobNotFound err then deleteJob (car_Client r) scanJob s
          else (Some err, s)
      | Inr statuses \<Rightarrow> cl_Delete (car_Client r) s scanJob)"

definition audit_reconcileJobs ::
    "'s ConfigAuditReportReconciler \<Rightarrow> ObjectKey \<Rightarrow> 's \<Rightarrow> (error + Result) \<times> 's" where
  "audit_reconcileJobs r = dispatch_job ''unrecognized job condition: '' (car_Client r)
     (audit_processCompleteScanJob r) (audit_processFailedScanJob r)"

section \<open>Removing reports of older plugin configurations\<close>

record 's PluginsConfigReconciler =
  pcr_Config :: Config
  pcr_Client :: "'s client"
  pcr_PluginContext :: PluginContext
  pcr_Plugin :: "'s AuditPlugin"

definition plugin_config_predicates :: "'s PluginsConfigReconciler \<Rightarrow> Predicate" where
  "plugin_config_predicates r = all_predicates [Not_pred IsBeingTerminated,
     HasName (GetPluginConfigMapName (px_name (pcr_PluginContext r))),
     InNamespace (cfg_Namespace (pcr_Config r))]"

definition plugin_hash :: "'s PluginsConfigReconciler \<Rightarrow> Kind \<Rightarrow> 's \<Rightarrow> error + string" where
  "plugin_hash r kind s =
     (case ap_ConfigHash (pcr_Plugin r) (pcr_PluginContext r) s kind of
        Inl e \<Rightarrow> Inl (Wrap ''getting config hash'' e) | Inr h \<Rightarrow> Inr h)"

definition plugin_reconcileConfig ::
    "'s PluginsConfigReconciler \<Rightarrow> Kind \<Rightarrow> ObjectKey \<Rightarrow> 's \<Rightarrow> (error + Result) \<times> 's" where
  "plugin_reconcileConfig r kind req s =
     (case cl_Get (pcr_Client r) s TConfigMap req of
        Inl err \<Rightarrow>
          if IsNotFound err then (Inr no_requeue, s)
          else (Inl (Wrap ''getting ConfigMap from cache'' err), s)
      | Inr cm \<Rightarrow>
          (case plugin_hash r kind s of
             Inl e \<Rightarrow> (Inl e, s)
           | Inr configHash \<Rightarrow>
               batch_delete TConfigAuditReport ''deleting ConfigAuditReport'' (pcr_Client r) (pcr_Config r)
                 configHash kind s))"

definition plugin_reconcileClusterConfig ::
    "'s PluginsConfigReconciler \<Rightarrow> Kind \<Rightarrow> ObjectKey \<Rightarrow> 's \<Rightarrow> (error + Result) \<times> 's" where
  "plugin_reconcileClusterConfig r kind req s =
     (case cl_Get (pcr_Client r) s TConfigMap req of
        Inl err \<Rightarrow>
          if IsNotFound err then (Inr no_requeue, s)
          else (Inl (Wrap ''getting ConfigMap from cache'' err), s)
      | Inr cm \<Rightarrow>
          (case plugin_hash r kind s of
             Inl e \<Rightarrow> (Inl e, s)
           | Inr configHash \<Rightarrow>
               batch_delete TClusterConfigAuditReport ''deleting ClusterConfigAuditReport'' (pcr_Client r)
                 (pcr_Config r) configHash kind s))"

text \<open>Which of the two reconcilers \<open>SetupWithManager\<close> registers for a supported kind.\<close>

definition plugin_config_reconciler ::
    "'s PluginsConfigReconciler \<Rightarrow> Kind \<Rightarrow> ObjectKey \<Rightarrow> 's \<Rightarrow> (error + Result) \<times> 's" where
  "plugin_config_reconciler r kind =
     (if IsClusterScopedKind kind then plugin_reconcileClusterConfig r kind else plugin_reconcileConfig r kind)"

section \<open>The cleaners keep their contract\<close>

text \<open>A plugin's configuration hash depends on config maps and secrets, never on reports.\<close>

definition hash_of_config :: "'s client \<Rightarrow> 's AuditPlugin \<Rightarrow> bool" where
  "hash_of_config c pl \<longleftrightarrow> (\<forall>ctx s s' kind.
     (\<forall>t k. t \<noteq> TConfigAuditReport \<longrightarrow> t \<noteq> TClusterConfigAuditReport \<longrightarrow> cl_Get c s' t k = cl_Get c s t k) \<longrightarrow>
     ap_ConfigHash pl ctx s' kind = ap_ConfigHash pl ctx s kind)"

definition plugin_cleaner_ok :: "'s PluginsConfigReconciler \<Rightarrow> bool" where
  "plugin_cleaner_ok r \<longleftrightarrow> api_laws (pcr_Client r) \<and> 0 \<le> cfg_BatchDeleteLimit (pcr_Config r) \<and>
     hash_of_config (pcr_Client r) (pcr_Plugin r)"

lemma plugin_hash_frame:
  assumes "plugin_cleaner_ok r"
    and "\<And>t k. t \<noteq> TConfigAuditReport \<Longrightarrow> t \<noteq> TClusterConfigAuditReport \<Longrightarrow>
      cl_Get (pcr_Client r) s' t k = cl_Get (pcr_Client r) s t k"
  shows "plugin_hash r kind s' = plugin_hash r kind s"
proof -
  have "ap_ConfigHash (pcr_Plugin r) (pcr_PluginContext r) s' kind = ap_ConfigHash (pcr_Plugin r) (pcr_PluginContext r) s kind"
    using assms(1) assms(2) unfolding plugin_cleaner_ok_def hash_of_config_def by blast
  then show ?thesis by (simp add: plugin_hash_def)
qed

lemma plugin_reconcileConfig_body:
  "plugin_reconcileConfig = (\<lambda>r. cleaner_body TConfigAuditReport ''deleting ConfigAuditReport''
     (pcr_Client r) (pcr_Config r) (plugin_hash r))"
  by (intro ext) (simp add: plugin_reconcileConfig_def cleaner_body_def)

lemma plugin_reconcileClusterConfig_body:
  "plugin_reconcileClusterConfig = (\<lambda>r. cleaner_body TClusterConfigAuditReport ''deleting ClusterConfigAuditReport''
     (pcr_Client r) (pcr_Config r) (plugin_hash r))"
  by (intro ext) (simp add: plugin_reconcileClusterConfig_def cleaner_body_def)

interpretation plugin_cleaner: stale_report_cleaner TConfigAuditReport plugin_cleaner_ok pcr_Client pcr_Config
    plugin_hash plugin_reconcileConfig
  unfolding plugin_reconcileConfig_body
proof (rule cleaner_body_contract)
  show "plugin_cleaner_ok r \<Longrightarrow> api_laws (pcr_Client r) \<and> 0 \<le> cfg_BatchDeleteLimit (pcr_Config r)" for r :: "'s PluginsConfigReconciler"
    by (simp add: plugin_cleaner_ok_def)
  show "plugin_hash r kind s' = plugin_hash r kind s"
    if "plugin_cleaner_ok r" "\<And>t' k. t' \<noteq> TConfigAuditReport \<Longrightarrow> cl_Get (pcr_Client r) s' t' k = cl_Get (pcr_Client r) s t' k"
    for r :: "'s PluginsConfigReconciler" and s s' kind
    by (rule plugin_hash_frame [OF that(1)]) (rule that(2))
qed simp

interpretation cluster_plugin_cleaner: stale_report_cleaner TClusterConfigAuditReport plugin_cleaner_ok pcr_Client
    pcr_Config plugin_hash plugin_reconcileClusterConfig
  unfolding plugin_reconcileClusterConfig_body
proof (rule cleaner_body_contract)
  show "plugin_cleaner_ok r \<Longrightarrow> api_laws (pcr_Client r) \<and> 0 \<le> cfg_BatchDeleteLimit (pcr_Config r)" for r :: "'s PluginsConfigReconciler"
    by (simp add: plugin_cleaner_ok_def)
  show "plugin_hash r kind s' = plugin_hash r kind s"
    if "plugin_cleaner_ok r" "\<And>t' k. t' \<noteq> TClusterConfigAuditReport \<Longrightarrow> cl_Get (pcr_Client r) s' t' k = cl_Get (pcr_Client r) s t' k"
    for r :: "'s PluginsConfigReconciler" and s s' kind
    by (rule plugin_hash_frame [OF that(1)]) (rule that(2))
qed simp

section \<open>Lemmas\<close>

lemma AuditScanJobBuilder_typed:
  assumes "AuditScanJobBuilder_Get E b s = Inr (job, secrets)"
  shows "go_type job = TJob"
    "audit_plugin_typed (asb_plugin b) \<Longrightarrow> \<forall>x \<in> set secrets. go_type x = TSecret"
  using assms
  by (auto simp: AuditScanJobBuilder_Get_def audit_plugin_typed_def Let_def split: sum.splits prod.splits)

lemma audit_job_builder_plugin: "audit_job_builder r resource = Inr b \<Longrightarrow> asb_plugin b = car_Plugin r"
  by (auto simp: audit_job_builder_def split: sum.splits)

lemma audit_submitScanJob_frame:
  assumes "api_laws (car_Client r)" and "audit_plugin_typed (car_Plugin r)"
  shows "\<exists>k0. \<forall>t k. t \<noteq> TSecret \<longrightarrow> (t, k) \<noteq> (TJob, k0) \<longrightarrow>
    cl_Get (car_Client r) (snd (audit_submitScanJob r resource s)) t k = cl_Get (car_Client r) s t k"
proof (cases "audit_job_builder r resource")
  case (Inl e)
  then show ?thesis by (simp add: audit_submitScanJob_def)
next
  case b: (Inr b)
  show ?thesis
  proof (cases "AuditScanJobBuilder_Get (car_env r) b s")
    case (Inl e)
    then show ?thesis using b by (simp add: audit_submitScanJob_def)
  next
    case (Inr js)
    obtain job secrets where js: "js = (job, secrets)" by fastforce
    note get = AuditScanJobBuilder_typed [OF Inr [unfolded js]]
    show ?thesis
      using create_scan_job_frame [OF assms(1) _ get(1)] get(2) audit_job_builder_plugin [OF b] assms(2) b Inr js
      by (intro exI [of _ "key_of job"]) (simp add: audit_submitScanJob_def)
  qed
qed

lemma audit_decision_below:
  "audit_decision r kind req s = Inr obj \<Longrightarrow>
    \<exists>n. LimitChecker_Check (car_Client r) (car_Config r) (car_ConfigData r) s = Inr (False, n)"
  by (auto simp: audit_decision_def Let_def split: sum.splits if_splits bool.splits option.splits)

text \<open>Writing a report, also when it fails, leaves jobs alone.\<close>

lemma AuditReportBuilder_Write_jobs:
  assumes "api_laws c"
  shows "cl_Get c (snd (AuditReportBuilder_Write E scr c b s)) TJob k = cl_Get c s TJob k"
proof (cases "AuditReportBuilder_Write E scr c b s")
  case (Pair res s')
  show ?thesis
  proof (cases res)
    case None
    then show ?thesis using AuditReportBuilder_Write_ok(2) [OF assms, of E scr b s s'] Pair
      by (simp add: only_changes_def report_type_def)
  next
    case (Some e)
    then have "s' = s"
      using Pair audit_store.write_failed [OF assms] cluster_audit_store.write_failed [OF assms]
      by (auto simp: AuditReportBuilder_Write_def split: if_splits sum.splits)
    then show ?thesis using Pair by simp
  qed
qed

lemma audit_processCompleteScanJob_own:
  assumes laws: "api_laws (car_Client r)"
  shows "handles_own_job (car_Client r) (audit_processCompleteScanJob r)"
proof (rule handles_own_jobI)
  fix job s k
  assume job: "go_type job = TJob"
  let ?c = "car_Client r"
  have written: "cl_Get ?c (snd (and_then (AuditReportBuilder_Write E scr ?c b s) (deleteJob ?c job))) TJob k \<in>
      (if k = key_of job then {cl_Get ?c s TJob k, Inl NotFound} else {cl_Get ?c s TJob k})" for E scr b k
  proof (cases "AuditReportBuilder_Write E scr ?c b s")
    case (Pair w s1)
    have "cl_Get ?c s1 TJob k = cl_Get ?c s TJob k"
      using AuditReportBuilder_Write_jobs [OF laws, of E scr b s k] Pair by simp
    then show ?thesis
      using Pair deleteJob_kept_or_gone [OF laws job, of s1] deleteJob_frame [OF laws job, of TJob k s1]
      by (cases w) auto
  qed
  show "cl_Get ?c (snd (audit_processCompleteScanJob r job s)) TJob k = cl_Get ?c s TJob k" if "k \<noteq> key_of job"
    using written [of _ _ _ k] deleteJob_frame [OF laws job, of TJob k s] that
    by (auto simp: audit_processCompleteScanJob_def split: sum.splits option.splits bool.splits)
  show "cl_Get ?c (snd (audit_processCompleteScanJob r job s)) TJob (key_of job) \<in>
      {cl_Get ?c s TJob (key_of job), Inl NotFound}"
    using written [of _ _ _ "key_of job"] deleteJob_kept_or_gone [OF laws job, of s]
    by (auto simp: audit_processCompleteScanJob_def split: sum.splits option.splits bool.splits)
qed

lemma delete_own_job:
  assumes "api_laws c" and "go_type job = TJob"
  shows "cl_Get c (snd (cl_Delete c s job)) TJob (key_of job) \<in> {cl_Get c s TJob (key_of job), Inl NotFound}"
    "k \<noteq> key_of job \<Longrightarrow> cl_Get c (snd (cl_Delete c s job)) TJob k = cl_Get c s TJob k"
proof -
  obtain e s1 where d: "cl_Delete c s job = (e, s1)" by fastforce
  show "cl_Get c (snd (cl_Delete c s job)) TJob (key_of job) \<in> {cl_Get c s TJob (key_of job), Inl NotFound}"
    "k \<noteq> key_of job \<Longrightarrow> cl_Get c (snd (cl_Delete c s job)) TJob k = cl_Get c s TJob k"
    using d assms delete_ok [OF assms(1), of s job s1] failed_write(4) [OF assms(1), of s job _ s1]
    by (cases e; auto simp: only_changes_def)+
qed

lemma audit_processFailedScanJob_own:
  assumes "api_laws (car_Client r)"
  shows "handles_own_job (car_Client r) (audit_processFailedScanJob r)"
  using deleteJob_kept_or_gone [OF assms] deleteJob_frame [OF assms] delete_own_job [OF assms]
  by (intro handles_own_jobI) (auto simp: audit_processFailedScanJob_def split: sum.splits)

section \<open>The controller keeps the contracts on scan jobs\<close>

definition audit_ok :: "'s ConfigAuditReportReconciler \<Rightarrow> bool" where
  "audit_ok r \<longleftrightarrow> api_laws (car_Client r) \<and> audit_plugin_typed (car_Plugin r)"

interpretation audit_scheduler: scan_scheduler audit_ok car_Client car_Config car_ConfigData
    "\<lambda>r (kind, req). audit_decision r kind req" audit_submitScanJob
proof unfold_locales
  fix r :: "'s ConfigAuditReportReconciler" and q s obj err s'
  assume r: "audit_ok r"
  then have laws: "api_laws (car_Client r)" "audit_plugin_typed (car_Plugin r)" by (simp_all add: audit_ok_def)
  show "\<exists>n. LimitChecker_Check (car_Client r) (car_Config r) (car_ConfigData r) s = Inr (False, n)"
    if "(case q of (kind, req) \<Rightarrow> audit_decision r kind req) s = Inr obj"
    using that audit_decision_below by (cases q) auto
  show "\<exists>k0. \<forall>t k. t \<noteq> TSecret \<longrightarrow> (t, k) \<noteq> (TJob, k0) \<longrightarrow> cl_Get (car_Client r) s' t k = cl_Get (car_Client r) s t k"
    if "audit_submitScanJob r obj s = (err, s')"
    using audit_submitScanJob_frame [OF laws, of obj s] that by simp
qed (simp add: audit_ok_def)

interpretation audit_jobs: job_processor audit_ok car_Client audit_reconcileJobs
  unfolding audit_reconcileJobs_def
  by (rule dispatch_job_processor)
     (simp_all add: audit_ok_def audit_processCompleteScanJob_own audit_processFailedScanJob_own)

section \<open>Properties\<close>

text \<open>
  C5. A complete audit job becomes a report: when the job's owner still exists, has no current
  report yet, nor one under another name, and the job's logs could be read and parsed, success of the handler means that the job is
  gone and that the owner's report is stored with the parsed data and both hashes of the job, so that
  the next look finds the report up to date.
\<close>

theorem audit_job_becomes_report:
  assumes "api_laws (car_Client r)" and "law_scheme (car_Client r)" and "go_type job = TJob"
    and "ObjectRefFromObjectMeta (o_Meta job) = Inr ownerRef"
    and "ObjectFromObjectRef (car_Client r) s ownerRef = Inr owner"
    and "om_Labels (o_Meta job) LabelResourceSpecHash = Some h"
    and "om_Labels (o_Meta job) LabelPluginConfigHash = Some ph"
    and "hasReport (car_env r) (car_Client r) s ownerRef h ph = Inr False"
    and "GetLogsByJobAndContainerName (car_Client r) (car_logs r) s job (ap_GetContainerName (car_Plugin r)) = Inr logs"
    and "ap_ParseConfigAuditReportData (car_Plugin r) (car_PluginContext r) s logs = Inr data"
    and "audit_processCompleteScanJob r job s = (None, s')"
    and "cl_List (car_Client r) s' (Some (report_type (ref_Kind ownerRef))) (report_options (car_env r) ownerRef) = Inr xs"
    and "\<And>k x. cl_Get (car_Client r) s (report_type (ref_Kind ownerRef)) k = Inr x \<Longrightarrow>
      selected (report_options (car_env r) ownerRef) x \<Longrightarrow> k = report_key (car_env r) owner"
  shows "cl_Get (car_Client r) s' TJob (key_of job) = Inl NotFound \<and>
    hasReport (car_env r) (car_Client r) s' ownerRef h ph = Inr True \<and>
    (\<exists>y. cl_Get (car_Client r) s' (report_type (ref_Kind ownerRef)) (report_key (car_env r) owner) = Inr y \<and>
       (o_Body y = ConfigAuditReport data \<or> o_Body y = ClusterConfigAuditReport data))"
proof -
  let ?c = "car_Client r" let ?E = "car_env r"
  let ?b = "\<lparr>ab_controller = owner, ab_resourceSpecHash = h, ab_pluginConfigHash = ph, ab_data = data\<rparr>"
  have ref: "ref_of owner = ownerRef" by (rule ObjectFromObjectRef_ref [OF assms(1,2,5)])
  then have kind: "o_Kind owner = ref_Kind ownerRef" by (auto simp: ref_of_def)
  have "and_then (AuditReportBuilder_Write ?E (car_SetControllerReference r) ?c ?b s) (deleteJob ?c job) = (None, s')"
    using assms(4-11) by (simp add: audit_processCompleteScanJob_def)
  then obtain s1 where w: "AuditReportBuilder_Write ?E (car_SetControllerReference r) ?c ?b s = (None, s1)"
    and d: "deleteJob ?c job s1 = (None, s')" by (auto simp: and_then_None_iff)
  note del = deleteJob_ok [OF assms(1,3) d]
  let ?t = "report_type (ref_Kind ownerRef)"
  have same: "cl_Get ?c s' ?t k = cl_Get ?c s1 ?t k" for k
    using del(2) by (simp add: only_changes_def report_type_def)
  obtain y where y: "cl_Get ?c s1 ?t (report_key ?E owner) = Inr y"
      "mget (om_Labels (o_Meta y)) LabelResourceSpecHash = h" "mget (om_Labels (o_Meta y)) LabelPluginConfigHash = ph"
      "selected (report_options ?E ownerRef) y" "o_Body y = ConfigAuditReport data \<or> o_Body y = ClusterConfigAuditReport data"
    using AuditReportBuilder_Write_ok(1) [OF assms(1) w] by (auto simp: kind ref split: if_splits)
  have "k = report_key ?E owner" if "cl_Get ?c s' ?t k = Inr x" "selected (report_options ?E ownerRef) x" for k x
  proof (rule ccontr)
    assume k: "k \<noteq> report_key ?E owner"
    then have "cl_Get ?c s ?t k = Inr x"
      using AuditReportBuilder_Write_ok(2) [OF assms(1) w] that(1) same by (simp add: only_changes_def kind)
    with k show False using assms(13) that(2) by blast
  qed
  then have "first_item (cl_List ?c s' (Some ?t) (report_options ?E ownerRef)) = Inr (Some y)"
    using y(1,4) same
    by (intro first_item_unique [OF assms(1,12)])
       (auto simp: report_options_def cluster_owner_options_def owner_options_def)
  then have "hasReport ?E ?c s' ownerRef h ph = Inr True" using y(2,3) by (simp add: hasReport_options report_current_def)
  then show ?thesis using del(1) y(1,5) same by auto
qed

definition sample_audit_data :: ConfigAuditReportData where
  "sample_audit_data = \<lparr>car_UpdateTimestamp = 0, car_Scanner = \<lparr>sc_Name = ''Polaris'', sc_Vendor = [], sc_Version = []\<rparr>,
     car_Summary = ConfigAuditSummaryFromChecks [], car_Checks = [], car_PodChecks = [], car_ContainerChecks = []\<rparr>"

definition sample_audit_plugin :: "'s AuditPlugin" where
  "sample_audit_plugin = \<lparr>ap_Init = (\<lambda>_ s. (None, s)), ap_GetScanJobSpec = (\<lambda>_ _ _. Inr (empty_PodSpec, [])),
     ap_ParseConfigAuditReportData = (\<lambda>_ _ _. Inr sample_audit_data), ap_GetContainerName = ''polaris'',
     ap_ConfigHash = (\<lambda>_ _ _. Inr ''c0ffee''), ap_SupportedKinds = [KindPod],
     ap_IsApplicable = (\<lambda>_ _ _. Inr (True, []))\<rparr>"

definition sample_audit_controller :: "Object list ConfigAuditReportReconciler" where
  "sample_audit_controller = \<lparr>car_Config = sample_config, car_ConfigData = Map.empty, car_Client = mem_client,
     car_env = sample_env, car_logs = (\<lambda>_ _ _. Inr ''log''), car_Plugin = sample_audit_plugin,
     car_PluginContext = sample_context, car_tolerations = (\<lambda>_. Inr []),
     car_SetControllerReference = (\<lambda>_ _. Inr []), car_SetOwnerReference = (\<lambda>_ _. Inr [])\<rparr>"

definition sample_audit_job :: Object where
  "sample_audit_job = \<lparr>o_Kind = [],
     o_Meta = ObjectToObjectMeta sample_env sample_pod
       (empty_meta\<lparr>om_Name := audit_GetScanJobName sample_env sample_pod, om_Namespace := ''starboard'',
         om_Labels := [LabelResourceSpecHash \<mapsto> ''abc'', LabelPluginConfigHash \<mapsto> ''c0ffee'']\<rparr>),
     o_Body = Job empty_JobSpec [JobComplete]\<rparr>"

lemma sample_audit_job_meta:
  "go_type sample_audit_job = TJob" "om_Namespace (o_Meta sample_audit_job) = ''starboard''"
  "match_labels (o_Body sample_audit_job) = []"
  "ObjectRefFromObjectMeta (o_Meta sample_audit_job) = Inr (ref_of sample_pod)"
  "om_Labels (o_Meta sample_audit_job) LabelResourceSpecHash = Some ''abc''"
  "om_Labels (o_Meta sample_audit_job) LabelPluginConfigHash = Some ''c0ffee''"
  by (simp_all add: sample_audit_job_def empty_JobSpec_def ObjectToObjectMeta_other hash_keys_free)
     (simp add: ObjectRef_roundtrip sample_env_def sample_pod_def)

definition sample_audit_state :: "Object list" where
  "sample_audit_state = [sample_audit_job, sample_pod, sample_job_pod]"

lemma sample_audit_reads:
  "mem_Get sample_audit_state TJob (key_of sample_audit_job) = Inr sample_audit_job"
  "mem_Get sample_audit_state TPod \<lparr>key_Namespace = ''prod'', key_Name = ''web''\<rparr> = Inr sample_pod"
  "mem_Get sample_audit_state TConfigAuditReport k = Inl NotFound"
  using sample_audit_job_meta
  by (simp_all add: sample_audit_state_def mem_Get_def sample_pod_def sample_job_pod_def key_of_def)

theorem audit_job_becomes_report_witness:
  "\<exists>s'. audit_processCompleteScanJob sample_audit_controller sample_audit_job sample_audit_state = (None, s') \<and>
     cl_Get mem_client s' TJob (key_of sample_audit_job) = Inl NotFound \<and>
     hasReport sample_env mem_client s' (ref_of sample_pod) ''abc'' ''c0ffee'' = Inr True"
proof -
  let ?r = sample_audit_controller and ?s = sample_audit_state and ?ref = "ref_of sample_pod"
  have c: "car_Client ?r = mem_client" "car_env ?r = sample_env" "car_Plugin ?r = sample_audit_plugin"
    "car_SetControllerReference ?r = (\<lambda>_ _. Inr [])" "car_logs ?r = (\<lambda>_ _ _. Inr ''log'')"
    by (simp_all add: sample_audit_controller_def)
  have kind: "report_type (ref_Kind ?ref) = TConfigAuditReport" "\<not> IsClusterScopedKind (o_Kind sample_pod)"
    by (simp_all add: report_type_def ref_of_def sample_pod_def IsClusterScopedKind_def kube_simps)
  have own: "ObjectFromObjectRef mem_client ?s ?ref = Inr sample_pod"
    using sample_audit_reads(2) by (simp add: ObjectFromObjectRef_def ref_of_def sample_pod_def ensureGVK_def)
  have none: "filter (\<lambda>x. go_type x = TConfigAuditReport \<and> P x) (firsts ?s) = []" for P
    using sample_audit_reads(3) by (auto simp: filter_empty_conv firsts_set)
  have has: "hasReport sample_env mem_client ?s ?ref ''abc'' ''c0ffee'' = Inr False"
    by (simp add: hasReport_options kind mem_List_def none first_item_def report_current_def Let_def
        split: option.splits)
  have pod: "getPodByJob mem_client ?s sample_audit_job = Inr (Some sample_job_pod)"
    using sample_audit_job_meta sample_audit_reads(1)
    by (simp add: getPodByJob_def mem_List_def sample_audit_state_def selected_def same_id_def
        sample_pod_def sample_job_pod_def key_of_def mget_def Let_def)
  have logs: "GetLogsByJobAndContainerName mem_client (\<lambda>_ _ _. Inr ''log'') ?s sample_audit_job n = Inr ''log''" for n
    by (simp add: GetLogsByJobAndContainerName_def pod)
  have parse: "ap_ParseConfigAuditReportData (sample_audit_plugin :: Object list AuditPlugin) ctx s logs = Inr sample_audit_data" for ctx s logs
    by (simp add: sample_audit_plugin_def)
  let ?b = "\<lparr>ab_controller = sample_pod, ab_resourceSpecHash = ''abc'', ab_pluginConfigHash = ''c0ffee'',
      ab_data = sample_audit_data\<rparr>"
  obtain x where x: "GetReport sample_env (\<lambda>_ _. Inr []) ?b = Inr x"
    by (simp add: GetReport_def Let_def)
  have xt: "go_type x = TConfigAuditReport" using GetReport_carries(2) [OF x] by simp
  have absent: "\<forall>y \<in> set ?s. \<not> same_id x y"
    using sample_audit_job_meta(1) xt
    by (auto simp: sample_audit_state_def same_id_def sample_pod_def sample_job_pod_def)
  have w: "AuditReportBuilder_Write sample_env (\<lambda>_ _. Inr []) mem_client ?b ?s = (None, x # ?s)"
    using sample_audit_reads(3) absent xt x kind(2)
    by (simp add: AuditReportBuilder_Write_def WriteReport_def upsert_def mem_Create_def)
  obtain s' where p: "audit_processCompleteScanJob ?r sample_audit_job ?s = (None, s')"
    using sample_audit_job_meta(4-6) own has logs parse w
    by (simp add: audit_processCompleteScanJob_def c deleteJob_def mem_Delete_def sample_audit_state_def)
  obtain xs where xs: "mem_List s' (Some (report_type (ref_Kind ?ref))) (report_options sample_env ?ref) = Inr xs"
    by (simp add: mem_List_def Let_def)
  have "cl_Get (car_Client ?r) s' TJob (key_of sample_audit_job) = Inl NotFound \<and>
      hasReport (car_env ?r) (car_Client ?r) s' ?ref ''abc'' ''c0ffee'' = Inr True \<and>
      (\<exists>y. cl_Get (car_Client ?r) s' (report_type (ref_Kind ?ref)) (report_key (car_env ?r) sample_pod) = Inr y \<and>
         (o_Body y = ConfigAuditReport sample_audit_data \<or> o_Body y = ClusterConfigAuditReport sample_audit_data))"
    by (rule audit_job_becomes_report [OF _ _ sample_audit_job_meta(1,4) _ sample_audit_job_meta(5,6)])
       (use own has logs parse p xs mem_laws mem_scheme sample_audit_reads(3) kind in \<open>auto simp: c\<close>)
  with p show ?thesis by (auto simp: c)
qed

end
