(* ===== verification/Kube_Bench.thy ===== *)
theory Kube_Bench
  imports Config_Audit Json_Decode
begin

text \<open>
  The CIS Kubernetes Benchmark: the plugin and the reports of \<^verbatim>\<open>pkg/kubebench\<close> (\<^verbatim>\<open>plugin.go\<close>, \<^verbatim>\<open>builder.go\<close>,
  \<^verbatim>\<open>io.go\<close> and the plugin part of \<^verbatim>\<open>scanner.go\<close>) and the reconciler of nodes and of their scan jobs in
  \<^verbatim>\<open>pkg/operator/controller/ciskubebenchreport.go\<close>. A node has one report, named like the node. What parsing the
  output returns is a pair of data and error, as in Go: the operator stores the data and never looks at the error.
\<close>

section \<open>The plugin\<close>

record KubeBenchPlugin =
  kbp_GetScanJobSpec :: "Object \<Rightarrow> error + PodSpec"
  kbp_ParseCISKubeBenchReportData :: "string \<Rightarrow> CISKubeBenchReportData \<times> error option"
  kbp_GetContainerName :: string

definition kubeBenchContainerName :: string where "kubeBenchContainerName = ''kube-bench''"

definition empty_CISKubeBenchReportData :: CISKubeBenchReportData where
  "empty_CISKubeBenchReportData = \<lparr>kb_UpdateTimestamp = 0, kb_Scanner = \<lparr>sc_Name = [], sc_Vendor = [], sc_Version = []\<rparr>,
     kb_Summary = \<lparr>kb_PassCount = 0, kb_InfoCount = 0, kb_WarnCount = 0, kb_FailCount = 0\<rparr>, kb_Sections = []\<rparr>"

text \<open>The host directories that the scanner reads.\<close>

definition host_dirs :: "(string \<times> string \<times> string) list" where
  "host_dirs = [(''var-lib-etcd'', ''/var/lib/etcd'', ''/var/lib/etcd''),
     (''var-lib-kubelet'', ''/var/lib/kubelet'', ''/var/lib/kubelet''),
     (''etc-systemd'', ''/etc/systemd'', ''/etc/systemd''),
     (''etc-kubernetes'', ''/etc/kubernetes'', ''/etc/kubernetes''),
     (''usr-bin'', ''/usr/bin'', ''/usr/local/mount-from-host/bin'')]"

definition KubeBench_GetScanJobSpec :: "ConfigData \<Rightarrow> Object \<Rightarrow> error + PodSpec" where
  "KubeBench_GetScanJobSpec config node =
     (case GetKubeBenchImageRef config of
        Inl e \<Rightarrow> Inl e
      | Inr imageRef \<Rightarrow>
          Inr (empty_PodSpec\<lparr>ps_ServiceAccountName := ServiceAccountName,
            ps_AutomountServiceAccountToken := Some True, ps_RestartPolicy := ''Never'', ps_HostPID := True,
            ps_NodeName := om_Name (o_Meta node),
            ps_SecurityContext := Some \<lparr>psx_RunAsUser = Some 0, psx_RunAsGroup = Some 0,
              psx_SeccompProfile = Some ''RuntimeDefault''\<rparr>,
            ps_Volumes := map (\<lambda>(name, path, _). \<lparr>vo_Name = name, vo_Source = HostPath path\<rparr>) host_dirs,
            ps_Containers := [empty_Container\<lparr>co_Name := kubeBenchContainerName, co_Image := imageRef,
              co_ImagePullPolicy := ''IfNotPresent'',
              co_TerminationMessagePolicy := ''FallbackToLogsOnError'', co_Command := [''sh''],
              co_Args := [''-c'', ''kube-bench --json 2> /dev/null''],
              co_SecurityContext := Some \<lparr>sx_Privileged = Some False, sx_AllowPrivilegeEscalation = Some False,
                sx_AddCapabilities = [], sx_DropCapabilities = [''all''], sx_ReadOnlyRootFilesystem = Some True,
                sx_RunAsUser = None\<rparr>,
              co_Resources := \<lparr>rr_Requests = [''cpu'' \<mapsto> ''50m'', ''memory'' \<mapsto> ''50M''],
                rr_Limits = [''cpu'' \<mapsto> ''300m'', ''memory'' \<mapsto> ''300M'']\<rparr>,
              co_VolumeMounts := map (\<lambda>(name, _, path). \<lparr>vm_Name = name, vm_MountPath = path, vm_SubPath = [],
                vm_ReadOnly = True\<rparr>) host_dirs\<rparr>]\<rparr>))"

text \<open>The members of the scanner's output.\<close>

definition result_members :: "(string \<times> CISKubeBenchResult setter) list" where
  "result_members = [(''test_number'', string_field (\<lambda>x. kbr_TestNumber_update (\<lambda>_. x))),
     (''test_desc'', string_field (\<lambda>x. kbr_TestDesc_update (\<lambda>_. x))),
     (''remediation'', string_field (\<lambda>x. kbr_Remediation_update (\<lambda>_. x))),
     (''status'', string_field (\<lambda>x. kbr_Status_update (\<lambda>_. x))),
     (''scored'', bool_field (\<lambda>x. kbr_Scored_update (\<lambda>_. x)))]"

definition empty_Result :: CISKubeBenchResult where
  "empty_Result = \<lparr>kbr_TestNumber = [], kbr_TestDesc = [], kbr_Remediation = [], kbr_Status = [], kbr_Scored = False\<rparr>"

definition tests_members :: "(string \<times> CISKubeBenchTests setter) list" where
  "tests_members = [(''section'', string_field (\<lambda>x. kbt_Section_update (\<lambda>_. x))),
     (''pass'', int_field (\<lambda>x. kbt_Pass_update (\<lambda>_. x))), (''fail'', int_field (\<lambda>x. kbt_Fail_update (\<lambda>_. x))),
     (''warn'', int_field (\<lambda>x. kbt_Warn_update (\<lambda>_. x))), (''info'', int_field (\<lambda>x. kbt_Info_update (\<lambda>_. x))),
     (''desc'', string_field (\<lambda>x. kbt_Desc_update (\<lambda>_. x))),
     (''results'', list_field kbt_Results (\<lambda>x. kbt_Results_update (\<lambda>_. x)) (decode_struct result_members) empty_Result)]"

definition empty_Tests :: CISKubeBenchTests where
  "empty_Tests = \<lparr>kbt_Section = [], kbt_Pass = 0, kbt_Fail = 0, kbt_Warn = 0, kbt_Info = 0, kbt_Desc = [], kbt_Results = []\<rparr>"

definition section_members :: "(string \<times> CISKubeBenchSection setter) list" where
  "section_members = [(''id'', string_field (\<lambda>x. kbs_ID_update (\<lambda>_. x))),
     (''version'', string_field (\<lambda>x. kbs_Version_update (\<lambda>_. x))),
     (''text'', string_field (\<lambda>x. kbs_Text_update (\<lambda>_. x))),
     (''node_type'', string_field (\<lambda>x. kbs_NodeType_update (\<lambda>_. x))),
     (''total_pass'', int_field (\<lambda>x. kbs_TotalPass_update (\<lambda>_. x))),
     (''total_fail'', int_field (\<lambda>x. kbs_TotalFail_update (\<lambda>_. x))),
     (''total_warn'', int_field (\<lambda>x. kbs_TotalWarn_update (\<lambda>_. x))),
     (''total_info'', int_field (\<lambda>x. kbs_TotalInfo_update (\<lambda>_. x))),
     (''tests'', list_field kbs_Tests (\<lambda>x. kbs_Tests_update (\<lambda>_. x)) (decode_struct tests_members) empty_Tests)]"

definition empty_Section :: CISKubeBenchSection where
  "empty_Section = \<lparr>kbs_ID = [], kbs_Version = [], kbs_Text = [], kbs_NodeType = [], kbs_TotalPass = 0,
     kbs_TotalFail = 0, kbs_TotalWarn = 0, kbs_TotalInfo = 0, kbs_Tests = []\<rparr>"

definition decode_controls :: "string \<Rightarrow> error + CISKubeBenchSection list" where
  "decode_controls = Decode_first (decode_struct
     [(''controls'', list_field (\<lambda>x. x) (\<lambda>x _. x) (decode_struct section_members) empty_Section)]) []"

definition summary_totals :: "CISKubeBenchSummary \<Rightarrow> CISKubeBenchSection \<Rightarrow> CISKubeBenchSummary" where
  "summary_totals t section = \<lparr>kb_PassCount = kb_PassCount t + kbs_TotalPass section,
     kb_InfoCount = kb_InfoCount t + kbs_TotalInfo section, kb_WarnCount = kb_WarnCount t + kbs_TotalWarn section,
     kb_FailCount = kb_FailCount t + kbs_TotalFail section\<rparr>"

definition KubeBench_summary :: "CISKubeBenchSection list \<Rightarrow> CISKubeBenchSummary" where
  "KubeBench_summary sections =
     foldl summary_totals \<lparr>kb_PassCount = 0, kb_InfoCount = 0, kb_WarnCount = 0, kb_FailCount = 0\<rparr> sections"

definition ParseCISKubeBenchReportData ::
    "Time \<Rightarrow> (string \<Rightarrow> error + ImageRef) \<Rightarrow> ConfigData \<Rightarrow> string \<Rightarrow> CISKubeBenchReportData \<times> error option" where
  "ParseCISKubeBenchReportData now ParseReference config logs =
     (case decode_controls logs of
        Inl e \<Rightarrow> (empty_CISKubeBenchReportData, Some e)
      | Inr controls \<Rightarrow>
          (case GetKubeBenchImageRef config of
             Inl e \<Rightarrow> (empty_CISKubeBenchReportData, Some e)
           | Inr imageRef \<Rightarrow>
               (case GetVersionFromImageRef ParseReference imageRef of
                  Inl e \<Rightarrow> (empty_CISKubeBenchReportData, Some e)
                | Inr version \<Rightarrow>
                    (\<lparr>kb_UpdateTimestamp = now,
                      kb_Scanner = \<lparr>sc_Name = ''kube-bench'', sc_Vendor = ''Aqua Security'', sc_Version = version\<rparr>,
                      kb_Summary = KubeBench_summary controls, kb_Sections = controls\<rparr>, None))))"

definition kubeBenchPlugin ::
    "Time \<Rightarrow> (string \<Rightarrow> error + ImageRef) \<Rightarrow> ConfigData \<Rightarrow> KubeBenchPlugin" where
  "kubeBenchPlugin now ParseReference config =
     \<lparr>kbp_GetScanJobSpec = KubeBench_GetScanJobSpec config,
      kbp_ParseCISKubeBenchReportData = ParseCISKubeBenchReportData now ParseReference config,
      kbp_GetContainerName = kubeBenchContainerName\<rparr>"

section \<open>Reports\<close>

definition KubeBench_Write :: "'s client \<Rightarrow> Object \<Rightarrow> 's \<Rightarrow> error option \<times> 's" where
  "KubeBench_Write c report s =
     upsert TCISKubeBenchReport c \<lparr>key_Namespace = [], key_Name = om_Name (o_Meta report)\<rparr> report s"

definition KubeBench_FindByOwner :: "'s client \<Rightarrow> 's \<Rightarrow> ObjectRef \<Rightarrow> error + Object option" where
  "KubeBench_FindByOwner c s node =
     (case cl_Get c s TCISKubeBenchReport \<lparr>key_Namespace = [], key_Name = ref_Name node\<rparr> of
        Inl err \<Rightarrow> if IsNotFound err then Inr None else Inl err
      | Inr report \<Rightarrow> Inr (Some report))"

definition KubeBench_BuilderGet ::
    "'s client \<Rightarrow> owner_setter \<Rightarrow> Object \<Rightarrow> CISKubeBenchReportData \<Rightarrow> error + Object" where
  "KubeBench_BuilderGet c SetControllerReference controller data =
     (case cl_GVKForObject c controller of
        Inl e \<Rightarrow> Inl (Wrap ''getting kind for object'' e)
      | Inr kind \<Rightarrow>
          (let meta = empty_meta\<lparr>om_Name := om_Name (o_Meta controller),
                 om_Namespace := om_Namespace (o_Meta controller),
                 om_Labels := [LabelResourceKind \<mapsto> kind, LabelResourceName \<mapsto> om_Name (o_Meta controller)]\<rparr>
           in case SetControllerReference controller meta of
                Inl e \<Rightarrow> Inl (Wrap ''setting controller reference'' e)
              | Inr refs \<Rightarrow>
                  Inr \<lparr>o_Kind = [], o_Meta = meta\<lparr>om_OwnerReferences := unblock_owner refs\<rparr>,
                       o_Body = CISKubeBenchReport data\<rparr>))"

section \<open>Reconciling nodes\<close>

record 's CISKubeBenchReportReconciler =
  kbc_Config :: Config
  kbc_Client :: "'s client"
  kbc_env :: env
  kbc_logs :: "'s logs"
  kbc_Plugin :: KubeBenchPlugin
  kbc_ConfigData :: ConfigData
  kbc_tolerations :: "string \<Rightarrow> error + string list"
  kbc_SetControllerReference :: owner_setter

definition node_predicates :: Predicate where
  "node_predicates = all_predicates [IsLinuxNode]"

definition bench_job_predicates :: "Config \<Rightarrow> Predicate" where
  "bench_job_predicates config = all_predicates [InNamespace (cfg_Namespace config),
     ManagedByStarboardOperator, IsKubeBenchReportScan, JobHasAnyCondition]"

definition bench_hasReport :: "'s CISKubeBenchReportReconciler \<Rightarrow> 's \<Rightarrow> Object \<Rightarrow> error + bool" where
  "bench_hasReport r s node =
     (case KubeBench_FindByOwner (kbc_Client r) s
             \<lparr>ref_Kind = KindNode, ref_Name = om_Name (o_Meta node), ref_Namespace = []\<rparr> of
        Inl e \<Rightarrow> Inl e
      | Inr report \<Rightarrow> Inr (report \<noteq> None))"

definition getScanJobName :: "'s CISKubeBenchReportReconciler \<Rightarrow> Object \<Rightarrow> string" where
  "getScanJobName r node = ''scan-cisbenchmark-'' @ ComputeHash (kbc_env r) (HString (om_Name (o_Meta node)))"

definition hasScanJob :: "'s CISKubeBenchReportReconciler \<Rightarrow> 's \<Rightarrow> Object \<Rightarrow> error + Object option" where
  "hasScanJob r s node =
     (case cl_Get (kbc_Client r) s TJob
             \<lparr>key_Namespace = cfg_Namespace (kbc_Config r), key_Name = getScanJobName r node\<rparr> of
        Inl err \<Rightarrow> if IsNotFound err then Inr None else Inl (Wrap ''getting job from cache'' err)
      | Inr job \<Rightarrow> Inr (Some job))"

text \<open>The template of a node's job, before and after the labels of the configuration.\<close>

definition bench_labels :: "Object \<Rightarrow> strmap" where
  "bench_labels node = [LabelResourceKind \<mapsto> KindNode, LabelResourceName \<mapsto> om_Name (o_Meta node),
     LabelK8SAppManagedBy \<mapsto> AppStarboard, LabelKubeBenchReportScanner \<mapsto> ''true'']"

definition newScanJob :: "'s CISKubeBenchReportReconciler \<Rightarrow> Object \<Rightarrow> error + Object" where
  "newScanJob r node =
     (case kbp_GetScanJobSpec (kbc_Plugin r) node of
        Inl e \<Rightarrow> Inl e
      | Inr spec0 \<Rightarrow>
          (let spec1 = spec0\<lparr>ps_ServiceAccountName := cfg_ServiceAccount (kbc_Config r)\<rparr> in
           case GetScanJobTolerations (kbc_tolerations r) (kbc_ConfigData r) of
             Inl e \<Rightarrow> Inl e
           | Inr tolerations \<Rightarrow>
               (let spec2 = spec1\<lparr>ps_Tolerations := ps_Tolerations spec1 @ tolerations\<rparr> in
                case GetScanJobAnnotations (kbc_ConfigData r) of
                  Inl e \<Rightarrow> Inl e
                | Inr annotations \<Rightarrow>
                    (case GetScanJobPodTemplateLabels (kbc_ConfigData r) of
                       Inl e \<Rightarrow> Inl e
                     | Inr podTemplateLabels \<Rightarrow>
                         Inr \<lparr>o_Kind = [],
                              o_Meta = empty_meta\<lparr>om_Name := getScanJobName r node,
                                om_Namespace := cfg_Namespace (kbc_Config r), om_Labels := bench_labels node\<rparr>,
                              o_Body = Job \<lparr>js_BackoffLimit = 0, js_Completions = 1,
                                js_ActiveDeadlineSeconds = GetActiveDeadlineSeconds (cfg_ScanJobTimeout (kbc_Config r)),
                                js_Selector = [],
                                js_Template = \<lparr>pt_Meta = empty_meta\<lparr>om_Labels := bench_labels node ++ podTemplateLabels,
                                    om_Annotations := annotations\<rparr>, pt_Spec = spec2\<rparr>\<rparr> []\<rparr>))))"

text \<open>The reads, then the job.\<close>

definition node_decision :: "'s CISKubeBenchReportReconciler \<Rightarrow> ObjectKey \<Rightarrow> 's \<Rightarrow> decision" where
  "node_decision r req s =
     (case cl_Get (kbc_Client r) s TNode req of
        Inl err \<Rightarrow>
          if IsNotFound err then Inl (Inr no_requeue) else Inl (Inl (Wrap ''getting node from cache'' err))
      | Inr node \<Rightarrow>
          (case bench_hasReport r s node of
             Inl e \<Rightarrow> Inl (Inl (Wrap ''checking whether report exists'' e))
           | Inr True \<Rightarrow> Inl (Inr no_requeue)
           | Inr False \<Rightarrow>
               (case hasScanJob r s node of
                  Inl e \<Rightarrow> Inl (Inl (Wrap ''checking whether scan job has been scheduled'' e))
                | Inr (Some job) \<Rightarrow> Inl (Inr no_requeue)
                | Inr None \<Rightarrow>
                    (case LimitChecker_Check (kbc_Client r) (kbc_Config r) (kbc_ConfigData r) s of
                       Inl e \<Rightarrow> Inl (Inl e)
                     | Inr (limitExceeded, jobsCount) \<Rightarrow>
                         if limitExceeded then Inl (Inr \<lparr>RequeueAfter = cfg_ScanJobRetryAfter (kbc_Config r)\<rparr>)
                         else Inr node))))"

definition node_submitScanJob ::
    "'s CISKubeBenchReportReconciler \<Rightarrow> Object \<Rightarrow> 's \<Rightarrow> error option \<times> 's" where
  "node_submitScanJob r node s =
     (case newScanJob r node of
        Inl e \<Rightarrow> (Some (Wrap ''preparing job'' e), s)
      | Inr job \<Rightarrow>
          (case cl_Create (kbc_Client r) s job of
             (Inl err, s1) \<Rightarrow> (if IsAlreadyExists err then None else Some (Wrap ''creating job'' err), s1)
           | (Inr _, s1) \<Rightarrow> (None, s1)))"

definition reconcileNodes ::
    "'s CISKubeBenchReportReconciler \<Rightarrow> ObjectKey \<Rightarrow> 's \<Rightarrow> (error + Result) \<times> 's" where
  "reconcileNodes r req s = decide_then (node_decision r req s) (node_submitScanJob r) s"

section \<open>Processing finished jobs\<close>

definition bench_processCompleteScanJob ::
    "'s CISKubeBenchReportReconciler \<Rightarrow> Object \<Rightarrow> 's \<Rightarrow> error option \<times> 's" where
  "bench_processCompleteScanJob r job s =
     (case ObjectRefFromObjectMeta (o_Meta job) of
        Inl e \<Rightarrow> (Some (Wrap ''getting owner ref from scan job metadata'' e), s)
      | Inr nodeRef \<Rightarrow>
          (case cl_Get (kbc_Client r) s TNode \<lparr>key_Namespace = [], key_Name = ref_Name nodeRef\<rparr> of
             Inl err \<Rightarrow>
               if IsNotFound err then deleteJob (kbc_Client r) job s
               else (Some (Wrap ''getting node from cache'' err), s)
           | Inr node \<Rightarrow>
               (case bench_hasReport r s node of
                  Inl e \<Rightarrow> (Some (Wrap ''checking whether report exists'' e), s)
                | Inr True \<Rightarrow> deleteJob (kbc_Client r) job s
                | Inr False \<Rightarrow>
                    (case GetLogsByJobAndContainerName (kbc_Client r) (kbc_logs r) s job
                            (kbp_GetContainerName (kbc_Plugin r)) of
                       Inl err \<Rightarrow>
                         if IsNotFound err then (None, s)
                         else if IsPodControlledByJobNotFound err then deleteJob (kbc_Client r) job s
                         else (Some (Wrap ''getting logs'' err), s)
                     | Inr logsStream \<Rightarrow>
                         (let (output, _) = kbp_ParseCISKubeBenchReportData (kbc_Plugin r) logsStream in
                          case KubeBench_BuilderGet (kbc_Client r) (kbc_SetControllerReference r) node output of
                            Inl e \<Rightarrow> (Some (Wrap ''building report'' e), s)
                          | Inr report \<Rightarrow>
                              and_then (wrap_err ''writing report'' (KubeBench_Write (kbc_Client r) report s))
                                (deleteJob (kbc_Client r) job))))))"

definition bench_processFailedScanJob ::
    "'s CISKubeBenchReportReconciler \<Rightarrow> Object \<Rightarrow> 's \<Rightarrow> error option \<times> 's" where
  "bench_processFailedScanJob r job s =
     (case GetTerminatedContainersStatusesByJob (kbc_Client r) s job of
        Inl err \<Rightarrow>
          if IsNotFound err then (None, s)
          else if IsPodControlledByJobNotFound err then deleteJob (kbc_Client r) job s
          else (Some err, s)
      | Inr statuses \<Rightarrow> deleteJob (kbc_Client r) job s)"

definition bench_reconcileJobs ::
    "'s CISKubeBenchReportReconciler \<Rightarrow> ObjectKey \<Rightarrow> 's \<Rightarrow> (error + Result) \<times> 's" where
  "bench_reconcileJobs r = dispatch_job ''unrecognized job condition: '' (kbc_Client r)
     (bench_processCompleteScanJob r) (bench_processFailedScanJob r)"

section \<open>The writer keeps the contract of a report store\<close>

interpretation bench_store: report_store TCISKubeBenchReport cluster_scoped KubeBench_Write
  by unfold_locales (auto simp: KubeBench_Write_def cluster_key intro: upsert_laws)

section \<open>Lemmas\<close>

lemma newScanJob_Inr:
  assumes "newScanJob r node = Inr job"
  shows "go_type job = TJob" "om_Labels (o_Meta job) = bench_labels node"
    "key_of job = \<lparr>key_Namespace = cfg_Namespace (kbc_Config r), key_Name = getScanJobName r node\<rparr>"
    "\<exists>spec extra. kbp_GetScanJobSpec (kbc_Plugin r) node = Inr spec \<and>
       pt_Spec (js_Template (job_spec (o_Body job))) = spec\<lparr>ps_ServiceAccountName := cfg_ServiceAccount (kbc_Config r),
         ps_Tolerations := ps_Tolerations spec @ extra\<rparr>"
  using assms by (auto simp: newScanJob_def key_of_def Let_def split: sum.splits)

lemma BuilderGet_Inr:
  assumes "KubeBench_BuilderGet c scr node data = Inr report"
  shows "o_Body report = CISKubeBenchReport data" "om_Name (o_Meta report) = om_Name (o_Meta node)"
    "om_Namespace (o_Meta report) = om_Namespace (o_Meta node)"
  using assms by (auto simp: KubeBench_BuilderGet_def Let_def split: sum.splits)

lemma node_key:
  assumes "api_laws c" and "cl_Get c s TNode \<lparr>key_Namespace = [], key_Name = n\<rparr> = Inr node"
  shows "om_Name (o_Meta node) = n" "om_Namespace (o_Meta node) = []"
  using get_typed [OF assms] by (simp_all add: key_of_def)

lemma bench_hasReport_stored:
  "cl_Get (kbc_Client r) s TCISKubeBenchReport \<lparr>key_Namespace = [], key_Name = om_Name (o_Meta node)\<rparr> = Inr x
    \<Longrightarrow> bench_hasReport r s node = Inr True"
  by (simp add: bench_hasReport_def KubeBench_FindByOwner_def)

lemma node_decision_below:
  "node_decision r req s = Inr obj \<Longrightarrow>
    \<exists>n. LimitChecker_Check (kbc_Client r) (kbc_Config r) (kbc_ConfigData r) s = Inr (False, n)"
  by (auto simp: node_decision_def split: sum.splits if_splits bool.splits option.splits)

lemma create_frame:
  assumes "api_laws c" and "(t, k) \<noteq> (go_type x, key_of x)"
  shows "cl_Get c (snd (cl_Create c s x)) t k = cl_Get c s t k"
proof (cases "cl_Create c s x")
  case (Pair rc s1)
  then show ?thesis
    using assms create_ok(3) [OF assms(1), of s x _ s1] failed_write(1) [OF assms(1), of s x _ s1]
    by (cases rc) (auto simp: only_changes_def)
qed

text \<open>Scheduling a node's scan creates nothing but the node's job.\<close>

lemma node_submitScanJob_frame:
  assumes "api_laws (kbc_Client r)"
    and "(t, k) \<noteq> (TJob, \<lparr>key_Namespace = cfg_Namespace (kbc_Config r), key_Name = getScanJobName r node\<rparr>)"
  shows "cl_Get (kbc_Client r) (snd (node_submitScanJob r node s)) t k = cl_Get (kbc_Client r) s t k"
proof (cases "newScanJob r node")
  case (Inr job)
  have "snd (node_submitScanJob r node s) = snd (cl_Create (kbc_Client r) s job)"
    using Inr by (simp add: node_submitScanJob_def split: prod.splits sum.splits)
  then show ?thesis
    using create_frame [OF assms(1), of t k job s] newScanJob_Inr(1,3) [OF Inr] assms(2) by simp
qed (simp add: node_submitScanJob_def)

lemma KubeBench_Write_jobs:
  assumes "api_laws c" and "o_Body report = CISKubeBenchReport d" and "om_Namespace (o_Meta report) = []"
  shows "cl_Get c (snd (KubeBench_Write c report s)) TJob k = cl_Get c s TJob k"
  using bench_store.write_other_type [OF assms(1), of report s] assms(2,3)
  by (cases "KubeBench_Write c report s") (simp add: cluster_scoped_def)

lemma bench_processCompleteScanJob_own:
  assumes laws: "api_laws (kbc_Client r)"
  shows "handles_own_job (kbc_Client r) (bench_processCompleteScanJob r)"
proof (rule handles_own_jobI)
  fix job s k
  assume job: "go_type job = TJob"
  let ?c = "kbc_Client r"
  have written: "cl_Get ?c (snd (and_then (wrap_err m (KubeBench_Write ?c report s)) (deleteJob ?c job))) TJob k \<in>
      (if k = key_of job then {cl_Get ?c s TJob k, Inl NotFound} else {cl_Get ?c s TJob k})"
    if "KubeBench_BuilderGet ?c scr node d = Inr report"
      "cl_Get ?c s TNode \<lparr>key_Namespace = [], key_Name = n\<rparr> = Inr node" for m report scr node d n k
  proof -
    have same: "cl_Get ?c (snd (KubeBench_Write ?c report s)) TJob k = cl_Get ?c s TJob k" for k
      by (rule KubeBench_Write_jobs [OF laws BuilderGet_Inr(1) [OF that(1)]])
         (simp add: BuilderGet_Inr(3) [OF that(1)] node_key(2) [OF laws that(2)])
    obtain w s1 where w: "KubeBench_Write ?c report s = (w, s1)" by fastforce
    show ?thesis
      using w same [of k] deleteJob_kept_or_gone [OF laws job, of s1] deleteJob_frame [OF laws job, of TJob k s1]
      by (cases w) auto
  qed
  show "cl_Get ?c (snd (bench_processCompleteScanJob r job s)) TJob k = cl_Get ?c s TJob k" if "k \<noteq> key_of job"
    using written [of _ _ _ _ _ _ k] deleteJob_frame [OF laws job, of TJob k s] that
    by (auto simp: bench_processCompleteScanJob_def split: sum.splits option.splits bool.splits prod.splits)
  show "cl_Get ?c (snd (bench_processCompleteScanJob r job s)) TJob (key_of job) \<in>
      {cl_Get ?c s TJob (key_of job), Inl NotFound}"
    using written [of _ _ _ _ _ _ "key_of job"] deleteJob_kept_or_gone [OF laws job, of s]
    by (auto simp: bench_processCompleteScanJob_def split: sum.splits option.splits bool.splits prod.splits)
qed

lemma bench_processFailedScanJob_own:
  assumes "api_laws (kbc_Client r)"
  shows "handles_own_job (kbc_Client r) (bench_processFailedScanJob r)"
  using deleteJob_kept_or_gone [OF assms] deleteJob_frame [OF assms]
  by (intro handles_own_jobI) (auto simp: bench_processFailedScanJob_def split: sum.splits)

section \<open>The controller keeps the contracts on scan jobs\<close>

definition bench_ok :: "'s CISKubeBenchReportReconciler \<Rightarrow> bool" where
  "bench_ok r \<longleftrightarrow> api_laws (kbc_Client r)"

interpretation bench_scheduler: scan_scheduler bench_ok kbc_Client kbc_Config kbc_ConfigData
    node_decision node_submitScanJob
proof unfold_locales
  fix r :: "'s CISKubeBenchReportReconciler" and obj s err s'
  assume "bench_ok r" and "node_submitScanJob r obj s = (err, s')"
  then show "\<exists>k0. \<forall>t k. t \<noteq> TSecret \<longrightarrow> (t, k) \<noteq> (TJob, k0) \<longrightarrow> cl_Get (kbc_Client r) s' t k = cl_Get (kbc_Client r) s t k"
    using node_submitScanJob_frame [of r _ _ obj s] by (auto simp: bench_ok_def)
qed (simp_all add: bench_ok_def node_decision_below)

interpretation bench_jobs: job_processor bench_ok kbc_Client bench_reconcileJobs
  unfolding bench_reconcileJobs_def
  by (rule dispatch_job_processor)
     (simp_all add: bench_ok_def bench_processCompleteScanJob_own bench_processFailedScanJob_own)

text \<open>The core of the two properties on complete jobs.\<close>

lemma bench_complete_stored:
  assumes "api_laws (kbc_Client r)" and "go_type job = TJob"
    and "ObjectRefFromObjectMeta (o_Meta job) = Inr nodeRef"
    and "cl_Get (kbc_Client r) s TNode \<lparr>key_Namespace = [], key_Name = ref_Name nodeRef\<rparr> = Inr node"
    and "bench_hasReport r s node = Inr False"
    and "GetLogsByJobAndContainerName (kbc_Client r) (kbc_logs r) s job (kbp_GetContainerName (kbc_Plugin r)) = Inr logs"
    and "bench_processCompleteScanJob r job s = (None, s')"
  shows "cl_Get (kbc_Client r) s' TJob (key_of job) = Inl NotFound"
    "\<exists>y. cl_Get (kbc_Client r) s' TCISKubeBenchReport \<lparr>key_Namespace = [], key_Name = ref_Name nodeRef\<rparr> = Inr y \<and>
       o_Body y = CISKubeBenchReport (fst (kbp_ParseCISKubeBenchReportData (kbc_Plugin r) logs))"
    "cl_Get (kbc_Client r) s' TNode \<lparr>key_Namespace = [], key_Name = ref_Name nodeRef\<rparr> = Inr node"
proof -
  let ?c = "kbc_Client r"
  obtain out e where parse: "kbp_ParseCISKubeBenchReportData (kbc_Plugin r) logs = (out, e)" by fastforce
  obtain report where report: "KubeBench_BuilderGet ?c (kbc_SetControllerReference r) node out = Inr report"
    using assms(3-7) parse by (auto simp: bench_processCompleteScanJob_def split: sum.splits)
  have "and_then (wrap_err ''writing report'' (KubeBench_Write ?c report s)) (deleteJob ?c job) = (None, s')"
    using assms(3-7) parse report by (simp add: bench_processCompleteScanJob_def)
  then obtain s1 where w: "KubeBench_Write ?c report s = (None, s1)" and d: "deleteJob ?c job s1 = (None, s')"
    by (auto simp: and_then_None_iff)
  note del = deleteJob_ok [OF assms(1,2) d] and build = BuilderGet_Inr [OF report] and nk = node_key [OF assms(1,4)]
  have typed: "go_type report = TCISKubeBenchReport" "cluster_scoped report"
    using build nk by (simp_all add: cluster_scoped_def)
  have key: "key_of report = \<lparr>key_Namespace = [], key_Name = ref_Name nodeRef\<rparr>"
    using build(2,3) nk by (simp add: key_of_def)
  show "cl_Get ?c s' TJob (key_of job) = Inl NotFound" by (rule del(1))
  obtain y where "cl_Get ?c s1 TCISKubeBenchReport (key_of report) = Inr y" "stores y report"
    using bench_store.write_stored [OF assms(1) typed w] by blast
  then show "\<exists>y. cl_Get ?c s' TCISKubeBenchReport \<lparr>key_Namespace = [], key_Name = ref_Name nodeRef\<rparr> = Inr y \<and>
      o_Body y = CISKubeBenchReport (fst (kbp_ParseCISKubeBenchReportData (kbc_Plugin r) logs))"
    using del(2) build(1) parse key by (auto simp: only_changes_def stores_def)
  show "cl_Get ?c s' TNode \<lparr>key_Namespace = [], key_Name = ref_Name nodeRef\<rparr> = Inr node"
    using del(2) bench_store.write_other_type [OF assms(1) typed w, of TNode] assms(4) by (simp add: only_changes_def)
qed

lemma reconcileNodes_reported:
  assumes "cl_Get (kbc_Client r) s TNode req = Inr node" and "bench_hasReport r s node = Inr True"
  shows "reconcileNodes r req s = (Inr no_requeue, s)"
  using assms by (simp add: reconcileNodes_def decide_then_def node_decision_def)

lemma foldl_summary_totals:
  "foldl summary_totals t sections =
     \<lparr>kb_PassCount = kb_PassCount t + sum_list (map kbs_TotalPass sections),
      kb_InfoCount = kb_InfoCount t + sum_list (map kbs_TotalInfo sections),
      kb_WarnCount = kb_WarnCount t + sum_list (map kbs_TotalWarn sections),
      kb_FailCount = kb_FailCount t + sum_list (map kbs_TotalFail sections)\<rparr>"
  by (induction sections arbitrary: t) (simp_all add: summary_totals_def)

section \<open>Properties\<close>

text \<open>
  C9. A complete benchmark job becomes the node's report: when the node exists, has no report yet
  and the job's logs could be read, success of the handler means that the job is gone, that the report
  named like the node holds what the plugin made of the logs, and that the next reconciliation of the
  node finds the report and schedules nothing.
\<close>

theorem benchmark_job_becomes_report:
  assumes "api_laws (kbc_Client r)" and "go_type job = TJob"
    and "ObjectRefFromObjectMeta (o_Meta job) = Inr nodeRef"
    and "cl_Get (kbc_Client r) s TNode \<lparr>key_Namespace = [], key_Name = ref_Name nodeRef\<rparr> = Inr node"
    and "bench_hasReport r s node = Inr False"
    and "GetLogsByJobAndContainerName (kbc_Client r) (kbc_logs r) s job (kbp_GetContainerName (kbc_Plugin r)) = Inr logs"
    and "bench_processCompleteScanJob r job s = (None, s')"
  shows "cl_Get (kbc_Client r) s' TJob (key_of job) = Inl NotFound \<and>
    (\<exists>y. cl_Get (kbc_Client r) s' TCISKubeBenchReport \<lparr>key_Namespace = [], key_Name = ref_Name nodeRef\<rparr> = Inr y \<and>
       o_Body y = CISKubeBenchReport (fst (kbp_ParseCISKubeBenchReportData (kbc_Plugin r) logs))) \<and>
    reconcileNodes r \<lparr>key_Namespace = [], key_Name = ref_Name nodeRef\<rparr> s' = (Inr no_requeue, s')"
  using bench_complete_stored [OF assms] node_key [OF assms(1,4)] reconcileNodes_reported bench_hasReport_stored
  by metis

text \<open>Sample values: a node with its finished job, and two sections of scanner output.\<close>

definition sample_node :: Object where
  "sample_node = \<lparr>o_Kind = KindNode, o_Meta = empty_meta\<lparr>om_Name := ''worker''\<rparr>, o_Body = Node\<rparr>"

definition sample_bench_config :: ConfigData where
  "sample_bench_config = [keyKubeBenchImageRef \<mapsto> ''docker.io/aquasec/kube-bench:v0.6.6'']"

definition sample_bench_output :: string where
  "sample_bench_output = encode_json (JObject [(''Controls'', JArray
     [JObject [(''id'', JString ''1''), (''total_pass'', JNumber ''3''), (''total_fail'', JNumber ''1'')],
      JObject [(''id'', JString ''4''), (''total_pass'', JNumber ''2''), (''total_warn'', JNumber ''5'')]])])"

definition sample_bench_controller :: "string \<Rightarrow> Object list CISKubeBenchReportReconciler" where
  "sample_bench_controller logs = \<lparr>kbc_Config = sample_config, kbc_Client = mem_client, kbc_env = sample_env,
     kbc_logs = (\<lambda>_ _ _. Inr logs),
     kbc_Plugin = kubeBenchPlugin 0 (\<lambda>_. Inr (ImageTag ''v0.6.6'')) sample_bench_config,
     kbc_ConfigData = sample_bench_config, kbc_tolerations = (\<lambda>_. Inr []),
     kbc_SetControllerReference = (\<lambda>_ _. Inr [])\<rparr>"

definition sample_bench_job :: Object where
  "sample_bench_job = \<lparr>o_Kind = [], o_Meta = empty_meta\<lparr>om_Name := ''scan-cisbenchmark-worker'',
     om_Namespace := ''starboard'', om_Labels := bench_labels sample_node\<rparr>, o_Body = Job empty_JobSpec [JobComplete]\<rparr>"

definition sample_bench_state :: "Object list" where
  "sample_bench_state = [sample_bench_job, sample_node, sample_job_pod]"

lemma sample_bench_data:
  "go_type sample_bench_job = TJob"
  "ObjectRefFromObjectMeta (o_Meta sample_bench_job) = Inr \<lparr>ref_Kind = KindNode, ref_Name = ''worker'', ref_Namespace = []\<rparr>"
  "mem_Get sample_bench_state TNode \<lparr>key_Namespace = [], key_Name = ''worker''\<rparr> = Inr sample_node"
  "mem_Get sample_bench_state TCISKubeBenchReport k = Inl NotFound"
  "getPodByJob mem_client sample_bench_state sample_bench_job = Inr (Some sample_job_pod)"
proof -
  show t: "go_type sample_bench_job = TJob" by (simp add: sample_bench_job_def)
  show "ObjectRefFromObjectMeta (o_Meta sample_bench_job) = Inr \<lparr>ref_Kind = KindNode, ref_Name = ''worker'', ref_Namespace = []\<rparr>"
    by (simp add: sample_bench_job_def ObjectRefFromObjectMeta_def bench_labels_def sample_node_def label_simps mget_def)
  show "mem_Get sample_bench_state TNode \<lparr>key_Namespace = [], key_Name = ''worker''\<rparr> = Inr sample_node"
    by (simp add: sample_bench_state_def mem_Get_def sample_bench_job_def sample_node_def key_of_def empty_meta_def)
  show "mem_Get sample_bench_state TCISKubeBenchReport k = Inl NotFound"
    by (simp add: sample_bench_state_def mem_Get_def sample_bench_job_def sample_node_def sample_job_pod_def)
  have "mem_Get sample_bench_state TJob (key_of sample_bench_job) = Inr sample_bench_job"
    by (simp add: sample_bench_state_def mem_Get_def t)
  then show "getPodByJob mem_client sample_bench_state sample_bench_job = Inr (Some sample_job_pod)"
    by (simp add: getPodByJob_def mem_List_def sample_bench_state_def selected_def same_id_def
        sample_bench_job_def sample_node_def sample_job_pod_def empty_JobSpec_def key_of_def mget_def Let_def)
qed

lemma sample_bench_handled:
  shows "kbc_Client (sample_bench_controller logs) = mem_client"
    "kbc_Plugin (sample_bench_controller logs) = kubeBenchPlugin 0 (\<lambda>_. Inr (ImageTag ''v0.6.6'')) sample_bench_config"
    "bench_hasReport (sample_bench_controller logs) sample_bench_state sample_node = Inr False"
    "GetLogsByJobAndContainerName mem_client (kbc_logs (sample_bench_controller logs)) sample_bench_state sample_bench_job n = Inr logs"
    "\<exists>s'. bench_processCompleteScanJob (sample_bench_controller logs) sample_bench_job sample_bench_state = (None, s')"
proof -
  let ?r = "sample_bench_controller logs"
  show c: "kbc_Client ?r = mem_client" "kbc_Plugin ?r = kubeBenchPlugin 0 (\<lambda>_. Inr (ImageTag ''v0.6.6'')) sample_bench_config"
    by (simp_all add: sample_bench_controller_def)
  show has: "bench_hasReport ?r sample_bench_state sample_node = Inr False"
    by (simp add: bench_hasReport_def KubeBench_FindByOwner_def c sample_bench_data)
  show logs: "GetLogsByJobAndContainerName mem_client (kbc_logs ?r) sample_bench_state sample_bench_job n = Inr logs" for n
    by (simp add: GetLogsByJobAndContainerName_def sample_bench_data sample_bench_controller_def)
  obtain out e where parse: "kbp_ParseCISKubeBenchReportData (kbc_Plugin ?r) logs = (out, e)" by fastforce
  obtain x where x: "KubeBench_BuilderGet mem_client (kbc_SetControllerReference ?r) sample_node out = Inr x"
    by (simp add: KubeBench_BuilderGet_def sample_bench_controller_def Let_def)
  have "\<forall>y \<in> set sample_bench_state. \<not> same_id x y"
    using BuilderGet_Inr(1) [OF x] sample_bench_data(1)
    by (auto simp: sample_bench_state_def same_id_def sample_node_def sample_job_pod_def)
  then have "KubeBench_Write mem_client x sample_bench_state = (None, x # sample_bench_state)"
    by (simp add: KubeBench_Write_def upsert_def mem_Create_def sample_bench_data)
  then show "\<exists>s'. bench_processCompleteScanJob ?r sample_bench_job sample_bench_state = (None, s')"
    using has logs parse x
    by (simp add: bench_processCompleteScanJob_def c(1) sample_bench_data deleteJob_def mem_Delete_def)
qed

theorem benchmark_job_becomes_report_witness:
  "\<exists>s'. bench_processCompleteScanJob (sample_bench_controller sample_bench_output) sample_bench_job sample_bench_state
      = (None, s') \<and> cl_Get mem_client s' TJob (key_of sample_bench_job) = Inl NotFound"
proof -
  let ?r = "sample_bench_controller sample_bench_output"
  note h = sample_bench_handled [of sample_bench_output]
  obtain s' where "bench_processCompleteScanJob ?r sample_bench_job sample_bench_state = (None, s')" using h(5) by blast
  then show ?thesis
    using benchmark_job_becomes_report [of ?r, OF _ sample_bench_data(1,2) _ h(3)] h(1,4) sample_bench_data(3) mem_laws
    by auto
qed

text \<open>
  C30. Output that is not what the scanner prints is stored as an empty report: when the logs are not
  a JSON document of the expected form, the operator drops the parser's error, success of the handler means
  that the node has a report with no sections and no scanner, and the node is not scanned again as long as
  that report exists.
\<close>

theorem unparsable_benchmark_stored_as_empty:
  assumes "api_laws (kbc_Client r)" and "go_type job = TJob"
    and "kbc_Plugin r = kubeBenchPlugin now ParseReference config"
    and "ObjectRefFromObjectMeta (o_Meta job) = Inr nodeRef"
    and "cl_Get (kbc_Client r) s TNode \<lparr>key_Namespace = [], key_Name = ref_Name nodeRef\<rparr> = Inr node"
    and "bench_hasReport r s node = Inr False"
    and "GetLogsByJobAndContainerName (kbc_Client r) (kbc_logs r) s job kubeBenchContainerName = Inr logs"
    and "decode_controls logs = Inl e"
    and "bench_processCompleteScanJob r job s = (None, s')"
  shows "(\<exists>y. cl_Get (kbc_Client r) s' TCISKubeBenchReport \<lparr>key_Namespace = [], key_Name = ref_Name nodeRef\<rparr> = Inr y \<and>
       o_Body y = CISKubeBenchReport empty_CISKubeBenchReportData) \<and>
    reconcileNodes r \<lparr>key_Namespace = [], key_Name = ref_Name nodeRef\<rparr> s' = (Inr no_requeue, s')"
proof -
  have logs: "GetLogsByJobAndContainerName (kbc_Client r) (kbc_logs r) s job (kbp_GetContainerName (kbc_Plugin r)) = Inr logs"
    using assms(3,7) by (simp add: kubeBenchPlugin_def)
  have "fst (kbp_ParseCISKubeBenchReportData (kbc_Plugin r) logs) = empty_CISKubeBenchReportData"
    using assms(3,8) by (simp add: kubeBenchPlugin_def ParseCISKubeBenchReportData_def)
  then show ?thesis
    using bench_complete_stored [OF assms(1,2,4-6) logs assms(9)] node_key [OF assms(1,5)]
      reconcileNodes_reported bench_hasReport_stored by metis
qed

theorem unparsable_benchmark_stored_as_empty_witness:
  "\<exists>s'. bench_processCompleteScanJob (sample_bench_controller ''error'') sample_bench_job sample_bench_state = (None, s') \<and>
     reconcileNodes (sample_bench_controller ''error'') \<lparr>key_Namespace = [], key_Name = ''worker''\<rparr> s' = (Inr no_requeue, s')"
proof -
  let ?r = "sample_bench_controller ''error''"
  note h = sample_bench_handled [of "''error''"]
  obtain s' where p: "bench_processCompleteScanJob ?r sample_bench_job sample_bench_state = (None, s')" using h(5) by blast
  have "decode_controls ''error'' = Inl (Errorf ''invalid JSON'')" by code_simp
  then show ?thesis
    using unparsable_benchmark_stored_as_empty [of ?r, OF _ sample_bench_data(1) h(2) sample_bench_data(2) _ h(3)]
      h(1,4) sample_bench_data(3) mem_laws p by auto
qed

text \<open>
  C31. The scan job of a node runs on that node and leads back to it: the node is recovered from the
  job's metadata, the pod is bound to the node, runs under the operator's service account, and mounts every host
  directory read-only.
\<close>

theorem benchmark_job_runs_on_node:
  assumes "kbc_Plugin r = kubeBenchPlugin now ParseReference config" and "newScanJob r node = Inr job"
  shows "ObjectRefFromObjectMeta (o_Meta job) = Inr \<lparr>ref_Kind = KindNode, ref_Name = om_Name (o_Meta node), ref_Namespace = []\<rparr> \<and>
    (let spec = pt_Spec (js_Template (job_spec (o_Body job))) in
     ps_NodeName spec = om_Name (o_Meta node) \<and> ps_ServiceAccountName spec = cfg_ServiceAccount (kbc_Config r) \<and>
     map vo_Name (ps_Volumes spec) = map vm_Name (concat (map co_VolumeMounts (ps_Containers spec))) \<and>
     list_all vm_ReadOnly (concat (map co_VolumeMounts (ps_Containers spec))))"
proof -
  obtain spec extra where spec: "kbp_GetScanJobSpec (kbc_Plugin r) node = Inr spec"
    "pt_Spec (js_Template (job_spec (o_Body job))) = spec\<lparr>ps_ServiceAccountName := cfg_ServiceAccount (kbc_Config r),
       ps_Tolerations := ps_Tolerations spec @ extra\<rparr>"
    using newScanJob_Inr(4) [OF assms(2)] by blast
  have "ObjectRefFromObjectMeta (o_Meta job) = Inr \<lparr>ref_Kind = KindNode, ref_Name = om_Name (o_Meta node), ref_Namespace = []\<rparr>"
    by (simp add: ObjectRefFromObjectMeta_def newScanJob_Inr(2) [OF assms(2)] bench_labels_def label_simps mget_def)
  moreover have "ps_NodeName spec = om_Name (o_Meta node)"
    "map vo_Name (ps_Volumes spec) = map vm_Name (concat (map co_VolumeMounts (ps_Containers spec)))"
    "list_all vm_ReadOnly (concat (map co_VolumeMounts (ps_Containers spec)))"
    using spec(1) by (auto simp: assms(1) kubeBenchPlugin_def KubeBench_GetScanJobSpec_def host_dirs_def split: sum.splits)
  ultimately show ?thesis by (simp add: spec(2) Let_def)
qed

theorem benchmark_job_runs_on_node_witness:
  "\<exists>job. newScanJob (sample_bench_controller []) sample_node = Inr job \<and>
     ps_NodeName (pt_Spec (js_Template (job_spec (o_Body job)))) = ''worker''"
proof -
  obtain job where job: "newScanJob (sample_bench_controller []) sample_node = Inr job"
    by (simp add: newScanJob_def sample_bench_controller_def kubeBenchPlugin_def KubeBench_GetScanJobSpec_def
        GetKubeBenchImageRef_def GetRequiredData_def sample_bench_config_def GetScanJobTolerations_def
        GetScanJobAnnotations_def GetScanJobPodTemplateLabels_def parse_pairs_def label_simps)
  show ?thesis
    using benchmark_job_runs_on_node [OF sample_bench_handled(2) job] job by (auto simp: Let_def sample_node_def)
qed

text \<open>
  The counters of a benchmark report are the totals of its sections, and the report names the
  version of the configured scanner image.
\<close>

lemma benchmark_summary_totals:
  assumes "ParseCISKubeBenchReportData now ParseReference config logs = (d, None)"
  shows "kb_PassCount (kb_Summary d) = sum_list (map kbs_TotalPass (kb_Sections d)) \<and>
    kb_FailCount (kb_Summary d) = sum_list (map kbs_TotalFail (kb_Sections d)) \<and>
    kb_WarnCount (kb_Summary d) = sum_list (map kbs_TotalWarn (kb_Sections d)) \<and>
    kb_InfoCount (kb_Summary d) = sum_list (map kbs_TotalInfo (kb_Sections d)) \<and>
    (\<exists>imageRef. GetKubeBenchImageRef config = Inr imageRef \<and>
       GetVersionFromImageRef ParseReference imageRef = Inr (sc_Version (kb_Scanner d)))"
  using assms
  by (auto simp: ParseCISKubeBenchReportData_def KubeBench_summary_def foldl_summary_totals split: sum.splits)

end
