(* ===== verification/Compliance.thy ===== *)
theory Compliance
  imports Report_Ttl
begin

text \<open>
  Cluster compliance reports (\<^verbatim>\<open>pkg/compliance\<close>): a specification maps controls to checks of the two
  scanners; the manager collects the checks' results from the benchmark and configuration audit reports, counts them per
  control and stores a summary and a detail report; the reconciler does so whenever the specification's
  schedule is due. The library's hash sets are lists without repetition whose \<^verbatim>\<open>Values()\<close> come in the
  order the runtime chose, like the entries of a map. The cron parser is a parameter.
\<close>

section \<open>Kinds\<close>

definition set_add :: "string list \<Rightarrow> string \<Rightarrow> string list" where
  "set_add xs x = (if x \<in> set xs then xs else xs @ [x])"

definition workload_resources :: "string list" where
  "workload_resources = [''Pod'', ''ReplicationController'', ''ReplicaSet'', ''StatefulSet'', ''DaemonSet'', ''CronJob'', ''Job'']"

definition expand_kind :: "string \<Rightarrow> string list" where
  "expand_kind resource = (if resource = ''Workload'' then workload_resources else [resource])"

definition mapKinds :: "order \<Rightarrow> Control \<Rightarrow> string list" where
  "mapKinds ord control =
     ord (foldl (\<lambda>set resource. foldl set_add set (expand_kind resource)) [] (ct_Kinds control))"

section \<open>Mapping reports to check results\<close>

definition KubeBench :: string where "KubeBench = ''kube-bench''"
definition ConfigAudit :: string where "ConfigAudit = ''config-audit''"

fun bench_sections :: "Body \<Rightarrow> CISKubeBenchSection list" where
  "bench_sections (CISKubeBenchReport d) = kb_Sections d"
| "bench_sections _ = []"

fun audit_checks :: "Body \<Rightarrow> Check list" where
  "audit_checks (ConfigAuditReport d) = car_Checks d"
| "audit_checks _ = []"

text \<open>The body of the innermost loop: a result of a check is added to the check's entry.\<close>

definition add_detail ::
    "string \<Rightarrow> ScannerCheckResult gomap \<Rightarrow> string \<times> string \<times> ResultDetails \<Rightarrow> ScannerCheckResult gomap" where
  "add_detail objType m x =
     (let (checkId, remediation, details) = x;
          entry = (case map_of m checkId of
                     None \<Rightarrow> \<lparr>scr_ObjectType = objType, scr_ID = checkId, scr_Remediation = remediation, scr_Details = []\<rparr>
                   | Some r \<Rightarrow> r)
      in AList.update checkId (entry\<lparr>scr_Details := scr_Details entry @ [details]\<rparr>) m)"

text \<open>What one report contributes, in the order of the nested loops.\<close>

definition bench_results :: "Object \<Rightarrow> (string \<times> string \<times> ResultDetails) list" where
  "bench_results item = concat (map (\<lambda>section. concat (map (\<lambda>check. map (\<lambda>result.
       (kbr_TestNumber result, kbr_Remediation result,
        \<lparr>rd_Name = om_Name (o_Meta item), rd_Namespace = om_Namespace (o_Meta item), rd_Msg = [],
         rd_Status = kbr_Status result\<rparr>))
     (kbt_Results check)) (kbs_Tests section))) (bench_sections (o_Body item)))"

definition audit_results :: "Object \<Rightarrow> (string \<times> string \<times> ResultDetails) list" where
  "audit_results item = map (\<lambda>check.
       (ck_ID check, ck_Remediation check,
        \<lparr>rd_Name = om_Name (o_Meta item), rd_Namespace = om_Namespace (o_Meta item),
         rd_Msg = (case ck_Messages check of [] \<Rightarrow> [] | m # _ \<Rightarrow> m),
         rd_Status = (if ck_Success check then PassStatus else FailStatus)\<rparr>))
     (audit_checks (o_Body item))"

definition kubeBench_mapReportData :: "string \<Rightarrow> Object list \<Rightarrow> ScannerCheckResult gomap" where
  "kubeBench_mapReportData objType items = foldl (add_detail objType) [] (concat (map bench_results items))"

definition configAudit_mapReportData :: "string \<Rightarrow> Object list \<Rightarrow> ScannerCheckResult gomap" where
  "configAudit_mapReportData objType items = foldl (add_detail objType) [] (concat (map audit_results items))"

definition byScanner :: "string \<Rightarrow> error + (string \<Rightarrow> Object list \<Rightarrow> ScannerCheckResult gomap)" where
  "byScanner scanner =
     (if scanner = KubeBench then Inr kubeBench_mapReportData
      else if scanner = ConfigAudit then Inr configAudit_mapReportData
      else Inl (Errorf (''mapper scanner: '' @ scanner @ '' is not supported'')))"

text \<open>The list type that the client is given; \<open>None\<close> is a nil list.\<close>

definition getObjListByName :: "string \<Rightarrow> GoType option" where
  "getObjListByName scannerName =
     (if scannerName = KubeBench then Some TCISKubeBenchReport
      else if scannerName = ConfigAudit then Some TConfigAuditReport
      else None)"

definition kind_options :: "string \<Rightarrow> ListOptions" where
  "kind_options kind = \<lparr>lo_Namespace = None, lo_Reqs = [ReqEq LabelResourceKind kind], lo_Limit = None\<rparr>"

text \<open>One kind of one scanner; a failed list is skipped.\<close>

definition add_resource ::
    "'s client \<Rightarrow> 's \<Rightarrow> string \<Rightarrow> Object list gomap gomap \<Rightarrow> string \<Rightarrow> Object list gomap gomap" where
  "add_resource c s scanner m objName =
     (case cl_List c s (getObjListByName scanner) (kind_options objName) of
        Inl _ \<Rightarrow> m
      | Inr objList \<Rightarrow>
          AList.update scanner
            (AList.update objName objList (case map_of m scanner of None \<Rightarrow> [] | Some r \<Rightarrow> r)) m)"

definition mapComplianceScannerToResource ::
    "order \<Rightarrow> 's client \<Rightarrow> 's \<Rightarrow> string list gomap \<Rightarrow> Object list gomap gomap" where
  "mapComplianceScannerToResource ord c s resourceListNames =
     foldl (\<lambda>m (scanner, objNames). foldl (add_resource c s scanner) m (ord objNames)) []
       (range_map ord resourceListNames)"

section \<open>The specification as maps\<close>

record specDataMapping =
  sd_scannerResourceListNames :: "string list gomap"
  sd_controlIDControlObject :: "Control gomap"
  sd_controlCheckIds :: "string list gomap"
  sd_controlIdResources :: "string list gomap"

definition get_list :: "'v list gomap \<Rightarrow> string \<Rightarrow> 'v list" where
  "get_list m k = (case map_of m k of None \<Rightarrow> [] | Some xs \<Rightarrow> xs)"

definition populate_step :: "order \<Rightarrow> specDataMapping \<Rightarrow> Control \<Rightarrow> specDataMapping" where
  "populate_step ord smd control0 =
     (let control = control0\<lparr>ct_Kinds := mapKinds ord control0\<rparr>;
          scanner = mp_Scanner (ct_Mapping control);
          checks = map spc_ID (mp_Checks (ct_Mapping control))
      in smd\<lparr>sd_scannerResourceListNames := AList.update scanner
               (foldl set_add (get_list (sd_scannerResourceListNames smd) scanner) (ct_Kinds control))
               (sd_scannerResourceListNames smd),
             sd_controlIdResources := AList.update (ct_ID control)
               (get_list (sd_controlIdResources smd) (ct_ID control) @ ct_Kinds control) (sd_controlIdResources smd),
             sd_controlIDControlObject := AList.update (ct_ID control) control (sd_controlIDControlObject smd),
             sd_controlCheckIds := (if checks = [] then sd_controlCheckIds smd
               else AList.update (ct_ID control)
                 (get_list (sd_controlCheckIds smd) (ct_ID control) @ checks) (sd_controlCheckIds smd))\<rparr>)"

definition populateSpecDataToMaps :: "order \<Rightarrow> ReportSpec \<Rightarrow> specDataMapping" where
  "populateSpecDataToMaps ord spec = foldl (populate_step ord)
     \<lparr>sd_scannerResourceListNames = [], sd_controlIDControlObject = [], sd_controlCheckIds = [],
      sd_controlIdResources = []\<rparr> (rs_Controls spec)"

section \<open>Results of the checks and of the controls\<close>

definition add_result ::
    "ScannerCheckResult list gomap \<Rightarrow> string \<times> ScannerCheckResult \<Rightarrow> ScannerCheckResult list gomap" where
  "add_result m x = (let (checkId, r) = x in AList.update checkId (get_list m checkId @ [r]) m)"

fun resource_loop ::
    "order \<Rightarrow> string \<Rightarrow> (string \<times> Object list) list \<Rightarrow> ScannerCheckResult list gomap \<Rightarrow>
      error + ScannerCheckResult list gomap" where
  "resource_loop ord scanner [] m = Inr m"
| "resource_loop ord scanner ((resourceName, resourceList) # rs) m =
     (case byScanner scanner of
        Inl e \<Rightarrow> Inl e
      | Inr mapReportData \<Rightarrow>
          resource_loop ord scanner rs (foldl add_result m (range_map ord (mapReportData resourceName resourceList))))"

fun scanner_loop ::
    "order \<Rightarrow> (string \<times> Object list gomap) list \<Rightarrow> ScannerCheckResult list gomap \<Rightarrow>
      error + ScannerCheckResult list gomap" where
  "scanner_loop ord [] m = Inr m"
| "scanner_loop ord ((scanner, resources) # ss) m =
     (case resource_loop ord scanner (range_map ord resources) m of
        Inl e \<Rightarrow> Inl e
      | Inr m' \<Rightarrow> scanner_loop ord ss m')"

definition checkIdsToResults ::
    "order \<Rightarrow> Object list gomap gomap \<Rightarrow> error + ScannerCheckResult list gomap" where
  "checkIdsToResults ord scannerResourceMap = scanner_loop ord (range_map ord scannerResourceMap) []"

text \<open>The counters of a control: results that pass (or warn) and results that fail.\<close>

definition count_detail :: "int \<times> int \<Rightarrow> ResultDetails \<Rightarrow> int \<times> int" where
  "count_detail t crd =
     (let (passTotal, failTotal) = t in
      if rd_Status crd = PassStatus \<or> rd_Status crd = WarnStatus then (passTotal + 1, failTotal)
      else if rd_Status crd = FailStatus then (passTotal, failTotal + 1)
      else (passTotal, failTotal))"

definition count_checks :: "ScannerCheckResult list gomap \<Rightarrow> string list \<Rightarrow> int \<times> int" where
  "count_checks results checkIds =
     foldl (\<lambda>t checkId. foldl (\<lambda>t checkResult. foldl count_detail t (scr_Details checkResult)) t (get_list results checkId))
       (0, 0) checkIds"

definition control_check :: "Control \<Rightarrow> string \<Rightarrow> int \<times> int \<Rightarrow> ControlCheck" where
  "control_check control controlID t =
     (let (passTotal, failTotal) = t;
          none = (passTotal = 0 \<and> failTotal = 0);
          failTotal' = (if none \<and> ct_DefaultStatus control = FailStatus then 1 else failTotal);
          passTotal' = (if none \<and> ct_DefaultStatus control = PassStatus then 1 else passTotal)
      in \<lparr>cc_ID = controlID, cc_Name = ct_Name control, cc_Description = ct_Description control,
          cc_PassTotal = passTotal', cc_FailTotal = failTotal', cc_Severity = ct_Severity control\<rparr>)"

definition controlChecksByScannerChecks ::
    "order \<Rightarrow> specDataMapping \<Rightarrow> ScannerCheckResult list gomap \<Rightarrow> ControlCheck list" where
  "controlChecksByScannerChecks ord smd results =
     (if results = [] then []
      else List.map_filter (\<lambda>(controlID, checkIds).
             map_option (\<lambda>control. control_check control controlID (count_checks results checkIds))
               (map_of (sd_controlIDControlObject smd) controlID))
           (range_map ord (sd_controlCheckIds smd)))"

record summaryTotal =
  tot_pass :: int
  tot_fail :: int

definition getTotals :: "ControlCheck list \<Rightarrow> summaryTotal" where
  "getTotals controlChecks = foldl (\<lambda>t cc. \<lparr>tot_pass = tot_pass t + cc_PassTotal cc, tot_fail = tot_fail t + cc_FailTotal cc\<rparr>)
     \<lparr>tot_pass = 0, tot_fail = 0\<rparr> controlChecks"

section \<open>The detail report\<close>

definition ResourceDoNotExistInCluster :: string where
  "ResourceDoNotExistInCluster = ''Resource do not exist in cluster''"

definition add_failed :: "int \<Rightarrow> ResultDetails list \<Rightarrow> ResultDetails \<Rightarrow> ResultDetails list" where
  "add_failed limit entries crd =
     (if limit \<le> int (length entries) then entries
      else if rd_Status crd = PassStatus \<or> rd_Status crd = WarnStatus then entries
      else entries @ [crd])"

definition createScanCheckResult :: "ConfigData \<Rightarrow> ScannerCheckResult list \<Rightarrow> ScannerCheckResult list" where
  "createScanCheckResult config results = List.map_filter (\<lambda>checkResult.
     let failed = foldl (add_failed (ComplianceFailEntriesLimit config)) [] (scr_Details checkResult)
     in if failed = [] then None else Some (checkResult\<lparr>scr_Details := failed\<rparr>)) results"

definition createDefaultScanResult :: "specDataMapping \<Rightarrow> Control \<Rightarrow> string \<Rightarrow> ScannerCheckResult list" where
  "createDefaultScanResult smd control controlID =
     (if ct_DefaultStatus control = FailStatus
      then map (\<lambda>resource. \<lparr>scr_ObjectType = resource, scr_ID = [], scr_Remediation = [],
             scr_Details = [\<lparr>rd_Name = [], rd_Namespace = [], rd_Msg = ResourceDoNotExistInCluster, rd_Status = FailStatus\<rparr>]\<rparr>)
           (get_list (sd_controlIdResources smd) controlID)
      else [])"

definition check_details ::
    "ConfigData \<Rightarrow> specDataMapping \<Rightarrow> ScannerCheckResult list gomap \<Rightarrow> Control \<Rightarrow> string \<Rightarrow> string \<Rightarrow> ControlCheckDetails option" where
  "check_details config smd results control controlID checkId =
     (let ctta = (case map_of results checkId of
                    Some rs \<Rightarrow> createScanCheckResult config rs
                  | None \<Rightarrow> createDefaultScanResult smd control controlID)
      in if ctta = [] then None
         else Some \<lparr>ccd_ID = controlID, ccd_Name = ct_Name control, ccd_Description = ct_Description control,
                ccd_Severity = ct_Severity control, ccd_ScannerCheckResult = ctta\<rparr>)"

definition controlChecksDetailsByScannerChecks ::
    "order \<Rightarrow> ConfigData \<Rightarrow> specDataMapping \<Rightarrow> ScannerCheckResult list gomap \<Rightarrow> ControlCheckDetails list" where
  "controlChecksDetailsByScannerChecks ord config smd results =
     (if results = [] then []
      else concat (map (\<lambda>(controlID, checkIds).
             case map_of (sd_controlIDControlObject smd) controlID of
               None \<Rightarrow> []
             | Some control \<Rightarrow> List.map_filter (check_details config smd results control controlID) checkIds)
           (range_map ord (sd_controlCheckIds smd))))"

section \<open>Storing the reports\<close>

definition details_name :: "ReportSpec \<Rightarrow> string" where
  "details_name spec = ToLower (rs_Name spec @ ''-details'')"

definition cluster_object :: "string \<Rightarrow> Body \<Rightarrow> Object" where
  "cluster_object name body = \<lparr>o_Kind = [], o_Meta = empty_meta\<lparr>om_Name := name\<rparr>, o_Body = body\<rparr>"

definition totals_summary :: "summaryTotal \<Rightarrow> ClusterComplianceSummary" where
  "totals_summary st = \<lparr>ccs_PassCount = tot_pass st, ccs_FailCount = tot_fail st\<rparr>"

text \<open>An error of the lookup other than "not found" is dropped.\<close>

definition createComplianceDetailReport ::
    "order \<Rightarrow> 's client \<Rightarrow> ConfigData \<Rightarrow> Time \<Rightarrow> ReportSpec \<Rightarrow> specDataMapping \<Rightarrow> ScannerCheckResult list gomap \<Rightarrow>
      summaryTotal \<Rightarrow> 's \<Rightarrow> error option \<times> 's" where
  "createComplianceDetailReport ord c config now spec smd results st s =
     (let name = details_name spec;
          report = cluster_object name (ClusterComplianceDetailReport
            \<lparr>cdr_UpdateTimestamp = now,
             cdr_Type = \<lparr>cm_Name = name, cm_Description = ToLower (rs_Description spec), cm_Version = rs_Version spec\<rparr>,
             cdr_Summary = totals_summary st,
             cdr_ControlChecks = controlChecksDetailsByScannerChecks ord config smd results\<rparr>)
      in case cl_Get c s TClusterComplianceDetailReport \<lparr>key_Namespace = [], key_Name = name\<rparr> of
           Inr existing \<Rightarrow>
             cl_Update c s (existing\<lparr>o_Meta := (o_Meta existing)\<lparr>om_Labels := Map.empty\<rparr>, o_Body := o_Body report\<rparr>)
         | Inl err \<Rightarrow> if IsNotFound err then only_err (cl_Create c s report) else (None, s))"

definition createComplianceReport ::
    "'s client \<Rightarrow> Time \<Rightarrow> ReportSpec \<Rightarrow> summaryTotal \<Rightarrow> ControlCheck list \<Rightarrow> 's \<Rightarrow> error + Object" where
  "createComplianceReport c now spec st controlChecks s =
     (let status = \<lparr>st_UpdateTimestamp = now, st_Summary = totals_summary st,
            st_ControlChecks = (if 0 < tot_fail st \<or> 0 < tot_pass st then controlChecks else [])\<rparr>
      in case cl_Get c s TClusterComplianceReport \<lparr>key_Namespace = [], key_Name = ToLower (rs_Name spec)\<rparr> of
           Inl _ \<Rightarrow> Inl (Errorf (''compliance crd with name '' @ rs_Name spec @ '' is missing''))
         | Inr existing \<Rightarrow>
             Inr (existing\<lparr>o_Meta := (o_Meta existing)\<lparr>om_Labels := Map.empty\<rparr>,
                           o_Body := ClusterComplianceReport spec status\<rparr>))"

definition GenerateComplianceReport ::
    "order \<Rightarrow> 's client \<Rightarrow> ConfigData \<Rightarrow> Time \<Rightarrow> ReportSpec \<Rightarrow> 's \<Rightarrow> error option \<times> 's" where
  "GenerateComplianceReport ord c config now spec s =
     (let smd = populateSpecDataToMaps ord spec;
          scannerResourceMap = mapComplianceScannerToResource ord c s (sd_scannerResourceListNames smd)
      in case checkIdsToResults ord scannerResourceMap of
           Inl e \<Rightarrow> (Some e, s)
         | Inr results \<Rightarrow>
             (let controlChecks = controlChecksByScannerChecks ord smd results;
                  st = getTotals controlChecks
              in and_then
                   (wrap_err (''failed to create compliance detail report name: '' @ details_name spec @ '' with error'')
                     (createComplianceDetailReport ord c config now spec smd results st s))
                   (\<lambda>s1. case createComplianceReport c now spec st controlChecks s1 of
                           Inl e \<Rightarrow> (Some e, s1)
                         | Inr updatedReport \<Rightarrow> cl_StatusUpdate c s1 updatedReport)))"

section \<open>The reconciler\<close>

fun report_spec :: "Body \<Rightarrow> ReportSpec" where
  "report_spec (ClusterComplianceReport spec _) = spec"
| "report_spec _ = \<lparr>rs_Name = [], rs_Description = [], rs_Cron = [], rs_Version = [], rs_Controls = []\<rparr>"

fun report_status_time :: "Body \<Rightarrow> Time" where
  "report_status_time (ClusterComplianceReport _ status) = st_UpdateTimestamp status"
| "report_status_time _ = 0"

definition reportLastUpdatedTime :: "Object \<Rightarrow> Time" where
  "reportLastUpdatedTime report =
     (let updateTimeStamp = report_status_time (o_Body report)
      in if updateTimeStamp < om_CreationTimestamp (o_Meta report) then om_CreationTimestamp (o_Meta report)
         else updateTimeStamp)"

record 's ComplianceReconciler =
  ccr_Client :: "'s client"
  ccr_ConfigData :: ConfigData
  ccr_order :: order
  ccr_cron :: "string \<Rightarrow> error + (Time \<Rightarrow> Time)"

text \<open>One attempt: the error and the delay that it asks for.\<close>

definition compliance_attempt ::
    "'s ComplianceReconciler \<Rightarrow> Time \<Rightarrow> ObjectKey \<Rightarrow> 's \<Rightarrow> (error option \<times> Duration) \<times> 's" where
  "compliance_attempt r now req s =
     (case cl_Get (ccr_Client r) s TClusterComplianceReport req of
        Inl err \<Rightarrow>
          if IsNotFound err then ((None, 0), s) else ((Some (Wrap ''getting report from cache'' err), 0), s)
      | Inr report \<Rightarrow>
          (case NextCronDuration (ccr_cron r) (rs_Cron (report_spec (o_Body report))) (reportLastUpdatedTime report) now of
             Inl e \<Rightarrow> ((Some (Wrap ''failed to check report cron expression'' e), 0), s)
           | Inr durationToNextGeneration \<Rightarrow>
               if DurationExceeded durationToNextGeneration then
                 (case GenerateComplianceReport (ccr_order r) (ccr_Client r) (ccr_ConfigData r) now
                         (report_spec (o_Body report)) s of
                    (err, s1) \<Rightarrow> ((err, 0), s1))
               else ((None, durationToNextGeneration), s)))"

text \<open>\<open>retry.RetryOnConflict(retry.DefaultRetry, fn)\<close>: five attempts at most, again after a conflict.\<close>

definition IsConflict :: "error \<Rightarrow> bool" where
  "IsConflict e = errors_Is e ApiConflict"

fun RetryOnConflict :: "nat \<Rightarrow> ('s \<Rightarrow> (error option \<times> Duration) \<times> 's) \<Rightarrow> 's \<Rightarrow> (error option \<times> Duration) \<times> 's" where
  "RetryOnConflict n fn s =
     (case fn s of
        ((Some e, d), s1) \<Rightarrow>
          if IsConflict e \<and> 1 < n then RetryOnConflict (n - 1) fn s1 else ((Some e, d), s1)
      | ((None, d), s1) \<Rightarrow> ((None, d), s1))"

declare RetryOnConflict.simps [simp del]

definition generateComplianceReport ::
    "'s ComplianceReconciler \<Rightarrow> Time \<Rightarrow> ObjectKey \<Rightarrow> 's \<Rightarrow> (error + Result) \<times> 's" where
  "generateComplianceReport r now namespaceName s =
     (case RetryOnConflict 5 (compliance_attempt r now namespaceName) s of
        ((Some e, _), s1) \<Rightarrow> (Inl e, s1)
      | ((None, d), s1) \<Rightarrow> (Inr \<lparr>RequeueAfter = d\<rparr>, s1))"

section \<open>What the counts mean\<close>

text \<open>The reference: the results of a check in the reports of one kind, as a plain count.\<close>

definition scanner_results :: "string \<Rightarrow> Object \<Rightarrow> (string \<times> string \<times> ResultDetails) list" where
  "scanner_results scanner = (if scanner = KubeBench then bench_results else audit_results)"

definition listed :: "'s client \<Rightarrow> 's \<Rightarrow> string \<times> string \<Rightarrow> Object list" where
  "listed c s p = (case cl_List c s (getObjListByName (fst p)) (kind_options (snd p)) of Inl _ \<Rightarrow> [] | Inr xs \<Rightarrow> xs)"

definition count_results ::
    "(ControlStatus \<Rightarrow> bool) \<Rightarrow> string \<Rightarrow> (string \<times> string \<times> ResultDetails) list \<Rightarrow> int" where
  "count_results P checkId xs = int (length (filter (\<lambda>(i, _, d). i = checkId \<and> P (rd_Status d)) xs))"

definition pair_count :: "'s client \<Rightarrow> 's \<Rightarrow> (ControlStatus \<Rightarrow> bool) \<Rightarrow> string \<Rightarrow> string \<times> string \<Rightarrow> int" where
  "pair_count c s P checkId p = count_results P checkId (concat (map (scanner_results (fst p)) (listed c s p)))"

definition passes :: "ControlStatus \<Rightarrow> bool" where
  "passes st \<longleftrightarrow> st = PassStatus \<or> st = WarnStatus"

definition fails :: "ControlStatus \<Rightarrow> bool" where
  "fails st \<longleftrightarrow> st = FailStatus"

definition spec_pairs :: "ReportSpec \<Rightarrow> (string \<times> string) set" where
  "spec_pairs spec = (\<Union>control \<in> set (rs_Controls spec). Pair (mp_Scanner (ct_Mapping control)) `
     (\<Union>k \<in> set (ct_Kinds control). set (expand_kind k)))"

definition spec_count ::
    "'s client \<Rightarrow> 's \<Rightarrow> ReportSpec \<Rightarrow> (ControlStatus \<Rightarrow> bool) \<Rightarrow> string list \<Rightarrow> int" where
  "spec_count c s spec P checkIds = sum_list (map (\<lambda>i. \<Sum>p \<in> spec_pairs spec. pair_count c s P i p) checkIds)"

definition supported :: "string \<Rightarrow> bool" where
  "supported scanner \<longleftrightarrow> scanner = KubeBench \<or> scanner = ConfigAudit"

subsection \<open>The mappers\<close>

text \<open>What a mapper promises: one entry per check that occurs, with the check's results in order.\<close>

definition of_check :: "string \<Rightarrow> (string \<times> string \<times> ResultDetails) list \<Rightarrow> ResultDetails list" where
  "of_check checkId xs = map (\<lambda>(_, _, d). d) (filter (\<lambda>(i, _, _). i = checkId) xs)"

definition entry_details :: "ScannerCheckResult gomap \<Rightarrow> string \<Rightarrow> ResultDetails list" where
  "entry_details m checkId = (case map_of m checkId of None \<Rightarrow> [] | Some r \<Rightarrow> scr_Details r)"

locale report_mapper =
  fixes contributes :: "Object \<Rightarrow> (string \<times> string \<times> ResultDetails) list"
    and mapReportData :: "string \<Rightarrow> Object list \<Rightarrow> ScannerCheckResult gomap"
  assumes distinct_ids: "distinct (map fst (mapReportData objType items))"
    and entry: "entry_details (mapReportData objType items) checkId = of_check checkId (concat (map contributes items))"
    and entry_type: "(checkId, r) \<in> set (mapReportData objType items) \<Longrightarrow>
      scr_ObjectType r = objType \<and> scr_ID r = checkId \<and> scr_Details r \<noteq> []"
begin

text \<open>A check has an entry exactly when some report has a result of it.\<close>

lemma has_entry:
  "checkId \<in> fst ` set (mapReportData objType items) \<longleftrightarrow> of_check checkId (concat (map contributes items)) \<noteq> []"
proof
  assume "checkId \<in> fst ` set (mapReportData objType items)"
  then obtain r where "(checkId, r) \<in> set (mapReportData objType items)" by auto
  then have "entry_details (mapReportData objType items) checkId = scr_Details r" "scr_Details r \<noteq> []"
    using distinct_ids [of objType items] entry_type by (auto simp: entry_details_def)
  then show "of_check checkId (concat (map contributes items)) \<noteq> []" using entry by simp
next
  assume "of_check checkId (concat (map contributes items)) \<noteq> []"
  then have "entry_details (mapReportData objType items) checkId \<noteq> []" using entry by simp
  then show "checkId \<in> fst ` set (mapReportData objType items)"
    by (auto simp: entry_details_def split: option.splits dest!: map_of_SomeD intro: rev_image_eqI)
qed

lemma count_entry:
  "int (length (filter (\<lambda>d. P (rd_Status d)) (entry_details (mapReportData objType items) checkId))) =
     count_results P checkId (concat (map contributes items))"
proof -
  have "length (filter (\<lambda>d. P (rd_Status d)) (of_check checkId xs)) =
      length (filter (\<lambda>(i, _, d). i = checkId \<and> P (rd_Status d)) xs)" for xs
    by (induction xs) (auto simp: of_check_def)
  then show ?thesis by (simp add: entry count_results_def)
qed

end

lemma add_detail_entry:
  "entry_details (add_detail t m (i, rem, d)) checkId = entry_details m checkId @ (if i = checkId then [d] else [])"
  by (auto simp: add_detail_def entry_details_def map_of_update Let_def split: option.splits)

definition mapped :: "string \<Rightarrow> ScannerCheckResult gomap \<Rightarrow> bool" where
  "mapped t m \<longleftrightarrow> distinct (map fst m) \<and>
     (\<forall>k r. map_of m k = Some r \<longrightarrow> scr_ObjectType r = t \<and> scr_ID r = k \<and> scr_Details r \<noteq> [])"

lemma add_detail_mapped: "mapped t m \<Longrightarrow> mapped t (add_detail t m x)"
  by (cases x) (auto simp: mapped_def add_detail_def distinct_update map_of_update Let_def
      split: option.splits if_splits)

lemma add_details_mapped: "mapped t m \<Longrightarrow> mapped t (foldl (add_detail t) m xs)"
  by (induction xs arbitrary: m) (simp_all add: add_detail_mapped)

lemma add_details_entry:
  "entry_details (foldl (add_detail t) m xs) checkId = entry_details m checkId @ of_check checkId xs"
proof (induction xs arbitrary: m)
  case (Cons x xs)
  then show ?case using add_detail_entry [of t m] by (cases x) (simp add: of_check_def)
qed (simp add: of_check_def)

lemma mapper_laws:
  defines "f \<equiv> \<lambda>g objType items. foldl (add_detail objType) [] (concat (map g items))"
  shows "report_mapper g (f g)"
proof
  fix objType items checkId r
  have m: "mapped objType (f g objType items)" unfolding f_def by (intro add_details_mapped) (simp add: mapped_def)
  then show dist: "distinct (map fst (f g objType items))" by (simp add: mapped_def)
  show "entry_details (f g objType items) checkId = of_check checkId (concat (map g items))"
    by (simp add: f_def add_details_entry) (simp add: entry_details_def)
  show "scr_ObjectType r = objType \<and> scr_ID r = checkId \<and> scr_Details r \<noteq> []"
    if "(checkId, r) \<in> set (f g objType items)"
    using m map_of_is_SomeI [OF dist that] by (simp add: mapped_def)
qed

interpretation bench_mapper: report_mapper bench_results kubeBench_mapReportData
  using mapper_laws [of bench_results] by (simp add: kubeBench_mapReportData_def [abs_def])

interpretation audit_mapper: report_mapper audit_results configAudit_mapReportData
  using mapper_laws [of audit_results] by (simp add: configAudit_mapReportData_def [abs_def])

lemma byScanner_mapper:
  assumes "byScanner scanner = Inr f"
  shows "report_mapper (scanner_results scanner) f"
proof -
  have "KubeBench \<noteq> ConfigAudit" by (simp add: KubeBench_def ConfigAudit_def)
  then show ?thesis
    using assms bench_mapper.report_mapper_axioms audit_mapper.report_mapper_axioms
    by (auto simp: byScanner_def scanner_results_def split: if_splits)
qed

lemma byScanner_supported: "supported scanner \<Longrightarrow> \<exists>f. byScanner scanner = Inr f"
  by (auto simp: supported_def byScanner_def)

subsection \<open>Collecting the results\<close>

definition detail_count :: "(ControlStatus \<Rightarrow> bool) \<Rightarrow> ScannerCheckResult list gomap \<Rightarrow> string \<Rightarrow> int" where
  "detail_count P results checkId =
     sum_list (map (\<lambda>r. int (length (filter (\<lambda>d. P (rd_Status d)) (scr_Details r)))) (get_list results checkId))"

lemma get_list_update: "get_list (AList.update k v m) j = (if j = k then v else get_list m j)"
  by (simp add: get_list_def map_of_update)

lemma detail_count_add:
  "detail_count P (add_result m (k, r)) i =
     detail_count P m i + (if k = i then int (length (filter (\<lambda>d. P (rd_Status d)) (scr_Details r))) else 0)"
  by (simp add: detail_count_def add_result_def get_list_update)

lemma detail_count_fold:
  "detail_count P (foldl add_result m xs) i = detail_count P m i +
     sum_list (map (\<lambda>(k, r). if k = i then int (length (filter (\<lambda>d. P (rd_Status d)) (scr_Details r))) else 0) xs)"
proof (induction xs arbitrary: m)
  case (Cons x xs)
  then show ?case by (cases x) (simp add: detail_count_add)
qed simp

lemma sum_entries:
  assumes "distinct (map fst m)"
  shows "sum_list (map (\<lambda>(k, r). if k = i then f r else (0 :: int)) m) = (case map_of m i of None \<Rightarrow> 0 | Some r \<Rightarrow> f r)"
  using assms
proof (induction m)
  case (Cons x m)
  obtain k r where x: "x = (k, r)" by fastforce
  have "map_of m k = None" using Cons.prems x by (simp add: map_of_eq_None_iff)
  then show ?case using Cons x by (auto split: option.splits)
qed simp

lemma sum_range_map:
  assumes "perm_order ord" and "distinct (map fst m)"
  shows "sum_list (map f (range_map ord m)) = (sum_list (map f m) :: int)"
  by (rule sum_list_mset_cong) (simp add: range_map_mset [OF assms])

lemma detail_count_mapped:
  assumes "report_mapper g f" and "perm_order ord"
  shows "detail_count P (foldl add_result m (range_map ord (f objType items))) i =
    detail_count P m i + count_results P i (concat (map g items))"
proof -
  let ?w = "\<lambda>r. int (length (filter (\<lambda>d. P (rd_Status d)) (scr_Details r)))"
  let ?m = "f objType items"
  have dist: "distinct (map fst ?m)" by (rule report_mapper.distinct_ids [OF assms(1)])
  have "sum_list (map (\<lambda>(k, r). if k = i then ?w r else 0) (range_map ord ?m)) =
      sum_list (map (\<lambda>(k, r). if k = i then ?w r else 0) ?m)"
    by (rule sum_range_map [OF assms(2) dist])
  also have "\<dots> = int (length (filter (\<lambda>d. P (rd_Status d)) (entry_details ?m i)))"
    by (simp add: sum_entries [OF dist] entry_details_def split: option.splits)
  also have "\<dots> = count_results P i (concat (map g items))" by (rule report_mapper.count_entry [OF assms(1)])
  finally show ?thesis by (simp add: detail_count_fold)
qed

lemma resource_loop_counts:
  assumes "supported scanner" and "perm_order ord"
  shows "\<exists>m'. resource_loop ord scanner rs m = Inr m' \<and> (\<forall>P i. detail_count P m' i = detail_count P m i +
    sum_list (map (\<lambda>(_, objs). count_results P i (concat (map (scanner_results scanner) objs))) rs))"
proof (induction rs arbitrary: m)
  case (Cons x rs)
  obtain nm objs where x: "x = (nm, objs)" by fastforce
  obtain f where f: "byScanner scanner = Inr f" using byScanner_supported [OF assms(1)] by blast
  let ?m = "foldl add_result m (range_map ord (f nm objs))"
  obtain m' where m': "resource_loop ord scanner rs ?m = Inr m'" "\<forall>P i. detail_count P m' i = detail_count P ?m i +
      sum_list (map (\<lambda>(_, objs). count_results P i (concat (map (scanner_results scanner) objs))) rs)"
    using Cons.IH by blast
  then show ?case
    using f detail_count_mapped [OF byScanner_mapper [OF f] assms(2)] x by simp
qed simp

lemma scanner_loop_counts:
  assumes "perm_order ord" and "\<forall>(scanner, rs) \<in> set ss. supported scanner \<and> distinct (map fst rs)"
  shows "\<exists>m'. scanner_loop ord ss m = Inr m' \<and> (\<forall>P i. detail_count P m' i = detail_count P m i +
    sum_list (map (\<lambda>(scanner, rs). sum_list (map (\<lambda>(_, objs).
      count_results P i (concat (map (scanner_results scanner) objs))) rs)) ss))"
  using assms(2)
proof (induction ss arbitrary: m)
  case (Cons x ss)
  obtain scanner rs where x: "x = (scanner, rs)" by fastforce
  then have sup: "supported scanner" and dist: "distinct (map fst rs)" using Cons.prems by auto
  have rest: "\<forall>(scanner, rs) \<in> set ss. supported scanner \<and> distinct (map fst rs)" using Cons.prems by simp
  obtain m1 where m1: "resource_loop ord scanner (range_map ord rs) m = Inr m1"
    "\<And>P i. detail_count P m1 i = detail_count P m i + sum_list (map (\<lambda>(_, objs).
       count_results P i (concat (map (scanner_results scanner) objs))) (range_map ord rs))"
    using resource_loop_counts [OF sup assms(1)] by metis
  have perm: "sum_list (map (\<lambda>(_, objs). count_results P i (concat (map (scanner_results scanner) objs))) (range_map ord rs)) =
      sum_list (map (\<lambda>(_, objs). count_results P i (concat (map (scanner_results scanner) objs))) rs)" for P i
    by (rule sum_range_map [OF assms(1) dist])
  obtain m' where "scanner_loop ord ss m1 = Inr m'" "\<forall>P i. detail_count P m' i = detail_count P m1 i +
      sum_list (map (\<lambda>(scanner, rs). sum_list (map (\<lambda>(_, objs).
        count_results P i (concat (map (scanner_results scanner) objs))) rs)) ss)"
    using Cons.IH [OF rest, of m1] by blast
  then show ?case using m1 perm x by simp
qed simp

text \<open>The weight of a scanner's lists in a count.\<close>

abbreviation list_count :: "(ControlStatus \<Rightarrow> bool) \<Rightarrow> string \<Rightarrow> string \<Rightarrow> Object list gomap \<Rightarrow> int" where
  "list_count P i scanner rs \<equiv> sum_list (map (\<lambda>(_, objs). count_results P i (concat (map (scanner_results scanner) objs))) rs)"

abbreviation resource_count :: "(ControlStatus \<Rightarrow> bool) \<Rightarrow> string \<Rightarrow> Object list gomap gomap \<Rightarrow> int" where
  "resource_count P i m \<equiv> sum_list (map (\<lambda>(scanner, rs). list_count P i scanner rs) m)"

lemma sum_update:
  assumes "distinct (map fst m)"
  shows "sum_list (map g (AList.update k v m)) =
    sum_list (map g m) + g (k, v) - (case map_of m k of None \<Rightarrow> 0 | Some v0 \<Rightarrow> (g (k, v0) :: int))"
  using assms
proof (induction m)
  case (Cons x m)
  obtain j w where x: "x = (j, w)" by fastforce
  have "map_of m j = None" using Cons.prems x by (simp add: map_of_eq_None_iff)
  then show ?case using Cons x by (auto split: option.splits)
qed simp

definition proper :: "'v gomap gomap \<Rightarrow> bool" where
  "proper m \<longleftrightarrow> distinct (map fst m) \<and> (\<forall>(k, rs) \<in> set m. distinct (map fst rs))"

lemma proper_get: "proper m \<Longrightarrow> distinct (map fst (get_list m k))"
  by (auto simp: proper_def get_list_def split: option.splits dest!: map_of_SomeD)

lemma update_set_subset: "set (AList.update k v m) \<subseteq> insert (k, v) (set m)"
  by (induction m) auto

lemma add_resource_step:
  assumes "proper m" and "kind \<notin> fst ` set (get_list m scanner)"
  shows "proper (add_resource c s scanner m kind)"
    "fst ` set (add_resource c s scanner m kind) \<subseteq> insert scanner (fst ` set m)"
    "fst ` set (get_list (add_resource c s scanner m kind) scanner) \<subseteq> insert kind (fst ` set (get_list m scanner))"
    "resource_count P i (add_resource c s scanner m kind) = resource_count P i m + pair_count c s P i (scanner, kind)"
proof -
  let ?rs = "get_list m scanner" let ?m = "add_resource c s scanner m kind"
  have step: "?m = (case cl_List c s (getObjListByName scanner) (kind_options kind) of Inl _ \<Rightarrow> m
      | Inr objs \<Rightarrow> AList.update scanner (AList.update kind objs ?rs) m)"
    by (simp add: add_resource_def get_list_def split: sum.splits)
  have dist: "distinct (map fst ?rs)" by (rule proper_get [OF assms(1)])
  have upd: "distinct (map fst (AList.update kind objs ?rs))" for objs using dist by (rule distinct_update)
  show "proper ?m"
    using assms(1) upd update_set_subset [of scanner _ m]
    by (fastforce simp: proper_def step distinct_update split: sum.splits)
  show "fst ` set ?m \<subseteq> insert scanner (fst ` set m)"
    by (auto simp: step update_keys_set split: sum.splits)
  show "fst ` set (get_list ?m scanner) \<subseteq> insert kind (fst ` set ?rs)"
    by (auto simp: step get_list_update update_keys_set split: sum.splits)
  have fresh: "map_of ?rs kind = None" using assms(2) by (simp add: map_of_eq_None_iff)
  have "list_count P i scanner (AList.update kind objs ?rs) =
      list_count P i scanner ?rs + count_results P i (concat (map (scanner_results scanner) objs))" for objs
    using sum_update [OF dist] fresh by (simp add: sum_update [OF dist])
  moreover have "list_count P i scanner ?rs = (case map_of m scanner of None \<Rightarrow> 0 | Some v0 \<Rightarrow> list_count P i scanner v0)"
    by (simp add: get_list_def split: option.splits)
  moreover have "distinct (map fst m)" using assms(1) by (simp add: proper_def)
  moreover have "count_results P i [] = 0" by (simp add: count_results_def)
  ultimately show "resource_count P i ?m = resource_count P i m + pair_count c s P i (scanner, kind)"
    by (simp add: step pair_count_def listed_def sum_update split: sum.splits option.splits)
qed

lemma add_resources:
  assumes "proper m" and "distinct kinds" and "set kinds \<inter> fst ` set (get_list m scanner) = {}"
  shows "proper (foldl (add_resource c s scanner) m kinds) \<and>
    fst ` set (foldl (add_resource c s scanner) m kinds) \<subseteq> insert scanner (fst ` set m) \<and>
    (\<forall>P i. resource_count P i (foldl (add_resource c s scanner) m kinds) =
       resource_count P i m + sum_list (map (\<lambda>k. pair_count c s P i (scanner, k)) kinds))"
  using assms
proof (induction kinds arbitrary: m)
  case (Cons k kinds)
  let ?m = "add_resource c s scanner m k"
  note step = add_resource_step [where kind = k and scanner = scanner and c = c and s = s, OF Cons.prems(1)]
  have fresh: "k \<notin> fst ` set (get_list m scanner)" using Cons.prems(3) by auto
  have "set kinds \<inter> fst ` set (get_list ?m scanner) = {}" using step(3) [OF fresh] Cons.prems(2,3) by auto
  then have IH: "proper (foldl (add_resource c s scanner) ?m kinds) \<and>
      fst ` set (foldl (add_resource c s scanner) ?m kinds) \<subseteq> insert scanner (fst ` set ?m) \<and>
      (\<forall>P i. resource_count P i (foldl (add_resource c s scanner) ?m kinds) =
         resource_count P i ?m + sum_list (map (\<lambda>k. pair_count c s P i (scanner, k)) kinds))"
    using Cons.IH [OF step(1) [OF fresh]] Cons.prems(2) by simp
  moreover from this have "fst ` set (foldl (add_resource c s scanner) ?m kinds) \<subseteq> insert scanner (fst ` set m)"
    using step(2) [OF fresh] by blast
  ultimately show ?case using step(4) [OF fresh] by simp
qed auto

definition name_pairs :: "string list gomap \<Rightarrow> (string \<times> string) list" where
  "name_pairs names = concat (map (\<lambda>(scanner, kinds). map (Pair scanner) kinds) names)"

lemma add_scanners:
  assumes "perm_order ord" and "proper m" and "distinct (map fst names)" and "\<forall>(_, kinds) \<in> set names. distinct kinds"
    and "fst ` set names \<inter> fst ` set m = {}"
  shows "\<exists>m'. foldl (\<lambda>m (scanner, kinds). foldl (add_resource c s scanner) m (ord kinds)) m names = m' \<and> proper m' \<and>
    fst ` set m' \<subseteq> fst ` set m \<union> fst ` set names \<and>
    (\<forall>P i. resource_count P i m' = resource_count P i m + sum_list (map (pair_count c s P i) (name_pairs names)))"
  using assms(2-5)
proof (induction names arbitrary: m)
  case Nil
  then show ?case by (simp add: name_pairs_def)
next
  case (Cons x names)
  obtain scanner kinds where x: "x = (scanner, kinds)" by fastforce
  have none: "get_list m scanner = []"
    using Cons.prems(4) x by (auto simp: get_list_def split: option.splits dest!: map_of_SomeD intro: rev_image_eqI)
  let ?m = "foldl (add_resource c s scanner) m (ord kinds)"
  have dk: "distinct (ord kinds)" using Cons.prems(3) x assms(1) by simp
  note one = add_resources [OF Cons.prems(1) dk, of scanner c s]
  have m: "proper ?m" "fst ` set ?m \<subseteq> insert scanner (fst ` set m)"
    "\<And>P i. resource_count P i ?m = resource_count P i m + sum_list (map (\<lambda>k. pair_count c s P i (scanner, k)) (ord kinds))"
    using one none by auto
  have "scanner \<notin> fst ` set names" "fst ` set names \<inter> fst ` set m = {}" using Cons.prems(2,4) x by simp_all
  then have disj: "fst ` set names \<inter> fst ` set ?m = {}" using m(2) by blast
  obtain m' where m': "foldl (\<lambda>m (scanner, kinds). foldl (add_resource c s scanner) m (ord kinds)) ?m names = m'" "proper m'"
      "fst ` set m' \<subseteq> fst ` set ?m \<union> fst ` set names"
      "\<forall>P i. resource_count P i m' = resource_count P i ?m + sum_list (map (pair_count c s P i) (name_pairs names))"
    using Cons.IH [OF m(1) _ _ disj] Cons.prems(2,3) by auto
  have perm: "sum_list (map (\<lambda>k. pair_count c s P i (scanner, k)) (ord kinds)) =
      sum_list (map (\<lambda>k. pair_count c s P i (scanner, k)) kinds)" for P i
    using assms(1) by (intro sum_list_mset_cong) (simp add: perm_order_def)
  have "resource_count P i m' = resource_count P i m + sum_list (map (pair_count c s P i) (name_pairs (x # names)))" for P i
    using m'(4) m(3) [of P i] perm [of P i] by (simp add: x name_pairs_def comp_def)
  moreover have "fst ` set m' \<subseteq> fst ` set m \<union> insert scanner (fst ` set names)" using m'(3) m(2) by blast
  ultimately show ?case using m'(1,2) x by auto
qed

subsection \<open>The specification's maps\<close>

lemma set_add_props: "distinct xs \<Longrightarrow> distinct (set_add xs x)" "set (set_add xs x) = insert x (set xs)"
  by (auto simp: set_add_def)

lemma fold_set_add: "distinct xs \<Longrightarrow> distinct (foldl set_add xs ys)" "set (foldl set_add xs ys) = set xs \<union> set ys"
  by (induction ys arbitrary: xs) (auto simp: set_add_props)

lemma mapKinds_props:
  assumes "perm_order ord"
  shows "set (mapKinds ord control) = (\<Union>k \<in> set (ct_Kinds control). set (expand_kind k))"
proof -
  have "set (foldl (\<lambda>st r. foldl set_add st (expand_kind r)) xs ks) = set xs \<union> (\<Union>k \<in> set ks. set (expand_kind k))" for xs ks
    by (induction ks arbitrary: xs) (auto simp: fold_set_add)
  then show ?thesis using assms by (simp add: mapKinds_def)
qed

definition names_ok :: "string list gomap \<Rightarrow> bool" where
  "names_ok names \<longleftrightarrow> distinct (map fst names) \<and> (\<forall>(_, kinds) \<in> set names. distinct kinds)"

lemma names_ok_get: "names_ok names \<Longrightarrow> distinct (get_list names k)"
  by (auto simp: names_ok_def get_list_def split: option.splits dest!: map_of_SomeD)

lemma set_name_pairs:
  "distinct (map fst names) \<Longrightarrow> (scanner, kind) \<in> set (name_pairs names) \<longleftrightarrow> kind \<in> set (get_list names scanner)"
  by (force simp: name_pairs_def get_list_def split: option.splits dest: map_of_SomeD simp: map_of_eq_None_iff)

lemma distinct_name_pairs: "names_ok names \<Longrightarrow> distinct (name_pairs names)"
proof (induction names)
  case (Cons x names)
  obtain sc ks where x: "x = (sc, ks)" by fastforce
  have "sc \<notin> fst ` set names" "distinct ks" "names_ok names" using Cons.prems x by (auto simp: names_ok_def)
  moreover from this(1) have "set (map (Pair sc) ks) \<inter> set (name_pairs names) = {}"
    by (auto simp: name_pairs_def intro: rev_image_eqI)
  ultimately show ?case using Cons.IH x by (simp add: name_pairs_def distinct_map inj_on_def)
qed (simp add: name_pairs_def)

lemma update_names_ok: "names_ok names \<Longrightarrow> distinct kinds \<Longrightarrow> names_ok (AList.update k kinds names)"
  using update_set_subset [of k kinds names] by (fastforce simp: names_ok_def distinct_update)

lemma populate_names:
  assumes "perm_order ord" and "names_ok (sd_scannerResourceListNames smd)"
  shows "names_ok (sd_scannerResourceListNames (foldl (populate_step ord) smd controls)) \<and>
    set (name_pairs (sd_scannerResourceListNames (foldl (populate_step ord) smd controls))) =
    set (name_pairs (sd_scannerResourceListNames smd)) \<union> (\<Union>control \<in> set controls.
      Pair (mp_Scanner (ct_Mapping control)) ` (\<Union>k \<in> set (ct_Kinds control). set (expand_kind k)))"
  using assms(2)
proof (induction controls arbitrary: smd)
  case (Cons control controls)
  let ?n = "sd_scannerResourceListNames smd" let ?n' = "sd_scannerResourceListNames (populate_step ord smd control)"
  let ?sc = "mp_Scanner (ct_Mapping control)"
  have n': "?n' = AList.update ?sc (foldl set_add (get_list ?n ?sc) (mapKinds ord control)) ?n"
    by (simp add: populate_step_def Let_def)
  have ok: "names_ok ?n'"
    unfolding n' by (intro update_names_ok fold_set_add names_ok_get Cons.prems)
  have "(sc, k) \<in> set (name_pairs ?n') \<longleftrightarrow> (sc, k) \<in> set (name_pairs ?n) \<or>
      sc = ?sc \<and> k \<in> (\<Union>k \<in> set (ct_Kinds control). set (expand_kind k))" for sc k
    using ok Cons.prems
    by (auto simp: names_ok_def set_name_pairs n' get_list_update fold_set_add mapKinds_props [OF assms(1)] distinct_update)
  then have "set (name_pairs ?n') = set (name_pairs ?n) \<union> Pair ?sc ` (\<Union>k \<in> set (ct_Kinds control). set (expand_kind k))"
    by auto
  then show ?case using Cons.IH [OF ok] by auto
qed simp

lemma populate_pairs:
  assumes "perm_order ord"
  shows "names_ok (sd_scannerResourceListNames (populateSpecDataToMaps ord spec))"
    "set (name_pairs (sd_scannerResourceListNames (populateSpecDataToMaps ord spec))) = spec_pairs spec"
proof -
  let ?smd = "\<lparr>sd_scannerResourceListNames = [], sd_controlIDControlObject = [], sd_controlCheckIds = [],
      sd_controlIdResources = []\<rparr>"
  have "names_ok (sd_scannerResourceListNames ?smd)" by (simp add: names_ok_def)
  from populate_names [OF assms this, of "rs_Controls spec"]
  show "names_ok (sd_scannerResourceListNames (populateSpecDataToMaps ord spec))"
    "set (name_pairs (sd_scannerResourceListNames (populateSpecDataToMaps ord spec))) = spec_pairs spec"
    by (simp_all add: populateSpecDataToMaps_def spec_pairs_def name_pairs_def)
qed

text \<open>With different identifiers, each control has its own entries.\<close>

lemma populate_controls:
  assumes "distinct (map ct_ID controls)"
    and "\<forall>control \<in> set controls. ct_ID control \<notin> fst ` set (sd_controlIDControlObject smd) \<union> fst ` set (sd_controlCheckIds smd)"
  shows "sd_controlIDControlObject (foldl (populate_step ord) smd controls) =
      sd_controlIDControlObject smd @ map (\<lambda>ctl. (ct_ID ctl, ctl\<lparr>ct_Kinds := mapKinds ord ctl\<rparr>)) controls"
    "sd_controlCheckIds (foldl (populate_step ord) smd controls) = sd_controlCheckIds smd @
      map (\<lambda>ctl. (ct_ID ctl, map spc_ID (mp_Checks (ct_Mapping ctl))))
        (filter (\<lambda>ctl. mp_Checks (ct_Mapping ctl) \<noteq> []) controls)"
proof -
  have "sd_controlIDControlObject (foldl (populate_step ord) smd controls) =
      sd_controlIDControlObject smd @ map (\<lambda>ctl. (ct_ID ctl, ctl\<lparr>ct_Kinds := mapKinds ord ctl\<rparr>)) controls \<and>
    sd_controlCheckIds (foldl (populate_step ord) smd controls) = sd_controlCheckIds smd @
      map (\<lambda>ctl. (ct_ID ctl, map spc_ID (mp_Checks (ct_Mapping ctl))))
        (filter (\<lambda>ctl. mp_Checks (ct_Mapping ctl) \<noteq> []) controls)"
    using assms
  proof (induction controls arbitrary: smd)
    case (Cons ctl controls)
    have fresh: "ct_ID ctl \<notin> fst ` set (sd_controlIDControlObject smd)" "ct_ID ctl \<notin> fst ` set (sd_controlCheckIds smd)"
      using Cons.prems(2) by auto
    then have "get_list (sd_controlCheckIds smd) (ct_ID ctl) = []"
      by (auto simp: get_list_def split: option.splits dest!: map_of_SomeD intro: rev_image_eqI)
    then have step: "sd_controlIDControlObject (populate_step ord smd ctl) =
        sd_controlIDControlObject smd @ [(ct_ID ctl, ctl\<lparr>ct_Kinds := mapKinds ord ctl\<rparr>)]"
      "sd_controlCheckIds (populate_step ord smd ctl) = sd_controlCheckIds smd @
        (if mp_Checks (ct_Mapping ctl) = [] then [] else [(ct_ID ctl, map spc_ID (mp_Checks (ct_Mapping ctl)))])"
      using fresh by (simp_all add: populate_step_def update_fresh Let_def)
    have "\<forall>c \<in> set controls. ct_ID c \<notin> fst ` set (sd_controlIDControlObject (populate_step ord smd ctl)) \<union>
        fst ` set (sd_controlCheckIds (populate_step ord smd ctl))"
      using Cons.prems by (auto simp: step intro: rev_image_eqI)
    then show ?case using Cons.IH [of "populate_step ord smd ctl"] Cons.prems(1) by (simp add: step)
  qed simp
  then show "sd_controlIDControlObject (foldl (populate_step ord) smd controls) =
      sd_controlIDControlObject smd @ map (\<lambda>ctl. (ct_ID ctl, ctl\<lparr>ct_Kinds := mapKinds ord ctl\<rparr>)) controls"
    "sd_controlCheckIds (foldl (populate_step ord) smd controls) = sd_controlCheckIds smd @
      map (\<lambda>ctl. (ct_ID ctl, map spc_ID (mp_Checks (ct_Mapping ctl))))
        (filter (\<lambda>ctl. mp_Checks (ct_Mapping ctl) \<noteq> []) controls)"
    by simp_all
qed

lemma sum_name_pairs:
  assumes "names_ok names" and "mset ns = mset names"
  shows "sum_list (map f (name_pairs ns)) = (\<Sum>p \<in> set (name_pairs names). f p :: int)"
proof -
  have "mset (name_pairs ns) = mset (name_pairs names)"
    using assms(2) by (simp add: name_pairs_def mset_concat flip: sum_mset_sum_list)
  then have "sum_list (map f (name_pairs ns)) = sum_list (map f (name_pairs names))"
    by (intro sum_list_mset_cong) simp
  also have "\<dots> = (\<Sum>p \<in> set (name_pairs names). f p)"
    by (rule sum.distinct_set_conv_list [OF distinct_name_pairs [OF assms(1)], symmetric])
  finally show ?thesis .
qed

lemma names_scanners:
  assumes "perm_order ord" and "\<forall>control \<in> set (rs_Controls spec). supported (mp_Scanner (ct_Mapping control))"
  shows "\<forall>scanner \<in> fst ` set (sd_scannerResourceListNames (populateSpecDataToMaps ord spec)). supported scanner"
proof -
  have loop: "\<forall>scanner \<in> fst ` set (sd_scannerResourceListNames (foldl (populate_step ord) smd controls)). supported scanner"
    if "\<forall>scanner \<in> fst ` set (sd_scannerResourceListNames smd). supported scanner"
      "\<forall>control \<in> set controls. supported (mp_Scanner (ct_Mapping control))" for smd controls
    using that
  proof (induction controls arbitrary: smd)
    case (Cons ctl controls)
    have "fst ` set (sd_scannerResourceListNames (populate_step ord smd ctl)) =
        insert (mp_Scanner (ct_Mapping ctl)) (fst ` set (sd_scannerResourceListNames smd))"
      by (simp add: populate_step_def update_keys_set Let_def)
    then show ?case using Cons.IH [of "populate_step ord smd ctl"] Cons.prems by simp
  qed simp
  show ?thesis unfolding populateSpecDataToMaps_def by (rule loop) (use assms(2) in simp_all)
qed

lemma collected_counts:
  fixes c :: "'s client" and spec ord
  assumes ord: "perm_order ord" and sup: "\<forall>control \<in> set (rs_Controls spec). supported (mp_Scanner (ct_Mapping control))"
  defines "names \<equiv> sd_scannerResourceListNames (populateSpecDataToMaps ord spec)"
  shows "\<exists>results. checkIdsToResults ord (mapComplianceScannerToResource ord c s names) = Inr results \<and>
    (\<forall>P i. detail_count P results i = (\<Sum>p \<in> spec_pairs spec. pair_count c s P i p))"
proof -
  note pop = populate_pairs [OF ord, of spec, folded names_def]
  have ns: "mset (range_map ord names) = mset names"
    using pop(1) by (intro range_map_mset [OF ord]) (simp add: names_ok_def)
  have dist: "distinct (map fst (range_map ord names))" "\<forall>(_, kinds) \<in> set (range_map ord names). distinct kinds"
    using pop(1) range_map_distinct [OF ord] range_map_subset [of ord names] by (auto simp: names_ok_def)
  obtain m where m: "mapComplianceScannerToResource ord c s names = m" "proper m"
      "fst ` set m \<subseteq> fst ` set (range_map ord names)"
      "\<And>P i. resource_count P i m = sum_list (map (pair_count c s P i) (name_pairs (range_map ord names)))"
    using add_scanners [OF ord _ dist, of "[]" c s] by (auto simp: proper_def mapComplianceScannerToResource_def)
  have keys: "\<forall>scanner \<in> fst ` set m. supported scanner"
    using m(3) names_scanners [OF ord sup, folded names_def] range_map_subset [of ord names] by blast
  have dm: "distinct (map fst m)" using m(2) by (simp add: proper_def)
  have "\<forall>(scanner, rs) \<in> set (range_map ord m). supported scanner \<and> distinct (map fst rs)"
    using keys m(2) range_map_subset [of ord m] by (fastforce simp: proper_def)
  from scanner_loop_counts [OF ord this, of "[]"] obtain results where
    res: "scanner_loop ord (range_map ord m) [] = Inr results"
      "\<And>P i. detail_count P results i = resource_count P i (range_map ord m)"
    by (auto simp: detail_count_def get_list_def)
  have "detail_count P results i = (\<Sum>p \<in> spec_pairs spec. pair_count c s P i p)" for P i
    using res(2) [of P i] m(4) [of P i] sum_range_map [OF ord dm] sum_name_pairs [OF pop(1) ns, of "pair_count c s P i"] pop(2)
    by simp
  then show ?thesis using res(1) m(1) by (auto simp: checkIdsToResults_def)
qed

lemma count_details:
  "foldl count_detail t ds = (fst t + int (length (filter (\<lambda>d. passes (rd_Status d)) ds)),
     snd t + int (length (filter (\<lambda>d. fails (rd_Status d)) ds)))"
proof (induction ds arbitrary: t)
  case (Cons d ds)
  then show ?case by (cases t) (simp add: count_detail_def passes_def fails_def sev_simps)
qed simp

lemma count_checks_counts:
  "count_checks results ids = (sum_list (map (detail_count passes results) ids), sum_list (map (detail_count fails results) ids))"
proof -
  have inner: "foldl (\<lambda>t r. foldl count_detail t (scr_Details r)) t rs =
      (fst t + sum_list (map (\<lambda>r. int (length (filter (\<lambda>d. passes (rd_Status d)) (scr_Details r)))) rs),
       snd t + sum_list (map (\<lambda>r. int (length (filter (\<lambda>d. fails (rd_Status d)) (scr_Details r)))) rs))" for t rs
    by (induction rs arbitrary: t) (simp_all add: count_details)
  have "foldl (\<lambda>t checkId. foldl (\<lambda>t r. foldl count_detail t (scr_Details r)) t (get_list results checkId)) t ids =
      (fst t + sum_list (map (detail_count passes results) ids), snd t + sum_list (map (detail_count fails results) ids))" for t
    by (induction ids arbitrary: t) (simp_all add: inner detail_count_def)
  then show ?thesis by (simp add: count_checks_def)
qed

lemma getTotals_sums:
  "getTotals ccs = \<lparr>tot_pass = sum_list (map cc_PassTotal ccs), tot_fail = sum_list (map cc_FailTotal ccs)\<rparr>"
proof -
  have "foldl (\<lambda>t cc. \<lparr>tot_pass = tot_pass t + cc_PassTotal cc, tot_fail = tot_fail t + cc_FailTotal cc\<rparr>) t ccs =
      \<lparr>tot_pass = tot_pass t + sum_list (map cc_PassTotal ccs), tot_fail = tot_fail t + sum_list (map cc_FailTotal ccs)\<rparr>" for t
    by (induction ccs arbitrary: t) simp_all
  then show ?thesis by (simp add: getTotals_def)
qed

text \<open>The reference for one control: the counts over the reports of all kinds of the specification.\<close>

definition reference_check :: "'s client \<Rightarrow> 's \<Rightarrow> ReportSpec \<Rightarrow> Control \<Rightarrow> ControlCheck" where
  "reference_check c s spec ctl =
     (let ids = map spc_ID (mp_Checks (ct_Mapping ctl))
      in control_check ctl (ct_ID ctl) (spec_count c s spec passes ids, spec_count c s spec fails ids))"

lemma control_check_kinds [simp]: "control_check (ctl\<lparr>ct_Kinds := ks\<rparr>) n t = control_check ctl n t"
  by (simp add: control_check_def Let_def)

text \<open>Some report of the specification's kinds has a result.\<close>

definition any_result :: "'s client \<Rightarrow> 's \<Rightarrow> ReportSpec \<Rightarrow> bool" where
  "any_result c s spec \<longleftrightarrow> (\<exists>p \<in> spec_pairs spec. \<exists>x \<in> set (listed c s p). scanner_results (fst p) x \<noteq> [])"

lemma finite_spec_pairs: "finite (spec_pairs spec)"
  by (auto simp: spec_pairs_def)

lemma any_result_collected:
  assumes "any_result c s spec" and "\<And>i. detail_count (\<lambda>_. True) results i = (\<Sum>p \<in> spec_pairs spec. pair_count c s (\<lambda>_. True) i p)"
  shows "results \<noteq> []"
proof
  assume "results = []"
  then have zero: "detail_count (\<lambda>_. True) results i = 0" for i by (simp add: detail_count_def get_list_def)
  obtain p x y where p: "p \<in> spec_pairs spec" "x \<in> set (listed c s p)" "y \<in> set (scanner_results (fst p) x)"
    using assms(1) by (fastforce simp: any_result_def neq_Nil_conv)
  obtain i rem d where y: "y = (i, rem, d)" by (cases y)
  have nonneg: "0 \<le> pair_count c s (\<lambda>_. True) i q" for q by (simp add: pair_count_def count_results_def)
  have "y \<in> set (filter (\<lambda>(j, _, d). j = i \<and> True) (concat (map (scanner_results (fst p)) (listed c s p))))"
    using p y by auto
  from length_pos_if_in_set [OF this] have "0 < pair_count c s (\<lambda>_. True) i p"
    by (simp add: pair_count_def count_results_def)
  then have "0 < (\<Sum>q \<in> spec_pairs spec. pair_count c s (\<lambda>_. True) i q)"
    using p(1) nonneg finite_spec_pairs by (intro sum_pos2 [of _ p]) auto
  then show False using assms(2) [of i] zero [of i] by simp
qed

lemma map_filter_total: "(\<And>x. x \<in> set xs \<Longrightarrow> f (g x) = Some (h x)) \<Longrightarrow> List.map_filter f (map g xs) = map h xs"
  by (induction xs) (simp_all add: List.map_filter_simps)

lemma control_checks_reference:
  assumes ord: "perm_order ord" and ids: "distinct (map ct_ID (rs_Controls spec))" and "results \<noteq> []"
    and counts: "\<And>P i. detail_count P results i = (\<Sum>p \<in> spec_pairs spec. pair_count c s P i p)"
  shows "mset (controlChecksByScannerChecks ord (populateSpecDataToMaps ord spec) results) =
    image_mset (reference_check c s spec) (mset (filter (\<lambda>ctl. mp_Checks (ct_Mapping ctl) \<noteq> []) (rs_Controls spec)))"
proof -
  let ?cs = "rs_Controls spec" let ?checked = "filter (\<lambda>ctl. mp_Checks (ct_Mapping ctl) \<noteq> []) ?cs"
  let ?ids = "\<lambda>ctl. map spc_ID (mp_Checks (ct_Mapping ctl))"
  note pop = populate_controls [OF ids, of "\<lparr>sd_scannerResourceListNames = [], sd_controlIDControlObject = [],
    sd_controlCheckIds = [], sd_controlIdResources = []\<rparr>" ord, simplified, folded populateSpecDataToMaps_def]
  let ?objs = "map (\<lambda>ctl. (ct_ID ctl, ctl\<lparr>ct_Kinds := mapKinds ord ctl\<rparr>)) ?cs"
  let ?cids = "map (\<lambda>ctl. (ct_ID ctl, ?ids ctl)) ?checked"
  let ?f = "\<lambda>(controlID, checkIds). map_option (\<lambda>control. control_check control controlID (count_checks results checkIds))
      (map_of ?objs controlID)"
  have dist: "distinct (map fst ?objs)" using ids by (simp add: comp_def)
  have dc: "distinct (map fst ?cids)" using ids by (simp add: comp_def distinct_map inj_on_def)
  have find: "?f (ct_ID ctl, ?ids ctl) = Some (reference_check c s spec ctl)" if "ctl \<in> set ?cs" for ctl
  proof -
    have "map_of ?objs (ct_ID ctl) = Some (ctl\<lparr>ct_Kinds := mapKinds ord ctl\<rparr>)"
      using that by (intro map_of_is_SomeI [OF dist]) auto
    then show ?thesis by (simp add: reference_check_def count_checks_counts counts spec_count_def comp_def)
  qed
  have "mset (List.map_filter ?f (range_map ord ?cids)) = mset (List.map_filter ?f ?cids)"
    by (rule mset_map_filter_cong) (rule range_map_mset [OF ord dc])
  also have "List.map_filter ?f ?cids = map (reference_check c s spec) ?checked"
    by (rule map_filter_total) (use find in simp)
  finally show ?thesis using assms(3) by (simp add: controlChecksByScannerChecks_def pop)
qed

section \<open>Properties\<close>

text \<open>
  C10. The counts of a compliance report are exact, whatever order the runtime visits maps and sets
  in: for a specification of supported scanners whose controls have different identifiers, once some report has a
  result (without any, the code returns no control checks at all), the control checks are, up to their order, one per control that names checks, with as many passes (warnings included) and
  failures as the stored reports of the specification's kinds hold for the control's checks, and the control's
  default status where they hold none.
\<close>

theorem compliance_counts_exact:
  assumes "perm_order ord" and "distinct (map ct_ID (rs_Controls spec))"
    and "\<forall>control \<in> set (rs_Controls spec). supported (mp_Scanner (ct_Mapping control))" and "any_result c s spec"
  shows "let smd = populateSpecDataToMaps ord spec in
    \<exists>results. checkIdsToResults ord (mapComplianceScannerToResource ord c s (sd_scannerResourceListNames smd)) = Inr results \<and>
      mset (controlChecksByScannerChecks ord smd results) =
        image_mset (reference_check c s spec) (mset (filter (\<lambda>ctl. mp_Checks (ct_Mapping ctl) \<noteq> []) (rs_Controls spec)))"
proof -
  obtain results where res: "checkIdsToResults ord (mapComplianceScannerToResource ord c s
      (sd_scannerResourceListNames (populateSpecDataToMaps ord spec))) = Inr results"
    "\<And>P i. detail_count P results i = (\<Sum>p \<in> spec_pairs spec. pair_count c s P i p)"
    using collected_counts [OF assms(1,3), of c s] by blast
  have "results \<noteq> []" by (rule any_result_collected [OF assms(4)]) (rule res(2))
  from control_checks_reference [OF assms(1,2) this res(2)] res(1) show ?thesis by (simp add: Let_def)
qed

text \<open>A specification with two controls, and one audit report of a pod.\<close>

definition sample_control :: "string \<Rightarrow> string \<Rightarrow> string \<Rightarrow> string list \<Rightarrow> Control" where
  "sample_control n scanner kind checks = \<lparr>ct_ID = n, ct_Name = ''control'', ct_Description = [], ct_Kinds = [kind],
     ct_Mapping = \<lparr>mp_Scanner = scanner, mp_Checks = map (\<lambda>i. \<lparr>spc_ID = i\<rparr>) checks\<rparr>, ct_Severity = ''HIGH'',
     ct_DefaultStatus = FailStatus\<rparr>"

definition sample_compliance :: ReportSpec where
  "sample_compliance = \<lparr>rs_Name = ''nsa'', rs_Description = [], rs_Cron = ''0 * * * *'', rs_Version = ''1.0'',
     rs_Controls = [sample_control ''1.0'' ConfigAudit ''Pod'' [''KSV012''], sample_control ''2.0'' KubeBench ''Node'' [''5.1.1'']]\<rparr>"

definition sample_audit_report :: Object where
  "sample_audit_report = \<lparr>o_Kind = [], o_Meta = empty_meta\<lparr>om_Name := ''pod-web'', om_Namespace := ''prod'',
       om_Labels := [LabelResourceKind \<mapsto> ''Pod'']\<rparr>,
     o_Body = ConfigAuditReport \<lparr>car_UpdateTimestamp = 0, car_Scanner = \<lparr>sc_Name = [], sc_Vendor = [], sc_Version = []\<rparr>,
       car_Summary = zero_ConfigAuditSummary,
       car_Checks = [\<lparr>ck_ID = ''KSV012'', ck_Title = [], ck_Description = [], ck_Severity = ''HIGH'', ck_Category = [],
         ck_Messages = [], ck_Remediation = [], ck_Success = False, ck_Scope = None\<rparr>],
       car_PodChecks = [], car_ContainerChecks = []\<rparr>\<rparr>"

definition sample_compliance_report :: Object where
  "sample_compliance_report = cluster_object ''nsa'' (ClusterComplianceReport sample_compliance
     \<lparr>st_UpdateTimestamp = 0, st_Summary = \<lparr>ccs_PassCount = 0, ccs_FailCount = 0\<rparr>, st_ControlChecks = []\<rparr>)"

abbreviation sample_compliance_state :: "Object list" where
  "sample_compliance_state \<equiv> [sample_compliance_report, sample_audit_report]"

lemma sample_compliance_ok:
  "distinct (map ct_ID (rs_Controls sample_compliance))"
  "\<forall>control \<in> set (rs_Controls sample_compliance). supported (mp_Scanner (ct_Mapping control))"
  "any_result mem_client sample_compliance_state sample_compliance"
proof -
  show "distinct (map ct_ID (rs_Controls sample_compliance))"
    "\<forall>control \<in> set (rs_Controls sample_compliance). supported (mp_Scanner (ct_Mapping control))"
    by (simp_all add: sample_compliance_def sample_control_def supported_def)
  have "(ConfigAudit, ''Pod'') \<in> spec_pairs sample_compliance"
    by (simp add: spec_pairs_def sample_compliance_def sample_control_def expand_kind_def)
  moreover have "sample_audit_report \<in> set (listed mem_client sample_compliance_state (ConfigAudit, ''Pod''))"
    by (simp add: listed_def getObjListByName_def KubeBench_def ConfigAudit_def kind_options_def mem_List_def Let_def
        sample_audit_report_def sample_compliance_report_def cluster_object_def same_id_def selected_def)
  moreover have "scanner_results ConfigAudit sample_audit_report \<noteq> []"
    by (simp add: scanner_results_def KubeBench_def ConfigAudit_def audit_results_def sample_audit_report_def)
  ultimately show "any_result mem_client sample_compliance_state sample_compliance"
    unfolding any_result_def by (metis fst_conv)
qed

theorem compliance_counts_exact_witness:
  "\<exists>results. checkIdsToResults rev (mapComplianceScannerToResource rev mem_client sample_compliance_state
       (sd_scannerResourceListNames (populateSpecDataToMaps rev sample_compliance))) = Inr results \<and>
     length (controlChecksByScannerChecks rev (populateSpecDataToMaps rev sample_compliance) results) = 2"
proof -
  from compliance_counts_exact [OF perm_order_rev sample_compliance_ok] obtain results where
    res: "checkIdsToResults rev (mapComplianceScannerToResource rev mem_client sample_compliance_state
       (sd_scannerResourceListNames (populateSpecDataToMaps rev sample_compliance))) = Inr results" and
    m: "mset (controlChecksByScannerChecks rev (populateSpecDataToMaps rev sample_compliance) results) =
      image_mset (reference_check mem_client sample_compliance_state sample_compliance)
        (mset (filter (\<lambda>ctl. mp_Checks (ct_Mapping ctl) \<noteq> []) (rs_Controls sample_compliance)))"
    by (auto simp: Let_def)
  from arg_cong [OF m, of size] have
    "length (controlChecksByScannerChecks rev (populateSpecDataToMaps rev sample_compliance) results) = 2"
    by (simp add: sample_compliance_def sample_control_def)
  with res show ?thesis by blast
qed

lemma add_failed_take:
  "foldl (add_failed lim) (take (nat lim) xs) ds = take (nat lim) (xs @ filter (\<lambda>d. \<not> passes (rd_Status d)) ds)"
proof (induction ds arbitrary: xs)
  case (Cons d ds)
  have "add_failed lim (take (nat lim) xs) d =
      take (nat lim) (if passes (rd_Status d) then xs else xs @ [d])"
    by (auto simp: add_failed_def passes_def min_def split: if_splits)
  then show ?case
    using Cons.IH [of "if passes (rd_Status d) then xs else xs @ [d]"] by (simp del: take_append)
qed simp

text \<open>
  The details of a check are its first results that neither pass nor warn, as many as the configured
  limit allows; check results without such a result are left out, and a limit of zero or below leaves out all of them.
\<close>

lemma detail_entries_limited:
  "createScanCheckResult config results =
     (let lim = ComplianceFailEntriesLimit config;
          failing = (\<lambda>r. filter (\<lambda>d. \<not> passes (rd_Status d)) (scr_Details r))
      in map (\<lambda>r. r\<lparr>scr_Details := take (nat lim) (failing r)\<rparr>)
           (filter (\<lambda>r. 0 < lim \<and> failing r \<noteq> []) results))"
proof -
  let ?lim = "ComplianceFailEntriesLimit config"
  have "foldl (add_failed ?lim) [] ds = take (nat ?lim) (filter (\<lambda>d. \<not> passes (rd_Status d)) ds)" for ds
    using add_failed_take [of ?lim "[]" ds] by simp
  then show ?thesis
    by (induction results) (auto simp: createScanCheckResult_def List.map_filter_simps Let_def)
qed

section \<open>Storing and scheduling\<close>

text \<open>
  The status endpoint of the API: a successful update of an object whose specification is as stored
  replaces the status and nothing else.
\<close>

fun report_status :: "Body \<Rightarrow> ReportStatus option" where
  "report_status (ClusterComplianceReport _ st) = Some st"
| "report_status _ = None"

definition law_status :: "'s client \<Rightarrow> bool" where
  "law_status c \<longleftrightarrow>
     (\<forall>s x s'. cl_StatusUpdate c s x = (None, s') \<longrightarrow> only_changes c s s' (go_type x) (key_of x)) \<and>
     (\<forall>s x s' old. cl_StatusUpdate c s x = (None, s') \<longrightarrow>
       cl_Get c s TClusterComplianceReport (key_of x) = Inr old \<longrightarrow> go_type x = TClusterComplianceReport \<longrightarrow>
       report_spec (o_Body x) = report_spec (o_Body old) \<longrightarrow>
       om_CreationTimestamp (o_Meta x) = om_CreationTimestamp (o_Meta old) \<longrightarrow>
       (\<exists>y. cl_Get c s' TClusterComplianceReport (key_of x) = Inr y \<and>
          report_status (o_Body y) = report_status (o_Body x) \<and> report_spec (o_Body y) = report_spec (o_Body old) \<and>
          om_CreationTimestamp (o_Meta y) = om_CreationTimestamp (o_Meta old)))"

lemma status_ok:
  assumes "law_status c" and "cl_StatusUpdate c s x = (None, s')"
  shows "only_changes c s s' (go_type x) (key_of x)"
    "cl_Get c s TClusterComplianceReport (key_of x) = Inr old \<Longrightarrow> go_type x = TClusterComplianceReport \<Longrightarrow>
     report_spec (o_Body x) = report_spec (o_Body old) \<Longrightarrow>
     om_CreationTimestamp (o_Meta x) = om_CreationTimestamp (o_Meta old) \<Longrightarrow>
     \<exists>y. cl_Get c s' TClusterComplianceReport (key_of x) = Inr y \<and>
       report_status (o_Body y) = report_status (o_Body x) \<and> report_spec (o_Body y) = report_spec (o_Body old) \<and>
       om_CreationTimestamp (o_Meta y) = om_CreationTimestamp (o_Meta old)"
  using assms unfolding law_status_def by blast+

lemma detail_report_frame:
  assumes "api_laws c" and "createComplianceDetailReport ord c config now spec smd results st s = (r, s')"
  shows "only_changes c s s' TClusterComplianceDetailReport \<lparr>key_Namespace = [], key_Name = details_name spec\<rparr>"
proof -
  let ?k = "\<lparr>key_Namespace = [], key_Name = details_name spec\<rparr>"
  show ?thesis
  proof (cases "cl_Get c s TClusterComplianceDetailReport ?k")
    case (Inl e)
    let ?x = "\<lambda>d. cluster_object (details_name spec) (ClusterComplianceDetailReport d)"
    have key: "key_of (?x d) = ?k" "go_type (?x d) = TClusterComplianceDetailReport" for d
      by (simp_all add: cluster_object_def key_of_def empty_meta_def)
    have create: "only_changes c s (snd (cl_Create c s (?x d))) TClusterComplianceDetailReport ?k" for d
      using key [of d] create_ok(3) [OF assms(1), of s "?x d"] failed_write(1) [OF assms(1), of s "?x d"]
      by (cases "cl_Create c s (?x d)"; cases "fst (cl_Create c s (?x d))") (auto simp: only_changes_def)
    have "s' = s \<or> (\<exists>d. s' = snd (cl_Create c s (?x d)))"
      using assms(2) Inl
      by (auto simp: createComplianceDetailReport_def Let_def split: if_splits) (metis snd_conv snd_only_err)
    then show ?thesis using create by (auto simp: only_changes_def)
  next
    case (Inr old)
    note typed = get_typed [OF assms(1) Inr]
    let ?x = "\<lambda>d. old\<lparr>o_Meta := (o_Meta old)\<lparr>om_Labels := Map.empty\<rparr>, o_Body := ClusterComplianceDetailReport d\<rparr>"
    have key: "key_of (?x d) = ?k" "go_type (?x d) = TClusterComplianceDetailReport" for d
      using typed by (simp_all add: key_of_def)
    have update: "only_changes c s (snd (cl_Update c s (?x d))) TClusterComplianceDetailReport ?k" for d
      using key [of d] update_ok(2) [OF assms(1), of s "?x d"] failed_write(2) [OF assms(1), of s "?x d"]
      by (cases "cl_Update c s (?x d)"; cases "fst (cl_Update c s (?x d))") (auto simp: only_changes_def)
    have "\<exists>d. s' = snd (cl_Update c s (?x d))"
      using assms(2) Inr by (simp add: createComplianceDetailReport_def cluster_object_def Let_def) (metis snd_conv)
    then show ?thesis using update by auto
  qed
qed

abbreviation compliance_key :: "ReportSpec \<Rightarrow> ObjectKey" where
  "compliance_key spec \<equiv> \<lparr>key_Namespace = [], key_Name = ToLower (rs_Name spec)\<rparr>"

lemma generate_ok:
  assumes "api_laws c" and "law_status c"
    and "cl_Get c s TClusterComplianceReport (compliance_key spec) = Inr report" and "report_spec (o_Body report) = spec"
    and "GenerateComplianceReport ord c config now spec s = (None, s')"
  defines "smd \<equiv> populateSpecDataToMaps ord spec"
  obtains results y st where
    "checkIdsToResults ord (mapComplianceScannerToResource ord c s (sd_scannerResourceListNames smd)) = Inr results"
    "cl_Get c s' TClusterComplianceReport (compliance_key spec) = Inr y" "report_status (o_Body y) = Some st"
    "st_UpdateTimestamp st = now" "st_Summary st = totals_summary (getTotals (controlChecksByScannerChecks ord smd results))"
    "report_spec (o_Body y) = spec" "om_CreationTimestamp (o_Meta y) = om_CreationTimestamp (o_Meta report)"
    "\<forall>t k. (t, k) \<notin> {(TClusterComplianceReport, compliance_key spec),
         (TClusterComplianceDetailReport, \<lparr>key_Namespace = [], key_Name = details_name spec\<rparr>)} \<longrightarrow>
       cl_Get c s' t k = cl_Get c s t k"
proof -
  obtain results where res: "checkIdsToResults ord (mapComplianceScannerToResource ord c s
      (sd_scannerResourceListNames smd)) = Inr results"
    using assms(5) by (auto simp: GenerateComplianceReport_def smd_def Let_def split: sum.splits)
  let ?ccs = "controlChecksByScannerChecks ord smd results" let ?st = "getTotals ?ccs"
  obtain s1 where d: "createComplianceDetailReport ord c config now spec smd results ?st s = (None, s1)"
    and rest: "(case createComplianceReport c now spec ?st ?ccs s1 of Inl e \<Rightarrow> (Some e, s1)
      | Inr x \<Rightarrow> cl_StatusUpdate c s1 x) = (None, s')"
    using assms(5) res by (auto simp: GenerateComplianceReport_def smd_def Let_def and_then_None_iff)
  note frame = detail_report_frame [OF assms(1) d]
  have old: "cl_Get c s1 TClusterComplianceReport (compliance_key spec) = Inr report"
    using frame assms(3) by (simp add: only_changes_def)
  note typed = get_typed [OF assms(1) old]
  define status where "status = \<lparr>st_UpdateTimestamp = now, st_Summary = totals_summary ?st,
    st_ControlChecks = (if 0 < tot_fail ?st \<or> 0 < tot_pass ?st then ?ccs else [])\<rparr>"
  define x where "x = report\<lparr>o_Meta := (o_Meta report)\<lparr>om_Labels := Map.empty\<rparr>, o_Body := ClusterComplianceReport spec status\<rparr>"
  have "createComplianceReport c now spec ?st ?ccs s1 = Inr x"
    using old by (simp add: createComplianceReport_def x_def status_def Let_def)
  with rest have upd: "cl_StatusUpdate c s1 x = (None, s')" by simp
  have x: "go_type x = TClusterComplianceReport" "key_of x = compliance_key spec" "report_spec (o_Body x) = spec"
    "report_status (o_Body x) = Some status" "om_CreationTimestamp (o_Meta x) = om_CreationTimestamp (o_Meta report)"
    using typed by (simp_all add: x_def key_of_def)
  have law: "\<exists>y. cl_Get c s' TClusterComplianceReport (key_of x) = Inr y \<and>
      report_status (o_Body y) = report_status (o_Body x) \<and> report_spec (o_Body y) = report_spec (o_Body report) \<and>
      om_CreationTimestamp (o_Meta y) = om_CreationTimestamp (o_Meta report)"
    by (rule status_ok(2) [OF assms(2) upd]) (use old assms(4) x in simp_all)
  then obtain y where y: "cl_Get c s' TClusterComplianceReport (compliance_key spec) = Inr y"
      "report_status (o_Body y) = Some status" "report_spec (o_Body y) = spec"
      "om_CreationTimestamp (o_Meta y) = om_CreationTimestamp (o_Meta report)"
    using x assms(4) by auto
  have same: "\<forall>t k. (t, k) \<notin> {(TClusterComplianceReport, compliance_key spec),
         (TClusterComplianceDetailReport, \<lparr>key_Namespace = [], key_Name = details_name spec\<rparr>)} \<longrightarrow>
       cl_Get c s' t k = cl_Get c s t k"
    using status_ok(1) [OF assms(2) upd] x(1,2) frame by (auto simp: only_changes_def)
  show thesis
    by (rule that [OF res y(1,2) _ _ y(3,4) same]) (simp_all add: status_def)
qed

text \<open>Generating a report, also when it fails, leaves jobs alone.\<close>

lemma generate_jobs:
  assumes "api_laws c" and "law_status c" and "GenerateComplianceReport ord c config now spec s = (r, s')"
  shows "cl_Get c s' TJob k = cl_Get c s TJob k"
proof -
  let ?smd = "populateSpecDataToMaps ord spec"
  show ?thesis
  proof (cases "checkIdsToResults ord (mapComplianceScannerToResource ord c s (sd_scannerResourceListNames ?smd))")
    case (Inl e)
    then show ?thesis using assms(3) by (simp add: GenerateComplianceReport_def Let_def)
  next
    case (Inr results)
    let ?ccs = "controlChecksByScannerChecks ord ?smd results" let ?st = "getTotals ?ccs"
    obtain rd s1 where d: "createComplianceDetailReport ord c config now spec ?smd results ?st s = (rd, s1)" by fastforce
    have one: "cl_Get c s1 TJob k = cl_Get c s TJob k"
      using detail_report_frame [OF assms(1) d] by (simp add: only_changes_def)
    have status: "cl_Get c (snd (cl_StatusUpdate c s1 x)) TJob k = cl_Get c s1 TJob k" if "go_type x = TClusterComplianceReport" for x
      using that status_ok(1) [OF assms(2), of s1 x] failed_write(3) [OF assms(1), of s1 x]
      by (cases "cl_StatusUpdate c s1 x"; cases "fst (cl_StatusUpdate c s1 x)") (auto simp: only_changes_def)
    have "s' = s1 \<or> (\<exists>x. go_type x = TClusterComplianceReport \<and> s' = snd (cl_StatusUpdate c s1 x))"
    proof (cases rd)
      case (Some e)
      then show ?thesis using assms(3) Inr d by (simp add: GenerateComplianceReport_def Let_def)
    next
      case None
      have typed: "createComplianceReport c now spec ?st ?ccs s1 = Inr x \<Longrightarrow> go_type x = TClusterComplianceReport" for x
        by (auto simp: createComplianceReport_def Let_def split: sum.splits)
      show ?thesis
      proof (cases "createComplianceReport c now spec ?st ?ccs s1")
        case (Inl e)
        then show ?thesis using assms(3) Inr d None by (simp add: GenerateComplianceReport_def Let_def)
      next
        case x: (Inr x)
        then have "cl_StatusUpdate c s1 x = (r, s')" using assms(3) Inr d None by (simp add: GenerateComplianceReport_def Let_def)
        then show ?thesis using typed [OF x] by (metis snd_conv)
      qed
    qed
    then show ?thesis using status one by auto
  qed
qed

lemma compliance_jobs:
  assumes "api_laws (ccr_Client r)" and "law_status (ccr_Client r)" and "generateComplianceReport r now req s = (res, s')"
  shows "cl_Get (ccr_Client r) s' TJob k = cl_Get (ccr_Client r) s TJob k"
proof -
  have attempt: "cl_Get (ccr_Client r) (snd (compliance_attempt r now req s)) TJob k = cl_Get (ccr_Client r) s TJob k" for s
    using generate_jobs [OF assms(1,2)]
    by (auto simp: compliance_attempt_def split: sum.splits prod.splits if_splits)
  have "cl_Get (ccr_Client r) (snd (RetryOnConflict n (compliance_attempt r now req) s)) TJob k = cl_Get (ccr_Client r) s TJob k" for n
  proof (induction n arbitrary: s rule: less_induct)
    case (less n)
    obtain e d s1 where a: "compliance_attempt r now req s = ((e, d), s1)" by (metis surj_pair)
    have same: "cl_Get (ccr_Client r) s1 TJob k = cl_Get (ccr_Client r) s TJob k" using attempt [of s] a by simp
    show ?case
    proof (cases e)
      case None
      then show ?thesis using a same by (simp add: RetryOnConflict.simps)
    next
      case (Some err)
      then show ?thesis using a same less.IH [of "n - 1" s1] by (simp add: RetryOnConflict.simps)
    qed
  qed
  then show ?thesis
    using assms(3) by (auto simp: generateComplianceReport_def split: prod.splits option.splits) (metis snd_conv)+
qed

text \<open>
  C33. A generated compliance report is stored with its counts: for a specification of supported
  scanners whose controls have different identifiers, once some report has a result, when the generation succeeds, the
  report has the new time stamp and the exact totals of passes and failures over its controls, its
  specification is unchanged, and besides it and its detail report no object has changed.
\<close>

theorem compliance_report_stored:
  assumes "api_laws c" and "law_status c" and "perm_order ord" and "distinct (map ct_ID (rs_Controls spec))"
    and "\<forall>control \<in> set (rs_Controls spec). supported (mp_Scanner (ct_Mapping control))" and "any_result c s spec"
    and "cl_Get c s TClusterComplianceReport (compliance_key spec) = Inr report" and "report_spec (o_Body report) = spec"
    and "GenerateComplianceReport ord c config now spec s = (None, s')"
  shows "let checked = filter (\<lambda>ctl. mp_Checks (ct_Mapping ctl) \<noteq> []) (rs_Controls spec) in
    \<exists>y st. cl_Get c s' TClusterComplianceReport (compliance_key spec) = Inr y \<and> report_spec (o_Body y) = spec \<and>
      report_status (o_Body y) = Some st \<and> st_UpdateTimestamp st = now \<and>
      ccs_PassCount (st_Summary st) = sum_list (map (\<lambda>ctl. cc_PassTotal (reference_check c s spec ctl)) checked) \<and>
      ccs_FailCount (st_Summary st) = sum_list (map (\<lambda>ctl. cc_FailTotal (reference_check c s spec ctl)) checked) \<and>
      (\<forall>t k. (t, k) \<notin> {(TClusterComplianceReport, compliance_key spec),
          (TClusterComplianceDetailReport, \<lparr>key_Namespace = [], key_Name = details_name spec\<rparr>)} \<longrightarrow>
        cl_Get c s' t k = cl_Get c s t k)"
proof -
  let ?smd = "populateSpecDataToMaps ord spec"
  let ?checked = "filter (\<lambda>ctl. mp_Checks (ct_Mapping ctl) \<noteq> []) (rs_Controls spec)"
  obtain results y st where g: "checkIdsToResults ord (mapComplianceScannerToResource ord c s
        (sd_scannerResourceListNames ?smd)) = Inr results"
      "cl_Get c s' TClusterComplianceReport (compliance_key spec) = Inr y" "report_status (o_Body y) = Some st"
      "st_UpdateTimestamp st = now" "st_Summary st = totals_summary (getTotals (controlChecksByScannerChecks ord ?smd results))"
      "report_spec (o_Body y) = spec" "om_CreationTimestamp (o_Meta y) = om_CreationTimestamp (o_Meta report)"
      "\<forall>t k. (t, k) \<notin> {(TClusterComplianceReport, compliance_key spec),
         (TClusterComplianceDetailReport, \<lparr>key_Namespace = [], key_Name = details_name spec\<rparr>)} \<longrightarrow>
       cl_Get c s' t k = cl_Get c s t k"
    by (rule generate_ok [OF assms(1,2,7-9)]) (rule that)
  obtain results' where res: "checkIdsToResults ord (mapComplianceScannerToResource ord c s
      (sd_scannerResourceListNames ?smd)) = Inr results'"
    "\<And>P i. detail_count P results' i = (\<Sum>p \<in> spec_pairs spec. pair_count c s P i p)"
    using collected_counts [OF assms(3,5), of c s] by blast
  have same: "results' = results" using res(1) g(1) by simp
  have "results \<noteq> []" using any_result_collected [OF assms(6), of results'] res(2) same by blast
  from control_checks_reference [OF assms(3,4) this, of c s] res(2) same
  have m: "mset (controlChecksByScannerChecks ord ?smd results) = mset (map (reference_check c s spec) ?checked)" by simp
  have sums: "sum_list (map f (controlChecksByScannerChecks ord ?smd results)) =
      sum_list (map (\<lambda>ctl. f (reference_check c s spec ctl)) ?checked)" for f :: "ControlCheck \<Rightarrow> int"
  proof -
    have "sum_list (map f (controlChecksByScannerChecks ord ?smd results)) = sum_list (map f (map (reference_check c s spec) ?checked))"
      by (rule sum_list_mset_cong) (simp only: mset_map m)
    then show ?thesis by (simp only: map_map comp_def)
  qed
  show ?thesis unfolding Let_def
    by (intro exI [of _ y] exI [of _ st] conjI g(2-4,6,8)) (simp_all add: g(5) totals_summary_def getTotals_sums sums)
qed

text \<open>The sample's generation succeeds.\<close>

lemma mem_law_status: "law_status mem_client"
  by (auto simp: law_status_def mem_Update_def mem_Get_Cons only_changes_def mem_Get_remove_other split: if_splits)

lemma sample_compliance_reads:
  "mem_Get sample_compliance_state TClusterComplianceReport (compliance_key sample_compliance) = Inr sample_compliance_report"
  "report_spec (o_Body sample_compliance_report) = sample_compliance"
  "mem_Get sample_compliance_state TClusterComplianceDetailReport k = Inl NotFound"
proof -
  have "ToLower (rs_Name sample_compliance) = ''nsa''" by code_simp
  then show "mem_Get sample_compliance_state TClusterComplianceReport (compliance_key sample_compliance) = Inr sample_compliance_report"
    by (simp add: mem_Get_def sample_compliance_report_def cluster_object_def key_of_def empty_meta_def)
  show "report_spec (o_Body sample_compliance_report) = sample_compliance"
    "mem_Get sample_compliance_state TClusterComplianceDetailReport k = Inl NotFound"
    by (simp_all add: mem_Get_def sample_compliance_report_def cluster_object_def sample_audit_report_def)
qed

lemma sample_generated:
  "\<exists>s'. GenerateComplianceReport rev mem_client Map.empty now sample_compliance sample_compliance_state = (None, s')"
proof -
  let ?s = sample_compliance_state and ?smd = "populateSpecDataToMaps rev sample_compliance"
  obtain results where res: "checkIdsToResults rev (mapComplianceScannerToResource rev mem_client ?s
      (sd_scannerResourceListNames ?smd)) = Inr results"
    using collected_counts [OF perm_order_rev sample_compliance_ok(2), of mem_client ?s] by blast
  let ?ccs = "controlChecksByScannerChecks rev ?smd results"
  have types: "go_type sample_compliance_report = TClusterComplianceReport" "go_type sample_audit_report = TConfigAuditReport"
    by (simp_all add: sample_compliance_report_def cluster_object_def sample_audit_report_def)
  obtain x where d: "createComplianceDetailReport rev mem_client Map.empty now sample_compliance ?smd results (getTotals ?ccs) ?s
      = (None, x # ?s)" "go_type x = TClusterComplianceDetailReport"
    using types by (simp add: createComplianceDetailReport_def sample_compliance_reads(3) mem_Create_def same_id_def
        cluster_object_def Let_def)
  have get: "mem_Get (x # ?s) TClusterComplianceReport (compliance_key sample_compliance) = Inr sample_compliance_report"
    using d(2) sample_compliance_reads(1) by (simp add: mem_Get_Cons)
  obtain y where y: "createComplianceReport mem_client now sample_compliance (getTotals ?ccs) ?ccs (x # ?s) = Inr y"
      "same_id y sample_compliance_report"
    using types get by (simp add: createComplianceReport_def same_id_def key_of_def Let_def)
  then show ?thesis using res d(1)
    by (simp add: GenerateComplianceReport_def Let_def mem_Update_def)
qed

theorem compliance_report_stored_witness:
  "\<exists>s' y st. GenerateComplianceReport rev mem_client Map.empty 7 sample_compliance sample_compliance_state = (None, s') \<and>
     cl_Get mem_client s' TClusterComplianceReport (compliance_key sample_compliance) = Inr y \<and>
     report_status (o_Body y) = Some st \<and> st_UpdateTimestamp st = 7"
proof -
  obtain s' where run: "GenerateComplianceReport rev mem_client Map.empty 7 sample_compliance sample_compliance_state = (None, s')"
    using sample_generated by blast
  from compliance_report_stored [OF mem_laws mem_law_status perm_order_rev sample_compliance_ok
      sample_compliance_reads(1) [folded mem_client_sel] sample_compliance_reads(2) run]
  show ?thesis using run unfolding Let_def by blast
qed

text \<open>
  C11. Compliance reports follow their schedule: before the report's next time the reconciler changes
  nothing and asks to be called again after a positive delay, at whose end the time has come; at that time it generates
  the report, and after a successful generation another call at the same time waits for the time
  that follows. (The schedule's next time lies after the time it is asked for, and the report was not created
  in the future.)
\<close>

theorem compliance_follows_schedule:
  assumes "api_laws (ccr_Client r)" and "law_status (ccr_Client r)"
    and "cl_Get (ccr_Client r) s TClusterComplianceReport (compliance_key spec) = Inr report" and "report_spec (o_Body report) = spec"
    and "ccr_cron r (rs_Cron spec) = Inr nxt" and "\<And>t. t < nxt t" and "om_CreationTimestamp (o_Meta report) \<le> now"
  shows "if nxt (reportLastUpdatedTime report) \<le> now
    then \<forall>s'. GenerateComplianceReport (ccr_order r) (ccr_Client r) (ccr_ConfigData r) now spec s = (None, s') \<longrightarrow>
      generateComplianceReport r now (compliance_key spec) s = (Inr no_requeue, s') \<and>
      (\<exists>d > 0. generateComplianceReport r now (compliance_key spec) s' = (Inr \<lparr>RequeueAfter = d\<rparr>, s'))
    else \<exists>d > 0. generateComplianceReport r now (compliance_key spec) s = (Inr \<lparr>RequeueAfter = d\<rparr>, s) \<and>
      (nxt (reportLastUpdatedTime report) - now \<le> int64_max \<longrightarrow> nxt (reportLastUpdatedTime report) \<le> now + d)"
proof -
  let ?c = "ccr_Client r" and ?k = "compliance_key spec"
  have wait: "generateComplianceReport r now ?k s1 = (Inr \<lparr>RequeueAfter = Time_Sub (nxt (reportLastUpdatedTime x)) now\<rparr>, s1) \<and>
      0 < Time_Sub (nxt (reportLastUpdatedTime x)) now"
    if "cl_Get ?c s1 TClusterComplianceReport ?k = Inr x" "report_spec (o_Body x) = spec" "now < nxt (reportLastUpdatedTime x)" for s1 x
  proof -
    have pos: "0 < Time_Sub (nxt (reportLastUpdatedTime x)) now" using that(3) by (simp flip: not_le)
    then have "compliance_attempt r now ?k s1 = ((None, Time_Sub (nxt (reportLastUpdatedTime x)) now), s1)"
      using that assms(5)
      by (simp add: compliance_attempt_def NextCronDuration_def timeToExpiration_def DurationExceeded_def)
    then show ?thesis using pos by (simp add: generateComplianceReport_def RetryOnConflict.simps)
  qed
  show ?thesis
  proof (cases "nxt (reportLastUpdatedTime report) \<le> now")
    case True
    have "generateComplianceReport r now ?k s = (Inr no_requeue, s') \<and>
        (\<exists>d > 0. generateComplianceReport r now ?k s' = (Inr \<lparr>RequeueAfter = d\<rparr>, s'))"
      if gen: "GenerateComplianceReport (ccr_order r) ?c (ccr_ConfigData r) now spec s = (None, s')" for s'
    proof -
      obtain y st where y: "cl_Get ?c s' TClusterComplianceReport ?k = Inr y" "report_status (o_Body y) = Some st"
          "st_UpdateTimestamp st = now" "report_spec (o_Body y) = spec"
          "om_CreationTimestamp (o_Meta y) = om_CreationTimestamp (o_Meta report)"
        by (rule generate_ok [OF assms(1-4) gen])
      have "report_status_time (o_Body y) = now" using y(2,3) by (cases "o_Body y") auto
      then have "reportLastUpdatedTime y = now" using y(5) assms(7) by (simp add: reportLastUpdatedTime_def)
      then have "\<exists>d > 0. generateComplianceReport r now ?k s' = (Inr \<lparr>RequeueAfter = d\<rparr>, s')"
        using wait [OF y(1,4)] assms(6) [of now] by auto
      moreover have "compliance_attempt r now ?k s = ((None, 0), s')"
        using assms(3-5) True gen
        by (simp add: compliance_attempt_def NextCronDuration_def timeToExpiration_def DurationExceeded_def)
      ultimately show ?thesis by (simp add: generateComplianceReport_def RetryOnConflict.simps no_requeue_def)
    qed
    then show ?thesis using True by simp
  next
    case False
    then show ?thesis using wait [OF assms(3,4)] Time_Sub_exact [of "nxt (reportLastUpdatedTime report)" now]
      by (auto simp: int64_max_def)
  qed
qed

definition sample_compliance_reconciler :: "Object list ComplianceReconciler" where
  "sample_compliance_reconciler = \<lparr>ccr_Client = mem_client, ccr_ConfigData = Map.empty, ccr_order = rev,
     ccr_cron = (\<lambda>_. Inr (\<lambda>t. t + 3600 * Second))\<rparr>"

theorem compliance_follows_schedule_witness:
  "\<exists>s'. generateComplianceReport sample_compliance_reconciler (3600 * Second) (compliance_key sample_compliance) sample_compliance_state
     = (Inr no_requeue, s')"
proof -
  let ?r = sample_compliance_reconciler
  have c: "ccr_Client ?r = mem_client" "ccr_order ?r = rev" "ccr_ConfigData ?r = Map.empty"
    "ccr_cron ?r (rs_Cron sample_compliance) = Inr (\<lambda>t. t + 3600 * Second)"
    by (simp_all add: sample_compliance_reconciler_def)
  have t: "reportLastUpdatedTime sample_compliance_report = 0" "om_CreationTimestamp (o_Meta sample_compliance_report) = 0"
    by (simp_all add: reportLastUpdatedTime_def sample_compliance_report_def cluster_object_def empty_meta_def)
  obtain s' where gen: "GenerateComplianceReport rev mem_client Map.empty (3600 * Second) sample_compliance sample_compliance_state = (None, s')"
    using sample_generated by blast
  from compliance_follows_schedule [of ?r, unfolded c, OF mem_laws mem_law_status
      sample_compliance_reads(1) [folded mem_client_sel] sample_compliance_reads(2) c(4), of "3600 * Second"]
  show ?thesis using gen t by (auto simp: Second_def)
qed

end
