(* ===== verification/Operator.thy ===== *)
theory Operator
  imports Job_Pool Config_Audit_Plugin Kube_Bench Compliance
begin

text \<open>
  The operator as a whole (\<^verbatim>\<open>pkg/operator/operator.go\<close>): which controllers \<open>Start\<close> registers, and how they run side
  by side. Every controller has one worker, so calls of one controller follow each other while calls
  of different controllers interleave. The step relation \<open>op_step\<close> keeps the two halves of a scheduling reconciler
  apart: the worker first decides, from what it reads, to scan an object, and submits the job in a later
  step, before or after steps of the others. All controllers share the client, the settings and the limit checker.
\<close>

section \<open>Start-up\<close>

text \<open>
  The namespaces of the client's cache: \<open>None\<close> is the whole cluster, the empty name stands for
  cluster-scoped objects. (\<^verbatim>\<open>targetNamespaces[0]\<close> exists, since the mode has a target.)
\<close>

definition cache_namespaces :: "Config \<Rightarrow> error + string list option" where
  "cache_namespaces config =
     (case ResolveInstallMode config of
        Inl e \<Rightarrow> Inl (Wrap ''resolving install mode'' e)
      | Inr (mode, operatorNamespace, targetNamespaces) \<Rightarrow>
          (let cached = targetNamespaces @ [operatorNamespace] @
                 (if cfg_CISKubernetesBenchmarkEnabled config then [[]] else []) in
           case mode of
             OwnNamespace \<Rightarrow> Inr (Some [hd targetNamespaces])
           | SingleNamespace \<Rightarrow> Inr (Some cached)
           | MultiNamespace \<Rightarrow> Inr (Some cached)
           | AllNamespaces \<Rightarrow> Inr None))"

text \<open>The controllers, those per kind with their kind.\<close>

datatype worker =
    WorkloadWorker Kind | WorkloadJobs
  | TTLReport
  | ResourceWorker Kind | AuditJobs | PluginsConfig Kind
  | NodeWorker | BenchJobs
  | BuiltInResource Kind | PoliciesConfig Kind | ClusterPoliciesConfig Kind
  | ComplianceWorker

record 's operator =
  op_Client :: "'s client"
  op_Config :: Config
  op_ConfigData :: ConfigData
  op_workloads :: "'s WorkloadController"
  op_audits :: "'s ConfigAuditReportReconciler"
  op_plugins :: "'s PluginsConfigReconciler"
  op_nodes :: "'s CISKubeBenchReportReconciler"
  op_resources :: "'s ResourceController"
  op_compliance :: "'s ComplianceReconciler"
  op_fmul :: "nat \<Rightarrow> nat \<Rightarrow> nat \<Rightarrow> nat"

definition start_workers :: "'s operator \<Rightarrow> worker list" where
  "start_workers op =
     (let config = op_Config op in
      (if cfg_VulnerabilityScannerEnabled config
       then map WorkloadWorker workload_kinds @ [WorkloadJobs] @
         (if cfg_VulnerabilityScannerReportTTL config \<noteq> None then [TTLReport] else [])
       else []) @
      (if cfg_ConfigAuditScannerEnabled config
       then map ResourceWorker (watched_kinds (op_audits op)) @ [AuditJobs] @
         map PluginsConfig (ap_SupportedKinds (pcr_Plugin (op_plugins op)))
       else []) @
      (if cfg_CISKubernetesBenchmarkEnabled config then [NodeWorker, BenchJobs] else []) @
      (if cfg_ConfigAuditScannerBuiltIn config
       then concat (map (\<lambda>k. [BuiltInResource k, PoliciesConfig k]) audit_kinds) @
         concat (map (\<lambda>k. [BuiltInResource k, ClusterPoliciesConfig k]) audit_cluster_kinds)
       else []) @
      (if cfg_ClusterComplianceEnabled config then [ComplianceWorker] else []))"

text \<open>The workers that may submit a scan job.\<close>

fun schedules :: "worker \<Rightarrow> bool" where
  "schedules (WorkloadWorker _) = True"
| "schedules (ResourceWorker _) = True"
| "schedules NodeWorker = True"
| "schedules _ = False"

definition schedulers :: "'s operator \<Rightarrow> worker list" where
  "schedulers op = filter schedules (start_workers op)"

section \<open>Running\<close>

fun decide :: "'s operator \<Rightarrow> worker \<Rightarrow> ObjectKey \<Rightarrow> 's \<Rightarrow> decision" where
  "decide op (WorkloadWorker kind) req s = workload_decision (op_workloads op) kind req s"
| "decide op (ResourceWorker kind) req s = audit_decision (op_audits op) kind req s"
| "decide op NodeWorker req s = node_decision (op_nodes op) req s"
| "decide op _ req s = Inl (Inr no_requeue)"

fun submit :: "'s operator \<Rightarrow> worker \<Rightarrow> Object \<Rightarrow> 's \<Rightarrow> error option \<times> 's" where
  "submit op (WorkloadWorker _) obj s = submitScanJob (op_workloads op) obj s"
| "submit op (ResourceWorker _) obj s = audit_submitScanJob (op_audits op) obj s"
| "submit op NodeWorker obj s = node_submitScanJob (op_nodes op) obj s"
| "submit op _ obj s = (None, s)"

text \<open>
  The workers whose calls are one step; the time is the clock's. (The last equation is for the scheduling workers,
  which the step relation never runs this way.)
\<close>

fun run :: "'s operator \<Rightarrow> Time \<Rightarrow> worker \<Rightarrow> ObjectKey \<Rightarrow> 's \<Rightarrow> (error + Result) \<times> 's" where
  "run op now WorkloadJobs req s = reconcileJobs (op_workloads op) req s"
| "run op now AuditJobs req s = audit_reconcileJobs (op_audits op) req s"
| "run op now BenchJobs req s = bench_reconcileJobs (op_nodes op) req s"
| "run op now TTLReport req s = reconcileReport (op_Client op) (op_fmul op) now req s"
| "run op now (PluginsConfig kind) req s = plugin_config_reconciler (op_plugins op) kind req s"
| "run op now (BuiltInResource kind) req s = reconcileResource (op_resources op) kind req s"
| "run op now (PoliciesConfig kind) req s = reconcileConfig (op_resources op) kind req s"
| "run op now (ClusterPoliciesConfig kind) req s = reconcileClusterConfig (op_resources op) kind req s"
| "run op now ComplianceWorker req s = generateComplianceReport (op_compliance op) now req s"
| "run op now _ req s = (Inr no_requeue, s)"

text \<open>What is running: the cluster, and for each worker the object it has decided to scan.\<close>

type_synonym 's running = "'s \<times> (worker \<rightharpoonup> Object)"

abbreviation scan_jobs :: "'s operator \<Rightarrow> 's \<Rightarrow> ObjectKey set" where
  "scan_jobs op \<equiv> scan_job_keys (op_Client op) (op_Config op) (op_ConfigData op)"

inductive op_step :: "'s operator \<Rightarrow> 's running \<Rightarrow> 's running \<Rightarrow> bool" for op where
  decided: "w \<in> set (schedulers op) \<Longrightarrow> pend w = None \<Longrightarrow> decide op w req s = Inr obj \<Longrightarrow>
    op_step op (s, pend) (s, pend(w \<mapsto> obj))"
| submitted: "pend w = Some obj \<Longrightarrow> submit op w obj s = (err, s') \<Longrightarrow>
    op_step op (s, pend) (s', pend(w := None))"
| processed: "w \<in> set (start_workers op) \<Longrightarrow> \<not> schedules w \<Longrightarrow> run op now w req s = (res, s') \<Longrightarrow>
    op_step op (s, pend) (s', pend)"
| environment: "scan_jobs op s' \<subseteq> scan_jobs op s \<Longrightarrow> op_step op (s, pend) (s', pend)"

inductive_cases op_stepE: "op_step op (s, pend) (s', pend')"

text \<open>Start-up wires all controllers to one client, one configuration and one limit.\<close>

definition op_ok :: "'s operator \<Rightarrow> bool" where
  "op_ok op \<longleftrightarrow>
     workload_ok (op_workloads op) \<and> wc_Client (op_workloads op) = op_Client op \<and>
     wc_Config (op_workloads op) = op_Config op \<and> wc_ConfigData (op_workloads op) = op_ConfigData op \<and>
     audit_ok (op_audits op) \<and> car_Client (op_audits op) = op_Client op \<and>
     car_Config (op_audits op) = op_Config op \<and> car_ConfigData (op_audits op) = op_ConfigData op \<and>
     bench_ok (op_nodes op) \<and> kbc_Client (op_nodes op) = op_Client op \<and>
     kbc_Config (op_nodes op) = op_Config op \<and> kbc_ConfigData (op_nodes op) = op_ConfigData op \<and>
     plugin_cleaner_ok (op_plugins op) \<and> pcr_Client (op_plugins op) = op_Client op \<and>
     cleaner_ok (op_resources op) \<and> rc_Client (op_resources op) = op_Client op \<and>
     law_status (op_Client op) \<and> ccr_Client (op_compliance op) = op_Client op"

section \<open>What a step does to the scan jobs\<close>

lemma decide_below:
  assumes "op_ok op" and "decide op w req s = Inr obj"
  shows "int (card (scan_jobs op s)) < cfg_ConcurrentScanJobsLimit (op_Config op)"
  using assms workload_scheduler.decided_below [of "op_workloads op" "(_, req)" s obj]
    audit_scheduler.decided_below [of "op_audits op" "(_, req)" s obj]
    bench_scheduler.decided_below [of "op_nodes op" req s obj]
  by (cases w) (auto simp: op_ok_def)

lemma submit_one:
  assumes "op_ok op" and "submit op w obj s = (err, s')"
  shows "\<exists>k. scan_jobs op s' \<subseteq> insert k (scan_jobs op s)"
  using assms workload_scheduler.submit_adds_key [of "op_workloads op" obj s err s']
    audit_scheduler.submit_adds_key [of "op_audits op" obj s err s']
    bench_scheduler.submit_adds_key [of "op_nodes op" obj s err s']
  by (cases w) (auto simp: op_ok_def)

lemma same_jobs: "(\<And>k. cl_Get c s' TJob k = cl_Get c s TJob k) \<Longrightarrow> scan_job_keys c cfg d s' = scan_job_keys c cfg d s"
  by (simp add: scan_job_keys_def)

lemma ttl_jobs:
  assumes "api_laws c" and "reconcileReport c fmul now req s = (res, s')"
  shows "cl_Get c s' TJob k = cl_Get c s TJob k"
proof (cases "cl_Get c s TVulnerabilityReport req")
  case (Inl e)
  then show ?thesis using assms(2) by (auto simp: reconcileReport_def split: if_splits)
next
  case (Inr x)
  note typed = get_typed [OF assms(1) Inr]
  have "s' = s \<or> s' = snd (cl_Delete c s x)"
    using assms(2) Inr
    by (auto simp: reconcileReport_def Let_def split: option.splits sum.splits prod.splits if_splits)
       (metis snd_conv snd_finish snd_ignore_err)+
  moreover have "cl_Get c (snd (cl_Delete c s x)) TJob k = cl_Get c s TJob k"
    using typed delete_ok(2) [OF assms(1), of s x] failed_write(4) [OF assms(1), of s x]
    by (cases "cl_Delete c s x"; cases "fst (cl_Delete c s x)") (auto simp: only_changes_def)
  ultimately show ?thesis by auto
qed

lemma resource_jobs:
  assumes "api_laws (rc_Client r)" and "reconcileResource r kind req s = (res, s')"
  shows "cl_Get (rc_Client r) s' TJob k = cl_Get (rc_Client r) s TJob k"
proof -
  have "s' = s \<or> (\<exists>b. s' = snd (AuditReportBuilder_Write (rc_env r) (rc_SetControllerReference r) (rc_Client r) b s))"
    using assms(2)
    by (auto simp: reconcileResource_def Let_def split: sum.splits if_splits bool.splits)
       (metis snd_conv snd_finish)+
  then show ?thesis using AuditReportBuilder_Write_jobs [OF assms(1)] by auto
qed

lemma run_no_new_jobs:
  assumes "op_ok op" and "run op now w req s = (res, s')"
  shows "scan_jobs op s' \<subseteq> scan_jobs op s"
proof -
  have laws: "api_laws (op_Client op)" using assms(1) by (auto simp: op_ok_def bench_ok_def)
  have kept: "scan_jobs op s' = scan_jobs op s" if "\<And>k. cl_Get (op_Client op) s' TJob k = cl_Get (op_Client op) s TJob k"
    using that by (rule same_jobs)
  show ?thesis
  proof (cases w)
    case WorkloadJobs
    then show ?thesis using assms workload_jobs.no_new_jobs [of "op_workloads op" req s res s'] by (auto simp: op_ok_def)
  next
    case AuditJobs
    then show ?thesis using assms audit_jobs.no_new_jobs [of "op_audits op" req s res s'] by (auto simp: op_ok_def)
  next
    case BenchJobs
    then show ?thesis using assms bench_jobs.no_new_jobs [of "op_nodes op" req s res s'] by (auto simp: op_ok_def)
  next
    case TTLReport
    then have "reconcileReport (op_Client op) (op_fmul op) now req s = (res, s')" using assms(2) by simp
    from kept [OF ttl_jobs [OF laws this]] show ?thesis by simp
  next
    case (BuiltInResource kind)
    then have "reconcileResource (op_resources op) kind req s = (res, s')" and c: "rc_Client (op_resources op) = op_Client op"
      using assms by (auto simp: op_ok_def)
    from kept [OF resource_jobs [OF _ this(1), unfolded c, OF laws]] show ?thesis by simp
  next
    case (PluginsConfig kind)
    then have "plugin_config_reconciler (op_plugins op) kind req s = (res, s')" using assms(2) by simp
    then have "cl_Get (op_Client op) s' TJob k = cl_Get (op_Client op) s TJob k" for k
      using assms(1) plugin_cleaner.other_types [of "op_plugins op" kind req s res s' TJob k]
        cluster_plugin_cleaner.other_types [of "op_plugins op" kind req s res s' TJob k]
      by (auto simp: plugin_config_reconciler_def op_ok_def split: if_splits)
    from kept [OF this] show ?thesis by simp
  next
    case (PoliciesConfig kind)
    then have "cl_Get (op_Client op) s' TJob k = cl_Get (op_Client op) s TJob k" for k
      using assms policy_cleaner.other_types [of "op_resources op" kind req s res s' TJob k] by (auto simp: op_ok_def)
    from kept [OF this] show ?thesis by simp
  next
    case (ClusterPoliciesConfig kind)
    then have "cl_Get (op_Client op) s' TJob k = cl_Get (op_Client op) s TJob k" for k
      using assms cluster_policy_cleaner.other_types [of "op_resources op" kind req s res s' TJob k] by (auto simp: op_ok_def)
    from kept [OF this] show ?thesis by simp
  next
    case ComplianceWorker
    have st: "law_status (op_Client op)" "ccr_Client (op_compliance op) = op_Client op" using assms(1) by (simp_all add: op_ok_def)
    have "generateComplianceReport (op_compliance op) now req s = (res, s')" using ComplianceWorker assms(2) by simp
    from kept [OF compliance_jobs [OF _ _ this, unfolded st(2), OF laws st(1)]] show ?thesis by simp
  qed (use assms(2) in auto)
qed

section \<open>The operator as a pool of jobs\<close>

text \<open>The jobs in the cluster, and a ticket for each decision that waits for its job.\<close>

definition pool_of :: "'s operator \<Rightarrow> 's running \<Rightarrow> (ObjectKey, worker) pool" where
  "pool_of op x = (scan_jobs op (fst x), dom (snd x))"

lemma op_step_refines:
  assumes ok: "op_ok op" and step: "op_step op x y"
  shows "pool_step (cfg_ConcurrentScanJobsLimit (op_Config op)) (set (schedulers op)) (pool_of op x) (pool_of op y)"
  using step
proof cases
  case (decided w pend req s obj)
  then show ?thesis using decide_below [OF ok decided(5)] by (auto simp: pool_of_def intro: pool_step.take)
next
  case (submitted pend w obj s err s')
  then obtain k where "scan_jobs op s' \<subseteq> insert k (scan_jobs op s)" using submit_one [OF ok] by blast
  then show ?thesis using submitted by (auto simp: pool_of_def intro!: pool_step.add)
next
  case (processed w now req s res s' pend)
  then show ?thesis using run_no_new_jobs [OF ok processed(5)] by (auto simp: pool_of_def intro: pool_step.remove)
next
  case (environment s' s pend)
  then show ?thesis by (auto simp: pool_of_def intro: pool_step.remove)
qed

lemma op_steps_refine:
  assumes "op_ok op" and "(op_step op)\<^sup>*\<^sup>* x y"
  shows "(pool_step (cfg_ConcurrentScanJobsLimit (op_Config op)) (set (schedulers op)))\<^sup>*\<^sup>* (pool_of op x) (pool_of op y)"
  using assms(2) by (induction rule: rtranclp_induct) (auto dest: op_step_refines [OF assms(1)])

section \<open>A run that passes the limit\<close>

text \<open>Two workers that decide before either submits, with a limit of one.\<close>

definition race_config :: Config where
  "race_config = sample_config\<lparr>cfg_ConcurrentScanJobsLimit := 1, cfg_ConfigAuditScannerEnabled := True,
     cfg_ConfigAuditScannerBuiltIn := False\<rparr>"

definition race_operator :: "Object list operator" where
  "race_operator = \<lparr>op_Client = mem_client, op_Config = race_config, op_ConfigData = sample_bench_config,
     op_workloads = sample_controller\<lparr>wc_Config := race_config, wc_ConfigData := sample_bench_config\<rparr>,
     op_audits = sample_audit_controller\<lparr>car_Config := race_config, car_ConfigData := sample_bench_config\<rparr>,
     op_plugins = \<lparr>pcr_Config = race_config, pcr_Client = mem_client, pcr_PluginContext = sample_context,
       pcr_Plugin = sample_audit_plugin\<rparr>,
     op_nodes = (sample_bench_controller [])\<lparr>kbc_Config := race_config\<rparr>,
     op_resources = sample_resource_controller, op_compliance = sample_compliance_reconciler, op_fmul = (\<lambda>_ _ _. 0)\<rparr>"

abbreviation race_start :: "Object list" where
  "race_start \<equiv> [sample_pod, sample_node]"

lemma race_ok: "op_ok race_operator"
proof -
  have hash: "hash_of_config mem_client sample_audit_plugin"
    unfolding hash_of_config_def by (intro allI impI) (simp (no_asm) add: sample_audit_plugin_def)
  have "workload_ok (op_workloads race_operator)"
    by (simp add: workload_ok_def race_operator_def sample_controller_def mem_laws plugin_typed_def sample_plugin_def)
  moreover have "audit_ok (op_audits race_operator)"
    by (simp add: audit_ok_def race_operator_def sample_audit_controller_def mem_laws audit_plugin_typed_def sample_audit_plugin_def)
  moreover have "bench_ok (op_nodes race_operator)"
    by (simp add: bench_ok_def race_operator_def sample_bench_controller_def mem_laws)
  moreover have "plugin_cleaner_ok (op_plugins race_operator)"
    by (simp add: plugin_cleaner_ok_def race_operator_def mem_laws hash
        race_config_def sample_config_def default_Config_def)
  moreover have "cleaner_ok (op_resources race_operator)"
    by (simp add: cleaner_ok_def race_operator_def mem_laws sample_config_def default_Config_def)
  ultimately show ?thesis
    by (simp add: op_ok_def)
       (simp add: race_operator_def sample_controller_def sample_audit_controller_def sample_bench_controller_def
         sample_compliance_reconciler_def mem_law_status)
qed

lemma race_schedulers: "ResourceWorker KindPod \<in> set (schedulers race_operator)" "NodeWorker \<in> set (schedulers race_operator)"
proof -
  have "cfg_ConfigAuditScannerEnabled (op_Config race_operator)" "cfg_CISKubernetesBenchmarkEnabled (op_Config race_operator)"
    by (simp_all add: race_operator_def race_config_def sample_config_def default_Config_def)
  moreover have "supportsKind (op_audits race_operator) KindPod"
    by (simp add: supportsKind_def race_operator_def sample_audit_controller_def sample_audit_plugin_def)
  then have "KindPod \<in> set (watched_kinds (op_audits race_operator))" by (simp add: watched_kinds_def plugin_kinds_def)
  ultimately show "ResourceWorker KindPod \<in> set (schedulers race_operator)" "NodeWorker \<in> set (schedulers race_operator)"
    unfolding schedulers_def start_workers_def Let_def by simp_all
qed

lemma race_reads:
  "mem_Get race_start TPod \<lparr>key_Namespace = ''prod'', key_Name = ''web''\<rparr> = Inr sample_pod"
  "mem_Get race_start TNode \<lparr>key_Namespace = [], key_Name = ''worker''\<rparr> = Inr sample_node"
  "t \<noteq> TPod \<Longrightarrow> t \<noteq> TNode \<Longrightarrow> mem_Get race_start t k = Inl NotFound"
  "t \<noteq> TPod \<Longrightarrow> t \<noteq> TNode \<Longrightarrow> lo_Limit opts = None \<Longrightarrow> mem_List race_start (Some t) opts = Inr []"
  by (simp_all add: mem_Get_def mem_List_def Let_def sample_pod_def sample_node_def key_of_def empty_meta_def same_id_def)

lemma race_limit: "LimitChecker_Check mem_client race_config sample_bench_config race_start = Inr (False, 0)"
  by (simp add: LimitChecker_Check_def countScanJobs_def race_reads scan_jobs_options_def race_config_def
      sample_config_def default_Config_def)

lemma race_decide_pod:
  "decide race_operator (ResourceWorker KindPod) \<lparr>key_Namespace = ''prod'', key_Name = ''web''\<rparr> race_start = Inr sample_pod"
proof -
  let ?req = "\<lparr>key_Namespace = ''prod'', key_Name = ''web''\<rparr>" let ?r = "op_audits race_operator"
  have c: "car_Client ?r = mem_client" "car_env ?r = sample_env" "car_Plugin ?r = sample_audit_plugin"
    "car_Config ?r = race_config" "car_ConfigData ?r = sample_bench_config"
    by (simp_all add: race_operator_def sample_audit_controller_def)
  have ref: "ObjectRefFromKindAndObjectKey KindPod ?req = ref_of sample_pod"
    by (simp add: ObjectRefFromKindAndObjectKey_def ref_of_def sample_pod_def)
  have own: "ObjectFromObjectRef mem_client race_start (ref_of sample_pod) = Inr sample_pod"
    using race_reads(1) by (simp add: ObjectFromObjectRef_def ref_of_def sample_pod_def ensureGVK_def)
  have skip: "\<not> skip_resource KindPod sample_pod"
    by (simp add: skip_resource_def kube_simps GetControllerOf_def sample_pod_def empty_meta_def IsBuiltInWorkload_def)
  obtain h where h: "ComputeSpecHash sample_env sample_pod = Inr h"
    by (simp add: ComputeSpecHash_def GetPodSpec_def sample_pod_def Let_def)
  have kind: "report_type (ref_Kind (ref_of sample_pod)) = TConfigAuditReport"
    by (simp add: report_type_def ref_of_def sample_pod_def IsClusterScopedKind_def kube_simps)
  have "lo_Limit (report_options sample_env (ref_of sample_pod)) = None"
    by (simp add: report_options_def owner_options_def cluster_owner_options_def)
  then have has: "hasReport sample_env mem_client race_start (ref_of sample_pod) h ph = Inr False" for ph
    by (simp add: hasReport_options kind race_reads first_item_def report_current_def)
  have act: "audit_hasActiveScanJob ?r race_start sample_pod h = Inr None"
    by (simp add: audit_hasActiveScanJob_def c race_reads)
  have plugin: "ap_IsApplicable (sample_audit_plugin :: Object list AuditPlugin) ctx s x = Inr (True, [])"
    "ap_ConfigHash (sample_audit_plugin :: Object list AuditPlugin) ctx s k = Inr ''c0ffee''" for ctx s x k
    by (simp_all add: sample_audit_plugin_def)
  show ?thesis by (simp add: audit_decision_def ref c own skip plugin h has act race_limit)
qed

lemma race_decide_node:
  "decide race_operator NodeWorker \<lparr>key_Namespace = [], key_Name = ''worker''\<rparr> race_start = Inr sample_node"
  using race_limit
  by (simp add: node_decision_def race_operator_def sample_bench_controller_def race_reads bench_hasReport_def
      KubeBench_FindByOwner_def hasScanJob_def)

lemma race_submit_pod:
  "\<exists>j. submit race_operator (ResourceWorker KindPod) sample_pod race_start = (None, j # race_start) \<and> go_type j = TJob \<and>
     key_of j = \<lparr>key_Namespace = ''starboard'', key_Name = audit_GetScanJobName sample_env sample_pod\<rparr> \<and>
     om_Labels (o_Meta j) LabelK8SAppManagedBy = Some AppStarboard"
proof -
  let ?r = "op_audits race_operator"
  obtain b where b: "audit_job_builder ?r sample_pod = Inr b" "asb_plugin b = sample_audit_plugin"
      "asb_pluginContext b = sample_context" "asb_object b = sample_pod"
    by (simp add: audit_job_builder_def race_operator_def sample_audit_controller_def GetScanJobTolerations_def
        GetScanJobAnnotations_def GetScanJobPodTemplateLabels_def parse_pairs_def sample_bench_config_def label_simps)
  have spec: "GetPodSpec sample_pod = Inr sample_podspec" by (simp add: sample_pod_def GetPodSpec_def)
  have plugin: "ap_GetScanJobSpec (sample_audit_plugin :: Object list AuditPlugin) ctx s x = Inr (empty_PodSpec, [])"
    "ap_ConfigHash (sample_audit_plugin :: Object list AuditPlugin) ctx s k = Inr ''c0ffee''" for ctx s x k
    by (simp_all add: sample_audit_plugin_def)
  obtain h where h: "ComputeSpecHash sample_env sample_pod = Inr h"
    by (simp add: ComputeSpecHash_def GetPodSpec_def sample_pod_def Let_def)
  obtain j where j: "AuditScanJobBuilder_Get sample_env b race_start = Inr (j, [])" "go_type j = TJob"
      "key_of j = \<lparr>key_Namespace = ''starboard'', key_Name = audit_GetScanJobName sample_env sample_pod\<rparr>"
      "om_Labels (o_Meta j) LabelK8SAppManagedBy = Some AppStarboard"
    by (simp add: AuditScanJobBuilder_Get_def b(2-4) plugin h key_of_def ObjectToObjectMeta_other ref_label_keys_def
        sample_context_def Let_def)
  have "\<forall>y \<in> set race_start. \<not> same_id j y" using j(2) by (simp add: same_id_def sample_pod_def sample_node_def)
  then show ?thesis using b(1) j
    by (simp add: audit_submitScanJob_def create_scan_job_def race_operator_def sample_audit_controller_def mem_Create_def)
qed

lemma race_submit_node:
  assumes "go_type j = TJob" and "key_of j = \<lparr>key_Namespace = ''starboard'', key_Name = audit_GetScanJobName sample_env sample_pod\<rparr>"
  shows "\<exists>j'. submit race_operator NodeWorker sample_node (j # race_start) = (None, j' # j # race_start) \<and>
     go_type j' = TJob \<and> key_of j' \<noteq> key_of j \<and> om_Namespace (o_Meta j') = ''starboard'' \<and>
     om_Labels (o_Meta j') LabelK8SAppManagedBy = Some AppStarboard"
proof -
  let ?r = "op_nodes race_operator"
  obtain j' where j': "newScanJob ?r sample_node = Inr j'"
    by (simp add: newScanJob_def race_operator_def sample_bench_controller_def kubeBenchPlugin_def KubeBench_GetScanJobSpec_def
        GetKubeBenchImageRef_def GetRequiredData_def sample_bench_config_def GetScanJobTolerations_def
        GetScanJobAnnotations_def GetScanJobPodTemplateLabels_def parse_pairs_def label_simps)
  note job = newScanJob_Inr [OF j']
  have ns: "key_Namespace (key_of j') = ''starboard''"
    by (simp add: job(3) race_operator_def race_config_def sample_config_def)
  have ne: "key_of j' \<noteq> key_of j" by (simp add: job(3) assms(2) getScanJobName_def audit_GetScanJobName_def)
  then have "\<forall>y \<in> set (j # race_start). \<not> same_id j' y"
    using job(1) by (auto simp: same_id_def sample_pod_def sample_node_def)
  then have "submit race_operator NodeWorker sample_node (j # race_start) = (None, j' # j # race_start)"
    using j' by (simp add: node_submitScanJob_def race_operator_def mem_Create_def sample_bench_controller_def)
  moreover have "om_Labels (o_Meta j') LabelK8SAppManagedBy = Some AppStarboard"
    by (simp add: job(2) bench_labels_def label_simps)
  ultimately show ?thesis using job(1) ne ns by (intro exI [of _ j']) (simp add: key_of_def)
qed

lemma race_run:
  "\<exists>s. (op_step race_operator)\<^sup>*\<^sup>* (race_start, Map.empty) (s, Map.empty) \<and> card (scan_jobs race_operator s) = 2"
proof -
  let ?op = race_operator and ?p = "ResourceWorker KindPod"
  obtain j where j: "submit ?op ?p sample_pod race_start = (None, j # race_start)" "go_type j = TJob"
      "key_of j = \<lparr>key_Namespace = ''starboard'', key_Name = audit_GetScanJobName sample_env sample_pod\<rparr>"
      "om_Labels (o_Meta j) LabelK8SAppManagedBy = Some AppStarboard"
    using race_submit_pod by blast
  obtain j' where j': "submit ?op NodeWorker sample_node (j # race_start) = (None, j' # j # race_start)"
      "go_type j' = TJob" "key_of j' \<noteq> key_of j" "om_Namespace (o_Meta j') = ''starboard''"
      "om_Labels (o_Meta j') LabelK8SAppManagedBy = Some AppStarboard"
    using race_submit_node [OF j(2,3)] by blast
  let ?s = "j' # j # race_start"
  have 1: "op_step ?op (race_start, Map.empty) (race_start, [?p \<mapsto> sample_pod])"
    by (rule op_step.decided [OF race_schedulers(1) _ race_decide_pod]) simp
  have 2: "op_step ?op (race_start, [?p \<mapsto> sample_pod]) (race_start, [?p \<mapsto> sample_pod, NodeWorker \<mapsto> sample_node])"
    by (rule op_step.decided [OF race_schedulers(2) _ race_decide_node]) simp
  have 3: "op_step ?op (race_start, [?p \<mapsto> sample_pod, NodeWorker \<mapsto> sample_node]) (j # race_start, [NodeWorker \<mapsto> sample_node])"
    using op_step.submitted [of "[?p \<mapsto> sample_pod, NodeWorker \<mapsto> sample_node]" ?p, OF _ j(1)] by (simp add: fun_upd_twist)
  have 4: "op_step ?op (j # race_start, [NodeWorker \<mapsto> sample_node]) (?s, Map.empty)"
    using op_step.submitted [of "[NodeWorker \<mapsto> sample_node]" NodeWorker, OF _ j'(1)] by simp
  have run: "(op_step ?op)\<^sup>*\<^sup>* (race_start, Map.empty) (?s, Map.empty)"
    using 1 2 3 4 by (meson converse_rtranclp_into_rtranclp rtranclp.rtrancl_refl)
  have ns: "om_Namespace (o_Meta j) = ''starboard''" using j(3) by (simp add: key_of_def)
  have sel: "selected (scan_jobs_options race_config sample_bench_config) x"
    if "om_Namespace (o_Meta x) = ''starboard''" "om_Labels (o_Meta x) LabelK8SAppManagedBy = Some AppStarboard" for x
    using that by (simp add: selected_def scan_jobs_options_def race_config_def sample_config_def
        VulnerabilityScanJobsInSameNamespace_def sample_bench_config_def label_simps)
  have "k \<in> scan_jobs ?op ?s \<longleftrightarrow> k \<in> {key_of j, key_of j'}" for k
    using j(2) j'(2,3) sel [OF ns j(4)] sel [OF j'(4,5)] race_reads(3) [of TJob k]
    by (auto simp: scan_job_keys_def mem_Get_Cons race_operator_def)
  then have "scan_jobs ?op ?s = {key_of j, key_of j'}" by blast
  then have "card (scan_jobs ?op ?s) = 2" using j'(3) by simp
  with run show ?thesis by blast
qed

section \<open>Properties\<close>

text \<open>
  C6. However the controllers interleave, the number of scan jobs stays below the limit plus the number of
  workers that schedule scans: from a start with no scan under way, every reachable state has at
  most that many jobs less one, or as many as there were at the start. With a single scheduling worker the limit is kept.
\<close>

theorem scan_jobs_bounded:
  assumes "op_ok op" and "(op_step op)\<^sup>*\<^sup>* (s0, Map.empty) (s, pend)" and "finite (scan_jobs op s0)"
  shows "int (card (scan_jobs op s)) \<le>
    max (int (card (scan_jobs op s0)))
        (cfg_ConcurrentScanJobsLimit (op_Config op) + int (card (set (schedulers op))) - 1)"
  using pool_bounded op_steps_refine [OF assms(1,2)] assms(3) by (fastforce simp: pool_of_def)

theorem scan_jobs_bounded_witness:
  "\<exists>s. (op_step race_operator)\<^sup>*\<^sup>* (race_start, Map.empty) (s, Map.empty) \<and>
     2 \<le> max 0 (int (card (set (schedulers race_operator))))"
proof -
  obtain s where run: "(op_step race_operator)\<^sup>*\<^sup>* (race_start, Map.empty) (s, Map.empty)"
    and two: "card (scan_jobs race_operator s) = 2"
    using race_run by blast
  have none: "scan_jobs race_operator race_start = {}" by (simp add: scan_job_keys_def race_operator_def race_reads)
  have "cfg_ConcurrentScanJobsLimit (op_Config race_operator) = 1" by (simp add: race_operator_def race_config_def)
  with scan_jobs_bounded [OF race_ok run] none two run show ?thesis by auto
qed

text \<open>
  C7. The operator implements the pool of jobs: whatever its controllers and the rest of the cluster do, in any interleaving, every step is
  a step of the pool, where a worker takes a ticket only if there is room under the limit, uses it to add at most one job, and everything
  else only removes jobs.
\<close>

theorem operator_refines_job_pool:
  assumes "op_ok op" and "(op_step op)\<^sup>*\<^sup>* x y"
  shows "(pool_step (cfg_ConcurrentScanJobsLimit (op_Config op)) (set (schedulers op)))\<^sup>*\<^sup>*
    (scan_jobs op (fst x), dom (snd x)) (scan_jobs op (fst y), dom (snd y))"
  using op_steps_refine [OF assms] by (simp add: pool_of_def)

theorem operator_refines_job_pool_witness:
  "\<exists>jobs :: ObjectKey set. card jobs = 2 \<and> (pool_step 1 (set (schedulers race_operator)))\<^sup>*\<^sup>* ({}, {}) (jobs, {})"
proof -
  obtain s where run: "(op_step race_operator)\<^sup>*\<^sup>* (race_start, Map.empty) (s, Map.empty)"
    and two: "card (scan_jobs race_operator s) = 2"
    using race_run by blast
  have "scan_jobs race_operator race_start = {}" by (simp add: scan_job_keys_def race_operator_def race_reads)
  moreover have "cfg_ConcurrentScanJobsLimit (op_Config race_operator) = 1" by (simp add: race_operator_def race_config_def)
  ultimately show ?thesis
    using operator_refines_job_pool [OF race_ok run] two by (intro exI [of _ "scan_jobs race_operator s"]) simp
qed

text \<open>
  C29. The limit on concurrent scan jobs is not strict: two workers that count the jobs before either has
  created one both go ahead, so that the jobs exceed the limit although there were none at the start.
\<close>

theorem limit_can_be_exceeded:
  "\<exists>op s0 s. op_ok (op :: Object list operator) \<and> scan_jobs op s0 = {} \<and>
     (op_step op)\<^sup>*\<^sup>* (s0, Map.empty) (s, Map.empty) \<and>
     cfg_ConcurrentScanJobsLimit (op_Config op) < int (card (scan_jobs op s))"
proof -
  obtain s where "(op_step race_operator)\<^sup>*\<^sup>* (race_start, Map.empty) (s, Map.empty)" "card (scan_jobs race_operator s) = 2"
    using race_run by blast
  moreover have "scan_jobs race_operator race_start = {}" by (simp add: scan_job_keys_def race_operator_def race_reads)
  moreover have "cfg_ConcurrentScanJobsLimit (op_Config race_operator) = 1" by (simp add: race_operator_def race_config_def)
  ultimately show ?thesis using race_ok by (intro exI [of _ race_operator] exI [of _ race_start] exI [of _ s]) simp
qed

end
