(* ===== verification/Go_Float.thy ===== *)
theory Go_Float
  imports Json_Decode
begin

text \<open>
  Reading a JSON number into a \<^verbatim>\<open>float64\<close> or \<^verbatim>\<open>float32\<close>: the number of the type closest to the decimal, ties to even, as its bits.
  Scores are the only numbers of these types in the program, and they are only copied.
\<close>

definition digits_int :: "string \<Rightarrow> int" where
  "digits_int = foldl (\<lambda>n c. 10 * n + int (digit_val c)) 0"

text \<open>The number \<open>m * 10 ^ e\<close> of a token: digits before and after the point and the exponent.\<close>

definition decimal :: "string \<Rightarrow> bool \<times> int \<times> int" where
  "decimal t =
     (let (neg, s) = (if t \<noteq> [] \<and> hd t = CHR ''-'' then (True, tl t) else (False, t));
          whole = takeWhile is_digit s; r = dropWhile is_digit s;
          (frac, r') = (if r \<noteq> [] \<and> hd r = CHR ''.'' then (takeWhile is_digit (tl r), dropWhile is_digit (tl r))
                        else ([], r));
          ex = (case r' of
                  [] \<Rightarrow> 0
                | _ # x \<Rightarrow> if x \<noteq> [] \<and> hd x = CHR ''-'' then - digits_int (tl x)
                          else if x \<noteq> [] \<and> hd x = CHR ''+'' then digits_int (tl x)
                          else digits_int x)
      in (neg, digits_int (whole @ frac), ex - int (length frac)))"

definition round_even :: "int \<Rightarrow> int \<Rightarrow> int" where
  "round_even a b =
     (let q = a div b; r = a mod b
      in if 2 * r < b \<or> (2 * r = b \<and> even q) then q else q + 1)"

text \<open>The position of the highest bit of a positive number.\<close>

function high_bit :: "int \<Rightarrow> nat" where
  "high_bit n = (if n \<le> 1 then 0 else Suc (high_bit (n div 2)))"
  by auto
termination by (relation "measure nat") auto

declare high_bit.simps [simp del]

text \<open>
  The bits of \<open>a / b\<close> for positive numbers, in a format with \<open>p\<close> explicit bits of significand: with the exponent \<open>k\<close> of
  the leading bit, never below that of the subnormal numbers, the significand is \<open>a / b * 2 ^ (p - k)\<close> rounded. The hidden bit
  and a carry of the rounding add up with the exponent field.
\<close>

definition ratio_bits :: "int \<Rightarrow> int \<Rightarrow> int \<Rightarrow> int \<Rightarrow> int" where
  "ratio_bits p bias a b =
     (let k0 = int (high_bit a) - int (high_bit b);
          k1 = (if a * 2 ^ nat (- k0) < b * 2 ^ nat k0 then k0 - 1 else k0);
          k = max k1 (1 - bias);
          q = round_even (a * 2 ^ nat (p - k)) (b * 2 ^ nat (k - p))
      in (k + bias - 1) * 2 ^ nat p + q)"

definition ParseFloat :: "string \<Rightarrow> error + 64 word" where
  "ParseFloat t =
     (let (neg, m, e) = decimal t;
          bits = (if m = 0 then 0 else ratio_bits 52 1023 (m * 10 ^ nat e) (10 ^ nat (- e)))
      in if bits \<ge> 2047 * 2 ^ 52 then Inl (Errorf ''value out of range'')
         else Inr (of_int (bits + (if neg then 2 ^ 63 else 0))))"

definition ParseFloat32 :: "string \<Rightarrow> error + 32 word" where
  "ParseFloat32 t =
     (let (neg, m, e) = decimal t;
          bits = (if m = 0 then 0 else ratio_bits 23 127 (m * 10 ^ nat e) (10 ^ nat (- e)))
      in if bits \<ge> 255 * 2 ^ 23 then Inl (Errorf ''value out of range'')
         else Inr (of_int (bits + (if neg then 2 ^ 31 else 0))))"

section \<open>Exactness\<close>

text \<open>Rounding errs by at most half a unit.\<close>

lemma round_even_near:
  assumes "b > 0"
  shows "2 * \<bar>a - b * round_even a b\<bar> \<le> b"
proof -
  define p r where "p = b * (a div b)" and "r = a mod b"
  have a: "a = p + r" and lt: "0 \<le> r" "r < b" using assms by (simp_all add: p_def r_def)
  have "b * round_even a b = p \<and> 2 * r \<le> b \<or> b * round_even a b = p + b \<and> b \<le> 2 * r"
    by (auto simp: round_even_def Let_def p_def r_def algebra_simps)
  then show ?thesis using a lt by (elim disjE conjE) simp_all
qed

lemma high_bit_bounds: "n > 0 \<Longrightarrow> 2 ^ high_bit n \<le> n \<and> n < 2 * 2 ^ high_bit n"
proof (induction n rule: high_bit.induct)
  case (1 n)
  show ?case
  proof (cases "n \<le> 1")
    case True
    then show ?thesis using 1 by (simp add: high_bit.simps [of n])
  next
    case False
    then have IH: "2 ^ high_bit (n div 2) \<le> n div 2 \<and> n div 2 < 2 * 2 ^ high_bit (n div 2)" using 1 by simp
    have "high_bit n = Suc (high_bit (n div 2))" using False by (simp add: high_bit.simps [of n])
    then show ?thesis using IH by simp linarith
  qed
qed

end
