(* ===== verification/Plugin_Common.thy ===== *)
theory Plugin_Common
  imports Go_Float Vulnerability_Report Config_Audit
begin

text \<open>
  What the scanner plugins of \<^verbatim>\<open>pkg/plugin\<close> share: the resource requirements of a scan container, environment
  variables that come from a config map or a secret, and parsed image references. The parser of image
  references (\<^verbatim>\<open>go-containerregistry\<close>) and that of resource quantities (\<^verbatim>\<open>k8s.io/apimachinery\<close>) are outside
  the repository and are parameters; so is the identifier generator, as the sequence of identifiers it gives.
\<close>

record Reference =
  nr_Name :: string
  nr_RegistryStr :: string
  nr_RepositoryStr :: string
  nr_Identifier :: ImageRef

record plugin_env =
  pe_env :: env
  pe_ParseReference :: "string \<Rightarrow> error + Reference"
  pe_ParseQuantity :: "string \<Rightarrow> error + string"
  pe_GenerateID :: "nat \<Rightarrow> string"
  pe_Now :: Time
  pe_order :: order

definition version_of :: "plugin_env \<Rightarrow> string \<Rightarrow> error + string" where
  "version_of P = GetVersionFromImageRef (\<lambda>i. map_sum (\<lambda>e. e) nr_Identifier (pe_ParseReference P i))"

text \<open>\<open>strings.TrimPrefix\<close>.\<close>

definition TrimPrefix :: "string \<Rightarrow> string \<Rightarrow> string" where
  "TrimPrefix s p = (if HasPrefix s p then drop (length p) s else s)"

text \<open>The same two functions stand in every plugin, over its own keys.\<close>

definition setResourceLimit :: "plugin_env \<Rightarrow> PluginConfig \<Rightarrow> string \<Rightarrow> strmap \<Rightarrow> string \<Rightarrow> error + strmap" where
  "setResourceLimit P config configKey k8sResourceList k8sResourceName =
     (case map_of (pc_Data config) configKey of
        None \<Rightarrow> Inr k8sResourceList
      | Some value \<Rightarrow>
          (case pe_ParseQuantity P value of
             Inl e \<Rightarrow> Inl (Wrap (''parsing resource definition '' @ configKey @ '': '' @ value) e)
           | Inr quantity \<Rightarrow> Inr (k8sResourceList(k8sResourceName \<mapsto> quantity))))"

definition resource_requirements :: "plugin_env \<Rightarrow> PluginConfig \<Rightarrow> string \<Rightarrow> error + ResourceRequirements" where
  "resource_requirements P config prefix =
     (case setResourceLimit P config (prefix @ ''requests.cpu'') Map.empty ''cpu'' of
        Inl e \<Rightarrow> Inl e
      | Inr requests1 \<Rightarrow>
          (case setResourceLimit P config (prefix @ ''requests.memory'') requests1 ''memory'' of
             Inl e \<Rightarrow> Inl e
           | Inr requests \<Rightarrow>
               (case setResourceLimit P config (prefix @ ''limits.cpu'') Map.empty ''cpu'' of
                  Inl e \<Rightarrow> Inl e
                | Inr limits1 \<Rightarrow>
                    (case setResourceLimit P config (prefix @ ''limits.memory'') limits1 ''memory'' of
                       Inl e \<Rightarrow> Inl e
                     | Inr limits \<Rightarrow> Inr \<lparr>rr_Requests = requests, rr_Limits = limits\<rparr>))))"

definition constructEnvVarSourceFromConfigMap :: "string \<Rightarrow> string \<Rightarrow> string \<Rightarrow> EnvVar" where
  "constructEnvVarSourceFromConfigMap envName configName configKey =
     \<lparr>ev_Name = envName, ev_Value = EnvConfigMapKey configName configKey (Some True)\<rparr>"

definition constructEnvVarSourceFromSecret :: "string \<Rightarrow> string \<Rightarrow> string \<Rightarrow> EnvVar" where
  "constructEnvVarSourceFromSecret envName secretName key =
     \<lparr>ev_Name = envName, ev_Value = EnvSecretKey secretName key (Some True)\<rparr>"

definition LinuxNodeAffinity :: "(string \<times> string \<times> string list) list" where
  "LinuxNodeAffinity = [(''kubernetes.io/os'', ''In'', [''linux''])]"

text \<open>The unprivileged security context of the scan containers.\<close>

definition unprivileged :: SecurityContext where
  "unprivileged = \<lparr>sx_Privileged = Some False, sx_AllowPrivilegeEscalation = Some False,
     sx_AddCapabilities = [], sx_DropCapabilities = [''all''], sx_ReadOnlyRootFilesystem = Some True,
     sx_RunAsUser = None\<rparr>"

definition empty_PodSecurityContext :: PodSecurityContext where
  "empty_PodSecurityContext = \<lparr>psx_RunAsUser = None, psx_RunAsGroup = None, psx_SeccompProfile = None\<rparr>"

section \<open>References to secrets\<close>

text \<open>A reference to a secret's key that is not optional keeps the pod from starting if the key is missing.\<close>

definition required_secret :: "EnvVar \<Rightarrow> (string \<times> string) option" where
  "required_secret v = (case ev_Value v of
     EnvSecretKey name key opt \<Rightarrow> if opt = Some True then None else Some (name, key) | _ \<Rightarrow> None)"

definition required_secrets :: "PodSpec \<Rightarrow> (string \<times> string) set" where
  "required_secrets spec = {r. \<exists>co \<in> set (ps_InitContainers spec @ ps_Containers spec). \<exists>v \<in> set (co_Env co).
     required_secret v = Some r}"

lemma required_secret_optional [simp]:
  "required_secret (constructEnvVarSourceFromConfigMap n m k) = None"
  "required_secret (constructEnvVarSourceFromSecret n m k) = None"
  "required_secret \<lparr>ev_Name = n, ev_Value = EnvText t\<rparr> = None"
  by (simp_all add: required_secret_def constructEnvVarSourceFromConfigMap_def constructEnvVarSourceFromSecret_def)

lemma list_all2_mem: "list_all2 R xs ys \<Longrightarrow> y \<in> set ys \<Longrightarrow> \<exists>x \<in> set xs. R x y"
  by (induction rule: list_all2_induct) auto

text \<open>
  The data of the secret with pull credentials: the two entries of a container that has credentials, whatever the
  other containers are called, since one suffix is no suffix of the other.
\<close>

lemma aggregated_lookup:
  assumes "map_of credentials n = Some auth" and "n \<in> fst ` set images" and "perm_order ord"
    and "distinct (map fst images)"
  shows "map_of (AggregateImagePullSecretsData ord images credentials) (n @ ''.username'') = Some (au_Username auth)"
    and "map_of (AggregateImagePullSecretsData ord images credentials) (n @ ''.password'') = Some (au_Password auth)"
proof -
  let ?step = "\<lambda>secretData (containerName, _). case map_of credentials containerName of None \<Rightarrow> secretData
    | Some dockerAuth \<Rightarrow> AList.update (containerName @ ''.password'') (au_Password dockerAuth)
        (AList.update (containerName @ ''.username'') (au_Username dockerAuth) secretData)"
  have ne: "m @ ''.username'' \<noteq> k @ ''.password''" for m k :: string
  proof
    assume "m @ ''.username'' = k @ ''.password''"
    then have "rev (m @ ''.username'') = rev (k @ ''.password'')" by simp
    then show False by simp
  qed
  have fold: "map_of (foldl ?step acc xs) (n @ ''.username'')
        = (if n \<in> fst ` set xs then Some (au_Username auth) else map_of acc (n @ ''.username'')) \<and>
      map_of (foldl ?step acc xs) (n @ ''.password'')
        = (if n \<in> fst ` set xs then Some (au_Password auth) else map_of acc (n @ ''.password''))" for acc xs
  proof (induction xs arbitrary: acc)
    case (Cons x xs)
    obtain m i where "x = (m, i)" by fastforce
    then show ?case
      using Cons assms(1) ne ne [symmetric] by (auto simp: map_of_update split: option.splits)
  qed simp
  have "n \<in> fst ` set (range_map ord images)"
    using assms(2) range_map_keys [OF assms(3,4)] by simp
  then show "map_of (AggregateImagePullSecretsData ord images credentials) (n @ ''.username'') = Some (au_Username auth)"
    and "map_of (AggregateImagePullSecretsData ord images credentials) (n @ ''.password'') = Some (au_Password auth)"
    using fold [of "[]" "range_map ord images"] by (simp_all add: AggregateImagePullSecretsData_def)
qed

section \<open>The contract of a vulnerability scanner\<close>

text \<open>
  What the controller relies on: the pod of a scan has one container for every container of the workload, under the
  same name, since the handler of a finished job reads the logs by these names; and every key of a
  secret that the pod cannot start without is in one of the secrets that come with it.
\<close>

definition has_key :: "Object list \<Rightarrow> string \<times> string \<Rightarrow> bool" where
  "has_key secrets r \<longleftrightarrow>
     (\<exists>x \<in> set secrets. om_Name (o_Meta x) = fst r \<and> map_of (config_data (o_Body x)) (snd r) \<noteq> None)"

locale image_scanner =
  fixes ok :: "'p \<Rightarrow> bool"
    and spec_of :: "'p \<Rightarrow> PluginContext \<Rightarrow> 's \<Rightarrow> Object \<Rightarrow> Auth gomap \<Rightarrow> error + (PodSpec \<times> Object list)"
  assumes same_names: "spec_of p ctx s obj credentials = Inr (pod, secrets) \<Longrightarrow> GetPodSpec obj = Inr spec \<Longrightarrow>
      map co_Name (ps_Containers pod) = map co_Name (ps_Containers spec)"
    and keys_given: "ok p \<Longrightarrow> spec_of p ctx s obj credentials = Inr (pod, secrets) \<Longrightarrow> r \<in> required_secrets pod \<Longrightarrow>
      has_key secrets r"
    and secrets_typed: "spec_of p ctx s obj credentials = Inr (pod, secrets) \<Longrightarrow> x \<in> set secrets \<Longrightarrow> go_type x = TSecret"
begin

lemma plugin_is_typed: "pl_GetScanJobSpec pl = spec_of p \<Longrightarrow> plugin_typed pl"
  using secrets_typed by (auto simp: plugin_typed_def)

text \<open>A job that the builder makes can start in its namespace and scans exactly the annotated containers.\<close>

lemma job_can_start:
  assumes "pl_GetScanJobSpec (sjb_plugin b) = spec_of p" and "ScanJobBuilder_Get E b s = Inr (job, secrets)"
  shows "\<exists>images. GetContainerImagesFromJob job = Inr images \<and>
      set (map co_Name (ps_Containers (pt_Spec (js_Template (job_spec (o_Body job)))))) = fst ` set images"
    and "ok p \<Longrightarrow> r \<in> required_secrets (pt_Spec (js_Template (job_spec (o_Body job)))) \<Longrightarrow>
      \<exists>x \<in> set secrets. om_Namespace (o_Meta x) = om_Namespace (o_Meta job) \<and> om_Name (o_Meta x) = fst r \<and>
        map_of (config_data (o_Body x)) (snd r) \<noteq> None"
proof -
  obtain spec where spec: "GetPodSpec (sjb_object b) = Inr spec"
    using assms(2) by (cases "GetPodSpec (sjb_object b)") (simp_all add: ScanJobBuilder_Get_def)
  obtain pod secrets0 where pod: "spec_of p (sjb_pluginContext b) s (sjb_object b) (sjb_credentials b) = Inr (pod, secrets0)"
    using assms spec by (auto simp: ScanJobBuilder_Get_def split: sum.splits)
  let ?tpl = "pt_Spec (js_Template (job_spec (o_Body job)))"
  have shape: "ps_Containers ?tpl = ps_Containers pod \<and> ps_InitContainers ?tpl = ps_InitContainers pod \<and>
      secrets = map (set_namespace (om_Namespace (o_Meta job))) secrets0"
    using assms spec pod
    by (auto simp: ScanJobBuilder_Get_def AsJSON_def updateScanJobForWorkloadNamespace_def Let_def set_namespace_def
        split: if_splits)
  obtain images where im: "GetContainerImagesFromJob job = Inr images"
    "map_of images = map_of (GetContainerImagesFromPodSpec spec)"
    using scan_job_metadata [OF assms(2) spec] by auto
  have "fst ` set images = fst ` set (GetContainerImagesFromPodSpec spec)"
    using im(2) by (metis dom_map_of_conv_image_fst)
  then show "\<exists>images. GetContainerImagesFromJob job = Inr images \<and>
      set (map co_Name (ps_Containers ?tpl)) = fst ` set images"
    using im(1) shape same_names [OF pod spec] GetContainerImages_keys [of spec]
    by (metis list.set_map)
  show "\<exists>x \<in> set secrets. om_Namespace (o_Meta x) = om_Namespace (o_Meta job) \<and> om_Name (o_Meta x) = fst r \<and>
      map_of (config_data (o_Body x)) (snd r) \<noteq> None" if ok: "ok p" and r: "r \<in> required_secrets ?tpl"
  proof -
    have "r \<in> required_secrets pod" using r shape by (simp add: required_secrets_def)
    then obtain x where "x \<in> set secrets0" "om_Name (o_Meta x) = fst r" "map_of (config_data (o_Body x)) (snd r) \<noteq> None"
      using keys_given [OF ok pod, of r] unfolding has_key_def by blast
    then show ?thesis
      using shape by (intro bexI [of _ "set_namespace (om_Namespace (o_Meta job)) x"]) (auto simp: set_namespace_def)
  qed
qed

end

section \<open>The contract of a configuration audit scanner\<close>

text \<open>
  The pod has the container whose logs the handler of a finished job reads, and the secrets that are mounted into it come
  with it: in the namespace of the scan jobs, and with all mounted keys.
\<close>

definition volume_given :: "string \<Rightarrow> Object list \<Rightarrow> Volume \<Rightarrow> bool" where
  "volume_given ns secrets v \<longleftrightarrow> (case vo_Source v of
     SecretVolume name items \<Rightarrow> \<exists>x \<in> set secrets. om_Namespace (o_Meta x) = ns \<and> om_Name (o_Meta x) = name \<and>
       (\<forall>i \<in> set items. map_of (config_data (o_Body x)) (fst i) \<noteq> None)
   | _ \<Rightarrow> True)"

locale audit_scanner =
  fixes ok :: "'p \<Rightarrow> bool"
    and spec_of :: "'p \<Rightarrow> PluginContext \<Rightarrow> 's \<Rightarrow> Object \<Rightarrow> error + (PodSpec \<times> Object list)"
    and container :: string
  assumes has_container: "spec_of p ctx s obj = Inr (pod, secrets) \<Longrightarrow> container \<in> co_Name ` set (ps_Containers pod)"
    and volumes_given: "ok p \<Longrightarrow> spec_of p ctx s obj = Inr (pod, secrets) \<Longrightarrow> v \<in> set (ps_Volumes pod) \<Longrightarrow>
      volume_given (px_namespace ctx) secrets v"
    and secrets_typed: "spec_of p ctx s obj = Inr (pod, secrets) \<Longrightarrow> x \<in> set secrets \<Longrightarrow> go_type x = TSecret"
begin

lemma plugin_is_typed: "ap_GetScanJobSpec pl = spec_of p \<Longrightarrow> audit_plugin_typed pl"
  using secrets_typed by (auto simp: audit_plugin_typed_def)

lemma job_can_start:
  assumes "ap_GetScanJobSpec (asb_plugin b) = spec_of p" and "AuditScanJobBuilder_Get E b s = Inr (job, secrets)"
  defines "pod \<equiv> pt_Spec (js_Template (job_spec (o_Body job)))"
  shows "container \<in> co_Name ` set (ps_Containers pod)"
    and "ok p \<Longrightarrow> v \<in> set (ps_Volumes pod) \<Longrightarrow> volume_given (om_Namespace (o_Meta job)) secrets v"
proof -
  obtain pod0 secrets0 where pod0: "spec_of p (asb_pluginContext b) s (asb_object b) = Inr (pod0, secrets0)"
    using assms(1,2) by (auto simp: AuditScanJobBuilder_Get_def split: sum.splits)
  obtain f where shape: "ps_Containers pod = ps_Containers pod0" "ps_Volumes pod = ps_Volumes pod0"
      "om_Namespace (o_Meta job) = px_namespace (asb_pluginContext b)" "secrets = map f secrets0"
      "\<And>x. om_Namespace (o_Meta (f x)) = om_Namespace (o_Meta x) \<and> om_Name (o_Meta (f x)) = om_Name (o_Meta x) \<and>
        o_Body (f x) = o_Body x"
    using assms(1,2) pod0 unfolding pod_def
    by (fastforce simp: AuditScanJobBuilder_Get_def Let_def split: sum.splits)
  show "container \<in> co_Name ` set (ps_Containers pod)" using has_container [OF pod0] shape by simp
  show "volume_given (om_Namespace (o_Meta job)) secrets v" if v: "ok p" "v \<in> set (ps_Volumes pod)"
    using volumes_given [OF v(1) pod0 v(2) [unfolded shape(2)]] shape
    by (simp add: volume_given_def split: VolumeSource.splits)
qed

end

text \<open>A concrete environment, for examples.\<close>

definition sample_plugin_env :: plugin_env where
  "sample_plugin_env = \<lparr>pe_env = sample_env,
     pe_ParseReference = (\<lambda>i. Inr \<lparr>nr_Name = ''index.docker.io/'' @ i, nr_RegistryStr = ''index.docker.io'',
       nr_RepositoryStr = i, nr_Identifier = ImageTag ''1''\<rparr>),
     pe_ParseQuantity = Inr, pe_GenerateID = show_nat, pe_Now = 7, pe_order = rev\<rparr>"

end
