(* ===== verification/Trivy.thy ===== *)
theory Trivy
  imports Plugin_Common
begin

text \<open>
  The Trivy plugin (\<^verbatim>\<open>pkg/plugin/trivy\<close>): its settings, the pods that scan a workload's images in the two modes of
  the image command and in the filesystem command, and the reading of Trivy's output. A loop
  over the containers of the workload is \<open>map_err\<close>, which stops at the first error as the code does. A nil
  pointer in the output makes the code panic; here it is an error of its own.
\<close>

section \<open>Settings\<close>

definition trivy_Plugin :: string where "trivy_Plugin = ''Trivy''"

definition keyTrivyImageRef :: string where "keyTrivyImageRef = ''trivy.imageRef''"
definition keyTrivyMode :: string where "keyTrivyMode = ''trivy.mode''"
definition keyTrivyCommand :: string where "keyTrivyCommand = ''trivy.command''"
definition keyTrivySeverity :: string where "keyTrivySeverity = ''trivy.severity''"
definition keyTrivyIgnoreUnfixed :: string where "keyTrivyIgnoreUnfixed = ''trivy.ignoreUnfixed''"
definition keyTrivyTimeout :: string where "keyTrivyTimeout = ''trivy.timeout''"
definition keyTrivyIgnoreFile :: string where "keyTrivyIgnoreFile = ''trivy.ignoreFile''"
definition keyTrivyInsecureRegistryPrefix :: string where
  "keyTrivyInsecureRegistryPrefix = ''trivy.insecureRegistry.''"
definition keyTrivyNonSslRegistryPrefix :: string where "keyTrivyNonSslRegistryPrefix = ''trivy.nonSslRegistry.''"
definition keyTrivyMirrorPrefix :: string where "keyTrivyMirrorPrefix = ''trivy.registry.mirror.''"
definition keyTrivyHTTPProxy :: string where "keyTrivyHTTPProxy = ''trivy.httpProxy''"
definition keyTrivyHTTPSProxy :: string where "keyTrivyHTTPSProxy = ''trivy.httpsProxy''"
definition keyTrivyNoProxy :: string where "keyTrivyNoProxy = ''trivy.noProxy''"
definition keyTrivyGitHubToken :: string where "keyTrivyGitHubToken = ''trivy.githubToken''"
definition keyTrivySkipFiles :: string where "keyTrivySkipFiles = ''trivy.skipFiles''"
definition keyTrivySkipDirs :: string where "keyTrivySkipDirs = ''trivy.skipDirs''"
definition keyTrivyDBRepository :: string where "keyTrivyDBRepository = ''trivy.dbRepository''"
definition keyTrivyServerURL :: string where "keyTrivyServerURL = ''trivy.serverURL''"
definition keyTrivyServerTokenHeader :: string where "keyTrivyServerTokenHeader = ''trivy.serverTokenHeader''"
definition keyTrivyServerInsecure :: string where "keyTrivyServerInsecure = ''trivy.serverInsecure''"
definition keyTrivyServerToken :: string where "keyTrivyServerToken = ''trivy.serverToken''"
definition keyTrivyServerCustomHeaders :: string where
  "keyTrivyServerCustomHeaders = ''trivy.serverCustomHeaders''"
definition trivy_resources :: string where "trivy_resources = ''trivy.resources.''"
definition defaultDBRepository :: string where "defaultDBRepository = ''ghcr.io/aquasecurity/trivy-db''"

lemmas trivy_keys = keyTrivyImageRef_def keyTrivyMode_def keyTrivyCommand_def keyTrivySeverity_def
  keyTrivyTimeout_def keyTrivyIgnoreFile_def keyTrivyInsecureRegistryPrefix_def keyTrivyNonSslRegistryPrefix_def
  keyTrivyMirrorPrefix_def keyTrivyDBRepository_def keyTrivyServerURL_def keyTrivyServerInsecure_def
  keyTrivyIgnoreUnfixed_def trivy_resources_def

type_synonym Mode = string
type_synonym Command = string

definition Standalone :: Mode where "Standalone = ''Standalone''"
definition ClientServer :: Mode where "ClientServer = ''ClientServer''"
definition Filesystem :: Command where "Filesystem = ''filesystem''"
definition ImageCmd :: Command where "ImageCmd = ''image''"

lemmas trivy_modes = Standalone_def ClientServer_def Filesystem_def ImageCmd_def

definition trivy_GetImageRef :: "PluginConfig \<Rightarrow> error + string" where
  "trivy_GetImageRef c = PluginConfig_GetRequiredData c keyTrivyImageRef"

definition GetMode :: "PluginConfig \<Rightarrow> error + Mode" where
  "GetMode c =
     (case map_of (pc_Data c) keyTrivyMode of
        None \<Rightarrow> Inl (Errorf (''property '' @ keyTrivyMode @ '' not set''))
      | Some value \<Rightarrow>
          if value = Standalone then Inr Standalone
          else if value = ClientServer then Inr ClientServer
          else Inl (Errorf (''invalid value ('' @ value @ '') of '' @ keyTrivyMode)))"

definition trivy_GetCommand :: "PluginConfig \<Rightarrow> error + Command" where
  "trivy_GetCommand c =
     (case map_of (pc_Data c) keyTrivyCommand of
        None \<Rightarrow> Inr ImageCmd
      | Some value \<Rightarrow>
          if value = ImageCmd then Inr ImageCmd
          else if value = Filesystem then Inr Filesystem
          else Inl (Errorf (''invalid value ('' @ value @ '') of '' @ keyTrivyCommand)))"

definition GetServerURL :: "PluginConfig \<Rightarrow> error + string" where
  "GetServerURL c = PluginConfig_GetRequiredData c keyTrivyServerURL"

definition GetServerInsecure :: "PluginConfig \<Rightarrow> bool" where
  "GetServerInsecure c = (map_of (pc_Data c) keyTrivyServerInsecure \<noteq> None)"

definition IgnoreFileExists :: "PluginConfig \<Rightarrow> bool" where
  "IgnoreFileExists c = (map_of (pc_Data c) keyTrivyIgnoreFile \<noteq> None)"

definition IgnoreUnfixed :: "PluginConfig \<Rightarrow> bool" where
  "IgnoreUnfixed c = (map_of (pc_Data c) keyTrivyIgnoreUnfixed \<noteq> None)"

text \<open>Both maps of registries collect the values of the keys with a prefix.\<close>

definition registries :: "string \<Rightarrow> order \<Rightarrow> PluginConfig \<Rightarrow> bool gomap" where
  "registries prefix ord c =
     foldl (\<lambda>m (key, val). if HasPrefix key prefix then AList.update val True m else m) [] (range_map ord (pc_Data c))"

definition GetInsecureRegistries :: "order \<Rightarrow> PluginConfig \<Rightarrow> bool gomap" where
  "GetInsecureRegistries = registries keyTrivyInsecureRegistryPrefix"

definition GetNonSSLRegistries :: "order \<Rightarrow> PluginConfig \<Rightarrow> bool gomap" where
  "GetNonSSLRegistries = registries keyTrivyNonSslRegistryPrefix"

definition GetMirrors :: "order \<Rightarrow> PluginConfig \<Rightarrow> string gomap" where
  "GetMirrors ord c =
     foldl (\<lambda>res (registryKey, mirror).
         if \<not> HasPrefix registryKey keyTrivyMirrorPrefix then res
         else AList.update (TrimPrefix registryKey keyTrivyMirrorPrefix) mirror res) [] (range_map ord (pc_Data c))"

definition trivy_GetResourceRequirements :: "plugin_env \<Rightarrow> PluginConfig \<Rightarrow> error + ResourceRequirements" where
  "trivy_GetResourceRequirements P c = resource_requirements P c trivy_resources"

definition GetDBRepository :: "PluginConfig \<Rightarrow> error + string" where
  "GetDBRepository c = PluginConfig_GetRequiredData c keyTrivyDBRepository"

definition trivy_defaults :: "string gomap" where
  "trivy_defaults = [(keyTrivyImageRef, ''docker.io/aquasec/trivy:0.25.2''),
      (keyTrivySeverity, ''UNKNOWN,LOW,MEDIUM,HIGH,CRITICAL''), (keyTrivyMode, Standalone),
      (keyTrivyTimeout, ''5m0s''), (keyTrivyDBRepository, defaultDBRepository),
      (trivy_resources @ ''requests.cpu'', ''100m''), (trivy_resources @ ''requests.memory'', ''100M''),
      (trivy_resources @ ''limits.cpu'', ''500m''), (trivy_resources @ ''limits.memory'', ''500M'')]"

definition trivy_Init :: "'s client \<Rightarrow> PluginContext \<Rightarrow> 's \<Rightarrow> error option \<times> 's" where
  "trivy_Init c ctx = EnsureConfig c ctx trivy_defaults"

section \<open>Parts of the pods\<close>

definition newSecretWithAggregateImagePullCredentials ::
    "plugin_env \<Rightarrow> Object \<Rightarrow> PodSpec \<Rightarrow> Auth gomap \<Rightarrow> Object" where
  "newSecretWithAggregateImagePullCredentials P obj spec credentials =
     \<lparr>o_Kind = [], o_Meta = empty_meta\<lparr>om_Name := RegistryCredentialsSecretName (pe_env P) obj\<rparr>,
      o_Body = Secret [] (AggregateImagePullSecretsData (pe_order P) (GetContainerImagesFromPodSpec spec) credentials)\<rparr>"

definition tmpVolumeName :: string where "tmpVolumeName = ''tmp''"
definition ignoreFileVolumeName :: string where "ignoreFileVolumeName = ''ignorefile''"
definition FsSharedVolumeName :: string where "FsSharedVolumeName = ''starboard''"
definition SharedVolumeLocationOfTrivy :: string where "SharedVolumeLocationOfTrivy = ''/var/starboard/trivy''"

definition trivyConfigName :: string where "trivyConfigName = GetPluginConfigMapName trivy_Plugin"

abbreviation cm_env :: "string \<Rightarrow> string \<Rightarrow> EnvVar" where
  "cm_env name key \<equiv> constructEnvVarSourceFromConfigMap name trivyConfigName key"

abbreviation secret_env :: "string \<Rightarrow> string \<Rightarrow> EnvVar" where
  "secret_env name key \<equiv> constructEnvVarSourceFromSecret name trivyConfigName key"

abbreviation text_env :: "string \<Rightarrow> string \<Rightarrow> EnvVar" where
  "text_env name t \<equiv> \<lparr>ev_Name = name, ev_Value = EnvText t\<rparr>"

definition ignore_volume :: Volume where
  "ignore_volume = \<lparr>vo_Name = ignoreFileVolumeName,
     vo_Source = ConfigMapVolume trivyConfigName [(keyTrivyIgnoreFile, ''.trivyignore'')]\<rparr>"

definition ignore_mount :: "string \<Rightarrow> VolumeMount" where
  "ignore_mount path = \<lparr>vm_Name = ignoreFileVolumeName, vm_MountPath = path, vm_SubPath = ''.trivyignore'',
     vm_ReadOnly = False\<rparr>"

text \<open>The user name and password of a container's registry, from the secret made for the scan job.\<close>

definition registry_env :: "string \<Rightarrow> Auth gomap \<Rightarrow> string \<Rightarrow> EnvVar list" where
  "registry_env secretName credentials container =
     (if map_of credentials container \<noteq> None \<and> length credentials > 0
      then [\<lparr>ev_Name = ''TRIVY_USERNAME'', ev_Value = EnvSecretKey secretName (container @ ''.username'') None\<rparr>,
            \<lparr>ev_Name = ''TRIVY_PASSWORD'', ev_Value = EnvSecretKey secretName (container @ ''.password'') None\<rparr>]
      else [])"

definition appendTrivyInsecureEnv ::
    "plugin_env \<Rightarrow> PluginConfig \<Rightarrow> string \<Rightarrow> EnvVar list \<Rightarrow> error + EnvVar list" where
  "appendTrivyInsecureEnv P config img ev =
     (case pe_ParseReference P img of
        Inl e \<Rightarrow> Inl e
      | Inr ref \<Rightarrow>
          Inr (if map_of (GetInsecureRegistries (pe_order P) config) (nr_RegistryStr ref) = Some True
               then ev @ [text_env ''TRIVY_INSECURE'' ''true''] else ev))"

definition appendTrivyNonSSLEnv ::
    "plugin_env \<Rightarrow> PluginConfig \<Rightarrow> string \<Rightarrow> EnvVar list \<Rightarrow> error + EnvVar list" where
  "appendTrivyNonSSLEnv P config img ev =
     (case pe_ParseReference P img of
        Inl e \<Rightarrow> Inl e
      | Inr ref \<Rightarrow>
          Inr (if map_of (GetNonSSLRegistries (pe_order P) config) (nr_RegistryStr ref) = Some True
               then ev @ [text_env ''TRIVY_NON_SSL'' ''true''] else ev))"

text \<open>\<open>strings.Replace(s, old, new, 1)\<close>: the first occurrence.\<close>

fun Replace1 :: "string \<Rightarrow> string \<Rightarrow> string \<Rightarrow> string" where
  "Replace1 [] old new = (if old = [] then new else [])"
| "Replace1 (c # cs) old new =
     (if HasPrefix (c # cs) old then new @ drop (length old) (c # cs) else c # Replace1 cs old new)"

fun mirror_loop :: "string \<Rightarrow> (string \<times> string) list \<Rightarrow> string option" where
  "mirror_loop mirroredImage [] = None"
| "mirror_loop mirroredImage ((k, v) # mirrors) =
     (if HasPrefix mirroredImage k then Some (Replace1 mirroredImage k v) else mirror_loop mirroredImage mirrors)"

definition GetMirroredImage :: "plugin_env \<Rightarrow> string \<Rightarrow> string gomap \<Rightarrow> error + string" where
  "GetMirroredImage P img mirrors =
     (case pe_ParseReference P img of
        Inl e \<Rightarrow> Inl e
      | Inr ref \<Rightarrow>
          (case mirror_loop (nr_Name ref) (range_map (pe_order P) mirrors) of
             Some mirroredImage \<Rightarrow> Inr mirroredImage
           | None \<Rightarrow> Inr img))"

section \<open>Standalone mode\<close>

definition standalone_env :: "EnvVar list" where
  "standalone_env = [cm_env ''TRIVY_SEVERITY'' keyTrivySeverity, cm_env ''TRIVY_IGNORE_UNFIXED'' keyTrivyIgnoreUnfixed,
     cm_env ''TRIVY_TIMEOUT'' keyTrivyTimeout, cm_env ''TRIVY_SKIP_FILES'' keyTrivySkipFiles,
     cm_env ''TRIVY_SKIP_DIRS'' keyTrivySkipDirs, cm_env ''HTTP_PROXY'' keyTrivyHTTPProxy,
     cm_env ''HTTPS_PROXY'' keyTrivyHTTPSProxy, cm_env ''NO_PROXY'' keyTrivyNoProxy]"

definition standalone_container ::
    "plugin_env \<Rightarrow> PluginConfig \<Rightarrow> string \<Rightarrow> Auth gomap \<Rightarrow> string \<Rightarrow> VolumeMount list \<Rightarrow> Container \<Rightarrow> error + Container" where
  "standalone_container P config secretName credentials trivyImageRef volumeMounts co =
     (let env1 = standalone_env @
            (if IgnoreFileExists config then [text_env ''TRIVY_IGNOREFILE'' ''/etc/trivy/.trivyignore''] else []) @
            registry_env secretName credentials (co_Name co)
      in case appendTrivyInsecureEnv P config (co_Image co) env1 of
           Inl e \<Rightarrow> Inl e
         | Inr env2 \<Rightarrow>
             (case appendTrivyNonSSLEnv P config (co_Image co) env2 of
                Inl e \<Rightarrow> Inl e
              | Inr env3 \<Rightarrow>
                  (case trivy_GetResourceRequirements P config of
                     Inl e \<Rightarrow> Inl e
                   | Inr resourceRequirements \<Rightarrow>
                       (case GetMirroredImage P (co_Image co) (GetMirrors (pe_order P) config) of
                          Inl e \<Rightarrow> Inl e
                        | Inr optionalMirroredImage \<Rightarrow>
                            Inr (empty_Container\<lparr>co_Name := co_Name co, co_Image := trivyImageRef,
                              co_ImagePullPolicy := ''IfNotPresent'',
                              co_TerminationMessagePolicy := ''FallbackToLogsOnError'',
                              co_Env := env3, co_Command := [''trivy''],
                              co_Args := [''--cache-dir'', ''/tmp/trivy/.cache'', ''--quiet'', ''image'', ''--skip-update'',
                                ''--format'', ''json'', optionalMirroredImage],
                              co_Resources := resourceRequirements, co_VolumeMounts := volumeMounts,
                              co_SecurityContext := Some unprivileged\<rparr>)))))"

definition standalone_init :: "plugin_env \<Rightarrow> string \<Rightarrow> string \<Rightarrow> ResourceRequirements \<Rightarrow> Container" where
  "standalone_init P trivyImageRef dbRepository requirements =
     empty_Container\<lparr>co_Name := pe_GenerateID P 0, co_Image := trivyImageRef, co_ImagePullPolicy := ''IfNotPresent'',
       co_TerminationMessagePolicy := ''FallbackToLogsOnError'',
       co_Env := [cm_env ''HTTP_PROXY'' keyTrivyHTTPProxy, cm_env ''HTTPS_PROXY'' keyTrivyHTTPSProxy,
         cm_env ''NO_PROXY'' keyTrivyNoProxy, secret_env ''GITHUB_TOKEN'' keyTrivyGitHubToken],
       co_Command := [''trivy''],
       co_Args := [''--cache-dir'', ''/tmp/trivy/.cache'', ''image'', ''--download-db-only'', ''--db-repository'', dbRepository],
       co_Resources := requirements,
       co_VolumeMounts := [\<lparr>vm_Name = tmpVolumeName, vm_MountPath = ''/tmp'', vm_SubPath = [], vm_ReadOnly = False\<rparr>]\<rparr>"

definition getPodSpecForStandaloneMode ::
    "plugin_env \<Rightarrow> PluginContext \<Rightarrow> PluginConfig \<Rightarrow> Object \<Rightarrow> Auth gomap \<Rightarrow> error + (PodSpec \<times> Object list)" where
  "getPodSpecForStandaloneMode P ctx config workload credentials =
     (case GetPodSpec workload of
        Inl e \<Rightarrow> Inl e
      | Inr spec \<Rightarrow>
          (let secret = newSecretWithAggregateImagePullCredentials P workload spec credentials;
               secrets = (if length credentials > 0 then [secret] else [])
           in case trivy_GetImageRef config of
                Inl e \<Rightarrow> Inl e
              | Inr trivyImageRef \<Rightarrow>
                  (case GetDBRepository config of
                     Inl e \<Rightarrow> Inl e
                   | Inr dbRepository \<Rightarrow>
                       (case trivy_GetResourceRequirements P config of
                          Inl e \<Rightarrow> Inl e
                        | Inr requirements \<Rightarrow>
                            (let volumeMounts =
                                   \<lparr>vm_Name = tmpVolumeName, vm_MountPath = ''/tmp'', vm_SubPath = [], vm_ReadOnly = False\<rparr> #
                                   (if IgnoreFileExists config then [ignore_mount ''/etc/trivy/.trivyignore''] else []);
                                 volumes = \<lparr>vo_Name = tmpVolumeName, vo_Source = EmptyDir []\<rparr> #
                                   (if IgnoreFileExists config then [ignore_volume] else [])
                             in case map_err (standalone_container P config (om_Name (o_Meta secret)) credentials
                                         trivyImageRef volumeMounts) (ps_Containers spec) of
                                  Inl e \<Rightarrow> Inl e
                                | Inr containers \<Rightarrow>
                                    Inr (empty_PodSpec\<lparr>ps_Affinity := LinuxNodeAffinity, ps_RestartPolicy := ''Never'',
                                      ps_ServiceAccountName := px_serviceAccountName ctx,
                                      ps_AutomountServiceAccountToken := Some False, ps_Volumes := volumes,
                                      ps_InitContainers := [standalone_init P trivyImageRef dbRepository requirements],
                                      ps_Containers := containers,
                                      ps_SecurityContext := Some empty_PodSecurityContext\<rparr>, secrets))))))"

section \<open>Client and server\<close>

definition client_env :: "EnvVar list" where
  "client_env = [cm_env ''HTTP_PROXY'' keyTrivyHTTPProxy, cm_env ''HTTPS_PROXY'' keyTrivyHTTPSProxy,
     cm_env ''NO_PROXY'' keyTrivyNoProxy, cm_env ''TRIVY_SEVERITY'' keyTrivySeverity,
     cm_env ''TRIVY_IGNORE_UNFIXED'' keyTrivyIgnoreUnfixed, cm_env ''TRIVY_TIMEOUT'' keyTrivyTimeout,
     cm_env ''TRIVY_SKIP_FILES'' keyTrivySkipFiles, cm_env ''TRIVY_SKIP_DIRS'' keyTrivySkipDirs,
     cm_env ''TRIVY_TOKEN_HEADER'' keyTrivyServerTokenHeader, secret_env ''TRIVY_TOKEN'' keyTrivyServerToken,
     secret_env ''TRIVY_CUSTOM_HEADERS'' keyTrivyServerCustomHeaders]"

definition client_container ::
    "plugin_env \<Rightarrow> PluginConfig \<Rightarrow> string \<Rightarrow> Auth gomap \<Rightarrow> string \<Rightarrow> string \<Rightarrow> Container \<Rightarrow> error + Container" where
  "client_container P config secretName credentials trivyImageRef trivyServerURL container =
     (let env1 = client_env @ registry_env secretName credentials (co_Name container) in
      case appendTrivyInsecureEnv P config (co_Image container) env1 of
        Inl e \<Rightarrow> Inl e
      | Inr env2 \<Rightarrow>
          (case appendTrivyNonSSLEnv P config (co_Image container) env2 of
             Inl e \<Rightarrow> Inl e
           | Inr env3 \<Rightarrow>
               (let env4 = env3 @ (if GetServerInsecure config then [text_env ''TRIVY_INSECURE'' ''true''] else []) @
                      (if IgnoreFileExists config then [text_env ''TRIVY_IGNOREFILE'' ''/etc/trivy/.trivyignore''] else []);
                    volumeMounts =
                      (if IgnoreFileExists config then [ignore_mount ''/etc/trivy/.trivyignore''] else [])
                in case trivy_GetResourceRequirements P config of
                     Inl e \<Rightarrow> Inl e
                   | Inr requirements \<Rightarrow>
                       (case GetMirroredImage P (co_Image container) (GetMirrors (pe_order P) config) of
                          Inl e \<Rightarrow> Inl e
                        | Inr optionalMirroredImage \<Rightarrow>
                            Inr (empty_Container\<lparr>co_Name := co_Name container, co_Image := trivyImageRef,
                              co_ImagePullPolicy := ''IfNotPresent'',
                              co_TerminationMessagePolicy := ''FallbackToLogsOnError'',
                              co_Env := env4, co_Command := [''trivy''],
                              co_Args := [''--quiet'', ''client'', ''--format'', ''json'', ''--remote'', trivyServerURL,
                                optionalMirroredImage],
                              co_VolumeMounts := volumeMounts, co_Resources := requirements\<rparr>)))))"

text \<open>The volumes are set inside the loop, so a workload without containers has none.\<close>

definition getPodSpecForClientServerMode ::
    "plugin_env \<Rightarrow> PluginContext \<Rightarrow> PluginConfig \<Rightarrow> Object \<Rightarrow> Auth gomap \<Rightarrow> error + (PodSpec \<times> Object list)" where
  "getPodSpecForClientServerMode P ctx config workload credentials =
     (case GetPodSpec workload of
        Inl e \<Rightarrow> Inl e
      | Inr spec \<Rightarrow>
          (case trivy_GetImageRef config of
             Inl e \<Rightarrow> Inl e
           | Inr trivyImageRef \<Rightarrow>
               (case GetServerURL config of
                  Inl e \<Rightarrow> Inl e
                | Inr trivyServerURL \<Rightarrow>
                    (let secret = newSecretWithAggregateImagePullCredentials P workload spec credentials;
                         secrets = (if length credentials > 0 then [secret] else []);
                         volumes = (if IgnoreFileExists config \<and> ps_Containers spec \<noteq> [] then [ignore_volume] else [])
                     in case map_err (client_container P config (om_Name (o_Meta secret)) credentials trivyImageRef
                                 trivyServerURL) (ps_Containers spec) of
                          Inl e \<Rightarrow> Inl e
                        | Inr containers \<Rightarrow>
                            Inr (empty_PodSpec\<lparr>ps_Affinity := LinuxNodeAffinity, ps_RestartPolicy := ''Never'',
                              ps_ServiceAccountName := px_serviceAccountName ctx,
                              ps_AutomountServiceAccountToken := Some False, ps_Containers := containers,
                              ps_Volumes := volumes\<rparr>, secrets)))))"

section \<open>Scanning the filesystem\<close>

definition fs_mounts :: "VolumeMount list" where
  "fs_mounts = [\<lparr>vm_Name = FsSharedVolumeName, vm_MountPath = ''/var/starboard'', vm_SubPath = [], vm_ReadOnly = False\<rparr>]"

definition fs_init :: "plugin_env \<Rightarrow> string \<Rightarrow> string \<Rightarrow> ResourceRequirements \<Rightarrow> Container list" where
  "fs_init P trivyImageRef dbRepository requirements =
     [empty_Container\<lparr>co_Name := pe_GenerateID P 0, co_Image := trivyImageRef, co_ImagePullPolicy := ''IfNotPresent'',
        co_TerminationMessagePolicy := ''FallbackToLogsOnError'',
        co_Command := [''cp'', ''-v'', ''/usr/local/bin/trivy'', SharedVolumeLocationOfTrivy],
        co_Resources := requirements, co_VolumeMounts := fs_mounts\<rparr>,
      empty_Container\<lparr>co_Name := pe_GenerateID P 1, co_Image := trivyImageRef, co_ImagePullPolicy := ''IfNotPresent'',
        co_TerminationMessagePolicy := ''FallbackToLogsOnError'',
        co_Env := [cm_env ''HTTP_PROXY'' keyTrivyHTTPProxy, cm_env ''HTTPS_PROXY'' keyTrivyHTTPSProxy,
          cm_env ''NO_PROXY'' keyTrivyNoProxy, secret_env ''GITHUB_TOKEN'' keyTrivyGitHubToken],
        co_Command := [''trivy''],
        co_Args := [''--download-db-only'', ''--cache-dir'', ''/var/starboard/trivy-db'', ''--db-repository'', dbRepository],
        co_Resources := requirements, co_VolumeMounts := fs_mounts\<rparr>]"

definition fs_container ::
    "plugin_env \<Rightarrow> PluginConfig \<Rightarrow> string \<Rightarrow> VolumeMount list \<Rightarrow> Container \<Rightarrow> error + Container" where
  "fs_container P config pullPolicy volumeMounts co =
     (let env1 = [cm_env ''TRIVY_SEVERITY'' keyTrivySeverity, cm_env ''TRIVY_SKIP_FILES'' keyTrivySkipFiles,
            cm_env ''TRIVY_SKIP_DIRS'' keyTrivySkipDirs, cm_env ''HTTP_PROXY'' keyTrivyHTTPProxy,
            cm_env ''HTTPS_PROXY'' keyTrivyHTTPSProxy, cm_env ''NO_PROXY'' keyTrivyNoProxy] @
            (if IgnoreFileExists config then [text_env ''TRIVY_IGNOREFILE'' ''/tmp/trivy/.trivyignore''] else []) @
            (if IgnoreUnfixed config then [cm_env ''TRIVY_IGNORE_UNFIXED'' keyTrivyIgnoreUnfixed] else [])
      in case appendTrivyInsecureEnv P config (co_Image co) env1 of
           Inl e \<Rightarrow> Inl e
         | Inr env2 \<Rightarrow>
             (case trivy_GetResourceRequirements P config of
                Inl e \<Rightarrow> Inl e
              | Inr resourceRequirements \<Rightarrow>
                  Inr (empty_Container\<lparr>co_Name := co_Name co, co_Image := co_Image co, co_ImagePullPolicy := pullPolicy,
                    co_TerminationMessagePolicy := ''FallbackToLogsOnError'', co_Env := env2,
                    co_Command := [SharedVolumeLocationOfTrivy],
                    co_Args := [''--skip-update'', ''--cache-dir'', ''/var/starboard/trivy-db'', ''--quiet'', ''fs'',
                      ''--format'', ''json'', ''/''],
                    co_Resources := resourceRequirements, co_VolumeMounts := volumeMounts,
                    co_SecurityContext := Some (unprivileged\<lparr>sx_RunAsUser := Some 0\<rparr>)\<rparr>)))"

definition getPodSpecForStandaloneFSMode ::
    "'s client \<Rightarrow> plugin_env \<Rightarrow> PluginContext \<Rightarrow> 's \<Rightarrow> PluginConfig \<Rightarrow> Object \<Rightarrow> error + (PodSpec \<times> Object list)" where
  "getPodSpecForStandaloneFSMode c P ctx s config workload =
     (case GetPodSpec workload of
        Inl e \<Rightarrow> Inl e
      | Inr spec \<Rightarrow>
          (let sameNamespace = VulnerabilityScanJobsInSameNamespace (px_starboardConfig ctx) in
           case (if sameNamespace then Inr [] else GetNodeName c s workload) of
             Inl e \<Rightarrow> Inl (Wrap (''failed resolving node name for workload '' @ om_Namespace (o_Meta workload) @ ''/'' @
                        om_Name (o_Meta workload)) e)
           | Inr nodeName \<Rightarrow>
               (let pullPolicy = (if sameNamespace then ''IfNotPresent'' else ''Never'') in
                case trivy_GetImageRef config of
                  Inl e \<Rightarrow> Inl e
                | Inr trivyImageRef \<Rightarrow>
                    (case GetDBRepository config of
                       Inl e \<Rightarrow> Inl e
                     | Inr dbRepository \<Rightarrow>
                         (case trivy_GetResourceRequirements P config of
                            Inl e \<Rightarrow> Inl e
                          | Inr requirements \<Rightarrow>
                              (let volumeMounts = fs_mounts @
                                     (if IgnoreFileExists config then [ignore_mount ''/tmp/trivy/.trivyignore''] else []);
                                   volumes = \<lparr>vo_Name = FsSharedVolumeName, vo_Source = EmptyDir []\<rparr> #
                                     (if IgnoreFileExists config then [ignore_volume] else [])
                               in case map_err (fs_container P config pullPolicy volumeMounts) (ps_Containers spec) of
                                    Inl e \<Rightarrow> Inl e
                                  | Inr containers \<Rightarrow>
                                      Inr (empty_PodSpec\<lparr>ps_Affinity := LinuxNodeAffinity, ps_RestartPolicy := ''Never'',
                                        ps_ServiceAccountName := px_serviceAccountName ctx,
                                        ps_AutomountServiceAccountToken := Some False, ps_Volumes := volumes,
                                        ps_InitContainers := fs_init P trivyImageRef dbRepository requirements,
                                        ps_Containers := containers,
                                        ps_SecurityContext := Some empty_PodSecurityContext,
                                        ps_NodeName := (if sameNamespace then [] else nodeName)\<rparr>, [])))))))"

section \<open>The pod of a scan job\<close>

definition trivy_newConfigFrom :: "'s client \<Rightarrow> PluginContext \<Rightarrow> 's \<Rightarrow> error + PluginConfig" where
  "trivy_newConfigFrom c ctx s = GetConfig c ctx s"

text \<open>The error of \<open>GetCommand\<close> is not looked at: the command is then empty.\<close>

definition trivy_GetScanJobSpec ::
    "'s client \<Rightarrow> plugin_env \<Rightarrow> PluginContext \<Rightarrow> 's \<Rightarrow> Object \<Rightarrow> Auth gomap \<Rightarrow> error + (PodSpec \<times> Object list)" where
  "trivy_GetScanJobSpec c P ctx s workload credentials =
     (case trivy_newConfigFrom c ctx s of
        Inl e \<Rightarrow> Inl e
      | Inr config \<Rightarrow>
          (case GetMode config of
             Inl e \<Rightarrow> Inl e
           | Inr mode \<Rightarrow>
               (let command = (case trivy_GetCommand config of Inl _ \<Rightarrow> [] | Inr cmd \<Rightarrow> cmd) in
                if command = ImageCmd then
                  (if mode = Standalone then getPodSpecForStandaloneMode P ctx config workload credentials
                   else if mode = ClientServer then getPodSpecForClientServerMode P ctx config workload credentials
                   else Inl (Errorf (''unrecognized trivy mode '' @ mode @ '' for command '' @ command)))
                else if command = Filesystem then
                  (if mode = Standalone then getPodSpecForStandaloneFSMode c P ctx s config workload
                   else Inl (Errorf (''unrecognized trivy mode '' @ mode @ '' for command '' @ command)))
                else Inl (Errorf (''unrecognized trivy command '' @ command)))))"

section \<open>Trivy's output\<close>

record CVSS =
  cv_V3Score :: "64 word option"

record Layer =
  ly_Digest :: string
  ly_DiffID :: string

record TrivyVulnerability =
  tv_VulnerabilityID :: string
  tv_PkgName :: string
  tv_InstalledVersion :: string
  tv_FixedVersion :: string
  tv_Title :: string
  tv_Description :: string
  tv_Severity :: Severity
  tv_Layer :: Layer
  tv_PrimaryURL :: string
  tv_References :: "string list"
  tv_Cvss :: "CVSS option gomap"

record ScanResult =
  sr_Target :: string
  sr_Vulnerabilities :: "TrivyVulnerability list"

definition CVSS_members :: "(string \<times> CVSS setter) list" where
  "CVSS_members = [(''v3score'', struct_field cv_V3Score (\<lambda>x. cv_V3Score_update (\<lambda>_. x))
     (decode_pointer (number_field ParseFloat (\<lambda>x _. x)) 0))]"

definition Layer_members :: "(string \<times> Layer setter) list" where
  "Layer_members = [(''digest'', string_field (\<lambda>x. ly_Digest_update (\<lambda>_. x))),
     (''diffid'', string_field (\<lambda>x. ly_DiffID_update (\<lambda>_. x)))]"

definition empty_TrivyVulnerability :: TrivyVulnerability where
  "empty_TrivyVulnerability = \<lparr>tv_VulnerabilityID = [], tv_PkgName = [], tv_InstalledVersion = [], tv_FixedVersion = [],
     tv_Title = [], tv_Description = [], tv_Severity = [], tv_Layer = \<lparr>ly_Digest = [], ly_DiffID = []\<rparr>,
     tv_PrimaryURL = [], tv_References = [], tv_Cvss = []\<rparr>"

definition TrivyVulnerability_members :: "(string \<times> TrivyVulnerability setter) list" where
  "TrivyVulnerability_members = [(''vulnerabilityid'', string_field (\<lambda>x. tv_VulnerabilityID_update (\<lambda>_. x))),
     (''pkgname'', string_field (\<lambda>x. tv_PkgName_update (\<lambda>_. x))),
     (''installedversion'', string_field (\<lambda>x. tv_InstalledVersion_update (\<lambda>_. x))),
     (''fixedversion'', string_field (\<lambda>x. tv_FixedVersion_update (\<lambda>_. x))),
     (''title'', string_field (\<lambda>x. tv_Title_update (\<lambda>_. x))),
     (''description'', string_field (\<lambda>x. tv_Description_update (\<lambda>_. x))),
     (''severity'', string_field (\<lambda>x. tv_Severity_update (\<lambda>_. x))),
     (''layer'', struct_field tv_Layer (\<lambda>x. tv_Layer_update (\<lambda>_. x)) (decode_struct Layer_members)),
     (''primaryurl'', string_field (\<lambda>x. tv_PrimaryURL_update (\<lambda>_. x))),
     (''references'', list_field tv_References (\<lambda>x. tv_References_update (\<lambda>_. x)) decode_string []),
     (''cvss'', map_field tv_Cvss (\<lambda>x. tv_Cvss_update (\<lambda>_. x))
        (decode_pointer (decode_struct CVSS_members) \<lparr>cv_V3Score = None\<rparr>) None)]"

definition ScanResult_members :: "(string \<times> ScanResult setter) list" where
  "ScanResult_members = [(''target'', string_field (\<lambda>x. sr_Target_update (\<lambda>_. x))),
     (''vulnerabilities'', list_field sr_Vulnerabilities (\<lambda>x. sr_Vulnerabilities_update (\<lambda>_. x))
        (decode_struct TrivyVulnerability_members) empty_TrivyVulnerability)]"

text \<open>A \<^verbatim>\<open>ScanReport\<close> is the list of its results.\<close>

definition decode_ScanReport :: "string \<Rightarrow> error + ScanResult list" where
  "decode_ScanReport = Decode_first (decode_struct
     [(''results'', list_field (\<lambda>x. x) (\<lambda>x _. x) (decode_struct ScanResult_members)
        \<lparr>sr_Target = [], sr_Vulnerabilities = []\<rparr>)]) []"

definition nil_dereference :: error where "nil_dereference = Errorf ''panic: nil pointer dereference''"

text \<open>The loop keeps the last score seen of each of the two classes.\<close>

fun score_loop :: "(string \<times> CVSS option) list \<Rightarrow> 64 word option \<Rightarrow> 64 word option \<Rightarrow>
    error + (64 word option \<times> 64 word option)" where
  "score_loop [] nvdScore vendorScore = Inr (nvdScore, vendorScore)"
| "score_loop ((name, cvss) # cvsss) nvdScore vendorScore =
     (case cvss of
        None \<Rightarrow> Inl nil_dereference
      | Some x \<Rightarrow>
          if name = ''nvd'' then score_loop cvsss (cv_V3Score x) vendorScore
          else score_loop cvsss nvdScore (cv_V3Score x))"

definition GetScoreFromCVSS :: "order \<Rightarrow> CVSS option gomap \<Rightarrow> error + 64 word option" where
  "GetScoreFromCVSS ord cvsss =
     (case score_loop (range_map ord cvsss) None None of
        Inl e \<Rightarrow> Inl e
      | Inr (nvdScore, vendorScore) \<Rightarrow> Inr (if vendorScore \<noteq> None then vendorScore else nvdScore))"

definition convert_vulnerability :: "order \<Rightarrow> TrivyVulnerability \<Rightarrow> error + Vulnerability" where
  "convert_vulnerability ord sr =
     (case GetScoreFromCVSS ord (tv_Cvss sr) of
        Inl e \<Rightarrow> Inl e
      | Inr score \<Rightarrow>
          Inr \<lparr>vu_VulnerabilityID = tv_VulnerabilityID sr, vu_Resource = tv_PkgName sr,
               vu_InstalledVersion = tv_InstalledVersion sr, vu_FixedVersion = tv_FixedVersion sr,
               vu_Severity = tv_Severity sr, vu_Title = tv_Title sr, vu_Description = [],
               vu_PrimaryLink = tv_PrimaryURL sr, vu_Links = [], vu_Score = score\<rparr>)"

definition zero_VulnerabilitySummary :: VulnerabilitySummary where
  "zero_VulnerabilitySummary = \<lparr>vs_CriticalCount = 0, vs_HighCount = 0, vs_MediumCount = 0, vs_LowCount = 0,
     vs_UnknownCount = 0, vs_NoneCount = 0\<rparr>"

definition count_vulnerability :: "VulnerabilitySummary \<Rightarrow> Vulnerability \<Rightarrow> VulnerabilitySummary" where
  "count_vulnerability vs v =
     (if vu_Severity v = SeverityCritical then vs\<lparr>vs_CriticalCount := vs_CriticalCount vs + 1\<rparr>
      else if vu_Severity v = SeverityHigh then vs\<lparr>vs_HighCount := vs_HighCount vs + 1\<rparr>
      else if vu_Severity v = SeverityMedium then vs\<lparr>vs_MediumCount := vs_MediumCount vs + 1\<rparr>
      else if vu_Severity v = SeverityLow then vs\<lparr>vs_LowCount := vs_LowCount vs + 1\<rparr>
      else vs\<lparr>vs_UnknownCount := vs_UnknownCount vs + 1\<rparr>)"

definition toSummary :: "Vulnerability list \<Rightarrow> VulnerabilitySummary" where
  "toSummary vulnerabilities = foldl count_vulnerability zero_VulnerabilitySummary vulnerabilities"

definition parseImageRef :: "plugin_env \<Rightarrow> string \<Rightarrow> error + (Registry \<times> Artifact)" where
  "parseImageRef P imageRef =
     (case pe_ParseReference P imageRef of
        Inl e \<Rightarrow> Inl e
      | Inr ref \<Rightarrow>
          (let artifact = \<lparr>af_Repository = nr_RepositoryStr ref, af_Digest = [], af_Tag = [], af_MimeType = []\<rparr>
           in Inr (\<lparr>rg_Server = nr_RegistryStr ref\<rparr>,
                   case nr_Identifier ref of ImageTag t \<Rightarrow> artifact\<lparr>af_Tag := t\<rparr>
                   | ImageDigest d \<Rightarrow> artifact\<lparr>af_Digest := d\<rparr>)))"

definition trivy_ParseVulnerabilityReportData ::
    "'s client \<Rightarrow> plugin_env \<Rightarrow> PluginContext \<Rightarrow> 's \<Rightarrow> string \<Rightarrow> string \<Rightarrow> error + VulnerabilityReportData" where
  "trivy_ParseVulnerabilityReportData c P ctx s imageRef logs =
     (case trivy_newConfigFrom c ctx s of
        Inl e \<Rightarrow> Inl e
      | Inr config \<Rightarrow>
          (case decode_ScanReport logs of
             Inl e \<Rightarrow> Inl e
           | Inr results \<Rightarrow>
               (case map_err (convert_vulnerability (pe_order P)) (concat (map sr_Vulnerabilities results)) of
                  Inl e \<Rightarrow> Inl e
                | Inr vulnerabilities \<Rightarrow>
                    (case parseImageRef P imageRef of
                       Inl e \<Rightarrow> Inl e
                     | Inr (registry, artifact) \<Rightarrow>
                         (case trivy_GetImageRef config of
                            Inl e \<Rightarrow> Inl e
                          | Inr trivyImageRef \<Rightarrow>
                              (case version_of P trivyImageRef of
                                 Inl e \<Rightarrow> Inl e
                               | Inr version \<Rightarrow>
                                   Inr \<lparr>vr_UpdateTimestamp = pe_Now P,
                                        vr_Scanner = \<lparr>sc_Name = ''Trivy'', sc_Vendor = ''Aqua Security'', sc_Version = version\<rparr>,
                                        vr_Registry = registry, vr_Artifact = artifact,
                                        vr_Summary = toSummary vulnerabilities,
                                        vr_Vulnerabilities = vulnerabilities\<rparr>))))))"

definition trivyPlugin :: "'s client \<Rightarrow> plugin_env \<Rightarrow> 's Plugin" where
  "trivyPlugin c P = \<lparr>pl_Init = trivy_Init c, pl_GetScanJobSpec = trivy_GetScanJobSpec c P,
     pl_ParseVulnerabilityReportData = trivy_ParseVulnerabilityReportData c P\<rparr>"

section \<open>Lemmas on the pods\<close>

text \<open>An environment that requires, of all secrets, at most the registry credentials of its container.\<close>

definition refs_ok :: "string \<Rightarrow> Auth gomap \<Rightarrow> string \<Rightarrow> EnvVar list \<Rightarrow> bool" where
  "refs_ok secretName credentials n ev \<longleftrightarrow> (\<forall>v \<in> set ev. \<forall>r. required_secret v = Some r \<longrightarrow>
     map_of credentials n \<noteq> None \<and> fst r = secretName \<and> snd r \<in> {n @ ''.username'', n @ ''.password''})"

lemma refs_ok_simps [simp]:
  "refs_ok sn cr n []"
  "refs_ok sn cr n (ev @ ev') \<longleftrightarrow> refs_ok sn cr n ev \<and> refs_ok sn cr n ev'"
  "refs_ok sn cr n (cm_env a k # ev) \<longleftrightarrow> refs_ok sn cr n ev"
  "refs_ok sn cr n (secret_env a k # ev) \<longleftrightarrow> refs_ok sn cr n ev"
  "refs_ok sn cr n (text_env a t # ev) \<longleftrightarrow> refs_ok sn cr n ev"
  by (auto simp: refs_ok_def)

lemma refs_ok_registry [simp]: "refs_ok sn cr n (registry_env sn cr n)"
  by (auto simp: refs_ok_def registry_env_def required_secret_def)

lemma refs_ok_base [simp]: "refs_ok sn cr n standalone_env" "refs_ok sn cr n client_env"
  by (simp_all add: standalone_env_def client_env_def)

lemma appended_refs:
  "appendTrivyInsecureEnv P config img ev = Inr ev' \<Longrightarrow> refs_ok sn cr n ev' = refs_ok sn cr n ev"
  "appendTrivyNonSSLEnv P config img ev = Inr ev' \<Longrightarrow> refs_ok sn cr n ev' = refs_ok sn cr n ev"
  by (auto simp: appendTrivyInsecureEnv_def appendTrivyNonSSLEnv_def split: sum.splits if_splits)

text \<open>What every kind of scan container has in common with the container it scans.\<close>

definition scans :: "string \<Rightarrow> Auth gomap \<Rightarrow> Container \<Rightarrow> Container \<Rightarrow> bool" where
  "scans secretName credentials co x \<longleftrightarrow> co_Name x = co_Name co \<and> refs_ok secretName credentials (co_Name co) (co_Env x)"

lemma standalone_scans:
  "standalone_container P config sn cr ref mounts co = Inr x \<Longrightarrow> scans sn cr co x"
  by (auto simp: standalone_container_def scans_def Let_def appended_refs split: sum.splits)

lemma client_scans:
  "client_container P config sn cr ref url co = Inr x \<Longrightarrow> scans sn cr co x"
  by (auto simp: client_container_def scans_def Let_def appended_refs split: sum.splits)

lemma fs_scans: "fs_container P config pull mounts co = Inr x \<Longrightarrow> scans sn [] co x"
  by (auto simp: fs_container_def scans_def Let_def appended_refs split: sum.splits)

lemma scans_all:
  assumes "map_err f cs = Inr xs" and "\<And>co x. f co = Inr x \<Longrightarrow> scans sn cr co x"
  shows "list_all2 (scans sn cr) cs xs"
  using assms by (auto simp: map_err_Inr_iff elim: list_all2_mono)

lemma scans_names: "list_all2 (scans sn cr) cs xs \<Longrightarrow> map co_Name xs = map co_Name cs"
  by (induction rule: list_all2_induct) (auto simp: scans_def)

lemma refs_ok_init:
  "co \<in> set (standalone_init P ref db req # fs_init P ref db req) \<Longrightarrow> refs_ok sn [] n (co_Env co)"
  by (auto simp: standalone_init_def fs_init_def empty_Container_def)

lemma refs_ok_no_credentials: "refs_ok sn [] n ev \<Longrightarrow> v \<in> set ev \<Longrightarrow> required_secret v = None"
  by (cases "required_secret v") (auto simp: refs_ok_def)

text \<open>The shape of every pod of the plugin.\<close>

lemma trivy_pod:
  assumes "trivy_GetScanJobSpec c P ctx s obj credentials = Inr (pod, secrets)" and "GetPodSpec obj = Inr spec"
  obtains cr where "list_all2 (scans (RegistryCredentialsSecretName (pe_env P) obj) cr) (ps_Containers spec) (ps_Containers pod)"
    and "\<forall>co \<in> set (ps_InitContainers pod). refs_ok [] [] [] (co_Env co)"
    and "cr = credentials \<and> secrets = (if credentials = [] then []
           else [newSecretWithAggregateImagePullCredentials P obj spec credentials]) \<or> cr = [] \<and> secrets = []"
proof -
  let ?sn = "RegistryCredentialsSecretName (pe_env P) obj"
  have name: "om_Name (o_Meta (newSecretWithAggregateImagePullCredentials P obj spec credentials)) = ?sn"
    by (simp add: newSecretWithAggregateImagePullCredentials_def)
  consider (alone) config where "getPodSpecForStandaloneMode P ctx config obj credentials = Inr (pod, secrets)"
    | (client) config where "getPodSpecForClientServerMode P ctx config obj credentials = Inr (pod, secrets)"
    | (fs) config where "getPodSpecForStandaloneFSMode c P ctx s config obj = Inr (pod, secrets)"
    using assms(1) by (auto simp: trivy_GetScanJobSpec_def Let_def split: sum.splits if_splits)
  then show ?thesis
  proof cases
    case alone
    then have "list_all2 (scans ?sn credentials) (ps_Containers spec) (ps_Containers pod)"
      using assms(2) scans_all [OF _ standalone_scans]
      by (fastforce simp: getPodSpecForStandaloneMode_def name Let_def split: sum.splits)
    with alone assms(2) show ?thesis
      by (intro that [of credentials])
         (auto simp: getPodSpecForStandaloneMode_def Let_def intro: refs_ok_init split: sum.splits if_splits)
  next
    case client
    then have "list_all2 (scans ?sn credentials) (ps_Containers spec) (ps_Containers pod)"
      using assms(2) scans_all [OF _ client_scans]
      by (fastforce simp: getPodSpecForClientServerMode_def name Let_def split: sum.splits)
    with client assms(2) show ?thesis
      by (intro that [of credentials])
         (auto simp: getPodSpecForClientServerMode_def Let_def empty_PodSpec_def split: sum.splits if_splits)
  next
    case fs
    then have "list_all2 (scans ?sn []) (ps_Containers spec) (ps_Containers pod)"
      using assms(2) scans_all [OF _ fs_scans]
      by (fastforce simp: getPodSpecForStandaloneFSMode_def Let_def split: sum.splits if_splits)
    with fs assms(2) show ?thesis
      by (intro that [of "[]"])
         (auto simp: getPodSpecForStandaloneFSMode_def Let_def intro: refs_ok_init split: sum.splits if_splits)
  qed
qed

lemma trivy_keys_given:
  assumes "perm_order (pe_order P)" and spec_of: "trivy_GetScanJobSpec c P ctx s obj credentials = Inr (pod, secrets)"
    and "r \<in> required_secrets pod"
  shows "has_key secrets r"
proof -
  obtain spec where spec: "GetPodSpec obj = Inr spec"
    using spec_of by (cases "GetPodSpec obj") (auto simp: trivy_GetScanJobSpec_def getPodSpecForStandaloneMode_def
        getPodSpecForClientServerMode_def getPodSpecForStandaloneFSMode_def Let_def split: sum.splits if_splits)
  obtain co v where co: "co \<in> set (ps_InitContainers pod @ ps_Containers pod)" and v: "v \<in> set (co_Env co)" "required_secret v = Some r"
    using assms(3) by (auto simp: required_secrets_def)
  from spec_of spec show ?thesis
  proof (rule trivy_pod)
    fix cr
    assume all: "list_all2 (scans (RegistryCredentialsSecretName (pe_env P) obj) cr) (ps_Containers spec) (ps_Containers pod)"
      and init: "\<forall>co \<in> set (ps_InitContainers pod). refs_ok [] [] [] (co_Env co)"
      and cr: "cr = credentials \<and> secrets = (if credentials = [] then []
           else [newSecretWithAggregateImagePullCredentials P obj spec credentials]) \<or> cr = [] \<and> secrets = []"
    have "co \<notin> set (ps_InitContainers pod)" using init v refs_ok_no_credentials by fastforce
    then obtain src where src: "src \<in> set (ps_Containers spec)" "scans (RegistryCredentialsSecretName (pe_env P) obj) cr src co"
      using list_all2_mem [OF all, of co] co by auto
    then have r: "map_of cr (co_Name src) \<noteq> None" "fst r = RegistryCredentialsSecretName (pe_env P) obj"
      "snd r \<in> {co_Name src @ ''.username'', co_Name src @ ''.password''}"
      using v unfolding scans_def refs_ok_def by blast+
    then obtain auth where auth: "map_of credentials (co_Name src) = Some auth"
      and secrets: "secrets = [newSecretWithAggregateImagePullCredentials P obj spec credentials]"
      using cr by (cases "credentials = []") auto
    have n: "co_Name src \<in> fst ` set (GetContainerImagesFromPodSpec spec)"
      using src(1) by (simp add: GetContainerImages_keys)
    show ?thesis
      using r aggregated_lookup [OF auth n assms(1) GetContainerImages_distinct]
      by (auto simp: has_key_def secrets newSecretWithAggregateImagePullCredentials_def)
  qed
qed

lemma trivy_secrets_typed:
  "trivy_GetScanJobSpec c P ctx s obj credentials = Inr (pod, secrets) \<Longrightarrow> x \<in> set secrets \<Longrightarrow> go_type x = TSecret"
  by (auto simp: trivy_GetScanJobSpec_def getPodSpecForStandaloneMode_def getPodSpecForClientServerMode_def
      getPodSpecForStandaloneFSMode_def newSecretWithAggregateImagePullCredentials_def Let_def split: sum.splits if_splits)

interpretation trivy_scanner: image_scanner "\<lambda>P. perm_order (pe_order P)" "trivy_GetScanJobSpec c" for c
  by unfold_locales
    (auto elim: trivy_pod dest: scans_names intro: trivy_keys_given trivy_secrets_typed)

section \<open>Lemmas on the output\<close>

text \<open>How many vulnerabilities have a severity, and the severities that have a counter of their own.\<close>

abbreviation count_sev :: "Severity \<Rightarrow> Vulnerability list \<Rightarrow> int" where
  "count_sev sev vs \<equiv> int (length (filter (\<lambda>v. vu_Severity v = sev) vs))"

definition known_severities :: "Severity list" where
  "known_severities = [SeverityCritical, SeverityHigh, SeverityMedium, SeverityLow]"

lemma toSummary_exact:
  "toSummary vs = \<lparr>vs_CriticalCount = count_sev SeverityCritical vs, vs_HighCount = count_sev SeverityHigh vs,
     vs_MediumCount = count_sev SeverityMedium vs, vs_LowCount = count_sev SeverityLow vs,
     vs_UnknownCount = int (length (filter (\<lambda>v. vu_Severity v \<notin> set known_severities) vs)), vs_NoneCount = 0\<rparr>"
proof (induction vs rule: rev_induct)
  case (snoc v vs)
  then show ?case
    by (simp add: toSummary_def count_vulnerability_def known_severities_def sev_simps)
qed (simp add: toSummary_def zero_VulnerabilitySummary_def)

text \<open>What of a finding of the scanner is in the report.\<close>

definition reports :: "TrivyVulnerability \<Rightarrow> Vulnerability \<Rightarrow> bool" where
  "reports sr v \<longleftrightarrow> vu_VulnerabilityID v = tv_VulnerabilityID sr \<and> vu_Resource v = tv_PkgName sr \<and>
     vu_InstalledVersion v = tv_InstalledVersion sr \<and> vu_FixedVersion v = tv_FixedVersion sr \<and>
     vu_Severity v = tv_Severity sr \<and> vu_Title v = tv_Title sr \<and> vu_PrimaryLink v = tv_PrimaryURL sr"

lemma convert_reports: "convert_vulnerability ord sr = Inr v \<Longrightarrow> reports sr v"
  by (auto simp: convert_vulnerability_def reports_def split: sum.splits)

lemma score_loop_vendor:
  assumes "distinct (map fst xs)" and "\<forall>(n, x) \<in> set xs. x \<noteq> None"
    and "\<forall>n \<in> fst ` set xs. n = ''nvd'' \<or> n = vendor" and "vendor \<noteq> ''nvd''"
  shows "score_loop xs a b = Inr
    (case map_of xs ''nvd'' of Some (Some x) \<Rightarrow> cv_V3Score x | _ \<Rightarrow> a,
     case map_of xs vendor of Some (Some x) \<Rightarrow> cv_V3Score x | _ \<Rightarrow> b)"
  using assms
proof (induction xs arbitrary: a b)
  case (Cons nx xs)
  obtain n x where nx: "nx = (n, Some x)" using Cons.prems(2) by (cases nx) auto
  have "map_of xs n = None" using Cons.prems(1) nx by (simp add: map_of_eq_None_iff)
  then show ?case using Cons nx by auto
qed simp

lemma mirror_loop_none: "mirror_loop img ms = None \<longleftrightarrow> (\<forall>(k, v) \<in> set ms. \<not> HasPrefix img k)"
  by (induction img ms rule: mirror_loop.induct) auto

lemma Replace1_prefix: "HasPrefix s k \<Longrightarrow> Replace1 s k v = v @ drop (length k) s"
  by (cases s) (auto simp: HasPrefix_def)

lemma mirror_loop_some: "mirror_loop img ms = Some r \<Longrightarrow>
    \<exists>k v. (k, v) \<in> set ms \<and> HasPrefix img k \<and> r = v @ drop (length k) img"
proof (induction img ms rule: mirror_loop.induct)
  case (2 img k v ms)
  then show ?case by (cases "HasPrefix img k") (auto simp: Replace1_prefix)
qed simp

section \<open>Properties\<close>

text \<open>
  C34. A vulnerability scan job that is built with the Trivy plugin, in any of its modes, scans what it is
  annotated with and can start: the names of its containers are those of the annotation by which the handler later reads the logs, and
  every key of a secret that its pod requires is in a secret that is created with the job, in the job's namespace.
\<close>

theorem trivy_scan_job_can_start:
  assumes "perm_order (pe_order P)" and "sjb_plugin b = trivyPlugin c P"
    and "ScanJobBuilder_Get E b s = Inr (job, secrets)"
  defines "pod \<equiv> pt_Spec (js_Template (job_spec (o_Body job)))"
  shows "(\<exists>images. GetContainerImagesFromJob job = Inr images \<and>
      set (map co_Name (ps_Containers pod)) = fst ` set images) \<and>
    (\<forall>(name, key) \<in> required_secrets pod. \<exists>x \<in> set secrets. om_Namespace (o_Meta x) = om_Namespace (o_Meta job) \<and>
      om_Name (o_Meta x) = name \<and> map_of (config_data (o_Body x)) key \<noteq> None)"
proof -
  have pl: "pl_GetScanJobSpec (sjb_plugin b) = trivy_GetScanJobSpec c P" by (simp add: assms(2) trivyPlugin_def)
  show ?thesis
    using trivy_scanner.job_can_start [OF pl assms(3)] assms(1) unfolding pod_def by fastforce
qed

definition trivy_builder :: "Object list ScanJobBuilder" where
  "trivy_builder = sample_builder\<lparr>sjb_plugin := trivyPlugin mem_client sample_plugin_env,
     sjb_credentials := [(''nginx'', \<lparr>au_Auth = [], au_Username = ''user'', au_Password = ''secret''\<rparr>)]\<rparr>"

text \<open>The cluster after the plugin's own initialisation.\<close>

definition trivy_state :: "Object list" where
  "trivy_state = snd (trivy_Init mem_client sample_context [])"

definition trivy_default_config :: PluginConfig where
  "trivy_default_config = \<lparr>pc_Data = trivy_defaults, pc_SecretData = []\<rparr>"

lemma trivy_sample_config: "GetConfig mem_client sample_context trivy_state = Inr trivy_default_config"
  by (simp add: trivy_default_config_def trivy_state_def trivy_Init_def EnsureConfig_def sample_context_def GetConfig_def mem_Get_def mem_Create_def
    managed_meta_def key_of_def GetPluginConfigMapName_def only_err_def ignore_err_def)

lemma trivy_defaults_values:
  "GetMode trivy_default_config = Inr Standalone"
  "trivy_GetCommand trivy_default_config = Inr ImageCmd"
  "trivy_GetImageRef trivy_default_config = Inr ''docker.io/aquasec/trivy:0.25.2''"
  "GetDBRepository trivy_default_config = Inr defaultDBRepository"
  "\<exists>r. trivy_GetResourceRequirements sample_plugin_env trivy_default_config = Inr r"
  by (simp_all add: trivy_default_config_def trivy_defaults_def trivy_keys GetMode_def trivy_GetCommand_def trivy_GetImageRef_def GetDBRepository_def
    PluginConfig_GetRequiredData_def trivy_GetResourceRequirements_def resource_requirements_def setResourceLimit_def sample_plugin_env_def trivy_modes)

lemma sample_env_appends:
  "appendTrivyInsecureEnv sample_plugin_env config img ev \<noteq> Inl e"
  "appendTrivyNonSSLEnv sample_plugin_env config img ev \<noteq> Inl e"
  "GetMirroredImage sample_plugin_env img ms \<noteq> Inl e"
  by (simp_all add: appendTrivyInsecureEnv_def appendTrivyNonSSLEnv_def GetMirroredImage_def sample_plugin_env_def split: option.splits)

lemma trivy_sample_container:
  "standalone_container sample_plugin_env trivy_default_config sn cr ref mounts co \<noteq> Inl e"
  using trivy_defaults_values(5) by (auto simp: standalone_container_def Let_def sample_env_appends split: sum.splits)

lemma trivy_sample_spec:
  "\<exists>pod secrets. trivy_GetScanJobSpec mem_client sample_plugin_env sample_context trivy_state sample_pod credentials = Inr (pod, secrets)"
proof -
  have spec: "GetPodSpec sample_pod = Inr sample_podspec" "ps_Containers sample_podspec = [sample_container]"
    by (simp_all add: GetPodSpec_def sample_pod_def sample_podspec_def)
  obtain r where r: "trivy_GetResourceRequirements sample_plugin_env trivy_default_config = Inr r"
    using trivy_defaults_values(5) by blast
  show ?thesis
    by (simp add: trivy_GetScanJobSpec_def trivy_newConfigFrom_def trivy_sample_config trivy_defaults_values r spec
      getPodSpecForStandaloneMode_def Let_def trivy_sample_container split: sum.splits)
qed

lemma trivy_sample_job: "\<exists>job secrets. ScanJobBuilder_Get sample_env trivy_builder trivy_state = Inr (job, secrets)"
  using trivy_sample_spec [of "sjb_credentials trivy_builder"]
  by (auto simp: ScanJobBuilder_Get_def trivy_builder_def sample_builder_def trivyPlugin_def AsJSON_def GetPodSpec_def sample_pod_def Let_def split_beta)

theorem trivy_scan_job_can_start_witness:
  "\<exists>job secrets images. ScanJobBuilder_Get sample_env trivy_builder trivy_state = Inr (job, secrets) \<and>
     GetContainerImagesFromJob job = Inr images \<and>
     set (map co_Name (ps_Containers (pt_Spec (js_Template (job_spec (o_Body job)))))) = fst ` set images"
proof -
  obtain job secrets where job: "ScanJobBuilder_Get sample_env trivy_builder trivy_state = Inr (job, secrets)"
    using trivy_sample_job by blast
  have "perm_order (pe_order sample_plugin_env)" "sjb_plugin trivy_builder = trivyPlugin mem_client sample_plugin_env"
    by (simp_all add: sample_plugin_env_def trivy_builder_def)
  from trivy_scan_job_can_start [OF this job] job show ?thesis by blast
qed

text \<open>
  C35. A report made from Trivy's output lists, in their order, exactly the findings of all results of the output, with the scanner's
  identifiers, packages, versions and severities, and its summary counts them: each of the four
  named severities exactly, everything else (also the severity NONE) as unknown.
\<close>

theorem trivy_report_complete:
  assumes "trivy_ParseVulnerabilityReportData c P ctx s imageRef logs = Inr data"
  shows "\<exists>results. decode_ScanReport logs = Inr results \<and>
    list_all2 reports (concat (map sr_Vulnerabilities results)) (vr_Vulnerabilities data) \<and>
    vs_CriticalCount (vr_Summary data) = count_sev SeverityCritical (vr_Vulnerabilities data) \<and>
    vs_HighCount (vr_Summary data) = count_sev SeverityHigh (vr_Vulnerabilities data) \<and>
    vs_MediumCount (vr_Summary data) = count_sev SeverityMedium (vr_Vulnerabilities data) \<and>
    vs_LowCount (vr_Summary data) = count_sev SeverityLow (vr_Vulnerabilities data) \<and>
    vs_UnknownCount (vr_Summary data) = int (length (vr_Vulnerabilities data)) -
      (\<Sum>sev \<leftarrow> known_severities. count_sev sev (vr_Vulnerabilities data))"
proof -
  obtain results vs where dec: "decode_ScanReport logs = Inr results"
    and vs: "map_err (convert_vulnerability (pe_order P)) (concat (map sr_Vulnerabilities results)) = Inr vs"
    and data: "vr_Vulnerabilities data = vs" "vr_Summary data = toSummary vs"
    using assms by (auto simp: trivy_ParseVulnerabilityReportData_def split: sum.splits)
  have "list_all2 reports (concat (map sr_Vulnerabilities results)) vs"
    using vs by (auto simp: map_err_Inr_iff elim!: list_all2_mono intro: convert_reports)
  moreover have "int (length vs) = (\<Sum>sev \<leftarrow> known_severities. count_sev sev vs) +
      int (length (filter (\<lambda>v. vu_Severity v \<notin> set known_severities) vs))"
    by (induction vs) (auto simp: known_severities_def sev_simps)
  ultimately show ?thesis using dec data by (auto simp: toSummary_exact)
qed

definition sample_trivy_output :: string where
  "sample_trivy_output = encode_json (JObject [(''Results'', JArray [JObject [(''Target'', JString ''nginx''),
     (''Vulnerabilities'', JArray [JObject [(''VulnerabilityID'', JString ''CVE-1''), (''PkgName'', JString ''ssl''),
        (''Severity'', JString ''HIGH''), (''CVSS'', JObject [(''nvd'', JObject [(''V3Score'', JNumber ''7.5'')])])],
      JObject [(''VulnerabilityID'', JString ''CVE-2''), (''Severity'', JString ''NONE'')]])]])])"

theorem trivy_report_complete_witness:
  "\<exists>data results. trivy_ParseVulnerabilityReportData mem_client sample_plugin_env sample_context trivy_state ''nginx:1''
     sample_trivy_output = Inr data \<and> decode_ScanReport sample_trivy_output = Inr results \<and>
     map vu_Score (vr_Vulnerabilities data) = [Some 0x401E000000000000, None] \<and>
     list_all2 reports (concat (map sr_Vulnerabilities results)) (vr_Vulnerabilities data)"
proof -
  have "map_sum (\<lambda>x. x) (\<lambda>d. map vu_Score (vr_Vulnerabilities d)) (trivy_ParseVulnerabilityReportData mem_client
      sample_plugin_env sample_context trivy_state ''nginx:1'' sample_trivy_output) = Inr [Some 0x401E000000000000, None]"
    by code_simp
  then obtain data where data: "trivy_ParseVulnerabilityReportData mem_client sample_plugin_env sample_context trivy_state
      ''nginx:1'' sample_trivy_output = Inr data" "map vu_Score (vr_Vulnerabilities data) = [Some 0x401E000000000000, None]"
    by (cases "trivy_ParseVulnerabilityReportData mem_client sample_plugin_env sample_context trivy_state
      ''nginx:1'' sample_trivy_output") auto
  from trivy_report_complete [OF data(1)] show ?thesis
    by (elim exE conjE) (intro exI conjI, rule data(1), assumption, rule data(2), assumption)
qed

text \<open>
  The image that a scan container pulls is that of the workload's container, through the configured mirror if
  there is one: if some prefix with a mirror fits the full name of the image, it is replaced by its mirror, and otherwise the
  image is scanned under the name the workload uses. If at most one prefix fits, the result does not depend on the order of the map.
\<close>

lemma mirrored_image_target:
  assumes "perm_order (pe_order P)" and "distinct (map fst mirrors)" and "pe_ParseReference P img = Inr ref"
    and "\<And>k k'. k \<in> fst ` set mirrors \<Longrightarrow> k' \<in> fst ` set mirrors \<Longrightarrow> HasPrefix (nr_Name ref) k \<Longrightarrow>
      HasPrefix (nr_Name ref) k' \<Longrightarrow> k = k'"
  shows "GetMirroredImage P img mirrors = Inr
    (case List.find (\<lambda>(k, _). HasPrefix (nr_Name ref) k) mirrors of
       None \<Rightarrow> img | Some (k, v) \<Rightarrow> v @ drop (length k) (nr_Name ref))"
proof (cases "mirror_loop (nr_Name ref) (range_map (pe_order P) mirrors)")
  case None
  then have "List.find (\<lambda>(k, _). HasPrefix (nr_Name ref) k) mirrors = None"
    using range_map_set [OF assms(1,2)] by (auto simp: mirror_loop_none find_None_iff)
  then show ?thesis using None assms(3) by (simp add: GetMirroredImage_def)
next
  case (Some r)
  then obtain k v where kv: "(k, v) \<in> set mirrors" "HasPrefix (nr_Name ref) k" "r = v @ drop (length k) (nr_Name ref)"
    using mirror_loop_some range_map_set [OF assms(1,2)] by blast
  obtain k' v' where f: "List.find (\<lambda>(k, _). HasPrefix (nr_Name ref) k) mirrors = Some (k', v')"
    using kv(1,2) by (cases "List.find (\<lambda>(k, _). HasPrefix (nr_Name ref) k) mirrors") (auto simp: find_None_iff)
  then have "(k', v') \<in> set mirrors" "HasPrefix (nr_Name ref) k'"
    by (auto simp: find_Some_iff in_set_conv_nth)
  with kv assms(4) [of k k'] have "k' = k" by force
  then have "v' = v" using \<open>(k', v') \<in> set mirrors\<close> kv(1) assms(2) by (auto simp: eq_key_imp_eq_value)
  then show ?thesis using Some kv(3) f \<open>k' = k\<close> assms(3) by (simp add: GetMirroredImage_def)
qed

text \<open>
  With at most one source besides the NVD, the score of a vulnerability is that of this source if it has one, and otherwise that of
  the NVD, in whatever order the runtime visits the sources.
\<close>

lemma cvss_score_vendor_first:
  assumes "perm_order ord" and "distinct (map fst cvsss)" and "\<forall>(n, x) \<in> set cvsss. x \<noteq> None"
    and "\<forall>n \<in> fst ` set cvsss. n = ''nvd'' \<or> n = vendor" and "vendor \<noteq> ''nvd''"
  defines "score \<equiv> \<lambda>n. case map_of cvsss n of Some (Some x) \<Rightarrow> cv_V3Score x | _ \<Rightarrow> None"
  shows "GetScoreFromCVSS ord cvsss = Inr (if score vendor = None then score ''nvd'' else score vendor)"
proof -
  let ?xs = "range_map ord cvsss"
  have xs: "set ?xs = set cvsss" "distinct (map fst ?xs)"
    using range_map_set [OF assms(1,2)] range_map_distinct [OF assms(1,2)] by auto
  have look: "map_of ?xs = map_of cvsss"
    using map_of_inject_set [OF xs(2) assms(2)] xs(1) by simp
  show ?thesis
    using score_loop_vendor [of ?xs vendor None None] xs assms(3-5)
    by (simp add: GetScoreFromCVSS_def look score_def)
qed

text \<open>
  The score of a vulnerability can depend on the order in which the runtime visits a map: with two vendors' scores, either
  one can be reported, and a vendor without a score hides the score of another vendor.
\<close>

lemma cvss_score_depends_on_order:
  "\<exists>cvsss ord ord'. distinct (map fst cvsss) \<and> perm_order ord \<and> perm_order ord' \<and>
     GetScoreFromCVSS ord cvsss = Inr (Some 0x401E000000000000) \<and> GetScoreFromCVSS ord' cvsss = Inr None"
proof (intro exI conjI)
  let ?m = "[(''ghsa'', Some \<lparr>cv_V3Score = Some 0x401E000000000000\<rparr>), (''redhat'', Some \<lparr>cv_V3Score = None\<rparr>)]"
  show "distinct (map fst ?m)" "perm_order rev" "perm_order (\<lambda>ks. ks)" by simp_all
  show "GetScoreFromCVSS rev ?m = Inr (Some 0x401E000000000000)" "GetScoreFromCVSS (\<lambda>ks. ks) ?m = Inr None"
    by (simp_all add: GetScoreFromCVSS_def range_map_def List.map_filter_def)
qed

end
