(* ===== verification/Aqua.thy ===== *)
theory Aqua
  imports Plugin_Common
begin

text \<open>
  The plugin for Aqua Enterprise (\<^verbatim>\<open>pkg/plugin/aqua/plugin.go\<close>): pods that run its scanner on the images or on the
  filesystem of a workload, and the reading of their output, which already is a vulnerability report. The decoder of
  a Kubernetes time stamp is outside the repository and a parameter, as is the version of the build. A secret's \<^verbatim>\<open>stringData\<close> is written
  over its \<^verbatim>\<open>data\<close> by the API server, so the model has only the merged map.
\<close>

section \<open>Settings\<close>

definition aquaPlugin_name :: string where "aquaPlugin_name = ''Aqua''"
definition keyAquaScannerImage :: string where "keyAquaScannerImage = ''aqua.imageRef''"
definition keyStarboardAquaImage :: string where "keyStarboardAquaImage = ''aqua.imageRefStarboardAquaScanner''"
definition keyAquaCommand :: string where "keyAquaCommand = ''aqua.command''"
definition keyAquaCspHost :: string where "keyAquaCspHost = ''aqua.serverURL''"
definition keyAquaUsername :: string where "keyAquaUsername = ''aqua.username''"
definition keyAquaPassword :: string where "keyAquaPassword = ''aqua.password''"
definition keyAquaRegistry :: string where "keyAquaRegistry = ''aqua.registry''"
definition aqua_resources :: string where "aqua_resources = ''aqua.resources.''"

lemmas aqua_keys = keyAquaScannerImage_def keyStarboardAquaImage_def keyAquaCommand_def keyAquaCspHost_def
  keyAquaUsername_def keyAquaPassword_def keyAquaRegistry_def aqua_resources_def

definition aqua_Filesystem :: string where "aqua_Filesystem = ''filesystem''"
definition aqua_Image :: string where "aqua_Image = ''image''"

definition aqua_GetCommand :: "PluginConfig \<Rightarrow> error + string" where
  "aqua_GetCommand c =
     (case map_of (pc_Data c) keyAquaCommand of
        None \<Rightarrow> Inr aqua_Image
      | Some value \<Rightarrow>
          if value = aqua_Image then Inr aqua_Image
          else if value = aqua_Filesystem then Inr aqua_Filesystem
          else Inl (Errorf (''invalid value ('' @ value @ '') of '' @ keyAquaCommand)))"

definition GetStarboardAquaScannerImage :: "PluginConfig \<Rightarrow> error + string" where
  "GetStarboardAquaScannerImage c =
     (case map_of (pc_Data c) keyStarboardAquaImage of
        None \<Rightarrow> Inl (Errorf (''property '' @ keyStarboardAquaImage @ '' not set''))
      | Some value \<Rightarrow> Inr value)"

definition aqua_GetResourceRequirements :: "plugin_env \<Rightarrow> PluginConfig \<Rightarrow> error + ResourceRequirements" where
  "aqua_GetResourceRequirements P c = resource_requirements P c aqua_resources"

definition aqua_Init :: "PluginContext \<Rightarrow> 's \<Rightarrow> error option \<times> 's" where
  "aqua_Init ctx s = (None, s)"

definition aqua_newConfigFrom :: "'s client \<Rightarrow> PluginContext \<Rightarrow> 's \<Rightarrow> error + PluginConfig" where
  "aqua_newConfigFrom c ctx s = GetConfig c ctx s"

definition aqua_getImageRef :: "'s client \<Rightarrow> PluginContext \<Rightarrow> 's \<Rightarrow> error + string" where
  "aqua_getImageRef c ctx s =
     (case GetConfig c ctx s of Inl e \<Rightarrow> Inl e | Inr config \<Rightarrow> PluginConfig_GetRequiredData config keyAquaScannerImage)"

section \<open>Scanning images\<close>

definition newScanJobContainer ::
    "'s client \<Rightarrow> plugin_env \<Rightarrow> string \<Rightarrow> PluginContext \<Rightarrow> 's \<Rightarrow> PluginConfig \<Rightarrow> Container \<Rightarrow> error + Container" where
  "newScanJobContainer c P buildVersion ctx s config podContainer =
     (case aqua_getImageRef c ctx s of
        Inl e \<Rightarrow> Inl e
      | Inr aquaImageRef \<Rightarrow>
          (case version_of P aquaImageRef of
             Inl e \<Rightarrow> Inl e
           | Inr version \<Rightarrow>
               (let pluginConfigName = GetPluginConfigMapName aquaPlugin_name in
                case aqua_GetResourceRequirements P config of
                  Inl e \<Rightarrow> Inl e
                | Inr requirements \<Rightarrow>
                    Inr (empty_Container\<lparr>co_Name := co_Name podContainer,
                      co_Image := ''aquasec/starboard-scanner-aqua:'' @ buildVersion,
                      co_ImagePullPolicy := ''IfNotPresent'', co_TerminationMessagePolicy := ''FallbackToLogsOnError'',
                      co_Command := [''/bin/sh'', ''-c'',
                        ''/usr/local/bin/starboard-scanner-aqua --version $(AQUA_VERSION) --host $(AQUA_CSP_HOST) '' @
                        ''--user $(AQUA_CSP_USERNAME) --password $(AQUA_CSP_PASSWORD) '' @ co_Image podContainer @
                        '' 2> /dev/termination-log''],
                      co_Env := [\<lparr>ev_Name = ''AQUA_VERSION'', ev_Value = EnvText version\<rparr>,
                        constructEnvVarSourceFromConfigMap ''AQUA_CSP_HOST'' pluginConfigName keyAquaCspHost,
                        constructEnvVarSourceFromConfigMap ''AQUA_CSP_USERNAME'' pluginConfigName keyAquaUsername,
                        constructEnvVarSourceFromConfigMap ''AQUA_CSP_PASSWORD'' pluginConfigName keyAquaPassword],
                      co_Resources := requirements,
                      co_VolumeMounts := [\<lparr>vm_Name = ''scannercli'', vm_MountPath = ''/usr/local/bin/scannercli'',
                          vm_SubPath = ''scannercli'', vm_ReadOnly = False\<rparr>,
                        \<lparr>vm_Name = ''dockersock'', vm_MountPath = ''/var/run/docker.sock'', vm_SubPath = [],
                          vm_ReadOnly = False\<rparr>]\<rparr>))))"

definition getPodSpecForImageCommand ::
    "'s client \<Rightarrow> plugin_env \<Rightarrow> string \<Rightarrow> PluginContext \<Rightarrow> 's \<Rightarrow> PluginConfig \<Rightarrow> Object \<Rightarrow> error + (PodSpec \<times> Object list)" where
  "getPodSpecForImageCommand c P buildVersion ctx s config obj =
     (case GetPodSpec obj of
        Inl e \<Rightarrow> Inl e
      | Inr spec \<Rightarrow>
          (case aqua_getImageRef c ctx s of
             Inl e \<Rightarrow> Inl e
           | Inr aquaImageRef \<Rightarrow>
               (case map_err (newScanJobContainer c P buildVersion ctx s config) (ps_Containers spec) of
                  Inl e \<Rightarrow> Inl e
                | Inr scanJobContainers \<Rightarrow>
                    Inr (empty_PodSpec\<lparr>ps_RestartPolicy := ''Never'', ps_AutomountServiceAccountToken := Some False,
                      ps_NodeName := ps_NodeName spec,
                      ps_Volumes := [\<lparr>vo_Name = ''scannercli'', vo_Source = EmptyDir []\<rparr>,
                        \<lparr>vo_Name = ''dockersock'', vo_Source = HostPath ''/var/run/docker.sock''\<rparr>],
                      ps_InitContainers := [empty_Container\<lparr>co_Name := pe_GenerateID P 0, co_Image := aquaImageRef,
                        co_Command := [''cp'', ''/opt/aquasec/scannercli'', ''/downloads/scannercli''],
                        co_VolumeMounts := [\<lparr>vm_Name = ''scannercli'', vm_MountPath = ''/downloads'', vm_SubPath = [],
                          vm_ReadOnly = False\<rparr>]\<rparr>],
                      ps_Containers := scanJobContainers\<rparr>, []))))"

section \<open>Scanning the filesystem\<close>

definition aqua_FsSharedVolumeName :: string where "aqua_FsSharedVolumeName = ''starboard-aqua''"

definition aqua_mount :: VolumeMount where
  "aqua_mount = \<lparr>vm_Name = aqua_FsSharedVolumeName, vm_MountPath = ''/var/aqua'', vm_SubPath = [], vm_ReadOnly = False\<rparr>"

definition getEnvFromConfig ::
    "'s client \<Rightarrow> plugin_env \<Rightarrow> PluginContext \<Rightarrow> 's \<Rightarrow> string \<Rightarrow> error + EnvVar list" where
  "getEnvFromConfig c P ctx s secretName =
     (case aqua_getImageRef c ctx s of
        Inl e \<Rightarrow> Inl e
      | Inr aquaImageRef \<Rightarrow>
          (case version_of P aquaImageRef of
             Inl e \<Rightarrow> Inl e
           | Inr version \<Rightarrow>
               Inr [\<lparr>ev_Name = ''AQUA_VERSION'', ev_Value = EnvText version\<rparr>,
                 constructEnvVarSourceFromSecret ''AQUA_CSP_HOST'' secretName keyAquaCspHost,
                 constructEnvVarSourceFromSecret ''AQUA_CSP_USERNAME'' secretName keyAquaUsername,
                 constructEnvVarSourceFromSecret ''AQUA_CSP_PASSWORD'' secretName keyAquaPassword,
                 constructEnvVarSourceFromSecret ''AQUA_CSP_REGISTRY'' secretName keyAquaRegistry]))"

definition newScanJobContainerFSCommand ::
    "plugin_env \<Rightarrow> PluginConfig \<Rightarrow> EnvVar list \<Rightarrow> Container \<Rightarrow> error + Container" where
  "newScanJobContainerFSCommand P config envVars podContainer =
     (case aqua_GetResourceRequirements P config of
        Inl e \<Rightarrow> Inl e
      | Inr requirements \<Rightarrow>
          Inr (empty_Container\<lparr>co_Name := co_Name podContainer, co_Image := co_Image podContainer,
            co_ImagePullPolicy := ''IfNotPresent'', co_TerminationMessagePolicy := ''FallbackToLogsOnError'',
            co_Command := [''/var/aqua/starboard-scanner-aqua''],
            co_Args := [''--version'', ''$(AQUA_VERSION)'', ''--host'', ''$(AQUA_CSP_HOST)'', ''--user'', ''$(AQUA_CSP_USERNAME)'',
              ''--password'', ''$(AQUA_CSP_PASSWORD)'', ''--command'', ''filesystem'', ''--registry'', ''$(AQUA_CSP_REGISTRY)'',
              co_Image podContainer],
            co_Env := envVars, co_Resources := requirements, co_VolumeMounts := [aqua_mount]\<rparr>))"

definition aqua_fs_init :: "plugin_env \<Rightarrow> string \<Rightarrow> string \<Rightarrow> Container list" where
  "aqua_fs_init P aquaImageRef starboardAquaImage =
     [empty_Container\<lparr>co_Name := pe_GenerateID P 0, co_Image := aquaImageRef, co_ImagePullPolicy := ''IfNotPresent'',
        co_Command := [''cp'', ''/opt/aquasec/scannercli'', ''/var/aqua/scannercli''], co_VolumeMounts := [aqua_mount]\<rparr>,
      empty_Container\<lparr>co_Name := pe_GenerateID P 1, co_Image := starboardAquaImage, co_ImagePullPolicy := ''IfNotPresent'',
        co_Command := [''cp'', ''/usr/local/bin/starboard-scanner-aqua'', ''/var/aqua/starboard-scanner-aqua''],
        co_VolumeMounts := [aqua_mount]\<rparr>]"

definition getPodSpecForFileSystemCommand ::
    "'s client \<Rightarrow> plugin_env \<Rightarrow> PluginContext \<Rightarrow> 's \<Rightarrow> PluginConfig \<Rightarrow> Object \<Rightarrow> error + (PodSpec \<times> Object list)" where
  "getPodSpecForFileSystemCommand c P ctx s config obj =
     (case GetPodSpec obj of
        Inl e \<Rightarrow> Inl e
      | Inr spec \<Rightarrow>
          (case aqua_getImageRef c ctx s of
             Inl e \<Rightarrow> Inl e
           | Inr aquaImageRef \<Rightarrow>
               (case GetStarboardAquaScannerImage config of
                  Inl e \<Rightarrow> Inl e
                | Inr starboardAquaImage \<Rightarrow>
                    (let secretName = GetScanJobName (pe_env P) obj @ ''-volume'' in
                     case getEnvFromConfig c P ctx s secretName of
                       Inl e \<Rightarrow> Inl e
                     | Inr envVars \<Rightarrow>
                         (case map_err (newScanJobContainerFSCommand P config envVars) (ps_Containers spec) of
                            Inl e \<Rightarrow> Inl e
                          | Inr scanJobContainers \<Rightarrow>
                              Inr (empty_PodSpec\<lparr>ps_RestartPolicy := ''Never'', ps_AutomountServiceAccountToken := Some False,
                                  ps_Volumes := [\<lparr>vo_Name = aqua_FsSharedVolumeName, vo_Source = EmptyDir []\<rparr>],
                                  ps_InitContainers := aqua_fs_init P aquaImageRef starboardAquaImage,
                                  ps_Containers := scanJobContainers\<rparr>,
                                [\<lparr>o_Kind = [],
                                  o_Meta = empty_meta\<lparr>om_Name := secretName, om_Namespace := px_namespace ctx\<rparr>,
                                  o_Body = Secret [] (AList.updates (map fst (pc_Data config)) (map snd (pc_Data config))
                                    (pc_SecretData config))\<rparr>]))))))"

definition aqua_GetScanJobSpec ::
    "'s client \<Rightarrow> string \<Rightarrow> plugin_env \<Rightarrow> PluginContext \<Rightarrow> 's \<Rightarrow> Object \<Rightarrow> Auth gomap \<Rightarrow> error + (PodSpec \<times> Object list)" where
  "aqua_GetScanJobSpec c buildVersion P ctx s obj credentials =
     (case aqua_newConfigFrom c ctx s of
        Inl e \<Rightarrow> Inl e
      | Inr config \<Rightarrow>
          (case aqua_GetCommand config of
             Inl e \<Rightarrow> Inl e
           | Inr command \<Rightarrow>
               if command = aqua_Image then getPodSpecForImageCommand c P buildVersion ctx s config obj
               else if command = aqua_Filesystem then getPodSpecForFileSystemCommand c P ctx s config obj
               else Inl (Errorf (''unrecognized scanner command '' @ command))))"

section \<open>The output\<close>

definition empty_Vulnerability :: Vulnerability where
  "empty_Vulnerability = \<lparr>vu_VulnerabilityID = [], vu_Resource = [], vu_InstalledVersion = [], vu_FixedVersion = [],
     vu_Severity = [], vu_Title = [], vu_Description = [], vu_PrimaryLink = [], vu_Links = [], vu_Score = None\<rparr>"

definition empty_VulnerabilityReportData :: VulnerabilityReportData where
  "empty_VulnerabilityReportData = \<lparr>vr_UpdateTimestamp = 0, vr_Scanner = \<lparr>sc_Name = [], sc_Vendor = [], sc_Version = []\<rparr>,
     vr_Registry = \<lparr>rg_Server = []\<rparr>, vr_Artifact = \<lparr>af_Repository = [], af_Digest = [], af_Tag = [], af_MimeType = []\<rparr>,
     vr_Summary = \<lparr>vs_CriticalCount = 0, vs_HighCount = 0, vs_MediumCount = 0, vs_LowCount = 0, vs_UnknownCount = 0,
       vs_NoneCount = 0\<rparr>, vr_Vulnerabilities = []\<rparr>"

definition Vulnerability_members :: "(string \<times> Vulnerability setter) list" where
  "Vulnerability_members = [(''vulnerabilityid'', string_field (\<lambda>x. vu_VulnerabilityID_update (\<lambda>_. x))),
     (''resource'', string_field (\<lambda>x. vu_Resource_update (\<lambda>_. x))),
     (''installedversion'', string_field (\<lambda>x. vu_InstalledVersion_update (\<lambda>_. x))),
     (''fixedversion'', string_field (\<lambda>x. vu_FixedVersion_update (\<lambda>_. x))),
     (''severity'', string_field (\<lambda>x. vu_Severity_update (\<lambda>_. x))),
     (''title'', string_field (\<lambda>x. vu_Title_update (\<lambda>_. x))),
     (''description'', string_field (\<lambda>x. vu_Description_update (\<lambda>_. x))),
     (''primarylink'', string_field (\<lambda>x. vu_PrimaryLink_update (\<lambda>_. x))),
     (''links'', list_field vu_Links (\<lambda>x. vu_Links_update (\<lambda>_. x)) decode_string []),
     (''score'', struct_field vu_Score (\<lambda>x. vu_Score_update (\<lambda>_. x)) (decode_pointer (number_field ParseFloat (\<lambda>x _. x)) 0))]"

definition VulnerabilitySummary_members :: "(string \<times> VulnerabilitySummary setter) list" where
  "VulnerabilitySummary_members = [(''criticalcount'', int_field (\<lambda>x. vs_CriticalCount_update (\<lambda>_. x))),
     (''highcount'', int_field (\<lambda>x. vs_HighCount_update (\<lambda>_. x))),
     (''mediumcount'', int_field (\<lambda>x. vs_MediumCount_update (\<lambda>_. x))),
     (''lowcount'', int_field (\<lambda>x. vs_LowCount_update (\<lambda>_. x))),
     (''unknowncount'', int_field (\<lambda>x. vs_UnknownCount_update (\<lambda>_. x))),
     (''nonecount'', int_field (\<lambda>x. vs_NoneCount_update (\<lambda>_. x)))]"

definition Scanner_members :: "(string \<times> Scanner setter) list" where
  "Scanner_members = [(''name'', string_field (\<lambda>x. sc_Name_update (\<lambda>_. x))),
     (''vendor'', string_field (\<lambda>x. sc_Vendor_update (\<lambda>_. x))),
     (''version'', string_field (\<lambda>x. sc_Version_update (\<lambda>_. x)))]"

definition Artifact_members :: "(string \<times> Artifact setter) list" where
  "Artifact_members = [(''repository'', string_field (\<lambda>x. af_Repository_update (\<lambda>_. x))),
     (''digest'', string_field (\<lambda>x. af_Digest_update (\<lambda>_. x))),
     (''tag'', string_field (\<lambda>x. af_Tag_update (\<lambda>_. x))),
     (''mimetype'', string_field (\<lambda>x. af_MimeType_update (\<lambda>_. x)))]"

definition VulnerabilityReportData_members :: "Time setter \<Rightarrow> (string \<times> VulnerabilityReportData setter) list" where
  "VulnerabilityReportData_members decode_Time =
     [(''updatetimestamp'', struct_field vr_UpdateTimestamp (\<lambda>x. vr_UpdateTimestamp_update (\<lambda>_. x)) decode_Time),
      (''scanner'', struct_field vr_Scanner (\<lambda>x. vr_Scanner_update (\<lambda>_. x)) (decode_struct Scanner_members)),
      (''registry'', struct_field vr_Registry (\<lambda>x. vr_Registry_update (\<lambda>_. x))
         (decode_struct [(''server'', string_field (\<lambda>x. rg_Server_update (\<lambda>_. x)))])),
      (''artifact'', struct_field vr_Artifact (\<lambda>x. vr_Artifact_update (\<lambda>_. x)) (decode_struct Artifact_members)),
      (''summary'', struct_field vr_Summary (\<lambda>x. vr_Summary_update (\<lambda>_. x)) (decode_struct VulnerabilitySummary_members)),
      (''vulnerabilities'', list_field vr_Vulnerabilities (\<lambda>x. vr_Vulnerabilities_update (\<lambda>_. x))
         (decode_struct Vulnerability_members) empty_Vulnerability)]"

definition aqua_ParseVulnerabilityReportData ::
    "Time setter \<Rightarrow> PluginContext \<Rightarrow> 's \<Rightarrow> string \<Rightarrow> string \<Rightarrow> error + VulnerabilityReportData" where
  "aqua_ParseVulnerabilityReportData decode_Time ctx s imageRef logs =
     Decode_first (decode_struct (VulnerabilityReportData_members decode_Time)) empty_VulnerabilityReportData logs"

definition aquaPlugin :: "'s client \<Rightarrow> string \<Rightarrow> Time setter \<Rightarrow> plugin_env \<Rightarrow> 's Plugin" where
  "aquaPlugin c buildVersion decode_Time P = \<lparr>pl_Init = aqua_Init, pl_GetScanJobSpec = aqua_GetScanJobSpec c buildVersion P,
     pl_ParseVulnerabilityReportData = aqua_ParseVulnerabilityReportData decode_Time\<rparr>"

section \<open>The contract\<close>

lemma map_err_names:
  assumes "map_err f cs = Inr xs" and "\<And>co x. f co = Inr x \<Longrightarrow> co_Name x = co_Name co"
  shows "map co_Name xs = map co_Name cs"
  using assms by (auto simp: map_err_Inr_iff list_all2_conv_all_nth intro!: nth_equalityI)

lemma aqua_container_name:
  "newScanJobContainer c P v ctx s config co = Inr x \<Longrightarrow> co_Name x = co_Name co"
  "newScanJobContainerFSCommand P config ev co = Inr x \<Longrightarrow> co_Name x = co_Name co"
  by (auto simp: newScanJobContainer_def newScanJobContainerFSCommand_def Let_def split: sum.splits)

text \<open>Aqua's containers read all their secrets as optional ones.\<close>

lemma aqua_container_env:
  "newScanJobContainer c P v ctx s config co = Inr x \<Longrightarrow> ev \<in> set (co_Env x) \<Longrightarrow> required_secret ev = None"
  "newScanJobContainerFSCommand P config envs co = Inr x \<Longrightarrow> co_Env x = envs"
  "getEnvFromConfig c P ctx s sn = Inr envs \<Longrightarrow> ev \<in> set envs \<Longrightarrow> required_secret ev = None"
  by (auto simp: newScanJobContainer_def newScanJobContainerFSCommand_def getEnvFromConfig_def Let_def split: sum.splits)

lemma aqua_pod:
  assumes "aqua_GetScanJobSpec c v P ctx s obj credentials = Inr (pod, secrets)"
  shows "GetPodSpec obj = Inr spec \<Longrightarrow> map co_Name (ps_Containers pod) = map co_Name (ps_Containers spec)"
    and "required_secrets pod = {}" and "\<forall>x \<in> set secrets. go_type x = TSecret"
proof -
  consider (image) config spec xs where "GetPodSpec obj = Inr spec"
      "map_err (newScanJobContainer c P v ctx s config) (ps_Containers spec) = Inr xs" "ps_Containers pod = xs"
      "\<forall>co \<in> set (ps_InitContainers pod). co_Env co = []" "secrets = []"
    | (fs) config spec envs xs sn where "GetPodSpec obj = Inr spec" "getEnvFromConfig c P ctx s sn = Inr envs"
      "map_err (newScanJobContainerFSCommand P config envs) (ps_Containers spec) = Inr xs" "ps_Containers pod = xs"
      "\<forall>co \<in> set (ps_InitContainers pod). co_Env co = []" "\<forall>x \<in> set secrets. go_type x = TSecret"
    using assms
    by (auto simp: aqua_GetScanJobSpec_def getPodSpecForImageCommand_def getPodSpecForFileSystemCommand_def aqua_fs_init_def
        empty_Container_def Let_def split: sum.splits if_splits)
  note shape = this
  show "GetPodSpec obj = Inr spec \<Longrightarrow> map co_Name (ps_Containers pod) = map co_Name (ps_Containers spec)"
    using shape by cases (auto dest!: map_err_names intro: aqua_container_name)
  show "\<forall>x \<in> set secrets. go_type x = TSecret" using shape by cases auto
  show "required_secrets pod = {}"
    using shape
  proof cases
    case image
    have "required_secret ev = None" if x: "x \<in> set xs" "ev \<in> set (co_Env x)" for x ev
      using list_all2_mem [OF image(2) [unfolded map_err_Inr_iff] x(1)] x(2) by (auto intro: aqua_container_env(1))
    then show ?thesis using image by (auto simp: required_secrets_def)
  next
    case fs
    have "required_secret ev = None" if x: "x \<in> set xs" "ev \<in> set (co_Env x)" for x ev
      using list_all2_mem [OF fs(3) [unfolded map_err_Inr_iff] x(1)] aqua_container_env(2,3) fs(2) x(2) by metis
    then show ?thesis using fs by (auto simp: required_secrets_def)
  qed
qed

interpretation aqua_scanner: image_scanner "\<lambda>_. True" "aqua_GetScanJobSpec c v" for c v
  by unfold_locales (auto dest: aqua_pod(1), auto dest: aqua_pod(2), auto dest!: aqua_pod(3))

end
