(* ===== verification/Conftest.thy ===== *)
theory Conftest
  imports Plugin_Common Policy
begin

text \<open>
  The Conftest plugin (\<^verbatim>\<open>pkg/plugin/conftest\<close>): Rego policies from the plugin's config map are copied into a secret and mounted
  into the pod of a scan, and the scanner's output becomes a configuration audit report. The selection of policies is the code of
  \<^verbatim>\<open>pkg/policy\<close> with other key prefixes. The YAML marshaller (\<^verbatim>\<open>sigs.k8s.io/yaml\<close>) is a parameter. A failed
  type assertion panics in Go; here it is an error of its own.
\<close>

section \<open>Settings\<close>

definition conftest_containerName :: string where "conftest_containerName = ''conftest''"
definition workloadKey :: string where "workloadKey = ''starboard.workload.yaml''"
definition defaultCheckCategory :: string where "defaultCheckCategory = ''Security''"
definition conftest_keyImageRef :: string where "conftest_keyImageRef = ''conftest.imageRef''"
definition conftest_resources :: string where "conftest_resources = ''conftest.resources.''"
definition conftest_keyPrefixPolicy :: string where "conftest_keyPrefixPolicy = ''conftest.policy.''"
definition conftest_keyPrefixLibrary :: string where "conftest_keyPrefixLibrary = ''conftest.library.''"

definition conftest_GetImageRef :: "PluginConfig \<Rightarrow> error + string" where
  "conftest_GetImageRef c = PluginConfig_GetRequiredData c conftest_keyImageRef"

definition GetLibraries :: "order \<Rightarrow> PluginConfig \<Rightarrow> string gomap" where
  "GetLibraries ord c = libraries_from conftest_keyPrefixLibrary ord (pc_Data c)"

definition GetPoliciesByKind :: "order \<Rightarrow> PluginConfig \<Rightarrow> string \<Rightarrow> error + string gomap" where
  "GetPoliciesByKind ord c kind = policies_loop conftest_keyPrefixPolicy (pc_Data c) kind (range_map ord (pc_Data c)) []"

definition conftest_GetResourceRequirements :: "plugin_env \<Rightarrow> PluginConfig \<Rightarrow> error + ResourceRequirements" where
  "conftest_GetResourceRequirements P c = resource_requirements P c conftest_resources"

definition conftest_supportedKinds :: "Kind list" where
  "conftest_supportedKinds = [KindPod, KindDeployment, KindReplicaSet, KindReplicationController, KindStatefulSet,
     KindDaemonSet, KindCronJob, KindJob, KindService, KindConfigMap, KindRole, KindRoleBinding,
     KindClusterRole, KindClusterRoleBindings, KindCustomResourceDefinition]"

definition conftest_newConfigFrom :: "'s client \<Rightarrow> PluginContext \<Rightarrow> 's \<Rightarrow> error + PluginConfig" where
  "conftest_newConfigFrom c ctx s = (case GetConfig c ctx s of Inl e \<Rightarrow> Inl (Wrap ''getting config'' e) | Inr x \<Rightarrow> Inr x)"

definition conftest_IsApplicable ::
    "'s client \<Rightarrow> plugin_env \<Rightarrow> PluginContext \<Rightarrow> 's \<Rightarrow> Object \<Rightarrow> error + (bool \<times> string)" where
  "conftest_IsApplicable c P ctx s obj =
     (case conftest_newConfigFrom c ctx s of
        Inl e \<Rightarrow> Inl e
      | Inr config \<Rightarrow>
          if o_Kind obj = [] then Inl (Errorf ''object kind must not be nil'')
          else (case GetPoliciesByKind (pe_order P) config (o_Kind obj) of
                  Inl e \<Rightarrow> Inl e
                | Inr policies \<Rightarrow>
                    if length policies = 0 then Inr (False, ''no Rego policies found for kind '' @ o_Kind obj)
                    else Inr (True, [])))"

definition conftest_defaults :: "string gomap" where
  "conftest_defaults = [(conftest_keyImageRef, ''openpolicyagent/conftest:v0.30.0''),
     (conftest_resources @ ''requests.cpu'', ''50m''), (conftest_resources @ ''requests.memory'', ''50M''),
     (conftest_resources @ ''limits.cpu'', ''300m''), (conftest_resources @ ''limits.memory'', ''300M'')]"

definition conftest_Init :: "'s client \<Rightarrow> PluginContext \<Rightarrow> 's \<Rightarrow> error option \<times> 's" where
  "conftest_Init c ctx = EnsureConfig c ctx conftest_defaults"

definition modulesByKind :: "order \<Rightarrow> PluginConfig \<Rightarrow> string \<Rightarrow> error + string gomap" where
  "modulesByKind ord config kind = with_libraries ord (GetLibraries ord config) (GetPoliciesByKind ord config kind)"

definition conftest_ConfigHash ::
    "'s client \<Rightarrow> plugin_env \<Rightarrow> PluginContext \<Rightarrow> 's \<Rightarrow> Kind \<Rightarrow> error + string" where
  "conftest_ConfigHash c P ctx s kind =
     (case conftest_newConfigFrom c ctx s of
        Inl e \<Rightarrow> Inl e
      | Inr config \<Rightarrow>
          (case modulesByKind (pe_order P) config kind of
             Inl e \<Rightarrow> Inl e
           | Inr modules \<Rightarrow> Inr (ComputeHash (pe_env P) (HModules (map_of modules)))))"

section \<open>The pod of a scan\<close>

definition moduleName :: "string \<Rightarrow> string" where
  "moduleName module = TrimPrefix (TrimPrefix module conftest_keyPrefixPolicy) conftest_keyPrefixLibrary"

definition module_mount :: "string \<Rightarrow> string \<Rightarrow> VolumeMount" where
  "module_mount secretName module = \<lparr>vm_Name = secretName, vm_MountPath = ''/project/policy/'' @ moduleName module,
     vm_SubPath = moduleName module, vm_ReadOnly = True\<rparr>"

definition conftest_GetScanJobSpec ::
    "'s client \<Rightarrow> (Object \<Rightarrow> error + string) \<Rightarrow> plugin_env \<Rightarrow> PluginContext \<Rightarrow> 's \<Rightarrow> Object \<Rightarrow> error + (PodSpec \<times> Object list)" where
  "conftest_GetScanJobSpec c yaml_Marshal P ctx s obj =
     (case conftest_newConfigFrom c ctx s of
        Inl e \<Rightarrow> Inl (Wrap ''constructing config from plugin context'' e)
      | Inr config \<Rightarrow>
          (case conftest_GetImageRef config of
             Inl e \<Rightarrow> Inl (Wrap ''getting image ref'' e)
           | Inr imageRef \<Rightarrow>
               (case modulesByKind (pe_order P) config (o_Kind obj) of
                  Inl e \<Rightarrow> Inl e
                | Inr modules \<Rightarrow>
                    (let secretName = audit_GetScanJobName (pe_env P) obj @ ''-volume'';
                         ms = range_map (pe_order P) modules;
                         secretData = foldl (\<lambda>m (module, script). AList.update module script m) [] ms
                     in case yaml_Marshal obj of
                          Inl e \<Rightarrow> Inl (Wrap ''marshalling workload'' e)
                        | Inr workloadAsYAML \<Rightarrow>
                            (case conftest_GetResourceRequirements P config of
                               Inl e \<Rightarrow> Inl (Wrap ''getting resource requirements'' e)
                             | Inr requirements \<Rightarrow>
                                 Inr (empty_PodSpec\<lparr>ps_ServiceAccountName := px_serviceAccountName ctx,
                                     ps_AutomountServiceAccountToken := Some False, ps_RestartPolicy := ''Never'',
                                     ps_Affinity := LinuxNodeAffinity,
                                     ps_Volumes := [\<lparr>vo_Name = secretName, vo_Source = SecretVolume secretName
                                       (map (\<lambda>(module, _). (module, moduleName module)) ms @ [(workloadKey, ''workload.yaml'')])\<rparr>],
                                     ps_Containers := [empty_Container\<lparr>co_Name := conftest_containerName, co_Image := imageRef,
                                       co_ImagePullPolicy := ''IfNotPresent'',
                                       co_TerminationMessagePolicy := ''FallbackToLogsOnError'', co_Resources := requirements,
                                       co_VolumeMounts := map (\<lambda>(module, _). module_mount secretName module) ms @
                                         [\<lparr>vm_Name = secretName, vm_MountPath = ''/project/workload.yaml'',
                                           vm_SubPath = ''workload.yaml'', vm_ReadOnly = True\<rparr>],
                                       co_Command := [''sh''],
                                       co_Args := [''-c'', ''conftest test --no-fail --output json --all-namespaces '' @
                                         ''--policy /project/policy /project/workload.yaml''],
                                       co_SecurityContext := Some unprivileged\<rparr>],
                                     ps_SecurityContext := Some empty_PodSecurityContext\<rparr>,
                                   [\<lparr>o_Kind = [],
                                     o_Meta = empty_meta\<lparr>om_Name := secretName, om_Namespace := px_namespace ctx\<rparr>,
                                     o_Body = Secret [] (AList.update workloadKey workloadAsYAML secretData)\<rparr>]))))))"

section \<open>The output\<close>

record ConftestResult =
  cr_Message :: string
  cr_Metadata :: "json gomap"

record QueryResult =
  qr_Query :: string
  qr_Results :: "ConftestResult list"
  qr_Traces :: "string list"

record CheckResult =
  cr_FileName :: string
  cr_Namespace :: string
  cr_Successes :: int
  cr_Warnings :: "ConftestResult list"
  cr_Failures :: "ConftestResult list"
  cr_Exceptions :: "ConftestResult list"
  cr_Queries :: "QueryResult list"

definition ConftestResult_members :: "(string \<times> ConftestResult setter) list" where
  "ConftestResult_members = [(''msg'', string_field (\<lambda>x. cr_Message_update (\<lambda>_. x))),
     (''metadata'', map_field cr_Metadata (\<lambda>x. cr_Metadata_update (\<lambda>_. x)) decode_any JNull)]"

abbreviation results_field ::
    "('a \<Rightarrow> ConftestResult list) \<Rightarrow> (ConftestResult list \<Rightarrow> 'a \<Rightarrow> 'a) \<Rightarrow> 'a setter" where
  "results_field sel upd \<equiv> list_field sel upd (decode_struct ConftestResult_members) \<lparr>cr_Message = [], cr_Metadata = []\<rparr>"

definition QueryResult_members :: "(string \<times> QueryResult setter) list" where
  "QueryResult_members = [(''query'', string_field (\<lambda>x. qr_Query_update (\<lambda>_. x))),
     (''results'', results_field qr_Results (\<lambda>x. qr_Results_update (\<lambda>_. x))),
     (''traces'', list_field qr_Traces (\<lambda>x. qr_Traces_update (\<lambda>_. x)) decode_string [])]"

definition CheckResult_members :: "(string \<times> CheckResult setter) list" where
  "CheckResult_members = [(''filename'', string_field (\<lambda>x. cr_FileName_update (\<lambda>_. x))),
     (''namespace'', string_field (\<lambda>x. cr_Namespace_update (\<lambda>_. x))),
     (''successes'', int_field (\<lambda>x. cr_Successes_update (\<lambda>_. x))),
     (''warnings'', results_field cr_Warnings (\<lambda>x. cr_Warnings_update (\<lambda>_. x))),
     (''failures'', results_field cr_Failures (\<lambda>x. cr_Failures_update (\<lambda>_. x))),
     (''exceptions'', results_field cr_Exceptions (\<lambda>x. cr_Exceptions_update (\<lambda>_. x))),
     (''queries'', list_field cr_Queries (\<lambda>x. cr_Queries_update (\<lambda>_. x)) (decode_struct QueryResult_members)
        \<lparr>qr_Query = [], qr_Results = [], qr_Traces = []\<rparr>)]"

definition empty_CheckResult :: CheckResult where
  "empty_CheckResult = \<lparr>cr_FileName = [], cr_Namespace = [], cr_Successes = 0, cr_Warnings = [], cr_Failures = [],
     cr_Exceptions = [], cr_Queries = []\<rparr>"

definition decode_CheckResults :: "string \<Rightarrow> CheckResult list \<times> error option" where
  "decode_CheckResults = Decode (decode_list (decode_struct CheckResult_members) empty_CheckResult) []"

text \<open>The argument \<open>n\<close> counts the identifiers that the report has taken from the generator so far.\<close>

definition getPolicyTitleFromResult :: "plugin_env \<Rightarrow> nat \<Rightarrow> ConftestResult \<Rightarrow> error + (string \<times> nat)" where
  "getPolicyTitleFromResult P n result =
     (case map_of (cr_Metadata result) ''id'' of
        Some (JString t) \<Rightarrow> Inr (t, n)
      | Some _ \<Rightarrow> Inl panic
      | None \<Rightarrow>
          (case map_of (cr_Metadata result) ''title'' of
             Some (JString t) \<Rightarrow> Inr (t, n)
           | Some _ \<Rightarrow> Inl panic
           | None \<Rightarrow> Inr (pe_GenerateID P n, n + 1)))"

fun result_checks :: "plugin_env \<Rightarrow> Severity \<Rightarrow> ConftestResult list \<Rightarrow> nat \<Rightarrow> error + (Check list \<times> nat)" where
  "result_checks P sev [] n = Inr ([], n)"
| "result_checks P sev (r # rs) n =
     (case getPolicyTitleFromResult P n r of
        Inl e \<Rightarrow> Inl e
      | Inr (title, n1) \<Rightarrow>
          (case result_checks P sev rs n1 of
             Inl e \<Rightarrow> Inl e
           | Inr (checks, n2) \<Rightarrow>
               Inr (\<lparr>ck_ID = title, ck_Title = [], ck_Description = [], ck_Severity = sev, ck_Category = defaultCheckCategory,
                     ck_Messages = [cr_Message r], ck_Remediation = [], ck_Success = False, ck_Scope = None\<rparr> # checks, n2)))"

text \<open>The checks with the numbers of warnings and failures.\<close>

fun conftest_checks :: "plugin_env \<Rightarrow> CheckResult list \<Rightarrow> nat \<Rightarrow> error + (Check list \<times> int \<times> int)" where
  "conftest_checks P [] n = Inr ([], 0, 0)"
| "conftest_checks P (cr # crs) n =
     (case result_checks P SeverityLow (cr_Warnings cr) n of
        Inl e \<Rightarrow> Inl e
      | Inr (warnings, n1) \<Rightarrow>
          (case result_checks P SeverityCritical (cr_Failures cr) n1 of
             Inl e \<Rightarrow> Inl e
           | Inr (failures, n2) \<Rightarrow>
               (case conftest_checks P crs n2 of
                  Inl e \<Rightarrow> Inl e
                | Inr (checks, lowCount, criticalCount) \<Rightarrow>
                    Inr (warnings @ failures @ checks, lowCount + int (length warnings),
                         criticalCount + int (length failures)))))"

text \<open>The error of the decoder is overwritten by the next call.\<close>

definition conftest_ParseConfigAuditReportData ::
    "'s client \<Rightarrow> plugin_env \<Rightarrow> PluginContext \<Rightarrow> 's \<Rightarrow> string \<Rightarrow> error + ConfigAuditReportData" where
  "conftest_ParseConfigAuditReportData c P ctx s logs =
     (case conftest_newConfigFrom c ctx s of
        Inl e \<Rightarrow> Inl (Wrap ''constructing config from plugin context'' e)
      | Inr config \<Rightarrow>
          (let (checkResults, err) = decode_CheckResults logs in
           case conftest_checks P checkResults 0 of
             Inl e \<Rightarrow> Inl e
           | Inr (checks, lowCount, criticalCount) \<Rightarrow>
               (case conftest_GetImageRef config of
                  Inl e \<Rightarrow> Inl (Wrap ''getting image ref'' e)
                | Inr imageRef \<Rightarrow>
                    (case version_of P imageRef of
                       Inl e \<Rightarrow> Inl (Wrap ''getting version from image ref'' e)
                     | Inr version \<Rightarrow>
                         Inr \<lparr>car_UpdateTimestamp = pe_Now P,
                              car_Scanner = \<lparr>sc_Name = ''Conftest'', sc_Vendor = ''Open Policy Agent'', sc_Version = version\<rparr>,
                              car_Summary = zero_ConfigAuditSummary\<lparr>cas_CriticalCount := criticalCount, cas_LowCount := lowCount\<rparr>,
                              car_Checks = checks, car_PodChecks = checks, car_ContainerChecks = []\<rparr>))))"

definition conftestPlugin :: "'s client \<Rightarrow> (Object \<Rightarrow> error + string) \<Rightarrow> plugin_env \<Rightarrow> 's AuditPlugin" where
  "conftestPlugin c yaml_Marshal P = \<lparr>ap_Init = conftest_Init c, ap_GetScanJobSpec = conftest_GetScanJobSpec c yaml_Marshal P,
     ap_ParseConfigAuditReportData = conftest_ParseConfigAuditReportData c P,
     ap_GetContainerName = conftest_containerName, ap_ConfigHash = conftest_ConfigHash c P,
     ap_SupportedKinds = conftest_supportedKinds, ap_IsApplicable = conftest_IsApplicable c P\<rparr>"

section \<open>Lemmas\<close>

lemma GetPoliciesByKind_lookup:
  assumes "perm_order ord" and "distinct (map fst p)" and "GetPoliciesByKind ord \<lparr>pc_Data = p, pc_SecretData = sd\<rparr> kind = Inr ps"
  shows "map_of ps k = (if applies p kind k then map_of p k else None)"
  using policies_loop_lookup [OF assms(3) [unfolded GetPoliciesByKind_def], of k] kinds_entry_iff [OF assms(2), of kind k]
  by (simp add: range_map_set [OF assms(1,2)])

lemma GetPoliciesByKind_error:
  assumes "perm_order ord" and "distinct (map fst p)"
  shows "(\<exists>e. GetPoliciesByKind ord \<lparr>pc_Data = p, pc_SecretData = sd\<rparr> kind = Inl e) \<longleftrightarrow>
    (\<exists>x \<in> set p. bad_entry conftest_keyPrefixPolicy p kind x)"
  using policies_loop_bad [of conftest_keyPrefixPolicy p kind "range_map ord p"]
  by (simp add: GetPoliciesByKind_def range_map_set [OF assms])

interpretation conftest_policies: policy_source
  "\<lambda>ord p. GetPoliciesByKind ord \<lparr>pc_Data = p, pc_SecretData = sd\<rparr>" "\<lambda>ord p. GetLibraries ord \<lparr>pc_Data = p, pc_SecretData = sd\<rparr>"
  "is_library conftest_keyPrefixLibrary" "bad_entry conftest_keyPrefixPolicy" for sd
proof unfold_locales
  show "GetPoliciesByKind ord \<lparr>pc_Data = p, pc_SecretData = sd\<rparr> kind = Inr ps \<Longrightarrow> distinct (map fst ps)" for ord p kind ps
    using policies_loop_distinct [of conftest_keyPrefixPolicy p kind "range_map ord p" "[]" ps]
    by (simp add: GetPoliciesByKind_def)
qed (simp_all add: GetPoliciesByKind_lookup GetPoliciesByKind_error GetLibraries_def libraries_from_lookup libraries_from_distinct)

text \<open>The modules that belong to a kind, and no other key.\<close>

lemma modulesByKind_lookup:
  assumes "perm_order ord" and "distinct (map fst (pc_Data config))" and "modulesByKind ord config kind = Inr ms"
  shows "distinct (map fst ms)"
    and "map_of ms k = (if is_library conftest_keyPrefixLibrary k \<or> applies (pc_Data config) kind k
      then map_of (pc_Data config) k else None)"
proof -
  obtain d sd where c: "config = \<lparr>pc_Data = d, pc_SecretData = sd\<rparr>" by (cases config)
  have ms: "with_libraries ord (GetLibraries ord \<lparr>pc_Data = d, pc_SecretData = sd\<rparr>)
      (GetPoliciesByKind ord \<lparr>pc_Data = d, pc_SecretData = sd\<rparr> kind) = Inr ms"
    using assms(3) by (simp add: modulesByKind_def c)
  show "distinct (map fst ms)" by (rule conftest_policies.modules_distinct [OF ms])
  show "map_of ms k = (if is_library conftest_keyPrefixLibrary k \<or> applies (pc_Data config) kind k
      then map_of (pc_Data config) k else None)"
    using conftest_policies.modules_lookup [OF assms(1) _ ms, of k] assms(2) by (simp add: c)
qed

lemma rego_only: "is_library prefix k \<or> applies p kind k \<Longrightarrow> k \<noteq> workloadKey"
  by (auto simp: is_library_def applies_def HasSuffix_iff workloadKey_def keySuffixRego_def)

text \<open>The parts of a successful answer, for the proofs below.\<close>

lemma conftest_specE:
  assumes "conftest_GetScanJobSpec c yaml_Marshal P ctx s obj = Inr (pod, secrets)"
  obtains config modules yaml co where "conftest_newConfigFrom c ctx s = Inr config"
    and "modulesByKind (pe_order P) config (o_Kind obj) = Inr modules" and "yaml_Marshal obj = Inr yaml"
    and "ps_Containers pod = [co]" and "co_Name co = conftest_containerName"
    and "co_Args co = [''-c'',
      ''conftest test --no-fail --output json --all-namespaces --policy /project/policy /project/workload.yaml'']"
    and "co_VolumeMounts co = map (\<lambda>(module, _). module_mount (audit_GetScanJobName (pe_env P) obj @ ''-volume'') module)
        (range_map (pe_order P) modules) @ [\<lparr>vm_Name = audit_GetScanJobName (pe_env P) obj @ ''-volume'',
          vm_MountPath = ''/project/workload.yaml'', vm_SubPath = ''workload.yaml'', vm_ReadOnly = True\<rparr>]"
    and "ps_Volumes pod = [\<lparr>vo_Name = audit_GetScanJobName (pe_env P) obj @ ''-volume'',
        vo_Source = SecretVolume (audit_GetScanJobName (pe_env P) obj @ ''-volume'')
          (map (\<lambda>(module, _). (module, moduleName module)) (range_map (pe_order P) modules) @ [(workloadKey, ''workload.yaml'')])\<rparr>]"
    and "secrets = [\<lparr>o_Kind = [], o_Meta = empty_meta\<lparr>om_Name := audit_GetScanJobName (pe_env P) obj @ ''-volume'',
        om_Namespace := px_namespace ctx\<rparr>, o_Body = Secret [] (AList.update workloadKey yaml
          (foldl (\<lambda>m (module, script). AList.update module script m) [] (range_map (pe_order P) modules)))\<rparr>]"
  using assms by (auto simp: conftest_GetScanJobSpec_def Let_def split: sum.splits)

lemma foldl_update_keys:
  "map_of (foldl (\<lambda>m (k, v). AList.update k v m) acc es) k = None \<longleftrightarrow> k \<notin> fst ` set es \<and> map_of acc k = None"
  by (induction es arbitrary: acc) (auto simp: map_of_update split: if_splits)

lemma foldl_update_some: "e \<in> set es \<Longrightarrow> \<exists>y. map_of (foldl (\<lambda>m (k, v). AList.update k v m) acc es) (fst e) = Some y"
  using foldl_update_keys [of acc es "fst e"] by auto

text \<open>The pod mounts only what its secret holds; for any configuration and any order of maps.\<close>

interpretation conftest_scanner: audit_scanner "\<lambda>_. True" "conftest_GetScanJobSpec c yaml_Marshal" conftest_containerName
  for c yaml_Marshal
proof unfold_locales
  fix P ctx s obj pod secrets
  assume spec: "conftest_GetScanJobSpec c yaml_Marshal P ctx s obj = Inr (pod, secrets)"
  show "conftest_containerName \<in> co_Name ` set (ps_Containers pod)"
    using spec by (rule conftest_specE) simp
  show "go_type x = TSecret" if "x \<in> set secrets" for x
    by (rule conftest_specE [OF spec]) (use that in simp)
  show "volume_given (px_namespace ctx) secrets v" if "v \<in> set (ps_Volumes pod)" for v
    by (rule conftest_specE [OF spec]) (use that in \<open>simp add: volume_given_def map_of_update foldl_update_some [simplified split_beta] split_beta\<close>)
qed

lemma result_checks_exact:
  "result_checks P sev rs n = Inr (checks, n') \<Longrightarrow>
     map ck_Messages checks = map (\<lambda>r. [cr_Message r]) rs \<and> (\<forall>ck \<in> set checks. \<not> ck_Success ck) \<and> length checks = length rs"
proof (induction rs arbitrary: n checks)
  case (Cons r rs)
  then show ?case by (auto split: sum.splits)
qed simp

lemma conftest_checks_exact:
  "conftest_checks P crs n = Inr (checks, low, critical) \<Longrightarrow>
     map ck_Messages checks = map (\<lambda>r. [cr_Message r]) (concat (map (\<lambda>x. cr_Warnings x @ cr_Failures x) crs)) \<and>
     (\<forall>ck \<in> set checks. \<not> ck_Success ck) \<and>
     low = int (length (concat (map cr_Warnings crs))) \<and> critical = int (length (concat (map cr_Failures crs)))"
proof (induction P crs n arbitrary: checks low critical rule: conftest_checks.induct)
  case (2 P cr crs n)
  then show ?case
    by (auto split: sum.splits dest!: result_checks_exact)
qed simp

section \<open>Properties\<close>

text \<open>
  C36. The pod of a Conftest scan sees exactly the modules of the resource's kind: its secret holds the workload's YAML and,
  from the plugin's configuration, the libraries and the policies that apply to the kind, each with its text and no other
  key. Each of them is a file of a volume of that secret and is mounted at that file's name under
  \<^verbatim>\<open>/project/policy\<close>, the workload is mounted as \<^verbatim>\<open>/project/workload.yaml\<close>, these are the paths that the
  container's command gets, and every mount is read-only.
\<close>

theorem conftest_pod_has_policies:
  assumes "perm_order (pe_order P)" and "GetConfig c ctx s = Inr config" and "distinct (map fst (pc_Data config))"
    and "conftest_GetScanJobSpec c yaml_Marshal P ctx s obj = Inr (pod, secrets)"
  defines "needed \<equiv> \<lambda>k. is_library conftest_keyPrefixLibrary k \<or> applies (pc_Data config) (o_Kind obj) k"
  shows "\<exists>yaml secret co. yaml_Marshal obj = Inr yaml \<and> secrets = [secret] \<and> ps_Containers pod = [co] \<and>
    map_of (config_data (o_Body secret)) =
      (\<lambda>k. if k = workloadKey then Some yaml else if needed k then map_of (pc_Data config) k else None) \<and>
    (\<forall>k \<in> fst ` set (pc_Data config). needed k \<longrightarrow> (\<exists>mount \<in> set (co_VolumeMounts co). \<exists>vol \<in> set (ps_Volumes pod). \<exists>items.
       vm_MountPath mount = ''/project/policy/'' @ vm_SubPath mount \<and> vm_Name mount = vo_Name vol \<and>
       vo_Source vol = SecretVolume (om_Name (o_Meta secret)) items \<and> (k, vm_SubPath mount) \<in> set items)) \<and>
    (\<exists>mount \<in> set (co_VolumeMounts co). \<exists>vol \<in> set (ps_Volumes pod). \<exists>items.
       vm_MountPath mount = ''/project/workload.yaml'' \<and> vm_Name mount = vo_Name vol \<and>
       vo_Source vol = SecretVolume (om_Name (o_Meta secret)) items \<and> (workloadKey, vm_SubPath mount) \<in> set items) \<and>
    co_Args co = [''-c'',
      ''conftest test --no-fail --output json --all-namespaces --policy /project/policy /project/workload.yaml''] \<and>
    (\<forall>mount \<in> set (co_VolumeMounts co). vm_ReadOnly mount)"
  using assms(4)
proof (rule conftest_specE)
  fix config' modules yaml co
  let ?name = "audit_GetScanJobName (pe_env P) obj @ ''-volume''"
  assume "conftest_newConfigFrom c ctx s = Inr config'" and m: "modulesByKind (pe_order P) config' (o_Kind obj) = Inr modules"
    and y: "yaml_Marshal obj = Inr yaml" and co: "ps_Containers pod = [co]" and args: "co_Args co = [''-c'',
      ''conftest test --no-fail --output json --all-namespaces --policy /project/policy /project/workload.yaml'']"
    and vols: "ps_Volumes pod = [\<lparr>vo_Name = ?name, vo_Source = SecretVolume ?name
      (map (\<lambda>(module, _). (module, moduleName module)) (range_map (pe_order P) modules) @ [(workloadKey, ''workload.yaml'')])\<rparr>]"
    and mounts: "co_VolumeMounts co = map (\<lambda>(module, _). module_mount ?name module) (range_map (pe_order P) modules) @
      [\<lparr>vm_Name = ?name, vm_MountPath = ''/project/workload.yaml'', vm_SubPath = ''workload.yaml'', vm_ReadOnly = True\<rparr>]"
    and sec: "secrets = [\<lparr>o_Kind = [], o_Meta = empty_meta\<lparr>om_Name := ?name, om_Namespace := px_namespace ctx\<rparr>,
      o_Body = Secret [] (AList.update workloadKey yaml
        (foldl (\<lambda>m (module, script). AList.update module script m) [] (range_map (pe_order P) modules)))\<rparr>]"
  then have "config' = config" using assms(2) by (simp add: conftest_newConfigFrom_def)
  then have ms: "distinct (map fst modules)"
      "map_of modules k = (if needed k then map_of (pc_Data config) k else None)" for k
    using modulesByKind_lookup [OF assms(1,3)] m unfolding needed_def by blast+
  have "map_of (foldl (\<lambda>m (module, script). AList.update module script m) [] (range_map (pe_order P) modules)) k = map_of modules k" for k
    using foldl_update_lookup [OF range_map_distinct [OF assms(1) ms(1)], where P = "\<lambda>_. True" and acc = "[]" and x = k]
    by (auto simp: map_of_range_map [OF assms(1) ms(1)] range_map_set [OF assms(1) ms(1)])
      (metis map_of_eq_None_iff)
  then have "map_of (config_data (o_Body (hd secrets))) =
      (\<lambda>k. if k = workloadKey then Some yaml else if needed k then map_of (pc_Data config) k else None)"
    by (simp add: sec map_of_update fun_eq_iff ms(2))
  moreover have "\<exists>mount \<in> set (co_VolumeMounts co). \<exists>vol \<in> set (ps_Volumes pod). \<exists>items.
       vm_MountPath mount = ''/project/policy/'' @ vm_SubPath mount \<and> vm_Name mount = vo_Name vol \<and>
       vo_Source vol = SecretVolume ?name items \<and> (k, vm_SubPath mount) \<in> set items"
    if "k \<in> fst ` set (pc_Data config)" "needed k" for k
  proof -
    have "map_of modules k \<noteq> None" using that by (simp add: ms(2) map_of_eq_None_iff)
    then have "k \<in> fst ` set (range_map (pe_order P) modules)"
      using range_map_set [OF assms(1) ms(1)] by (simp add: map_of_eq_None_iff)
    then have "module_mount ?name k \<in> set (co_VolumeMounts co)"
        "(k, moduleName k) \<in> set (map (\<lambda>(module, _). (module, moduleName module)) (range_map (pe_order P) modules))"
      unfolding mounts by (auto simp: image_iff split_beta)
    then show ?thesis by (intro bexI [of _ "module_mount ?name k"]) (simp_all add: module_mount_def vols)
  qed
  moreover have "\<forall>mount \<in> set (co_VolumeMounts co). vm_ReadOnly mount" by (auto simp: mounts module_mount_def)
  moreover have "\<exists>mount \<in> set (co_VolumeMounts co). \<exists>vol \<in> set (ps_Volumes pod). \<exists>items.
       vm_MountPath mount = ''/project/workload.yaml'' \<and> vm_Name mount = vo_Name vol \<and>
       vo_Source vol = SecretVolume ?name items \<and> (workloadKey, vm_SubPath mount) \<in> set items"
    by (simp add: mounts vols)
  ultimately show ?thesis using y co sec args
    by (intro exI [of _ yaml] exI [of _ "hd secrets"] exI [of _ co]) simp
qed

definition conftest_config :: "string gomap" where
  "conftest_config = [(conftest_keyImageRef, ''openpolicyagent/conftest:v0.30.0''),
     (''conftest.library.util.rego'', ''package util''), (''conftest.policy.root.rego'', ''package root''),
     (''conftest.policy.root.kinds'', ''Pod''), (''conftest.policy.net.rego'', ''package net''),
     (''conftest.policy.net.kinds'', ''Service'')]"

definition conftest_state :: "Object list" where
  "conftest_state = snd (EnsureConfig mem_client sample_context conftest_config [])"

definition sample_marshal :: "Object \<Rightarrow> error + string" where
  "sample_marshal obj = Inr (''kind: '' @ o_Kind obj)"

lemma conftest_sample_config:
  "GetConfig mem_client sample_context conftest_state = Inr \<lparr>pc_Data = conftest_config, pc_SecretData = []\<rparr>"
  by (simp add: conftest_state_def EnsureConfig_def sample_context_def GetConfig_def mem_Get_def mem_Create_def
    managed_meta_def key_of_def GetPluginConfigMapName_def only_err_def ignore_err_def)

lemma conftest_kinds:
  "map_of conftest_config (''conftest.policy.root'' @ keySuffixKinds) = Some ''Pod''"
  "map_of conftest_config (''conftest.policy.net'' @ keySuffixKinds) = Some ''Service''"
  "kinds_cover (o_Kind sample_pod) ''Pod''" "\<not> kinds_cover (o_Kind sample_pod) ''Service''"
  by code_simp+

theorem conftest_pod_has_policies_witness:
  "\<exists>pod secret co. conftest_GetScanJobSpec mem_client sample_marshal sample_plugin_env sample_context conftest_state sample_pod
     = Inr (pod, [secret]) \<and> ps_Containers pod = [co] \<and>
     map_of (config_data (o_Body secret)) ''conftest.policy.root.rego'' = Some ''package root'' \<and>
     map_of (config_data (o_Body secret)) ''conftest.policy.net.rego'' = None \<and>
     (\<exists>mount \<in> set (co_VolumeMounts co). vm_MountPath mount = ''/project/policy/'' @ vm_SubPath mount \<and> vm_ReadOnly mount)"
proof -
  let ?config = "\<lparr>pc_Data = conftest_config, pc_SecretData = []\<rparr>"
  have "\<not> isl (modulesByKind (pe_order sample_plugin_env) ?config (o_Kind sample_pod))"
    "\<not> isl (conftest_GetImageRef ?config)" by code_simp+
  moreover have "\<not> isl (conftest_GetResourceRequirements sample_plugin_env ?config)"
    by (simp add: conftest_GetResourceRequirements_def resource_requirements_def setResourceLimit_def conftest_config_def
      conftest_resources_def conftest_keyImageRef_def)
  ultimately have "\<not> isl (conftest_GetScanJobSpec mem_client sample_marshal sample_plugin_env sample_context conftest_state sample_pod)"
    by (auto simp: isl_def conftest_GetScanJobSpec_def conftest_newConfigFrom_def conftest_sample_config sample_marshal_def Let_def
      split: sum.splits)
  then obtain pod secrets where spec: "conftest_GetScanJobSpec mem_client sample_marshal sample_plugin_env sample_context
      conftest_state sample_pod = Inr (pod, secrets)" by (metis isl_def sum.exhaust surj_pair)
  let ?needed = "\<lambda>k. is_library conftest_keyPrefixLibrary k \<or> applies conftest_config (o_Kind sample_pod) k"
  have perm: "perm_order (pe_order sample_plugin_env)" by (simp add: sample_plugin_env_def)
  have facts: "distinct (map fst conftest_config)" "is_library conftest_keyPrefixLibrary ''conftest.library.util.rego''"
    "\<not> is_library conftest_keyPrefixLibrary ''conftest.policy.net.rego''"
    "map_of conftest_config ''conftest.policy.root.rego'' = Some ''package root''"
    "''conftest.library.util.rego'' \<in> fst ` set conftest_config"
    "''conftest.policy.root.rego'' \<noteq> workloadKey" "''conftest.policy.net.rego'' \<noteq> workloadKey" by code_simp+
  have base: "''conftest.policy.root.rego'' = base @ keySuffixRego \<longleftrightarrow> base = ''conftest.policy.root''"
    "''conftest.policy.net.rego'' = base @ keySuffixRego \<longleftrightarrow> base = ''conftest.policy.net''" for base
    using append_same_eq [of "''conftest.policy.root''" keySuffixRego base] append_same_eq [of "''conftest.policy.net''" keySuffixRego base]
    by (auto simp: keySuffixRego_def)
  have needs: "?needed ''conftest.policy.root.rego''" "\<not> ?needed ''conftest.policy.net.rego''"
    using facts(3) by (simp_all add: applies_def base conftest_kinds del: append.simps)
  obtain yaml secret co where res: "secrets = [secret]" "ps_Containers pod = [co]"
      "map_of (config_data (o_Body secret)) = (\<lambda>k. if k = workloadKey then Some yaml
         else if ?needed k then map_of conftest_config k else None)"
    and mounts: "\<forall>k \<in> fst ` set conftest_config. ?needed k \<longrightarrow> (\<exists>mount \<in> set (co_VolumeMounts co). \<exists>vol \<in> set (ps_Volumes pod). \<exists>items.
       vm_MountPath mount = ''/project/policy/'' @ vm_SubPath mount \<and> vm_Name mount = vo_Name vol \<and>
       vo_Source vol = SecretVolume (om_Name (o_Meta secret)) items \<and> (k, vm_SubPath mount) \<in> set items)"
    and ro: "\<forall>mount \<in> set (co_VolumeMounts co). vm_ReadOnly mount"
    using conftest_pod_has_policies [OF perm conftest_sample_config _ spec, unfolded PluginConfig.select_convs, OF facts(1)]
    by (elim exE conjE) (rule that)
  have "\<exists>mount \<in> set (co_VolumeMounts co). vm_MountPath mount = ''/project/policy/'' @ vm_SubPath mount \<and> vm_ReadOnly mount"
    using bspec [OF mounts facts(5)] facts(2) ro by blast
  moreover have "map_of (config_data (o_Body secret)) ''conftest.policy.root.rego'' = Some ''package root''"
    "map_of (config_data (o_Body secret)) ''conftest.policy.net.rego'' = None"
    unfolding res(3) using needs facts(4,6,7) by simp_all
  ultimately show ?thesis using spec res(1,2) by blast
qed

text \<open>
  C37. The report of Conftest's output has one failed check for each warning and each failure of the output, in its order, with the scanner's message;
  the summary counts the warnings as low and the failures as critical. The decoder's error has no part in it: output that is
  no JSON at all is a report without checks, and the resource counts as audited with nothing found.
\<close>

theorem conftest_report_counts:
  assumes "conftest_ParseConfigAuditReportData c P ctx s logs = Inr data"
  defines "results \<equiv> fst (decode_CheckResults logs)"
  shows "map ck_Messages (car_Checks data) =
      map (\<lambda>r. [cr_Message r]) (concat (map (\<lambda>x. cr_Warnings x @ cr_Failures x) results)) \<and>
    (\<forall>ck \<in> set (car_Checks data). \<not> ck_Success ck) \<and>
    car_Summary data = zero_ConfigAuditSummary
      \<lparr>cas_CriticalCount := int (length (concat (map cr_Failures results))),
       cas_LowCount := int (length (concat (map cr_Warnings results)))\<rparr> \<and>
    (parse_json (2 * length logs + 1) logs = None \<longrightarrow> car_Checks data = [])"
proof -
  obtain low critical where ch: "conftest_checks P results 0 = Inr (car_Checks data, low, critical)"
    and su: "car_Summary data = zero_ConfigAuditSummary\<lparr>cas_CriticalCount := critical, cas_LowCount := low\<rparr>"
    using assms(1) by (auto simp: conftest_ParseConfigAuditReportData_def results_def split_beta Let_def split: sum.splits)
  have "car_Checks data = []" if "parse_json (2 * length logs + 1) logs = None"
    using ch that by (simp add: results_def decode_CheckResults_def Decode_def)
  then show ?thesis using conftest_checks_exact [OF ch] su by simp
qed

definition sample_conftest_output :: string where
  "sample_conftest_output = encode_json (JArray [JObject [(''filename'', JString ''workload.yaml''),
     (''warnings'', JArray [JObject [(''msg'', JString ''w'')]]),
     (''failures'', JArray [JObject [(''msg'', JString ''f''), (''metadata'', JObject [(''id'', JString ''KSV001'')])]])]])"

theorem conftest_report_counts_witness:
  "\<exists>data. conftest_ParseConfigAuditReportData mem_client sample_plugin_env sample_context conftest_state sample_conftest_output
     = Inr data \<and> map ck_Messages (car_Checks data) = [[''w''], [''f'']] \<and> cas_CriticalCount (car_Summary data) = 1 \<and>
     (\<forall>ck \<in> set (car_Checks data). \<not> ck_Success ck)"
proof -
  let ?r = "conftest_ParseConfigAuditReportData mem_client sample_plugin_env sample_context conftest_state sample_conftest_output"
  have "\<not> isl ?r" by code_simp
  then obtain data where data: "?r = Inr data" by (metis isl_def sum.exhaust)
  have res: "map (\<lambda>x. (map cr_Message (cr_Warnings x), map cr_Message (cr_Failures x)))
      (fst (decode_CheckResults sample_conftest_output)) = [([''w''], [''f''])]" by code_simp
  show ?thesis
    using data conftest_report_counts [OF data] res
    by (auto simp: map_eq_Cons_conv)
qed

end
