(* ===== verification/Polaris.thy ===== *)
theory Polaris
  imports Plugin_Common
begin

text \<open>
  The Polaris plugin (\<^verbatim>\<open>pkg/plugin/polaris\<close>): the scanner audits the workload in the cluster under the rules of the plugin's config map,
  and its output becomes a configuration audit report. The group and version in an object's type metadata are not part
  of the model's objects; the function that reads them is a parameter.
\<close>

section \<open>Settings\<close>

definition polarisContainerName :: string where "polarisContainerName = ''polaris''"
definition configVolume :: string where "configVolume = ''config''"
definition polaris_keyImageRef :: string where "polaris_keyImageRef = ''polaris.imageRef''"
definition keyConfigYaml :: string where "keyConfigYaml = ''polaris.config.yaml''"
definition polaris_resources :: string where "polaris_resources = ''polaris.resources.''"

text \<open>The lines of the default rules.\<close>

definition DefaultConfigYAML :: string where
  "DefaultConfigYAML = concat (map (\<lambda>line. line @ [CHR 0x0A]) [
     ''checks:'', ''  # reliability'', ''  multipleReplicasForDeployment: ignore'', ''  priorityClassNotSet: ignore'',
     ''  # resources'', ''  cpuRequestsMissing: warning'', ''  cpuLimitsMissing: warning'',
     ''  memoryRequestsMissing: warning'', ''  memoryLimitsMissing: warning'', ''  # images'',
     ''  tagNotSpecified: danger'', ''  pullPolicyNotAlways: ignore'', ''  # healthChecks'',
     ''  readinessProbeMissing: warning'', ''  livenessProbeMissing: warning'', ''  # networking'',
     ''  hostNetworkSet: warning'', ''  hostPortSet: warning'', ''  # security'', ''  hostIPCSet: danger'',
     ''  hostPIDSet: danger'', ''  notReadOnlyRootFilesystem: warning'', ''  privilegeEscalationAllowed: danger'',
     ''  runAsRootAllowed: warning'', ''  runAsPrivileged: danger'', ''  dangerousCapabilities: danger'',
     ''  insecureCapabilities: warning'', ''exemptions:'', ''  - controllerNames:'', ''    - kube-apiserver'',
     ''    - kube-proxy'', ''    - kube-scheduler'', ''    - etcd-manager-events'', ''    - kube-controller-manager'',
     ''    - kube-dns'', ''    - etcd-manager-main'', ''    rules:'', ''    - hostPortSet'', ''    - hostNetworkSet'',
     ''    - readinessProbeMissing'', ''    - livenessProbeMissing'', ''    - cpuRequestsMissing'',
     ''    - cpuLimitsMissing'', ''    - memoryRequestsMissing'', ''    - memoryLimitsMissing'', ''    - runAsRootAllowed'',
     ''    - runAsPrivileged'', ''    - notReadOnlyRootFilesystem'', ''    - hostPIDSet'', ''  - controllerNames:'',
     ''    - kube-flannel-ds'', ''    rules:'', ''    - notReadOnlyRootFilesystem'', ''    - runAsRootAllowed'',
     ''    - notReadOnlyRootFilesystem'', ''    - readinessProbeMissing'', ''    - livenessProbeMissing'',
     ''    - cpuLimitsMissing'', ''  - controllerNames:'', ''    - cert-manager'', ''    rules:'',
     ''    - notReadOnlyRootFilesystem'', ''    - runAsRootAllowed'', ''    - readinessProbeMissing'',
     ''    - livenessProbeMissing'', ''  - controllerNames:'', ''    - cluster-autoscaler'', ''    rules:'',
     ''    - notReadOnlyRootFilesystem'', ''    - runAsRootAllowed'', ''    - readinessProbeMissing'',
     ''  - controllerNames:'', ''    - vpa'', ''    rules:'', ''    - runAsRootAllowed'', ''    - readinessProbeMissing'',
     ''    - livenessProbeMissing'', ''    - notReadOnlyRootFilesystem'', ''  - controllerNames:'', ''    - datadog'',
     ''    rules:'', ''    - runAsRootAllowed'', ''    - readinessProbeMissing'', ''    - livenessProbeMissing'',
     ''    - notReadOnlyRootFilesystem'', ''  - controllerNames:'', ''    - nginx-ingress-controller'', ''    rules:'',
     ''    - privilegeEscalationAllowed'', ''    - insecureCapabilities'', ''    - runAsRootAllowed'',
     ''  - controllerNames:'', ''    - dns-controller'', ''    - datadog-datadog'', ''    - kube-flannel-ds'',
     ''    - kube2iam'', ''    - aws-iam-authenticator'', ''    - datadog'', ''    - kube2iam'', ''    rules:'',
     ''    - hostNetworkSet'', ''  - controllerNames:'', ''    - aws-iam-authenticator'', ''    - aws-cluster-autoscaler'',
     ''    - kube-state-metrics'', ''    - dns-controller'', ''    - external-dns'', ''    - dnsmasq'',
     ''    - autoscaler'', ''    - kubernetes-dashboard'', ''    - install-cni'', ''    - kube2iam'', ''    rules:'',
     ''    - readinessProbeMissing'', ''    - livenessProbeMissing'', ''  - controllerNames:'',
     ''    - aws-iam-authenticator'', ''    - nginx-ingress-default-backend'', ''    - aws-cluster-autoscaler'',
     ''    - kube-state-metrics'', ''    - dns-controller'', ''    - external-dns'', ''    - kubedns'', ''    - dnsmasq'',
     ''    - autoscaler'', ''    - tiller'', ''    - kube2iam'', ''    rules:'', ''    - runAsRootAllowed'',
     ''  - controllerNames:'', ''    - aws-iam-authenticator'', ''    - nginx-ingress-controller'',
     ''    - nginx-ingress-default-backend'', ''    - aws-cluster-autoscaler'', ''    - kube-state-metrics'',
     ''    - dns-controller'', ''    - external-dns'', ''    - kubedns'', ''    - dnsmasq'', ''    - autoscaler'',
     ''    - tiller'', ''    - kube2iam'', ''    rules:'', ''    - notReadOnlyRootFilesystem'', ''  - controllerNames:'',
     ''    - cert-manager'', ''    - dns-controller'', ''    - kubedns'', ''    - dnsmasq'', ''    - autoscaler'',
     ''    - insights-agent-goldilocks-vpa-install'', ''    - datadog'', ''    rules:'', ''    - cpuRequestsMissing'',
     ''    - cpuLimitsMissing'', ''    - memoryRequestsMissing'', ''    - memoryLimitsMissing'', ''  - controllerNames:'',
     ''    - kube2iam'', ''    - kube-flannel-ds'', ''    rules:'', ''    - runAsPrivileged'', ''  - controllerNames:'',
     ''    - kube-hunter'', ''    rules:'', ''    - hostPIDSet'', ''  - controllerNames:'', ''    - polaris'',
     ''    - kube-hunter'', ''    - goldilocks'', ''    - insights-agent-goldilocks-vpa-install'', ''    rules:'',
     ''    - notReadOnlyRootFilesystem'', ''  - controllerNames:'', ''    - insights-agent-goldilocks-controller'',
     ''    rules:'', ''    - livenessProbeMissing'', ''    - readinessProbeMissing'', ''  - controllerNames:'',
     ''    - insights-agent-goldilocks-vpa-install'', ''    - kube-hunter'', ''    rules:'', ''    - runAsRootAllowed''])"

definition polaris_GetImageRef :: "PluginConfig \<Rightarrow> error + string" where
  "polaris_GetImageRef c = PluginConfig_GetRequiredData c polaris_keyImageRef"

definition polaris_GetResourceRequirements :: "plugin_env \<Rightarrow> PluginConfig \<Rightarrow> error + ResourceRequirements" where
  "polaris_GetResourceRequirements P c = resource_requirements P c polaris_resources"

definition polaris_supportedKinds :: "Kind list" where
  "polaris_supportedKinds = [KindPod, KindDeployment, KindReplicaSet, KindReplicationController, KindStatefulSet,
     KindDaemonSet, KindCronJob, KindJob]"

definition polaris_IsApplicable :: "PluginContext \<Rightarrow> 's \<Rightarrow> Object \<Rightarrow> error + (bool \<times> string)" where
  "polaris_IsApplicable _ _ _ = Inr (True, [])"

definition polaris_defaults :: "string gomap" where
  "polaris_defaults = [(polaris_keyImageRef, ''quay.io/fairwinds/polaris:4.2''), (keyConfigYaml, DefaultConfigYAML),
     (polaris_resources @ ''requests.cpu'', ''50m''), (polaris_resources @ ''requests.memory'', ''50M''),
     (polaris_resources @ ''limits.cpu'', ''300m''), (polaris_resources @ ''limits.memory'', ''300M'')]"

definition polaris_Init :: "'s client \<Rightarrow> PluginContext \<Rightarrow> 's \<Rightarrow> error option \<times> 's" where
  "polaris_Init c ctx = EnsureConfig c ctx polaris_defaults"

fun without_resources :: "(string \<times> string) list \<Rightarrow> string gomap \<Rightarrow> string gomap" where
  "without_resources [] data = data"
| "without_resources ((key, value) # rest) data =
     without_resources rest (if HasPrefix key polaris_resources then data else AList.update key value data)"

definition polaris_ConfigHash ::
    "'s client \<Rightarrow> plugin_env \<Rightarrow> PluginContext \<Rightarrow> 's \<Rightarrow> Kind \<Rightarrow> error + string" where
  "polaris_ConfigHash c P ctx s _ =
     (case GetConfig c ctx s of
        Inl e \<Rightarrow> Inl e
      | Inr cm \<Rightarrow> Inr (ComputeHash (pe_env P)
          (HModules (map_of (without_resources (range_map (pe_order P) (pc_Data cm)) [])))))"

definition polaris_newConfigFrom :: "'s client \<Rightarrow> PluginContext \<Rightarrow> 's \<Rightarrow> error + PluginConfig" where
  "polaris_newConfigFrom c ctx s = (case GetConfig c ctx s of Inl e \<Rightarrow> Inl (Wrap ''getting config'' e) | Inr x \<Rightarrow> Inr x)"

section \<open>The pod of a scan\<close>

definition sourceNameFrom :: "(Object \<Rightarrow> string \<times> string) \<Rightarrow> Object \<Rightarrow> string" where
  "sourceNameFrom group_version obj =
     (let (group, version) = group_version obj;
          group' = if length group > 0 then ''.'' @ group else group
      in om_Namespace (o_Meta obj) @ ''/'' @ o_Kind obj @ group' @ ''/'' @ version @ ''/'' @ om_Name (o_Meta obj))"

definition polaris_GetScanJobSpec ::
    "'s client \<Rightarrow> (Object \<Rightarrow> string \<times> string) \<Rightarrow> plugin_env \<Rightarrow> PluginContext \<Rightarrow> 's \<Rightarrow> Object \<Rightarrow> error + (PodSpec \<times> Object list)" where
  "polaris_GetScanJobSpec c group_version P ctx s obj =
     (case polaris_newConfigFrom c ctx s of
        Inl e \<Rightarrow> Inl (Wrap ''constructing config from plugin context'' e)
      | Inr config \<Rightarrow>
          (case polaris_GetImageRef config of
             Inl e \<Rightarrow> Inl (Wrap ''getting image ref'' e)
           | Inr imageRef \<Rightarrow>
               (case polaris_GetResourceRequirements P config of
                  Inl e \<Rightarrow> Inl (Wrap ''getting resource requirements'' e)
                | Inr requirements \<Rightarrow>
                    Inr (empty_PodSpec\<lparr>ps_ServiceAccountName := px_serviceAccountName ctx,
                        ps_AutomountServiceAccountToken := Some True, ps_RestartPolicy := ''Never'',
                        ps_Affinity := LinuxNodeAffinity,
                        ps_Volumes := [\<lparr>vo_Name = configVolume,
                          vo_Source = ConfigMapVolume (GetPluginConfigMapName (px_name ctx)) []\<rparr>],
                        ps_Containers := [empty_Container\<lparr>co_Name := polarisContainerName, co_Image := imageRef,
                          co_ImagePullPolicy := ''IfNotPresent'',
                          co_TerminationMessagePolicy := ''FallbackToLogsOnError'', co_Resources := requirements,
                          co_VolumeMounts := [\<lparr>vm_Name = configVolume, vm_MountPath = ''/etc/starboard'',
                            vm_SubPath = [], vm_ReadOnly = False\<rparr>],
                          co_Command := [''sh''],
                          co_Args := [''-c'', ''polaris audit --log-level error --config /etc/starboard/polaris.config.yaml --resource ''
                            @ sourceNameFrom group_version obj @ '' 2> /dev/null''],
                          co_SecurityContext := Some unprivileged\<rparr>],
                        ps_SecurityContext := Some empty_PodSecurityContext\<rparr>, []))))"

section \<open>The output\<close>

record PolarisCheck =
  pk_ID :: string
  pk_Message :: string
  pk_Success :: bool
  pk_Severity :: string
  pk_Category :: string

record ContainerResult =
  ctr_Name :: string
  ctr_Results :: "PolarisCheck gomap"

record PodResult =
  por_Name :: string
  por_Results :: "PolarisCheck gomap"
  por_ContainerResults :: "ContainerResult list"

record PolarisResult =
  pr_Name :: string
  pr_Namespace :: string
  pr_Kind :: string
  pr_PodResult :: PodResult

record ClusterInfo =
  ci_Version :: string
  ci_Nodes :: int
  ci_Pods :: int
  ci_Namespaces :: int
  ci_Controllers :: int

record PolarisReport =
  prp_PolarisOutputVersion :: string
  prp_SourceType :: string
  prp_SourceName :: string
  prp_DisplayName :: string
  prp_ClusterInfo :: "ClusterInfo option"
  prp_Results :: "PolarisResult list"

definition PolarisCheck_members :: "(string \<times> PolarisCheck setter) list" where
  "PolarisCheck_members = [(''id'', string_field (\<lambda>x. pk_ID_update (\<lambda>_. x))),
     (''message'', string_field (\<lambda>x. pk_Message_update (\<lambda>_. x))),
     (''success'', bool_field (\<lambda>x. pk_Success_update (\<lambda>_. x))),
     (''severity'', string_field (\<lambda>x. pk_Severity_update (\<lambda>_. x))),
     (''category'', string_field (\<lambda>x. pk_Category_update (\<lambda>_. x)))]"

definition zero_PolarisCheck :: PolarisCheck where
  "zero_PolarisCheck = \<lparr>pk_ID = [], pk_Message = [], pk_Success = False, pk_Severity = [], pk_Category = []\<rparr>"

abbreviation checks_field ::
    "('a \<Rightarrow> PolarisCheck gomap) \<Rightarrow> (PolarisCheck gomap \<Rightarrow> 'a \<Rightarrow> 'a) \<Rightarrow> 'a setter" where
  "checks_field sel upd \<equiv> map_field sel upd (decode_struct PolarisCheck_members) zero_PolarisCheck"

definition ContainerResult_members :: "(string \<times> ContainerResult setter) list" where
  "ContainerResult_members = [(''name'', string_field (\<lambda>x. ctr_Name_update (\<lambda>_. x))),
     (''results'', checks_field ctr_Results (\<lambda>x. ctr_Results_update (\<lambda>_. x)))]"

definition PodResult_members :: "(string \<times> PodResult setter) list" where
  "PodResult_members = [(''name'', string_field (\<lambda>x. por_Name_update (\<lambda>_. x))),
     (''results'', checks_field por_Results (\<lambda>x. por_Results_update (\<lambda>_. x))),
     (''containerresults'', list_field por_ContainerResults (\<lambda>x. por_ContainerResults_update (\<lambda>_. x))
        (decode_struct ContainerResult_members) \<lparr>ctr_Name = [], ctr_Results = []\<rparr>)]"

definition PolarisResult_members :: "(string \<times> PolarisResult setter) list" where
  "PolarisResult_members = [(''name'', string_field (\<lambda>x. pr_Name_update (\<lambda>_. x))),
     (''namespace'', string_field (\<lambda>x. pr_Namespace_update (\<lambda>_. x))),
     (''kind'', string_field (\<lambda>x. pr_Kind_update (\<lambda>_. x))),
     (''podresult'', struct_field pr_PodResult (\<lambda>x. pr_PodResult_update (\<lambda>_. x)) (decode_struct PodResult_members))]"

definition zero_PolarisResult :: PolarisResult where
  "zero_PolarisResult = \<lparr>pr_Name = [], pr_Namespace = [], pr_Kind = [],
     pr_PodResult = \<lparr>por_Name = [], por_Results = [], por_ContainerResults = []\<rparr>\<rparr>"

definition ClusterInfo_members :: "(string \<times> ClusterInfo setter) list" where
  "ClusterInfo_members = [(''version'', string_field (\<lambda>x. ci_Version_update (\<lambda>_. x))),
     (''nodes'', int_field (\<lambda>x. ci_Nodes_update (\<lambda>_. x))),
     (''pods'', int_field (\<lambda>x. ci_Pods_update (\<lambda>_. x))),
     (''namespaces'', int_field (\<lambda>x. ci_Namespaces_update (\<lambda>_. x))),
     (''controllers'', int_field (\<lambda>x. ci_Controllers_update (\<lambda>_. x)))]"

definition PolarisReport_members :: "(string \<times> PolarisReport setter) list" where
  "PolarisReport_members = [(''polarisoutputversion'', string_field (\<lambda>x. prp_PolarisOutputVersion_update (\<lambda>_. x))),
     (''sourcetype'', string_field (\<lambda>x. prp_SourceType_update (\<lambda>_. x))),
     (''sourcename'', string_field (\<lambda>x. prp_SourceName_update (\<lambda>_. x))),
     (''displayname'', string_field (\<lambda>x. prp_DisplayName_update (\<lambda>_. x))),
     (''clusterinfo'', struct_field prp_ClusterInfo (\<lambda>x. prp_ClusterInfo_update (\<lambda>_. x))
        (decode_pointer (decode_struct ClusterInfo_members)
          \<lparr>ci_Version = [], ci_Nodes = 0, ci_Pods = 0, ci_Namespaces = 0, ci_Controllers = 0\<rparr>)),
     (''results'', list_field prp_Results (\<lambda>x. prp_Results_update (\<lambda>_. x)) (decode_struct PolarisResult_members)
        zero_PolarisResult)]"

definition decode_PolarisReport :: "string \<Rightarrow> error + PolarisReport" where
  "decode_PolarisReport = Decode_first (decode_struct PolarisReport_members)
     \<lparr>prp_PolarisOutputVersion = [], prp_SourceType = [], prp_SourceName = [], prp_DisplayName = [],
      prp_ClusterInfo = None, prp_Results = []\<rparr>"

text \<open>The loop over the checks of the pod or of a container, in the order the runtime gives the map.\<close>

fun polaris_checks :: "CheckScope option \<Rightarrow> (string \<times> PolarisCheck) list \<Rightarrow> error + Check list" where
  "polaris_checks scope [] = Inr []"
| "polaris_checks scope ((_, pr) # prs) =
     (case StringToSeverity (pk_Severity pr) of
        Inl e \<Rightarrow> Inl e
      | Inr severity \<Rightarrow>
          (case polaris_checks scope prs of
             Inl e \<Rightarrow> Inl e
           | Inr checks \<Rightarrow>
               Inr (\<lparr>ck_ID = pk_ID pr, ck_Title = [], ck_Description = [], ck_Severity = severity, ck_Category = pk_Category pr,
                     ck_Messages = [pk_Message pr], ck_Remediation = [], ck_Success = pk_Success pr, ck_Scope = scope\<rparr> # checks)))"

fun container_checks ::
    "order \<Rightarrow> ContainerResult list \<Rightarrow> Check list \<Rightarrow> Check list gomap \<Rightarrow> error + (Check list \<times> Check list gomap)" where
  "container_checks ord [] checks containerNameToChecks = Inr (checks, containerNameToChecks)"
| "container_checks ord (cr # crs) checks containerNameToChecks =
     (case polaris_checks (Some \<lparr>scope_Type = ''Container'', scope_Value = ctr_Name cr\<rparr>) (range_map ord (ctr_Results cr)) of
        Inl e \<Rightarrow> Inl e
      | Inr containerChecks \<Rightarrow>
          container_checks ord crs (checks @ containerChecks) (AList.update (ctr_Name cr) containerChecks containerNameToChecks))"

definition count_check :: "ConfigAuditSummary \<Rightarrow> Check \<Rightarrow> ConfigAuditSummary" where
  "count_check summary ck =
     (if ck_Success ck then summary
      else if ck_Severity ck = SeverityCritical then summary\<lparr>cas_CriticalCount := cas_CriticalCount summary + 1\<rparr>
      else if ck_Severity ck = SeverityLow then summary\<lparr>cas_LowCount := cas_LowCount summary + 1\<rparr>
      else summary)"

definition configAuditSummaryFrom :: "order \<Rightarrow> Check list \<Rightarrow> Check list gomap \<Rightarrow> ConfigAuditSummary" where
  "configAuditSummaryFrom ord podChecks containerChecks =
     foldl (\<lambda>summary (_, checks). foldl count_check summary checks)
       (foldl count_check zero_ConfigAuditSummary podChecks) (range_map ord containerChecks)"

definition polaris_ParseConfigAuditReportData ::
    "'s client \<Rightarrow> plugin_env \<Rightarrow> PluginContext \<Rightarrow> 's \<Rightarrow> string \<Rightarrow> error + ConfigAuditReportData" where
  "polaris_ParseConfigAuditReportData c P ctx s logs =
     (case polaris_newConfigFrom c ctx s of
        Inl e \<Rightarrow> Inl (Wrap ''constructing config from plugin context'' e)
      | Inr config \<Rightarrow>
          (case decode_PolarisReport logs of
             Inl e \<Rightarrow> Inl e
           | Inr report \<Rightarrow>
               if length (prp_Results report) \<noteq> 1
               then Inl (Errorf (''unexpected report results count, got: '' @ show_nat (length (prp_Results report)) @ '', want: 1''))
               else let result = pr_PodResult (prp_Results report ! 0)
               in case polaris_checks None (range_map (pe_order P) (por_Results result)) of
                    Inl e \<Rightarrow> Inl e
                  | Inr podChecks \<Rightarrow>
                      (case container_checks (pe_order P) (por_ContainerResults result) podChecks [] of
                         Inl e \<Rightarrow> Inl e
                       | Inr (checks, containerNameToChecks) \<Rightarrow>
                           (case polaris_GetImageRef config of
                              Inl e \<Rightarrow> Inl (Wrap ''getting image ref'' e)
                            | Inr imageRef \<Rightarrow>
                                (case version_of P imageRef of
                                   Inl e \<Rightarrow> Inl (Wrap ''getting version from image ref'' e)
                                 | Inr version \<Rightarrow>
                                     Inr \<lparr>car_UpdateTimestamp = pe_Now P,
                                          car_Scanner = \<lparr>sc_Name = ''Polaris'', sc_Vendor = ''Fairwinds Ops'', sc_Version = version\<rparr>,
                                          car_Summary = configAuditSummaryFrom (pe_order P) podChecks containerNameToChecks,
                                          car_Checks = checks, car_PodChecks = podChecks,
                                          car_ContainerChecks = containerNameToChecks\<rparr>)))))"

definition polarisPlugin :: "'s client \<Rightarrow> (Object \<Rightarrow> string \<times> string) \<Rightarrow> plugin_env \<Rightarrow> 's AuditPlugin" where
  "polarisPlugin c group_version P = \<lparr>ap_Init = polaris_Init c, ap_GetScanJobSpec = polaris_GetScanJobSpec c group_version P,
     ap_ParseConfigAuditReportData = polaris_ParseConfigAuditReportData c P,
     ap_GetContainerName = polarisContainerName, ap_ConfigHash = polaris_ConfigHash c P,
     ap_SupportedKinds = polaris_supportedKinds, ap_IsApplicable = polaris_IsApplicable\<rparr>"

section \<open>Lemmas\<close>

text \<open>The pod mounts the plugin's own config map and no secret.\<close>

interpretation polaris_scanner: audit_scanner "\<lambda>_. True" "polaris_GetScanJobSpec c group_version" polarisContainerName
  for c group_version
  by unfold_locales (auto simp: polaris_GetScanJobSpec_def volume_given_def split: sum.splits)

abbreviation failed :: "Severity \<Rightarrow> Check list \<Rightarrow> int" where
  "failed sev cks \<equiv> int (length (filter (\<lambda>ck. \<not> ck_Success ck \<and> ck_Severity ck = sev) cks))"

lemma count_checks_exact:
  "foldl count_check summary cks = summary\<lparr>cas_CriticalCount := cas_CriticalCount summary + failed SeverityCritical cks,
     cas_LowCount := cas_LowCount summary + failed SeverityLow cks\<rparr>"
  by (induction cks arbitrary: summary) (auto simp: count_check_def sev_simps)

lemma summary_of_concat:
  "foldl (\<lambda>summary (_, cks). foldl count_check summary cks) summary m = foldl count_check summary (concat (map snd m))"
  by (induction m arbitrary: summary) auto

lemma failed_mset: "mset cks = mset cks' \<Longrightarrow> failed sev cks = failed sev cks'"
  by (metis mset_filter size_mset)

lemma container_checks_exact:
  assumes "container_checks ord crs cks m = Inr (cks', m')" and "distinct (map fst m @ map ctr_Name crs)"
  shows "\<exists>new. m' = m @ new \<and> distinct (map fst m') \<and> cks' = cks @ concat (map snd new) \<and>
    list_all2 (\<lambda>cr (n, xs). n = ctr_Name cr \<and>
      polaris_checks (Some \<lparr>scope_Type = ''Container'', scope_Value = n\<rparr>) (range_map ord (ctr_Results cr)) = Inr xs) crs new"
  using assms
proof (induction crs arbitrary: cks m)
  case (Cons cr crs)
  obtain xs where xs: "polaris_checks (Some \<lparr>scope_Type = ''Container'', scope_Value = ctr_Name cr\<rparr>)
      (range_map ord (ctr_Results cr)) = Inr xs"
    and rest: "container_checks ord crs (cks @ xs) (AList.update (ctr_Name cr) xs m) = Inr (cks', m')"
    using Cons.prems(1) by (auto split: sum.splits)
  have "AList.update (ctr_Name cr) xs m = m @ [(ctr_Name cr, xs)]"
    using Cons.prems(2) by (intro update_fresh) auto
  then show ?case using Cons.IH [of "cks @ xs" "m @ [(ctr_Name cr, xs)]"] rest xs Cons.prems(2) by auto
qed simp

text \<open>What of a check of the scanner is in the report's check.\<close>

abbreviation check_key :: "Check \<Rightarrow> string \<times> string list \<times> bool" where
  "check_key ck \<equiv> (ck_ID ck, ck_Messages ck, ck_Success ck)"

definition result_keys :: "order \<Rightarrow> PolarisCheck gomap \<Rightarrow> (string \<times> string list \<times> bool) list" where
  "result_keys ord m = map (\<lambda>(_, pr). (pk_ID pr, [pk_Message pr], pk_Success pr)) (range_map ord m)"

lemma polaris_checks_keys: "polaris_checks scope (range_map ord m) = Inr cks \<Longrightarrow> map check_key cks = result_keys ord m"
proof -
  have "polaris_checks scope prs = Inr cks \<Longrightarrow>
      map check_key cks = map (\<lambda>(_, pr). (pk_ID pr, [pk_Message pr], pk_Success pr)) prs" for prs
    by (induction prs arbitrary: cks) (auto split: sum.splits)
  then show "polaris_checks scope (range_map ord m) = Inr cks \<Longrightarrow> map check_key cks = result_keys ord m"
    by (simp add: result_keys_def)
qed

lemma container_keys:
  "list_all2 (\<lambda>cr (n, xs). n = ctr_Name cr \<and>
      polaris_checks (Some \<lparr>scope_Type = ''Container'', scope_Value = n\<rparr>) (range_map ord (ctr_Results cr)) = Inr xs) crs new \<Longrightarrow>
   map check_key (concat (map snd new)) = concat (map (\<lambda>cr. result_keys ord (ctr_Results cr)) crs)"
  by (induction rule: list_all2_induct) (auto simp: polaris_checks_keys)

section \<open>Properties\<close>

text \<open>
  A report made from Polaris' output has exactly the checks of the output's only result, first those of the pod and then those of each
  container, and its summary counts the failed ones of all of them by severity. The container names of the output
  must be distinct: the checks of a container are kept under its name.
\<close>

lemma polaris_summary_exact:
  assumes "perm_order (pe_order P)" and "polaris_ParseConfigAuditReportData c P ctx s logs = Inr data"
    and "decode_PolarisReport logs = Inr report"
    and "\<forall>result \<in> set (prp_Results report). distinct (map ctr_Name (por_ContainerResults (pr_PodResult result)))"
  shows "\<exists>result. prp_Results report = [result] \<and>
    map check_key (car_Checks data) = result_keys (pe_order P) (por_Results (pr_PodResult result)) @
      concat (map (\<lambda>cr. result_keys (pe_order P) (ctr_Results cr)) (por_ContainerResults (pr_PodResult result))) \<and>
    car_Summary data = zero_ConfigAuditSummary\<lparr>cas_CriticalCount := failed SeverityCritical (car_Checks data),
      cas_LowCount := failed SeverityLow (car_Checks data)\<rparr>"
proof -
  obtain result where result: "prp_Results report = [result]"
    using assms(2,3) by (auto simp: polaris_ParseConfigAuditReportData_def length_Suc_conv split: sum.splits if_splits)
  let ?pod = "pr_PodResult result"
  obtain pod m where pod: "polaris_checks None (range_map (pe_order P) (por_Results ?pod)) = Inr pod"
    and con: "container_checks (pe_order P) (por_ContainerResults ?pod) pod [] = Inr (car_Checks data, m)"
    and sum: "car_Summary data = configAuditSummaryFrom (pe_order P) pod m"
    using assms(2,3) result by (auto simp: polaris_ParseConfigAuditReportData_def Let_def split: sum.splits)
  obtain new where new: "m = new" "distinct (map fst m)" "car_Checks data = pod @ concat (map snd new)"
    "list_all2 (\<lambda>cr (n, xs). n = ctr_Name cr \<and> polaris_checks (Some \<lparr>scope_Type = ''Container'', scope_Value = n\<rparr>)
      (range_map (pe_order P) (ctr_Results cr)) = Inr xs) (por_ContainerResults ?pod) new"
    using container_checks_exact [OF con] assms(4) result by auto
  have "mset (concat (map snd (range_map (pe_order P) m))) = mset (concat (map snd m))"
    using range_map_mset [OF assms(1) new(2)] by (simp add: mset_concat) (metis mset_map sum_mset_sum_list)
  then have "failed sev (concat (map snd (range_map (pe_order P) m))) = failed sev (concat (map snd m))" for sev
    by (rule failed_mset)
  then have "car_Summary data = zero_ConfigAuditSummary\<lparr>cas_CriticalCount := failed SeverityCritical (car_Checks data),
      cas_LowCount := failed SeverityLow (car_Checks data)\<rparr>"
    unfolding sum configAuditSummaryFrom_def summary_of_concat
    by (simp add: new(1,3) count_checks_exact zero_ConfigAuditSummary_def)
  then show ?thesis
    using result polaris_checks_keys [OF pod] container_keys [OF new(4)] new(3) by auto
qed

definition polaris_state :: "Object list" where
  "polaris_state = snd (EnsureConfig mem_client sample_context [(polaris_keyImageRef, ''quay.io/fairwinds/polaris:4.2'')] [])"

definition sample_polaris_output :: string where
  "sample_polaris_output = encode_json (JObject [(''Results'', JArray [JObject [(''PodResult'', JObject
     [(''Results'', JObject [(''a'', JObject [(''Severity'', JString ''danger'')])]),
      (''ContainerResults'', JArray [JObject [(''Name'', JString ''n''), (''Results'', JObject
         [(''b'', JObject [(''Success'', JBool True), (''Severity'', JString ''danger'')])])]])])]])])"

end
