(* ===== verification/Plugin_Factory.thy ===== *)
theory Plugin_Factory
  imports Trivy Aqua Conftest Polaris
begin

text \<open>
  The choice of the scanner plugins (\<^verbatim>\<open>pkg/plugin/factory.go\<close>): the configured scanner's name gives the plugin and the
  context with which all its operations are called.
\<close>

definition scanner_Trivy :: string where "scanner_Trivy = ''Trivy''"
definition scanner_Aqua :: string where "scanner_Aqua = ''Aqua''"
definition scanner_Polaris :: string where "scanner_Polaris = ''Polaris''"
definition scanner_Conftest :: string where "scanner_Conftest = ''Conftest''"

text \<open>What the plugins use of code outside the repository, beside \<open>plugin_env\<close>.\<close>

record scanner_libs =
  sl_decode_Time :: "Time setter"
  sl_yaml_Marshal :: "Object \<Rightarrow> error + string"
  sl_group_version :: "Object \<Rightarrow> string \<times> string"

record 's Resolver =
  rs_buildVersion :: string
  rs_config :: ConfigData
  rs_namespace :: string
  rs_serviceAccountName :: string
  rs_client :: "'s client"
  rs_libs :: scanner_libs
  rs_env :: plugin_env

definition GetVulnerabilityPlugin :: "'s Resolver \<Rightarrow> error + ('s Plugin \<times> PluginContext)" where
  "GetVulnerabilityPlugin r =
     (case GetVulnerabilityReportsScanner (rs_config r) of
        Inl e \<Rightarrow> Inl e
      | Inr scanner \<Rightarrow>
          (let pluginContext = \<lparr>px_name = scanner, px_namespace = rs_namespace r,
                 px_serviceAccountName = rs_serviceAccountName r, px_starboardConfig = rs_config r\<rparr> in
           if scanner = scanner_Trivy then Inr (trivyPlugin (rs_client r) (rs_env r), pluginContext)
           else if scanner = scanner_Aqua
           then Inr (aquaPlugin (rs_client r) (rs_buildVersion r) (sl_decode_Time (rs_libs r)) (rs_env r), pluginContext)
           else Inl (Errorf (''unsupported vulnerability scanner plugin: '' @ scanner))))"

text \<open>Here the context gets no Starboard configuration: it is a nil map, in which no key is found.\<close>

definition GetConfigAuditPlugin :: "'s Resolver \<Rightarrow> error + ('s AuditPlugin \<times> PluginContext)" where
  "GetConfigAuditPlugin r =
     (case GetConfigAuditReportsScanner (rs_config r) of
        Inl e \<Rightarrow> Inl e
      | Inr scanner \<Rightarrow>
          (let pluginContext = \<lparr>px_name = scanner, px_namespace = rs_namespace r,
                 px_serviceAccountName = rs_serviceAccountName r, px_starboardConfig = Map.empty\<rparr> in
           if scanner = scanner_Polaris
           then Inr (polarisPlugin (rs_client r) (sl_group_version (rs_libs r)) (rs_env r), pluginContext)
           else if scanner = scanner_Conftest
           then Inr (conftestPlugin (rs_client r) (sl_yaml_Marshal (rs_libs r)) (rs_env r), pluginContext)
           else Inl (Errorf (''unsupported configuration audit scanner plugin: '' @ scanner))))"

section \<open>Lemmas\<close>

lemmas plugin_operations = trivyPlugin_def aquaPlugin_def polarisPlugin_def conftestPlugin_def

lemma GetVulnerabilityPluginE:
  assumes "GetVulnerabilityPlugin r = Inr (pl, ctx)"
  obtains "pl = trivyPlugin (rs_client r) (rs_env r)" "px_name ctx = scanner_Trivy"
    | "pl = aquaPlugin (rs_client r) (rs_buildVersion r) (sl_decode_Time (rs_libs r)) (rs_env r)" "px_name ctx = scanner_Aqua"
  using assms by (auto simp: GetVulnerabilityPlugin_def Let_def split: sum.splits if_splits)

lemma GetConfigAuditPluginE:
  assumes "GetConfigAuditPlugin r = Inr (pl, ctx)"
  obtains "pl = polarisPlugin (rs_client r) (sl_group_version (rs_libs r)) (rs_env r)" "px_name ctx = scanner_Polaris"
    | "pl = conftestPlugin (rs_client r) (sl_yaml_Marshal (rs_libs r)) (rs_env r)" "px_name ctx = scanner_Conftest"
  using assms by (auto simp: GetConfigAuditPlugin_def Let_def split: sum.splits if_splits)

text \<open>Every plugin that the resolver gives keeps the typing law that the controllers' theorems ask of their plugin.\<close>

lemma resolved_plugin_typed: "GetVulnerabilityPlugin r = Inr (pl, ctx) \<Longrightarrow> plugin_typed pl"
  by (erule GetVulnerabilityPluginE)
    (auto intro: trivy_scanner.plugin_is_typed aqua_scanner.plugin_is_typed simp: plugin_operations)

lemma resolved_audit_plugin_typed: "GetConfigAuditPlugin r = Inr (pl, ctx) \<Longrightarrow> audit_plugin_typed pl"
  by (erule GetConfigAuditPluginE)
    (auto intro: polaris_scanner.plugin_is_typed conftest_scanner.plugin_is_typed simp: plugin_operations)

lemma resolved_audit_container:
  assumes "GetConfigAuditPlugin r = Inr (pl, ctx)" and "ap_GetScanJobSpec pl ctx s obj = Inr (pod, secrets)"
  shows "ap_GetContainerName pl \<in> co_Name ` set (ps_Containers pod)"
  using assms(1)
proof (cases rule: GetConfigAuditPluginE)
  case 1
  then show ?thesis using polaris_scanner.has_container assms(2) by (fastforce simp: polarisPlugin_def)
next
  case 2
  then show ?thesis using conftest_scanner.has_container assms(2) by (fastforce simp: conftestPlugin_def)
qed

lemma resolved_names:
  assumes "GetVulnerabilityPlugin r = Inr (pl, ctx)" and "pl_GetScanJobSpec pl ctx s obj creds = Inr (pod, secrets)"
    and "GetPodSpec obj = Inr spec"
  shows "map co_Name (ps_Containers pod) = map co_Name (ps_Containers spec)"
  using assms(1)
proof (cases rule: GetVulnerabilityPluginE)
  case 1
  then show ?thesis using trivy_scanner.same_names assms(2,3) by (fastforce simp: trivyPlugin_def)
next
  case 2
  then show ?thesis using aqua_scanner.same_names assms(2,3) by (fastforce simp: aquaPlugin_def)
qed

end
