(* ===== verification/Start_Up.thy ===== *)
theory Start_Up
  imports Operator Plugin_Factory
begin

text \<open>
  The start of the operator (\<open>Start\<close> in \<^verbatim>\<open>pkg/operator/operator.go\<close>) as far as it concerns the cluster and the controllers:
  ensuring and reading Starboard's configuration, resolving and initialising the plugins, and wiring the controllers together. What the
  operator is linked with from outside the repository is the record \<open>runtime\<close>. Connecting to the cluster, constructing the
  controllers' manager and registering controllers with it are the work of \<^verbatim>\<open>controller-runtime\<close> and have no step here; the install mode
  predicate of a set-up cannot fail, since the install mode has been resolved before.
\<close>

record 's runtime =
  rt_Client :: "'s client"
  rt_env :: plugin_env
  rt_libs :: scanner_libs
  rt_logs :: "'s logs"
  rt_registry :: "string \<Rightarrow> error + string"
  rt_tolerations :: "string \<Rightarrow> error + string list"
  rt_SetControllerReference :: owner_setter
  rt_SetOwnerReference :: owner_setter
  rt_rego :: rego
  rt_cron :: "string \<Rightarrow> error + (Time \<Rightarrow> Time)"
  rt_fmul :: "nat \<Rightarrow> nat \<Rightarrow> nat \<Rightarrow> nat"
  rt_PoliciesConfigMap :: "error + Object"
  rt_Version :: string

text \<open>A scanner that is switched off: no controller with this plugin is registered.\<close>

definition no_context :: PluginContext where
  "no_context = \<lparr>px_name = [], px_namespace = [], px_serviceAccountName = [], px_starboardConfig = Map.empty\<rparr>"

definition switched_off :: error where "switched_off = Errorf ''scanner is switched off''"

definition no_plugin :: "'s Plugin" where
  "no_plugin = \<lparr>pl_Init = (\<lambda>_ s. (None, s)), pl_GetScanJobSpec = (\<lambda>_ _ _ _. Inl switched_off),
     pl_ParseVulnerabilityReportData = (\<lambda>_ _ _ _. Inl switched_off)\<rparr>"

definition no_audit_plugin :: "'s AuditPlugin" where
  "no_audit_plugin = \<lparr>ap_Init = (\<lambda>_ s. (None, s)), ap_GetScanJobSpec = (\<lambda>_ _ _. Inl switched_off),
     ap_ParseConfigAuditReportData = (\<lambda>_ _ _. Inl switched_off), ap_GetContainerName = [],
     ap_ConfigHash = (\<lambda>_ _ _. Inl switched_off), ap_SupportedKinds = [], ap_IsApplicable = (\<lambda>_ _ _. Inl switched_off)\<rparr>"

definition resolver :: "'s runtime \<Rightarrow> Config \<Rightarrow> string \<Rightarrow> ConfigData \<Rightarrow> 's Resolver" where
  "resolver rt config operatorNamespace starboardConfig = \<lparr>rs_buildVersion = rt_Version rt, rs_config = starboardConfig,
     rs_namespace = operatorNamespace, rs_serviceAccountName = cfg_ServiceAccount config, rs_client = rt_Client rt,
     rs_libs = rt_libs rt, rs_env = rt_env rt\<rparr>"

text \<open>Resolving and initialising a plugin.\<close>

definition start_vulnerability_plugin ::
    "Config \<Rightarrow> 's Resolver \<Rightarrow> 's \<Rightarrow> (error + 's Plugin \<times> PluginContext) \<times> 's" where
  "start_vulnerability_plugin config r s =
     (if \<not> cfg_VulnerabilityScannerEnabled config then (Inr (no_plugin, no_context), s)
      else case GetVulnerabilityPlugin r of
             Inl e \<Rightarrow> (Inl e, s)
           | Inr (plugin, pluginContext) \<Rightarrow>
               (case pl_Init plugin pluginContext s of
                  (Some e, s1) \<Rightarrow> (Inl (Wrap (''initializing '' @ px_name pluginContext @ '' plugin'') e), s1)
                | (None, s1) \<Rightarrow> (Inr (plugin, pluginContext), s1)))"

definition start_audit_plugin ::
    "Config \<Rightarrow> 's Resolver \<Rightarrow> 's \<Rightarrow> (error + 's AuditPlugin \<times> PluginContext) \<times> 's" where
  "start_audit_plugin config r s =
     (if \<not> cfg_ConfigAuditScannerEnabled config then (Inr (no_audit_plugin, no_context), s)
      else case GetConfigAuditPlugin r of
             Inl e \<Rightarrow> (Inl e, s)
           | Inr (plugin, pluginContext) \<Rightarrow>
               (case ap_Init plugin pluginContext s of
                  (Some e, s1) \<Rightarrow> (Inl (Wrap (''initializing '' @ px_name pluginContext @ '' plugin'') e), s1)
                | (None, s1) \<Rightarrow> (Inr (plugin, pluginContext), s1)))"

definition wire ::
    "'s runtime \<Rightarrow> Config \<Rightarrow> ConfigData \<Rightarrow> 's Plugin \<times> PluginContext \<Rightarrow> 's AuditPlugin \<times> PluginContext \<Rightarrow> 's operator" where
  "wire rt config starboardConfig plugin audit = \<lparr>
     op_Client = rt_Client rt, op_Config = config, op_ConfigData = starboardConfig,
     op_workloads = \<lparr>wc_Config = config, wc_Client = rt_Client rt, wc_env = pe_env (rt_env rt), wc_logs = rt_logs rt,
       wc_registry = rt_registry rt, wc_order = pe_order (rt_env rt), wc_Plugin = fst plugin, wc_PluginContext = snd plugin,
       wc_ConfigData = starboardConfig, wc_tolerations = rt_tolerations rt,
       wc_SetControllerReference = rt_SetControllerReference rt, wc_SetOwnerReference = rt_SetOwnerReference rt\<rparr>,
     op_audits = \<lparr>car_Config = config, car_ConfigData = starboardConfig, car_Client = rt_Client rt, car_env = pe_env (rt_env rt),
       car_logs = rt_logs rt, car_Plugin = fst audit, car_PluginContext = snd audit, car_tolerations = rt_tolerations rt,
       car_SetControllerReference = rt_SetControllerReference rt, car_SetOwnerReference = rt_SetOwnerReference rt\<rparr>,
     op_plugins = \<lparr>pcr_Config = config, pcr_Client = rt_Client rt, pcr_PluginContext = snd audit, pcr_Plugin = fst audit\<rparr>,
     op_nodes = \<lparr>kbc_Config = config, kbc_Client = rt_Client rt, kbc_env = pe_env (rt_env rt), kbc_logs = rt_logs rt,
       kbc_Plugin = kubeBenchPlugin (pe_Now (rt_env rt)) (\<lambda>i. map_sum (\<lambda>e. e) nr_Identifier (pe_ParseReference (rt_env rt) i))
         starboardConfig,
       kbc_ConfigData = starboardConfig, kbc_tolerations = rt_tolerations rt,
       kbc_SetControllerReference = rt_SetControllerReference rt\<rparr>,
     op_resources = \<lparr>rc_Config = config, rc_Client = rt_Client rt, rc_env = pe_env (rt_env rt), rc_order = pe_order (rt_env rt),
       rc_rego = rt_rego rt, rc_SetControllerReference = rt_SetControllerReference rt, rc_Version = rt_Version rt\<rparr>,
     op_compliance = \<lparr>ccr_Client = rt_Client rt, ccr_ConfigData = starboardConfig, ccr_order = pe_order (rt_env rt),
       ccr_cron = rt_cron rt\<rparr>,
     op_fmul = rt_fmul rt\<rparr>"

definition Start :: "'s runtime \<Rightarrow> Config \<Rightarrow> 's \<Rightarrow> (error + 's operator) \<times> 's" where
  "Start rt config s =
     (case ResolveInstallMode config of
        Inl e \<Rightarrow> (Inl (Wrap ''resolving install mode'' e), s)
      | Inr (installMode, operatorNamespace, targetNamespaces) \<Rightarrow>
          (case EnsureDefault (rt_Client rt) operatorNamespace (rt_PoliciesConfigMap rt) s of
             (Some e, s1) \<Rightarrow> (Inl e, s1)
           | (None, s1) \<Rightarrow>
               (case ReadConfig (rt_Client rt) operatorNamespace s1 of
                  Inl e \<Rightarrow> (Inl e, s1)
                | Inr starboardConfig \<Rightarrow>
                    (let r = resolver rt config operatorNamespace starboardConfig in
                     case start_vulnerability_plugin config r s1 of
                       (Inl e, s2) \<Rightarrow> (Inl e, s2)
                     | (Inr plugin, s2) \<Rightarrow>
                         (case start_audit_plugin config r s2 of
                            (Inl e, s3) \<Rightarrow> (Inl e, s3)
                          | (Inr audit, s3) \<Rightarrow> (Inr (wire rt config starboardConfig plugin audit), s3))))))"

section \<open>Lemmas\<close>

lemma EnsureConfig_keeps:
  assumes "api_laws c" and "cl_Get c s t k = Inr x"
  shows "cl_Get c (snd (EnsureConfig c ctx d s)) t k = Inr x"
  using create_keeps [OF assms] by (simp add: EnsureConfig_def)

text \<open>The initialisation of a plugin writes its config map or nothing.\<close>

lemma plugin_init_keeps:
  assumes "api_laws (rs_client r)" and "cl_Get (rs_client r) s t k = Inr x"
  shows "GetVulnerabilityPlugin r = Inr (pl, ctx) \<Longrightarrow> cl_Get (rs_client r) (snd (pl_Init pl ctx s)) t k = Inr x"
    and "GetConfigAuditPlugin r = Inr (apl, actx) \<Longrightarrow> cl_Get (rs_client r) (snd (ap_Init apl actx s)) t k = Inr x"
  using EnsureConfig_keeps [OF assms] assms(2)
  by (auto simp: plugin_operations trivy_Init_def aqua_Init_def polaris_Init_def conftest_Init_def
      elim!: GetVulnerabilityPluginE GetConfigAuditPluginE)

lemma GetConfig_cong: "(\<And>t k. t = TConfigMap \<or> t = TSecret \<Longrightarrow> cl_Get c s' t k = cl_Get c s t k) \<Longrightarrow> GetConfig c ctx s' = GetConfig c ctx s"
  by (simp add: GetConfig_def Let_def split: sum.split)

text \<open>The hash of an audit plugin's configuration depends on nothing but the config map and secret of the plugin.\<close>

lemma resolved_hash:
  assumes "GetConfigAuditPlugin r = Inr (pl, ctx)"
  shows "hash_of_config (rs_client r) pl"
  unfolding hash_of_config_def
proof (intro allI impI)
  fix ctx' s s' kind
  assume "\<forall>t k. t \<noteq> TConfigAuditReport \<longrightarrow> t \<noteq> TClusterConfigAuditReport \<longrightarrow>
    cl_Get (rs_client r) s' t k = cl_Get (rs_client r) s t k"
  then have "GetConfig (rs_client r) ctx' s' = GetConfig (rs_client r) ctx' s" by (intro GetConfig_cong) auto
  then show "ap_ConfigHash pl ctx' s' kind = ap_ConfigHash pl ctx' s kind"
    using assms by (auto simp: plugin_operations polaris_ConfigHash_def conftest_ConfigHash_def conftest_newConfigFrom_def
      elim!: GetConfigAuditPluginE)
qed

text \<open>A create is refused as a duplicate only if the object is there.\<close>

definition law_exists :: "'s client \<Rightarrow> bool" where
  "law_exists c \<longleftrightarrow> (\<forall>s x e s'. cl_Create c s x = (Inl e, s') \<longrightarrow> IsAlreadyExists e \<longrightarrow>
     (\<exists>y. cl_Get c s (go_type x) (key_of x) = Inr y))"

lemma EnsureConfig_present:
  assumes "api_laws c" and "law_exists c" and "EnsureConfig c ctx d s = (None, s')"
  shows "\<exists>cm. cl_Get c s' TConfigMap \<lparr>key_Namespace = px_namespace ctx, key_Name = GetPluginConfigMapName (px_name ctx)\<rparr> = Inr cm"
proof -
  let ?cm = "\<lparr>o_Kind = [], o_Meta = managed_meta (px_namespace ctx) (GetPluginConfigMapName (px_name ctx)), o_Body = ConfigMap d\<rparr>"
  have key: "go_type ?cm = TConfigMap"
    "key_of ?cm = \<lparr>key_Namespace = px_namespace ctx, key_Name = GetPluginConfigMapName (px_name ctx)\<rparr>"
    by (simp_all add: key_of_def managed_meta_def)
  obtain res s1 where create: "cl_Create c s ?cm = (res, s1)" by fastforce
  show ?thesis
  proof (cases res)
    case (Inl e)
    then have "IsAlreadyExists e" "s' = s1" using assms(3) create by (auto simp: EnsureConfig_def only_err_def ignore_err_def split: if_splits)
    moreover have "s1 = s" using failed_write(1) [OF assms(1)] create Inl by blast
    ultimately show ?thesis using assms(2) create Inl key unfolding law_exists_def by metis
  next
    case (Inr y)
    then have "s' = s1" using assms(3) create by (simp add: EnsureConfig_def only_err_def ignore_err_def)
    then show ?thesis using create_ok(2) [OF assms(1) create [unfolded Inr]] key by auto
  qed
qed

text \<open>What has been started, step by step.\<close>

lemma StartE:
  assumes "Start rt config s = (Inr op, s')"
  obtains ns d plugin audit s1 s2 where "EnsureDefault (rt_Client rt) ns (rt_PoliciesConfigMap rt) s = (None, s1)"
    and "ReadConfig (rt_Client rt) ns s1 = Inr d"
    and "start_vulnerability_plugin config (resolver rt config ns d) s1 = (Inr plugin, s2)"
    and "start_audit_plugin config (resolver rt config ns d) s2 = (Inr audit, s')"
    and "op = wire rt config d plugin audit"
  using assms by (auto simp: Start_def Let_def split: sum.splits prod.splits option.splits)

lemma start_vulnerability_pluginE:
  assumes "start_vulnerability_plugin config r s = (Inr (pl, ctx), s')"
  obtains "\<not> cfg_VulnerabilityScannerEnabled config" "pl = no_plugin" "s' = s"
    | "GetVulnerabilityPlugin r = Inr (pl, ctx)" "pl_Init pl ctx s = (None, s')"
  using assms by (auto simp: start_vulnerability_plugin_def split: if_splits sum.splits prod.splits option.splits)

lemma start_audit_pluginE:
  assumes "start_audit_plugin config r s = (Inr (pl, ctx), s')"
  obtains "\<not> cfg_ConfigAuditScannerEnabled config" "pl = no_audit_plugin" "s' = s"
    | "GetConfigAuditPlugin r = Inr (pl, ctx)" "ap_Init pl ctx s = (None, s')"
  using assms by (auto simp: start_audit_plugin_def split: if_splits sum.splits prod.splits option.splits)

lemma started_plugin_typed: "start_vulnerability_plugin config r s = (Inr (pl, ctx), s') \<Longrightarrow> plugin_typed pl"
  by (erule start_vulnerability_pluginE) (auto simp: plugin_typed_def no_plugin_def dest: resolved_plugin_typed)

lemma started_audit_plugin_ok:
  assumes "start_audit_plugin config r s = (Inr (pl, ctx), s')"
  shows "audit_plugin_typed pl" and "hash_of_config (rs_client r) pl"
  using assms
  by (auto simp: audit_plugin_typed_def no_audit_plugin_def hash_of_config_def
      dest: resolved_audit_plugin_typed resolved_hash elim!: start_audit_pluginE)

section \<open>Properties\<close>

text \<open>
  C8. A start that succeeds, with a batch delete limit that is not negative, leaves every object of the cluster as it was, so that a restart keeps all settings; it
  yields an operator whose controllers meet the conditions of the theorems about them (their plugins are typed, hash nothing but their own settings, and
  all controllers share one client and one configuration); and the audit plugin's config map is there to be read.
\<close>

theorem started_operator_ok:
  assumes "api_laws (rt_Client rt)" and "law_status (rt_Client rt)" and "law_exists (rt_Client rt)"
    and "0 \<le> cfg_BatchDeleteLimit config" and "Start rt config s = (Inr op, s')"
  shows "op_ok op \<and>
    (\<forall>t k x. cl_Get (rt_Client rt) s t k = Inr x \<longrightarrow> cl_Get (rt_Client rt) s' t k = Inr x) \<and>
    (cfg_ConfigAuditScannerEnabled config \<longrightarrow> (\<exists>cm. cl_Get (rt_Client rt) s' TConfigMap
      \<lparr>key_Namespace = px_namespace (car_PluginContext (op_audits op)),
       key_Name = GetPluginConfigMapName (px_name (car_PluginContext (op_audits op)))\<rparr> = Inr cm))"
proof (intro conjI)
  obtain ns d pl ctx apl actx s1 s2 where ensure: "EnsureDefault (rt_Client rt) ns (rt_PoliciesConfigMap rt) s = (None, s1)"
    and p: "start_vulnerability_plugin config (resolver rt config ns d) s1 = (Inr (pl, ctx), s2)"
    and a: "start_audit_plugin config (resolver rt config ns d) s2 = (Inr (apl, actx), s')"
    and op: "op = wire rt config d (pl, ctx) (apl, actx)"
    using StartE [OF assms(5)] by (metis surj_pair)
  let ?r = "resolver rt config ns d"
  have c: "rs_client ?r = rt_Client rt" by (simp add: resolver_def)
  show "op_ok op"
    using assms(1,2,4) started_plugin_typed [OF p] started_audit_plugin_ok [OF a]
    by (simp add: op op_ok_def wire_def workload_ok_def audit_ok_def bench_ok_def plugin_cleaner_ok_def cleaner_ok_def c)
  have "cl_Get (rt_Client rt) s1 t k = Inr x" if "cl_Get (rt_Client rt) s t k = Inr x" for t k x
    using EnsureDefault_keeps_lemma [OF assms(1) that, of ns "rt_PoliciesConfigMap rt"] ensure by simp
  moreover have "cl_Get (rt_Client rt) s2 t k = Inr x" if "cl_Get (rt_Client rt) s1 t k = Inr x" for t k x
    using p by (cases rule: start_vulnerability_pluginE)
      (use that plugin_init_keeps(1) [of ?r s1 t k x pl ctx, unfolded c, OF assms(1) that] in auto)
  moreover have "cl_Get (rt_Client rt) s' t k = Inr x" if "cl_Get (rt_Client rt) s2 t k = Inr x" for t k x
    using a by (cases rule: start_audit_pluginE)
      (use that plugin_init_keeps(2) [of ?r s2 t k x apl actx, unfolded c, OF assms(1) that] in auto)
  ultimately show "\<forall>t k x. cl_Get (rt_Client rt) s t k = Inr x \<longrightarrow> cl_Get (rt_Client rt) s' t k = Inr x" by blast
  show "cfg_ConfigAuditScannerEnabled config \<longrightarrow> (\<exists>cm. cl_Get (rt_Client rt) s' TConfigMap
      \<lparr>key_Namespace = px_namespace (car_PluginContext (op_audits op)),
       key_Name = GetPluginConfigMapName (px_name (car_PluginContext (op_audits op)))\<rparr> = Inr cm)"
    using a
  proof (cases rule: start_audit_pluginE)
    case 2
    then have "\<exists>defaults. EnsureConfig (rt_Client rt) actx defaults s2 = (None, s')"
      by (auto simp: plugin_operations polaris_Init_def conftest_Init_def c elim!: GetConfigAuditPluginE)
    then show ?thesis using EnsureConfig_present [OF assms(1,3)] by (auto simp: op wire_def)
  qed simp
qed

definition sample_runtime :: "Object list runtime" where
  "sample_runtime = \<lparr>rt_Client = mem_client, rt_env = sample_plugin_env,
     rt_libs = \<lparr>sl_decode_Time = (\<lambda>_ t. (t, None)), sl_yaml_Marshal = sample_marshal, sl_group_version = (\<lambda>_. ([], ''v1''))\<rparr>,
     rt_logs = (\<lambda>_ _ _. Inr ''log''), rt_registry = (\<lambda>_. Inr ''index.docker.io''), rt_tolerations = (\<lambda>_. Inr []),
     rt_SetControllerReference = (\<lambda>_ _. Inr []), rt_SetOwnerReference = (\<lambda>_ _. Inr []), rt_rego = sample_rego,
     rt_cron = (\<lambda>_. Inr (\<lambda>t. t)), rt_fmul = (\<lambda>_ _ _. 0),
     rt_PoliciesConfigMap = Inr \<lparr>o_Kind = [], o_Meta = empty_meta\<lparr>om_Name := PoliciesConfigMapName\<rparr>, o_Body = ConfigMap []\<rparr>,
     rt_Version = ''0.15.4''\<rparr>"

lemma mem_law_exists: "law_exists mem_client"
  unfolding law_exists_def
proof (intro allI impI)
  fix s x e s'
  assume "cl_Create mem_client s x = (Inl e, s')"
  then obtain y where "y \<in> set s" "same_id x y" by (auto simp: mem_client_def mem_Create_def split: if_splits)
  then have "List.find (\<lambda>z. go_type z = go_type x \<and> key_of z = key_of x) s \<noteq> None"
    by (auto simp: find_None_iff same_id_def)
  then show "\<exists>y. cl_Get mem_client s (go_type x) (key_of x) = Inr y"
    by (auto simp: mem_client_def mem_Get_def)
qed

text \<open>Starting in an empty cluster, with the default settings.\<close>

definition sample_policies :: Object where
  "sample_policies = \<lparr>o_Kind = [], o_Meta = empty_meta\<lparr>om_Name := PoliciesConfigMapName, om_Namespace := ''starboard''\<rparr>, o_Body = ConfigMap []\<rparr>"

lemma sample_policies_key [simp]: "go_type sample_policies = TConfigMap"
  "key_of sample_policies = \<lparr>key_Namespace = ''starboard'', key_Name = PoliciesConfigMapName\<rparr>"
  by (simp_all add: sample_policies_def key_of_def)

abbreviation first_state :: "Object list" where
  "first_state \<equiv> [default_secret ''starboard'', sample_policies, default_config_map ''starboard'']"

lemma first_start:
  "EnsureDefault mem_client ''starboard'' (rt_PoliciesConfigMap sample_runtime) [] = (None, first_state)"
  "ReadConfig mem_client ''starboard'' first_state = Inr (map_of GetDefaultConfig)"
proof -
  have pol: "rt_PoliciesConfigMap sample_runtime = Inr (sample_policies\<lparr>o_Meta := (o_Meta sample_policies)\<lparr>om_Namespace := []\<rparr>\<rparr>)"
    by (simp add: sample_runtime_def sample_policies_def empty_meta_def)
  have "(sample_policies\<lparr>o_Meta := (o_Meta sample_policies)\<lparr>om_Namespace := []\<rparr>\<rparr>)\<lparr>o_Meta := (o_Meta sample_policies)\<lparr>om_Namespace := ''starboard''\<rparr>\<rparr>
      = sample_policies" by (simp add: sample_policies_def)
  then show "EnsureDefault mem_client ''starboard'' (rt_PoliciesConfigMap sample_runtime) [] = (None, first_state)"
    unfolding EnsureDefault_def ensure_object_def pol
    by (simp add: mem_client_def mem_Get_def mem_Create_def same_id_def only_err_def wrap_err_def ignore_err_def label_simps)
  show "ReadConfig mem_client ''starboard'' first_state = Inr (map_of GetDefaultConfig)"
    by (simp add: ReadConfig_def mem_client_def mem_Get_def label_simps)
       (simp add: default_config_map_def default_secret_def)
qed

lemma mem_EnsureConfig: "\<exists>s'. EnsureConfig mem_client ctx d s = (None, s')"
  by (simp add: EnsureConfig_def mem_client_def mem_Create_def only_err_def ignore_err_def)

lemma first_inits:
  assumes "rs_config r = map_of GetDefaultConfig" and "rs_client r = mem_client"
  shows "\<exists>pl ctx. GetVulnerabilityPlugin r = Inr (pl, ctx) \<and> (\<forall>s. \<exists>s'. pl_Init pl ctx s = (None, s'))"
    and "\<exists>pl ctx. GetConfigAuditPlugin r = Inr (pl, ctx) \<and> (\<forall>s. \<exists>s'. ap_Init pl ctx s = (None, s'))"
proof -
  obtain ctx where "GetVulnerabilityPlugin r = Inr (trivyPlugin mem_client (rs_env r), ctx)"
    using assms by (simp add: GetVulnerabilityPlugin_def GetVulnerabilityReportsScanner_def GetDefaultConfig_def scanner_Trivy_def Let_def)
  then show "\<exists>pl ctx. GetVulnerabilityPlugin r = Inr (pl, ctx) \<and> (\<forall>s. \<exists>s'. pl_Init pl ctx s = (None, s'))"
    using mem_EnsureConfig by (auto simp: trivyPlugin_def trivy_Init_def)
  obtain actx where "GetConfigAuditPlugin r = Inr (polarisPlugin mem_client (sl_group_version (rs_libs r)) (rs_env r), actx)"
    using assms by (simp add: GetConfigAuditPlugin_def GetConfigAuditReportsScanner_def GetDefaultConfig_def scanner_Polaris_def Let_def label_simps)
  then show "\<exists>pl ctx. GetConfigAuditPlugin r = Inr (pl, ctx) \<and> (\<forall>s. \<exists>s'. ap_Init pl ctx s = (None, s'))"
    using mem_EnsureConfig by (auto simp: polarisPlugin_def polaris_Init_def)
qed

lemma first_plugins:
  assumes "rs_config r = map_of GetDefaultConfig" and "rs_client r = mem_client"
  shows "\<exists>p s'. start_vulnerability_plugin config r s = (Inr p, s')" and "\<exists>p s'. start_audit_plugin config r s = (Inr p, s')"
proof -
  obtain pl ctx s1 where "GetVulnerabilityPlugin r = Inr (pl, ctx)" "pl_Init pl ctx s = (None, s1)" using first_inits(1) [OF assms] by blast
  then show "\<exists>p s'. start_vulnerability_plugin config r s = (Inr p, s')" by (simp add: start_vulnerability_plugin_def)
  obtain apl actx s2 where "GetConfigAuditPlugin r = Inr (apl, actx)" "ap_Init apl actx s = (None, s2)" using first_inits(2) [OF assms] by blast
  then show "\<exists>p s'. start_audit_plugin config r s = (Inr p, s')" by (simp add: start_audit_plugin_def)
qed

theorem started_operator_ok_witness:
  "\<exists>op s'. Start sample_runtime race_config [] = (Inr op, s') \<and> op_ok op"
proof -
  have c: "rt_Client sample_runtime = mem_client" by (simp add: sample_runtime_def)
  have mode: "ResolveInstallMode race_config = Inr (AllNamespaces, ''starboard'', [])" by code_simp
  let ?r = "resolver sample_runtime race_config ''starboard'' (map_of GetDefaultConfig)"
  have r: "rs_config ?r = map_of GetDefaultConfig" "rs_client ?r = mem_client" by (simp_all add: resolver_def c)
  obtain p s1 where p: "start_vulnerability_plugin race_config ?r first_state = (Inr p, s1)" using first_plugins(1) [OF r] by blast
  obtain a s2 where a: "start_audit_plugin race_config ?r s1 = (Inr a, s2)" using first_plugins(2) [OF r] by blast
  have start: "Start sample_runtime race_config [] = (Inr (wire sample_runtime race_config (map_of GetDefaultConfig) p a), s2)"
    using mode first_start p a by (simp add: Start_def c)
  have "0 \<le> cfg_BatchDeleteLimit race_config" by (simp add: race_config_def sample_config_def default_Config_def)
  from started_operator_ok [of sample_runtime, unfolded c, OF mem_laws mem_law_status mem_law_exists this start] start
  show ?thesis by blast
qed

end
