(* ===== verification/Aqua_Scanner.thy ===== *)
theory Aqua_Scanner
  imports Trivy Aqua
begin

text \<open>
  The program that runs inside the pods of the Aqua plugin (\<^verbatim>\<open>cmd/scanner-aqua\<close>, \<^verbatim>\<open>pkg/plugin/aqua/client\<close>,
  \<^verbatim>\<open>pkg/plugin/aqua/scanner\<close>): it asks the Aqua server for the vulnerabilities of an image and, if the server does not know
  the image, runs the \<^verbatim>\<open>scannercli\<close> command. The HTTP exchange (from constructing the request to the response) and the run of a
  command (to its standard output) are parameters, as is the parser of image references.
\<close>

section \<open>The API client\<close>

record UsernameAndPassword =
  up_Username :: string
  up_Password :: string

record Response =
  rsp_StatusCode :: int
  rsp_Status :: string
  rsp_Body :: string

type_synonym transport = "string \<Rightarrow> (string \<times> string) list \<Rightarrow> error + Response"

record aqua_client =
  ac_baseURL :: string
  ac_authHeader :: string
  ac_authorization :: "UsernameAndPassword option"
  ac_http :: transport

definition userAgent :: string where "userAgent = ''StarboardSecurityOperator''"

definition common_headers :: "(string \<times> string) list" where
  "common_headers = [(''Content-Type'', ''application/json; charset=UTF-8''), (''User-Agent'', userAgent)]"

text \<open>The request with its authorization, sent.\<close>

definition newGetRequest :: "aqua_client \<Rightarrow> string \<Rightarrow> error + Response" where
  "newGetRequest c url = ac_http c url (common_headers @ (case ac_authorization c of
       None \<Rightarrow> []
     | Some auth \<Rightarrow> [(ac_authHeader c, ''Basic '' @ EncodeToString (up_Username auth @ '':'' @ up_Password auth))]))"

definition getAuthHeader :: "aqua_client \<Rightarrow> error + aqua_client" where
  "getAuthHeader c =
     (case ac_http c (ac_baseURL c @ ''/api'') common_headers of
        Inl e \<Rightarrow> Inl e
      | Inr resp \<Rightarrow>
          (case Decode_first (decode_map decode_any JNull) [] (rsp_Body resp) of
             Inl e \<Rightarrow> Inl e
           | Inr apiInfo \<Rightarrow>
               (case map_of apiInfo ''authorization_header'' of
                  Some (JString h) \<Rightarrow> Inr (c\<lparr>ac_authHeader := h\<rparr>)
                | _ \<Rightarrow> Inr (c\<lparr>ac_authHeader := ''Authorization''\<rparr>))))"

definition NewClient :: "transport \<Rightarrow> string \<Rightarrow> UsernameAndPassword option \<Rightarrow> error + aqua_client" where
  "NewClient http baseURL authorization =
     (case getAuthHeader \<lparr>ac_baseURL = baseURL, ac_authHeader = [], ac_authorization = authorization, ac_http = http\<rparr> of
        Inl e \<Rightarrow> Inl (Wrap ''failed to get authorization header'' e)
      | Inr c \<Rightarrow> Inr c)"

record AquaResource =
  ar_Type :: string
  ar_Format :: string
  ar_Path :: string
  ar_Name :: string
  ar_Version :: string

record VulnerabilitiesResponseResult =
  vrr_Registry :: string
  vrr_ImageRepositoryName :: string
  vrr_Resource :: AquaResource
  vrr_Name :: string
  vrr_Description :: string
  vrr_AquaSeverity :: string
  vrr_AquaVectors :: string
  vrr_AquaScoringSystem :: string
  vrr_FixVersion :: string

record VulnerabilitiesResponse =
  vrs_Count :: int
  vrs_Results :: "VulnerabilitiesResponseResult list"

record RegistryResponse =
  rr_Name :: string
  rr_Type :: string
  rr_Description :: string
  rr_URL :: string
  rr_Prefixes :: "string list"

definition AquaResource_members :: "(string \<times> AquaResource setter) list" where
  "AquaResource_members = [(''type'', string_field (\<lambda>x. ar_Type_update (\<lambda>_. x))),
     (''format'', string_field (\<lambda>x. ar_Format_update (\<lambda>_. x))),
     (''path'', string_field (\<lambda>x. ar_Path_update (\<lambda>_. x))),
     (''name'', string_field (\<lambda>x. ar_Name_update (\<lambda>_. x))),
     (''version'', string_field (\<lambda>x. ar_Version_update (\<lambda>_. x)))]"

definition VulnerabilitiesResponseResult_members :: "(string \<times> VulnerabilitiesResponseResult setter) list" where
  "VulnerabilitiesResponseResult_members = [(''registry'', string_field (\<lambda>x. vrr_Registry_update (\<lambda>_. x))),
     (''image_repository_name'', string_field (\<lambda>x. vrr_ImageRepositoryName_update (\<lambda>_. x))),
     (''resource'', struct_field vrr_Resource (\<lambda>x. vrr_Resource_update (\<lambda>_. x)) (decode_struct AquaResource_members)),
     (''name'', string_field (\<lambda>x. vrr_Name_update (\<lambda>_. x))),
     (''description'', string_field (\<lambda>x. vrr_Description_update (\<lambda>_. x))),
     (''aqua_severity'', string_field (\<lambda>x. vrr_AquaSeverity_update (\<lambda>_. x))),
     (''aqua_vectors'', string_field (\<lambda>x. vrr_AquaVectors_update (\<lambda>_. x))),
     (''aqua_scoring_system'', string_field (\<lambda>x. vrr_AquaScoringSystem_update (\<lambda>_. x))),
     (''fix_version'', string_field (\<lambda>x. vrr_FixVersion_update (\<lambda>_. x)))]"

definition zero_VulnerabilitiesResponseResult :: VulnerabilitiesResponseResult where
  "zero_VulnerabilitiesResponseResult = \<lparr>vrr_Registry = [], vrr_ImageRepositoryName = [],
     vrr_Resource = \<lparr>ar_Type = [], ar_Format = [], ar_Path = [], ar_Name = [], ar_Version = []\<rparr>, vrr_Name = [],
     vrr_Description = [], vrr_AquaSeverity = [], vrr_AquaVectors = [], vrr_AquaScoringSystem = [], vrr_FixVersion = []\<rparr>"

definition VulnerabilitiesResponse_members :: "(string \<times> VulnerabilitiesResponse setter) list" where
  "VulnerabilitiesResponse_members = [(''count'', int_field (\<lambda>x. vrs_Count_update (\<lambda>_. x))),
     (''result'', list_field vrs_Results (\<lambda>x. vrs_Results_update (\<lambda>_. x))
        (decode_struct VulnerabilitiesResponseResult_members) zero_VulnerabilitiesResponseResult)]"

definition RegistryResponse_members :: "(string \<times> RegistryResponse setter) list" where
  "RegistryResponse_members = [(''name'', string_field (\<lambda>x. rr_Name_update (\<lambda>_. x))),
     (''type'', string_field (\<lambda>x. rr_Type_update (\<lambda>_. x))),
     (''description'', string_field (\<lambda>x. rr_Description_update (\<lambda>_. x))),
     (''url'', string_field (\<lambda>x. rr_URL_update (\<lambda>_. x))),
     (''prefixes'', list_field rr_Prefixes (\<lambda>x. rr_Prefixes_update (\<lambda>_. x)) decode_string [])]"

definition Images_Vulnerabilities :: "aqua_client \<Rightarrow> string \<Rightarrow> string \<Rightarrow> string \<Rightarrow> error + VulnerabilitiesResponse" where
  "Images_Vulnerabilities c registry repo tag =
     (case newGetRequest c (ac_baseURL c @ ''/api/v2/images/'' @ registry @ ''/'' @ repo @ ''/'' @ tag @ ''/vulnerabilities'') of
        Inl e \<Rightarrow> Inl e
      | Inr resp \<Rightarrow>
          if rsp_StatusCode resp = 401 then Inl ErrUnauthorized
          else if rsp_StatusCode resp = 404 then Inl ErrNotFound
          else if rsp_StatusCode resp = 200
          then Decode_first (decode_struct VulnerabilitiesResponse_members) \<lparr>vrs_Count = 0, vrs_Results = []\<rparr> (rsp_Body resp)
          else Inl (Errorf (''unexpected response status: '' @ rsp_Status resp)))"

definition Registries_List :: "aqua_client \<Rightarrow> error + RegistryResponse list" where
  "Registries_List c =
     (case newGetRequest c (ac_baseURL c @ ''/api/v1/registries'') of
        Inl e \<Rightarrow> Inl e
      | Inr resp \<Rightarrow>
          if rsp_StatusCode resp = 401 then Inl ErrUnauthorized
          else if rsp_StatusCode resp = 200
          then Decode_first (decode_list (decode_struct RegistryResponse_members)
                 \<lparr>rr_Name = [], rr_Type = [], rr_Description = [], rr_URL = [], rr_Prefixes = []\<rparr>) [] (rsp_Body resp)
          else Inl (Errorf (''unexpected response status: '' @ rsp_Status resp)))"

section \<open>The report of the server\<close>

record Options =
  opt_Version :: string
  opt_BaseURL :: string
  opt_Credentials :: UsernameAndPassword
  opt_RegistryName :: string
  opt_Command :: string

definition adHocScansRegistry :: string where "adHocScansRegistry = ''Ad Hoc Scans''"

text \<open>The inner loop stops at the first prefix that fits, the outer one goes on.\<close>

fun registry_loop :: "string \<Rightarrow> RegistryResponse list \<Rightarrow> string \<Rightarrow> string" where
  "registry_loop imageRef [] registryName = registryName"
| "registry_loop imageRef (r # rs) registryName =
     registry_loop imageRef rs (if \<exists>p \<in> set (rr_Prefixes r). HasPrefix imageRef p then rr_Name r else registryName)"

definition getRegistryName :: "Options \<Rightarrow> aqua_client \<Rightarrow> string \<Rightarrow> error + string" where
  "getRegistryName options c imageRef =
     (if opt_RegistryName options \<noteq> [] then Inr (opt_RegistryName options)
      else case Registries_List c of
             Inl e \<Rightarrow> Inl e
           | Inr listed \<Rightarrow>
               (let registryName = registry_loop imageRef listed []
                in Inr (if registryName = [] then adHocScansRegistry else registryName)))"

text \<open>Both scanners have this function, over their own result types.\<close>

definition toSeverity :: "string \<Rightarrow> Severity" where
  "toSeverity severity =
     (if severity = ''critical'' then SeverityCritical
      else if severity = ''high'' then SeverityHigh
      else if severity = ''medium'' then SeverityMedium
      else if severity = ''low'' then SeverityLow
      else SeverityUnknown)"

definition api_item :: "VulnerabilitiesResponseResult \<Rightarrow> Vulnerability" where
  "api_item result = empty_Vulnerability\<lparr>vu_VulnerabilityID := vrr_Name result, vu_Resource := ar_Name (vrr_Resource result),
     vu_InstalledVersion := ar_Version (vrr_Resource result), vu_Severity := toSeverity (vrr_AquaSeverity result),
     vu_FixedVersion := vrr_FixVersion result, vu_Description := vrr_Description result, vu_Links := []\<rparr>"

definition artifact_of :: "Reference \<Rightarrow> Artifact" where
  "artifact_of ref =
     (let artifact = \<lparr>af_Repository = nr_RepositoryStr ref, af_Digest = [], af_Tag = [], af_MimeType = []\<rparr>
      in case nr_Identifier ref of ImageTag t \<Rightarrow> artifact\<lparr>af_Tag := t\<rparr> | ImageDigest d \<Rightarrow> artifact\<lparr>af_Digest := d\<rparr>)"

definition aqua_report ::
    "Time \<Rightarrow> Options \<Rightarrow> Reference \<Rightarrow> VulnerabilitySummary \<Rightarrow> Vulnerability list \<Rightarrow> VulnerabilityReportData" where
  "aqua_report now options ref summary items = \<lparr>vr_UpdateTimestamp = now,
     vr_Scanner = \<lparr>sc_Name = ''Aqua CSP'', sc_Vendor = ''Aqua Security'', sc_Version = opt_Version options\<rparr>,
     vr_Registry = \<lparr>rg_Server = nr_RegistryStr ref\<rparr>, vr_Artifact = artifact_of ref, vr_Summary = summary,
     vr_Vulnerabilities = items\<rparr>"

definition api_convert :: "plugin_env \<Rightarrow> Options \<Rightarrow> Reference \<Rightarrow> VulnerabilitiesResponse \<Rightarrow> VulnerabilityReportData" where
  "api_convert P options ref response =
     (let items = map api_item (vrs_Results response) in aqua_report (pe_Now P) options ref (toSummary items) items)"

definition Identifier :: "Reference \<Rightarrow> string" where
  "Identifier ref = (case nr_Identifier ref of ImageTag t \<Rightarrow> t | ImageDigest d \<Rightarrow> d)"

definition api_Scan :: "plugin_env \<Rightarrow> Options \<Rightarrow> aqua_client \<Rightarrow> string \<Rightarrow> error + VulnerabilityReportData" where
  "api_Scan P options c imageRef =
     (case getRegistryName options c imageRef of
        Inl e \<Rightarrow> Inl e
      | Inr registryName \<Rightarrow>
          (case pe_ParseReference P imageRef of
             Inl e \<Rightarrow> Inl e
           | Inr reference \<Rightarrow>
               (let repo = (if opt_Command options = aqua_Filesystem
                            then nr_RegistryStr reference @ ''/'' @ nr_RepositoryStr reference else nr_RepositoryStr reference)
                in case Images_Vulnerabilities c registryName repo (Identifier reference) of
                     Inl e \<Rightarrow> Inl e
                   | Inr vulnerabilities \<Rightarrow> Inr (api_convert P options reference vulnerabilities))))"

section \<open>The command\<close>

definition ResourceType_Library :: int where "ResourceType_Library = 1"

record CliResource =
  clr_Type :: int
  clr_Path :: string
  clr_Name :: string
  clr_Version :: string

record CliVulnerability =
  clv_Name :: string
  clv_Description :: string
  clv_FixVersion :: string
  clv_VendorURL :: string
  clv_VendorSeverity :: string
  clv_VendorSeverityV3 :: string
  clv_NVDURL :: string
  clv_NVDSeverity :: string
  clv_NVDScore :: "32 word"
  clv_NVDSeverityV3 :: string
  clv_NVDScoreV3 :: "32 word"
  clv_AquaSeverity :: string
  clv_AquaScore :: "32 word"
  clv_AquaScoringSystem :: string

record ResourceScan =
  rsc_Resource :: CliResource
  rsc_Scanned :: bool
  rsc_Vulnerabilities :: "CliVulnerability list"

record CliSummary =
  cls_Total :: int
  cls_High :: int
  cls_Medium :: int
  cls_Low :: int
  cls_Negligible :: int
  cls_Sensitive :: int
  cls_Malware :: int
  cls_Critical :: int

record CliScanOptions =
  cso_ScanMalware :: bool
  cso_ScanFiles :: bool
  cso_ManualPullFallback :: bool
  cso_SaveAdHockScans :: bool
  cso_Dockerless :: bool
  cso_EnableFastScanning :: bool
  cso_SuggestOSUpgrade :: bool
  cso_IncludeSiblingAdvisories :: bool
  cso_UseCVSS3 :: bool

record CliScanReport =
  csr_Image :: string
  csr_Registry :: string
  csr_Digest :: string
  csr_OS :: string
  csr_Version :: string
  csr_PullName :: string
  csr_InitiatingUser :: string
  csr_Resources :: "ResourceScan list"
  csr_Summary :: CliSummary
  csr_Warnings :: "unit list"
  csr_ScanOptions :: CliScanOptions

definition CliResource_members :: "(string \<times> CliResource setter) list" where
  "CliResource_members = [(''type'', int_field (\<lambda>x. clr_Type_update (\<lambda>_. x))),
     (''path'', string_field (\<lambda>x. clr_Path_update (\<lambda>_. x))),
     (''name'', string_field (\<lambda>x. clr_Name_update (\<lambda>_. x))),
     (''version'', string_field (\<lambda>x. clr_Version_update (\<lambda>_. x)))]"

definition CliVulnerability_members :: "(string \<times> CliVulnerability setter) list" where
  "CliVulnerability_members = [(''name'', string_field (\<lambda>x. clv_Name_update (\<lambda>_. x))),
     (''description'', string_field (\<lambda>x. clv_Description_update (\<lambda>_. x))),
     (''fix_version'', string_field (\<lambda>x. clv_FixVersion_update (\<lambda>_. x))),
     (''vendor_url'', string_field (\<lambda>x. clv_VendorURL_update (\<lambda>_. x))),
     (''vendor_severity'', string_field (\<lambda>x. clv_VendorSeverity_update (\<lambda>_. x))),
     (''vendor_severity_v3'', string_field (\<lambda>x. clv_VendorSeverityV3_update (\<lambda>_. x))),
     (''nvd_url'', string_field (\<lambda>x. clv_NVDURL_update (\<lambda>_. x))),
     (''nvd_severity'', string_field (\<lambda>x. clv_NVDSeverity_update (\<lambda>_. x))),
     (''nvd_score'', number_field ParseFloat32 (\<lambda>x. clv_NVDScore_update (\<lambda>_. x))),
     (''nvd_severity_v3'', string_field (\<lambda>x. clv_NVDSeverityV3_update (\<lambda>_. x))),
     (''nvd_score_v3'', number_field ParseFloat32 (\<lambda>x. clv_NVDScoreV3_update (\<lambda>_. x))),
     (''aqua_severity'', string_field (\<lambda>x. clv_AquaSeverity_update (\<lambda>_. x))),
     (''aqua_score'', number_field ParseFloat32 (\<lambda>x. clv_AquaScore_update (\<lambda>_. x))),
     (''aqua_scoring_system'', string_field (\<lambda>x. clv_AquaScoringSystem_update (\<lambda>_. x)))]"

definition zero_CliVulnerability :: CliVulnerability where
  "zero_CliVulnerability = \<lparr>clv_Name = [], clv_Description = [], clv_FixVersion = [], clv_VendorURL = [], clv_VendorSeverity = [],
     clv_VendorSeverityV3 = [], clv_NVDURL = [], clv_NVDSeverity = [], clv_NVDScore = 0, clv_NVDSeverityV3 = [],
     clv_NVDScoreV3 = 0, clv_AquaSeverity = [], clv_AquaScore = 0, clv_AquaScoringSystem = []\<rparr>"

definition ResourceScan_members :: "(string \<times> ResourceScan setter) list" where
  "ResourceScan_members =
     [(''resource'', struct_field rsc_Resource (\<lambda>x. rsc_Resource_update (\<lambda>_. x)) (decode_struct CliResource_members)),
      (''scanned'', bool_field (\<lambda>x. rsc_Scanned_update (\<lambda>_. x))),
      (''vulnerabilities'', list_field rsc_Vulnerabilities (\<lambda>x. rsc_Vulnerabilities_update (\<lambda>_. x))
         (decode_struct CliVulnerability_members) zero_CliVulnerability)]"

definition zero_ResourceScan :: ResourceScan where
  "zero_ResourceScan = \<lparr>rsc_Resource = \<lparr>clr_Type = 0, clr_Path = [], clr_Name = [], clr_Version = []\<rparr>, rsc_Scanned = False,
     rsc_Vulnerabilities = []\<rparr>"

definition CliSummary_members :: "(string \<times> CliSummary setter) list" where
  "CliSummary_members = [(''total'', int_field (\<lambda>x. cls_Total_update (\<lambda>_. x))),
     (''high'', int_field (\<lambda>x. cls_High_update (\<lambda>_. x))),
     (''medium'', int_field (\<lambda>x. cls_Medium_update (\<lambda>_. x))),
     (''low'', int_field (\<lambda>x. cls_Low_update (\<lambda>_. x))),
     (''negligible'', int_field (\<lambda>x. cls_Negligible_update (\<lambda>_. x))),
     (''sensitive'', int_field (\<lambda>x. cls_Sensitive_update (\<lambda>_. x))),
     (''malware'', int_field (\<lambda>x. cls_Malware_update (\<lambda>_. x))),
     (''critical'', int_field (\<lambda>x. cls_Critical_update (\<lambda>_. x)))]"

definition CliScanOptions_members :: "(string \<times> CliScanOptions setter) list" where
  "CliScanOptions_members = [(''scan_malware'', bool_field (\<lambda>x. cso_ScanMalware_update (\<lambda>_. x))),
     (''scan_files'', bool_field (\<lambda>x. cso_ScanFiles_update (\<lambda>_. x))),
     (''manual_pull_fallback'', bool_field (\<lambda>x. cso_ManualPullFallback_update (\<lambda>_. x))),
     (''save_adhoc_scans'', bool_field (\<lambda>x. cso_SaveAdHockScans_update (\<lambda>_. x))),
     (''dockerless'', bool_field (\<lambda>x. cso_Dockerless_update (\<lambda>_. x))),
     (''enable_fast_scanning'', bool_field (\<lambda>x. cso_EnableFastScanning_update (\<lambda>_. x))),
     (''suggest_os_upgrade'', bool_field (\<lambda>x. cso_SuggestOSUpgrade_update (\<lambda>_. x))),
     (''include_sibling_advisories'', bool_field (\<lambda>x. cso_IncludeSiblingAdvisories_update (\<lambda>_. x))),
     (''use_cvss3'', bool_field (\<lambda>x. cso_UseCVSS3_update (\<lambda>_. x)))]"

definition CliScanReport_members :: "(string \<times> CliScanReport setter) list" where
  "CliScanReport_members = [(''image'', string_field (\<lambda>x. csr_Image_update (\<lambda>_. x))),
     (''registry'', string_field (\<lambda>x. csr_Registry_update (\<lambda>_. x))),
     (''digest'', string_field (\<lambda>x. csr_Digest_update (\<lambda>_. x))),
     (''os'', string_field (\<lambda>x. csr_OS_update (\<lambda>_. x))),
     (''version'', string_field (\<lambda>x. csr_Version_update (\<lambda>_. x))),
     (''pull_name'', string_field (\<lambda>x. csr_PullName_update (\<lambda>_. x))),
     (''initiating_user'', string_field (\<lambda>x. csr_InitiatingUser_update (\<lambda>_. x))),
     (''resources'', list_field csr_Resources (\<lambda>x. csr_Resources_update (\<lambda>_. x)) (decode_struct ResourceScan_members)
        zero_ResourceScan),
     (''vulnerability_summary'', struct_field csr_Summary (\<lambda>x. csr_Summary_update (\<lambda>_. x)) (decode_struct CliSummary_members)),
     (''warnings'', list_field csr_Warnings (\<lambda>x. csr_Warnings_update (\<lambda>_. x)) (decode_struct []) ()),
     (''scan_options'', struct_field csr_ScanOptions (\<lambda>x. csr_ScanOptions_update (\<lambda>_. x)) (decode_struct CliScanOptions_members))]"

definition zero_CliScanReport :: CliScanReport where
  "zero_CliScanReport = \<lparr>csr_Image = [], csr_Registry = [], csr_Digest = [], csr_OS = [], csr_Version = [], csr_PullName = [],
     csr_InitiatingUser = [], csr_Resources = [],
     csr_Summary = \<lparr>cls_Total = 0, cls_High = 0, cls_Medium = 0, cls_Low = 0, cls_Negligible = 0, cls_Sensitive = 0, cls_Malware = 0,
       cls_Critical = 0\<rparr>,
     csr_Warnings = [],
     csr_ScanOptions = \<lparr>cso_ScanMalware = False, cso_ScanFiles = False, cso_ManualPullFallback = False, cso_SaveAdHockScans = False,
       cso_Dockerless = False, cso_EnableFastScanning = False, cso_SuggestOSUpgrade = False, cso_IncludeSiblingAdvisories = False,
       cso_UseCVSS3 = False\<rparr>\<rparr>"

text \<open>\<open>json.Unmarshal\<close> takes the whole text as one value.\<close>

definition Unmarshal :: "'a setter \<Rightarrow> 'a \<Rightarrow> string \<Rightarrow> error + 'a" where
  "Unmarshal dec x out =
     (case json_parse out of
        None \<Rightarrow> Inl (Errorf ''invalid JSON'')
      | Some v \<Rightarrow> (case dec v x of (y, None) \<Rightarrow> Inr y | (_, Some e) \<Rightarrow> Inl e))"

definition getImageScanCommand :: "Options \<Rightarrow> string \<Rightarrow> string \<times> string list" where
  "getImageScanCommand options imageRef = (''scannercli'',
     [''scan'', ''--checkonly'', ''--dockerless'', ''--host='' @ opt_BaseURL options,
      ''--user='' @ up_Username (opt_Credentials options), ''--password='' @ up_Password (opt_Credentials options),
      ''--local'', imageRef])"

definition getFSScanCommand :: "Options \<Rightarrow> string \<Rightarrow> string \<times> string list" where
  "getFSScanCommand options imageRef = (''/var/aqua/scannercli'',
     [''scan'', ''--checkonly'', ''--host='' @ opt_BaseURL options,
      ''--user='' @ up_Username (opt_Credentials options), ''--password='' @ up_Password (opt_Credentials options),
      ''--registry='' @ opt_RegistryName options, ''--image-name='' @ imageRef, ''--register'', ''--fs-scan'', ''/''])"

definition toLinks :: "CliVulnerability \<Rightarrow> string list" where
  "toLinks v = (if clv_NVDURL v \<noteq> [] then [clv_NVDURL v] else []) @ (if clv_VendorURL v \<noteq> [] then [clv_VendorURL v] else [])"

definition cli_item :: "CliResource \<Rightarrow> CliVulnerability \<Rightarrow> Vulnerability" where
  "cli_item r vln = empty_Vulnerability\<lparr>vu_VulnerabilityID := clv_Name vln,
     vu_Resource := (if clr_Type r = ResourceType_Library then clr_Path r else clr_Name r),
     vu_InstalledVersion := clr_Version r, vu_FixedVersion := clv_FixVersion vln, vu_Severity := toSeverity (clv_AquaSeverity vln),
     vu_Description := clv_Description vln, vu_Links := toLinks vln\<rparr>"

definition cli_toSummary :: "CliSummary \<Rightarrow> VulnerabilitySummary" where
  "cli_toSummary aquaSummary = zero_VulnerabilitySummary\<lparr>vs_CriticalCount := cls_Critical aquaSummary,
     vs_HighCount := cls_High aquaSummary, vs_MediumCount := cls_Medium aquaSummary, vs_LowCount := cls_Low aquaSummary\<rparr>"

definition cli_convert :: "plugin_env \<Rightarrow> Options \<Rightarrow> string \<Rightarrow> CliScanReport \<Rightarrow> error + VulnerabilityReportData" where
  "cli_convert P options imageRef aquaReport =
     (let items = concat (map (\<lambda>resourceScan. map (cli_item (rsc_Resource resourceScan)) (rsc_Vulnerabilities resourceScan))
            (csr_Resources aquaReport))
      in case pe_ParseReference P imageRef of
           Inl e \<Rightarrow> Inl e
         | Inr ref \<Rightarrow> Inr (aqua_report (pe_Now P) options ref (cli_toSummary (csr_Summary aquaReport)) items))"

definition cli_Scan ::
    "plugin_env \<Rightarrow> (string \<times> string list \<Rightarrow> error + string) \<Rightarrow> Options \<Rightarrow> string \<Rightarrow> error + VulnerabilityReportData" where
  "cli_Scan P run_command options imageRef =
     (case run_command (if opt_Command options = aqua_Filesystem then getFSScanCommand options imageRef
                        else getImageScanCommand options imageRef) of
        Inl e \<Rightarrow> Inl (Wrap ''running scannercli'' e)
      | Inr out \<Rightarrow>
          (case Unmarshal (decode_struct CliScanReport_members) zero_CliScanReport out of
             Inl e \<Rightarrow> Inl e
           | Inr aquaReport \<Rightarrow> cli_convert P options imageRef aquaReport))"

section \<open>The program\<close>

definition scan ::
    "plugin_env \<Rightarrow> transport \<Rightarrow> (string \<times> string list \<Rightarrow> error + string) \<Rightarrow> Options \<Rightarrow> string \<Rightarrow> error + VulnerabilityReportData" where
  "scan P http run_command opt imageRef =
     (case NewClient http (opt_BaseURL opt) (Some (opt_Credentials opt)) of
        Inl e \<Rightarrow> Inl e
      | Inr clientset \<Rightarrow>
          (case api_Scan P opt clientset imageRef of
             Inr report \<Rightarrow> Inr report
           | Inl e \<Rightarrow> if \<not> errors_Is e ErrNotFound then Inl e else cli_Scan P run_command opt imageRef))"

section \<open>Printing the report\<close>

text \<open>
  \<open>json.NewEncoder(os.Stdout).Encode(report)\<close>, with the members of the struct tags; empty strings under \<^verbatim>\<open>omitempty\<close>
  are left out. (A nil slice is printed as \<open>null\<close>, which reads as the empty slice too.) The format of times and of scores is a
  parameter.
\<close>

definition show_int :: "int \<Rightarrow> string" where
  "show_int n = (if n < 0 then CHR ''-'' # show_nat (nat (- n)) else show_nat (nat n))"

definition omitempty :: "string \<Rightarrow> string \<Rightarrow> (string \<times> json) list" where
  "omitempty name t = (if t = [] then [] else [(name, JString t)])"

definition encode_Vulnerability :: "(64 word \<Rightarrow> string) \<Rightarrow> Vulnerability \<Rightarrow> json" where
  "encode_Vulnerability show_float v = JObject ([(''vulnerabilityID'', JString (vu_VulnerabilityID v)),
     (''resource'', JString (vu_Resource v)), (''installedVersion'', JString (vu_InstalledVersion v)),
     (''fixedVersion'', JString (vu_FixedVersion v)), (''severity'', JString (vu_Severity v)), (''title'', JString (vu_Title v))] @
     omitempty ''description'' (vu_Description v) @ omitempty ''primaryLink'' (vu_PrimaryLink v) @
     [(''links'', JArray (map JString (vu_Links v)))] @
     (case vu_Score v of None \<Rightarrow> [] | Some x \<Rightarrow> [(''score'', JNumber (show_float x))]))"

definition encode_Artifact :: "Artifact \<Rightarrow> json" where
  "encode_Artifact a = JObject ([(''repository'', JString (af_Repository a))] @ omitempty ''digest'' (af_Digest a) @
     omitempty ''tag'' (af_Tag a) @ omitempty ''mimeType'' (af_MimeType a))"

definition encode_VulnerabilitySummary :: "VulnerabilitySummary \<Rightarrow> json" where
  "encode_VulnerabilitySummary x = JObject [(''criticalCount'', JNumber (show_int (vs_CriticalCount x))),
     (''highCount'', JNumber (show_int (vs_HighCount x))), (''mediumCount'', JNumber (show_int (vs_MediumCount x))),
     (''lowCount'', JNumber (show_int (vs_LowCount x))), (''unknownCount'', JNumber (show_int (vs_UnknownCount x))),
     (''noneCount'', JNumber (show_int (vs_NoneCount x)))]"

definition encode_VulnerabilityReportData ::
    "(Time \<Rightarrow> json) \<Rightarrow> (64 word \<Rightarrow> string) \<Rightarrow> VulnerabilityReportData \<Rightarrow> json" where
  "encode_VulnerabilityReportData encode_Time show_float r = JObject [(''updateTimestamp'', encode_Time (vr_UpdateTimestamp r)),
     (''scanner'', JObject [(''name'', JString (sc_Name (vr_Scanner r))), (''vendor'', JString (sc_Vendor (vr_Scanner r))),
        (''version'', JString (sc_Version (vr_Scanner r)))]),
     (''registry'', JObject [(''server'', JString (rg_Server (vr_Registry r)))]),
     (''artifact'', encode_Artifact (vr_Artifact r)), (''summary'', encode_VulnerabilitySummary (vr_Summary r)),
     (''vulnerabilities'', JArray (map (encode_Vulnerability show_float) (vr_Vulnerabilities r)))]"

definition main_run ::
    "plugin_env \<Rightarrow> transport \<Rightarrow> (string \<times> string list \<Rightarrow> error + string) \<Rightarrow> (Time \<Rightarrow> json) \<Rightarrow> (64 word \<Rightarrow> string) \<Rightarrow>
      Options \<Rightarrow> string \<Rightarrow> error + string" where
  "main_run P http run_command encode_Time show_float opt imageRef =
     (case scan P http run_command opt imageRef of
        Inl e \<Rightarrow> Inl e
      | Inr report \<Rightarrow> Inr (encode_json (encode_VulnerabilityReportData encode_Time show_float report) @ [CHR 0x0A]))"

section \<open>Lemmas\<close>

text \<open>Integers are number tokens and read back.\<close>

lemma show_nat_token: "n > 0 \<Longrightarrow> \<exists>c cs. show_nat n = c # cs \<and> c \<noteq> CHR ''0'' \<and> is_digit c \<and> list_all is_digit cs"
proof (induction n rule: show_nat.induct)
  case (1 n)
  show ?case
  proof (cases "n < 10")
    case True
    then have "digit_char n \<noteq> CHR ''0''" using 1 digit_val_char [of n] by (auto simp: digit_val_def)
    then show ?thesis using True by (simp add: show_nat.simps [of n])
  next
    case False
    then have "0 < n div 10" by (simp add: div_greater_zero_iff)
    then obtain c cs where "show_nat (n div 10) = c # cs" "c \<noteq> CHR ''0''" "is_digit c" "list_all is_digit cs"
      using 1 False by blast
    moreover have "is_digit (digit_char (n mod 10))"
      using show_nat_digits [of "digit_char (n mod 10)" n] False by (simp add: show_nat.simps [of n])
    ultimately show ?thesis using False by (simp add: show_nat.simps [of n])
  qed
qed

lemma show_int_token: "parse_number (show_int n) = Some (show_int n, [])"
proof -
  have pos: "Option.bind (Option.bind (strip_int (show_nat m)) strip_frac) strip_exp = Some []" for m
  proof (cases "m = 0")
    case True
    moreover have "show_nat 0 = ''0''" by code_simp
    ultimately show ?thesis by (simp add: strip_int_def strip_frac_def strip_exp_def)
  next
    case False
    then obtain c cs where cs: "show_nat m = c # cs" "c \<noteq> CHR ''0''" "is_digit c" "list_all is_digit cs"
      using show_nat_token [of m] by auto
    then have "c \<noteq> CHR ''-''" "dropWhile is_digit cs = []" by (auto simp: is_digit_def list_all_iff)
    then show ?thesis using cs by (simp add: strip_int_def strip_digits1_def strip_frac_def strip_exp_def)
  qed
  have "strip_int (show_int n) = strip_int (show_nat (nat \<bar>n\<bar>))"
  proof -
    obtain c cs where c: "show_nat (nat \<bar>n\<bar>) = c # cs" by (cases "show_nat (nat \<bar>n\<bar>)") auto
    then have "c \<noteq> CHR ''-''" using show_nat_digits [of c "nat \<bar>n\<bar>"] by (auto simp: is_digit_def)
    then show ?thesis using c by (auto simp: show_int_def strip_int_def)
  qed
  then show ?thesis using pos [of "nat \<bar>n\<bar>"] by (simp add: parse_number_def)
qed

lemma Atoi_show_int: "int64_min \<le> n \<Longrightarrow> n \<le> int64_max \<Longrightarrow> Atoi (show_int n) = Inr n"
proof (cases "n < 0")
  case True
  assume "int64_min \<le> n"
  moreover have "list_all is_digit (show_nat (nat (- n)))" using show_nat_digits by (auto simp: list_all_iff)
  ultimately show ?thesis using True by (simp add: show_int_def Atoi_def int64_max_def)
next
  case False
  assume "n \<le> int64_max"
  then show ?thesis using False Atoi_show_nat [of "nat n"] by (simp add: show_int_def)
qed

lemma printable_report:
  assumes "printable_doc (encode_Time (vr_UpdateTimestamp r))" and "\<forall>v \<in> set (vr_Vulnerabilities r). vu_Score v = None"
  shows "printable_doc (encode_VulnerabilityReportData encode_Time show_float r)"
proof -
  have "printable_doc (encode_Vulnerability show_float v)" if "vu_Score v = None" for v
    using that by (simp add: encode_Vulnerability_def omitempty_def list_all_iff)
  moreover have "printable_doc (encode_Artifact a)" for a by (simp add: encode_Artifact_def omitempty_def)
  moreover have "printable_doc (encode_VulnerabilitySummary x)" for x
    by (simp add: encode_VulnerabilitySummary_def show_int_token)
  ultimately show ?thesis using assms by (simp add: encode_VulnerabilityReportData_def list_all_iff)
qed

text \<open>Member names in lower case, as the decoder looks them up.\<close>

lemma member_names:
  "ToLower ''vulnerabilityID'' = ''vulnerabilityid''" "ToLower ''resource'' = ''resource''"
  "ToLower ''installedVersion'' = ''installedversion''" "ToLower ''fixedVersion'' = ''fixedversion''"
  "ToLower ''severity'' = ''severity''" "ToLower ''title'' = ''title''" "ToLower ''description'' = ''description''"
  "ToLower ''primaryLink'' = ''primarylink''" "ToLower ''links'' = ''links''" "ToLower ''repository'' = ''repository''"
  "ToLower ''digest'' = ''digest''" "ToLower ''tag'' = ''tag''" "ToLower ''mimeType'' = ''mimetype''"
  "ToLower ''criticalCount'' = ''criticalcount''" "ToLower ''highCount'' = ''highcount''" "ToLower ''mediumCount'' = ''mediumcount''"
  "ToLower ''lowCount'' = ''lowcount''" "ToLower ''unknownCount'' = ''unknowncount''" "ToLower ''noneCount'' = ''nonecount''"
  "ToLower ''updateTimestamp'' = ''updatetimestamp''" "ToLower ''scanner'' = ''scanner''" "ToLower ''registry'' = ''registry''"
  "ToLower ''artifact'' = ''artifact''" "ToLower ''summary'' = ''summary''" "ToLower ''vulnerabilities'' = ''vulnerabilities''"
  "ToLower ''name'' = ''name''" "ToLower ''vendor'' = ''vendor''" "ToLower ''version'' = ''version''" "ToLower ''server'' = ''server''"
  by code_simp+

lemma decode_elems_map:
  "(\<And>x. x \<in> set xs \<Longrightarrow> dec (enc x) zero = (x, None)) \<Longrightarrow> decode_elems dec zero (map enc xs) [] = (xs, None)"
  by (induction xs) (auto simp: first_err_def)

lemma decode_Vulnerability:
  assumes "vu_Score v = None"
  shows "decode_struct Vulnerability_members (encode_Vulnerability show_float v) empty_Vulnerability = (v, None)"
proof -
  have links: "decode_elems decode_string [] (map JString xs) [] = (xs, None)" for xs
    by (rule decode_elems_map) (simp add: decode_string_def string_field_def)
  obtain i r iv fv se ti d p l where v: "v = \<lparr>vu_VulnerabilityID = i, vu_Resource = r, vu_InstalledVersion = iv, vu_FixedVersion = fv,
      vu_Severity = se, vu_Title = ti, vu_Description = d, vu_PrimaryLink = p, vu_Links = l, vu_Score = None\<rparr>"
    using assms by (cases v) auto
  show ?thesis
    by (simp add: v encode_Vulnerability_def decode_struct_def omitempty_def member_names Vulnerability_members_def string_field_def
        list_field_def struct_field_def decode_list_def links first_err_def empty_Vulnerability_def split: if_splits)
qed

lemma decode_Artifact:
  "decode_struct Artifact_members (encode_Artifact a) \<lparr>af_Repository = [], af_Digest = [], af_Tag = [], af_MimeType = []\<rparr> = (a, None)"
  by (cases a) (simp add: encode_Artifact_def decode_struct_def omitempty_def member_names Artifact_members_def string_field_def
      first_err_def split: if_splits)

definition counts_fit :: "VulnerabilitySummary \<Rightarrow> bool" where
  "counts_fit x \<longleftrightarrow> (\<forall>n \<in> set [vs_CriticalCount x, vs_HighCount x, vs_MediumCount x, vs_LowCount x, vs_UnknownCount x, vs_NoneCount x].
     int64_min \<le> n \<and> n \<le> int64_max)"

lemma decode_VulnerabilitySummary:
  "counts_fit x \<Longrightarrow> decode_struct VulnerabilitySummary_members (encode_VulnerabilitySummary x)
     \<lparr>vs_CriticalCount = 0, vs_HighCount = 0, vs_MediumCount = 0, vs_LowCount = 0, vs_UnknownCount = 0, vs_NoneCount = 0\<rparr> = (x, None)"
  by (cases x) (simp add: encode_VulnerabilitySummary_def decode_struct_def member_names VulnerabilitySummary_members_def int_field_def
      number_field_def Atoi_show_int counts_fit_def first_err_def)

lemma decode_report:
  assumes "\<And>x. decode_Time (encode_Time (vr_UpdateTimestamp r)) x = (t, None)" and "counts_fit (vr_Summary r)"
    and "\<forall>v \<in> set (vr_Vulnerabilities r). vu_Score v = None"
  shows "decode_struct (VulnerabilityReportData_members decode_Time) (encode_VulnerabilityReportData encode_Time show_float r)
    empty_VulnerabilityReportData = (r\<lparr>vr_UpdateTimestamp := t\<rparr>, None)"
proof -
  have vs: "decode_elems (decode_struct Vulnerability_members) empty_Vulnerability
      (map (encode_Vulnerability show_float) (vr_Vulnerabilities r)) [] = (vr_Vulnerabilities r, None)"
    using assms(3) by (intro decode_elems_map decode_Vulnerability) auto
  have reg: "decode_struct [(''server'', string_field (\<lambda>x. rg_Server_update (\<lambda>_. x)))] (JObject [(''server'', JString (rg_Server g))])
      \<lparr>rg_Server = []\<rparr> = (g, None)" for g
    by (cases g) (simp add: decode_struct_def member_names string_field_def first_err_def)
  have sc: "decode_struct Scanner_members (JObject [(''name'', JString (sc_Name x)), (''vendor'', JString (sc_Vendor x)),
      (''version'', JString (sc_Version x))]) \<lparr>sc_Name = [], sc_Vendor = [], sc_Version = []\<rparr> = (x, None)" for x
    by (cases x) (simp add: decode_struct_def Scanner_members_def member_names string_field_def first_err_def)
  show ?thesis
    unfolding encode_VulnerabilityReportData_def
    by (subst decode_struct_def)
      (simp add: VulnerabilityReportData_members_def member_names struct_field_def list_field_def decode_list_def
        empty_VulnerabilityReportData_def assms(1) vs reg sc decode_Artifact decode_VulnerabilitySummary assms(2) first_err_def)
qed

lemma scan_scores:
  assumes "scan P http run_command opt imageRef = Inr report"
  shows "\<forall>v \<in> set (vr_Vulnerabilities report). vu_Score v = None"
  using assms
  by (auto simp: scan_def api_Scan_def cli_Scan_def api_convert_def cli_convert_def aqua_report_def api_item_def cli_item_def
      empty_Vulnerability_def Let_def split: sum.splits if_splits)

lemma scan_time:
  assumes "scan P http run_command opt imageRef = Inr report"
  shows "vr_UpdateTimestamp report = pe_Now P"
  using assms
  by (auto simp: scan_def api_Scan_def cli_Scan_def api_convert_def cli_convert_def aqua_report_def Let_def
      split: sum.splits if_splits)

text \<open>Of several registries that fit an image, the last one is taken.\<close>

lemma registry_loop_last:
  "registry_loop imageRef rs d =
     (case filter (\<lambda>r. \<exists>p \<in> set (rr_Prefixes r). HasPrefix imageRef p) rs of [] \<Rightarrow> d | ms \<Rightarrow> rr_Name (last ms))"
  by (induction rs arbitrary: d) (auto split: list.splits)

text \<open>The command runs only if the server does not know the image.\<close>

lemma command_only_if_unknown:
  assumes "NewClient http (opt_BaseURL opt) (Some (opt_Credentials opt)) = Inr c"
    and "\<not> (\<exists>e. api_Scan P opt c imageRef = Inl e \<and> errors_Is e ErrNotFound)"
  shows "scan P http run_command opt imageRef = scan P http run_command' opt imageRef"
  using assms by (auto simp: scan_def split: sum.splits)

text \<open>
  The summary of a report that comes from the command has no unknown vulnerabilities, whatever is in its list: the command's
  count of negligible ones is dropped, while the server's report counts them.
\<close>

lemma cli_unknown_not_counted:
  "cli_convert P options imageRef aquaReport = Inr report \<Longrightarrow> vs_UnknownCount (vr_Summary report) = 0"
  by (auto simp: cli_convert_def aqua_report_def cli_toSummary_def zero_VulnerabilitySummary_def Let_def split: sum.splits)

section \<open>Properties\<close>

text \<open>
  C32. What the Aqua scanner finds is what the operator stores: the plugin reads the text that the scanner's program prints back into
  the report of the scan, whichever way the report came about: the same scanner, artifact, summary and vulnerabilities, and the
  time of the scan without its fraction of a second. (The format of times, which is that of the Kubernetes API, keeps whole seconds, and
  the counts must fit a Go integer.)
\<close>

theorem aqua_report_roundtrip:
  assumes "main_run P http run_command encode_Time show_float opt imageRef = Inr out"
    and "printable_doc (encode_Time (pe_Now P))"
    and "\<And>x. decode_Time (encode_Time (pe_Now P)) x = (pe_Now P - pe_Now P mod Second, None)"
    and "\<And>report. scan P http run_command opt imageRef = Inr report \<Longrightarrow> counts_fit (vr_Summary report)"
  shows "\<exists>report. scan P http run_command opt imageRef = Inr report \<and> vr_UpdateTimestamp report = pe_Now P \<and>
    pl_ParseVulnerabilityReportData (aquaPlugin c v decode_Time P') ctx s image_of_job out =
      Inr (report\<lparr>vr_UpdateTimestamp := pe_Now P - pe_Now P mod Second\<rparr>)"
proof -
  obtain report where report: "scan P http run_command opt imageRef = Inr report"
    and out: "out = encode_json (encode_VulnerabilityReportData encode_Time show_float report) @ [CHR 0x0A]"
    using assms(1) by (auto simp: main_run_def split: sum.splits)
  note time = scan_time [OF report]
  let ?doc = "encode_VulnerabilityReportData encode_Time show_float report"
  have "printable_doc ?doc" using printable_report [of encode_Time report] assms(2) scan_scores [OF report] time by simp
  then have "parse_json (2 * length out + 1) out = Some (?doc, [CHR 0x0A])"
    unfolding out using need_length [of ?doc] by (intro parse_json_encoded) (auto simp: stops_def is_digit_def)
  then show ?thesis
    using decode_report [of decode_Time encode_Time report, unfolded time, OF assms(3)] assms(4) [OF report] scan_scores [OF report]
    by (simp add: report time aquaPlugin_def aqua_ParseVulnerabilityReportData_def Decode_first_def Decode_def)
qed

text \<open>A server that knows one vulnerability of the image; times as numbers of seconds.\<close>

definition sample_http :: transport where
  "sample_http url headers = Inr \<lparr>rsp_StatusCode = 200, rsp_Status = ''200 OK'',
     rsp_Body = (if HasSuffix url ''/vulnerabilities'' then encode_json (JObject [(''result'',
       JArray [JObject [(''name'', JString ''CVE-1''), (''aqua_severity'', JString ''low'')]])]) else ''[]'')\<rparr>"

definition sample_http_known :: transport where
  "sample_http_known url headers = (if HasSuffix url ''/api'' then Inr \<lparr>rsp_StatusCode = 200, rsp_Status = [], rsp_Body = [CHR 0x7B, CHR 0x7D]\<rparr>
     else sample_http url headers)"

definition sample_options :: Options where
  "sample_options = \<lparr>opt_Version = ''6.5'', opt_BaseURL = ''http://aqua'', opt_Credentials = \<lparr>up_Username = ''u'', up_Password = ''p''\<rparr>,
     opt_RegistryName = [], opt_Command = ''image''\<rparr>"

definition sample_encode_Time :: "Time \<Rightarrow> json" where
  "sample_encode_Time t = JNumber (show_int (t div Second))"

definition sample_decode_Time :: "Time setter" where
  "sample_decode_Time = number_field (\<lambda>t. Inr (Second *
     (if t \<noteq> [] \<and> hd t = CHR ''-'' then - int (read_digits (tl t)) else int (read_digits t)))) (\<lambda>x _. x)"

lemma sample_time: "sample_decode_Time (sample_encode_Time t) x = (t - t mod Second, None)"
proof -
  let ?n = "t div Second"
  obtain c cs where c: "show_nat (nat \<bar>?n\<bar>) = c # cs" by (cases "show_nat (nat \<bar>?n\<bar>)") auto
  then have "c \<noteq> CHR ''-''" using show_nat_digits [of c "nat \<bar>?n\<bar>"] by (auto simp: is_digit_def)
  then have "hd (show_nat (nat \<bar>?n\<bar>)) \<noteq> CHR ''-''" using c by simp
  then have "sample_decode_Time (sample_encode_Time t) x = (Second * ?n, None)"
    by (cases "?n < 0") (simp_all add: sample_decode_Time_def sample_encode_Time_def number_field_def show_int_def)
  then show ?thesis by (simp add: minus_mod_eq_mult_div)
qed

theorem aqua_report_roundtrip_witness:
  "\<exists>out report. main_run sample_plugin_env sample_http_known (\<lambda>_. Inl ErrTimeout) sample_encode_Time (\<lambda>_. ''0'') sample_options ''nginx''
     = Inr out \<and> map vu_VulnerabilityID (vr_Vulnerabilities report) = [''CVE-1''] \<and> vr_UpdateTimestamp report = 7 \<and>
     pl_ParseVulnerabilityReportData (aquaPlugin mem_client [] sample_decode_Time sample_plugin_env) sample_context [] ''nginx'' out =
       Inr (report\<lparr>vr_UpdateTimestamp := 0\<rparr>)"
proof -
  let ?scan = "scan sample_plugin_env sample_http_known (\<lambda>_. Inl ErrTimeout) sample_options ''nginx''"
  have "map_sum (\<lambda>_. ()) (\<lambda>r. (map vu_VulnerabilityID (vr_Vulnerabilities r), counts_fit (vr_Summary r))) ?scan = Inr ([''CVE-1''], True)"
    by code_simp
  then obtain report where report: "?scan = Inr report" "map vu_VulnerabilityID (vr_Vulnerabilities report) = [''CVE-1'']"
    "counts_fit (vr_Summary report)" by (cases ?scan) auto
  then obtain out where out: "main_run sample_plugin_env sample_http_known (\<lambda>_. Inl ErrTimeout) sample_encode_Time (\<lambda>_. ''0'')
      sample_options ''nginx'' = Inr out" by (simp add: main_run_def)
  have printable: "printable_doc (sample_encode_Time t)" for t by (simp add: sample_encode_Time_def show_int_token)
  have now: "pe_Now sample_plugin_env = 7" by (simp add: sample_plugin_env_def)
  have "\<exists>report. ?scan = Inr report \<and> vr_UpdateTimestamp report = pe_Now sample_plugin_env \<and>
    pl_ParseVulnerabilityReportData (aquaPlugin mem_client [] sample_decode_Time sample_plugin_env) sample_context [] ''nginx'' out =
      Inr (report\<lparr>vr_UpdateTimestamp := pe_Now sample_plugin_env - pe_Now sample_plugin_env mod Second\<rparr>)"
    by (rule aqua_report_roundtrip [OF out]) (use report printable sample_time in auto)
  then show ?thesis using report out now by (intro exI [of _ out] exI [of _ report]) (simp add: Second_def)
qed

end
