(* ===== verification/Job_Runner.thy ===== *)
theory Job_Runner
  imports Scan_Jobs
begin

text \<open>
  Running a job from the command line (\<^verbatim>\<open>pkg/kube/runnable_job.go\<close>, \<^verbatim>\<open>pkg/runner/runner.go\<close>): the job and its
  secrets are created, and the call blocks until the cluster reports that the job is done. What the cluster does in the meantime
  is the parameter \<open>world\<close>: the events that the informers deliver for a created job, in their order, each with the state of the
  cluster when it arrives. A call that blocks for ever has the value \<open>None\<close>.
\<close>

section \<open>Waiting for a job\<close>

record JobCondition =
  jc_Type :: JobConditionType
  jc_Reason :: string
  jc_Message :: string

text \<open>An update of a job with its UID and conditions; a new event with the UID of its object, its type, message and reason.\<close>

datatype job_event = JobUpdated string "JobCondition list" | EventAdded string string string string

type_synonym 's world = "'s \<Rightarrow> Object \<Rightarrow> (job_event \<times> 's) list"

definition EventTypeWarning :: string where "EventTypeWarning = ''Warning''"

text \<open>The two event handlers: what a handler sends to the channel \<^verbatim>\<open>complete\<close>, if it sends anything.\<close>

fun signal :: "Object \<Rightarrow> job_event \<Rightarrow> error option option" where
  "signal job (JobUpdated uid conditions) =
     (if om_UID (o_Meta job) \<noteq> uid then None
      else case conditions of
             [] \<Rightarrow> None
           | condition # _ \<Rightarrow>
               (case jc_Type condition of
                  JobComplete \<Rightarrow> Some None
                | JobFailed \<Rightarrow> Some (Some (Errorf (''job failed: '' @ jc_Reason condition @ '': '' @ jc_Message condition)))
                | JobOther _ \<Rightarrow> None))"
| "signal job (EventAdded uid t message reason) =
     (if uid \<noteq> om_UID (o_Meta job) then None
      else if t = EventTypeWarning then Some (Some (Errorf (''warning event received: '' @ message @ '' ('' @ reason @ '')'')))
      else None)"

fun await :: "Object \<Rightarrow> (job_event \<times> 's) list \<Rightarrow> (error option \<times> 's) option" where
  "await job [] = None"
| "await job ((e, s) # es) = (case signal job e of Some res \<Rightarrow> Some (res, s) | None \<Rightarrow> await job es)"

section \<open>The runnable job\<close>

text \<open>
  A create through the interface of one namespace: the object gets the namespace of the request; the API server refuses an object
  that names another one.
\<close>

definition create_in :: "'s client \<Rightarrow> string \<Rightarrow> 's \<Rightarrow> Object \<Rightarrow> (error + Object) \<times> 's" where
  "create_in c ns s x =
     (if om_Namespace (o_Meta x) \<in> {[], ns} then cl_Create c s (set_namespace ns x)
      else (Inl (Errorf ''the namespace of the provided object does not match the namespace sent on the request''), s))"

fun run_secrets :: "'s client \<Rightarrow> string \<Rightarrow> Object list \<Rightarrow> 's \<Rightarrow> (error + Object list) \<times> 's" where
  "run_secrets c ns [] s = (Inr [], s)"
| "run_secrets c ns (secret # secrets) s =
     (case create_in c ns s secret of
        (Inl e, s1) \<Rightarrow> (Inl (Wrap ''creating secret'' e), s1)
      | (Inr x, s1) \<Rightarrow>
          (case run_secrets c ns secrets s1 of
             (Inl e, s2) \<Rightarrow> (Inl e, s2)
           | (Inr xs, s2) \<Rightarrow> (Inr (x # xs), s2)))"

record 's runnableJob =
  rj_clientset :: "'s client"
  rj_SetOwnerReference :: owner_setter
  rj_job :: Object
  rj_secrets :: "Object list"

definition runnableJob_Run :: "'s world \<Rightarrow> 's runnableJob \<Rightarrow> 's \<Rightarrow> (error option \<times> 's) option" where
  "runnableJob_Run world r s =
     (let c = rj_clientset r; ns = om_Namespace (o_Meta (rj_job r)) in
      case run_secrets c ns (rj_secrets r) s of
        (Inl e, s1) \<Rightarrow> Some (Some e, s1)
      | (Inr secrets, s1) \<Rightarrow>
          (case create_in c ns s1 (rj_job r) of
             (Inl e, s2) \<Rightarrow> Some (Some (Wrap ''creating job'' e), s2)
           | (Inr job, s2) \<Rightarrow>
               (case for_each (own_secret ''updating secret'' c (rj_SetOwnerReference r) job) secrets s2 of
                  (Some e, s3) \<Rightarrow> Some (Some e, s3)
                | (None, s3) \<Rightarrow> await job (world s3 job))))"

section \<open>The runner\<close>

text \<open>
  \<open>runner.Run\<close> on the result of the task, which runs in a goroutine of its own. With a timeout, the timer may fire first, in the
  state given then.
\<close>

definition runWithTimeout :: "'s option \<Rightarrow> (error option \<times> 's) option \<Rightarrow> (error option \<times> 's) option" where
  "runWithTimeout timeout complete = (case timeout of Some s \<Rightarrow> Some (Some ErrTimeout, s) | None \<Rightarrow> complete)"

definition runner_Run :: "Duration \<Rightarrow> 's option \<Rightarrow> (error option \<times> 's) option \<Rightarrow> (error option \<times> 's) option" where
  "runner_Run timeoutDuration timeout complete =
     (if timeoutDuration > 0 then runWithTimeout timeout complete else complete)"

text \<open>
  The common shape of the scanners of the command line: run the job, read the result, and afterwards delete the job
  if the options ask for it; the error of the deletion is ignored. The deletion is deferred only after the job has run without
  error. The runner is \<open>runner.New()\<close>, which has no timeout.
\<close>

definition run_scan ::
    "'s world \<Rightarrow> string \<Rightarrow> bool \<Rightarrow> 's runnableJob \<Rightarrow> ('s \<Rightarrow> error + 'a) \<Rightarrow> 's \<Rightarrow> ((error + 'a) \<times> 's) option" where
  "run_scan world msg deleteScanJob r result s =
     (case runner_Run 0 None (runnableJob_Run world r s) of
        None \<Rightarrow> None
      | Some (Some e, s1) \<Rightarrow> Some (Inl (Wrap msg e), s1)
      | Some (None, s1) \<Rightarrow> Some (result s1, if deleteScanJob then snd (cl_Delete (rj_clientset r) s1 (rj_job r)) else s1))"

section \<open>Lemmas\<close>

lemma set_namespace_same: "om_Namespace (o_Meta x) = ns \<Longrightarrow> set_namespace ns x = x"
  by (simp add: set_namespace_def)

lemma set_namespace_sel [simp]: "go_type (set_namespace ns x) = go_type x" "om_Namespace (o_Meta (set_namespace ns x)) = ns"
  "om_Name (o_Meta (set_namespace ns x)) = om_Name (o_Meta x)"
  by (simp_all add: set_namespace_def)

text \<open>The first signal decides.\<close>

lemma await_first:
  assumes "await job es = Some (res, s)"
  obtains seen e rest where "es = seen @ (e, s) # rest" "signal job e = Some res" "\<forall>x \<in> set seen. signal job (fst x) = None"
proof -
  have "\<exists>seen e rest. es = seen @ (e, s) # rest \<and> signal job e = Some res \<and> (\<forall>x \<in> set seen. signal job (fst x) = None)"
    using assms
  proof (induction es)
    case (Cons ev es)
    obtain e' s' where ev: "ev = (e', s')" by fastforce
    show ?case
    proof (cases "signal job e'")
      case None
      then obtain seen e rest where "es = seen @ (e, s) # rest" "signal job e = Some res" "\<forall>x \<in> set seen. signal job (fst x) = None"
        using Cons by (auto simp: ev)
      then show ?thesis using None by (intro exI [of _ "ev # seen"] exI [of _ e] exI [of _ rest]) (simp add: ev)
    next
      case (Some r)
      then show ?thesis using Cons.prems by (intro exI [of _ "[]"] exI [of _ e'] exI [of _ es]) (simp add: ev)
    qed
  qed simp
  then show thesis using that by blast
qed

lemma await_signal:
  "signal job e = Some res \<Longrightarrow> \<forall>x \<in> set seen. signal job (fst x) = None \<Longrightarrow> await job (seen @ (e, s) # rest) = Some (res, s)"
  by (induction seen) auto

lemma await_None_iff: "await job es = None \<longleftrightarrow> (\<forall>(e, s) \<in> set es. signal job e = None)"
  by (induction es) (auto split: option.splits)

lemma run_secrets_frame:
  assumes "api_laws c" and "\<forall>x \<in> set secrets. go_type x = TSecret" and "run_secrets c ns secrets s = (res, s')" and "t \<noteq> TSecret"
  shows "cl_Get c s' t k = cl_Get c s t k"
  using assms(2,3)
proof (induction secrets arbitrary: s res)
  case (Cons x xs)
  have "cl_Get c s1 t k = cl_Get c s t k" if "create_in c ns s x = (r, s1)" for r s1
  proof (cases r)
    case (Inl e)
    then show ?thesis using that failed_write(1) [OF assms(1)] by (auto simp: create_in_def split: if_splits)
  next
    case (Inr y)
    then have "cl_Create c s (set_namespace ns x) = (Inr y, s1)" using that by (auto simp: create_in_def split: if_splits)
    then show ?thesis using create_ok(3) [OF assms(1)] Cons.prems(1) assms(4) by (fastforce simp: only_changes_def)
  qed
  then show ?case using Cons by (fastforce split: prod.splits sum.splits)
qed simp

lemma create_in_frame:
  assumes "api_laws c" and "create_in c ns s x = (res, s')" and "(t, k) \<noteq> (go_type x, \<lparr>key_Namespace = ns, key_Name = om_Name (o_Meta x)\<rparr>)"
  shows "cl_Get c s' t k = cl_Get c s t k"
proof (cases res)
  case (Inl e)
  then show ?thesis using assms(2) failed_write(1) [OF assms(1)] by (auto simp: create_in_def split: if_splits)
next
  case (Inr y)
  then have "cl_Create c s (set_namespace ns x) = (Inr y, s')" using assms(2) by (auto simp: create_in_def split: if_splits)
  then show ?thesis using create_ok(3) [OF assms(1)] assms(3) by (fastforce simp: only_changes_def key_of_def)
qed

text \<open>A job that is already in the cluster is not run again.\<close>

lemma existing_job_not_run:
  assumes "api_laws (rj_clientset r)" and "go_type (rj_job r) = TJob" and "\<forall>x \<in> set (rj_secrets r). go_type x = TSecret"
    and "cl_Get (rj_clientset r) s TJob (key_of (rj_job r)) = Inr j"
  shows "\<exists>e s'. runnableJob_Run world r s = Some (Some e, s')"
proof -
  let ?c = "rj_clientset r" and ?ns = "om_Namespace (o_Meta (rj_job r))"
  obtain res s1 where sec: "run_secrets ?c ?ns (rj_secrets r) s = (res, s1)" by fastforce
  have "cl_Get ?c s1 TJob (key_of (rj_job r)) = Inr j"
    using run_secrets_frame [OF assms(1,3) sec, of TJob] assms(4) by simp
  then have "cl_Create ?c s1 (rj_job r) \<noteq> (Inr y, s2)" for y s2
    using create_ok(4) [OF assms(1), of s1 "rj_job r" y s2] assms(2) by auto
  then obtain e s2 where "create_in ?c ?ns s1 (rj_job r) = (Inl e, s2)"
    by (cases "cl_Create ?c s1 (rj_job r)"; cases "fst (cl_Create ?c s1 (rj_job r))") (auto simp: create_in_def set_namespace_same)
  then show ?thesis using sec by (cases res) (auto simp: runnableJob_Run_def Let_def)
qed

text \<open>What a successful run of a scan did, and what an error leaves.\<close>

lemma run_scan_ok:
  assumes "run_scan world msg del r result s = Some (Inr x, s')"
  obtains s1 where "runnableJob_Run world r s = Some (None, s1)" "result s1 = Inr x"
    "s' = (if del then snd (cl_Delete (rj_clientset r) s1 (rj_job r)) else s1)"
  using assms by (auto simp: run_scan_def runner_Run_def split: option.splits)

lemma run_scan_failed_run:
  "runnableJob_Run world r s = Some (Some e, s') \<Longrightarrow> run_scan world msg del r result s = Some (Inl (Wrap msg e), s')"
  by (simp add: run_scan_def runner_Run_def)

text \<open>A run that ends in the cluster's own time: the job was created, and a signal for it arrived.\<close>

lemma run_completed:
  assumes "runnableJob_Run world r s = Some (None, s1)"
  obtains job s2 seen e rest where "world s2 job = seen @ (e, s1) # rest" "signal job e = Some None"
    "\<forall>x \<in> set seen. signal job (fst x) = None"
  using assms by (auto simp: runnableJob_Run_def Let_def split: prod.splits sum.splits option.splits elim!: await_first)

end
