(* ===== verification/Cli_Scanners.thy ===== *)
theory Cli_Scanners
  imports Job_Runner Vulnerability_Controller Config_Audit_Controller Kube_Bench
begin

text \<open>
  The scanners behind \<^verbatim>\<open>starboard scan\<close>: vulnerabilities of a workload (\<^verbatim>\<open>pkg/vulnerabilityreport/scanner.go\<close>), the
  configuration of a resource (\<^verbatim>\<open>pkg/configauditreport/scanner.go\<close>) and the CIS benchmark of a node
  (\<^verbatim>\<open>pkg/kubebench/scanner.go\<close>). They share plugins, builders and policies with the operator; the theorems relate their results
  to those of the operator's controllers.
\<close>

record ScannerOpts =
  so_ScanJobTimeout :: Duration
  so_DeleteScanJob :: bool

section \<open>Vulnerabilities\<close>

record 's vulnerability_Scanner =
  vsn_clientset :: "'s client"
  vsn_plugin :: "'s Plugin"
  vsn_pluginContext :: PluginContext
  vsn_config :: ConfigData
  vsn_opts :: ScannerOpts
  vsn_env :: env
  vsn_logs :: "'s logs"
  vsn_registry :: "string \<Rightarrow> error + string"
  vsn_order :: order
  vsn_tolerations :: "string \<Rightarrow> error + string list"
  vsn_SetControllerReference :: owner_setter
  vsn_SetOwnerReference :: owner_setter
  vsn_world :: "'s world"

text \<open>The part of \<open>Scan\<close> before the job runs: the owner of the reports and the job with its secrets.\<close>

definition scan_prepare ::
    "'s vulnerability_Scanner \<Rightarrow> ObjectRef \<Rightarrow> 's \<Rightarrow> error + (Object \<times> Object \<times> Object list)" where
  "scan_prepare v workload s =
     (case ObjectFromObjectRef (vsn_clientset v) s workload of
        Inl e \<Rightarrow> Inl (Wrap ''resolving object'' e)
      | Inr workloadObj \<Rightarrow>
          (case ReportOwner (vsn_clientset v) s workloadObj of
             Inl e \<Rightarrow> Inl e
           | Inr owner \<Rightarrow>
               (case GetScanJobTolerations (vsn_tolerations v) (vsn_config v) of
                  Inl e \<Rightarrow> Inl (Wrap ''getting scan job tolerations'' e)
                | Inr scanJobTolerations \<Rightarrow>
                    (case GetScanJobAnnotations (vsn_config v) of
                       Inl e \<Rightarrow> Inl (Wrap ''getting scan job annotations'' e)
                     | Inr scanJobAnnotations \<Rightarrow>
                         (case GetScanJobPodTemplateLabels (vsn_config v) of
                            Inl e \<Rightarrow> Inl (Wrap ''getting scan job template labels'' e)
                          | Inr scanJobPodTemplateLabels \<Rightarrow>
                              (case CredentialsByWorkload (vsn_clientset v) (vsn_registry v) (vsn_order v) s owner of
                                 Inl e \<Rightarrow> Inl e
                               | Inr credentials \<Rightarrow>
                                   (case ScanJobBuilder_Get (vsn_env v)
                                           \<lparr>sjb_plugin = vsn_plugin v, sjb_pluginContext = vsn_pluginContext v,
                                            sjb_timeout = so_ScanJobTimeout (vsn_opts v), sjb_object = owner,
                                            sjb_credentials = credentials, sjb_tolerations = scanJobTolerations,
                                            sjb_annotations = scanJobAnnotations,
                                            sjb_podTemplateLabels = scanJobPodTemplateLabels\<rparr> s of
                                      Inl e \<Rightarrow> Inl (Wrap ''constructing scan job'' e)
                                    | Inr (job, secrets) \<Rightarrow> Inr (owner, job, secrets))))))))"

text \<open>The loop over the containers.\<close>

fun scan_reports ::
    "'s vulnerability_Scanner \<Rightarrow> 's \<Rightarrow> Object \<Rightarrow> Object \<Rightarrow> string \<Rightarrow> (string \<times> string) list \<Rightarrow> error + Object list" where
  "scan_reports v s job owner podSpecHash [] = Inr []"
| "scan_reports v s job owner podSpecHash ((containerName, containerImage) # images) =
     (case GetLogsByJobAndContainerName (vsn_clientset v) (vsn_logs v) s job containerName of
        Inl e \<Rightarrow> Inl e
      | Inr logsStream \<Rightarrow>
          (case pl_ParseVulnerabilityReportData (vsn_plugin v) (vsn_pluginContext v) s containerImage logsStream of
             Inl e \<Rightarrow> Inl e
           | Inr result \<Rightarrow>
               (case ReportBuilder_Get (vsn_env v) (vsn_SetControllerReference v)
                       \<lparr>rb_controller = owner, rb_container = containerName, rb_hash = podSpecHash, rb_data = result,
                        rb_reportTTL = None\<rparr> of
                  Inl e \<Rightarrow> Inl e
                | Inr report \<Rightarrow>
                    (case scan_reports v s job owner podSpecHash images of
                       Inl e \<Rightarrow> Inl e | Inr reports \<Rightarrow> Inr (report # reports)))))"

definition getVulnerabilityReportsByScanJob ::
    "'s vulnerability_Scanner \<Rightarrow> Object \<Rightarrow> Object \<Rightarrow> 's \<Rightarrow> error + Object list" where
  "getVulnerabilityReportsByScanJob v job owner s =
     (case GetContainerImagesFromJob job of
        Inl e \<Rightarrow> Inl (Wrap ''getting container images'' e)
      | Inr containerImages \<Rightarrow>
          (case om_Labels (o_Meta job) LabelResourceSpecHash of
             None \<Rightarrow> Inl (Errorf (''expected label '' @ LabelResourceSpecHash @ '' not set''))
           | Some podSpecHash \<Rightarrow> scan_reports v s job owner podSpecHash (range_map (vsn_order v) containerImages)))"

definition runnable :: "'s vulnerability_Scanner \<Rightarrow> Object \<Rightarrow> Object list \<Rightarrow> 's runnableJob" where
  "runnable v job secrets = \<lparr>rj_clientset = vsn_clientset v, rj_SetOwnerReference = vsn_SetOwnerReference v, rj_job = job,
     rj_secrets = secrets\<rparr>"

definition vulnerability_Scan ::
    "'s vulnerability_Scanner \<Rightarrow> ObjectRef \<Rightarrow> 's \<Rightarrow> ((error + Object list) \<times> 's) option" where
  "vulnerability_Scan v workload s =
     (case scan_prepare v workload s of
        Inl e \<Rightarrow> Some (Inl e, s)
      | Inr (owner, job, secrets) \<Rightarrow>
          run_scan (vsn_world v) ''running scan job'' (so_DeleteScanJob (vsn_opts v)) (runnable v job secrets)
            (getVulnerabilityReportsByScanJob v job owner) s)"

section \<open>The CIS benchmark\<close>

record 's kubebench_Scanner =
  kbn_clientset :: "'s client"
  kbn_plugin :: KubeBenchPlugin
  kbn_config :: ConfigData
  kbn_opts :: ScannerOpts
  kbn_env :: env
  kbn_logs :: "'s logs"
  kbn_tolerations :: "string \<Rightarrow> error + string list"
  kbn_SetControllerReference :: owner_setter
  kbn_SetOwnerReference :: owner_setter
  kbn_world :: "'s world"

definition prepareKubeBenchJob :: "'s kubebench_Scanner \<Rightarrow> Object \<Rightarrow> error + Object" where
  "prepareKubeBenchJob v node =
     (case kbp_GetScanJobSpec (kbn_plugin v) node of
        Inl e \<Rightarrow> Inl e
      | Inr templateSpec \<Rightarrow>
          (case GetScanJobTolerations (kbn_tolerations v) (kbn_config v) of
             Inl e \<Rightarrow> Inl e
           | Inr scanJobTolerations \<Rightarrow>
               (case GetScanJobAnnotations (kbn_config v) of
                  Inl e \<Rightarrow> Inl e
                | Inr scanJobAnnotations \<Rightarrow>
                    (case GetScanJobPodTemplateLabels (kbn_config v) of
                       Inl e \<Rightarrow> Inl e
                     | Inr scanJobPodTemplateLabels \<Rightarrow>
                         (let labelsSet = [LabelResourceKind \<mapsto> KindNode, LabelResourceName \<mapsto> om_Name (o_Meta node)]
                          in Inr \<lparr>o_Kind = [],
                               o_Meta = empty_meta\<lparr>om_Name := ''scan-cisbenchmark-'' @ ComputeHash (kbn_env v) (HString (om_Name (o_Meta node))),
                                 om_Namespace := NamespaceName, om_Labels := labelsSet\<rparr>,
                               o_Body = Job \<lparr>js_BackoffLimit = 0, js_Completions = 1,
                                 js_ActiveDeadlineSeconds = GetActiveDeadlineSeconds (so_ScanJobTimeout (kbn_opts v)),
                                 js_Selector = [],
                                 js_Template = \<lparr>pt_Meta = empty_meta\<lparr>om_Labels := labelsSet ++ scanJobPodTemplateLabels,
                                     om_Annotations := scanJobAnnotations\<rparr>,
                                   pt_Spec = templateSpec\<lparr>ps_Tolerations := ps_Tolerations templateSpec @ scanJobTolerations\<rparr>\<rparr>\<rparr> []\<rparr>)))))"

definition kubebench_result :: "'s kubebench_Scanner \<Rightarrow> Object \<Rightarrow> Object \<Rightarrow> 's \<Rightarrow> error + Object" where
  "kubebench_result v node job s =
     (case GetLogsByJobAndContainerName (kbn_clientset v) (kbn_logs v) s job (kbp_GetContainerName (kbn_plugin v)) of
        Inl e \<Rightarrow> Inl (Wrap ''getting logs'' e)
      | Inr logsStream \<Rightarrow>
          (case kbp_ParseCISKubeBenchReportData (kbn_plugin v) logsStream of
             (_, Some e) \<Rightarrow> Inl e
           | (output, None) \<Rightarrow>
               (case KubeBench_BuilderGet (kbn_clientset v) (kbn_SetControllerReference v) node output of
                  Inl e \<Rightarrow> Inl (Wrap ''building report'' e)
                | Inr report \<Rightarrow> Inr report)))"

definition kubebench_Scan :: "'s kubebench_Scanner \<Rightarrow> Object \<Rightarrow> 's \<Rightarrow> ((error + Object) \<times> 's) option" where
  "kubebench_Scan v node s =
     (case prepareKubeBenchJob v node of
        Inl e \<Rightarrow> Some (Inl e, s)
      | Inr job \<Rightarrow>
          run_scan (kbn_world v) ''running kube-bench job'' (so_DeleteScanJob (kbn_opts v))
            \<lparr>rj_clientset = kbn_clientset v, rj_SetOwnerReference = kbn_SetOwnerReference v, rj_job = job, rj_secrets = []\<rparr>
            (kubebench_result v node job) s)"

section \<open>Configuration audit\<close>

record 's audit_Scanner =
  asn_client :: "'s client"
  asn_env :: env
  asn_order :: order
  asn_rego :: rego
  asn_Version :: string

definition audit_Scanner_policies :: "'s audit_Scanner \<Rightarrow> 's \<Rightarrow> error + Policies" where
  "audit_Scanner_policies v s =
     (case cl_Get (asn_client v) s TConfigMap \<lparr>key_Namespace = NamespaceName, key_Name = PoliciesConfigMapName\<rparr> of
        Inl e \<Rightarrow> Inl (Wrap (''failed getting policies from configmap: '' @ NamespaceName @ ''/'' @ PoliciesConfigMapName) e)
      | Inr cm \<Rightarrow> Inr (config_data (o_Body cm)))"

definition audit_Scan :: "'s audit_Scanner \<Rightarrow> ObjectRef \<Rightarrow> 's \<Rightarrow> error + AuditReportBuilder" where
  "audit_Scan v resourceRef s =
     (case ObjectFromObjectRef (asn_client v) s resourceRef of
        Inl e \<Rightarrow> Inl (Wrap ''failed resolving resource from ref'' e)
      | Inr resource0 \<Rightarrow>
          (case ReportOwner (asn_client v) s resource0 of
             Inl e \<Rightarrow> Inl (Wrap ''failed resolving report owner'' e)
           | Inr resource \<Rightarrow>
               (case audit_Scanner_policies v s of
                  Inl e \<Rightarrow> Inl (Wrap ''failed getting policies'' e)
                | Inr p \<Rightarrow>
                    (case Applicable (asn_order v) p resource of
                       Inl e \<Rightarrow> Inl e
                     | Inr (False, reason) \<Rightarrow> Inl (Errorf (''not applicable: '' @ reason))
                     | Inr (True, reason) \<Rightarrow>
                         (case Eval (asn_rego v) (asn_order v) p resource of
                            Inl e \<Rightarrow> Inl (Wrap ''failed evaluating policies'' e)
                          | Inr results \<Rightarrow>
                              (let checks = map check_of_result results;
                                   data = \<lparr>car_UpdateTimestamp = 0,
                                     car_Scanner = \<lparr>sc_Name = ''Starboard'', sc_Vendor = ''Aqua Security'', sc_Version = asn_Version v\<rparr>,
                                     car_Summary = ConfigAuditSummaryFromChecks checks, car_Checks = checks,
                                     car_PodChecks = checks, car_ContainerChecks = []\<rparr>
                               in case ComputeSpecHash (asn_env v) resource of
                                    Inl e \<Rightarrow> Inl (Wrap ''failed computing spec hash'' e)
                                  | Inr resourceHash \<Rightarrow>
                                      (case Hash (asn_env v) (asn_order v) p (o_Kind resource) of
                                         Inl e \<Rightarrow> Inl (Wrap ''failed computing scanner config hash'' e)
                                       | Inr scannerConfigHash \<Rightarrow>
                                           Inr \<lparr>ab_controller = resource, ab_resourceSpecHash = resourceHash,
                                                ab_pluginConfigHash = scannerConfigHash, ab_data = data\<rparr>)))))))"

section \<open>Lemmas\<close>

text \<open>The operator's controller with the parts of the scanner.\<close>

definition operator_of :: "Config \<Rightarrow> 's vulnerability_Scanner \<Rightarrow> 's WorkloadController" where
  "operator_of config v = \<lparr>wc_Config = config, wc_Client = vsn_clientset v, wc_env = vsn_env v, wc_logs = vsn_logs v,
     wc_registry = vsn_registry v, wc_order = vsn_order v, wc_Plugin = vsn_plugin v, wc_PluginContext = vsn_pluginContext v,
     wc_ConfigData = vsn_config v, wc_tolerations = vsn_tolerations v, wc_SetControllerReference = vsn_SetControllerReference v,
     wc_SetOwnerReference = vsn_SetOwnerReference v\<rparr>"

lemma scan_reports_as_operator:
  assumes "cfg_VulnerabilityScannerReportTTL config = None" and "scan_reports v s job owner hash images = Inr reports"
  shows "build_reports (operator_of config v) s job owner hash images = Inr reports"
  using assms(2)
proof (induction images arbitrary: reports)
  case (Cons ci images)
  obtain name ref where "ci = (name, ref)" by fastforce
  then show ?case using Cons assms(1) by (auto simp: operator_of_def split: sum.splits)
qed simp

lemma scan_prepareE:
  assumes "scan_prepare v workload s = Inr (owner, job, secrets)"
  obtains w b where "ObjectFromObjectRef (vsn_clientset v) s workload = Inr w" "ReportOwner (vsn_clientset v) s w = Inr owner"
    "ScanJobBuilder_Get (vsn_env v) b s = Inr (job, secrets)" "sjb_object b = owner" "sjb_plugin b = vsn_plugin v"
    "sjb_pluginContext b = vsn_pluginContext v"
  using assms by (auto simp: scan_prepare_def split: sum.splits)

lemma scan_jobs_typed:
  assumes "plugin_typed (vsn_plugin v)" and "scan_prepare v workload s = Inr (owner, job, secrets)"
  shows "go_type job = TJob" "\<forall>x \<in> set secrets. go_type x = TSecret"
proof -
  obtain b where b: "ScanJobBuilder_Get (vsn_env v) b s = Inr (job, secrets)" "sjb_plugin b = vsn_plugin v"
    using assms(2) by (elim scan_prepareE)
  show "go_type job = TJob" using b(1) by (elim scan_job_shape) simp
  show "\<forall>x \<in> set secrets. go_type x = TSecret" using ScanJobBuilder_secrets_typed [OF _ b(1)] assms(1) b(2) by simp
qed

text \<open>A successful scan: its job has run, and its reports were built from the job for the containers of the owner's pod.\<close>

lemma vulnerability_Scan_built:
  assumes "perm_order (vsn_order v)" and "vulnerability_Scan v workload s = Some (Inr reports, s')"
  obtains owner job secrets spec images s1 where "scan_prepare v workload s = Inr (owner, job, secrets)"
    "runnableJob_Run (vsn_world v) (runnable v job secrets) s = Some (None, s1)" "GetPodSpec owner = Inr spec"
    "ObjectRefFromObjectMeta (o_Meta job) = Inr (ref_of owner)" "GetContainerImagesFromJob job = Inr images" "distinct (map fst images)"
    "fst ` set images = fst ` set (GetContainerImagesFromPodSpec spec)"
    "scan_reports v s1 job owner (ComputeHash (vsn_env v) (HPodSpec spec)) (range_map (vsn_order v) images) = Inr reports"
proof -
  obtain owner job secrets where p: "scan_prepare v workload s = Inr (owner, job, secrets)"
    and run: "run_scan (vsn_world v) ''running scan job'' (so_DeleteScanJob (vsn_opts v)) (runnable v job secrets)
      (getVulnerabilityReportsByScanJob v job owner) s = Some (Inr reports, s')"
    using assms(2) by (auto simp: vulnerability_Scan_def split: sum.splits)
  obtain b where b: "ScanJobBuilder_Get (vsn_env v) b s = Inr (job, secrets)" "sjb_object b = owner" using p by (elim scan_prepareE)
  obtain s1 where s1: "runnableJob_Run (vsn_world v) (runnable v job secrets) s = Some (None, s1)"
    "getVulnerabilityReportsByScanJob v job owner s1 = Inr reports"
    using run by (elim run_scan_ok)
  obtain spec where spec: "GetPodSpec owner = Inr spec" using b by (auto elim: scan_job_shape)
  from scan_job_metadata [OF b(1)] spec b(2) obtain images where
    ref: "ObjectRefFromObjectMeta (o_Meta job) = Inr (ref_of owner)" and
    im: "GetContainerImagesFromJob job = Inr images" "distinct (map fst images)" "map_of images = map_of (GetContainerImagesFromPodSpec spec)" and
    h: "om_Labels (o_Meta job) LabelResourceSpecHash = Some (ComputeHash (vsn_env v) (HPodSpec spec))"
    by auto
  have "fst ` set images = fst ` set (GetContainerImagesFromPodSpec spec)" using im(3) by (metis dom_map_of_conv_image_fst)
  then show thesis using that [OF p s1(1) spec ref im(1,2)] s1(2) im(1) h by (simp add: getVulnerabilityReportsByScanJob_def)
qed

lemma scan_reports_containers:
  assumes "perm_order (vsn_order v)" and "distinct (map fst images)"
    and "scan_reports v s job owner hash (range_map (vsn_order v) images) = Inr reports"
  shows "distinct (map (report_container hash) reports)" "set (map (report_container hash) reports) = Some ` fst ` set images"
    "x \<in> set reports \<Longrightarrow> \<exists>b. ReportBuilder_Get (vsn_env v) (vsn_SetControllerReference v) b = Inr x \<and> rb_controller b = owner"
proof -
  have "cfg_VulnerabilityScannerReportTTL default_Config = None" by (simp add: default_Config_def)
  note built = scan_reports_as_operator [OF this assms(3)]
  have c: "map (report_container hash) reports = map (\<lambda>ci. Some (fst ci)) (range_map (vsn_order v) images)"
    by (rule build_reports_container(1) [OF built])
  show "distinct (map (report_container hash) reports)"
    using range_map_distinct [OF assms(1,2)] by (simp add: c distinct_map inj_on_def)
  show "set (map (report_container hash) reports) = Some ` fst ` set images"
    using range_map_set [OF assms(1,2)] by (simp add: c image_image)
  show "x \<in> set reports \<Longrightarrow> \<exists>b. ReportBuilder_Get (vsn_env v) (vsn_SetControllerReference v) b = Inr x \<and> rb_controller b = owner"
    using build_reports_container(2) [OF built] by (simp add: operator_of_def)
qed

section \<open>Properties\<close>

text \<open>
  C18. A scan from the command line finds what the operator finds: if it succeeds, it scanned the workload's owner (the
  replica set behind a deployment, the cron job behind a job), its job ran to completion, and its reports are exactly those that
  the controller of an operator without a time-to-live for reports builds from this job, with one report for each container of the owner's pod.
\<close>

theorem cli_scan_agrees_with_operator:
  assumes "perm_order (vsn_order v)" and "cfg_VulnerabilityScannerReportTTL config = None"
    and "vulnerability_Scan v workload s = Some (Inr reports, s')"
  shows "\<exists>w owner spec job secrets images s1.
    ObjectFromObjectRef (vsn_clientset v) s workload = Inr w \<and> ReportOwner (vsn_clientset v) s w = Inr owner \<and>
    GetPodSpec owner = Inr spec \<and> runnableJob_Run (vsn_world v) (runnable v job secrets) s = Some (None, s1) \<and>
    ObjectRefFromObjectMeta (o_Meta job) = Inr (ref_of owner) \<and> GetContainerImagesFromJob job = Inr images \<and>
    build_reports (operator_of config v) s1 job owner (ComputeHash (vsn_env v) (HPodSpec spec)) (range_map (vsn_order v) images) = Inr reports \<and>
    distinct (map (report_container (ComputeHash (vsn_env v) (HPodSpec spec))) reports) \<and>
    set (map (report_container (ComputeHash (vsn_env v) (HPodSpec spec))) reports) = Some ` fst ` set (GetContainerImagesFromPodSpec spec)"
proof -
  obtain owner job secrets spec images s1 where p: "scan_prepare v workload s = Inr (owner, job, secrets)"
    and run: "runnableJob_Run (vsn_world v) (runnable v job secrets) s = Some (None, s1)" and spec: "GetPodSpec owner = Inr spec"
    and ref: "ObjectRefFromObjectMeta (o_Meta job) = Inr (ref_of owner)"
    and im: "GetContainerImagesFromJob job = Inr images" "distinct (map fst images)"
      "fst ` set images = fst ` set (GetContainerImagesFromPodSpec spec)"
    and sr: "scan_reports v s1 job owner (ComputeHash (vsn_env v) (HPodSpec spec)) (range_map (vsn_order v) images) = Inr reports"
    by (rule vulnerability_Scan_built [OF assms(1,3)])
  obtain w where w: "ObjectFromObjectRef (vsn_clientset v) s workload = Inr w" "ReportOwner (vsn_clientset v) s w = Inr owner"
    using p by (elim scan_prepareE)
  note built = scan_reports_as_operator [OF assms(2) sr]
    and containers = scan_reports_containers(1,2) [OF assms(1) im(2) sr, unfolded im(3)]
  show ?thesis using w spec run ref im(1) built containers by blast
qed

text \<open>A scanner in a cluster whose job controller reports the given condition for each new job, once its pod is there.\<close>

definition sample_scanner :: "JobConditionType \<Rightarrow> Object list vulnerability_Scanner" where
  "sample_scanner t = \<lparr>vsn_clientset = mem_client, vsn_plugin = sample_plugin, vsn_pluginContext = sample_context,
     vsn_config = Map.empty, vsn_opts = \<lparr>so_ScanJobTimeout = 300 * Second, so_DeleteScanJob = True\<rparr>, vsn_env = sample_env,
     vsn_logs = (\<lambda>_ _ _. Inr ''log''), vsn_registry = (\<lambda>_. Inr ''index.docker.io''), vsn_order = rev,
     vsn_tolerations = (\<lambda>_. Inr []), vsn_SetControllerReference = (\<lambda>_ _. Inr []), vsn_SetOwnerReference = (\<lambda>_ _. Inr []),
     vsn_world = (\<lambda>s job. [(EventAdded (om_UID (o_Meta job)) ''Normal'' [] [], s),
       (JobUpdated (om_UID (o_Meta job)) [\<lparr>jc_Type = t, jc_Reason = ''r'', jc_Message = ''m''\<rparr>], sample_job_pod # s)])\<rparr>"

lemma sample_prepare:
  assumes "mem_Get s TPod \<lparr>key_Namespace = ''prod'', key_Name = ''web''\<rparr> = Inr sample_pod"
    and "mem_Get s TServiceAccount \<lparr>key_Namespace = ''prod'', key_Name = ''default''\<rparr> = Inr sample_account"
  shows "scan_prepare (sample_scanner t) (ref_of sample_pod) s = Inr (sample_pod, sample_job, [])"
proof -
  have owner: "ReportOwner mem_client s sample_pod = Inr sample_pod"
    using sample_fields(9) by (simp add: ReportOwner_def sample_pod_def)
  have "ScanJobBuilder_Get sample_env \<lparr>sjb_plugin = sample_plugin, sjb_pluginContext = sample_context,
      sjb_timeout = 300 * Second, sjb_object = sample_pod, sjb_credentials = [], sjb_tolerations = [],
      sjb_annotations = Map.empty, sjb_podTemplateLabels = Map.empty\<rparr> s = Inr (sample_job, [])"
    using sample_job_built [of s] by (simp add: sample_builder_def)
  then show ?thesis
    by (simp add: scan_prepare_def sample_scanner_def sample_own [OF assms(1)] owner sample_credentials [OF assms(2)]
        GetScanJobTolerations_def GetScanJobAnnotations_def GetScanJobPodTemplateLabels_def parse_pairs_def)
qed

definition sample_cluster :: "Object list" where
  "sample_cluster = [sample_pod, sample_account]"

lemma sample_cluster_reads:
  "mem_Get (sample_job_pod # sample_job # sample_cluster) TPod \<lparr>key_Namespace = ''prod'', key_Name = ''web''\<rparr> = Inr sample_pod"
  "mem_Get (sample_job_pod # sample_job # sample_cluster) TServiceAccount \<lparr>key_Namespace = ''prod'', key_Name = ''default''\<rparr> = Inr sample_account"
  "mem_Get sample_cluster TPod \<lparr>key_Namespace = ''prod'', key_Name = ''web''\<rparr> = Inr sample_pod"
  "mem_Get sample_cluster TServiceAccount \<lparr>key_Namespace = ''prod'', key_Name = ''default''\<rparr> = Inr sample_account"
  "mem_Get (sample_job_pod # sample_job # sample_cluster) TJob (key_of sample_job) = Inr sample_job"
  using sample_job_meta(1)
  by (simp_all add: sample_cluster_def mem_Get_Cons sample_fields) (simp_all add: key_of_def sample_pod_def sample_account_def sample_job_pod_def)

lemma sample_run:
  "runnableJob_Run (vsn_world (sample_scanner t)) (runnable (sample_scanner t) sample_job []) sample_cluster =
     (case t of JobComplete \<Rightarrow> Some (None, sample_job_pod # sample_job # sample_cluster)
      | JobFailed \<Rightarrow> Some (Some (Errorf ''job failed: r: m''), sample_job_pod # sample_job # sample_cluster)
      | JobOther _ \<Rightarrow> None)"
proof -
  have "create_in mem_client (om_Namespace (o_Meta sample_job)) sample_cluster sample_job = (Inr sample_job, sample_job # sample_cluster)"
    using sample_job_meta(1) by (simp add: create_in_def set_namespace_same mem_Create_def sample_cluster_def same_id_def sample_fields)
  then show ?thesis
    by (auto simp: runnableJob_Run_def Let_def runnable_def sample_scanner_def EventTypeWarning_def split: JobConditionType.splits)
qed

lemma sample_scan:
  "\<exists>x s'. vulnerability_Scan (sample_scanner JobComplete) (ref_of sample_pod) sample_cluster = Some (Inr [x], s') \<and> go_type x = TVulnerabilityReport"
proof -
  let ?v = "sample_scanner JobComplete" and ?s1 = "sample_job_pod # sample_job # sample_cluster"
  have c: "vsn_clientset ?v = mem_client" "vsn_env ?v = sample_env" "vsn_order ?v = rev" by (simp_all add: sample_scanner_def)
  let ?h = "ComputeHash sample_env (HPodSpec sample_podspec)"
  have pod: "getPodByJob mem_client ?s1 sample_job = Inr (Some sample_job_pod)"
    using sample_job_meta sample_cluster_reads(5)
    by (simp add: getPodByJob_def mem_List_def sample_cluster_def selected_def same_id_def sample_fields Let_def)
       (simp add: sample_pod_def sample_account_def sample_job_pod_def mget_def)
  obtain x where x: "ReportBuilder_Get sample_env (\<lambda>_ _. Inr [])
      \<lparr>rb_controller = sample_pod, rb_container = ''nginx'', rb_hash = ?h, rb_data = sample_data, rb_reportTTL = None\<rparr> = Inr x"
    by (simp add: ReportBuilder_Get_def Let_def)
  have get: "getVulnerabilityReportsByScanJob ?v sample_job sample_pod ?s1 = Inr [x]"
    using x by (simp add: getVulnerabilityReportsByScanJob_def sample_job_recovers c GetLogsByJobAndContainerName_def pod)
       (simp add: sample_scanner_def sample_plugin_def GetLogsByJobAndContainerName_def pod)
  have "\<exists>s'. vulnerability_Scan ?v (ref_of sample_pod) sample_cluster = Some (Inr [x], s')"
    using sample_run [of JobComplete]
    by (simp add: vulnerability_Scan_def sample_prepare [OF sample_cluster_reads(3,4)] run_scan_def runner_Run_def get)
  then show ?thesis using ReportBuilder_Get_meta(1) [OF x] by blast
qed

theorem cli_scan_agrees_with_operator_witness:
  "\<exists>reports s'. vulnerability_Scan (sample_scanner JobComplete) (ref_of sample_pod) sample_cluster = Some (Inr reports, s') \<and>
     (\<exists>h. set (map (report_container h) reports) = {Some ''nginx''})"
proof -
  let ?v = "sample_scanner JobComplete"
  have c: "vsn_clientset ?v = mem_client" "vsn_env ?v = sample_env" "vsn_order ?v = rev" by (simp_all add: sample_scanner_def)
  obtain x s' where scan: "vulnerability_Scan ?v (ref_of sample_pod) sample_cluster = Some (Inr [x], s')" using sample_scan by blast
  obtain w owner spec where "ObjectFromObjectRef mem_client sample_cluster (ref_of sample_pod) = Inr w"
    "ReportOwner mem_client sample_cluster w = Inr owner" "GetPodSpec owner = Inr spec"
    "set (map (report_container (ComputeHash sample_env (HPodSpec spec))) [x]) = Some ` fst ` set (GetContainerImagesFromPodSpec spec)"
    using cli_scan_agrees_with_operator [OF _ _ scan, of sample_config] by (auto simp: c sample_config_def default_Config_def)
  moreover have "ReportOwner mem_client sample_cluster sample_pod = Inr sample_pod"
    using sample_fields(9) by (simp add: ReportOwner_def sample_pod_def)
  ultimately show ?thesis
    using scan sample_own [OF sample_cluster_reads(3)] by (intro exI [of _ "[x]"] exI [of _ s']) (auto simp: sample_fields)
qed

text \<open>
  C38. A scan whose job fails blocks the scans after it: the job is deleted only after a successful run, so even with the
  option to delete scan jobs it stays in the cluster, and the next scan of the workload fails because the job already exists.
\<close>

theorem failed_scan_blocks_next:
  assumes "api_laws (vsn_clientset v)" and "plugin_typed (vsn_plugin v)" and "so_DeleteScanJob (vsn_opts v)"
    and "scan_prepare v workload s = Inr (owner, job, secrets)"
    and "runnableJob_Run (vsn_world v) (runnable v job secrets) s = Some (Some e, s')"
    and "cl_Get (vsn_clientset v) s' TJob (key_of job) = Inr j"
    and "scan_prepare v workload s' = Inr (owner, job, secrets)"
  shows "vulnerability_Scan v workload s = Some (Inl (Wrap ''running scan job'' e), s') \<and>
    (\<exists>e' s''. vulnerability_Scan v workload s' = Some (Inl (Wrap ''running scan job'' e'), s''))"
proof -
  have "rj_clientset (runnable v job secrets) = vsn_clientset v" "rj_job (runnable v job secrets) = job"
    "rj_secrets (runnable v job secrets) = secrets"
    by (simp_all add: runnable_def)
  then obtain e' s'' where "runnableJob_Run (vsn_world v) (runnable v job secrets) s' = Some (Some e', s'')"
    using existing_job_not_run [of "runnable v job secrets" s' j "vsn_world v"] scan_jobs_typed [OF assms(2,4)] assms(1,6) by auto
  then show ?thesis using assms(4,5,7) by (simp add: vulnerability_Scan_def run_scan_failed_run)
qed

theorem failed_scan_blocks_next_witness:
  "\<exists>s' e s''. vulnerability_Scan (sample_scanner JobFailed) (ref_of sample_pod) sample_cluster =
       Some (Inl (Wrap ''running scan job'' (Errorf ''job failed: r: m'')), s') \<and>
     vulnerability_Scan (sample_scanner JobFailed) (ref_of sample_pod) s' = Some (Inl (Wrap ''running scan job'' e), s'')"
proof -
  let ?v = "sample_scanner JobFailed"
  have "vsn_clientset ?v = mem_client" "plugin_typed (vsn_plugin ?v)" "so_DeleteScanJob (vsn_opts ?v)"
    by (simp_all add: sample_scanner_def plugin_typed_def sample_plugin_def)
  from failed_scan_blocks_next [OF _ this(2,3) sample_prepare [OF sample_cluster_reads(3,4)] sample_run [of JobFailed, simplified] _
      sample_prepare [OF sample_cluster_reads(1,2)]] this(1)
  show ?thesis using mem_laws sample_cluster_reads(5) by auto
qed

text \<open>The operator's controller with the parts of the scanner, in the namespace of the command line tool.\<close>

definition auditor_of :: "Config \<Rightarrow> owner_setter \<Rightarrow> 's audit_Scanner \<Rightarrow> 's ResourceController" where
  "auditor_of config scr v = \<lparr>rc_Config = config, rc_Client = asn_client v, rc_env = asn_env v, rc_order = asn_order v,
     rc_rego = asn_rego v, rc_SetControllerReference = scr, rc_Version = asn_Version v\<rparr>"

text \<open>
  C19. The configuration audit of the command line and that of the operator agree: for a resource that is its own report owner and
  that the operator does not skip, the operator, running in the tool's namespace, stores exactly the report that the scan has built, unless
  a report with the same two hashes is there already.
\<close>

theorem cli_audit_agrees_with_operator:
  assumes "api_laws (asn_client v)" and "law_scheme (asn_client v)" and "cfg_Namespace config = NamespaceName"
    and "ObjectFromObjectRef (asn_client v) s (ObjectRefFromKindAndObjectKey kind req) = Inr resource"
    and "ReportOwner (asn_client v) s resource = Inr resource" and "\<not> skip_resource kind resource"
    and "audit_Scan v (ObjectRefFromKindAndObjectKey kind req) s = Inr b"
  shows "reconcileResource (auditor_of config scr v) kind req s =
    (case hasReport (asn_env v) (asn_client v) s (ref_of resource) (ab_resourceSpecHash b) (ab_pluginConfigHash b) of
       Inl e \<Rightarrow> (Inl (Wrap ''checking whether configuration audit report exists'' e), s)
     | Inr True \<Rightarrow> (Inr no_requeue, s)
     | Inr False \<Rightarrow> finish (AuditReportBuilder_Write (asn_env v) scr (asn_client v) b s))"
proof -
  have ref: "ObjectRefFromKindAndObjectKey kind req = ref_of resource"
    using ObjectFromObjectRef_ref [OF assms(1,2,4)] by simp
  have kind: "o_Kind resource = kind" using ref by (auto simp: ObjectRefFromKindAndObjectKey_def ref_of_def)
  have sel: "rc_Client (auditor_of config scr v) = asn_client v" "rc_env (auditor_of config scr v) = asn_env v"
    "rc_order (auditor_of config scr v) = asn_order v" "rc_rego (auditor_of config scr v) = asn_rego v"
    "rc_Version (auditor_of config scr v) = asn_Version v" "rc_SetControllerReference (auditor_of config scr v) = scr"
    "cfg_Namespace (rc_Config (auditor_of config scr v)) = NamespaceName"
    by (simp_all add: auditor_of_def assms(3))
  from assms(7) obtain p reason results resourceHash configHash where
    p: "audit_Scanner_policies v s = Inr p" "Applicable (asn_order v) p resource = Inr (True, reason)"
      "Eval (asn_rego v) (asn_order v) p resource = Inr results" "ComputeSpecHash (asn_env v) resource = Inr resourceHash"
      "Hash (asn_env v) (asn_order v) p kind = Inr configHash" and
    b: "ab_controller b = resource" "ab_resourceSpecHash b = resourceHash" "ab_pluginConfigHash b = configHash"
      "evaluate (auditor_of config scr v) p resource = Inr (ab_data b)"
    using assms(4,5) by (auto simp: audit_Scan_def Let_def evaluate_def sel kind split: sum.splits bool.splits)
  have "policies (auditor_of config scr v) s = Inr p"
    using p(1) by (auto simp: policies_def audit_Scanner_policies_def sel split: sum.splits)
  moreover have "\<lparr>ab_controller = resource, ab_resourceSpecHash = resourceHash, ab_pluginConfigHash = configHash, ab_data = ab_data b\<rparr> = b"
    using b by (cases b) simp
  ultimately show ?thesis
    using assms(4,6) p b(2-4) by (simp add: reconcileResource_def Let_def sel ref split: sum.split bool.split)
qed

definition sample_audit_scanner :: "Object list audit_Scanner" where
  "sample_audit_scanner = \<lparr>asn_client = mem_client, asn_env = sample_env, asn_order = (\<lambda>ks. ks), asn_rego = sample_rego,
     asn_Version = ''0.15.4''\<rparr>"

theorem cli_audit_agrees_with_operator_witness:
  "\<exists>b. audit_Scan sample_audit_scanner (ref_of sample_pod) [sample_policies_map, sample_pod] = Inr b \<and>
     reconcileResource (auditor_of sample_config (\<lambda>_ _. Inr []) sample_audit_scanner) KindPod
       \<lparr>key_Namespace = ''prod'', key_Name = ''web''\<rparr> [sample_policies_map, sample_pod] =
     finish (AuditReportBuilder_Write sample_env (\<lambda>_ _. Inr []) mem_client b [sample_policies_map, sample_pod])"
proof -
  let ?v = sample_audit_scanner and ?s = "[sample_policies_map, sample_pod]" and ?req = "\<lparr>key_Namespace = ''prod'', key_Name = ''web''\<rparr>"
  have v: "asn_client ?v = mem_client" "asn_env ?v = sample_env" "asn_order ?v = (\<lambda>ks. ks)" "asn_rego ?v = sample_rego"
    by (simp_all add: sample_audit_scanner_def)
  have ref: "ObjectRefFromKindAndObjectKey KindPod ?req = ref_of sample_pod"
    by (simp add: ObjectRefFromKindAndObjectKey_def ref_of_def sample_pod_def)
  note own = sample_audit(1) [unfolded ref]
  have owner: "ReportOwner mem_client ?s sample_pod = Inr sample_pod" using sample_fields(9) by (simp add: ReportOwner_def sample_pod_def)
  have pol: "audit_Scanner_policies ?v ?s = Inr sample_policies"
    by (simp add: audit_Scanner_policies_def v mem_Get_def key_of_def sample_policies_map_def label_simps)
  obtain h ph where h: "ComputeSpecHash sample_env sample_pod = Inr h" "Hash sample_env (\<lambda>ks. ks) sample_policies (o_Kind sample_pod) = Inr ph"
    using sample_audit(4,5,7) by (auto simp: kube_simps)
  obtain b where b: "audit_Scan ?v (ref_of sample_pod) ?s = Inr b" "ab_resourceSpecHash b = h" "ab_pluginConfigHash b = ph"
    using sample_eval [OF sample_audit(7)]
    by (simp add: audit_Scan_def v own owner pol sample_audit(3) h Let_def)
  have "cfg_Namespace sample_config = NamespaceName" by (simp add: sample_config_def label_simps)
  from cli_audit_agrees_with_operator [of ?v, unfolded v, OF mem_laws mem_scheme this sample_audit(1) owner sample_audit(2) b(1) [folded ref]]
  show ?thesis using b sample_audit(6) [unfolded ref] by auto
qed

end
