(* ===== verification/Kube_Hunter.thy ===== *)
theory Kube_Hunter
  imports Cli_Scanners Aqua
begin

text \<open>
  kube-hunter, which probes the whole cluster (\<^verbatim>\<open>pkg/kubehunter\<close>): the job that runs it, the reading of its output with the
  counts by severity (\<^verbatim>\<open>model.go\<close>), the scanner (\<^verbatim>\<open>scanner.go\<close>) and the storing of the single report (\<^verbatim>\<open>writer.go\<close>). The
  comparison of versions is that of \<^verbatim>\<open>go-version\<close>, a parameter, like the decoder of time stamps.
\<close>

section \<open>The output\<close>

definition zero_KubeHunterSummary :: KubeHunterSummary where
  "zero_KubeHunterSummary = \<lparr>khs_HighCount = 0, khs_MediumCount = 0, khs_LowCount = 0, khs_UnknownCount = 0\<rparr>"

definition count_hunted :: "KubeHunterSummary \<Rightarrow> KubeHunterVulnerability \<Rightarrow> KubeHunterSummary" where
  "count_hunted summary v =
     (if khv_Severity v = KubeHunterSeverityHigh then summary\<lparr>khs_HighCount := khs_HighCount summary + 1\<rparr>
      else if khv_Severity v = KubeHunterSeverityMedium then summary\<lparr>khs_MediumCount := khs_MediumCount summary + 1\<rparr>
      else if khv_Severity v = KubeHunterSeverityLow then summary\<lparr>khs_LowCount := khs_LowCount summary + 1\<rparr>
      else summary\<lparr>khs_UnknownCount := khs_UnknownCount summary + 1\<rparr>)"

definition hunter_toSummary :: "KubeHunterVulnerability list \<Rightarrow> KubeHunterSummary" where
  "hunter_toSummary vulnerabilities = foldl count_hunted zero_KubeHunterSummary vulnerabilities"

definition KubeHunterSummary_members :: "(string \<times> KubeHunterSummary setter) list" where
  "KubeHunterSummary_members = [(''highcount'', int_field (\<lambda>x. khs_HighCount_update (\<lambda>_. x))),
     (''mediumcount'', int_field (\<lambda>x. khs_MediumCount_update (\<lambda>_. x))),
     (''lowcount'', int_field (\<lambda>x. khs_LowCount_update (\<lambda>_. x))),
     (''unknowncount'', int_field (\<lambda>x. khs_UnknownCount_update (\<lambda>_. x)))]"

definition KubeHunterVulnerability_members :: "(string \<times> KubeHunterVulnerability setter) list" where
  "KubeHunterVulnerability_members = [(''location'', string_field (\<lambda>x. khv_Location_update (\<lambda>_. x))),
     (''vid'', string_field (\<lambda>x. khv_ID_update (\<lambda>_. x))), (''category'', string_field (\<lambda>x. khv_Category_update (\<lambda>_. x))),
     (''severity'', string_field (\<lambda>x. khv_Severity_update (\<lambda>_. x))),
     (''vulnerability'', string_field (\<lambda>x. khv_Vulnerability_update (\<lambda>_. x))),
     (''description'', string_field (\<lambda>x. khv_Description_update (\<lambda>_. x))),
     (''evidence'', string_field (\<lambda>x. khv_Evidence_update (\<lambda>_. x))), (''hunter'', string_field (\<lambda>x. khv_Hunter_update (\<lambda>_. x))),
     (''avd_reference'', string_field (\<lambda>x. khv_AvdReference_update (\<lambda>_. x)))]"

definition zero_KubeHunterVulnerability :: KubeHunterVulnerability where
  "zero_KubeHunterVulnerability = \<lparr>khv_Location = [], khv_ID = [], khv_Category = [], khv_Severity = [], khv_Vulnerability = [],
     khv_Description = [], khv_Evidence = [], khv_Hunter = [], khv_AvdReference = []\<rparr>"

definition KubeHunterReportData_members :: "Time setter \<Rightarrow> (string \<times> KubeHunterReportData setter) list" where
  "KubeHunterReportData_members decode_Time =
     [(''updatetimestamp'', struct_field khr_UpdateTimestamp (\<lambda>x. khr_UpdateTimestamp_update (\<lambda>_. x)) decode_Time),
      (''scanner'', struct_field khr_Scanner (\<lambda>x. khr_Scanner_update (\<lambda>_. x)) (decode_struct Scanner_members)),
      (''summary'', struct_field khr_Summary (\<lambda>x. khr_Summary_update (\<lambda>_. x)) (decode_struct KubeHunterSummary_members)),
      (''vulnerabilities'', list_field khr_Vulnerabilities (\<lambda>x. khr_Vulnerabilities_update (\<lambda>_. x))
         (decode_struct KubeHunterVulnerability_members) zero_KubeHunterVulnerability)]"

definition OutputFrom ::
    "Time setter \<Rightarrow> (string \<Rightarrow> error + ImageRef) \<Rightarrow> Time \<Rightarrow> ConfigData \<Rightarrow> string \<Rightarrow> error + KubeHunterReportData" where
  "OutputFrom decode_Time ParseReference now config reader =
     (case GetKubeHunterImageRef config of
        Inl e \<Rightarrow> Inl e
      | Inr imageRef \<Rightarrow>
          (case GetVersionFromImageRef ParseReference imageRef of
             Inl e \<Rightarrow> Inl e
           | Inr version \<Rightarrow>
               (case Decode_first (decode_struct (KubeHunterReportData_members decode_Time))
                       \<lparr>khr_UpdateTimestamp = now,
                        khr_Scanner = \<lparr>sc_Name = ''kube-hunter'', sc_Vendor = ''Aqua Security'', sc_Version = version\<rparr>,
                        khr_Summary = zero_KubeHunterSummary, khr_Vulnerabilities = []\<rparr> reader of
                  Inl e \<Rightarrow> Inl e
                | Inr report \<Rightarrow> Inr (report\<lparr>khr_Summary := hunter_toSummary (khr_Vulnerabilities report)\<rparr>))))"

section \<open>The scanner\<close>

record ('s, 'v) kubehunter_Scanner =
  khn_clientset :: "'s client"
  khn_opts :: ScannerOpts
  khn_config :: ConfigData
  khn_env :: env
  khn_logs :: "'s logs"
  khn_tolerations :: "string \<Rightarrow> error + string list"
  khn_ParseReference :: "string \<Rightarrow> error + ImageRef"
  khn_NewVersion :: "string \<Rightarrow> error + 'v"
  khn_GreaterThanOrEqual :: "'v \<Rightarrow> 'v \<Rightarrow> bool"
  khn_decode_Time :: "Time setter"
  khn_Now :: Time
  khn_SetOwnerReference :: owner_setter
  khn_world :: "'s world"

definition kubeHunterContainerName :: string where "kubeHunterContainerName = ''kube-hunter''"

definition isAtLeast :: "('s, 'v) kubehunter_Scanner \<Rightarrow> string \<Rightarrow> string \<Rightarrow> bool" where
  "isAtLeast h ver targetVer =
     (case khn_NewVersion h ver of
        Inl _ \<Rightarrow> False
      | Inr v \<Rightarrow> (case khn_NewVersion h targetVer of Inl _ \<Rightarrow> False | Inr tv \<Rightarrow> khn_GreaterThanOrEqual h v tv))"

definition hunter_contexts :: "bool \<Rightarrow> PodSecurityContext option \<times> SecurityContext option" where
  "hunter_contexts restricted =
     (if restricted
      then (Some \<lparr>psx_RunAsUser = Some 0, psx_RunAsGroup = Some 0, psx_SeccompProfile = Some ''RuntimeDefault''\<rparr>,
            Some \<lparr>sx_Privileged = Some False, sx_AllowPrivilegeEscalation = Some False, sx_AddCapabilities = [''NET_RAW''],
                  sx_DropCapabilities = [''all''], sx_ReadOnlyRootFilesystem = Some False, sx_RunAsUser = None\<rparr>)
      else (None, None))"

definition prepareKubeHunterJob :: "('s, 'v) kubehunter_Scanner \<Rightarrow> error + Object" where
  "prepareKubeHunterJob h =
     (case GetKubeHunterImageRef (khn_config h) of
        Inl e \<Rightarrow> Inl e
      | Inr imageRef \<Rightarrow>
          (case GetKubeHunterQuick (khn_config h) of
             Inl e \<Rightarrow> Inl e
           | Inr quick \<Rightarrow>
               (let kubeHunterArgs = [''--pod'', ''--report'', ''json'', ''--log'', ''none''] @ (if quick then [''--quick''] else []) in
                case GetScanJobTolerations (khn_tolerations h) (khn_config h) of
                  Inl e \<Rightarrow> Inl e
                | Inr scanJobTolerations \<Rightarrow>
                    (case GetScanJobAnnotations (khn_config h) of
                       Inl e \<Rightarrow> Inl e
                     | Inr scanJobAnnotations \<Rightarrow>
                         (case GetScanJobPodTemplateLabels (khn_config h) of
                            Inl e \<Rightarrow> Inl e
                          | Inr scanJobPodTemplateLabels \<Rightarrow>
                              (case GetVersionFromImageRef (khn_ParseReference h) imageRef of
                                 Inl e \<Rightarrow> Inl e
                               | Inr ver \<Rightarrow>
                                   (let (podSecurityContext, containerSecurityContext) =
                                          hunter_contexts (isAtLeast h ver ''0.4.1'' \<or> ver = ''latest'')
                                    in Inr \<lparr>o_Kind = [],
                                         o_Meta = empty_meta\<lparr>om_Name := ''scan-kubehunterreports-'' @ ComputeHash (khn_env h) (HString ''cluster''),
                                           om_Namespace := NamespaceName\<rparr>,
                                         o_Body = Job \<lparr>js_BackoffLimit = 0, js_Completions = 1,
                                           js_ActiveDeadlineSeconds = GetActiveDeadlineSeconds (so_ScanJobTimeout (khn_opts h)),
                                           js_Selector = [],
                                           js_Template = \<lparr>pt_Meta = empty_meta\<lparr>om_Annotations := scanJobAnnotations,
                                               om_Labels := scanJobPodTemplateLabels\<rparr>,
                                             pt_Spec = empty_PodSpec\<lparr>ps_ServiceAccountName := ServiceAccountName,
                                               ps_RestartPolicy := ''Never'', ps_HostPID := True, ps_Affinity := LinuxNodeAffinity,
                                               ps_Tolerations := scanJobTolerations, ps_SecurityContext := podSecurityContext,
                                               ps_Containers := [empty_Container\<lparr>co_Name := kubeHunterContainerName,
                                                 co_Image := imageRef, co_ImagePullPolicy := ''IfNotPresent'',
                                                 co_TerminationMessagePolicy := ''FallbackToLogsOnError'', co_Args := kubeHunterArgs,
                                                 co_SecurityContext := containerSecurityContext,
                                                 co_Resources := \<lparr>rr_Requests = [''cpu'' \<mapsto> ''50m'', ''memory'' \<mapsto> ''100M''],
                                                   rr_Limits = [''cpu'' \<mapsto> ''300m'', ''memory'' \<mapsto> ''400M'']\<rparr>\<rparr>]\<rparr>\<rparr>\<rparr> []\<rparr>)))))))"

definition hunter_result :: "('s, 'v) kubehunter_Scanner \<Rightarrow> Object \<Rightarrow> 's \<Rightarrow> error + KubeHunterReportData" where
  "hunter_result h job s =
     (case GetLogsByJobAndContainerName (khn_clientset h) (khn_logs h) s job kubeHunterContainerName of
        Inl e \<Rightarrow> Inl (Wrap ''getting logs'' e)
      | Inr logsStream \<Rightarrow> OutputFrom (khn_decode_Time h) (khn_ParseReference h) (khn_Now h) (khn_config h) logsStream)"

definition kubehunter_Scan :: "('s, 'v) kubehunter_Scanner \<Rightarrow> 's \<Rightarrow> ((error + KubeHunterReportData) \<times> 's) option" where
  "kubehunter_Scan h s =
     (case prepareKubeHunterJob h of
        Inl e \<Rightarrow> Some (Inl e, s)
      | Inr job \<Rightarrow>
          run_scan (khn_world h) ''running kube-hunter job'' (so_DeleteScanJob (khn_opts h))
            \<lparr>rj_clientset = khn_clientset h, rj_SetOwnerReference = khn_SetOwnerReference h, rj_job = job, rj_secrets = []\<rparr>
            (hunter_result h job) s)"

section \<open>The writer\<close>

definition kubehunter_Write :: "'s client \<Rightarrow> KubeHunterReportData \<Rightarrow> string \<Rightarrow> 's \<Rightarrow> error option \<times> 's" where
  "kubehunter_Write c report cluster s =
     (if TrimSpace cluster = [] then (Some (Errorf ''cluster name must not be blank''), s)
      else
        case cl_Create c s \<lparr>o_Kind = [], o_Meta = empty_meta\<lparr>om_Name := cluster,
               om_Labels := [LabelResourceKind \<mapsto> ''Cluster'', LabelResourceName \<mapsto> cluster]\<rparr>,
               o_Body = KubeHunterReport report\<rparr> of
          (Inr _, s1) \<Rightarrow> (None, s1)
        | (Inl err, s1) \<Rightarrow>
            if IsAlreadyExists err
            then (case cl_Get c s1 TKubeHunterReport \<lparr>key_Namespace = [], key_Name = cluster\<rparr> of
                    Inl e \<Rightarrow> (Some e, s1)
                  | Inr found \<Rightarrow> cl_Update c s1 (found\<lparr>o_Body := KubeHunterReport report\<rparr>))
            else (Some err, s1))"

section \<open>Lemmas\<close>

lemma hunter_summary_exact:
  "hunter_toSummary vs = \<lparr>khs_HighCount = int (length (filter (\<lambda>v. khv_Severity v = KubeHunterSeverityHigh) vs)),
     khs_MediumCount = int (length (filter (\<lambda>v. khv_Severity v = KubeHunterSeverityMedium) vs)),
     khs_LowCount = int (length (filter (\<lambda>v. khv_Severity v = KubeHunterSeverityLow) vs)),
     khs_UnknownCount = int (length (filter (\<lambda>v. khv_Severity v \<notin>
       {KubeHunterSeverityHigh, KubeHunterSeverityMedium, KubeHunterSeverityLow}) vs))\<rparr>"
proof (induction vs rule: rev_induct)
  case (snoc v vs)
  then show ?case
    by (simp add: hunter_toSummary_def count_hunted_def KubeHunterSeverityHigh_def KubeHunterSeverityMedium_def KubeHunterSeverityLow_def)
qed (simp add: hunter_toSummary_def zero_KubeHunterSummary_def)

lemma hunter_Write_stored:
  assumes "api_laws c" and "kubehunter_Write c report cluster s = (None, s')"
  shows "\<exists>y. cl_Get c s' TKubeHunterReport \<lparr>key_Namespace = [], key_Name = cluster\<rparr> = Inr y \<and> o_Body y = KubeHunterReport report"
    "only_changes c s s' TKubeHunterReport \<lparr>key_Namespace = [], key_Name = cluster\<rparr>"
proof -
  let ?k = "\<lparr>key_Namespace = [], key_Name = cluster\<rparr>"
  let ?x = "\<lparr>o_Kind = [], o_Meta = empty_meta\<lparr>om_Name := cluster,
     om_Labels := [LabelResourceKind \<mapsto> ''Cluster'', LabelResourceName \<mapsto> cluster]\<rparr>, o_Body = KubeHunterReport report\<rparr>"
  have key: "go_type ?x = TKubeHunterReport" "key_of ?x = ?k" by (simp_all add: key_of_def empty_meta_def)
  have "(\<exists>y. cl_Get c s' TKubeHunterReport ?k = Inr y \<and> o_Body y = KubeHunterReport report) \<and> only_changes c s s' TKubeHunterReport ?k"
  proof (cases "cl_Create c s ?x")
    case (Pair res s1)
    show ?thesis
    proof (cases res)
      case (Inr y)
      then have "s' = s1" using assms(2) Pair by (simp add: kubehunter_Write_def split: if_splits)
      then show ?thesis using create_ok [OF assms(1) Pair [unfolded Inr]] key by (auto simp: same_content_def)
    next
      case (Inl err)
      then have "s1 = s" using failed_write(1) [OF assms(1)] Pair by blast
      then obtain found where found: "cl_Get c s TKubeHunterReport ?k = Inr found"
        and upd: "cl_Update c s (found\<lparr>o_Body := KubeHunterReport report\<rparr>) = (None, s')"
        using assms(2) Pair Inl by (auto simp: kubehunter_Write_def split: if_splits sum.splits)
      have "key_of (found\<lparr>o_Body := KubeHunterReport report\<rparr>) = ?k"
        using get_typed [OF assms(1) found] by (simp add: key_of_def)
      then show ?thesis using update_ok [OF assms(1) upd] by (auto simp: same_content_def)
    qed
  qed
  then show "\<exists>y. cl_Get c s' TKubeHunterReport ?k = Inr y \<and> o_Body y = KubeHunterReport report"
    "only_changes c s s' TKubeHunterReport ?k" by blast+
qed

lemma kubehunter_Scan_ok:
  assumes "kubehunter_Scan h s = Some (Inr data, s')"
  obtains job s1 out where "prepareKubeHunterJob h = Inr job"
    "GetLogsByJobAndContainerName (khn_clientset h) (khn_logs h) s1 job kubeHunterContainerName = Inr out"
    "OutputFrom (khn_decode_Time h) (khn_ParseReference h) (khn_Now h) (khn_config h) out = Inr data"
proof -
  obtain job where job: "prepareKubeHunterJob h = Inr job"
    and run: "run_scan (khn_world h) ''running kube-hunter job'' (so_DeleteScanJob (khn_opts h))
      \<lparr>rj_clientset = khn_clientset h, rj_SetOwnerReference = khn_SetOwnerReference h, rj_job = job, rj_secrets = []\<rparr>
      (hunter_result h job) s = Some (Inr data, s')"
    using assms by (auto simp: kubehunter_Scan_def split: sum.splits)
  obtain s1 where "hunter_result h job s1 = Inr data" using run by (elim run_scan_ok)
  then show thesis using that job by (auto simp: hunter_result_def split: sum.splits)
qed

lemma OutputFrom_summary:
  "OutputFrom decode_Time ParseReference now config out = Inr data \<Longrightarrow> khr_Summary data = hunter_toSummary (khr_Vulnerabilities data)"
  by (auto simp: OutputFrom_def split: sum.splits)

end
