(* ===== verification/Installer.thy ===== *)
theory Installer
  imports Start_Up Job_Runner
begin

text \<open>
  Installing and removing what the command line tool needs in a cluster (\<^verbatim>\<open>pkg/cmd/installer.go\<close>, the commands
  \<^verbatim>\<open>starboard install\<close> and \<^verbatim>\<open>starboard uninstall\<close>): the definitions of the report types, the compliance specification, the
  namespace with the configuration and the plugins' settings, and the access rights. The text in the body of a role, a binding or a
  definition stands for the part that the installer writes: the rules, the role with the subjects, the specification. The decoded
  manifests that are embedded into the program are parameters.
\<close>

section \<open>The objects\<close>

definition cluster_meta :: "string \<Rightarrow> ObjectMeta" where
  "cluster_meta name = empty_meta\<lparr>om_Name := name, om_Labels := [LabelK8SAppManagedBy \<mapsto> ''starboard'']\<rparr>"

definition namespace_obj :: Object where
  "namespace_obj = \<lparr>o_Kind = [], o_Meta = cluster_meta NamespaceName, o_Body = Namespace\<rparr>"

definition serviceAccount :: Object where
  "serviceAccount = \<lparr>o_Kind = [], o_Meta = cluster_meta ServiceAccountName, o_Body = ServiceAccount [] (Some False)\<rparr>"

definition policy_rule :: "string \<Rightarrow> string list \<Rightarrow> json" where
  "policy_rule apiGroup resources = JObject [(''verbs'', JArray [JString ''list'', JString ''get'']),
     (''apiGroups'', JArray [JString apiGroup]), (''resources'', JArray (map JString resources))]"

definition clusterRoleStarboard :: string where "clusterRoleStarboard = ''starboard''"
definition clusterRoleBindingStarboard :: string where "clusterRoleBindingStarboard = ''starboard''"

definition clusterRole :: Object where
  "clusterRole = \<lparr>o_Kind = [], o_Meta = cluster_meta clusterRoleStarboard, o_Body = Resource RClusterRole (encode_json (JArray
     [policy_rule [] [''nodes'', ''namespaces'', ''pods''],
      policy_rule ''apps'' [''deployments'', ''statefulsets'', ''daemonsets'', ''replicationcontrollers'', ''replicasets''],
      policy_rule ''batch'' [''jobs'', ''cronjobs'']]))\<rparr>"

definition clusterRoleBinding :: Object where
  "clusterRoleBinding = \<lparr>o_Kind = [], o_Meta = cluster_meta clusterRoleBindingStarboard,
     o_Body = Resource RClusterRoleBinding (encode_json (JArray
       [JObject [(''apiGroup'', JString ''rbac.authorization.k8s.io''), (''kind'', JString ''ClusterRole''),
          (''name'', JString clusterRoleStarboard)],
        JArray [JObject [(''kind'', JString ''ServiceAccount''), (''name'', JString ServiceAccountName),
          (''namespace'', JString NamespaceName)]]]))\<rparr>"

text \<open>The embedded manifests, each decoded or with the error of its decoding.\<close>

record manifests =
  mf_VulnerabilityReportsCRD :: "error + Object"
  mf_ClusterVulnerabilityReportsCRD :: "error + Object"
  mf_CISKubeBenchReportsCRD :: "error + Object"
  mf_KubeHunterReportsCRD :: "error + Object"
  mf_ConfigAuditReportsCRD :: "error + Object"
  mf_ClusterConfigAuditReportsCRD :: "error + Object"
  mf_ClusterComplianceReportsCRD :: "error + Object"
  mf_ClusterComplianceDetailReportsCRD :: "error + Object"
  mf_NSASpecV10 :: "error + Object"
  mf_Policies :: "error + Object"

record 's Installer =
  in_version :: string
  in_client :: "'s client"
  in_libs :: scanner_libs
  in_env :: plugin_env
  in_embedded :: manifests
  in_elapse :: "'s \<Rightarrow> 's"

section \<open>Creating and updating\<close>

text \<open>
  The common body of \<open>createOrUpdateClusterRole\<close>, \<open>createOrUpdateClusterRoleBinding\<close> and \<open>createOrUpdateCRD\<close>: an object that exists
  gets the new content and keeps its metadata.
\<close>

definition create_or_update :: "'s client \<Rightarrow> Object \<Rightarrow> 's \<Rightarrow> error option \<times> 's" where
  "create_or_update c x s =
     (case cl_Get c s (go_type x) \<lparr>key_Namespace = [], key_Name = om_Name (o_Meta x)\<rparr> of
        Inr existing \<Rightarrow> cl_Update c s (existing\<lparr>o_Body := o_Body x\<rparr>)
      | Inl err \<Rightarrow> if IsNotFound err then only_err (cl_Create c s x) else (Some err, s))"

definition createOrUpdateClusterRole :: "'s client \<Rightarrow> Object \<Rightarrow> 's \<Rightarrow> error option \<times> 's" where
  "createOrUpdateClusterRole = create_or_update"

definition createOrUpdateClusterRoleBinding :: "'s client \<Rightarrow> Object \<Rightarrow> 's \<Rightarrow> error option \<times> 's" where
  "createOrUpdateClusterRoleBinding = create_or_update"

definition createOrUpdateCRD :: "'s client \<Rightarrow> Object \<Rightarrow> 's \<Rightarrow> error option \<times> 's" where
  "createOrUpdateCRD = create_or_update"

definition createNamespaceIfNotFound :: "'s client \<Rightarrow> Object \<Rightarrow> 's \<Rightarrow> error option \<times> 's" where
  "createNamespaceIfNotFound c ns s =
     (case cl_Get c s TNamespace \<lparr>key_Namespace = [], key_Name = om_Name (o_Meta ns)\<rparr> of
        Inr _ \<Rightarrow> (None, s)
      | Inl err \<Rightarrow> if IsNotFound err then only_err (cl_Create c s ns) else (Some err, s))"

definition createServiceAccountIfNotFound :: "'s client \<Rightarrow> Object \<Rightarrow> 's \<Rightarrow> error option \<times> 's" where
  "createServiceAccountIfNotFound c sa s =
     (case cl_Get c s TServiceAccount \<lparr>key_Namespace = NamespaceName, key_Name = om_Name (o_Meta sa)\<rparr> of
        Inr _ \<Rightarrow> (None, s)
      | Inl err \<Rightarrow> if IsNotFound err then only_err (create_in c NamespaceName s sa) else (Some err, s))"

text \<open>
  The read of \<open>createOrUpdateComplianceSpec\<close> decodes the stored report into the variable that already holds the embedded one. The JSON
  decoder sets the fields that are present in the answer: a field with the tag \<open>omitempty\<close> (the description and the default status of
  a control, the description of a check, most of the metadata) is absent when it is empty, so the value of the embedded report stays;
  maps get the decoded entries added; and the elements of a slice are decoded into those that the variable had at the same
  position. (The embedded report has a name and labels but no owner references.)
\<close>

definition unless_stored :: "'a list \<Rightarrow> 'a list \<Rightarrow> 'a list" where
  "unless_stored v stored = (if stored = [] then v else stored)"

fun decode_slice_into :: "('a \<Rightarrow> 'a \<Rightarrow> 'a) \<Rightarrow> 'a list \<Rightarrow> 'a list \<Rightarrow> 'a list" where
  "decode_slice_into f vs [] = []"
| "decode_slice_into f [] (x # xs) = x # decode_slice_into f [] xs"
| "decode_slice_into f (v # vs) (x # xs) = f v x # decode_slice_into f vs xs"

definition decode_Control_into :: "Control \<Rightarrow> Control \<Rightarrow> Control" where
  "decode_Control_into v stored = stored\<lparr>ct_Description := unless_stored (ct_Description v) (ct_Description stored),
     ct_DefaultStatus := unless_stored (ct_DefaultStatus v) (ct_DefaultStatus stored)\<rparr>"

definition decode_ControlCheck_into :: "ControlCheck \<Rightarrow> ControlCheck \<Rightarrow> ControlCheck" where
  "decode_ControlCheck_into v stored = stored\<lparr>cc_Description := unless_stored (cc_Description v) (cc_Description stored)\<rparr>"

definition decode_ObjectMeta_into :: "ObjectMeta \<Rightarrow> ObjectMeta \<Rightarrow> ObjectMeta" where
  "decode_ObjectMeta_into v stored = stored\<lparr>om_Name := unless_stored (om_Name v) (om_Name stored),
     om_Namespace := unless_stored (om_Namespace v) (om_Namespace stored), om_UID := unless_stored (om_UID v) (om_UID stored),
     om_Labels := om_Labels v ++ om_Labels stored, om_Annotations := om_Annotations v ++ om_Annotations stored,
     om_OwnerReferences := unless_stored (om_OwnerReferences v) (om_OwnerReferences stored),
     om_DeletionTimestamp := (case om_DeletionTimestamp stored of None \<Rightarrow> om_DeletionTimestamp v | Some t \<Rightarrow> Some t)\<rparr>"

fun decode_body_into :: "Body \<Rightarrow> Body \<Rightarrow> Body" where
  "decode_body_into (ClusterComplianceReport spec status) (ClusterComplianceReport spec' status') =
     ClusterComplianceReport
       (spec'\<lparr>rs_Controls := decode_slice_into decode_Control_into (rs_Controls spec) (rs_Controls spec')\<rparr>)
       (status'\<lparr>st_ControlChecks := decode_slice_into decode_ControlCheck_into (st_ControlChecks status) (st_ControlChecks status')\<rparr>)"
| "decode_body_into _ b = b"

definition decode_into :: "Object \<Rightarrow> Object \<Rightarrow> Object" where
  "decode_into v stored = stored\<lparr>o_Meta := decode_ObjectMeta_into (o_Meta v) (o_Meta stored),
     o_Body := decode_body_into (o_Body v) (o_Body stored)\<rparr>"

text \<open>
  What is written back is the variable after the read. An error other than a missing report is dropped.
\<close>

definition createOrUpdateComplianceSpec :: "'s client \<Rightarrow> Object \<Rightarrow> 's \<Rightarrow> error option \<times> 's" where
  "createOrUpdateComplianceSpec c spec s =
     (case cl_Get c s TClusterComplianceReport \<lparr>key_Namespace = [], key_Name = rs_Name (report_spec (o_Body spec))\<rparr> of
        Inr found \<Rightarrow> cl_Update c s (decode_into spec found)
      | Inl err \<Rightarrow> if IsNotFound err then only_err (cl_Create c s spec) else (None, s))"

definition initRBAC :: "'s client \<Rightarrow> 's \<Rightarrow> error option \<times> 's" where
  "initRBAC c s =
     and_then (createServiceAccountIfNotFound c serviceAccount s) (\<lambda>s1.
     and_then (createOrUpdateClusterRole c clusterRole s1) (\<lambda>s2.
     createOrUpdateClusterRoleBinding c clusterRoleBinding s2))"

definition install_crd :: "'s client \<Rightarrow> error + Object \<Rightarrow> 's \<Rightarrow> error option \<times> 's" where
  "install_crd c crd s = (case crd of Inl e \<Rightarrow> (Some e, s) | Inr x \<Rightarrow> createOrUpdateCRD c x s)"

definition embedded_crds :: "manifests \<Rightarrow> (error + Object) list" where
  "embedded_crds mf = [mf_VulnerabilityReportsCRD mf, mf_ClusterVulnerabilityReportsCRD mf, mf_CISKubeBenchReportsCRD mf,
     mf_KubeHunterReportsCRD mf, mf_ConfigAuditReportsCRD mf, mf_ClusterConfigAuditReportsCRD mf,
     mf_ClusterComplianceReportsCRD mf, mf_ClusterComplianceDetailReportsCRD mf]"

text \<open>The settings of the plugins, with the resolver of the tool.\<close>

definition install_resolver :: "'s Installer \<Rightarrow> ConfigData \<Rightarrow> 's Resolver" where
  "install_resolver m config = \<lparr>rs_buildVersion = in_version m, rs_config = config, rs_namespace = NamespaceName,
     rs_serviceAccountName = ServiceAccountName, rs_client = in_client m, rs_libs = in_libs m, rs_env = in_env m\<rparr>"

definition install_plugins :: "'s Resolver \<Rightarrow> 's \<Rightarrow> error option \<times> 's" where
  "install_plugins r s =
     (case GetVulnerabilityPlugin r of
        Inl e \<Rightarrow> (Some e, s)
      | Inr (vulnerabilityPlugin, pluginContext) \<Rightarrow>
          and_then (wrap_err (''initializing '' @ px_name pluginContext @ '' plugin'') (pl_Init vulnerabilityPlugin pluginContext s)) (\<lambda>s1.
          case GetConfigAuditPlugin r of
            Inl e \<Rightarrow> (Some e, s1)
          | Inr (configAuditPlugin, auditContext) \<Rightarrow>
              wrap_err (''initializing '' @ px_name auditContext @ '' plugin'') (ap_Init configAuditPlugin auditContext s1)))"

definition Install :: "'s Installer \<Rightarrow> 's \<Rightarrow> error option \<times> 's" where
  "Install m s =
     and_then (for_each (install_crd (in_client m)) (embedded_crds (in_embedded m)) s) (\<lambda>s1.
     case mf_NSASpecV10 (in_embedded m) of
       Inl e \<Rightarrow> (Some e, s1)
     | Inr clusterComplianceReportSpec \<Rightarrow>
         and_then (createOrUpdateComplianceSpec (in_client m) clusterComplianceReportSpec s1) (\<lambda>s2.
         and_then (createNamespaceIfNotFound (in_client m) namespace_obj s2) (\<lambda>s3.
         and_then (EnsureDefault (in_client m) NamespaceName (mf_Policies (in_embedded m)) s3) (\<lambda>s4.
         case ReadConfig (in_client m) NamespaceName s4 of
           Inl e \<Rightarrow> (Some e, s4)
         | Inr config \<Rightarrow> and_then (install_plugins (install_resolver m config) s4) (initRBAC (in_client m))))))"

section \<open>Removing\<close>

definition deleteCRD :: "'s client \<Rightarrow> string \<Rightarrow> 's \<Rightarrow> error option \<times> 's" where
  "deleteCRD c name s = ignore_err IsNotFound (cl_Delete c s (named_obj (Resource RCustomResourceDefinition []) [] name))"

definition cleanupRBAC :: "'s client \<Rightarrow> 's \<Rightarrow> error option \<times> 's" where
  "cleanupRBAC c s =
     and_then (ignore_err IsNotFound (cl_Delete c s (named_obj (Resource RClusterRoleBinding []) [] clusterRoleBindingStarboard))) (\<lambda>s1.
     and_then (ignore_err IsNotFound (cl_Delete c s1 (named_obj (Resource RClusterRole []) [] clusterRoleStarboard))) (\<lambda>s2.
     ignore_err IsNotFound (cl_Delete c s2 (named_obj (ServiceAccount [] None) NamespaceName ServiceAccountName))))"

definition cleanupPollingInterval :: Duration where "cleanupPollingInterval = 2 * Second"
definition cleanupTimeout :: Duration where "cleanupTimeout = 30 * Second"

text \<open>
  The loop that waits for the namespace to go. Each round starts two new timers and takes the case of the one that fires first;
  \<open>elapse\<close> is what happens in the cluster until then. The loop need not end: \<open>None\<close> means that it never returns.
\<close>

partial_function (option) cleanup_loop :: "'s client \<Rightarrow> ('s \<Rightarrow> 's) \<Rightarrow> 's \<Rightarrow> (error option \<times> 's) option" where
  "cleanup_loop c elapse s =
     (let s1 = elapse s in
      if cleanupPollingInterval < cleanupTimeout
      then (case cl_Get c s1 TNamespace \<lparr>key_Namespace = [], key_Name = NamespaceName\<rparr> of
              Inl err \<Rightarrow> if IsNotFound err then Some (None, s1) else cleanup_loop c elapse s1
            | Inr _ \<Rightarrow> cleanup_loop c elapse s1)
      else Some (Some (Errorf ''deleting namespace timed out''), s1))"

definition cleanupNamespace :: "'s client \<Rightarrow> ('s \<Rightarrow> 's) \<Rightarrow> 's \<Rightarrow> (error option \<times> 's) option" where
  "cleanupNamespace c elapse s =
     (case ignore_err IsNotFound (cl_Delete c s (named_obj Namespace [] NamespaceName)) of
        (Some err, s1) \<Rightarrow> Some (Some err, s1)
      | (None, s1) \<Rightarrow> cleanup_loop c elapse s1)"

definition crd_names :: "string list" where
  "crd_names = map (\<lambda>n. n @ ''.aquasecurity.github.io'') [''vulnerabilityreports'', ''clustervulnerabilityreports'',
     ''ciskubebenchreports'', ''kubehunterreports'', ''configauditreports'', ''clusterconfigauditreports'',
     ''clustercompliancereports'', ''clustercompliancedetailreports'']"

definition Uninstall :: "'s Installer \<Rightarrow> 's \<Rightarrow> (error option \<times> 's) option" where
  "Uninstall m s =
     (case and_then (for_each (deleteCRD (in_client m)) crd_names s) (\<lambda>s1.
           and_then (cleanupRBAC (in_client m) s1) (DeleteConfig (in_client m) NamespaceName)) of
        (Some e, s1) \<Rightarrow> Some (Some e, s1)
      | (None, s1) \<Rightarrow> cleanupNamespace (in_client m) (in_elapse m) s1)"

section \<open>Lemmas\<close>

text \<open>An operation that changes objects of the given types only.\<close>

definition touches :: "GoType set \<Rightarrow> 's client \<Rightarrow> 's \<Rightarrow> 's \<Rightarrow> bool" where
  "touches T c s s' \<longleftrightarrow> (\<forall>t k. t \<notin> T \<longrightarrow> cl_Get c s' t k = cl_Get c s t k)"

lemma touches_refl [simp]: "touches T c s s"
  by (simp add: touches_def)

lemma touches_trans: "touches T c s s1 \<Longrightarrow> touches T' c s1 s2 \<Longrightarrow> touches (T \<union> T') c s s2"
  by (simp add: touches_def)

lemma touches_mono: "touches T c s s' \<Longrightarrow> T \<subseteq> T' \<Longrightarrow> touches T' c s s'"
  by (auto simp: touches_def)

lemma only_changes_touches: "only_changes c s s' t k \<Longrightarrow> t \<in> T \<Longrightarrow> touches T c s s'"
  by (auto simp: touches_def only_changes_def)

lemma touches_create: "api_laws c \<Longrightarrow> go_type x \<in> T \<Longrightarrow> touches T c s (snd (cl_Create c s x))"
  by (cases "cl_Create c s x"; cases "fst (cl_Create c s x)")
    (auto dest: failed_write(1) create_ok(3) only_changes_touches)

lemma touches_update: "api_laws c \<Longrightarrow> go_type x \<in> T \<Longrightarrow> touches T c s (snd (cl_Update c s x))"
  by (cases "cl_Update c s x"; cases "fst (cl_Update c s x)")
    (auto dest: failed_write(2) update_ok(2) only_changes_touches)

lemma touches_delete: "api_laws c \<Longrightarrow> go_type x \<in> T \<Longrightarrow> touches T c s (snd (cl_Delete c s x))"
  by (cases "cl_Delete c s x"; cases "fst (cl_Delete c s x)")
    (auto dest: failed_write(4) delete_ok(2) only_changes_touches)

lemma touches_and_then:
  assumes "touches T c s (snd r)" and "\<And>s1. r = (None, s1) \<Longrightarrow> touches T c s1 (snd (f s1))"
  shows "touches T c s (snd (and_then r f))"
  using assms by (cases r; cases "fst r") (auto simp: touches_def)

lemma touches_for_each:
  assumes "\<And>x s. x \<in> set xs \<Longrightarrow> touches T c s (snd (f x s))"
  shows "touches T c s (snd (for_each f xs s))"
  by (rule for_each_inv [where I = "\<lambda>s'. touches T c s s'"]) (use assms in \<open>auto simp: touches_def\<close>)

text \<open>A created or updated object is there with the new content.\<close>

lemma create_or_update_touches: "api_laws c \<Longrightarrow> go_type x \<in> T \<Longrightarrow> touches T c s (snd (create_or_update c x s))"
  by (auto simp: create_or_update_def intro!: touches_create touches_update split: sum.split)

lemma create_or_update_stored:
  assumes "api_laws c" and "create_or_update c x s = (None, s')" and "om_Namespace (o_Meta x) = []"
  shows "\<exists>y. cl_Get c s' (go_type x) (key_of x) = Inr y \<and> o_Body y = o_Body x"
    "only_changes c s s' (go_type x) (key_of x)"
proof -
  have key: "key_of x = \<lparr>key_Namespace = [], key_Name = om_Name (o_Meta x)\<rparr>" using assms(3) by (simp add: key_of_def)
  have "(\<exists>y. cl_Get c s' (go_type x) (key_of x) = Inr y \<and> o_Body y = o_Body x) \<and> only_changes c s s' (go_type x) (key_of x)"
  proof (cases "cl_Get c s (go_type x) (key_of x)")
    case (Inl e)
    then obtain y where y: "cl_Create c s x = (Inr y, s')"
      using assms(2) key by (auto simp: create_or_update_def only_err_None_iff split: if_splits)
    show ?thesis using create_ok(1-3) [OF assms(1) y] unfolding same_content_def by blast
  next
    case (Inr old)
    then have upd: "cl_Update c s (old\<lparr>o_Body := o_Body x\<rparr>) = (None, s')" using assms(2) key by (simp add: create_or_update_def)
    have "key_of (old\<lparr>o_Body := o_Body x\<rparr>) = key_of x" using get_typed [OF assms(1) Inr] by (simp add: key_of_def)
    with update_ok [OF assms(1) upd] obtain y where y: "same_content y (old\<lparr>o_Body := o_Body x\<rparr>)"
      "cl_Get c s' (go_type x) (key_of x) = Inr y" "only_changes c s s' (go_type x) (key_of x)" by auto
    have "o_Body y = o_Body x" using y(1) by (simp add: same_content_def)
    with y show ?thesis by blast
  qed
  then show "\<exists>y. cl_Get c s' (go_type x) (key_of x) = Inr y \<and> o_Body y = o_Body x"
    "only_changes c s s' (go_type x) (key_of x)" by blast+
qed

lemma create_or_update_other:
  assumes "api_laws c" and "om_Namespace (o_Meta x) = []" and "(t, k) \<noteq> (go_type x, key_of x)"
  shows "cl_Get c (snd (create_or_update c x s)) t k = cl_Get c s t k"
proof (cases "create_or_update c x s")
  case (Pair r s')
  show ?thesis
  proof (cases r)
    case None
    then show ?thesis using create_or_update_stored(2) [OF assms(1) Pair [unfolded None] assms(2)] assms(3) Pair
      by (auto simp: only_changes_def)
  next
    case (Some e)
    then have "s' = s"
      using Pair failed_write(1,2) [OF assms(1)]
      by (auto simp: create_or_update_def only_err_def split: sum.splits if_splits prod.splits)
    then show ?thesis using Pair by simp
  qed
qed

lemma install_crd_Inr: "install_crd c (Inr x) = create_or_update c x"
  by (simp add: install_crd_def createOrUpdateCRD_def fun_eq_iff)

lemma install_crds_stored:
  assumes "api_laws c" and "for_each (install_crd c) crds s = (None, s')" and "\<forall>x. Inr x \<in> set crds \<longrightarrow> om_Namespace (o_Meta x) = []"
    and "distinct (map (map_sum (\<lambda>e. e) (\<lambda>x. (go_type x, key_of x))) crds)" and "Inr x \<in> set crds"
  shows "\<exists>y. cl_Get c s' (go_type x) (key_of x) = Inr y \<and> o_Body y = o_Body x"
  using assms(2-5)
proof (induction crds arbitrary: s)
  case (Cons d ds)
  obtain z where z: "d = Inr z" using Cons.prems(1) by (cases d) (auto simp: install_crd_def)
  then obtain s1 where s1: "create_or_update c z s = (None, s1)" "for_each (install_crd c) ds s1 = (None, s')"
    using Cons.prems(1) by (auto simp: install_crd_Inr split: prod.splits option.splits)
  show ?case
  proof (cases "Inr x \<in> set ds")
    case True
    then show ?thesis using Cons.IH [OF s1(2)] Cons.prems by simp
  next
    case False
    then have x: "x = z" using Cons.prems(4) z by simp
    obtain y where y: "cl_Get c s1 (go_type x) (key_of x) = Inr y" "o_Body y = o_Body x"
      using create_or_update_stored(1) [OF assms(1) s1(1)] Cons.prems(2) z x by auto
    have "cl_Get c (snd (for_each (install_crd c) ds s1)) (go_type x) (key_of x) = Inr y"
    proof (rule for_each_inv [where I = "\<lambda>s. cl_Get c s (go_type x) (key_of x) = Inr y"])
      fix e t
      assume e: "e \<in> set ds" and t: "cl_Get c t (go_type x) (key_of x) = Inr y"
      show "cl_Get c (snd (install_crd c e t)) (go_type x) (key_of x) = Inr y"
      proof (cases e)
        case (Inr w)
        have "(go_type w, key_of w) \<noteq> (go_type x, key_of x)" using Cons.prems(3) e Inr z x by (force simp: image_iff)
        moreover have "om_Namespace (o_Meta w) = []" using Cons.prems(2) e Inr by simp
        ultimately show ?thesis using create_or_update_other [OF assms(1), of w "go_type x" "key_of x" t] t Inr
          by (auto simp: install_crd_Inr)
      qed (use t in \<open>simp add: install_crd_def\<close>)
    qed (rule y(1))
    then show ?thesis using s1(2) y(2) by simp
  qed
qed simp

text \<open>The other steps, by the types they touch.\<close>

lemma ensure_object_touches:
  assumes "api_laws c" and "\<And>x. d = Inr x \<Longrightarrow> go_type x = TConfigMap"
  shows "touches {TConfigMap, TSecret} c s (snd (ensure_object c ns name d s))"
  using assms by (auto simp: ensure_object_def intro!: touches_create split: sum.split)

lemma EnsureDefault_touches:
  assumes "api_laws c" and "\<And>x. pol = Inr x \<Longrightarrow> go_type x = TConfigMap"
  shows "touches {TConfigMap, TSecret} c s (snd (EnsureDefault c ns pol s))"
proof -
  have "touches {TConfigMap, TSecret} c s (snd (cl_Create c s (default_secret ns)))" for s
    by (rule touches_create [OF assms(1)]) (simp add: default_secret_def)
  then show ?thesis
    unfolding EnsureDefault_def
    by (intro touches_and_then ensure_object_touches assms(1)) (use assms(2) in \<open>auto simp: default_config_map_def split: sum.splits\<close>)
qed

lemma EnsureConfig_touches: "api_laws c \<Longrightarrow> touches {TConfigMap} c s (snd (EnsureConfig c ctx d s))"
  by (auto simp: EnsureConfig_def intro!: touches_create)

lemma plugin_init_touches:
  assumes "api_laws (rs_client r)"
  shows "GetVulnerabilityPlugin r = Inr (pl, ctx) \<Longrightarrow> touches {TConfigMap} (rs_client r) s (snd (pl_Init pl ctx s))"
    and "GetConfigAuditPlugin r = Inr (apl, actx) \<Longrightarrow> touches {TConfigMap} (rs_client r) s (snd (ap_Init apl actx s))"
  using EnsureConfig_touches [OF assms]
  by (auto simp: plugin_operations trivy_Init_def aqua_Init_def polaris_Init_def conftest_Init_def
      elim!: GetVulnerabilityPluginE GetConfigAuditPluginE)

lemma install_plugins_touches:
  assumes "api_laws (rs_client r)"
  shows "touches {TConfigMap} (rs_client r) s (snd (install_plugins r s))"
  unfolding install_plugins_def using plugin_init_touches [OF assms]
  by (auto intro!: touches_and_then split: sum.split)

text \<open>Decoding into a variable keeps the type of the stored object, and its key where the variable has the same name.\<close>

lemma decode_into_type [simp]: "go_type (decode_into v x) = go_type x"
  by (cases "(o_Body v, o_Body x)" rule: decode_body_into.cases) (simp_all add: decode_into_def)

lemma decode_into_key:
  assumes "om_Namespace (o_Meta v) = []" and "key_of x = \<lparr>key_Namespace = [], key_Name = om_Name (o_Meta v)\<rparr>"
  shows "key_of (decode_into v x) = key_of x"
  using assms by (auto simp: decode_into_def decode_ObjectMeta_into_def key_of_def unless_stored_def)

lemma decode_slice_length [simp]: "length (decode_slice_into f vs xs) = length xs"
  by (induction f vs xs rule: decode_slice_into.induct) simp_all

lemma decode_slice_nth:
  "i < length xs \<Longrightarrow> decode_slice_into f vs xs ! i = (if i < length vs then f (vs ! i) (xs ! i) else xs ! i)"
  by (induction f vs xs arbitrary: i rule: decode_slice_into.induct) (auto simp: nth_Cons split: nat.split)

lemma createOrUpdateComplianceSpec_touches:
  assumes "api_laws c" and "go_type spec = TClusterComplianceReport"
  shows "touches {TClusterComplianceReport} c s (snd (createOrUpdateComplianceSpec c spec s))"
  using assms by (auto simp: createOrUpdateComplianceSpec_def intro!: touches_create touches_update dest: get_typed split: sum.split)

lemma createNamespaceIfNotFound_touches:
  assumes "api_laws c" and "go_type ns = TNamespace"
  shows "touches {TNamespace} c s (snd (createNamespaceIfNotFound c ns s))"
  using assms by (auto simp: createNamespaceIfNotFound_def intro!: touches_create split: sum.split)

lemma createServiceAccountIfNotFound_touches:
  assumes "api_laws c" and "go_type sa = TServiceAccount"
  shows "touches {TServiceAccount} c s (snd (createServiceAccountIfNotFound c sa s))"
  using assms by (auto simp: createServiceAccountIfNotFound_def create_in_def intro!: touches_create split: sum.split)

lemma createNamespaceIfNotFound_present:
  assumes "api_laws c" and "createNamespaceIfNotFound c namespace_obj s = (None, s')"
  shows "\<exists>x. cl_Get c s' TNamespace \<lparr>key_Namespace = [], key_Name = NamespaceName\<rparr> = Inr x"
proof -
  have key: "go_type namespace_obj = TNamespace" "key_of namespace_obj = \<lparr>key_Namespace = [], key_Name = NamespaceName\<rparr>"
    "om_Name (o_Meta namespace_obj) = NamespaceName"
    by (simp_all add: namespace_obj_def cluster_meta_def key_of_def empty_meta_def)
  show ?thesis
  proof (cases "cl_Get c s TNamespace \<lparr>key_Namespace = [], key_Name = NamespaceName\<rparr>")
    case (Inl e)
    then obtain y where "cl_Create c s namespace_obj = (Inr y, s')"
      using assms(2) by (auto simp: createNamespaceIfNotFound_def key only_err_None_iff split: if_splits)
    from create_ok(2) [OF assms(1) this] show ?thesis by (auto simp: key)
  qed (use assms(2) in \<open>simp add: createNamespaceIfNotFound_def key\<close>)
qed

lemma createServiceAccountIfNotFound_present:
  assumes "api_laws c" and "createServiceAccountIfNotFound c serviceAccount s = (None, s')"
  shows "\<exists>x. cl_Get c s' TServiceAccount \<lparr>key_Namespace = NamespaceName, key_Name = ServiceAccountName\<rparr> = Inr x"
proof -
  have key: "go_type serviceAccount = TServiceAccount" "om_Namespace (o_Meta serviceAccount) = []"
    "om_Name (o_Meta serviceAccount) = ServiceAccountName"
    by (simp_all add: serviceAccount_def cluster_meta_def empty_meta_def)
  show ?thesis
  proof (cases "cl_Get c s TServiceAccount \<lparr>key_Namespace = NamespaceName, key_Name = ServiceAccountName\<rparr>")
    case (Inl e)
    then obtain y where "cl_Create c s (set_namespace NamespaceName serviceAccount) = (Inr y, s')"
      using assms(2) by (auto simp: createServiceAccountIfNotFound_def create_in_def key only_err_None_iff split: if_splits)
    from create_ok(2) [OF assms(1) this] show ?thesis by (auto simp: key key_of_def)
  qed (use assms(2) in \<open>simp add: createServiceAccountIfNotFound_def key\<close>)
qed

lemma initRBAC_stored:
  assumes "api_laws c" and "initRBAC c s = (None, s')"
  shows "\<exists>x. cl_Get c s' TServiceAccount \<lparr>key_Namespace = NamespaceName, key_Name = ServiceAccountName\<rparr> = Inr x"
    "\<exists>y. cl_Get c s' (TResource RClusterRole) (key_of clusterRole) = Inr y \<and> o_Body y = o_Body clusterRole"
    "\<exists>y. cl_Get c s' (TResource RClusterRoleBinding) (key_of clusterRoleBinding) = Inr y \<and> o_Body y = o_Body clusterRoleBinding"
    "touches {TServiceAccount, TResource RClusterRole, TResource RClusterRoleBinding} c s s'"
proof -
  obtain s1 s2 where s1: "createServiceAccountIfNotFound c serviceAccount s = (None, s1)"
    and s2: "create_or_update c clusterRole s1 = (None, s2)" and s3: "create_or_update c clusterRoleBinding s2 = (None, s')"
    using assms(2) by (auto simp: initRBAC_def createOrUpdateClusterRole_def createOrUpdateClusterRoleBinding_def and_then_None_iff)
  have objs: "go_type clusterRole = TResource RClusterRole" "go_type clusterRoleBinding = TResource RClusterRoleBinding"
    "om_Namespace (o_Meta clusterRole) = []" "om_Namespace (o_Meta clusterRoleBinding) = []" "go_type serviceAccount = TServiceAccount"
    by (simp_all add: clusterRole_def clusterRoleBinding_def cluster_meta_def empty_meta_def serviceAccount_def)
  note role = create_or_update_stored [OF assms(1) s2 objs(3), unfolded objs]
    and binding = create_or_update_stored [OF assms(1) s3 objs(4), unfolded objs]
  obtain sa where sa: "cl_Get c s1 TServiceAccount \<lparr>key_Namespace = NamespaceName, key_Name = ServiceAccountName\<rparr> = Inr sa"
    using createServiceAccountIfNotFound_present [OF assms(1) s1] by blast
  show "\<exists>x. cl_Get c s' TServiceAccount \<lparr>key_Namespace = NamespaceName, key_Name = ServiceAccountName\<rparr> = Inr x"
    using sa role(2) binding(2) by (simp add: only_changes_def)
  show "\<exists>y. cl_Get c s' (TResource RClusterRole) (key_of clusterRole) = Inr y \<and> o_Body y = o_Body clusterRole"
    using role(1) binding(2) by (simp add: only_changes_def)
  show "\<exists>y. cl_Get c s' (TResource RClusterRoleBinding) (key_of clusterRoleBinding) = Inr y \<and> o_Body y = o_Body clusterRoleBinding"
    by (rule binding(1))
  show "touches {TServiceAccount, TResource RClusterRole, TResource RClusterRoleBinding} c s s'"
    using createServiceAccountIfNotFound_touches [OF assms(1) objs(5), of s] s1 role(2) binding(2)
    by (auto simp: touches_def only_changes_def)
qed

text \<open>The steps of a successful installation.\<close>

lemma InstallE:
  assumes "Install m s = (None, s')"
  obtains spec config s1 s2 s3 s4 s5 where
    "for_each (install_crd (in_client m)) (embedded_crds (in_embedded m)) s = (None, s1)" "mf_NSASpecV10 (in_embedded m) = Inr spec"
    "createOrUpdateComplianceSpec (in_client m) spec s1 = (None, s2)" "createNamespaceIfNotFound (in_client m) namespace_obj s2 = (None, s3)"
    "EnsureDefault (in_client m) NamespaceName (mf_Policies (in_embedded m)) s3 = (None, s4)"
    "ReadConfig (in_client m) NamespaceName s4 = Inr config" "install_plugins (install_resolver m config) s4 = (None, s5)"
    "initRBAC (in_client m) s5 = (None, s')"
proof -
  obtain s1 where s1: "for_each (install_crd (in_client m)) (embedded_crds (in_embedded m)) s = (None, s1)"
    using assms by (auto simp: Install_def and_then_None_iff)
  obtain spec where spec: "mf_NSASpecV10 (in_embedded m) = Inr spec"
    using assms s1 by (cases "mf_NSASpecV10 (in_embedded m)") (auto simp: Install_def)
  obtain s2 s3 s4 where s2: "createOrUpdateComplianceSpec (in_client m) spec s1 = (None, s2)"
    and s3: "createNamespaceIfNotFound (in_client m) namespace_obj s2 = (None, s3)"
    and s4: "EnsureDefault (in_client m) NamespaceName (mf_Policies (in_embedded m)) s3 = (None, s4)"
    using assms s1 spec by (auto simp: Install_def and_then_None_iff)
  obtain config where config: "ReadConfig (in_client m) NamespaceName s4 = Inr config"
    using assms s1 spec s2 s3 s4 by (cases "ReadConfig (in_client m) NamespaceName s4") (auto simp: Install_def)
  show thesis
    using assms that [OF s1 spec s2 s3 s4 config] by (auto simp: Install_def s1 spec s2 s3 s4 config and_then_None_iff)
qed

text \<open>
  What is assumed of the embedded manifests: they have the types of their Go variables, are cluster-scoped, and carry the names that the
  files under \<^verbatim>\<open>deploy/crd\<close> and \<^verbatim>\<open>deploy/specs\<close> give them.
\<close>

definition named_crd :: "string \<Rightarrow> error + Object \<Rightarrow> bool" where
  "named_crd name d \<longleftrightarrow> (\<forall>x. d = Inr x \<longrightarrow> go_type x = TResource RCustomResourceDefinition \<and>
     key_of x = \<lparr>key_Namespace = [], key_Name = name @ ''.aquasecurity.github.io''\<rparr>)"

definition manifests_ok :: "manifests \<Rightarrow> bool" where
  "manifests_ok mf \<longleftrightarrow>
     named_crd ''vulnerabilityreports'' (mf_VulnerabilityReportsCRD mf) \<and>
     named_crd ''clustervulnerabilityreports'' (mf_ClusterVulnerabilityReportsCRD mf) \<and>
     named_crd ''ciskubebenchreports'' (mf_CISKubeBenchReportsCRD mf) \<and>
     named_crd ''kubehunterreports'' (mf_KubeHunterReportsCRD mf) \<and>
     named_crd ''configauditreports'' (mf_ConfigAuditReportsCRD mf) \<and>
     named_crd ''clusterconfigauditreports'' (mf_ClusterConfigAuditReportsCRD mf) \<and>
     named_crd ''clustercompliancereports'' (mf_ClusterComplianceReportsCRD mf) \<and>
     named_crd ''clustercompliancedetailreports'' (mf_ClusterComplianceDetailReportsCRD mf) \<and>
     (\<forall>x. mf_NSASpecV10 mf = Inr x \<longrightarrow> go_type x = TClusterComplianceReport \<and> om_Namespace (o_Meta x) = [] \<and>
        om_Name (o_Meta x) = rs_Name (report_spec (o_Body x))) \<and>
     (\<forall>x. mf_Policies mf = Inr x \<longrightarrow> go_type x = TConfigMap)"

lemma embedded_named:
  assumes "manifests_ok mf"
  shows "list_all2 named_crd [''vulnerabilityreports'', ''clustervulnerabilityreports'', ''ciskubebenchreports'', ''kubehunterreports'',
    ''configauditreports'', ''clusterconfigauditreports'', ''clustercompliancereports'', ''clustercompliancedetailreports''] (embedded_crds mf)"
  using assms unfolding manifests_ok_def embedded_crds_def by (simp only: list_all2_Cons list.rel_inject(1) simp_thms)

lemma named_crd_member: "list_all2 named_crd names ds \<Longrightarrow> d \<in> set ds \<Longrightarrow> \<exists>n \<in> set names. named_crd n d"
  by (induction rule: list_all2_induct) auto

lemma manifests_okD:
  assumes "manifests_ok mf"
  shows "Inr x \<in> set (embedded_crds mf) \<Longrightarrow> go_type x = TResource RCustomResourceDefinition"
    "Inr x \<in> set (embedded_crds mf) \<Longrightarrow> om_Namespace (o_Meta x) = []"
    "mf_NSASpecV10 mf = Inr x \<Longrightarrow> go_type x = TClusterComplianceReport" "mf_Policies mf = Inr x \<Longrightarrow> go_type x = TConfigMap"
    "mf_NSASpecV10 mf = Inr x \<Longrightarrow> om_Namespace (o_Meta x) = []"
    "mf_NSASpecV10 mf = Inr x \<Longrightarrow> om_Name (o_Meta x) = rs_Name (report_spec (o_Body x))"
proof -
  show "go_type x = TResource RCustomResourceDefinition" "om_Namespace (o_Meta x) = []" if "Inr x \<in> set (embedded_crds mf)"
    using named_crd_member [OF embedded_named [OF assms] that] by (auto simp: named_crd_def key_of_def)
qed (use assms in \<open>unfold manifests_ok_def, blast+\<close>)

text \<open>The keys by which the definitions are installed differ, so none overwrites another.\<close>

lemma install_crds_decoded:
  "for_each (install_crd c) crds s = (None, s') \<Longrightarrow> d \<in> set crds \<Longrightarrow> \<exists>x. d = Inr x"
proof (induction crds arbitrary: s)
  case (Cons e es)
  then show ?case by (cases e) (auto simp: install_crd_def split: prod.splits option.splits)
qed simp

lemma named_crds_distinct:
  assumes "list_all2 named_crd names ds" and "distinct names" and "\<forall>d \<in> set ds. \<exists>x. d = Inr x"
  shows "distinct (map (map_sum (\<lambda>e. e) (\<lambda>x. (go_type x, key_of x))) ds)"
  using assms
proof (induction rule: list_all2_induct)
  case (Cons n ns d ds)
  obtain x where x: "d = Inr x" using Cons.prems(2) by auto
  have "\<not> (\<exists>x'. Inr x' \<in> set ds \<and> key_of x' = key_of x)"
    using named_crd_member [OF Cons.hyps(2)] Cons.hyps(1) Cons.prems(1) x by (force simp: named_crd_def)
  then show ?case using Cons.IH Cons.prems x by (auto simp: map_sum_def image_iff split: sum.splits)
qed simp

text \<open>What the steps after the definitions of the report types touch.\<close>

lemma install_crds_touches:
  assumes "api_laws c" and "manifests_ok mf"
  shows "touches {TResource RCustomResourceDefinition} c s (snd (for_each (install_crd c) (embedded_crds mf) s))"
proof (rule touches_for_each)
  fix d s
  assume d: "d \<in> set (embedded_crds mf)"
  show "touches {TResource RCustomResourceDefinition} c s (snd (install_crd c d s))"
  proof (cases d)
    case (Inr x)
    then show ?thesis using create_or_update_touches [OF assms(1), of x] manifests_okD(1) [OF assms(2), of x] d by (simp add: install_crd_Inr)
  qed (simp add: install_crd_def)
qed

lemma ReadConfig_kept:
  assumes "ReadConfig c ns s = Inr config" and "\<And>t k x. cl_Get c s t k = Inr x \<Longrightarrow> cl_Get c s' t k = Inr x"
  shows "ReadConfig c ns s' = Inr config"
  using assms by (auto simp: ReadConfig_def split: sum.splits)

lemma ReadConfig_touches:
  assumes "touches T c s s'" and "TConfigMap \<notin> T" and "TSecret \<notin> T"
  shows "ReadConfig c ns s' = ReadConfig c ns s"
  using assms by (auto simp: ReadConfig_def touches_def split: sum.split)

lemma install_plugins_keeps:
  assumes "api_laws (rs_client r)" and "cl_Get (rs_client r) s t k = Inr x"
  shows "cl_Get (rs_client r) (snd (install_plugins r s)) t k = Inr x"
  unfolding install_plugins_def using plugin_init_keeps [OF assms(1)] assms(2)
  by (auto intro!: and_then_keeps [where P = "\<lambda>s. cl_Get (rs_client r) s t k = Inr x"] split: sum.split)

text \<open>The steps of a successful installation with what they touch.\<close>

lemma Install_steps:
  assumes "api_laws (in_client m)" and "manifests_ok (in_embedded m)" and "Install m s = (None, s')"
  obtains spec config s1 s2 s3 s4 s5 where
    "for_each (install_crd (in_client m)) (embedded_crds (in_embedded m)) s = (None, s1)" "mf_NSASpecV10 (in_embedded m) = Inr spec"
    "createOrUpdateComplianceSpec (in_client m) spec s1 = (None, s2)" "touches {TClusterComplianceReport} (in_client m) s1 s2"
    "createNamespaceIfNotFound (in_client m) namespace_obj s2 = (None, s3)" "touches {TNamespace} (in_client m) s2 s3"
    "touches {TConfigMap, TSecret} (in_client m) s3 s5"
    "ReadConfig (in_client m) NamespaceName s5 = Inr config" "initRBAC (in_client m) s5 = (None, s')"
proof -
  let ?c = "in_client m"
  note ok = manifests_okD [OF assms(2)]
  obtain spec config s1 s2 s3 s4 s5 where s1: "for_each (install_crd ?c) (embedded_crds (in_embedded m)) s = (None, s1)"
    and spec: "mf_NSASpecV10 (in_embedded m) = Inr spec" and s2: "createOrUpdateComplianceSpec ?c spec s1 = (None, s2)"
    and s3: "createNamespaceIfNotFound ?c namespace_obj s2 = (None, s3)"
    and s4: "EnsureDefault ?c NamespaceName (mf_Policies (in_embedded m)) s3 = (None, s4)"
    and config: "ReadConfig ?c NamespaceName s4 = Inr config"
    and s5: "install_plugins (install_resolver m config) s4 = (None, s5)" and s6: "initRBAC ?c s5 = (None, s')"
    using assms(3) by (elim InstallE)
  have cl: "rs_client (install_resolver m config) = ?c" by (simp add: install_resolver_def)
  have t2: "touches {TClusterComplianceReport} ?c s1 s2"
    using createOrUpdateComplianceSpec_touches [OF assms(1) ok(3) [OF spec], of s1] s2 by simp
  have t3: "touches {TNamespace} ?c s2 s3"
    using createNamespaceIfNotFound_touches [OF assms(1), of namespace_obj s2] s3 by (simp add: namespace_obj_def)
  have t4: "touches {TConfigMap, TSecret} ?c s3 s4"
    using EnsureDefault_touches [where s = s3 and ns = NamespaceName and pol = "mf_Policies (in_embedded m)", OF assms(1) ok(4)] s4 by simp
  have t5: "touches {TConfigMap} ?c s4 s5" using install_plugins_touches [of "install_resolver m config" s4] assms(1) s5 cl by simp
  have "ReadConfig ?c NamespaceName s5 = Inr config"
    using ReadConfig_kept [OF config] install_plugins_keeps [of "install_resolver m config" s4] assms(1) s5 cl by simp
  then show thesis using that [OF s1 spec s2 t2 s3 t3 _ _ s6] touches_mono [OF touches_trans [OF t4 t5]] by simp
qed

text \<open>The waiting loop returns when a poll finds the namespace gone, and only then.\<close>

definition ns_gone :: "'s client \<Rightarrow> 's \<Rightarrow> bool" where
  "ns_gone c s \<longleftrightarrow> (case cl_Get c s TNamespace \<lparr>key_Namespace = [], key_Name = NamespaceName\<rparr> of
     Inl err \<Rightarrow> IsNotFound err | Inr _ \<Rightarrow> False)"

lemma cleanup_loop_unfold:
  "cleanup_loop c elapse s = (if ns_gone c (elapse s) then Some (None, elapse s) else cleanup_loop c elapse (elapse s))"
  by (subst cleanup_loop.simps)
     (auto simp: ns_gone_def cleanupPollingInterval_def cleanupTimeout_def Second_def Let_def split: sum.split)

lemma cleanup_loop_returned:
  assumes "cleanup_loop c elapse s = Some r"
  shows "\<exists>n. r = (None, (elapse ^^ Suc n) s) \<and> ns_gone c ((elapse ^^ Suc n) s) \<and> (\<forall>m < n. \<not> ns_gone c ((elapse ^^ Suc m) s))"
proof (rule cleanup_loop.raw_induct [where P = "\<lambda>c elapse s r. \<exists>n. r = (None, (elapse ^^ Suc n) s) \<and>
      ns_gone c ((elapse ^^ Suc n) s) \<and> (\<forall>m < n. \<not> ns_gone c ((elapse ^^ Suc m) s))", OF _ assms])
  fix loop c elapse s r
  assume IH: "\<And>(c :: 'a client) elapse s r. loop c elapse s = Some r \<Longrightarrow>
      \<exists>n. r = (None, (elapse ^^ Suc n) s) \<and> ns_gone c ((elapse ^^ Suc n) s) \<and> (\<forall>m < n. \<not> ns_gone c ((elapse ^^ Suc m) s))"
    and step: "(let s1 = elapse s in
      if cleanupPollingInterval < cleanupTimeout
      then (case cl_Get c s1 TNamespace \<lparr>key_Namespace = [], key_Name = NamespaceName\<rparr> of
              Inl err \<Rightarrow> if IsNotFound err then Some (None, s1) else loop c elapse s1
            | Inr _ \<Rightarrow> loop c elapse s1)
      else Some (Some (Errorf ''deleting namespace timed out''), s1)) = Some r"
  show "\<exists>n. r = (None, (elapse ^^ Suc n) s) \<and> ns_gone c ((elapse ^^ Suc n) s) \<and> (\<forall>m < n. \<not> ns_gone c ((elapse ^^ Suc m) s))"
  proof (cases "ns_gone c (elapse s)")
    case True
    then have "r = (None, elapse s)"
      using step by (auto simp: ns_gone_def cleanupPollingInterval_def cleanupTimeout_def Second_def Let_def split: sum.splits)
    with True show ?thesis by (intro exI [of _ 0]) simp
  next
    case False
    then have "loop c elapse (elapse s) = Some r"
      using step by (auto simp: ns_gone_def cleanupPollingInterval_def cleanupTimeout_def Second_def Let_def split: sum.splits if_splits)
    from IH [OF this] obtain n where n: "r = (None, (elapse ^^ Suc n) (elapse s))" "ns_gone c ((elapse ^^ Suc n) (elapse s))"
      "\<forall>m < n. \<not> ns_gone c ((elapse ^^ Suc m) (elapse s))" by blast
    have shift: "(elapse ^^ Suc k) (elapse s) = (elapse ^^ Suc (Suc k)) s" for k by (simp add: funpow_swap1)
    have "\<not> ns_gone c ((elapse ^^ Suc m) s)" if "m < Suc n" for m
      using that n(3) False shift by (cases m) auto
    with n(1,2) shift show ?thesis by (intro exI [of _ "Suc n"]) metis
  qed
qed

lemma cleanup_loop_returns: "ns_gone c ((elapse ^^ Suc n) s) \<Longrightarrow> \<exists>r. cleanup_loop c elapse s = Some r"
proof (induction n arbitrary: s)
  case (Suc n)
  then show ?case
    using Suc.IH [of "elapse s"] by (subst cleanup_loop_unfold) (auto simp: funpow_swap1)
qed (subst cleanup_loop_unfold, simp)

lemma deleted_or_absent:
  assumes "api_laws c" and "ignore_err IsNotFound (cl_Delete c s x) = (None, s')"
  shows "cl_Get c s' (go_type x) (key_of x) = Inl NotFound" "only_changes c s s' (go_type x) (key_of x)"
proof -
  have "cl_Get c s' (go_type x) (key_of x) = Inl NotFound \<and> only_changes c s s' (go_type x) (key_of x)"
  proof (cases "cl_Delete c s x")
    case (Pair r s1)
    show ?thesis
    proof (cases r)
      case None
      then show ?thesis using delete_ok [OF assms(1) Pair [unfolded None]] assms(2) Pair by simp
    next
      case (Some e)
      then have "IsNotFound e" "s' = s1" using assms(2) Pair by (auto simp: ignore_err_def split: if_splits)
      then show ?thesis using delete_notfound [OF assms(1) Pair [unfolded Some]] by (simp add: only_changes_def)
    qed
  qed
  then show "cl_Get c s' (go_type x) (key_of x) = Inl NotFound" "only_changes c s s' (go_type x) (key_of x)" by blast+
qed

lemma absent_kept:
  assumes "api_laws c" and "ignore_err IsNotFound (cl_Delete c s x) = (None, s')" and "cl_Get c s t k = Inl NotFound"
  shows "cl_Get c s' t k = Inl NotFound"
  using deleted_or_absent [OF assms(1,2)] assms(3) by (cases "(t, k) = (go_type x, key_of x)") (auto simp: only_changes_def)

text \<open>A sequence of such deletes removes every object of it.\<close>

lemma deleted_all:
  assumes "api_laws c" and "for_each (\<lambda>x s. ignore_err IsNotFound (cl_Delete c s x)) xs s = (None, s')"
  shows "x \<in> set xs \<Longrightarrow> cl_Get c s' (go_type x) (key_of x) = Inl NotFound"
    and "cl_Get c s t k = Inl NotFound \<Longrightarrow> cl_Get c s' t k = Inl NotFound"
  using assms(2)
proof (induction xs arbitrary: s t k)
  case (Cons y ys)
  {
    case 1
    then obtain s1 where s1: "ignore_err IsNotFound (cl_Delete c s y) = (None, s1)"
      "for_each (\<lambda>x s. ignore_err IsNotFound (cl_Delete c s x)) ys s1 = (None, s')"
      by (auto split: prod.splits option.splits)
    then show ?case using 1 Cons.IH deleted_or_absent(1) [OF assms(1) s1(1)] by auto
  next
    case 2
    then obtain s1 where s1: "ignore_err IsNotFound (cl_Delete c s y) = (None, s1)"
      "for_each (\<lambda>x s. ignore_err IsNotFound (cl_Delete c s x)) ys s1 = (None, s')"
      by (auto split: prod.splits option.splits)
    show ?case by (rule Cons.IH(2) [OF absent_kept [OF assms(1) s1(1) 2(1)] s1(2)])
  }
qed simp_all

text \<open>The objects that an uninstallation deletes before the namespace, in its order.\<close>

definition uninstalled :: "Object list" where
  "uninstalled = map (named_obj (Resource RCustomResourceDefinition []) []) crd_names @
     [named_obj (Resource RClusterRoleBinding []) [] clusterRoleBindingStarboard, named_obj (Resource RClusterRole []) [] clusterRoleStarboard,
      named_obj (ServiceAccount [] None) NamespaceName ServiceAccountName, named_obj (ConfigMap []) NamespaceName ConfigMapName,
      named_obj (ConfigMap []) NamespaceName (GetPluginConfigMapName ''Polaris''), named_obj (Secret [] []) NamespaceName SecretName]"

abbreviation all_deletes :: "'s client \<Rightarrow> 's \<Rightarrow> error option \<times> 's" where
  "all_deletes c \<equiv> for_each (\<lambda>x s. ignore_err IsNotFound (cl_Delete c s x)) (uninstalled @ [named_obj Namespace [] NamespaceName])"

lemma key_of_named_obj [simp]: "key_of (named_obj b ns name) = \<lparr>key_Namespace = ns, key_Name = name\<rparr>"
    "o_Body (named_obj b ns name) = b"
  by (simp_all add: named_obj_def key_of_def empty_meta_def)

lemma for_each_map: "for_each f (map g xs) s = for_each (\<lambda>x. f (g x)) xs s"
  by (induction xs arbitrary: s) (auto split: prod.splits option.splits)

lemma for_each_Cons: "for_each f (x # xs) s = and_then (f x s) (for_each f xs)"
  by (auto split: prod.splits option.splits)

lemma Uninstall_deletes:
  "Uninstall m s = (case all_deletes (in_client m) s of
     (Some e, s1) \<Rightarrow> Some (Some e, s1) | (None, s1) \<Rightarrow> cleanup_loop (in_client m) (in_elapse m) s1)"
proof -
  have crds: "for_each (deleteCRD (in_client m)) crd_names s = for_each (\<lambda>x s. ignore_err IsNotFound (cl_Delete (in_client m) s x))
      (map (named_obj (Resource RCustomResourceDefinition []) []) crd_names) s"
    by (simp add: for_each_map deleteCRD_def [abs_def])
  show ?thesis
    unfolding Uninstall_def uninstalled_def for_each_append crds cleanupRBAC_def DeleteConfig_def cleanupNamespace_def for_each_Cons
    by (auto split: prod.split option.split simp: and_then_def)
qed

section \<open>Properties\<close>

text \<open>What the text of a role allows, and the subjects to which the text of a binding gives a role.\<close>

definition rule_lists :: "json \<Rightarrow> string \<Rightarrow> string \<Rightarrow> bool" where
  "rule_lists rule field v \<longleftrightarrow> (\<exists>kvs xs. rule = JObject kvs \<and> map_of kvs field = Some (JArray xs) \<and> JString v \<in> set xs)"

definition role_allows :: "string \<Rightarrow> string \<Rightarrow> string \<Rightarrow> string \<Rightarrow> bool" where
  "role_allows rules verb apiGroup resource \<longleftrightarrow> (\<exists>rs. json_parse rules = Some (JArray rs) \<and>
     (\<exists>rule \<in> set rs. rule_lists rule ''verbs'' verb \<and> rule_lists rule ''apiGroups'' apiGroup \<and> rule_lists rule ''resources'' resource))"

lemma policy_rule_lists:
  "rule_lists (policy_rule grp rs) ''verbs'' v \<longleftrightarrow> v \<in> {''get'', ''list''}"
  "rule_lists (policy_rule grp rs) ''apiGroups'' v \<longleftrightarrow> v = grp"
  "rule_lists (policy_rule grp rs) ''resources'' v \<longleftrightarrow> v \<in> set rs"
  by (auto simp: rule_lists_def policy_rule_def)

lemma clusterRole_allows:
  "\<exists>rules. o_Body clusterRole = Resource RClusterRole rules \<and> (\<forall>verb apiGroup resource.
     role_allows rules verb apiGroup resource \<longleftrightarrow> verb \<in> {''get'', ''list''} \<and>
       (apiGroup = [] \<and> resource \<in> {''nodes'', ''namespaces'', ''pods''} \<or>
        apiGroup = ''apps'' \<and> resource \<in> {''deployments'', ''statefulsets'', ''daemonsets'', ''replicationcontrollers'', ''replicasets''} \<or>
        apiGroup = ''batch'' \<and> resource \<in> {''jobs'', ''cronjobs''}))"
proof -
  let ?rules = "[policy_rule [] [''nodes'', ''namespaces'', ''pods''],
      policy_rule ''apps'' [''deployments'', ''statefulsets'', ''daemonsets'', ''replicationcontrollers'', ''replicasets''],
      policy_rule ''batch'' [''jobs'', ''cronjobs'']]"
  have parsed: "json_parse (encode_json (JArray ?rules)) = Some (JArray ?rules)"
    by (rule json_parse_encoded) (simp add: policy_rule_def)
  have body: "o_Body clusterRole = Resource RClusterRole (encode_json (JArray ?rules))" by (simp add: clusterRole_def)
  have allows: "role_allows rules verb apiGroup resource \<longleftrightarrow> verb \<in> {''get'', ''list''} \<and>
       (apiGroup = [] \<and> resource \<in> {''nodes'', ''namespaces'', ''pods''} \<or>
        apiGroup = ''apps'' \<and> resource \<in> {''deployments'', ''statefulsets'', ''daemonsets'', ''replicationcontrollers'', ''replicasets''} \<or>
        apiGroup = ''batch'' \<and> resource \<in> {''jobs'', ''cronjobs''})"
    if "json_parse rules = Some (JArray ?rules)" for rules verb apiGroup resource
    unfolding role_allows_def that by (simp add: policy_rule_lists conj_disj_distribL)
  show ?thesis by (rule exI, rule conjI, rule body, intro allI, rule allows [OF parsed])
qed

lemma clusterRoleBinding_binds:
  "\<exists>b. o_Body clusterRoleBinding = Resource RClusterRoleBinding b \<and> json_parse b = Some (JArray
     [JObject [(''apiGroup'', JString ''rbac.authorization.k8s.io''), (''kind'', JString ''ClusterRole''), (''name'', JString ''starboard'')],
      JArray [JObject [(''kind'', JString ''ServiceAccount''), (''name'', JString ''starboard''), (''namespace'', JString ''starboard'')]]])"
  unfolding clusterRoleBinding_def clusterRoleStarboard_def ServiceAccountName_def NamespaceName_def
  unfolding Object.select_convs by (rule exI, rule conjI, rule refl, rule json_parse_encoded) simp

lemma rbac_keys:
  "key_of clusterRole = \<lparr>key_Namespace = [], key_Name = ''starboard''\<rparr>"
  "key_of clusterRoleBinding = \<lparr>key_Namespace = [], key_Name = ''starboard''\<rparr>"
  by (simp_all add: clusterRole_def clusterRoleBinding_def cluster_meta_def empty_meta_def key_of_def clusterRoleStarboard_def
      clusterRoleBindingStarboard_def)

text \<open>
  C20. After a successful installation everything the tool needs is in the cluster: the definition of each of the eight report
  types, under its name and with the specification of its embedded manifest, also where an older one was; the namespace
  \<open>starboard\<close>; a readable configuration; the service account \<open>starboard\<close>; a role \<open>starboard\<close> that allows exactly
  to get and to list nodes, namespaces, pods, the workloads of the group apps, jobs and cron jobs; and a binding that gives this role to
  that service account and to nobody else.
\<close>

theorem install_complete:
  assumes "api_laws (in_client m)" and "manifests_ok (in_embedded m)" and "Install m s = (None, s')"
  shows "(\<forall>(name, manifest) \<in> set
      [(''vulnerabilityreports.aquasecurity.github.io'', mf_VulnerabilityReportsCRD (in_embedded m)),
       (''clustervulnerabilityreports.aquasecurity.github.io'', mf_ClusterVulnerabilityReportsCRD (in_embedded m)),
       (''ciskubebenchreports.aquasecurity.github.io'', mf_CISKubeBenchReportsCRD (in_embedded m)),
       (''kubehunterreports.aquasecurity.github.io'', mf_KubeHunterReportsCRD (in_embedded m)),
       (''configauditreports.aquasecurity.github.io'', mf_ConfigAuditReportsCRD (in_embedded m)),
       (''clusterconfigauditreports.aquasecurity.github.io'', mf_ClusterConfigAuditReportsCRD (in_embedded m)),
       (''clustercompliancereports.aquasecurity.github.io'', mf_ClusterComplianceReportsCRD (in_embedded m)),
       (''clustercompliancedetailreports.aquasecurity.github.io'', mf_ClusterComplianceDetailReportsCRD (in_embedded m))].
      \<exists>x y. manifest = Inr x \<and>
        cl_Get (in_client m) s' (TResource RCustomResourceDefinition) \<lparr>key_Namespace = [], key_Name = name\<rparr> = Inr y \<and>
        o_Body y = o_Body x) \<and>
    (\<exists>ns. cl_Get (in_client m) s' TNamespace \<lparr>key_Namespace = [], key_Name = ''starboard''\<rparr> = Inr ns) \<and>
    (\<exists>config. ReadConfig (in_client m) ''starboard'' s' = Inr config) \<and>
    (\<exists>sa. cl_Get (in_client m) s' TServiceAccount \<lparr>key_Namespace = ''starboard'', key_Name = ''starboard''\<rparr> = Inr sa) \<and>
    (\<exists>y rules. cl_Get (in_client m) s' (TResource RClusterRole) \<lparr>key_Namespace = [], key_Name = ''starboard''\<rparr> = Inr y \<and>
       o_Body y = Resource RClusterRole rules \<and> (\<forall>verb apiGroup resource.
       role_allows rules verb apiGroup resource \<longleftrightarrow> verb \<in> {''get'', ''list''} \<and>
         (apiGroup = [] \<and> resource \<in> {''nodes'', ''namespaces'', ''pods''} \<or>
          apiGroup = ''apps'' \<and> resource \<in> {''deployments'', ''statefulsets'', ''daemonsets'', ''replicationcontrollers'', ''replicasets''} \<or>
          apiGroup = ''batch'' \<and> resource \<in> {''jobs'', ''cronjobs''}))) \<and>
    (\<exists>y b. cl_Get (in_client m) s' (TResource RClusterRoleBinding) \<lparr>key_Namespace = [], key_Name = ''starboard''\<rparr> = Inr y \<and>
       o_Body y = Resource RClusterRoleBinding b \<and> json_parse b = Some (JArray
       [JObject [(''apiGroup'', JString ''rbac.authorization.k8s.io''), (''kind'', JString ''ClusterRole''), (''name'', JString ''starboard'')],
        JArray [JObject [(''kind'', JString ''ServiceAccount''), (''name'', JString ''starboard''), (''namespace'', JString ''starboard'')]]]))"
proof -
  let ?c = "in_client m"
  note ok = manifests_okD [OF assms(2)]
  obtain config s1 s2 s3 s5 where s1: "for_each (install_crd ?c) (embedded_crds (in_embedded m)) s = (None, s1)"
    and t2: "touches {TClusterComplianceReport} ?c s1 s2" and s3: "createNamespaceIfNotFound ?c namespace_obj s2 = (None, s3)"
    and t3: "touches {TNamespace} ?c s2 s3" and t4: "touches {TConfigMap, TSecret} ?c s3 s5"
    and config: "ReadConfig ?c NamespaceName s5 = Inr config" and s6: "initRBAC ?c s5 = (None, s')"
    by (rule Install_steps [OF assms])
  note t6 = initRBAC_stored(4) [OF assms(1) s6]
  have decoded: "\<forall>d \<in> set (embedded_crds (in_embedded m)). \<exists>x. d = Inr x" using install_crds_decoded [OF s1] by blast
  define present where "present name d \<longleftrightarrow> (\<exists>x y. d = Inr x \<and>
      cl_Get ?c s' (TResource RCustomResourceDefinition) \<lparr>key_Namespace = [], key_Name = name\<rparr> = Inr y \<and> o_Body y = o_Body x)"
    for name and d :: "error + Object"
  let ?names = "[''vulnerabilityreports'', ''clustervulnerabilityreports'', ''ciskubebenchreports'', ''kubehunterreports'',
    ''configauditreports'', ''clusterconfigauditreports'', ''clustercompliancereports'', ''clustercompliancedetailreports'']"
  note named = embedded_named [OF assms(2)]
  have dist: "distinct (map (map_sum (\<lambda>e. e) (\<lambda>x. (go_type x, key_of x))) (embedded_crds (in_embedded m)))"
    by (rule named_crds_distinct [OF named _ decoded]) simp
  have "present (name @ ''.aquasecurity.github.io'') d"
    if d: "d \<in> set (embedded_crds (in_embedded m))" and name: "named_crd name d" for d name
  proof -
    obtain x where x: "d = Inr x" using decoded d by blast
    have "cl_Get ?c s' (TResource RCustomResourceDefinition) (key_of x) = cl_Get ?c s1 (TResource RCustomResourceDefinition) (key_of x)"
      using t2 t3 t4 t6 by (simp add: touches_def)
    then show ?thesis
      using install_crds_stored [OF assms(1) s1 _ dist, of x] d name ok(2) x by (simp add: named_crd_def present_def)
  qed
  then have "list_all2 (\<lambda>name d. present (name @ ''.aquasecurity.github.io'') d) ?names (embedded_crds (in_embedded m))"
    by (intro list.rel_mono_strong [OF named])
  then have crds: "\<forall>(name, manifest) \<in> set
      [(''vulnerabilityreports.aquasecurity.github.io'', mf_VulnerabilityReportsCRD (in_embedded m)),
       (''clustervulnerabilityreports.aquasecurity.github.io'', mf_ClusterVulnerabilityReportsCRD (in_embedded m)),
       (''ciskubebenchreports.aquasecurity.github.io'', mf_CISKubeBenchReportsCRD (in_embedded m)),
       (''kubehunterreports.aquasecurity.github.io'', mf_KubeHunterReportsCRD (in_embedded m)),
       (''configauditreports.aquasecurity.github.io'', mf_ConfigAuditReportsCRD (in_embedded m)),
       (''clusterconfigauditreports.aquasecurity.github.io'', mf_ClusterConfigAuditReportsCRD (in_embedded m)),
       (''clustercompliancereports.aquasecurity.github.io'', mf_ClusterComplianceReportsCRD (in_embedded m)),
       (''clustercompliancedetailreports.aquasecurity.github.io'', mf_ClusterComplianceDetailReportsCRD (in_embedded m))]. present name manifest"
    by (simp add: embedded_crds_def)
  have ns: "\<exists>ns. cl_Get ?c s' TNamespace \<lparr>key_Namespace = [], key_Name = ''starboard''\<rparr> = Inr ns"
    using createNamespaceIfNotFound_present [OF assms(1) s3] t4 t6 by (simp add: touches_def NamespaceName_def)
  have cfg: "ReadConfig ?c ''starboard'' s' = Inr config" using config ReadConfig_touches [OF t6] by (simp add: NamespaceName_def)
  note rbac = initRBAC_stored(1-3) [OF assms(1) s6, unfolded rbac_keys NamespaceName_def ServiceAccountName_def]
  obtain role binding where role: "cl_Get ?c s' (TResource RClusterRole) \<lparr>key_Namespace = [], key_Name = ''starboard''\<rparr> = Inr role"
      "o_Body clusterRole = o_Body role"
    and binding: "cl_Get ?c s' (TResource RClusterRoleBinding) \<lparr>key_Namespace = [], key_Name = ''starboard''\<rparr> = Inr binding"
      "o_Body clusterRoleBinding = o_Body binding"
    using rbac(2,3) by (elim exE conjE) simp
  note role_allows = clusterRole_allows [unfolded role(2)] and binds = clusterRoleBinding_binds [unfolded binding(2)]
  show ?thesis
    unfolding present_def [symmetric]
    by (rule conjI [OF crds], rule conjI [OF ns], rule conjI, rule exI, rule cfg, rule conjI [OF rbac(1)], rule conjI,
        rule exI [of _ role], use role_allows in \<open>simp only: role(1) simp_thms\<close>,
        rule exI [of _ binding], use binds in \<open>simp only: binding(1) simp_thms\<close>)
qed

text \<open>
  C39. An installation never renews the compliance specification. Where a report with the name of the embedded one exists, then
  after a successful installation its name, description, schedule and version and the controls with their ids, names, kinds, mappings
  and severities are those it had before, whatever the embedded specification says: the read of the existing report overwrites the
  variable with the embedded one. Only a description or a default status that a stored control leaves empty is filled in, with that of
  the embedded control at the same position, whichever control that is.
\<close>

theorem compliance_spec_not_upgraded:
  assumes "api_laws (in_client m)" and "manifests_ok (in_embedded m)" and "Install m s = (None, s')"
    and "mf_NSASpecV10 (in_embedded m) = Inr spec"
    and "cl_Get (in_client m) s TClusterComplianceReport \<lparr>key_Namespace = [], key_Name = rs_Name (report_spec (o_Body spec))\<rparr> = Inr old"
  shows "\<exists>y. cl_Get (in_client m) s' TClusterComplianceReport \<lparr>key_Namespace = [], key_Name = rs_Name (report_spec (o_Body spec))\<rparr> = Inr y \<and>
    (let new = report_spec (o_Body y); stored = report_spec (o_Body old); embedded = rs_Controls (report_spec (o_Body spec)) in
      rs_Name new = rs_Name stored \<and> rs_Description new = rs_Description stored \<and> rs_Cron new = rs_Cron stored \<and>
      rs_Version new = rs_Version stored \<and> length (rs_Controls new) = length (rs_Controls stored) \<and>
      (\<forall>i < length (rs_Controls stored). let c = rs_Controls new ! i; c' = rs_Controls stored ! i in
         ct_ID c = ct_ID c' \<and> ct_Name c = ct_Name c' \<and> ct_Kinds c = ct_Kinds c' \<and> ct_Mapping c = ct_Mapping c' \<and>
         ct_Severity c = ct_Severity c' \<and>
         ct_Description c = (if ct_Description c' = [] \<and> i < length embedded then ct_Description (embedded ! i) else ct_Description c') \<and>
         ct_DefaultStatus c = (if ct_DefaultStatus c' = [] \<and> i < length embedded then ct_DefaultStatus (embedded ! i) else ct_DefaultStatus c')))"
proof -
  let ?c = "in_client m" and ?k = "\<lparr>key_Namespace = [], key_Name = rs_Name (report_spec (o_Body spec))\<rparr>"
  note ok = manifests_okD [OF assms(2)]
  obtain s1 s2 s3 s5 where s1: "for_each (install_crd ?c) (embedded_crds (in_embedded m)) s = (None, s1)"
    and s2: "createOrUpdateComplianceSpec ?c spec s1 = (None, s2)" and t3: "touches {TNamespace} ?c s2 s3"
    and t4: "touches {TConfigMap, TSecret} ?c s3 s5" and s6: "initRBAC ?c s5 = (None, s')"
    by (rule Install_steps [OF assms(1-3)]) (use assms(4) in auto)
  have get: "cl_Get ?c s1 TClusterComplianceReport ?k = Inr old"
    using install_crds_touches [OF assms(1,2), of s] s1 assms(5) by (simp add: touches_def)
  then have upd: "cl_Update ?c s1 (decode_into spec old) = (None, s2)" and old: "go_type old = TClusterComplianceReport" "key_of old = ?k"
    using s2 get_typed [OF assms(1) get] by (auto simp: createOrUpdateComplianceSpec_def)
  have key: "key_of (decode_into spec old) = ?k"
    using decode_into_key [of spec old] ok(5,6) [OF assms(4)] old(2) by simp
  obtain y where y: "cl_Get ?c s2 TClusterComplianceReport ?k = Inr y" "o_Body y = decode_body_into (o_Body spec) (o_Body old)"
  proof -
    obtain y where "same_content y (decode_into spec old)" "cl_Get ?c s2 TClusterComplianceReport ?k = Inr y"
      using update_ok(1) [OF assms(1) upd] old(1) key by auto
    moreover from this have "o_Body y = o_Body (decode_into spec old)" unfolding same_content_def by blast
    ultimately show thesis using that by (simp add: decode_into_def)
  qed
  have "cl_Get ?c s' TClusterComplianceReport ?k = cl_Get ?c s2 TClusterComplianceReport ?k"
    using t3 t4 initRBAC_stored(4) [OF assms(1) s6] by (simp add: touches_def)
  moreover obtain sp st sp' st' where "o_Body spec = ClusterComplianceReport sp st" "o_Body old = ClusterComplianceReport sp' st'"
    using ok(3) [OF assms(4)] old(1) by (cases "o_Body spec"; cases "o_Body old") auto
  ultimately show ?thesis
    using y by (intro exI [of _ y]) (auto simp: Let_def decode_slice_nth decode_Control_into_def unless_stored_def)
qed

text \<open>
  C22. When its delete is accepted, the removal of the namespace returns without an error with the first poll that finds the
  namespace gone, and never returns where no poll does: the timeout of thirty seconds cannot fire, because each round of the loop
  starts it anew beside the shorter polling timer.
\<close>

theorem cleanup_waits_for_namespace:
  assumes "ignore_err IsNotFound (cl_Delete c s (named_obj Namespace [] NamespaceName)) = (None, s1)"
  shows "cleanupNamespace c elapse s =
    (if \<exists>n. ns_gone c ((elapse ^^ Suc n) s1) then Some (None, (elapse ^^ Suc (LEAST n. ns_gone c ((elapse ^^ Suc n) s1))) s1) else None)"
proof -
  have loop: "cleanupNamespace c elapse s = cleanup_loop c elapse s1" using assms by (simp add: cleanupNamespace_def)
  show ?thesis
  proof (cases "cleanup_loop c elapse s1")
    case None
    then show ?thesis using loop cleanup_loop_returns [where c = c and elapse = elapse and s = s1] by fastforce
  next
    case (Some r)
    then obtain n where n: "r = (None, (elapse ^^ Suc n) s1)" "ns_gone c ((elapse ^^ Suc n) s1)" "\<forall>m < n. \<not> ns_gone c ((elapse ^^ Suc m) s1)"
      using cleanup_loop_returned [OF Some] by blast
    then have "(LEAST n. ns_gone c ((elapse ^^ Suc n) s1)) = n" by (intro Least_equality) (auto simp: linorder_not_less [symmetric])
    with n Some loop show ?thesis by auto
  qed
qed

text \<open>
  C21. An uninstallation that returns without an error has removed what an installation creates: the definitions of all eight
  report types, the role and its binding, the service account, the configuration map and the secret, and the settings of Polaris were
  absent when the wait for the namespace began, and the wait has ended with a poll that found the namespace \<open>starboard\<close>, and with it
  whatever else was in it, gone.
\<close>

theorem uninstall_removes_all:
  assumes "api_laws (in_client m)" and "Uninstall m s = Some (None, s')"
  shows "(\<exists>err. cl_Get (in_client m) s' TNamespace \<lparr>key_Namespace = [], key_Name = ''starboard''\<rparr> = Inl err \<and> IsNotFound err) \<and>
    (\<exists>s1 n. s' = (in_elapse m ^^ Suc n) s1 \<and>
      (\<forall>name \<in> {''vulnerabilityreports.aquasecurity.github.io'', ''clustervulnerabilityreports.aquasecurity.github.io'',
          ''ciskubebenchreports.aquasecurity.github.io'', ''kubehunterreports.aquasecurity.github.io'',
          ''configauditreports.aquasecurity.github.io'', ''clusterconfigauditreports.aquasecurity.github.io'',
          ''clustercompliancereports.aquasecurity.github.io'', ''clustercompliancedetailreports.aquasecurity.github.io''}.
        cl_Get (in_client m) s1 (TResource RCustomResourceDefinition) \<lparr>key_Namespace = [], key_Name = name\<rparr> = Inl NotFound) \<and>
      (\<forall>t \<in> {TResource RClusterRole, TResource RClusterRoleBinding}.
        cl_Get (in_client m) s1 t \<lparr>key_Namespace = [], key_Name = ''starboard''\<rparr> = Inl NotFound) \<and>
      (\<forall>t \<in> {TServiceAccount, TConfigMap, TSecret}.
        cl_Get (in_client m) s1 t \<lparr>key_Namespace = ''starboard'', key_Name = ''starboard''\<rparr> = Inl NotFound) \<and>
      cl_Get (in_client m) s1 TConfigMap \<lparr>key_Namespace = ''starboard'', key_Name = ''starboard-polaris-config''\<rparr> = Inl NotFound)"
proof -
  obtain s1 where s1: "all_deletes (in_client m) s = (None, s1)"
    and loop: "cleanup_loop (in_client m) (in_elapse m) s1 = Some (None, s')"
    using assms(2) by (auto simp: Uninstall_deletes split: prod.splits option.splits)
  obtain n where n: "s' = (in_elapse m ^^ Suc n) s1" "ns_gone (in_client m) s'" using cleanup_loop_returned [OF loop] by auto
  have gone: "cl_Get (in_client m) s1 (go_type (named_obj b ns name)) \<lparr>key_Namespace = ns, key_Name = name\<rparr> = Inl NotFound"
    if "named_obj b ns name \<in> set uninstalled" for b ns name
    using deleted_all(1) [OF assms(1) s1, of "named_obj b ns name"] that by simp
  have "\<forall>name \<in> set crd_names. cl_Get (in_client m) s1 (TResource RCustomResourceDefinition) \<lparr>key_Namespace = [], key_Name = name\<rparr> = Inl NotFound"
    using gone [of "Resource RCustomResourceDefinition []" "[]"] by (simp add: uninstalled_def)
  moreover have "set crd_names = {''vulnerabilityreports.aquasecurity.github.io'', ''clustervulnerabilityreports.aquasecurity.github.io'',
      ''ciskubebenchreports.aquasecurity.github.io'', ''kubehunterreports.aquasecurity.github.io'',
      ''configauditreports.aquasecurity.github.io'', ''clusterconfigauditreports.aquasecurity.github.io'',
      ''clustercompliancereports.aquasecurity.github.io'', ''clustercompliancedetailreports.aquasecurity.github.io''}"
    by (simp add: crd_names_def)
  moreover have "cl_Get (in_client m) s1 t \<lparr>key_Namespace = [], key_Name = ''starboard''\<rparr> = Inl NotFound"
    if "t \<in> {TResource RClusterRole, TResource RClusterRoleBinding}" for t
    using that gone [of "Resource RClusterRole []" "[]" clusterRoleStarboard]
      gone [of "Resource RClusterRoleBinding []" "[]" clusterRoleBindingStarboard]
    by (auto simp: uninstalled_def clusterRoleStarboard_def clusterRoleBindingStarboard_def)
  moreover have "cl_Get (in_client m) s1 t \<lparr>key_Namespace = ''starboard'', key_Name = ''starboard''\<rparr> = Inl NotFound"
    if "t \<in> {TServiceAccount, TConfigMap, TSecret}" for t
    using that gone [of "ServiceAccount [] None" NamespaceName ServiceAccountName] gone [of "ConfigMap []" NamespaceName ConfigMapName]
      gone [of "Secret [] []" NamespaceName SecretName]
    by (auto simp: uninstalled_def NamespaceName_def ServiceAccountName_def ConfigMapName_def SecretName_def)
  moreover have "GetPluginConfigMapName ''Polaris'' = ''starboard-polaris-config''" by code_simp
  then have "cl_Get (in_client m) s1 TConfigMap \<lparr>key_Namespace = ''starboard'', key_Name = ''starboard-polaris-config''\<rparr> = Inl NotFound"
    using gone [of "ConfigMap []" NamespaceName "GetPluginConfigMapName ''Polaris''"] by (simp add: uninstalled_def NamespaceName_def)
  moreover have "\<exists>err. cl_Get (in_client m) s' TNamespace \<lparr>key_Namespace = [], key_Name = ''starboard''\<rparr> = Inl err \<and> IsNotFound err"
    using n(2) by (auto simp: ns_gone_def NamespaceName_def split: sum.splits)
  ultimately show ?thesis using n(1) by (metis (no_types, lifting))
qed

text \<open>An installation in memory succeeds wherever the default configuration can be read.\<close>

lemma mem_Get_Inl: "mem_Get s t k = Inl e \<Longrightarrow> e = NotFound"
  by (auto simp: mem_Get_def split: option.splits)

lemma mem_create_ok:
  assumes "mem_Get s (go_type x) (key_of x) = Inl e"
  shows "mem_Create s x = (Inr x, x # s)"
proof -
  have "\<not> (\<exists>y \<in> set s. same_id x y)" using assms by (auto simp: mem_Get_def find_None_iff same_id_def split: option.splits)
  then show ?thesis by (simp add: mem_Create_def)
qed

lemma mem_update_ok: "mem_Get s (go_type x) (key_of x) = Inr y \<Longrightarrow> \<exists>s'. mem_Update s x = (None, s')"
  using mem_Get_Inr [of s "go_type x" "key_of x" y] by (auto simp: mem_Update_def same_id_def intro!: bexI [of _ y])

lemma mem_create_or_update:
  assumes "om_Namespace (o_Meta x) = []"
  shows "\<exists>s'. create_or_update mem_client x s = (None, s')"
proof -
  have key: "key_of x = \<lparr>key_Namespace = [], key_Name = om_Name (o_Meta x)\<rparr>" using assms by (simp add: key_of_def)
  show ?thesis
  proof (cases "mem_Get s (go_type x) (key_of x)")
    case (Inl e)
    then show ?thesis using mem_create_ok [OF Inl] mem_Get_Inl [OF Inl] by (simp add: create_or_update_def key)
  next
    case (Inr y)
    have "key_of (y\<lparr>o_Body := o_Body x\<rparr>) = key_of x" using mem_Get_Inr [OF Inr] by (simp add: key_of_def)
    then show ?thesis using Inr mem_update_ok [of s "y\<lparr>o_Body := o_Body x\<rparr>" y] by (simp add: create_or_update_def flip: key)
  qed
qed

lemma mem_install_crds:
  assumes "\<forall>d \<in> set crds. \<exists>x. d = Inr x \<and> om_Namespace (o_Meta x) = []"
  shows "\<exists>s'. for_each (install_crd mem_client) crds s = (None, s')"
  using assms
proof (induction crds arbitrary: s)
  case (Cons d ds)
  then obtain x where x: "d = Inr x" "om_Namespace (o_Meta x) = []" by auto
  obtain s1 where "create_or_update mem_client x s = (None, s1)" using mem_create_or_update [OF x(2)] by blast
  then show ?case using Cons x(1) by (simp add: install_crd_Inr)
qed simp

lemma mem_initRBAC: "\<exists>s'. initRBAC mem_client s = (None, s')"
proof -
  have sa: "om_Namespace (o_Meta serviceAccount) = []" "om_Name (o_Meta serviceAccount) = ServiceAccountName"
    "go_type serviceAccount = TServiceAccount"
    "om_Namespace (o_Meta clusterRole) = []" "om_Namespace (o_Meta clusterRoleBinding) = []"
    by (simp_all add: serviceAccount_def cluster_meta_def empty_meta_def clusterRole_def clusterRoleBinding_def)
  have key: "key_of (set_namespace NamespaceName serviceAccount) = \<lparr>key_Namespace = NamespaceName, key_Name = ServiceAccountName\<rparr>"
    by (simp add: key_of_def sa)
  have "\<exists>s1. createServiceAccountIfNotFound mem_client serviceAccount s = (None, s1)"
  proof (cases "mem_Get s TServiceAccount \<lparr>key_Namespace = NamespaceName, key_Name = ServiceAccountName\<rparr>")
    case (Inl e)
    then show ?thesis
      using mem_create_ok [of s "set_namespace NamespaceName serviceAccount"] mem_Get_Inl [OF Inl]
      by (simp add: createServiceAccountIfNotFound_def create_in_def sa key)
  qed (simp add: createServiceAccountIfNotFound_def sa)
  then obtain s1 where s1: "createServiceAccountIfNotFound mem_client serviceAccount s = (None, s1)" by blast
  obtain s2 where s2: "create_or_update mem_client clusterRole s1 = (None, s2)" using mem_create_or_update [OF sa(4)] by blast
  obtain s3 where "create_or_update mem_client clusterRoleBinding s2 = (None, s3)" using mem_create_or_update [OF sa(5)] by blast
  then show ?thesis by (simp add: initRBAC_def createOrUpdateClusterRole_def createOrUpdateClusterRoleBinding_def s1 s2)
qed

definition sample_crd :: "string \<Rightarrow> Object" where
  "sample_crd name = \<lparr>o_Kind = [], o_Meta = empty_meta\<lparr>om_Name := name @ ''.aquasecurity.github.io''\<rparr>,
     o_Body = Resource RCustomResourceDefinition ''new''\<rparr>"

text \<open>A specification with one control, named after the version; the second version has another control with a default status.\<close>

definition sample_compliance :: "string \<Rightarrow> Object" where
  "sample_compliance version = \<lparr>o_Kind = [], o_Meta = empty_meta\<lparr>om_Name := ''nsa''\<rparr>, o_Body = ClusterComplianceReport
     \<lparr>rs_Name = ''nsa'', rs_Description = [], rs_Cron = [], rs_Version = version, rs_Controls =
       [\<lparr>ct_ID = version, ct_Name = [], ct_Description = [], ct_Kinds = [], ct_Mapping = \<lparr>mp_Scanner = [], mp_Checks = []\<rparr>,
         ct_Severity = SeverityLow, ct_DefaultStatus = (if version = ''2'' then ''FAIL'' else [])\<rparr>]\<rparr>
     \<lparr>st_UpdateTimestamp = 0, st_Summary = \<lparr>ccs_PassCount = 0, ccs_FailCount = 0\<rparr>, st_ControlChecks = []\<rparr>\<rparr>"

definition sample_installer :: "Object list Installer" where
  "sample_installer = \<lparr>in_version = ''0.15.4'', in_client = mem_client, in_libs = rt_libs sample_runtime, in_env = rt_env sample_runtime,
     in_embedded = \<lparr>mf_VulnerabilityReportsCRD = Inr (sample_crd ''vulnerabilityreports''), mf_ClusterVulnerabilityReportsCRD = Inr (sample_crd ''clustervulnerabilityreports''),
       mf_CISKubeBenchReportsCRD = Inr (sample_crd ''ciskubebenchreports''), mf_KubeHunterReportsCRD = Inr (sample_crd ''kubehunterreports''),
       mf_ConfigAuditReportsCRD = Inr (sample_crd ''configauditreports''), mf_ClusterConfigAuditReportsCRD = Inr (sample_crd ''clusterconfigauditreports''),
       mf_ClusterComplianceReportsCRD = Inr (sample_crd ''clustercompliancereports''), mf_ClusterComplianceDetailReportsCRD = Inr (sample_crd ''clustercompliancedetailreports''),
       mf_NSASpecV10 = Inr (sample_compliance ''2''), mf_Policies = rt_PoliciesConfigMap sample_runtime\<rparr>,
     in_elapse = (\<lambda>s. s)\<rparr>"

lemma sample_installer_ok: "in_client sample_installer = mem_client" "manifests_ok (in_embedded sample_installer)"
  "\<forall>d \<in> set (embedded_crds (in_embedded sample_installer)). \<exists>x. d = Inr x \<and> om_Namespace (o_Meta x) = []"
  "mf_NSASpecV10 (in_embedded sample_installer) = Inr (sample_compliance ''2'')"
  "mf_Policies (in_embedded sample_installer) = rt_PoliciesConfigMap sample_runtime"
  by (simp_all add: sample_installer_def manifests_ok_def named_crd_def embedded_crds_def sample_crd_def sample_compliance_def key_of_def
      empty_meta_def sample_runtime_def)

lemma mem_compliance: "\<exists>s'. createOrUpdateComplianceSpec mem_client (sample_compliance v) s = (None, s')"
proof -
  have key: "rs_Name (report_spec (o_Body (sample_compliance v))) = ''nsa''" "go_type (sample_compliance v) = TClusterComplianceReport"
    "key_of (sample_compliance v) = \<lparr>key_Namespace = [], key_Name = ''nsa''\<rparr>"
    by (simp_all add: sample_compliance_def key_of_def empty_meta_def)
  show ?thesis
  proof (cases "mem_Get s TClusterComplianceReport \<lparr>key_Namespace = [], key_Name = ''nsa''\<rparr>")
    case (Inl e)
    then show ?thesis
      using mem_create_ok [of s "sample_compliance v"] mem_Get_Inl [OF Inl] by (simp add: createOrUpdateComplianceSpec_def key)
  next
    case (Inr y)
    have "key_of (decode_into (sample_compliance v) y) = key_of y"
      using mem_Get_Inr [OF Inr] by (intro decode_into_key) (simp_all add: sample_compliance_def empty_meta_def)
    then show ?thesis
      using Inr mem_update_ok [of s "decode_into (sample_compliance v) y" y] mem_Get_Inr [OF Inr]
      by (simp add: createOrUpdateComplianceSpec_def key)
  qed
qed

lemma mem_namespace: "\<exists>s'. createNamespaceIfNotFound mem_client namespace_obj s = (None, s')"
proof (cases "mem_Get s TNamespace \<lparr>key_Namespace = [], key_Name = NamespaceName\<rparr>")
  case (Inl e)
  have key: "go_type namespace_obj = TNamespace" "key_of namespace_obj = \<lparr>key_Namespace = [], key_Name = NamespaceName\<rparr>"
    "om_Name (o_Meta namespace_obj) = NamespaceName"
    by (simp_all add: namespace_obj_def cluster_meta_def key_of_def empty_meta_def)
  show ?thesis
    using mem_create_ok [of s namespace_obj] Inl mem_Get_Inl [OF Inl] by (simp add: createNamespaceIfNotFound_def key)
qed (simp add: createNamespaceIfNotFound_def namespace_obj_def cluster_meta_def)

lemma mem_deletes: "\<exists>s'. for_each (\<lambda>x s. ignore_err IsNotFound (cl_Delete mem_client s x)) xs s = (None, s')"
proof (induction xs arbitrary: s)
  case (Cons x xs)
  obtain s1 where "ignore_err IsNotFound (cl_Delete mem_client s x) = (None, s1)"
    by (cases "mem_Delete s x") (auto simp: mem_Delete_def ignore_err_def split: if_splits)
  then show ?case using Cons by simp
qed simp

lemma mem_ensure_present:
  assumes "\<exists>x. mem_Get s TConfigMap \<lparr>key_Namespace = ns, key_Name = ConfigMapName\<rparr> = Inr x"
    and "\<exists>x. mem_Get s TConfigMap \<lparr>key_Namespace = ns, key_Name = PoliciesConfigMapName\<rparr> = Inr x"
  shows "\<exists>s'. EnsureDefault mem_client ns pol s = (None, s') \<and> (s' = s \<or> s' = default_secret ns # s)"
  using assms by (auto simp: EnsureDefault_def ensure_object_def mem_Create_def ignore_err_def)

lemma mem_install:
  assumes "ReadConfig mem_client NamespaceName s = Inr (map_of GetDefaultConfig)"
    and "\<exists>x. mem_Get s TConfigMap \<lparr>key_Namespace = NamespaceName, key_Name = PoliciesConfigMapName\<rparr> = Inr x"
  shows "\<exists>s'. Install sample_installer s = (None, s')"
proof -
  note ok = sample_installer_ok
  obtain s1 where s1: "for_each (install_crd mem_client) (embedded_crds (in_embedded sample_installer)) s = (None, s1)"
    using mem_install_crds [OF ok(3)] by blast
  have t1: "touches {TResource RCustomResourceDefinition} mem_client s s1" using install_crds_touches [OF mem_laws ok(2), of s] s1 by simp
  obtain s2 where s2: "createOrUpdateComplianceSpec mem_client (sample_compliance ''2'') s1 = (None, s2)"
    using mem_compliance by blast
  have t2: "touches {TClusterComplianceReport} mem_client s1 s2"
    using createOrUpdateComplianceSpec_touches [OF mem_laws, of "sample_compliance ''2''" s1] s2 by (simp add: sample_compliance_def)
  obtain s3 where s3: "createNamespaceIfNotFound mem_client namespace_obj s2 = (None, s3)" using mem_namespace by blast
  have t3: "touches {TNamespace} mem_client s2 s3"
    using createNamespaceIfNotFound_touches [OF mem_laws, of namespace_obj s2] s3 by (simp add: namespace_obj_def)
  note t = touches_trans [OF touches_trans [OF t1 t2] t3]
  have config: "ReadConfig mem_client NamespaceName s3 = Inr (map_of GetDefaultConfig)" using ReadConfig_touches [OF t] assms(1) by simp
  have maps: "mem_Get s3 TConfigMap k = mem_Get s TConfigMap k" for k using t by (simp add: touches_def)
  obtain s4 where s4: "EnsureDefault mem_client NamespaceName (rt_PoliciesConfigMap sample_runtime) s3 = (None, s4)"
    using mem_ensure_present [of s3 NamespaceName] assms(2) config by (auto simp: ReadConfig_def maps split: sum.splits)
  have "cl_Get mem_client s4 t k = Inr x" if "cl_Get mem_client s3 t k = Inr x" for t k x
    using EnsureDefault_keeps_lemma [OF mem_laws that] s4 by (metis snd_conv)
  then have config: "ReadConfig mem_client NamespaceName s4 = Inr (map_of GetDefaultConfig)" using ReadConfig_kept [OF config] by blast
  let ?r = "install_resolver sample_installer (map_of GetDefaultConfig)"
  have r: "rs_config ?r = map_of GetDefaultConfig" "rs_client ?r = mem_client" by (simp_all add: install_resolver_def ok(1))
  obtain pl ctx s5 where pl: "GetVulnerabilityPlugin ?r = Inr (pl, ctx)" "pl_Init pl ctx s4 = (None, s5)" using first_inits(1) [OF r] by blast
  obtain apl actx s6 where apl: "GetConfigAuditPlugin ?r = Inr (apl, actx)" "ap_Init apl actx s5 = (None, s6)" using first_inits(2) [OF r] by blast
  have "install_plugins ?r s4 = (None, s6)" by (simp add: install_plugins_def pl apl wrap_err_def)
  then show ?thesis using mem_initRBAC [of s6] by (simp add: Install_def ok s1 s2 s3 s4 config)
qed

lemma first_install:
  "ReadConfig mem_client NamespaceName (sample_compliance ''1'' # first_state) = Inr (map_of GetDefaultConfig)"
  "\<exists>x. mem_Get (sample_compliance ''1'' # first_state) TConfigMap \<lparr>key_Namespace = NamespaceName, key_Name = PoliciesConfigMapName\<rparr> = Inr x"
proof -
  have ns: "NamespaceName = ''starboard''" by (simp add: NamespaceName_def)
  have other: "go_type (sample_compliance ''1'') = TClusterComplianceReport" by (simp add: sample_compliance_def)
  show "ReadConfig mem_client NamespaceName (sample_compliance ''1'' # first_state) = Inr (map_of GetDefaultConfig)"
    using ReadConfig_touches [of "{TClusterComplianceReport}" mem_client first_state "sample_compliance ''1'' # first_state" NamespaceName]
      first_start(2) unfolding ns by (simp add: touches_def mem_Get_Cons [of "sample_compliance ''1''"] other)
  show "\<exists>x. mem_Get (sample_compliance ''1'' # first_state) TConfigMap \<lparr>key_Namespace = NamespaceName, key_Name = PoliciesConfigMapName\<rparr> = Inr x"
    by (simp add: mem_Get_Cons other ns sample_policies_def key_of_def)
qed

theorem install_complete_witness:
  "\<exists>s' y rules. Install sample_installer (sample_compliance ''1'' # first_state) = (None, s') \<and>
    mem_Get s' (TResource RClusterRole) \<lparr>key_Namespace = [], key_Name = ''starboard''\<rparr> = Inr y \<and>
    o_Body y = Resource RClusterRole rules \<and> role_allows rules ''list'' ''batch'' ''jobs'' \<and> \<not> role_allows rules ''watch'' [] ''pods''"
proof -
  obtain s' where s': "Install sample_installer (sample_compliance ''1'' # first_state) = (None, s')" using mem_install [OF first_install] by blast
  from install_complete [of sample_installer, unfolded sample_installer_ok(1), OF mem_laws sample_installer_ok(2) s']
  obtain y rules where y: "mem_Get s' (TResource RClusterRole) \<lparr>key_Namespace = [], key_Name = ''starboard''\<rparr> = Inr y"
      "o_Body y = Resource RClusterRole rules" and allows: "\<And>verb apiGroup resource.
       role_allows rules verb apiGroup resource \<longleftrightarrow> verb \<in> {''get'', ''list''} \<and>
         (apiGroup = [] \<and> resource \<in> {''nodes'', ''namespaces'', ''pods''} \<or>
          apiGroup = ''apps'' \<and> resource \<in> {''deployments'', ''statefulsets'', ''daemonsets'', ''replicationcontrollers'', ''replicasets''} \<or>
          apiGroup = ''batch'' \<and> resource \<in> {''jobs'', ''cronjobs''})"
    by (elim conjE exE) simp
  have "role_allows rules ''list'' ''batch'' ''jobs''" "\<not> role_allows rules ''watch'' [] ''pods''"
    unfolding allows by simp_all
  with s' y show ?thesis by blast
qed

text \<open>
  The stored version stays, with its control; and that control has got the default status of the other control of the new version.
\<close>

theorem compliance_spec_not_upgraded_witness:
  "\<exists>s' y. Install sample_installer (sample_compliance ''1'' # first_state) = (None, s') \<and>
    mf_NSASpecV10 (in_embedded sample_installer) = Inr (sample_compliance ''2'') \<and>
    mem_Get s' TClusterComplianceReport \<lparr>key_Namespace = [], key_Name = ''nsa''\<rparr> = Inr y \<and> rs_Version (report_spec (o_Body y)) = ''1'' \<and>
    ct_ID (rs_Controls (report_spec (o_Body y)) ! 0) = ''1'' \<and>
    ct_DefaultStatus (rs_Controls (report_spec (o_Body y)) ! 0) = ''FAIL''"
proof -
  obtain s' where s': "Install sample_installer (sample_compliance ''1'' # first_state) = (None, s')" using mem_install [OF first_install] by blast
  have "cl_Get mem_client (sample_compliance ''1'' # first_state) TClusterComplianceReport
      \<lparr>key_Namespace = [], key_Name = rs_Name (report_spec (o_Body (sample_compliance ''2'')))\<rparr> = Inr (sample_compliance ''1'')"
    by (simp add: mem_Get_Cons sample_compliance_def key_of_def empty_meta_def)
  from compliance_spec_not_upgraded [of sample_installer, unfolded sample_installer_ok(1),
      OF mem_laws sample_installer_ok(2) s' sample_installer_ok(4) this] s'
  show ?thesis by (auto simp: sample_installer_ok(4) sample_compliance_def Let_def)
qed

text \<open>A namespace that goes at once, and one that a finalizer keeps for ever.\<close>

theorem cleanup_waits_for_namespace_witness:
  "cleanupNamespace mem_client (\<lambda>s. s) [namespace_obj] = Some (None, []) \<and>
   cleanupNamespace mem_client (\<lambda>_. [namespace_obj]) [namespace_obj] = None"
proof -
  have del: "ignore_err IsNotFound (cl_Delete mem_client [namespace_obj] (named_obj Namespace [] NamespaceName)) = (None, [])"
    by (simp add: mem_Delete_def mem_remove_def same_id_def namespace_obj_def named_obj_def key_of_def cluster_meta_def empty_meta_def ignore_err_def)
  have gone: "ns_gone mem_client []" by (simp add: ns_gone_def mem_Get_def)
  have stays: "\<not> ns_gone mem_client [namespace_obj]"
    by (simp add: ns_gone_def mem_Get_def namespace_obj_def key_of_def cluster_meta_def empty_meta_def)
  have id: "((\<lambda>s. s) ^^ n) s = s" for n and s :: "Object list" by (induction n) simp_all
  have const: "((\<lambda>_. [namespace_obj]) ^^ Suc n) s = [namespace_obj]" for n and s :: "Object list" by simp
  show ?thesis
    using cleanup_waits_for_namespace [OF del, of "\<lambda>s. s"] cleanup_waits_for_namespace [OF del, of "\<lambda>_. [namespace_obj]"] gone stays
    by (simp add: id const del: funpow.simps)
qed

theorem uninstall_removes_all_witness:
  "\<exists>s' err. Uninstall sample_installer first_state = Some (None, s') \<and>
    mem_Get s' TNamespace \<lparr>key_Namespace = [], key_Name = ''starboard''\<rparr> = Inl err \<and> IsNotFound err"
proof -
  obtain s1 where s1: "all_deletes mem_client first_state = (None, s1)"
    using mem_deletes by blast
  have "ns_gone mem_client s1"
    using deleted_all(1) [OF mem_laws s1, of "named_obj Namespace [] NamespaceName"]
    by (simp add: ns_gone_def uninstalled_def named_obj_def key_of_def empty_meta_def)
  then have "cleanup_loop mem_client (\<lambda>s. s) s1 = Some (None, s1)" by (subst cleanup_loop_unfold) simp
  then have "Uninstall sample_installer first_state = Some (None, s1)"
    using s1 by (simp add: Uninstall_deletes sample_installer_ok(1)) (simp add: sample_installer_def)
  with uninstall_removes_all [of sample_installer, unfolded sample_installer_ok(1), OF mem_laws this] show ?thesis by auto
qed

end
