(* ===== verification/Html_Report.thy ===== *)
theory Html_Report
  imports Config_Audit Kube_Bench Operator_Config "HOL-Library.Product_Lexorder"
begin

text \<open>
  The data of the HTML reports (\<^verbatim>\<open>pkg/report/html.go\<close>, \<^verbatim>\<open>pkg/report/sort.go\<close>, \<^verbatim>\<open>pkg/report/templates/types.go\<close>): the reports of one
  workload, the summary of a namespace with its top lists, and the benchmark of a node. The pages themselves are written by generated
  templates. Two orders stand for the iteration over maps: \<open>ord\<close> for the containers of a report and \<open>ord'\<close> for the maps that collect
  the entries of a top list.
\<close>

section \<open>The data of the templates\<close>

definition KindNamespace :: string where "KindNamespace = ''Namespace''"

record WorkloadReport =
  wr_Workload :: ObjectRef
  wr_GeneratedAt :: Time
  wr_VulnsReports :: "VulnerabilityReportData gomap"
  wr_ConfigAuditReport :: "Object option"

record VulnerabilityWithCount =
  vwc_Vulnerability :: Vulnerability
  vwc_AffectedWorkloads :: int

record CheckWithCount =
  cwc_Check :: Check
  cwc_AffectedWorkloads :: int

record NamespaceReport =
  nr_Namespace :: ObjectRef
  nr_GeneratedAt :: Time
  nr_Top5VulnerableImages :: "Object list"
  nr_Top5FailedChecks :: "CheckWithCount list"
  nr_Top5Vulnerability :: "VulnerabilityWithCount list"

record NodeReport =
  ndr_Node :: ObjectRef
  ndr_GeneratedAt :: Time
  ndr_CisKubeBenchReport :: Object

text \<open>The field \<^verbatim>\<open>Report\<close> of a listed report. A typed list holds no other objects; for those the value is that of an empty report.\<close>

fun vulnerability_data :: "Body \<Rightarrow> VulnerabilityReportData" where
  "vulnerability_data (VulnerabilityReport d) = d"
| "vulnerability_data _ = \<lparr>vr_UpdateTimestamp = 0, vr_Scanner = \<lparr>sc_Name = [], sc_Vendor = [], sc_Version = []\<rparr>,
     vr_Registry = \<lparr>rg_Server = []\<rparr>, vr_Artifact = \<lparr>af_Repository = [], af_Digest = [], af_Tag = [], af_MimeType = []\<rparr>,
     vr_Summary = \<lparr>vs_CriticalCount = 0, vs_HighCount = 0, vs_MediumCount = 0, vs_LowCount = 0, vs_UnknownCount = 0, vs_NoneCount = 0\<rparr>, vr_Vulnerabilities = []\<rparr>"

fun config_audit_data :: "Body \<Rightarrow> ConfigAuditReportData" where
  "config_audit_data (ConfigAuditReport d) = d"
| "config_audit_data _ = \<lparr>car_UpdateTimestamp = 0, car_Scanner = \<lparr>sc_Name = [], sc_Vendor = [], sc_Version = []\<rparr>,
     car_Summary = zero_ConfigAuditSummary, car_Checks = [], car_PodChecks = [], car_ContainerChecks = []\<rparr>"

section \<open>The report of a workload\<close>

fun vulns_reports :: "Object list \<Rightarrow> VulnerabilityReportData gomap \<Rightarrow> VulnerabilityReportData gomap" where
  "vulns_reports [] vulnsReports = vulnsReports"
| "vulns_reports (vulnerabilityReport # rest) vulnsReports =
     (case om_Labels (o_Meta vulnerabilityReport) LabelContainerName of
        None \<Rightarrow> vulns_reports rest vulnsReports
      | Some containerName \<Rightarrow>
          (let d = vulnerability_data (o_Body vulnerabilityReport) in
           vulns_reports rest (AList.update containerName
             (d\<lparr>vr_Vulnerabilities := sort_Stable BySeverity_Less (vr_Vulnerabilities d)\<rparr>) vulnsReports)))"

definition workload_RetrieveData :: "env \<Rightarrow> 's client \<Rightarrow> Time \<Rightarrow> ObjectRef \<Rightarrow> 's \<Rightarrow> error + WorkloadReport" where
  "workload_RetrieveData E c now workload s =
     (case FindReportByOwnerInHierarchy E c s workload of
        Inl e \<Rightarrow> Inl e
      | Inr configAuditReport \<Rightarrow>
          (case FindByOwnerInHierarchy E c s workload of
             Inl e \<Rightarrow> Inl e
           | Inr vulnerabilityReports \<Rightarrow>
               (let vulnsReports = vulns_reports vulnerabilityReports [] in
                if configAuditReport = None \<and> length vulnsReports = 0
                then Inl (Errorf (''no configaudits or vulnerabilities found for workload '' @ ref_Namespace workload @ ''/'' @
                       ref_Kind workload @ ''/'' @ ref_Name workload))
                else Inr \<lparr>wr_Workload = workload, wr_GeneratedAt = now, wr_VulnsReports = vulnsReports,
                       wr_ConfigAuditReport = configAuditReport\<rparr>)))"

section \<open>The top lists of a namespace\<close>

definition topNImagesBySeverityCount :: "Object list \<Rightarrow> int \<Rightarrow> Object list" where
  "topNImagesBySeverityCount reports N =
     (let b = sort_Stable (\<lambda>p q. multiSorter_Less SummaryCount (vulnerability_data (o_Body q)) (vulnerability_data (o_Body p))) reports
      in take (nat (MinInt N (int (length b)))) b)"

text \<open>One more affected workload for a failed check.\<close>

definition count_failed_check :: "Check \<Rightarrow> CheckWithCount gomap \<Rightarrow> CheckWithCount gomap" where
  "count_failed_check check checksMap =
     (case map_of checksMap (ck_ID check) of
        Some config \<Rightarrow> AList.update (ck_ID check) (config\<lparr>cwc_AffectedWorkloads := cwc_AffectedWorkloads config + 1\<rparr>) checksMap
      | None \<Rightarrow> AList.update (ck_ID check) \<lparr>cwc_Check = check, cwc_AffectedWorkloads = 1\<rparr> checksMap)"

fun count_pod_checks :: "Check list \<Rightarrow> CheckWithCount gomap \<Rightarrow> CheckWithCount gomap" where
  "count_pod_checks [] checksMap = checksMap"
| "count_pod_checks (podCheck # rest) checksMap =
     count_pod_checks rest (if ck_Success podCheck then checksMap else count_failed_check podCheck checksMap)"

text \<open>The checks of the containers; an identifier is counted once for a workload.\<close>

fun count_container_checks ::
    "Check list \<Rightarrow> string list \<times> CheckWithCount gomap \<Rightarrow> string list \<times> CheckWithCount gomap" where
  "count_container_checks [] st = st"
| "count_container_checks (containerCheck # rest) (alreadyCheckedForWorkload, checksMap) =
     count_container_checks rest
       (if ck_Success containerCheck \<or> ck_ID containerCheck \<in> set alreadyCheckedForWorkload
        then (alreadyCheckedForWorkload, checksMap)
        else (ck_ID containerCheck # alreadyCheckedForWorkload, count_failed_check containerCheck checksMap))"

definition count_report :: "order \<Rightarrow> ConfigAuditReportData \<Rightarrow> CheckWithCount gomap \<Rightarrow> CheckWithCount gomap" where
  "count_report ord report checksMap =
     snd (foldl (\<lambda>st (_, container). count_container_checks container st)
            ([], count_pod_checks (car_PodChecks report) checksMap) (range_map ord (car_ContainerChecks report)))"

definition failed_checks_map :: "order \<Rightarrow> ConfigAuditReportData list \<Rightarrow> CheckWithCount gomap" where
  "failed_checks_map ord reports = foldl (\<lambda>checksMap report. count_report ord report checksMap) [] reports"

text \<open>The order of \<^verbatim>\<open>sort.go\<close>; the code indexes the last comparison, so the list must not be empty.\<close>

fun check_multiSorter_Less :: "(CheckWithCount \<Rightarrow> CheckWithCount \<Rightarrow> bool) list \<Rightarrow> CheckWithCount \<Rightarrow> CheckWithCount \<Rightarrow> bool" where
  "check_multiSorter_Less [] p q = False"
| "check_multiSorter_Less [lt] p q = lt p q"
| "check_multiSorter_Less (lt # rest) p q =
     (if lt p q then True else if lt q p then False else check_multiSorter_Less rest p q)"

definition checkCompareFunc :: "(CheckWithCount \<Rightarrow> CheckWithCount \<Rightarrow> bool) list" where
  "checkCompareFunc =
     [\<lambda>r1 r2. cwc_AffectedWorkloads r1 < cwc_AffectedWorkloads r2,
      \<lambda>r1 r2. ck_Severity (cwc_Check r1) > ck_Severity (cwc_Check r2),
      \<lambda>r1 r2. ck_ID (cwc_Check r1) > ck_ID (cwc_Check r2)]"

definition check_SortDesc ::
    "(CheckWithCount \<Rightarrow> CheckWithCount \<Rightarrow> bool) list \<Rightarrow> CheckWithCount list \<Rightarrow> CheckWithCount list" where
  "check_SortDesc lt reports = sort_Stable (\<lambda>p q. check_multiSorter_Less lt q p) reports"

definition topNFailedChecksByAffectedWorkloadsCount :: "order \<Rightarrow> order \<Rightarrow> ConfigAuditReportData list \<Rightarrow> int \<Rightarrow> CheckWithCount list" where
  "topNFailedChecksByAffectedWorkloadsCount ord ord' reports N =
     (let failedChecks = check_SortDesc checkCompareFunc (map snd (range_map ord' (failed_checks_map ord reports)))
      in take (nat (MinInt N (int (length failedChecks)))) failedChecks)"

text \<open>
  The order of \<^verbatim>\<open>float64\<close> on the bits of the numbers: the sign and the magnitude, with both zeros equal, and nothing comparable to
  a NaN.
\<close>

definition float_magnitude :: "64 word \<Rightarrow> int" where
  "float_magnitude x = uint (take_bit 63 x)"

definition is_NaN :: "64 word \<Rightarrow> bool" where
  "is_NaN x \<longleftrightarrow> float_magnitude x > 0x7FF0000000000000"

definition float_key :: "64 word \<Rightarrow> int" where
  "float_key x = (if bit x 63 then - float_magnitude x else float_magnitude x)"

definition float_less :: "64 word \<Rightarrow> 64 word \<Rightarrow> bool" where
  "float_less x y \<longleftrightarrow> \<not> is_NaN x \<and> \<not> is_NaN y \<and> float_key x < float_key y"

text \<open>The vulnerabilities of one report; an identifier is counted once for a report.\<close>

fun count_vulnerabilities ::
    "Vulnerability list \<Rightarrow> string list \<Rightarrow> VulnerabilityWithCount gomap \<Rightarrow> VulnerabilityWithCount gomap" where
  "count_vulnerabilities [] vulnMap vulnerabilityMap = vulnerabilityMap"
| "count_vulnerabilities (vulnerability # rest) vulnMap vulnerabilityMap =
     (let vulnId = vu_VulnerabilityID vulnerability in
      if vulnId \<in> set vulnMap then count_vulnerabilities rest vulnMap vulnerabilityMap
      else count_vulnerabilities rest (vulnId # vulnMap)
        (case map_of vulnerabilityMap vulnId of
           Some tempVuln \<Rightarrow> AList.update vulnId (tempVuln\<lparr>vwc_AffectedWorkloads := vwc_AffectedWorkloads tempVuln + 1\<rparr>) vulnerabilityMap
         | None \<Rightarrow>
             if vu_Score vulnerability = None then vulnerabilityMap
             else AList.update vulnId
               \<lparr>vwc_Vulnerability = \<lparr>vu_VulnerabilityID = vulnId, vu_Resource = [], vu_InstalledVersion = [], vu_FixedVersion = [],
                  vu_Severity = vu_Severity vulnerability, vu_Title = [], vu_Description = [],
                  vu_PrimaryLink = vu_PrimaryLink vulnerability, vu_Links = [], vu_Score = vu_Score vulnerability\<rparr>,
                vwc_AffectedWorkloads = 1\<rparr> vulnerabilityMap))"

definition vulnerability_map :: "VulnerabilityReportData list \<Rightarrow> VulnerabilityWithCount gomap" where
  "vulnerability_map reports = foldl (\<lambda>vulnerabilityMap report. count_vulnerabilities (vr_Vulnerabilities report) [] vulnerabilityMap) [] reports"

text \<open>The score of an entry; every entry of the map has one.\<close>

definition entry_score :: "VulnerabilityWithCount \<Rightarrow> 64 word" where
  "entry_score v = (case vu_Score (vwc_Vulnerability v) of Some score \<Rightarrow> score | None \<Rightarrow> 0)"

definition topNVulnerabilitiesByScore :: "order \<Rightarrow> VulnerabilityReportData list \<Rightarrow> int \<Rightarrow> VulnerabilityWithCount list" where
  "topNVulnerabilitiesByScore ord' reports N =
     (let vulnerabilities = sort_Stable (\<lambda>v w. float_less (entry_score w) (entry_score v))
            (map snd (range_map ord' (vulnerability_map reports)))
      in take (nat (MinInt N (int (length vulnerabilities)))) vulnerabilities)"

definition namespace_RetrieveData :: "order \<Rightarrow> order \<Rightarrow> 's client \<Rightarrow> Time \<Rightarrow> ObjectRef \<Rightarrow> 's \<Rightarrow> error + NamespaceReport" where
  "namespace_RetrieveData ord ord' c now namespace s =
     (let opts = \<lparr>lo_Namespace = Some (ref_Name namespace), lo_Reqs = [], lo_Limit = None\<rparr> in
      case cl_List c s (Some TVulnerabilityReport) opts of
        Inl e \<Rightarrow> Inl e
      | Inr vulnerabilityReportList \<Rightarrow>
          (case cl_List c s (Some TConfigAuditReport) opts of
             Inl e \<Rightarrow> Inl e
           | Inr configAuditReportList \<Rightarrow>
               Inr \<lparr>nr_Namespace = namespace, nr_GeneratedAt = now,
                 nr_Top5VulnerableImages = topNImagesBySeverityCount vulnerabilityReportList 5,
                 nr_Top5FailedChecks =
                   topNFailedChecksByAffectedWorkloadsCount ord ord' (map (config_audit_data \<circ> o_Body) configAuditReportList) 5,
                 nr_Top5Vulnerability = topNVulnerabilitiesByScore ord' (map (vulnerability_data \<circ> o_Body) vulnerabilityReportList) 5\<rparr>))"

section \<open>The report of a node\<close>

definition node_RetrieveData :: "'s client \<Rightarrow> Time \<Rightarrow> ObjectRef \<Rightarrow> 's \<Rightarrow> error + NodeReport" where
  "node_RetrieveData c now node s =
     (case cl_Get c s TCISKubeBenchReport \<lparr>key_Namespace = [], key_Name = ref_Name node\<rparr> of
        Inl e \<Rightarrow> Inl e
      | Inr found \<Rightarrow> Inr \<lparr>ndr_Node = node, ndr_GeneratedAt = now, ndr_CisKubeBenchReport = found\<rparr>)"

section \<open>Lemmas\<close>

text \<open>A stable sort by a comparison of keys is the library's sort.\<close>

lemma insert_stable_cong: "(\<And>y. y \<in> set ys \<Longrightarrow> lt y x = (f y < (f x :: 'b :: linorder))) \<Longrightarrow> insert_stable lt x ys = insort_key f x ys"
  by (induction ys) (auto simp: not_less)

lemma sort_Stable_key:
  fixes f :: "'a \<Rightarrow> 'b :: linorder"
  assumes "\<And>x y. x \<in> set xs \<Longrightarrow> y \<in> set xs \<Longrightarrow> lt x y = (f x < f y)"
  shows "sort_Stable lt xs = sort_key f xs"
  using assms
proof (induction xs)
  case (Cons x xs)
  have "sort_Stable lt (x # xs) = insert_stable lt x (sort_Stable lt xs)" by (simp add: sort_Stable_def)
  also have "\<dots> = insert_stable lt x (sort_key f xs)" using Cons by simp
  also have "\<dots> = insort_key f x (sort_key f xs)" using Cons.prems by (intro insert_stable_cong) auto
  finally show ?case by simp
qed (simp add: sort_Stable_def)

text \<open>A prefix of a sorted list: the omitted elements are no better than those taken.\<close>

lemma take_sort_key:
  fixes f :: "'a \<Rightarrow> 'b :: linorder"
  shows "sorted (map f (take n (sort_key f xs)))" and "x \<in> set xs \<Longrightarrow> x \<in> set (take n (sort_key f xs)) \<or> (\<forall>y \<in> set (take n (sort_key f xs)). f y \<le> f x)"
    and "set (take n (sort_key f xs)) \<subseteq> set xs"
proof -
  show "sorted (map f (take n (sort_key f xs)))" by (simp add: take_map [symmetric] sorted_wrt_take)
  show "set (take n (sort_key f xs)) \<subseteq> set xs" using set_take_subset by fastforce
  assume "x \<in> set xs"
  then have "x \<in> set (take n (sort_key f xs)) \<union> set (drop n (sort_key f xs))" by (metis append_take_drop_id set_append set_sort)
  moreover have "f y \<le> f z" if "y \<in> set (take n (sort_key f xs))" "z \<in> set (drop n (sort_key f xs))" for y z
  proof -
    have "sorted (map f (take n (sort_key f xs) @ drop n (sort_key f xs)))" by simp
    then show ?thesis using that by (simp only: map_append sorted_append) auto
  qed
  ultimately show "x \<in> set (take n (sort_key f xs)) \<or> (\<forall>y \<in> set (take n (sort_key f xs)). f y \<le> f x)" by blast
qed

lemma take_MinInt: "0 \<le> N \<Longrightarrow> take (nat (MinInt N (int (length xs)))) xs = take (nat N) xs"
  by (auto simp: MinInt_def)

text \<open>How often a failed check has been counted.\<close>

definition count_of :: "CheckWithCount gomap \<Rightarrow> string \<Rightarrow> int" where
  "count_of m k = (case map_of m k of None \<Rightarrow> 0 | Some e \<Rightarrow> cwc_AffectedWorkloads e)"

definition counted :: "CheckWithCount gomap \<Rightarrow> bool" where
  "counted m \<longleftrightarrow> distinct (map fst m) \<and> (\<forall>(k, e) \<in> set m. ck_ID (cwc_Check e) = k \<and> 0 < cwc_AffectedWorkloads e)"

lemma update_subset: "set (AList.update k v m) \<subseteq> insert (k, v) (set m)"
  by (induction m) auto

lemma counted_update: "counted m \<Longrightarrow> ck_ID (cwc_Check e) = k \<Longrightarrow> 0 < cwc_AffectedWorkloads e \<Longrightarrow> counted (AList.update k e m)"
  using update_subset [of k e m] by (fastforce simp: counted_def distinct_update)

lemma count_failed_check_counted: "counted m \<Longrightarrow> counted (count_failed_check check m)"
  by (auto simp: count_failed_check_def intro!: counted_update split: option.split dest!: map_of_SomeD) (auto simp: counted_def)

lemma count_failed_check_count: "count_of (count_failed_check check m) k = count_of m k + (if ck_ID check = k then 1 else 0)"
  by (auto simp: count_of_def count_failed_check_def map_of_update split: option.split)

abbreviation failing :: "string \<Rightarrow> Check \<Rightarrow> bool" where
  "failing k check \<equiv> \<not> ck_Success check \<and> ck_ID check = k"

lemma count_pod_checks_count: "count_of (count_pod_checks checks m) k = count_of m k + int (length (filter (failing k) checks))"
  by (induction checks arbitrary: m) (simp_all add: count_failed_check_count)

lemma count_pod_checks_counted: "counted m \<Longrightarrow> counted (count_pod_checks checks m)"
  by (induction checks arbitrary: m) (simp_all add: count_failed_check_counted)

lemma count_container_checks_counted: "counted (snd st) \<Longrightarrow> counted (snd (count_container_checks checks st))"
  by (induction checks st rule: count_container_checks.induct) (simp_all add: count_failed_check_counted)

lemma count_container_checks_count:
  "count_of (snd (count_container_checks checks st)) k =
     count_of (snd st) k + (if k \<notin> set (fst st) \<and> (\<exists>check \<in> set checks. failing k check) then 1 else 0)"
  "set (fst (count_container_checks checks st)) = set (fst st) \<union> {k. \<exists>check \<in> set checks. failing k check}"
  by (induction checks st rule: count_container_checks.induct) (auto simp: count_failed_check_count)

text \<open>What one report adds to the count of a check: each failed check of the pod, and one for all containers together.\<close>

definition failures :: "ConfigAuditReportData \<Rightarrow> string \<Rightarrow> int" where
  "failures d k = int (length (filter (failing k) (car_PodChecks d))) +
     (if \<exists>(_, checks) \<in> set (car_ContainerChecks d). \<exists>check \<in> set checks. failing k check then 1 else 0)"

lemma count_containers:
  "count_of (snd (foldl (\<lambda>st (_, container). count_container_checks container st) st cs)) k =
     count_of (snd st) k + (if k \<notin> set (fst st) \<and> (\<exists>(_, checks) \<in> set cs. \<exists>check \<in> set checks. failing k check) then 1 else 0)"
  by (induction cs arbitrary: st) (auto simp: count_container_checks_count)

lemma count_containers_counted:
  "counted (snd st) \<Longrightarrow> counted (snd (foldl (\<lambda>st (_, container). count_container_checks container st) st cs))"
  by (induction cs rule: rev_induct) (auto simp: count_container_checks_counted)

lemma count_report_counted: "counted m \<Longrightarrow> counted (count_report ord d m)"
  by (simp add: count_report_def count_containers_counted count_pod_checks_counted)

lemma count_report_count:
  assumes "perm_order ord" and "distinct (map fst (car_ContainerChecks d))"
  shows "count_of (count_report ord d m) k = count_of m k + failures d k"
  using range_map_set [OF assms] by (simp add: count_report_def count_containers count_pod_checks_count failures_def)

lemma failed_checks_map_laws:
  assumes "perm_order ord" and "\<forall>d \<in> set reports. distinct (map fst (car_ContainerChecks d))"
  shows "count_of (failed_checks_map ord reports) k = (\<Sum>d \<leftarrow> reports. failures d k)" and "counted (failed_checks_map ord reports)"
  using assms(2)
  by (induction reports rule: rev_induct)
     (auto simp: failed_checks_map_def count_report_count [OF assms(1)] count_report_counted, auto simp: count_of_def counted_def)

lemma counted_entry:
  assumes "counted m"
  shows "e \<in> snd ` set m \<longleftrightarrow> map_of m (ck_ID (cwc_Check e)) = Some e" and "0 < count_of m k \<longleftrightarrow> k \<in> fst ` set m"
    and "distinct (map (ck_ID \<circ> cwc_Check) (map snd m))"
proof -
  show "e \<in> snd ` set m \<longleftrightarrow> map_of m (ck_ID (cwc_Check e)) = Some e"
    using assms by (force simp: counted_def dest: map_of_SomeD)
  show "0 < count_of m k \<longleftrightarrow> k \<in> fst ` set m"
    using assms map_of_SomeD [of m k] by (force simp: counted_def count_of_def map_of_eq_None_iff split: option.split)
  have "map (ck_ID \<circ> cwc_Check) (map snd m) = map fst m" using assms by (auto simp: counted_def)
  then show "distinct (map (ck_ID \<circ> cwc_Check) (map snd m))" using assms unfolding counted_def by argo
qed

text \<open>The rank of an entry: more workloads first, then the severity and the identifier in the order of strings.\<close>

definition check_rank :: "CheckWithCount \<Rightarrow> int \<times> string \<times> string" where
  "check_rank e = (- cwc_AffectedWorkloads e, ck_Severity (cwc_Check e), ck_ID (cwc_Check e))"

lemma check_SortDesc_sort_key: "check_SortDesc checkCompareFunc = sort_key check_rank"
proof
  show "check_SortDesc checkCompareFunc xs = sort_key check_rank xs" for xs
    unfolding check_SortDesc_def
    by (rule sort_Stable_key) (auto simp: checkCompareFunc_def check_rank_def)
qed

lemma collected_entries:
  assumes "perm_order ord'" and "counted m"
  shows "mset (map snd (range_map ord' m)) = mset (map snd m)"
  using range_map_mset [OF assms(1), of m] assms(2) by (simp add: counted_def mset_map)

text \<open>Entries differ in their identifiers, so the sorted list does not depend on the order of the map.\<close>

lemma check_rank_inj:
  assumes "distinct (map (ck_ID \<circ> cwc_Check) es)"
  shows "inj_on check_rank (set es)"
  using assms by (auto simp: inj_on_def check_rank_def distinct_map)

lemma top_failed_checks_sorted:
  assumes "perm_order ord" and "perm_order ord'" and "\<forall>d \<in> set reports. distinct (map fst (car_ContainerChecks d))" and "0 \<le> N"
  shows "topNFailedChecksByAffectedWorkloadsCount ord ord' reports N = take (nat N) (sort_key check_rank (map snd (failed_checks_map ord reports)))"
proof -
  let ?m = "failed_checks_map ord reports"
  note ok = failed_checks_map_laws(2) [OF assms(1,3)]
  have eq: "mset (map snd (range_map ord' ?m)) = mset (map snd ?m)" by (rule collected_entries [OF assms(2) ok])
  have "inj_on check_rank (set (map snd (range_map ord' ?m)))"
    unfolding mset_eq_setD [OF eq] by (rule check_rank_inj [OF counted_entry(3) [OF ok]])
  then have "sort_key check_rank (map snd (range_map ord' ?m)) = sort_key check_rank (map snd ?m)"
    using eq by (intro sort_key_inj_key_eq) simp_all
  then show ?thesis by (simp add: topNFailedChecksByAffectedWorkloadsCount_def check_SortDesc_sort_key take_MinInt [OF assms(4)] del: length_sort)
qed

text \<open>The images: sorted by the counts of their summaries.\<close>

abbreviation image_counts :: "Object \<Rightarrow> int list" where
  "image_counts x \<equiv> map uminus (counts (vulnerability_data (o_Body x)))"

lemma top_images_sorted: "0 \<le> N \<Longrightarrow> topNImagesBySeverityCount reports N = take (nat N) (sort_key image_counts reports)"
proof -
  assume N: "0 \<le> N"
  have "sort_Stable (\<lambda>p q. multiSorter_Less SummaryCount (vulnerability_data (o_Body q)) (vulnerability_data (o_Body p))) reports
      = sort_key image_counts reports"
    by (rule sort_Stable_key) (simp add: multiSorter_Less_counts neg_counts_less)
  then show ?thesis by (simp add: topNImagesBySeverityCount_def take_MinInt [OF N] Let_def del: length_sort)
qed

text \<open>The vulnerabilities: every entry has the score of a vulnerability of the reports.\<close>

definition scored :: "VulnerabilityReportData list \<Rightarrow> VulnerabilityWithCount gomap \<Rightarrow> bool" where
  "scored reports m \<longleftrightarrow> distinct (map fst m) \<and> (\<forall>(k, e) \<in> set m. vu_VulnerabilityID (vwc_Vulnerability e) = k \<and>
     (\<exists>d \<in> set reports. \<exists>v \<in> set (vr_Vulnerabilities d). vu_VulnerabilityID v = k \<and> vu_Score v = Some (entry_score e)))"

lemma scored_update:
  assumes "scored reports m" and "vu_VulnerabilityID (vwc_Vulnerability e) = k" and "d \<in> set reports" and "v \<in> set (vr_Vulnerabilities d)"
    and "vu_VulnerabilityID v = k" and "vu_Score v = Some (entry_score e)"
  shows "scored reports (AList.update k e m)"
  unfolding scored_def
proof (intro conjI ballI)
  show "distinct (map fst (AList.update k e m))" using assms(1) by (simp add: scored_def distinct_update)
  fix x
  assume "x \<in> set (AList.update k e m)"
  then have "x = (k, e) \<or> x \<in> set m" using update_subset by fast
  then show "case x of (k, e) \<Rightarrow> vu_VulnerabilityID (vwc_Vulnerability e) = k \<and>
      (\<exists>d \<in> set reports. \<exists>v \<in> set (vr_Vulnerabilities d). vu_VulnerabilityID v = k \<and> vu_Score v = Some (entry_score e))"
    using assms unfolding scored_def by blast
qed

lemma count_vulnerabilities_scored:
  assumes "scored reports m" and "d \<in> set reports" and "set vs \<subseteq> set (vr_Vulnerabilities d)"
  shows "scored reports (count_vulnerabilities vs seen m)"
  using assms(1,3)
proof (induction vs arbitrary: seen m)
  case (Cons v vs)
  let ?k = "vu_VulnerabilityID v"
  show ?case
  proof (cases "map_of m ?k")
    case None
    show ?thesis
    proof (cases "vu_Score v")
      case (Some score)
      have "scored reports (AList.update ?k \<lparr>vwc_Vulnerability = \<lparr>vu_VulnerabilityID = ?k, vu_Resource = [], vu_InstalledVersion = [],
          vu_FixedVersion = [], vu_Severity = vu_Severity v, vu_Title = [], vu_Description = [], vu_PrimaryLink = vu_PrimaryLink v,
          vu_Links = [], vu_Score = vu_Score v\<rparr>, vwc_AffectedWorkloads = 1\<rparr> m)"
        by (rule scored_update [OF Cons.prems(1) _ assms(2), of _ _ v]) (use Cons.prems(2) Some in \<open>simp_all add: entry_score_def\<close>)
      then show ?thesis using None Some Cons by (simp add: Let_def)
    qed (use None Cons in \<open>simp add: Let_def\<close>)
  next
    case (Some e)
    then have "(?k, e) \<in> set m" by (rule map_of_SomeD)
    then obtain d' w where "vu_VulnerabilityID (vwc_Vulnerability e) = ?k" "d' \<in> set reports" "w \<in> set (vr_Vulnerabilities d')"
      "vu_VulnerabilityID w = ?k" "vu_Score w = Some (entry_score e)" using Cons.prems(1) by (auto simp: scored_def)
    then have "scored reports (AList.update ?k (e\<lparr>vwc_AffectedWorkloads := vwc_AffectedWorkloads e + 1\<rparr>) m)"
      by (intro scored_update [OF Cons.prems(1), of _ _ d' w]) (simp_all add: entry_score_def)
    then show ?thesis using Some Cons by (simp add: Let_def)
  qed
qed simp

lemma vulnerability_map_scored: "scored reports (vulnerability_map reports)"
proof -
  have "scored reports (foldl (\<lambda>vulnerabilityMap report. count_vulnerabilities (vr_Vulnerabilities report) [] vulnerabilityMap) [] ds)"
    if "set ds \<subseteq> set reports" for ds
    using that by (induction ds rule: rev_induct) (auto simp: scored_def [of _ "[]"] intro: count_vulnerabilities_scored)
  then show ?thesis by (simp add: vulnerability_map_def)
qed

section \<open>Properties\<close>

text \<open>
  C25. The list of failed checks of a namespace: whatever the order in which the runtime visits the maps, it has the checks with the
  highest counts, as many as asked for or all, in the order of count, severity and identifier, each once; the count of a check is
  exactly the number of its failures in the pod sections of the reports plus the number of reports in which a container fails it. In
  particular a workload that fails a check in both sections is counted twice.
\<close>

theorem top_failed_checks_exact:
  assumes "perm_order ord" and "perm_order ord'" and "\<forall>d \<in> set reports. distinct (map fst (car_ContainerChecks d))" and "0 \<le> N"
    and "r = topNFailedChecksByAffectedWorkloadsCount ord ord' reports N"
  shows "length r = min (nat N) (card {k. 0 < (\<Sum>d \<leftarrow> reports. failures d k)}) \<and> distinct (map (ck_ID \<circ> cwc_Check) r) \<and>
    sorted (map check_rank r) \<and> (\<forall>e \<in> set r. cwc_AffectedWorkloads e = (\<Sum>d \<leftarrow> reports. failures d (ck_ID (cwc_Check e)))) \<and>
    (\<forall>k. 0 < (\<Sum>d \<leftarrow> reports. failures d k) \<longrightarrow>
      k \<in> (ck_ID \<circ> cwc_Check) ` set r \<or> (\<forall>e \<in> set r. (\<Sum>d \<leftarrow> reports. failures d k) \<le> cwc_AffectedWorkloads e))"
proof -
  let ?m = "failed_checks_map ord reports"
  note laws = failed_checks_map_laws [OF assms(1,3)]
  note entry = counted_entry [OF laws(2)]
  have r: "r = take (nat N) (sort_key check_rank (map snd ?m))" using top_failed_checks_sorted [OF assms(1-4)] assms(5) by simp
  have keys: "{k. 0 < (\<Sum>d \<leftarrow> reports. failures d k)} = fst ` set ?m" using entry(2) by (auto simp: laws(1))
  have "distinct (map fst ?m)" using laws(2) by (simp add: counted_def)
  then have len: "length r = min (nat N) (card {k. 0 < (\<Sum>d \<leftarrow> reports. failures d k)})"
    by (simp add: r keys min.commute distinct_card [of "map fst ?m", simplified])
  have "distinct (map (ck_ID \<circ> cwc_Check) (sort_key check_rank (map snd ?m)))"
    using entry(3) by (metis mset_map mset_sort mset_eq_imp_distinct_iff)
  then have dist: "distinct (map (ck_ID \<circ> cwc_Check) r)" unfolding r take_map [symmetric] by (rule distinct_take)
  have count: "cwc_AffectedWorkloads e = (\<Sum>d \<leftarrow> reports. failures d (ck_ID (cwc_Check e)))" if "e \<in> snd ` set ?m" for e
    using that by (simp add: entry(1) count_of_def flip: laws(1))
  have sub: "e \<in> snd ` set ?m" if "e \<in> set r" for e using take_sort_key(3) [of "nat N" check_rank "map snd ?m"] that r by auto
  have top: "k \<in> (ck_ID \<circ> cwc_Check) ` set r \<or> (\<forall>e \<in> set r. (\<Sum>d \<leftarrow> reports. failures d k) \<le> cwc_AffectedWorkloads e)"
    if k: "0 < (\<Sum>d \<leftarrow> reports. failures d k)" for k
  proof -
    obtain x where x: "(k, x) \<in> set ?m" using k keys by force
    then have id: "ck_ID (cwc_Check x) = k" using laws(2) by (auto simp: counted_def)
    have "x \<in> snd ` set ?m" using x by force
    then show ?thesis
      using take_sort_key(2) [of x "map snd ?m" "nat N" check_rank] count [of x] id by (auto simp: r check_rank_def)
  qed
  show ?thesis using len dist count sub top take_sort_key(1) [of check_rank "nat N" "map snd ?m"] by (simp add: r)
qed

definition sample_check :: "string \<Rightarrow> Check" where
  "sample_check k = \<lparr>ck_ID = k, ck_Title = [], ck_Description = [], ck_Severity = ''HIGH'', ck_Category = [], ck_Messages = [],
     ck_Remediation = [], ck_Success = False, ck_Scope = None\<rparr>"

definition sample_failures :: "ConfigAuditReportData" where
  "sample_failures = (config_audit_data (ConfigMap []))\<lparr>car_PodChecks := [sample_check ''a'', sample_check ''b''],
     car_ContainerChecks := [(''nginx'', [sample_check ''b'']), (''redis'', [sample_check ''b''])]\<rparr>"

text \<open>One workload, and yet a check that is listed as affecting two.\<close>

theorem top_failed_checks_exact_witness:
  "map (\<lambda>e. (ck_ID (cwc_Check e), cwc_AffectedWorkloads e)) (topNFailedChecksByAffectedWorkloadsCount (\<lambda>ks. ks) (\<lambda>ks. ks) [sample_failures] 1)
     = [(''b'', 2)]"
proof -
  let ?r = "topNFailedChecksByAffectedWorkloadsCount (\<lambda>ks. ks) (\<lambda>ks. ks) [sample_failures] 1"
  have f: "failures sample_failures k = (if k = ''a'' then 1 else if k = ''b'' then 2 else 0)" for k
    by (simp add: failures_def sample_failures_def sample_check_def)
  then have k: "{k. 0 < failures sample_failures k} = {''a'', ''b''}" by auto
  have wf: "\<forall>d \<in> set [sample_failures]. distinct (map fst (car_ContainerChecks d))" by (simp add: sample_failures_def)
  have top: "length ?r = min (nat 1) (card {k. 0 < failures sample_failures k}) \<and> distinct (map (ck_ID \<circ> cwc_Check) ?r) \<and>
    sorted (map check_rank ?r) \<and> (\<forall>e \<in> set ?r. cwc_AffectedWorkloads e = failures sample_failures (ck_ID (cwc_Check e))) \<and>
    (\<forall>k. 0 < failures sample_failures k \<longrightarrow>
      k \<in> (ck_ID \<circ> cwc_Check) ` set ?r \<or> (\<forall>e \<in> set ?r. failures sample_failures k \<le> cwc_AffectedWorkloads e))"
    by (rule top_failed_checks_exact [OF perm_order_id perm_order_id wf zero_le_one refl,
          unfolded list.map sum_list.Cons sum_list.Nil add_0_right])
  have len: "length ?r = 1" using top by (simp add: k)
  have count: "\<forall>e \<in> set ?r. cwc_AffectedWorkloads e = failures sample_failures (ck_ID (cwc_Check e))" using top by simp
  have top: "''b'' \<in> (ck_ID \<circ> cwc_Check) ` set ?r \<or> (\<forall>e \<in> set ?r. 2 \<le> cwc_AffectedWorkloads e)"
    using top [THEN conjunct2, THEN conjunct2, THEN conjunct2, THEN conjunct2, rule_format, of "''b''"] f [of "''b''"] by simp
  obtain e where e: "?r = [e]" using len by (auto simp: length_Suc_conv)
  show ?thesis using count top by (auto simp: e f split: if_splits)
qed

text \<open>
  C26. The summary of a namespace has at most five images, checks and vulnerabilities. The images are those with the highest
  counts of severe vulnerabilities among the reports of the namespace; the vulnerabilities have the highest scores, in descending
  order, and each stands in a report with its score.
\<close>

theorem namespace_report_tops:
  assumes "namespace_RetrieveData ord ord' c now namespace s = Inr r" and "perm_order ord'"
    and "cl_List c s (Some TVulnerabilityReport) \<lparr>lo_Namespace = Some (ref_Name namespace), lo_Reqs = [], lo_Limit = None\<rparr> = Inr reports"
    and "\<forall>x \<in> set reports. \<forall>v \<in> set (vr_Vulnerabilities (vulnerability_data (o_Body x))). \<forall>score. vu_Score v = Some score \<longrightarrow> \<not> is_NaN score"
  shows "length (nr_Top5VulnerableImages r) = min 5 (length reports) \<and> length (nr_Top5FailedChecks r) \<le> 5 \<and> length (nr_Top5Vulnerability r) \<le> 5 \<and>
    set (nr_Top5VulnerableImages r) \<subseteq> set reports \<and>
    (\<forall>x \<in> set reports. x \<in> set (nr_Top5VulnerableImages r) \<or> (\<forall>y \<in> set (nr_Top5VulnerableImages r).
      counts (vulnerability_data (o_Body x)) \<le> counts (vulnerability_data (o_Body y)))) \<and>
    sorted_wrt (\<lambda>v w. float_key (entry_score v) \<ge> float_key (entry_score w)) (nr_Top5Vulnerability r) \<and>
    (\<forall>v \<in> set (nr_Top5Vulnerability r). \<exists>x \<in> set reports. \<exists>w \<in> set (vr_Vulnerabilities (vulnerability_data (o_Body x))).
      vu_VulnerabilityID w = vu_VulnerabilityID (vwc_Vulnerability v) \<and> vu_Score w = Some (entry_score v))"
proof -
  let ?ds = "map (vulnerability_data \<circ> o_Body) reports"
  have r: "nr_Top5VulnerableImages r = take 5 (sort_key image_counts reports)" "nr_Top5Vulnerability r = topNVulnerabilitiesByScore ord' ?ds 5"
    "\<exists>ds. nr_Top5FailedChecks r = topNFailedChecksByAffectedWorkloadsCount ord ord' ds 5"
    using assms(1,3) by (auto simp: namespace_RetrieveData_def Let_def top_images_sorted split: sum.splits)
  have counts: "counts (vulnerability_data (o_Body x)) \<le> counts (vulnerability_data (o_Body y))" if "image_counts y \<le> image_counts x" for x y
    using that neg_counts_less [of "vulnerability_data (o_Body x)" "vulnerability_data (o_Body y)"] by (simp add: not_less [symmetric])
  have images: "x \<in> set (nr_Top5VulnerableImages r) \<or> (\<forall>y \<in> set (nr_Top5VulnerableImages r).
      counts (vulnerability_data (o_Body x)) \<le> counts (vulnerability_data (o_Body y)))" if "x \<in> set reports" for x
    using take_sort_key(2) [OF that, of 5 image_counts] counts unfolding r by blast
  let ?es = "map snd (range_map ord' (vulnerability_map ?ds))"
  have dist: "distinct (map fst (vulnerability_map ?ds))" using vulnerability_map_scored [of ?ds] by (simp add: scored_def)
  have entry: "\<exists>x \<in> set reports. \<exists>w \<in> set (vr_Vulnerabilities (vulnerability_data (o_Body x))).
      vu_VulnerabilityID w = vu_VulnerabilityID (vwc_Vulnerability v) \<and> vu_Score w = Some (entry_score v)" if "v \<in> set ?es" for v
    using that vulnerability_map_scored [of ?ds] range_map_set [OF assms(2) dist] by (fastforce simp: scored_def)
  have "\<not> is_NaN (entry_score v)" if "v \<in> set ?es" for v using entry [OF that] assms(4) by blast
  then have "sort_Stable (\<lambda>v w. float_less (entry_score w) (entry_score v)) ?es = sort_key (\<lambda>v. - float_key (entry_score v)) ?es"
    by (intro sort_Stable_key) (simp add: float_less_def)
  then have top: "nr_Top5Vulnerability r = take 5 (sort_key (\<lambda>v. - float_key (entry_score v)) ?es)"
    unfolding r topNVulnerabilitiesByScore_def Let_def by (simp add: take_MinInt del: length_sort)
  have sorted: "sorted_wrt (\<lambda>v w. float_key (entry_score v) \<ge> float_key (entry_score w)) (nr_Top5Vulnerability r)"
    using take_sort_key(1) [of "\<lambda>v. - float_key (entry_score v)" 5 ?es] unfolding top by (simp add: sorted_map)
  have vulns: "set (nr_Top5Vulnerability r) \<subseteq> set ?es" unfolding top by (rule take_sort_key(3))
  have lengths: "length (nr_Top5VulnerableImages r) = min 5 (length reports)" "length (nr_Top5FailedChecks r) \<le> 5"
    "length (nr_Top5Vulnerability r) \<le> 5"
    using r(3) by (auto simp: r(1) top topNFailedChecksByAffectedWorkloadsCount_def Let_def MinInt_def)
  have "set (nr_Top5VulnerableImages r) \<subseteq> set reports" unfolding r by (rule take_sort_key(3))
  with images entry sorted vulns lengths show ?thesis by blast
qed

definition sample_image :: "int \<Rightarrow> Object" where
  "sample_image n = \<lparr>o_Kind = [], o_Meta = empty_meta\<lparr>om_Name := replicate (nat n) CHR ''x'', om_Namespace := ''default''\<rparr>,
     o_Body = VulnerabilityReport ((vulnerability_data Namespace)\<lparr>vr_Summary := (vr_Summary (vulnerability_data Namespace))\<lparr>vs_CriticalCount := n\<rparr>\<rparr>)\<rparr>"

theorem namespace_report_tops_witness:
  "\<exists>r. namespace_RetrieveData (\<lambda>ks. ks) (\<lambda>ks. ks) mem_client 0 \<lparr>ref_Kind = KindNamespace, ref_Name = ''default'', ref_Namespace = []\<rparr>
      (map sample_image [1, 2, 3, 4, 5, 6]) = Inr r \<and>
    length (nr_Top5VulnerableImages r) = 5 \<and> sample_image 6 \<in> set (nr_Top5VulnerableImages r)"
proof -
  let ?s = "map sample_image [1, 2, 3, 4, 5, 6]" and ?ns = "\<lparr>ref_Kind = KindNamespace, ref_Name = ''default'', ref_Namespace = []\<rparr>"
  have same: "same_id (sample_image a) (sample_image b) \<longleftrightarrow> nat a = nat b" for a b
    by (auto simp: same_id_def sample_image_def key_of_def replicate_eq_replicate)
  have firsts: "firsts ?s = ?s" by (simp add: same)
  have img: "x \<in> set ?s \<Longrightarrow> go_type x = TVulnerabilityReport \<and> om_Namespace (o_Meta x) = ''default''" for x
    by (auto simp: sample_image_def)
  have list: "cl_List mem_client ?s (Some TVulnerabilityReport) \<lparr>lo_Namespace = Some (ref_Name ?ns), lo_Reqs = [], lo_Limit = None\<rparr> = Inr ?s"
    unfolding mem_client_sel mem_List_def firsts by (simp add: img selected_def filter_id_conv del: list.map)
  obtain xs where audits: "cl_List mem_client ?s (Some TConfigAuditReport) \<lparr>lo_Namespace = Some (ref_Name ?ns), lo_Reqs = [], lo_Limit = None\<rparr> = Inr xs"
    by (simp add: mem_List_def del: firsts.simps list.map)
  obtain r where r: "namespace_RetrieveData (\<lambda>ks. ks) (\<lambda>ks. ks) mem_client 0 ?ns ?s = Inr r"
    unfolding namespace_RetrieveData_def Let_def list audits sum.case by blast
  have "\<forall>x \<in> set ?s. \<forall>v \<in> set (vr_Vulnerabilities (vulnerability_data (o_Body x))). \<forall>score. vu_Score v = Some score \<longrightarrow> \<not> is_NaN score"
    by (simp add: sample_image_def)
  note tops = namespace_report_tops [OF r perm_order_id list this]
  have len: "length (nr_Top5VulnerableImages r) = 5" using tops by simp
  have "sample_image 6 \<in> set (nr_Top5VulnerableImages r) \<or> (\<forall>y \<in> set (nr_Top5VulnerableImages r).
      counts (vulnerability_data (o_Body (sample_image 6))) \<le> counts (vulnerability_data (o_Body y)))" using tops by simp
  moreover have "y = sample_image 6" if "y \<in> set ?s" "counts (vulnerability_data (o_Body (sample_image 6))) \<le> counts (vulnerability_data (o_Body y))" for y
    using that by (auto simp: sample_image_def counts_def)
  moreover have "set (nr_Top5VulnerableImages r) \<subseteq> set ?s" using tops by blast
  moreover have "nr_Top5VulnerableImages r \<noteq> []" using len by auto
  ultimately have "sample_image 6 \<in> set (nr_Top5VulnerableImages r)" by (metis list.set_sel(1) subsetD)
  with r len show ?thesis by blast
qed

end
