(* ===== verification/Cli_Commands.thy ===== *)
theory Cli_Commands
  imports Kube_Hunter Installer Html_Report
begin

text \<open>
  The commands of the command line tool (\<^verbatim>\<open>pkg/cmd\<close>): what \<^verbatim>\<open>starboard scan\<close>, \<^verbatim>\<open>get\<close>, \<^verbatim>\<open>report\<close>, \<^verbatim>\<open>config\<close>, \<^verbatim>\<open>install\<close> and
  \<^verbatim>\<open>uninstall\<close> do once the flags are parsed. Flags, the connection to the cluster, the REST mapper, printers and page templates are
  libraries or generated code and parameters here; a step that only connects is its error, if it has one. What a command writes to its
  output is part of its result.
\<close>

section \<open>Arguments\<close>

record GroupVersionResource =
  gvr_Group :: string
  gvr_Version :: string
  gvr_Resource :: string

text \<open>The functions of the API machinery that resolve a resource.\<close>

record RESTMapper =
  rm_ParseResourceArg :: "string \<Rightarrow> GroupVersionResource option \<times> GroupVersionResource"
  rm_ResourceFor :: "GroupVersionResource \<Rightarrow> error + GroupVersionResource"
  rm_KindFor :: "GroupVersionResource \<Rightarrow> error + string"

definition GVRForResource :: "RESTMapper \<Rightarrow> string \<Rightarrow> error + (GroupVersionResource \<times> string)" where
  "GVRForResource mapper resource =
     (let (fullySpecifiedGVR, groupResource) = rm_ParseResourceArg mapper (ToLower resource);
          empty = \<lparr>gvr_Group = [], gvr_Version = [], gvr_Resource = []\<rparr>
      in case (case fullySpecifiedGVR of None \<Rightarrow> Inr empty | Some g \<Rightarrow> rm_ResourceFor mapper g) of
           Inl e \<Rightarrow> Inl e
         | Inr gvr1 \<Rightarrow>
             (case (if gvr1 = empty then rm_ResourceFor mapper groupResource else Inr gvr1) of
                Inl e \<Rightarrow> Inl e
              | Inr gvr \<Rightarrow> (case rm_KindFor mapper gvr of Inl e \<Rightarrow> Inl e | Inr kind \<Rightarrow> Inr (gvr, kind))))"

definition WorkloadFromArgs :: "RESTMapper \<Rightarrow> string \<Rightarrow> string list \<Rightarrow> error + ObjectRef" where
  "WorkloadFromArgs mapper namespace args =
     (case args of
        [] \<Rightarrow> Inl (Errorf ''required workload kind and name not specified'')
      | arg # _ \<Rightarrow>
          (let (resource, resourceName) =
                 (case SplitN2 (CHR ''/'') arg of [n] \<Rightarrow> (''pods'', n) | r # n # _ \<Rightarrow> (r, n) | [] \<Rightarrow> ([], []))
           in case GVRForResource mapper resource of
                Inl e \<Rightarrow> Inl e
              | Inr (_, kind) \<Rightarrow>
                  if resourceName = [] then Inl (Errorf ''required workload name is blank'')
                  else Inr \<lparr>ref_Kind = kind, ref_Name = resourceName, ref_Namespace = namespace\<rparr>))"

definition ComplianceNameFromArgs :: "string list \<Rightarrow> string list \<Rightarrow> error + ObjectKey" where
  "ComplianceNameFromArgs args suffix =
     (case args of
        [] \<Rightarrow> Inl (Errorf ''required compliance name not specified'')
      | name # _ \<Rightarrow>
          Inr \<lparr>key_Namespace = [], key_Name = (case suffix of [] \<Rightarrow> name | x # _ \<Rightarrow> name @ ''-'' @ x)\<rparr>)"

text \<open>What a command gets from its flags and from the libraries.\<close>

record ('s, 'v) cli =
  ci_RESTConfig :: "error option"
  ci_NewClientset :: "error option"
  ci_NewClient :: "error option"
  ci_NewVersioned :: "error option"
  ci_Namespace :: "error + string"
  ci_RESTMapper :: "error + RESTMapper"
  ci_ScanJobTimeout :: "error + Duration"
  ci_DeleteScanJob :: "error + bool"
  ci_client :: "'s client"
  ci_buildVersion :: string
  ci_libs :: scanner_libs
  ci_plugin_env :: plugin_env
  ci_env :: env
  ci_order :: order
  ci_order' :: order
  ci_logs :: "'s logs"
  ci_registry :: "string \<Rightarrow> error + string"
  ci_tolerations :: "string \<Rightarrow> error + string list"
  ci_SetControllerReference :: owner_setter
  ci_SetOwnerReference :: owner_setter
  ci_rego :: rego
  ci_ParseReference :: "string \<Rightarrow> error + ImageRef"
  ci_NewVersion :: "string \<Rightarrow> error + 'v"
  ci_GreaterThanOrEqual :: "'v \<Rightarrow> 'v \<Rightarrow> bool"
  ci_Now :: Time
  ci_world :: "'s world"
  ci_printer :: "string \<Rightarrow> error + (Object list \<Rightarrow> error + string)"
  ci_table_printer :: "Object list \<Rightarrow> error + string"

definition getScannerOpts :: "('s, 'v) cli \<Rightarrow> error + ScannerOpts" where
  "getScannerOpts m =
     (case ci_ScanJobTimeout m of
        Inl e \<Rightarrow> Inl e
      | Inr timeout \<Rightarrow> (case ci_DeleteScanJob m of Inl e \<Rightarrow> Inl e | Inr delete \<Rightarrow> Inr \<lparr>so_ScanJobTimeout = timeout, so_DeleteScanJob = delete\<rparr>))"

text \<open>Steps that only connect: the first that fails ends the command.\<close>

fun connect :: "error option list \<Rightarrow> error option" where
  "connect [] = None"
| "connect (Some e # _) = Some e"
| "connect (None # steps) = connect steps"

text \<open>The namespace of the context, the mapper and the workload named by the arguments.\<close>

definition command_workload :: "('s, 'v) cli \<Rightarrow> string list \<Rightarrow> error + ObjectRef" where
  "command_workload m args =
     (case ci_Namespace m of
        Inl e \<Rightarrow> Inl e
      | Inr ns \<Rightarrow> (case ci_RESTMapper m of Inl e \<Rightarrow> Inl e | Inr mapper \<Rightarrow> WorkloadFromArgs mapper ns args))"

section \<open>Scanning\<close>

definition cli_resolver :: "('s, 'v) cli \<Rightarrow> ConfigData \<Rightarrow> 's Resolver" where
  "cli_resolver m config = \<lparr>rs_buildVersion = ci_buildVersion m, rs_config = config, rs_namespace = NamespaceName,
     rs_serviceAccountName = ServiceAccountName, rs_client = ci_client m, rs_libs = ci_libs m, rs_env = ci_plugin_env m\<rparr>"

definition vulnerability_scanner ::
    "('s, 'v) cli \<Rightarrow> 's Plugin \<Rightarrow> PluginContext \<Rightarrow> ConfigData \<Rightarrow> ScannerOpts \<Rightarrow> 's vulnerability_Scanner" where
  "vulnerability_scanner m pl ctx config opts = \<lparr>vsn_clientset = ci_client m, vsn_plugin = pl, vsn_pluginContext = ctx, vsn_config = config,
     vsn_opts = opts, vsn_env = ci_env m, vsn_logs = ci_logs m, vsn_registry = ci_registry m, vsn_order = ci_order m,
     vsn_tolerations = ci_tolerations m, vsn_SetControllerReference = ci_SetControllerReference m,
     vsn_SetOwnerReference = ci_SetOwnerReference m, vsn_world = ci_world m\<rparr>"

definition ScanVulnerabilityReports :: "('s, 'v) cli \<Rightarrow> string list \<Rightarrow> 's \<Rightarrow> (error option \<times> 's) option" where
  "ScanVulnerabilityReports m args s =
     (case command_workload m args of
        Inl e \<Rightarrow> Some (Some e, s)
      | Inr workload \<Rightarrow>
          (case connect [ci_RESTConfig m, ci_NewClientset m, ci_NewClient m] of
             Some e \<Rightarrow> Some (Some e, s)
           | None \<Rightarrow>
               (case ReadConfig (ci_client m) NamespaceName s of
                  Inl e \<Rightarrow> Some (Some e, s)
                | Inr config \<Rightarrow>
                    (case getScannerOpts m of
                       Inl e \<Rightarrow> Some (Some e, s)
                     | Inr opts \<Rightarrow>
                         (case GetVulnerabilityPlugin (cli_resolver m config) of
                            Inl e \<Rightarrow> Some (Some e, s)
                          | Inr (pl, pluginContext) \<Rightarrow>
                              (case vulnerability_Scan (vulnerability_scanner m pl pluginContext config opts) workload s of
                                 None \<Rightarrow> None
                               | Some (Inl e, s1) \<Rightarrow> Some (Some e, s1)
                               | Some (Inr rs, s1) \<Rightarrow> Some (Write (ci_client m) rs s1)))))))"

text \<open>
  The error of \<^verbatim>\<open>client.New\<close> is overwritten by that of the scan. A scan with the client that was not made would end in a panic
  (the value \<^verbatim>\<open>None\<close> of this model).
\<close>

definition ScanConfigAuditReports :: "('s, 'v) cli \<Rightarrow> string list \<Rightarrow> 's \<Rightarrow> (error option \<times> 's) option" where
  "ScanConfigAuditReports m args s =
     (case command_workload m args of
        Inl e \<Rightarrow> Some (Some e, s)
      | Inr workload \<Rightarrow>
          (case ci_RESTConfig m of
             Some e \<Rightarrow> Some (Some e, s)
           | None \<Rightarrow>
               if ci_NewClient m \<noteq> None then None
               else
                 (case audit_Scan \<lparr>asn_client = ci_client m, asn_env = ci_env m, asn_order = ci_order m, asn_rego = ci_rego m,
                         asn_Version = ci_buildVersion m\<rparr> workload s of
                    Inl e \<Rightarrow> Some (Some e, s)
                  | Inr reportBuilder \<Rightarrow>
                      Some (AuditReportBuilder_Write (ci_env m) (ci_SetControllerReference m) (ci_client m) reportBuilder s))))"

definition kubeHunterReportName :: string where "kubeHunterReportName = ''cluster''"

definition kubehunter_scanner :: "('s, 'v) cli \<Rightarrow> ConfigData \<Rightarrow> ScannerOpts \<Rightarrow> ('s, 'v) kubehunter_Scanner" where
  "kubehunter_scanner m config opts = \<lparr>khn_clientset = ci_client m, khn_opts = opts, khn_config = config, khn_env = ci_env m,
     khn_logs = ci_logs m, khn_tolerations = ci_tolerations m, khn_ParseReference = ci_ParseReference m,
     khn_NewVersion = ci_NewVersion m, khn_GreaterThanOrEqual = ci_GreaterThanOrEqual m,
     khn_decode_Time = sl_decode_Time (ci_libs m), khn_Now = ci_Now m, khn_SetOwnerReference = ci_SetOwnerReference m,
     khn_world = ci_world m\<rparr>"

definition ScanKubeHunterReports :: "('s, 'v) cli \<Rightarrow> 's \<Rightarrow> (error option \<times> 's) option" where
  "ScanKubeHunterReports m s =
     (case connect [ci_RESTConfig m, ci_NewClientset m] of
        Some e \<Rightarrow> Some (Some e, s)
      | None \<Rightarrow>
          (case getScannerOpts m of
             Inl e \<Rightarrow> Some (Some e, s)
           | Inr opts \<Rightarrow>
               (case ReadConfig (ci_client m) NamespaceName s of
                  Inl e \<Rightarrow> Some (Some e, s)
                | Inr config \<Rightarrow>
                    (case kubehunter_Scan (kubehunter_scanner m config opts) s of
                       None \<Rightarrow> None
                     | Some (Inl e, s1) \<Rightarrow> Some (Some e, s1)
                     | Some (Inr report, s1) \<Rightarrow>
                         (case ci_NewVersioned m of
                            Some e \<Rightarrow> Some (Some e, s1)
                          | None \<Rightarrow> Some (kubehunter_Write (ci_client m) report kubeHunterReportName s1))))))"

fun get_named_nodes :: "'s client \<Rightarrow> string list \<Rightarrow> 's \<Rightarrow> error + Object list" where
  "get_named_nodes c [] s = Inr []"
| "get_named_nodes c (name # names) s =
     (case cl_Get c s TNode \<lparr>key_Namespace = [], key_Name = name\<rparr> of
        Inl e \<Rightarrow> Inl e
      | Inr node \<Rightarrow> (case get_named_nodes c names s of Inl e \<Rightarrow> Inl e | Inr nodes \<Rightarrow> Inr (node # nodes)))"

definition GetNodes :: "'s client \<Rightarrow> string list \<Rightarrow> 's \<Rightarrow> error + Object list" where
  "GetNodes c names s =
     (if length names > 0 then get_named_nodes c names s
      else cl_List c s (Some TNode) \<lparr>lo_Namespace = None, lo_Reqs = [], lo_Limit = None\<rparr>)"

definition skip_node :: "Object \<Rightarrow> bool" where
  "skip_node node = (case om_Labels (o_Meta node) LabelOSStable of None \<Rightarrow> False | Some v \<Rightarrow> v \<noteq> ''linux'')"

definition kubebench_scanner :: "('s, 'v) cli \<Rightarrow> ConfigData \<Rightarrow> ScannerOpts \<Rightarrow> 's kubebench_Scanner" where
  "kubebench_scanner m config opts = \<lparr>kbn_clientset = ci_client m, kbn_plugin = kubeBenchPlugin (ci_Now m) (ci_ParseReference m) config,
     kbn_config = config, kbn_opts = opts, kbn_env = ci_env m, kbn_logs = ci_logs m, kbn_tolerations = ci_tolerations m,
     kbn_SetControllerReference = ci_SetControllerReference m, kbn_SetOwnerReference = ci_SetOwnerReference m, kbn_world = ci_world m\<rparr>"

text \<open>The goroutine of one node: its errors are only logged.\<close>

definition scan_node :: "('s, 'v) cli \<Rightarrow> 's kubebench_Scanner \<Rightarrow> Object \<Rightarrow> 's \<Rightarrow> 's option" where
  "scan_node m scanner node s =
     (case kubebench_Scan scanner node s of
        None \<Rightarrow> None
      | Some (Inl _, s1) \<Rightarrow> Some s1
      | Some (Inr report, s1) \<Rightarrow> Some (snd (KubeBench_Write (ci_client m) report s1)))"

text \<open>
  The goroutines run here one after the other, in the order of the list; finer interleavings of their requests are not modelled. The
  command waits for all of them.
\<close>

fun scan_nodes :: "('s, 'v) cli \<Rightarrow> 's kubebench_Scanner \<Rightarrow> Object list \<Rightarrow> 's \<Rightarrow> 's option" where
  "scan_nodes m scanner [] s = Some s"
| "scan_nodes m scanner (node # nodes) s =
     (if skip_node node then scan_nodes m scanner nodes s
      else case scan_node m scanner node s of None \<Rightarrow> None | Some s1 \<Rightarrow> scan_nodes m scanner nodes s1)"

definition ScanKubeBenchReports :: "('s, 'v) cli \<Rightarrow> string list \<Rightarrow> 's \<Rightarrow> (error option \<times> 's) option" where
  "ScanKubeBenchReports m args s =
     (case connect [ci_RESTConfig m, ci_NewClientset m] of
        Some e \<Rightarrow> Some (Some e, s)
      | None \<Rightarrow>
          (case getScannerOpts m of
             Inl e \<Rightarrow> Some (Some e, s)
           | Inr opts \<Rightarrow>
               (case ReadConfig (ci_client m) NamespaceName s of
                  Inl e \<Rightarrow> Some (Some e, s)
                | Inr config \<Rightarrow>
                    (case ci_NewClient m of
                       Some e \<Rightarrow> Some (Some e, s)
                     | None \<Rightarrow>
                         (case GetNodes (ci_client m) args s of
                            Inl e \<Rightarrow> Some (Some (Wrap ''getting nodes'' e), s)
                          | Inr nodes \<Rightarrow> map_option (Pair None) (scan_nodes m (kubebench_scanner m config opts) nodes s))))))"

section \<open>Reading reports\<close>

text \<open>The result of a command that only reads: its error, if any, and what it has written.\<close>

type_synonym shown = "error option \<times> string"

definition no_reports :: "ObjectRef \<Rightarrow> string" where
  "no_reports workload = ''No reports found in '' @ ref_Namespace workload @ '' namespace.'' @ [CHR 0x0A]"

definition print_reports :: "string \<Rightarrow> (Object list \<Rightarrow> error + string) \<Rightarrow> Object list \<Rightarrow> shown" where
  "print_reports msg printer items =
     (case printer items of Inl e \<Rightarrow> (Some (if msg = [] then e else Wrap msg e), []) | Inr out \<Rightarrow> (None, out))"

definition of_container :: "string \<Rightarrow> Object \<Rightarrow> bool" where
  "of_container container item \<longleftrightarrow> container = [] \<or> mget (om_Labels (o_Meta item)) LabelContainerName = container"

text \<open>The empty format is that of the table printer.\<close>

definition GetVulnerabilityReports :: "('s, 'v) cli \<Rightarrow> string \<Rightarrow> string \<Rightarrow> string list \<Rightarrow> 's \<Rightarrow> shown" where
  "GetVulnerabilityReports m format container args s =
     (case connect [ci_RESTConfig m, ci_NewClient m] of
        Some e \<Rightarrow> (Some e, [])
      | None \<Rightarrow>
          (case command_workload m args of
             Inl e \<Rightarrow> (Some e, [])
           | Inr workload \<Rightarrow>
               (case FindByOwnerInHierarchy (ci_env m) (ci_client m) s workload of
                  Inl e \<Rightarrow> (Some (Wrap ''list vulnerability reports'' e), [])
                | Inr items \<Rightarrow>
                    if length items = 0 then (None, no_reports workload)
                    else if format \<notin> {''yaml'', ''json'', []}
                    then (Some (Errorf (''invalid output format '' @ format @ '', allowed formats are: yaml,json'')), [])
                    else
                      (case (if format = [] then Inr (ci_table_printer m) else ci_printer m format) of
                         Inl e \<Rightarrow> (Some e, [])
                       | Inr printer \<Rightarrow>
                           (let shown_items = filter (of_container container) items
                            in if length items > 0 \<and> length shown_items = 0
                               then (Some (Errorf (''container '' @ container @ '' is not valid for '' @ ToLower (ref_Kind workload) @ '' '' @
                                      ref_Name workload)), [])
                               else print_reports [] printer shown_items)))))"

text \<open>An error of the search ends the command without an error and without output.\<close>

definition GetConfigAuditReports :: "('s, 'v) cli \<Rightarrow> string \<Rightarrow> string list \<Rightarrow> 's \<Rightarrow> shown" where
  "GetConfigAuditReports m format args s =
     (case ci_RESTConfig m of
        Some e \<Rightarrow> (Some e, [])
      | None \<Rightarrow>
          (case command_workload m args of
             Inl e \<Rightarrow> (Some e, [])
           | Inr workload \<Rightarrow>
               (case ci_NewClient m of
                  Some e \<Rightarrow> (Some e, [])
                | None \<Rightarrow>
                    (case FindReportByOwnerInHierarchy (ci_env m) (ci_client m) s workload of
                       Inl _ \<Rightarrow> (None, [])
                     | Inr None \<Rightarrow> (None, no_reports workload)
                     | Inr (Some report) \<Rightarrow>
                         (case ci_printer m format of
                            Inl e \<Rightarrow> (Some (Wrap ''create printer'' e), [])
                          | Inr printer \<Rightarrow> print_reports ''print vulnerability reports'' printer [report])))))"

definition GetComplianceReport :: "'s client \<Rightarrow> GoType \<Rightarrow> ObjectKey \<Rightarrow> 's \<Rightarrow> (error \<times> string) + Object" where
  "GetComplianceReport c t namespaceName s =
     (case cl_Get c s t namespaceName of
        Inl err \<Rightarrow>
          if IsNotFound err then Inl (err, ''No complaince reports found with name: '' @ key_Name namespaceName @ '' .'' @ [CHR 0x0A])
          else Inl (Wrap ''failed getting report'' err, [])
      | Inr report \<Rightarrow> Inr report)"

definition show_compliance :: "'s client \<Rightarrow> (Object list \<Rightarrow> error + string) \<Rightarrow> GoType \<Rightarrow> ObjectKey \<Rightarrow> 's \<Rightarrow> shown" where
  "show_compliance c printer t namespaceName s =
     (case GetComplianceReport c t namespaceName s of
        Inl (e, out) \<Rightarrow> (Some e, out)
      | Inr report \<Rightarrow> print_reports ''print compliance reports'' printer [report])"

text \<open>The report is generated anew, then read and shown; the flag \<open>detail\<close> selects the detail report.\<close>

definition GetClusterComplianceReports ::
    "('s, 'v) cli \<Rightarrow> string \<Rightarrow> error + bool \<Rightarrow> string list \<Rightarrow> 's \<Rightarrow> shown \<times> 's" where
  "GetClusterComplianceReports m format detailFlag args s =
     (case ci_RESTConfig m of
        Some e \<Rightarrow> ((Some (Wrap ''failed to create kubeConfig'' e), []), s)
      | None \<Rightarrow>
     (case ci_NewClient m of
        Some e \<Rightarrow> ((Some (Wrap ''failed to create kubernetes client'' e), []), s)
      | None \<Rightarrow>
     (case ComplianceNameFromArgs args [] of
        Inl e \<Rightarrow> ((Some e, []), s)
      | Inr namespaceName \<Rightarrow>
     (case GetComplianceReport (ci_client m) TClusterComplianceReport namespaceName s of
        Inl (e, out) \<Rightarrow> ((Some e, out), s)
      | Inr report \<Rightarrow>
     (case ci_NewClientset m of
        Some e \<Rightarrow> ((Some e, []), s)
      | None \<Rightarrow>
     (case ReadConfig (ci_client m) NamespaceName s of
        Inl e \<Rightarrow> ((Some e, []), s)
      | Inr starboardConfig \<Rightarrow>
     (case GenerateComplianceReport (ci_order m) (ci_client m) starboardConfig (ci_Now m) (report_spec (o_Body report)) s of
        (Some e, s1) \<Rightarrow> ((Some (Wrap ''failed to generate report'' e), []), s1)
      | (None, s1) \<Rightarrow>
     (case ci_printer m format of
        Inl e \<Rightarrow> ((Some (Wrap ''faild to create printer'' e), []), s1)
      | Inr printer \<Rightarrow>
     (case detailFlag of
        Inl e \<Rightarrow> ((Some (Wrap ''detail flag is not set correctly, check flag usage'' e), []), s1)
      | Inr detail \<Rightarrow>
          if \<not> detail then (show_compliance (ci_client m) printer TClusterComplianceReport namespaceName s1, s1)
          else
            (case ComplianceNameFromArgs args [''details''] of
               Inl e \<Rightarrow> ((Some e, []), s1)
             | Inr detailName \<Rightarrow> (show_compliance (ci_client m) printer TClusterComplianceDetailReport detailName s1, s1)))))))))))"

section \<open>The HTML report, the configuration and the installation\<close>

datatype page = WorkloadPage WorkloadReport | NamespacePage NamespaceReport | NodePage NodeReport

definition reportable_workloads :: "string list" where
  "reportable_workloads = [KindDeployment, KindReplicaSet, KindReplicationController, KindStatefulSet, KindDaemonSet, KindCronJob, KindJob,
     KindPod]"

text \<open>
  The page that \<^verbatim>\<open>starboard report\<close> renders. The error of \<^verbatim>\<open>client.New\<close> is overwritten by that of the namespace; the report with
  a client that was not made would end in a panic (the value \<open>None\<close>).
\<close>

definition report_page :: "('s, 'v) cli \<Rightarrow> string list \<Rightarrow> 's \<Rightarrow> (error + page) option" where
  "report_page m args s =
     (case ci_RESTConfig m of
        Some e \<Rightarrow> Some (Inl e)
      | None \<Rightarrow>
          (case command_workload m args of
             Inl e \<Rightarrow> Some (Inl e)
           | Inr workload \<Rightarrow>
               if ref_Kind workload \<notin> set (KindNamespace # KindNode # reportable_workloads)
               then Some (Inl (Errorf (''HTML report is not supported for '' @ ref_Kind workload)))
               else if ci_NewClient m \<noteq> None then None
               else if ref_Kind workload \<in> set reportable_workloads
               then Some (map_sum (\<lambda>e. e) WorkloadPage (workload_RetrieveData (ci_env m) (ci_client m) (ci_Now m) workload s))
               else if ref_Kind workload = KindNamespace
               then Some (map_sum (\<lambda>e. e) NamespacePage
                      (namespace_RetrieveData (ci_order m) (ci_order' m) (ci_client m) (ci_Now m) workload s))
               else Some (map_sum (\<lambda>e. e) NodePage (node_RetrieveData (ci_client m) (ci_Now m) workload s))))"

text \<open>The command \<^verbatim>\<open>config\<close>: the value of one key, or all keys, with or without the values, in the order of the map.\<close>

definition convertMapToString :: "order \<Rightarrow> string gomap \<Rightarrow> bool \<Rightarrow> string" where
  "convertMapToString ord mapToConvert nameOnly =
     Join (CHR 0x0A) (concat (map (\<lambda>(key, val). if nameOnly then [key] else [key, val]) (range_map ord mapToConvert)))"

definition getFilteredValues :: "order \<Rightarrow> string gomap \<Rightarrow> string \<Rightarrow> bool \<Rightarrow> error + string" where
  "getFilteredValues ord data key nameOnly =
     (if key \<noteq> [] then
        (case map_of data key of
           None \<Rightarrow> Inl (Errorf (''no such key exists: '' @ key))
         | Some v \<Rightarrow> if v \<noteq> [] then Inr v else Inl (Errorf (''no such key exists: '' @ key)))
      else Inr (convertMapToString ord data nameOnly))"

text \<open>The banner that follows a successful installation is left out.\<close>

definition InitCmd :: "('s, 'v) cli \<Rightarrow> error option \<Rightarrow> 's Installer \<Rightarrow> 's \<Rightarrow> error option \<times> 's" where
  "InitCmd m NewExtensions installer s =
     (case connect [ci_RESTConfig m, ci_NewClientset m, NewExtensions, ci_NewClient m] of
        Some e \<Rightarrow> (Some e, s)
      | None \<Rightarrow> Install installer s)"

definition CleanupCmd :: "('s, 'v) cli \<Rightarrow> error option \<Rightarrow> 's Installer \<Rightarrow> 's \<Rightarrow> (error option \<times> 's) option" where
  "CleanupCmd m NewExtensions installer s =
     (case connect [ci_RESTConfig m, ci_NewClientset m, NewExtensions, ci_NewClient m] of
        Some e \<Rightarrow> Some (Some e, s)
      | None \<Rightarrow> Uninstall installer s)"

section \<open>Properties\<close>

text \<open>
  C24. After a successful hunt the cluster's only report is stored: it was read from the logs of the hunting job, and its summary
  counts exactly the weaknesses of each severity, with those of any other severity as unknown.
\<close>

theorem hunt_stored:
  assumes "api_laws (ci_client m)" and "ScanKubeHunterReports m s = Some (None, s')"
  shows "\<exists>y d config opts job s1 out. cl_Get (ci_client m) s' TKubeHunterReport \<lparr>key_Namespace = [], key_Name = ''cluster''\<rparr> = Inr y \<and>
    o_Body y = KubeHunterReport d \<and> prepareKubeHunterJob (kubehunter_scanner m config opts) = Inr job \<and>
    GetLogsByJobAndContainerName (ci_client m) (ci_logs m) s1 job ''kube-hunter'' = Inr out \<and>
    OutputFrom (sl_decode_Time (ci_libs m)) (ci_ParseReference m) (ci_Now m) config out = Inr d \<and>
    khr_Summary d = \<lparr>khs_HighCount = int (length (filter (\<lambda>v. khv_Severity v = ''high'') (khr_Vulnerabilities d))),
      khs_MediumCount = int (length (filter (\<lambda>v. khv_Severity v = ''medium'') (khr_Vulnerabilities d))),
      khs_LowCount = int (length (filter (\<lambda>v. khv_Severity v = ''low'') (khr_Vulnerabilities d))),
      khs_UnknownCount = int (length (filter (\<lambda>v. khv_Severity v \<notin> {''high'', ''medium'', ''low''}) (khr_Vulnerabilities d)))\<rparr>"
proof -
  obtain opts config d s1 where scan: "kubehunter_Scan (kubehunter_scanner m config opts) s = Some (Inr d, s1)"
    and written: "kubehunter_Write (ci_client m) d ''cluster'' s1 = (None, s')"
    using assms(2) by (auto simp: ScanKubeHunterReports_def kubeHunterReportName_def split: option.splits sum.splits prod.splits)
  obtain job s2 out where job: "prepareKubeHunterJob (kubehunter_scanner m config opts) = Inr job"
    and logs: "GetLogsByJobAndContainerName (ci_client m) (ci_logs m) s2 job ''kube-hunter'' = Inr out"
    and out: "OutputFrom (sl_decode_Time (ci_libs m)) (ci_ParseReference m) (ci_Now m) config out = Inr d"
    using scan by (elim kubehunter_Scan_ok) (simp add: kubehunter_scanner_def kubeHunterContainerName_def)
  note summary = OutputFrom_summary [OF out, unfolded hunter_summary_exact KubeHunterSeverityHigh_def KubeHunterSeverityMedium_def
      KubeHunterSeverityLow_def]
  show ?thesis using hunter_Write_stored(1) [OF assms(1) written] job logs out summary by blast
qed

text \<open>
  A tool whose arguments name pods in the namespace \<^verbatim>\<open>prod\<close>, in a cluster where a job completes once its pod is there. The jobs log
  the output of a hunt with one weakness.
\<close>

definition sample_hunt :: string where
  "sample_hunt = encode_json (JObject [(''vulnerabilities'', JArray [JObject [(''vid'', JString ''KHV050''), (''severity'', JString ''low'')]])])"

definition sample_cli :: "(Object list, nat) cli" where
  "sample_cli = \<lparr>ci_RESTConfig = None, ci_NewClientset = None, ci_NewClient = None, ci_NewVersioned = None, ci_Namespace = Inr ''prod'',
     ci_RESTMapper = Inr \<lparr>rm_ParseResourceArg = (\<lambda>r. (None, \<lparr>gvr_Group = [], gvr_Version = [], gvr_Resource = r\<rparr>)), rm_ResourceFor = Inr,
       rm_KindFor = (\<lambda>_. Inr KindPod)\<rparr>,
     ci_ScanJobTimeout = Inr 0, ci_DeleteScanJob = Inr True, ci_client = mem_client, ci_buildVersion = ''0.15.4'',
     ci_libs = rt_libs sample_runtime, ci_plugin_env = sample_plugin_env, ci_env = sample_env, ci_order = (\<lambda>ks. ks), ci_order' = rev,
     ci_logs = (\<lambda>_ _ _. Inr sample_hunt), ci_registry = (\<lambda>_. Inr ''index.docker.io''), ci_tolerations = (\<lambda>_. Inr []),
     ci_SetControllerReference = (\<lambda>_ _. Inr []), ci_SetOwnerReference = (\<lambda>_ _. Inr []), ci_rego = sample_rego,
     ci_ParseReference = (\<lambda>_. Inr (ImageTag ''0.6.5'')), ci_NewVersion = (\<lambda>_. Inr 0), ci_GreaterThanOrEqual = (\<lambda>v w. w \<le> v), ci_Now = 7,
     ci_world = (\<lambda>s job. [(JobUpdated (om_UID (o_Meta job)) [\<lparr>jc_Type = JobComplete, jc_Reason = [], jc_Message = []\<rparr>], sample_job_pod # s)]),
     ci_printer = (\<lambda>_. Inr (\<lambda>items. Inr (show_nat (length items)))), ci_table_printer = (\<lambda>items. Inr (show_nat (length items)))\<rparr>"

lemma sample_OutputFrom:
  "\<exists>d. OutputFrom (\<lambda>_ t. (t, None)) (\<lambda>_. Inr (ImageTag ''0.6.5'')) 7 (map_of GetDefaultConfig) sample_hunt = Inr d"
proof -
  have "map_sum (\<lambda>x. x) (\<lambda>_. ()) (OutputFrom (\<lambda>_ t. (t, None)) (\<lambda>_. Inr (ImageTag ''0.6.5'')) 7 (map_of GetDefaultConfig) sample_hunt) = Inr ()"
    by code_simp
  then show ?thesis by (cases "OutputFrom (\<lambda>_ t. (t, None)) (\<lambda>_. Inr (ImageTag ''0.6.5'')) 7 (map_of GetDefaultConfig) sample_hunt") auto
qed

lemma sample_hunter_job:
  "\<exists>job. prepareKubeHunterJob (kubehunter_scanner sample_cli (map_of GetDefaultConfig) opts) = Inr job \<and> go_type job = TJob \<and>
     om_Namespace (o_Meta job) = ''starboard'' \<and> match_labels (o_Body job) = [] \<and> om_UID (o_Meta job) = []"
proof -
  have config: "map_of GetDefaultConfig keyKubeHunterImageRef = Some ''docker.io/aquasec/kube-hunter:0.6.5''"
    "map_of GetDefaultConfig keyKubeHunterQuick = Some ''false''"
    by (simp_all add: GetDefaultConfig_def label_simps)
  have none: "map_of GetDefaultConfig keyScanJobTolerations = None" "map_of GetDefaultConfig keyScanJobAnnotations = None"
    "map_of GetDefaultConfig keyScanJobPodTemplateLabels = None"
    by (simp_all add: GetDefaultConfig_def label_simps)
  show ?thesis
    by (simp add: prepareKubeHunterJob_def kubehunter_scanner_def sample_cli_def GetKubeHunterImageRef_def GetRequiredData_def
        GetKubeHunterQuick_def GetScanJobTolerations_def GetScanJobAnnotations_def GetScanJobPodTemplateLabels_def parse_pairs_def
        GetVersionFromImageRef_def config none empty_meta_def NamespaceName_def split: prod.split)
qed

lemma mem_kubehunter_Write: "\<exists>s'. kubehunter_Write mem_client d ''cluster'' s = (None, s')"
proof -
  let ?x = "\<lparr>o_Kind = [], o_Meta = empty_meta\<lparr>om_Name := ''cluster'', om_Labels := [LabelResourceKind \<mapsto> ''Cluster'',
    LabelResourceName \<mapsto> ''cluster'']\<rparr>, o_Body = KubeHunterReport d\<rparr>" and ?k = "\<lparr>key_Namespace = [], key_Name = ''cluster''\<rparr>"
  have x: "go_type ?x = TKubeHunterReport" "key_of ?x = ?k" by (simp_all add: key_of_def empty_meta_def)
  have name: "TrimSpace ''cluster'' \<noteq> []" by code_simp
  show ?thesis
  proof (cases "mem_Get s TKubeHunterReport ?k")
    case (Inl e)
    then have "mem_Create s ?x = (Inr ?x, ?x # s)" using mem_create_ok [of s ?x] x by simp
    then show ?thesis using name by (simp add: kubehunter_Write_def)
  next
    case (Inr y)
    note y = mem_Get_Inr [OF Inr]
    then have "mem_Create s ?x = (Inl AlreadyExists, s)" using x by (auto simp: mem_Create_def same_id_def intro!: bexI [of _ y])
    moreover have "key_of (y\<lparr>o_Body := KubeHunterReport d\<rparr>) = ?k" using y by (simp add: key_of_def)
    ultimately show ?thesis
      using name Inr mem_update_ok [of s "y\<lparr>o_Body := KubeHunterReport d\<rparr>" y] by (simp add: kubehunter_Write_def)
  qed
qed

lemma sample_hunter_run: "\<exists>d s'. kubehunter_Scan (kubehunter_scanner sample_cli (map_of GetDefaultConfig) opts) first_state = Some (Inr d, s')"
proof -
  let ?h = "kubehunter_scanner sample_cli (map_of GetDefaultConfig) opts"
  obtain job where job: "prepareKubeHunterJob ?h = Inr job" "go_type job = TJob" "om_Namespace (o_Meta job) = ''starboard''"
    "match_labels (o_Body job) = []" "om_UID (o_Meta job) = []" using sample_hunter_job by blast
  let ?s = "sample_job_pod # job # first_state"
  have h: "khn_clientset ?h = mem_client" "khn_logs ?h = (\<lambda>_ _ _. Inr sample_hunt)" "khn_config ?h = map_of GetDefaultConfig"
    "khn_decode_Time ?h = (\<lambda>_ t. (t, None))" "khn_ParseReference ?h = (\<lambda>_. Inr (ImageTag ''0.6.5''))" "khn_Now ?h = 7"
    "khn_world ?h = ci_world sample_cli"
    by (simp_all add: kubehunter_scanner_def sample_cli_def sample_runtime_def)
  have types: "go_type sample_job_pod = TPod" "\<forall>x \<in> set first_state. go_type x \<notin> {TJob, TPod}"
    by (simp_all add: sample_job_pod_def default_secret_def sample_policies_def default_config_map_def)
  have create: "create_in mem_client ''starboard'' first_state job = (Inr job, job # first_state)"
    using types(2) job by (auto simp: create_in_def set_namespace_same mem_Create_def same_id_def)
  have get: "mem_Get ?s TJob (key_of job) = Inr job" using job(2) types(1) by (simp add: mem_Get_Cons)
  have "\<forall>x \<in> set (firsts (job # first_state)). go_type x \<noteq> TPod" using types(2) job(2) firsts_set [of _ "job # first_state"] by auto
  then have others: "filter (\<lambda>x. Q x \<and> go_type x = TPod \<and> P x) (firsts (job # first_state)) = []" for P Q
    by (auto simp: filter_empty_conv simp del: firsts.simps)
  have pod: "selected \<lparr>lo_Namespace = Some ''starboard'', lo_Reqs = [ReqEq ''controller-uid'' []], lo_Limit = None\<rparr> sample_job_pod"
    by (simp add: selected_def sample_job_pod_def)
  have "mem_List ?s (Some TPod) \<lparr>lo_Namespace = Some ''starboard'', lo_Reqs = [ReqEq ''controller-uid'' []], lo_Limit = None\<rparr> = Inr [sample_job_pod]"
    unfolding mem_List_def firsts.simps(2) [of sample_job_pod] by (simp add: Let_def pod types(1) others del: firsts.simps)
  then have "getPodByJob mem_client ?s job = Inr (Some sample_job_pod)" using get job(3,4) by (simp add: getPodByJob_def mget_def)
  then have result: "\<exists>d. hunter_result ?h job ?s = Inr d"
    using sample_OutputFrom by (simp add: hunter_result_def h GetLogsByJobAndContainerName_def)
  have "runnableJob_Run (khn_world ?h) \<lparr>rj_clientset = mem_client, rj_SetOwnerReference = khn_SetOwnerReference ?h, rj_job = job, rj_secrets = []\<rparr>
      first_state = Some (None, ?s)"
    using create job(3,5) by (simp add: runnableJob_Run_def Let_def h(7)) (simp add: sample_cli_def)
  then show ?thesis using result by (auto simp: kubehunter_Scan_def job(1) h(1) run_scan_def runner_Run_def)
qed

theorem hunt_stored_witness:
  "\<exists>s' y d. ScanKubeHunterReports sample_cli first_state = Some (None, s') \<and>
     mem_Get s' TKubeHunterReport \<lparr>key_Namespace = [], key_Name = ''cluster''\<rparr> = Inr y \<and> o_Body y = KubeHunterReport d \<and>
     khs_LowCount (khr_Summary d) = int (length (filter (\<lambda>v. khv_Severity v = ''low'') (khr_Vulnerabilities d)))"
proof -
  let ?opts = "\<lparr>so_ScanJobTimeout = 0, so_DeleteScanJob = True\<rparr>"
  have c: "ci_client sample_cli = mem_client" "getScannerOpts sample_cli = Inr ?opts" "ci_RESTConfig sample_cli = None"
    "ci_NewClientset sample_cli = None" "ci_NewVersioned sample_cli = None" "NamespaceName = ''starboard''"
    by (simp_all add: sample_cli_def getScannerOpts_def NamespaceName_def)
  obtain d s1 where "kubehunter_Scan (kubehunter_scanner sample_cli (map_of GetDefaultConfig) ?opts) first_state = Some (Inr d, s1)"
    using sample_hunter_run by blast
  moreover obtain s2 where "kubehunter_Write mem_client d ''cluster'' s1 = (None, s2)" using mem_kubehunter_Write by blast
  ultimately have s': "ScanKubeHunterReports sample_cli first_state = Some (None, s2)"
    by (simp add: ScanKubeHunterReports_def c first_start(2) kubeHunterReportName_def)
  from hunt_stored [of sample_cli, unfolded c(1), OF mem_laws s'] s' show ?thesis by fastforce
qed

text \<open>
  C23. A scanned workload can be shown: after the reports of a successful scan have been written, the command \<^verbatim>\<open>get
  vulnerabilityreports\<close> for the same workload and any of its containers prints at least one report, all of them reports of the
  object that the scan attributed them to and of this container. This holds for a workload that is its own report owner, and for a
  deployment or a pod that has no reports of its own and whose replica set is still the one that was scanned. (The reports must have different
  names and the printer must be available. It does not hold for a job of a cron job: its reports belong to the cron job, and the command
  looks only from deployments and pods to replica sets.)
\<close>

theorem scanned_workload_shown:
  assumes "api_laws (vsn_clientset v)" and "perm_order (vsn_order v)" and "vulnerability_Scan v workload s = Some (Inr rs, s1)"
    and "Write (vsn_clientset v) rs s1 = (None, s2)" and "distinct (map key_of rs)"
    and "scan_prepare v workload s = Inr (owner, job, secrets)" and "GetPodSpec owner = Inr spec"
    and "container \<in> fst ` set (GetContainerImagesFromPodSpec spec)"
    and "ci_client m = vsn_clientset v" and "ci_env m = vsn_env v" and "ci_RESTConfig m = None" and "ci_NewClient m = None"
    and "command_workload m args = Inr workload" and "ci_printer m ''json'' = Inr printer"
    and "FindByOwner (vsn_env v) (vsn_clientset v) s2 (ref_of owner) = Inr found"
    and "workload = ref_of owner \<or>
      ref_Kind workload \<in> {KindDeployment, KindPod} \<and> ref_Namespace workload = om_Namespace (o_Meta owner) \<and>
      o_Kind owner = KindReplicaSet \<and> FindByOwner (vsn_env v) (vsn_clientset v) s2 workload = Inr [] \<and>
      RelatedReplicaSetName (vsn_clientset v) s2 workload = Inr (om_Name (o_Meta owner))"
  shows "\<exists>items. GetVulnerabilityReports m ''json'' container args s2 = print_reports [] printer items \<and> items \<noteq> [] \<and>
    set items \<subseteq> set found \<and> (container \<noteq> [] \<longrightarrow> (\<forall>y \<in> set items. om_Labels (o_Meta y) LabelContainerName = Some container))"
proof -
  obtain owner' job' secrets' spec' images s1' where p: "scan_prepare v workload s = Inr (owner', job', secrets')" "GetPodSpec owner' = Inr spec'"
    and im: "distinct (map fst images)" "fst ` set images = fst ` set (GetContainerImagesFromPodSpec spec')"
    and sr: "scan_reports v s1' job' owner' (ComputeHash (vsn_env v) (HPodSpec spec')) (range_map (vsn_order v) images) = Inr rs"
    by (rule vulnerability_Scan_built [OF assms(2,3)])
  have same: "owner' = owner" "spec' = spec" using p assms(6,7) by auto
  note cs = scan_reports_containers [OF assms(2) im(1) sr, unfolded im(2) same]
  obtain x where x: "x \<in> set rs" "report_container (ComputeHash (vsn_env v) (HPodSpec spec)) x = Some container"
    using cs(2) assms(8) by (metis imageE imageI list.set_map)
  then have label: "om_Labels (o_Meta x) LabelContainerName = Some container"
    by (auto simp: report_container_def split: option.splits if_splits)
  obtain b where b: "ReportBuilder_Get (vsn_env v) (vsn_SetControllerReference v) b = Inr x" "rb_controller b = owner" using cs(3) x(1) by blast
  have typed: "\<forall>x \<in> set rs. go_type x = TVulnerabilityReport \<and> True" using cs(3) ReportBuilder_Get_meta(1) by blast
  obtain y where y: "cl_Get (vsn_clientset v) s2 TVulnerabilityReport (key_of x) = Inr y" "stores y x"
    using vuln_store.write_all_stored [OF assms(1) typed assms(5) assms(4) [unfolded Write_def] x(1)] by blast
  have found: "y \<in> set found" using stored_report_found(1) [OF assms(1) b(1) y] assms(15) b(2) by simp
  have "of_container container y" using y(2) label by (simp add: of_container_def stores_def)
  then have items: "filter (of_container container) found \<noteq> []" using found by (auto simp: filter_empty_conv)
  have "FindByOwnerInHierarchy (ci_env m) (ci_client m) s2 workload = Inr found"
    using assms(9,10,15,16) found by (auto simp: FindByOwnerInHierarchy_def ref_of_def)
  then have "GetVulnerabilityReports m ''json'' container args s2 = print_reports [] printer (filter (of_container container) found)"
    using assms(11-14) items found by (auto simp: GetVulnerabilityReports_def Let_def)
  moreover have "om_Labels (o_Meta z) LabelContainerName = Some container"
    if "of_container container z" "container \<noteq> []" for z
    using that by (auto simp: of_container_def mget_def split: option.splits)
  ultimately show ?thesis using items by (intro exI [of _ "filter (of_container container) found"]) auto
qed

lemma mem_Write_one:
  assumes "go_type x = TVulnerabilityReport"
  shows "\<exists>s'. Write mem_client [x] s = (None, s')"
proof -
  have "\<exists>s'. createOrUpdate mem_client x s = (None, s')"
  proof (cases "mem_Get s TVulnerabilityReport (key_of x)")
    case (Inl e)
    then show ?thesis using mem_create_ok [of s x] mem_Get_Inl [OF Inl] assms by (simp add: createOrUpdate_def upsert_def)
  next
    case (Inr y)
    let ?y = "y\<lparr>o_Meta := (o_Meta y)\<lparr>om_Labels := om_Labels (o_Meta x)\<rparr>, o_Body := o_Body x\<rparr>"
    have "key_of ?y = key_of x" using mem_Get_Inr [OF Inr] by (simp add: key_of_def)
    then show ?thesis using Inr assms mem_update_ok [of s ?y y] by (simp add: createOrUpdate_def upsert_def)
  qed
  then show ?thesis by (auto simp: Write_def)
qed

theorem scanned_workload_shown_witness:
  "\<exists>rs s1 s2. \<exists>items :: Object list. vulnerability_Scan (sample_scanner JobComplete) (ref_of sample_pod) sample_cluster = Some (Inr rs, s1) \<and>
     Write mem_client rs s1 = (None, s2) \<and>
     GetVulnerabilityReports sample_cli ''json'' ''nginx'' [''web''] s2 = (None, show_nat (length items)) \<and> items \<noteq> []"
proof -
  let ?v = "sample_scanner JobComplete"
  have v: "vsn_clientset ?v = mem_client" "vsn_env ?v = sample_env" "perm_order (vsn_order ?v)"
    by (simp_all add: sample_scanner_def perm_order_def)
  obtain x s1 where scan: "vulnerability_Scan ?v (ref_of sample_pod) sample_cluster = Some (Inr [x], s1)" "go_type x = TVulnerabilityReport"
    using sample_scan by blast
  obtain s2 where s2: "Write mem_client [x] s1 = (None, s2)" using mem_Write_one [OF scan(2)] by blast
  have args: "command_workload sample_cli [''web''] = Inr (ref_of sample_pod)"
    by (simp add: command_workload_def WorkloadFromArgs_def sample_cli_def SplitN2_def GVRForResource_def ref_of_def sample_pod_def Let_def)
  have spec: "GetPodSpec sample_pod = Inr sample_podspec" by (simp add: GetPodSpec_def sample_pod_def)
  have container: "''nginx'' \<in> fst ` set (GetContainerImagesFromPodSpec sample_podspec)"
    by (simp add: GetContainerImagesFromPodSpec_def sample_podspec_def sample_container_def)
  obtain found where found: "FindByOwner sample_env mem_client s2 (ref_of sample_pod) = Inr found"
    by (simp add: FindByOwner_def mem_List_def Let_def)
  have m: "ci_client sample_cli = mem_client" "ci_env sample_cli = sample_env" "ci_RESTConfig sample_cli = None" "ci_NewClient sample_cli = None"
    "ci_printer sample_cli ''json'' = Inr (\<lambda>items. Inr (show_nat (length items)))" by (simp_all add: sample_cli_def)
  obtain items where "GetVulnerabilityReports sample_cli ''json'' ''nginx'' [''web''] s2 = print_reports [] (\<lambda>items. Inr (show_nat (length items))) items"
    "items \<noteq> []"
    using scanned_workload_shown [of ?v, unfolded v(1,2), OF mem_laws v(3) scan(1) s2 _ sample_prepare [OF sample_cluster_reads(3,4)] spec container
        m(1,2,3,4) args m(5) found] by auto
  then show ?thesis using scan(1) s2 by (auto simp: print_reports_def)
qed

text \<open>
  C40. A pod that no controller owns and that has no configuration audit report gets no HTML report even if it has been scanned for
  vulnerabilities: the search for the audit report goes on to the replica set of the pod and fails because there is none. The same
  failure makes \<^verbatim>\<open>get configauditreports\<close> end without an error and without any output.
\<close>

theorem standalone_pod_not_reported:
  assumes "ci_RESTConfig m = None" and "ci_NewClient m = None" and "command_workload m args = Inr workload" and "ref_Kind workload = KindPod"
    and "FindReportByOwner (ci_env m) (ci_client m) s workload = Inr None"
    and "cl_Get (ci_client m) s TPod \<lparr>key_Namespace = ref_Namespace workload, key_Name = ref_Name workload\<rparr> = Inr pod"
    and "GetControllerOf pod = None"
  shows "report_page m args s = Some (Inl (Wrap ''getting replicaset related to'' (Errorf ''did not find a controller''))) \<and>
    GetConfigAuditReports m format args s = (None, [])"
proof -
  have "RelatedReplicaSetName (ci_client m) s workload = Inl (Errorf ''did not find a controller'')"
    using assms(4,6,7) by (simp add: RelatedReplicaSetName_def ReplicaSetByPodRef_def ReplicaSetByPod_def controlled_by_def kube_simps)
  then have find: "FindReportByOwnerInHierarchy (ci_env m) (ci_client m) s workload =
      Inl (Wrap ''getting replicaset related to'' (Errorf ''did not find a controller''))"
    using assms(4,5) by (simp add: FindReportByOwnerInHierarchy_def)
  have "KindPod \<in> set reportable_workloads" by (simp add: reportable_workloads_def)
  then show ?thesis using assms(1-4) find by (simp add: report_page_def workload_RetrieveData_def GetConfigAuditReports_def)
qed

theorem standalone_pod_not_reported_witness:
  "\<exists>e. report_page sample_cli [''web''] [sample_pod] = Some (Inl e) \<and> GetConfigAuditReports sample_cli ''json'' [''web''] [sample_pod] = (None, [])"
proof -
  have args: "command_workload sample_cli [''web''] = Inr (ref_of sample_pod)"
    by (simp add: command_workload_def WorkloadFromArgs_def sample_cli_def SplitN2_def GVRForResource_def ref_of_def sample_pod_def Let_def)
  have m: "ci_RESTConfig sample_cli = None" "ci_NewClient sample_cli = None" "ci_client sample_cli = mem_client" "ci_env sample_cli = sample_env"
    by (simp_all add: sample_cli_def)
  have kind: "ref_Kind (ref_of sample_pod) = KindPod" "GetControllerOf sample_pod = None"
    by (simp_all add: ref_of_def sample_pod_def GetControllerOf_def empty_meta_def)
  have none: "FindReportByOwner sample_env mem_client [sample_pod] (ref_of sample_pod) = Inr None"
    by (simp add: FindReportByOwner_def mem_List_def Let_def sample_pod_def owner_options_def first_item_def)
  have "cl_Get mem_client [sample_pod] TPod \<lparr>key_Namespace = ref_Namespace (ref_of sample_pod), key_Name = ref_Name (ref_of sample_pod)\<rparr>
      = Inr sample_pod" by (simp add: mem_Get_def ref_of_def sample_pod_def key_of_def)
  from standalone_pod_not_reported [OF m(1,2) args kind(1) none [folded m(3,4)] this [folded m(3)] kind(2)] show ?thesis by blast
qed

end
