(* ===== verification/Spec2Isabelle.thy ===== *)
theory Spec2Isabelle
  imports Start_Up Aqua_Scanner Cli_Commands
begin

text \<open>
  A model of Starboard, a Kubernetes security toolkit written in Go, and proofs about it. Paths are
  relative to \<^verbatim>\<open>src/\<close>.

  \<^bold>\<open>The program.\<close> Starboard's operator watches a cluster and keeps security reports, stored as custom
  resources, up to date. For a workload without current vulnerability reports it creates a scan job (a
  Kubernetes \<^verbatim>\<open>Job\<close> labelled with the workload's reference and the hash of its pod specification);
  when the job has finished, another reconciler reads the logs of its containers, lets a plugin parse
  them, stores one report per container and deletes the job. Configuration audits are done either the same way by a
  plugin or directly by evaluating Rego policies; a third kind of job runs the CIS benchmark on every
  node. Further controllers delete reports that have expired, reports made with an older configuration
  (in batches), and compute compliance reports from the other reports on a schedule. All controllers
  run side by side, share nothing but the cluster, and check a common limit on the number of scan jobs.
  The scanners themselves are plugins: Trivy and Aqua for vulnerabilities, Polaris and Conftest for
  configuration audits. Each builds the pod of a scan job with its secrets and reads the logs of the pod; the pods
  of the Aqua plugin run a program of their own. The command line tool uses the same plugins, builders and
  stores: it installs what Starboard needs in a cluster, runs one scan and waits for its job, shows stored
  reports and renders HTML summaries.

  \<^bold>\<open>How it is modelled.\<close> The cluster is an abstract state \<open>'s\<close> and the API client a record of functions
  on it (\<open>Kube_Api\<close>): reads are pure and may fail, writes return a result and the new state. What the
  API server promises is the predicate \<open>api_laws\<close>, a hypothesis of the theorems that need it;
  \<open>Mem_Client\<close> implements the client on a list of objects and satisfies every law, and the witnesses run the model
  on it. Every operation of the code is a function with the same
  early returns; an \<^verbatim>\<open>error\<close> result is \<open>error + 'a\<close> or \<open>error option\<close>. A loop over a Go map takes a
  function \<open>ord\<close> that picks the order, any permutation, so a theorem about it holds for whatever order the
  runtime chooses. Library code that is not part of the repository (hash functions, Rego evaluation,
  image reference, quantity and cron parsing, YAML, HTTP exchanges, \<^verbatim>\<open>SetControllerReference\<close>, log streams) is a field of a record
  or an argument; the clock is read once for a run. A call that may block for ever returns an \<open>option\<close>, with \<open>None\<close> for
  never returning. Log messages are left out.

  \<^bold>\<open>The theories\<close>, in the order of their imports.
  \<^item> \<open>Prelude\<close>: shared lemmas, Go maps, permuted iteration. \<open>Go_Lib\<close>, \<open>Go_Error\<close>, \<open>Go_Match\<close>,
    \<open>Go_Duration\<close>, \<open>Go_Base64\<close>, \<open>Go_Url\<close>, \<open>Go_Json\<close>, \<open>Json_Value\<close>, \<open>Json_Decode\<close>: the parts of the
    language and its standard library that the code calls, with the round trips the components need:
    what \<open>encode_json\<close> prints is read back as the same value, and struct decoding keeps the fields a document does not name.
    \<open>Go_Float\<close>: decimal numbers to the nearest floating-point number.
  \<^item> \<open>Kube_Api\<close>, \<open>Mem_Client\<close>: objects, client, laws and an instance. \<open>Api_Types\<close>: the report data of
    \<^verbatim>\<open>pkg/apis/aquasecurity/v1alpha1\<close>. \<open>Starboard_Const\<close>, \<open>Starboard_Config\<close>: \<^verbatim>\<open>pkg/starboard\<close>.
  \<^item> \<open>Kube_Object\<close> (\<^verbatim>\<open>pkg/kube/object.go\<close>, \<^verbatim>\<open>resources.go\<close>): references, owners, container images.
    \<open>Docker_Config\<close>, \<open>Kube_Secrets\<close> (\<^verbatim>\<open>pkg/docker\<close>, \<^verbatim>\<open>pkg/kube/secrets.go\<close>, \<^verbatim>\<open>logs.go\<close>): pull
    secrets, registry credentials, the pod of a job.
  \<^item> \<open>Operator_Config\<close> (\<^verbatim>\<open>pkg/operator/etc\<close>, \<^verbatim>\<open>predicate\<close>): settings, install modes, event
    filters. \<open>Report_Ttl\<close> (\<^verbatim>\<open>ttl_report.go\<close>, \<^verbatim>\<open>limit_checker.go\<close>).
  \<^item> \<open>Report_Store\<close>: the locale \<open>report_store\<close>, the contract of the report writers (a write
    stores one report and touches nothing else; writing a list of reports with different names stores them all), interpreted
    by the writers of \<open>Vulnerability_Report\<close>, \<open>Config_Audit\<close> (two) and \<open>Kube_Bench\<close>.
  \<^item> \<open>Scan_Jobs\<close>: creating a job with its secrets, dispatching on its first condition, deleting it. The locale
    \<open>scan_scheduler\<close> is the contract of a reconciler that decides and then submits at most one job
    below the limit, \<open>job_processor\<close> that of one that handles finished jobs and never adds any;
    both are interpreted by the three scan controllers.
  \<^item> \<open>Vulnerability_Report\<close>, \<open>Vulnerability_Controller\<close> (\<^verbatim>\<open>pkg/vulnerabilityreport\<close>).
  \<^item> \<open>Policy\<close> (\<^verbatim>\<open>pkg/policy\<close>), \<open>Config_Audit\<close>, \<open>Config_Audit_Controller\<close>
    (\<^verbatim>\<open>pkg/configauditreport\<close>), \<open>Config_Audit_Plugin\<close> (\<^verbatim>\<open>pkg/operator/controller/configauditreport.go\<close>,
    \<^verbatim>\<open>plugins_config.go\<close>). \<open>Batch_Delete\<close>: the locale \<open>stale_report_cleaner\<close> of the four
    reconcilers that delete stale reports in batches, interpreted by all four.
  \<^item> \<open>Kube_Bench\<close> (\<^verbatim>\<open>pkg/kubebench\<close>, \<^verbatim>\<open>pkg/operator/controller/ciskubebenchreport.go\<close>).
  \<^item> \<open>Compliance\<close> (\<^verbatim>\<open>pkg/compliance\<close>): the locale \<open>report_mapper\<close> is the contract of the two
    functions that turn stored reports into check results.
  \<^item> \<open>Operator\<close> (\<^verbatim>\<open>pkg/operator/operator.go\<close>): which controllers are registered, and their interleaving as the step
    relation \<open>op_step\<close>: a scheduler's decision and its submission are separate steps, and anything may
    happen between them. \<open>Job_Pool\<close>: an abstract pool of jobs with a limit and tickets, which the operator refines step by step.
  \<^item> \<open>Plugin_Common\<close>: pods and settings the plugins share, and the locales \<open>image_scanner\<close> and \<open>audit_scanner\<close>, the
    contracts of the two plugin interfaces. \<open>Trivy\<close>, \<open>Aqua\<close>, \<open>Polaris\<close>, \<open>Conftest\<close> (\<^verbatim>\<open>pkg/plugin\<close>) interpret them; the locale
    \<open>policy_source\<close> (in \<open>Policy\<close>) is the contract of a set of policies, interpreted by the built-in auditor and by Conftest. \<open>Aqua_Scanner\<close>
    (\<^verbatim>\<open>cmd/scanner-aqua\<close>, \<^verbatim>\<open>pkg/plugin/aqua/client\<close>, \<^verbatim>\<open>scanner\<close>): the program in the Aqua plugin's pods. \<open>Plugin_Factory\<close>
    (\<^verbatim>\<open>pkg/plugin/factory.go\<close>): the choice of the plugins by the configuration. \<open>Start_Up\<close>: the operator's start,
    from the configuration to the wired controllers.
  \<^item> \<open>Job_Runner\<close> (\<^verbatim>\<open>pkg/kube/runnable_job.go\<close>, \<^verbatim>\<open>pkg/runner\<close>): creating a job and waiting for its events; the
    parameter \<open>world\<close> gives the events of a job, each with the state of the cluster when it arrives. \<open>Cli_Scanners\<close>
    (\<^verbatim>\<open>scanner.go\<close> of the three report packages), \<open>Kube_Hunter\<close> (\<^verbatim>\<open>pkg/kubehunter\<close>), \<open>Installer\<close>
    (\<^verbatim>\<open>pkg/cmd/installer.go\<close>), \<open>Html_Report\<close> (\<^verbatim>\<open>pkg/report\<close>), \<open>Cli_Commands\<close> (the commands of \<^verbatim>\<open>pkg/cmd\<close> after the
    flags are parsed).

  \<^bold>\<open>What is shown.\<close> Scan jobs: finished ones become stored reports and are removed only when their
  result is safe or useless; a scan is submitted only when it is needed; from the job's metadata the
  workload, its images and hash are recovered; the number of jobs is bounded in every interleaving (by the limit
  plus the other workers, and an execution shows that the bare limit can be exceeded). Reports: written reports are found by their owner; reconciling
  twice is the same as once; stale and expired reports go away in the calls the code asks for, and only they do.
  Compliance: the counts are those of the stored reports whatever the map order, and the
  report follows its schedule. Plugins: a Trivy job can start in every mode, since its pod finds every secret key it refers to; the reports
  of Trivy, Conftest and Polaris list exactly what the scanners found, and what the Aqua program prints is
  read back unchanged but for the fraction of a second of its time. The start yields an operator that satisfies the hypotheses of the other theorems, and the
  operator refines the job pool. Command line: its scans find what the operator finds and can be shown afterwards, except those of a job of
  a cron job; an installation brings all report types and exactly the rights that are listed, an uninstallation removes them and waits for the namespace exactly as long as it is there; a hunt is
  stored with an exact summary; the top lists of a namespace are exact for every map order. Pure parts: policies by kind, their hash, sorting, credentials by
  registry, install modes, JSON and base64 round trips. Where the code deviates from what it documents,
  a theorem says so (name collisions, an exceeded limit, unparsable benchmark output, failed jobs that block the next
  scan, a compliance specification that is never renewed, pods without a controller that are not reported).

  \<^bold>\<open>Bounds.\<close> \<open>requeue_loop n\<close> calls a reconciler again while it asks for it, at most \<open>n\<close> times; the
  property states how many calls are enough. The JSON parser has fuel \<open>2 * length + 1\<close>, and
  the round-trip lemmas show that it is enough for printed documents. \<^verbatim>\<open>RetryOnConflict\<close> tries five times, as the library does.
  Integers that count objects are unbounded, as no operation on them can overflow before memory
  does; times and durations are integers of nanoseconds.

  The loop that waits for a namespace has no bound in the code; it is a partial function whose result is proved in
  both cases. Scores are floating-point numbers by their bits, compared as the language does.

  \<^bold>\<open>Not modelled.\<close> Generated code (deep copies, the typed client, the templates of the HTML pages), registration of commands and
  flags, printers, construction of clients and of the manager, log streaming, integration tests. The goroutines of the command that scans
  several nodes are modelled one after the other. Go panics are not values of the model where the code cannot reach
  them; \<open>multiSorter_Less\<close> and \<open>check_multiSorter_Less\<close> are false on an empty list of comparisons, where the code would panic (it always has
  some). Caching in the client is not modelled: a read sees the current state; a stored object is the
  written one to the nanosecond of its times, which the API server cuts to seconds (the round trip of the Aqua program and the reading of
  the compliance specification into a filled variable follow the JSON encoding); hashing a Go map is taken to depend on its
  content only, as the library that dumps it sorts the keys; the error that parsing a selector made of valid label values
  cannot have is left out; and the laws take a delete to remove its object at once, while
  the wait for a namespace is proved without them.
\<close>

end
